(* ===== verification/Prelude.thy ===== *)
theory Prelude
  imports Complex_Main "HOL-Library.AList" "HOL-Library.Sublist"
begin

text \<open>
  Shared vocabulary of the development: the collections of rewrite rules the component proofs
  draw on, JavaScript strings and values as the back end handles them, and the generic facts on
  lists and optional values.

  A string of the program is the list of bytes of its UTF-8 encoding.  Concatenation, equality,
  \<open>includes\<close>, \<open>startsWith\<close>, \<open>endsWith\<close> and replacement of ASCII patterns are the same on this
  representation as on JavaScript's code units; only lengths and slices of non-ASCII text differ.
  A JavaScript number that stands for an amount is an exact rational.
\<close>

named_theorems table_simps \<open>queries and updates on the tables of the store\<close>
named_theorems frame_simps \<open>what an operation leaves as it was\<close>
named_theorems handler_defs \<open>the definitions of the handlers\<close>

section \<open>Strings\<close>

text \<open>The white space that \<open>String.prototype.trim\<close> removes, each character in UTF-8.\<close>

definition js_whitespace :: "string list" where
  "js_whitespace =
     [[CHR 0x09], [CHR 0x0A], [CHR 0x0B], [CHR 0x0C], [CHR 0x0D], [CHR 0x20],
      [CHR 0xC2, CHR 0xA0], [CHR 0xE1, CHR 0x9A, CHR 0x80],
      [CHR 0xE2, CHR 0x80, CHR 0x80], [CHR 0xE2, CHR 0x80, CHR 0x81],
      [CHR 0xE2, CHR 0x80, CHR 0x82], [CHR 0xE2, CHR 0x80, CHR 0x83],
      [CHR 0xE2, CHR 0x80, CHR 0x84], [CHR 0xE2, CHR 0x80, CHR 0x85],
      [CHR 0xE2, CHR 0x80, CHR 0x86], [CHR 0xE2, CHR 0x80, CHR 0x87],
      [CHR 0xE2, CHR 0x80, CHR 0x88], [CHR 0xE2, CHR 0x80, CHR 0x89],
      [CHR 0xE2, CHR 0x80, CHR 0x8A], [CHR 0xE2, CHR 0x80, CHR 0xA8],
      [CHR 0xE2, CHR 0x80, CHR 0xA9], [CHR 0xE2, CHR 0x80, CHR 0xAF],
      [CHR 0xE2, CHR 0x81, CHR 0x9F], [CHR 0xE3, CHR 0x80, CHR 0x80],
      [CHR 0xEF, CHR 0xBB, CHR 0xBF]]"

fun strip_prefix :: "'a list \<Rightarrow> 'a list \<Rightarrow> 'a list option" where
  "strip_prefix [] ys = Some ys"
| "strip_prefix (x # xs) [] = None"
| "strip_prefix (x # xs) (y # ys) = (if x = y then strip_prefix xs ys else None)"

fun strip_any :: "'a list list \<Rightarrow> 'a list \<Rightarrow> 'a list option" where
  "strip_any [] ys = None"
| "strip_any (p # ps) ys = (case strip_prefix p ys of Some zs \<Rightarrow> Some zs | None \<Rightarrow> strip_any ps ys)"

fun trim_fuel :: "nat \<Rightarrow> 'a list list \<Rightarrow> 'a list \<Rightarrow> 'a list" where
  "trim_fuel 0 ps ys = ys"
| "trim_fuel (Suc n) ps ys = (case strip_any ps ys of None \<Rightarrow> ys | Some zs \<Rightarrow> trim_fuel n ps zs)"

definition js_trim_start :: "string \<Rightarrow> string" where
  "js_trim_start s = trim_fuel (length s) js_whitespace s"

definition js_trim_end :: "string \<Rightarrow> string" where
  "js_trim_end s = rev (trim_fuel (length s) (map rev js_whitespace) (rev s))"

definition js_trim :: "string \<Rightarrow> string" where
  "js_trim s = js_trim_end (js_trim_start s)"

definition ascii_lower_char :: "char \<Rightarrow> char" where
  "ascii_lower_char c =
     (if 65 \<le> (of_char c :: nat) \<and> (of_char c :: nat) \<le> 90 then char_of ((of_char c :: nat) + 32) else c)"

definition ascii_lower :: "string \<Rightarrow> string" where
  "ascii_lower s = map ascii_lower_char s"

definition starts_with :: "string \<Rightarrow> string \<Rightarrow> bool" where
  "starts_with p s = prefix p s"

definition ends_with :: "string \<Rightarrow> string \<Rightarrow> bool" where
  "ends_with p s = suffix p s"

definition str_includes :: "string \<Rightarrow> string \<Rightarrow> bool" where
  "str_includes p s = sublist p s"

fun join :: "string \<Rightarrow> string list \<Rightarrow> string" where
  "join sep [] = []"
| "join sep [s] = s"
| "join sep (s # t # ts) = s @ sep @ join sep (t # ts)"

text \<open>\<open>s.split(c)\<close> for a one-character separator.\<close>

fun split_on :: "char \<Rightarrow> string \<Rightarrow> string list" where
  "split_on c [] = [[]]"
| "split_on c (x # xs) =
     (if x = c then [] # split_on c xs
      else (case split_on c xs of [] \<Rightarrow> [[x]] | y # ys \<Rightarrow> (x # y) # ys))"

section \<open>Values\<close>

text \<open>
  A JSON value.  An object is the list of its entries in insertion order; \<open>obj_set\<close> is
  property assignment, which keeps the place of an existing key and appends a new one, and
  \<open>map_of\<close> reads a property (\<open>None\<close> is \<open>undefined\<close>).
\<close>

datatype jval =
    JNull
  | JBool bool
  | JNum rat
  | JStr string
  | JArr "jval list"
  | JObj "(string \<times> jval) list"

type_synonym entities = "(string \<times> jval) list"

definition obj_set :: "string \<Rightarrow> jval \<Rightarrow> entities \<Rightarrow> entities" where
  "obj_set k v e = AList.update k v e"

fun truthy :: "jval \<Rightarrow> bool" where
  "truthy JNull = False"
| "truthy (JBool b) = b"
| "truthy (JNum n) = (n \<noteq> 0)"
| "truthy (JStr s) = (s \<noteq> [])"
| "truthy (JArr _) = True"
| "truthy (JObj _) = True"

definition has_truthy :: "string \<Rightarrow> entities \<Rightarrow> bool" where
  "has_truthy k e = (case map_of e k of None \<Rightarrow> False | Some v \<Rightarrow> truthy v)"

text \<open>\<open>x || y\<close> and \<open>x ?? y\<close> on optional strings.\<close>

definition or_str :: "string option \<Rightarrow> string option \<Rightarrow> string option" where
  "or_str a b = (case a of Some s \<Rightarrow> (if s = [] then b else a) | None \<Rightarrow> b)"

definition coalesce :: "'a option \<Rightarrow> 'a \<Rightarrow> 'a" where
  "coalesce a d = (case a of Some x \<Rightarrow> x | None \<Rightarrow> d)"

definition opt_str :: "string option \<Rightarrow> jval" where
  "opt_str a = (case a of Some s \<Rightarrow> JStr s | None \<Rightarrow> JNull)"

section \<open>Generic facts\<close>

lemma map_of_obj_set [simp]:
  "map_of (obj_set k v e) j = (if j = k then Some v else map_of e j)"
  by (simp add: obj_set_def update_conv)

lemma coalesce_simps [simp]: "coalesce (Some x) d = x" "coalesce None d = d"
  by (simp_all add: coalesce_def)

lemma strip_prefix_Some: "strip_prefix p s = Some t \<longleftrightarrow> s = p @ t"
  by (induction p s rule: strip_prefix.induct) auto

lemma strip_any_shorter:
  "strip_any ps s = Some t \<Longrightarrow> \<exists>p \<in> set ps. s = p @ t"
  by (induction ps) (auto split: option.splits simp: strip_prefix_Some)

lemma trim_fuel_suffix: "\<exists>p. s = p @ trim_fuel n ps s"
proof (induction n arbitrary: s)
  case 0
  show ?case by simp
next
  case (Suc n)
  show ?case
  proof (cases "strip_any ps s")
    case None
    then show ?thesis by simp
  next
    case (Some t)
    then obtain p where "s = p @ t" by (auto dest: strip_any_shorter)
    moreover obtain q where "t = q @ trim_fuel n ps t" using Suc.IH by blast
    ultimately show ?thesis using Some by (metis append_assoc option.simps(5) trim_fuel.simps(2))
  qed
qed

lemma trim_fuel_done:
  assumes "[] \<notin> set ps" and "length s \<le> n"
  shows "strip_any ps (trim_fuel n ps s) = None"
  using assms(2)
proof (induction n arbitrary: s)
  case 0
  then have "s = []" by simp
  moreover have "strip_any ps [] = None"
    using assms(1) by (cases "strip_any ps []") (auto dest: strip_any_shorter)
  ultimately show ?case by simp
next
  case (Suc n)
  show ?case
  proof (cases "strip_any ps s")
    case None
    then show ?thesis by simp
  next
    case (Some t)
    then obtain p where "p \<in> set ps" "s = p @ t" by (auto dest: strip_any_shorter)
    with assms(1) Suc.prems have "length t \<le> n" by (cases p) auto
    with Some show ?thesis using Suc.IH by simp
  qed
qed

lemma js_trim_Nil [simp]: "js_trim [] = []"
  by (simp add: js_trim_def js_trim_start_def js_trim_end_def)

lemma find_Some_iff_filter: "List.find P xs = (case filter P xs of [] \<Rightarrow> None | x # _ \<Rightarrow> Some x)"
  by (induction xs) auto

lemma find_SomeD: "List.find P xs = Some x \<Longrightarrow> x \<in> set xs \<and> P x"
  by (auto simp: find_Some_iff)

lemma not_isl_Inr: "\<not> isl x \<Longrightarrow> \<exists>y. x = Inr y"
  by (cases x) simp_all

lemma distinct_map_eq:
  "distinct (map f xs) \<Longrightarrow> x \<in> set xs \<Longrightarrow> y \<in> set xs \<Longrightarrow> f x = f y \<Longrightarrow> x = y"
  by (auto simp: distinct_map inj_on_def)

end
