(* ===== verification/Json.thy ===== *)
theory Json
  imports Prelude
begin

text \<open>
  \<open>JSON.parse\<close> on a UTF-8 text and \<open>JSON.stringify\<close> on a list of strings, the two standard-library
  functions through which the transport, the tools and the product matcher exchange values.  The
  parser is a recursive descent over the text with a fuel argument; \<open>json_fuel_enough\<close> shows that
  twice the length of the text is enough, so that a \<open>None\<close> of \<open>json_parse\<close> is always a syntax error.
\<close>

section \<open>Lexical elements\<close>

definition is_digit :: "char \<Rightarrow> bool" where
  "is_digit c = (48 \<le> (of_char c :: nat) \<and> (of_char c :: nat) \<le> 57)"

definition digit_val :: "char \<Rightarrow> nat" where
  "digit_val c = (of_char c :: nat) - 48"

definition hex_val :: "char \<Rightarrow> nat option" where
  "hex_val c =
     (let n = (of_char c :: nat) in
      if 48 \<le> n \<and> n \<le> 57 then Some (n - 48)
      else if 65 \<le> n \<and> n \<le> 70 then Some (n - 55)
      else if 97 \<le> n \<and> n \<le> 102 then Some (n - 87)
      else None)"

fun hex4 :: "string \<Rightarrow> (nat \<times> string) option" where
  "hex4 (a # b # c # d # rest) =
     (case (hex_val a, hex_val b, hex_val c, hex_val d) of
        (Some w, Some x, Some y, Some z) \<Rightarrow> Some (4096 * w + 256 * x + 16 * y + z, rest)
      | _ \<Rightarrow> None)"
| "hex4 _ = None"

definition utf8 :: "nat \<Rightarrow> string" where
  "utf8 n =
     (if n < 128 then [char_of n]
      else if n < 2048 then [char_of (192 + n div 64), char_of (128 + n mod 64)]
      else if n < 65536 then
        [char_of (224 + n div 4096), char_of (128 + (n div 64) mod 64), char_of (128 + n mod 64)]
      else
        [char_of (240 + n div 262144), char_of (128 + (n div 4096) mod 64),
         char_of (128 + (n div 64) mod 64), char_of (128 + n mod 64)])"

definition utf8_text :: "nat list \<Rightarrow> string" where
  "utf8_text cs = concat (map utf8 cs)"

text \<open>
  The four hexadecimal digits after \<open>\u\<close>; a high surrogate takes a following low one with it.
\<close>

definition unicode_escape :: "string \<Rightarrow> (string \<times> string) option" where
  "unicode_escape s =
     (case hex4 s of
        None \<Rightarrow> None
      | Some (n, rest) \<Rightarrow>
          (if 55296 \<le> n \<and> n < 56320 then
             (case strip_prefix [CHR 0x5C, CHR ''u''] rest of
                Some t \<Rightarrow>
                  (case hex4 t of
                     Some (m, rest') \<Rightarrow>
                       (if 56320 \<le> m \<and> m < 57344
                        then Some (utf8 (65536 + (n - 55296) * 1024 + (m - 56320)), rest')
                        else Some (utf8 n, rest))
                   | None \<Rightarrow> None)
              | None \<Rightarrow> Some (utf8 n, rest))
           else Some (utf8 n, rest)))"

definition simple_escape :: "char \<Rightarrow> char option" where
  "simple_escape c =
     (if c = CHR 0x22 then Some (CHR 0x22)
      else if c = CHR 0x5C then Some (CHR 0x5C)
      else if c = CHR ''/'' then Some (CHR ''/'')
      else if c = CHR ''b'' then Some (CHR 0x08)
      else if c = CHR ''f'' then Some (CHR 0x0C)
      else if c = CHR ''n'' then Some (CHR 0x0A)
      else if c = CHR ''r'' then Some (CHR 0x0D)
      else if c = CHR ''t'' then Some (CHR 0x09)
      else None)"

text \<open>The characters of a string literal up to its closing quote.\<close>

fun string_body :: "nat \<Rightarrow> string \<Rightarrow> (string \<times> string) option" where
  "string_body 0 s = None"
| "string_body (Suc n) [] = None"
| "string_body (Suc n) (c # s) =
     (if c = CHR 0x22 then Some ([], s)
      else if c = CHR 0x5C then
        (case s of
           [] \<Rightarrow> None
         | d # t \<Rightarrow>
             (if d = CHR ''u'' then
                (case unicode_escape t of
                   None \<Rightarrow> None
                 | Some (us, rest) \<Rightarrow>
                     (case string_body n rest of None \<Rightarrow> None | Some (b, r) \<Rightarrow> Some (us @ b, r)))
              else
                (case simple_escape d of
                   None \<Rightarrow> None
                 | Some e \<Rightarrow>
                     (case string_body n t of None \<Rightarrow> None | Some (b, r) \<Rightarrow> Some (e # b, r)))))
      else if (of_char c :: nat) < 32 then None
      else (case string_body n s of None \<Rightarrow> None | Some (b, r) \<Rightarrow> Some (c # b, r)))"

fun skip_ws :: "string \<Rightarrow> string" where
  "skip_ws [] = []"
| "skip_ws (c # s) =
     (if c \<in> {CHR 0x20, CHR 0x09, CHR 0x0A, CHR 0x0D} then skip_ws s else c # s)"

fun digits :: "string \<Rightarrow> string \<times> string" where
  "digits [] = ([], [])"
| "digits (c # s) = (if is_digit c then (case digits s of (ds, r) \<Rightarrow> (c # ds, r)) else ([], c # s))"

definition nat_of_digits :: "string \<Rightarrow> nat" where
  "nat_of_digits ds = foldl (\<lambda>n c. 10 * n + digit_val c) 0 ds"

text \<open>Integer part without a leading zero, then an optional fraction, then an optional exponent.\<close>

definition int_part :: "string \<Rightarrow> (nat \<times> string) option" where
  "int_part s =
     (case digits s of
        ([], _) \<Rightarrow> None
      | (d # ds, r) \<Rightarrow> (if d = CHR ''0'' \<and> ds \<noteq> [] then None else Some (nat_of_digits (d # ds), r)))"

definition frac_part :: "string \<Rightarrow> (rat \<times> string) option" where
  "frac_part s =
     (case s of
        c # t \<Rightarrow>
          (if c = CHR ''.'' then
             (case digits t of
                ([], _) \<Rightarrow> None
              | (ds, r) \<Rightarrow> Some (of_nat (nat_of_digits ds) / 10 ^ length ds, r))
           else Some (0, s))
      | [] \<Rightarrow> Some (0, s))"

definition exp_digits :: "bool \<Rightarrow> string \<Rightarrow> (rat \<times> string) option" where
  "exp_digits neg s =
     (case digits s of
        ([], _) \<Rightarrow> None
      | (ds, r) \<Rightarrow>
          Some (if neg then 1 / 10 ^ nat_of_digits ds else 10 ^ nat_of_digits ds, r))"

definition exp_part :: "string \<Rightarrow> (rat \<times> string) option" where
  "exp_part s =
     (case s of
        c # t \<Rightarrow>
          (if c = CHR ''e'' \<or> c = CHR ''E'' then
             (case t of
                d # u \<Rightarrow> (if d = CHR ''-'' then exp_digits True u
                          else if d = CHR ''+'' then exp_digits False u
                          else exp_digits False t)
              | [] \<Rightarrow> None)
           else Some (1, s))
      | [] \<Rightarrow> Some (1, s))"

definition unsigned_number :: "string \<Rightarrow> (rat \<times> string) option" where
  "unsigned_number s =
     (case int_part s of
        None \<Rightarrow> None
      | Some (n, r) \<Rightarrow>
          (case frac_part r of
             None \<Rightarrow> None
           | Some (f, r') \<Rightarrow>
               (case exp_part r' of
                  None \<Rightarrow> None
                | Some (e, r'') \<Rightarrow> Some ((of_nat n + f) * e, r''))))"

definition number :: "string \<Rightarrow> (rat \<times> string) option" where
  "number s =
     (case s of
        c # t \<Rightarrow>
          (if c = CHR ''-'' then map_option (\<lambda>(x, r). (- x, r)) (unsigned_number t)
           else unsigned_number s)
      | [] \<Rightarrow> None)"

section \<open>Values\<close>

text \<open>
  One level of the grammar each: a value, given how the elements of an array and the members of
  an object are read; the elements up to the closing bracket; the members up to the closing brace.
\<close>

definition literal :: "string \<Rightarrow> (jval \<times> string) option" where
  "literal s =
     (case strip_prefix ''null'' s of Some r \<Rightarrow> Some (JNull, r) | None \<Rightarrow>
      case strip_prefix ''true'' s of Some r \<Rightarrow> Some (JBool True, r) | None \<Rightarrow>
      case strip_prefix ''false'' s of Some r \<Rightarrow> Some (JBool False, r) | None \<Rightarrow> None)"

definition bracketed ::
  "char \<Rightarrow> jval \<Rightarrow> (string \<Rightarrow> (jval \<times> string) option) \<Rightarrow> string \<Rightarrow> (jval \<times> string) option" where
  "bracketed close nothing contents t =
     (case skip_ws t of
        [] \<Rightarrow> None
      | d # u \<Rightarrow> (if d = close then Some (nothing, u) else contents (d # u)))"

definition value_step ::
  "(string \<Rightarrow> (jval list \<times> string) option) \<Rightarrow> (string \<Rightarrow> (entities \<times> string) option) \<Rightarrow>
   string \<Rightarrow> (jval \<times> string) option" where
  "value_step elems members s =
     (case literal s of
        Some p \<Rightarrow> Some p
      | None \<Rightarrow>
          (case s of
             [] \<Rightarrow> None
           | c # t \<Rightarrow>
               (if c = CHR 0x22 then
                  map_option (\<lambda>(b, r). (JStr b, r)) (string_body (Suc (length t)) t)
                else if c = CHR ''['' then
                  bracketed (CHR '']'') (JArr []) (map_option (\<lambda>(vs, r). (JArr vs, r)) \<circ> elems) t
                else if c = CHR ''{'' then
                  bracketed (CHR ''}'') (JObj []) (map_option (\<lambda>(e, r). (JObj e, r)) \<circ> members) t
                else map_option (\<lambda>(x, r). (JNum x, r)) (number s))))"

definition elems_step ::
  "(string \<Rightarrow> (jval \<times> string) option) \<Rightarrow> (string \<Rightarrow> (jval list \<times> string) option) \<Rightarrow>
   string \<Rightarrow> (jval list \<times> string) option" where
  "elems_step val elems s =
     (case val s of
        None \<Rightarrow> None
      | Some (v, r) \<Rightarrow>
          (case skip_ws r of
             [] \<Rightarrow> None
           | c # t \<Rightarrow>
               (if c = CHR '']'' then Some ([v], t)
                else if c = CHR '','' then map_option (\<lambda>(vs, r'). (v # vs, r')) (elems (skip_ws t))
                else None)))"

definition member_key :: "string \<Rightarrow> (string \<times> string) option" where
  "member_key s =
     (case s of
        [] \<Rightarrow> None
      | q # t \<Rightarrow>
          (if q \<noteq> CHR 0x22 then None
           else
             (case string_body (Suc (length t)) t of
                None \<Rightarrow> None
              | Some (k, r) \<Rightarrow>
                  (case skip_ws r of
                     [] \<Rightarrow> None
                   | c # u \<Rightarrow> (if c \<noteq> CHR '':'' then None else Some (k, skip_ws u))))))"

definition members_step ::
  "(string \<Rightarrow> (jval \<times> string) option) \<Rightarrow> (entities \<Rightarrow> string \<Rightarrow> (entities \<times> string) option) \<Rightarrow>
   entities \<Rightarrow> string \<Rightarrow> (entities \<times> string) option" where
  "members_step val members e s =
     (case member_key s of
        None \<Rightarrow> None
      | Some (k, u) \<Rightarrow>
          (case val u of
             None \<Rightarrow> None
           | Some (v, r) \<Rightarrow>
               (case skip_ws r of
                  [] \<Rightarrow> None
                | d # w \<Rightarrow>
                    (if d = CHR ''}'' then Some (obj_set k v e, w)
                     else if d = CHR '','' then members (obj_set k v e) (skip_ws w)
                     else None))))"

fun parse_value :: "nat \<Rightarrow> string \<Rightarrow> (jval \<times> string) option"
and parse_elems :: "nat \<Rightarrow> string \<Rightarrow> (jval list \<times> string) option"
and parse_members :: "nat \<Rightarrow> entities \<Rightarrow> string \<Rightarrow> (entities \<times> string) option" where
  "parse_value 0 s = None"
| "parse_value (Suc n) s = value_step (parse_elems n) (parse_members n []) s"
| "parse_elems 0 s = None"
| "parse_elems (Suc n) s = elems_step (parse_value n) (parse_elems n) s"
| "parse_members 0 e s = None"
| "parse_members (Suc n) e s = members_step (parse_value n) (parse_members n) e s"

definition json_parse :: "string \<Rightarrow> jval option" where
  "json_parse s =
     (case parse_value (2 * length s + 1) (skip_ws s) of
        None \<Rightarrow> None
      | Some (v, r) \<Rightarrow> (if skip_ws r = [] then Some v else None))"

section \<open>\<open>JSON.stringify\<close> on strings and lists of strings\<close>

definition hex_char :: "nat \<Rightarrow> char" where
  "hex_char n = (if n < 10 then char_of (48 + n) else char_of (87 + n))"

definition escape_char :: "char \<Rightarrow> string" where
  "escape_char c =
     (if c = CHR 0x22 then [CHR 0x5C, CHR 0x22]
      else if c = CHR 0x5C then [CHR 0x5C, CHR 0x5C]
      else if c = CHR 0x08 then [CHR 0x5C, CHR ''b'']
      else if c = CHR 0x0C then [CHR 0x5C, CHR ''f'']
      else if c = CHR 0x0A then [CHR 0x5C, CHR ''n'']
      else if c = CHR 0x0D then [CHR 0x5C, CHR ''r'']
      else if c = CHR 0x09 then [CHR 0x5C, CHR ''t'']
      else if (of_char c :: nat) < 32 then
        [CHR 0x5C, CHR ''u'', CHR ''0'', CHR ''0'',
         hex_char ((of_char c :: nat) div 16), hex_char ((of_char c :: nat) mod 16)]
      else [c])"

definition quote :: "string \<Rightarrow> string" where
  "quote s = CHR 0x22 # concat (map escape_char s) @ [CHR 0x22]"

definition stringify_strings :: "string list \<Rightarrow> string" where
  "stringify_strings xs = ''['' @ join '','' (map quote xs) @ '']''"

section \<open>The fuel is enough\<close>

lemma length_skip_ws: "length (skip_ws s) \<le> length s"
  by (induction s) auto

lemma hex4_shorter: "hex4 s = Some (n, r) \<Longrightarrow> length r < length s"
  by (induction s rule: hex4.induct) (auto split: option.splits)

lemma unicode_escape_shorter: "unicode_escape s = Some (u, r) \<Longrightarrow> length r < length s"
  by (auto simp: unicode_escape_def strip_prefix_Some
      dest!: hex4_shorter split: option.splits if_splits)

lemma string_body_shorter: "string_body n s = Some (b, r) \<Longrightarrow> length r < length s"
proof (induction n arbitrary: s b r)
  case 0
  then show ?case by simp
next
  case (Suc n)
  then show ?case
    by (cases s)
      (fastforce split: if_splits option.splits list.splits dest: unicode_escape_shorter)+
qed

lemma digits_shorter: "digits s = (ds, r) \<Longrightarrow> length r + length ds = length s"
  by (induction s arbitrary: ds r) (auto split: if_splits prod.splits)

lemma int_part_shorter: "int_part s = Some (n, r) \<Longrightarrow> length r < length s"
  by (auto simp: int_part_def split: prod.splits list.splits if_splits dest!: digits_shorter)

lemma frac_part_shorter: "frac_part s = Some (f, r) \<Longrightarrow> length r \<le> length s"
  by (auto simp: frac_part_def split: prod.splits list.splits if_splits dest!: digits_shorter)

lemma exp_digits_shorter: "exp_digits b s = Some (f, r) \<Longrightarrow> length r \<le> length s"
  by (auto simp: exp_digits_def split: prod.splits list.splits dest!: digits_shorter)

lemma exp_part_shorter: "exp_part s = Some (f, r) \<Longrightarrow> length r \<le> length s"
  by (auto simp: exp_part_def split: list.splits if_splits dest!: exp_digits_shorter)

lemma unsigned_number_shorter: "unsigned_number s = Some (x, r) \<Longrightarrow> length r < length s"
  by (fastforce simp: unsigned_number_def split: option.splits prod.splits
      dest: int_part_shorter frac_part_shorter exp_part_shorter)

lemma number_shorter: "number s = Some (x, r) \<Longrightarrow> length r < length s"
  by (fastforce simp: number_def split: list.splits if_splits dest: unsigned_number_shorter)

lemma literal_shorter: "literal s = Some (v, r) \<Longrightarrow> length r < length s"
  by (auto simp: literal_def strip_prefix_Some split: option.splits)

lemma bracketed_shorter:
  assumes "\<And>t v r. contents t = Some (v, r) \<Longrightarrow> length r < length t"
    and "bracketed close nothing contents t = Some (v, r)"
  shows "length r < length t"
proof -
  from assms(2) obtain d u where "skip_ws t = d # u"
    and "r = u \<or> contents (d # u) = Some (v, r)"
    by (auto simp: bracketed_def split: list.splits if_splits)
  with assms(1) [of "d # u"] length_skip_ws [of t] show ?thesis by auto
qed

lemma bracketed_cong:
  assumes "\<And>u. length u \<le> length t \<Longrightarrow> f u = g u"
  shows "bracketed close nothing f t = bracketed close nothing g t"
  using assms [of "skip_ws t"] length_skip_ws [of t]
  by (auto simp: bracketed_def split: list.split)

lemma value_step_shorter:
  assumes "\<And>t vs r. elems t = Some (vs, r) \<Longrightarrow> length r < length t"
    and "\<And>t e r. members t = Some (e, r) \<Longrightarrow> length r < length t"
    and "value_step elems members s = Some (v, r)"
  shows "length r < length s"
proof (cases "literal s")
  case (Some p)
  with assms(3) show ?thesis by (auto simp: value_step_def intro: literal_shorter)
next
  case None
  with assms(3) obtain c t where s: "s = c # t" by (auto simp: value_step_def split: list.splits)
  let ?A = "map_option (\<lambda>(vs, r). (JArr vs, r)) \<circ> elems"
  let ?O = "map_option (\<lambda>(e, r). (JObj e, r)) \<circ> members"
  have arr: "length r < length t" if "bracketed x y ?A t = Some (v, r)" for x y
    by (rule bracketed_shorter [OF _ that]) (use assms(1) in auto)
  have obj: "length r < length t" if "bracketed x y ?O t = Some (v, r)" for x y
    by (rule bracketed_shorter [OF _ that]) (use assms(2) in auto)
  from assms(3) None s consider b where "string_body (Suc (length t)) t = Some (b, r)"
    | "bracketed (CHR '']'') (JArr []) ?A t = Some (v, r)"
    | "bracketed (CHR ''}'') (JObj []) ?O t = Some (v, r)"
    | x where "number s = Some (x, r)"
    by (auto simp: value_step_def split: if_splits)
  then show ?thesis
    using s by cases (auto dest: arr obj string_body_shorter number_shorter)
qed

lemma value_step_cong:
  assumes "\<And>t. length t < length s \<Longrightarrow> elems t = elems' t"
    and "\<And>t. length t < length s \<Longrightarrow> members t = members' t"
  shows "value_step elems members s = value_step elems' members' s"
proof (cases s)
  case Nil
  then show ?thesis by (simp add: value_step_def split: option.split)
next
  case (Cons c t)
  have "bracketed x y (map_option f \<circ> elems) t = bracketed x y (map_option f \<circ> elems') t"
    "bracketed x y (map_option g \<circ> members) t = bracketed x y (map_option g \<circ> members') t" for x y f g
    using assms Cons by (auto intro!: bracketed_cong)
  then show ?thesis using Cons by (simp add: value_step_def split: option.split)
qed

lemma elems_step_shorter:
  assumes "\<And>v r. val s = Some (v, r) \<Longrightarrow> length r < length s"
    and "\<And>t vs r. elems t = Some (vs, r) \<Longrightarrow> length r < length t"
    and "elems_step val elems s = Some (vs, r)"
  shows "length r < length s"
proof -
  from assms(3) obtain v r1 c t where 1: "val s = Some (v, r1)" "skip_ws r1 = c # t"
    by (auto simp: elems_step_def split: option.splits list.splits)
  have "length r1 < length s" "length t < length r1" "length (skip_ws t) \<le> length t"
    using assms(1) 1 length_skip_ws [of r1] length_skip_ws [of t] by auto
  then show ?thesis
    using assms(3) 1 by (fastforce simp: elems_step_def split: if_splits dest: assms(2))
qed

lemma elems_step_cong:
  assumes "val s = val' s"
    and "\<And>v r. val s = Some (v, r) \<Longrightarrow> length r < length s"
    and "\<And>t. length t < length s \<Longrightarrow> elems t = elems' t"
  shows "elems_step val elems s = elems_step val' elems' s"
proof (cases "val s")
  case None
  with assms(1) show ?thesis by (simp add: elems_step_def)
next
  case (Some p)
  then obtain v r where p: "val s = Some (v, r)" by (cases p) auto
  have "length (skip_ws t) < length s" if "skip_ws r = c # t" for c t
    using assms(2) [OF p] length_skip_ws [of r] length_skip_ws [of t] that by simp
  with assms(3) have "elems (skip_ws t) = elems' (skip_ws t)" if "skip_ws r = c # t" for c t
    using that by blast
  with p assms(1) show ?thesis by (auto simp: elems_step_def split: list.split)
qed

lemma member_key_shorter: "member_key s = Some (k, u) \<Longrightarrow> length u < length s"
proof -
  assume "member_key s = Some (k, u)"
  then obtain q t r c u' where s: "s = q # t" "string_body (Suc (length t)) t = Some (k, r)"
    "skip_ws r = c # u'" "u = skip_ws u'"
    by (auto simp: member_key_def split: list.splits if_splits option.splits)
  then have "length r < length t" by (auto dest: string_body_shorter)
  moreover have "length u' < length r" using length_skip_ws [of r] s(3) by simp
  ultimately show ?thesis using s(1,4) length_skip_ws [of u'] by simp
qed

lemma members_step_shorter:
  assumes "\<And>t v r. val t = Some (v, r) \<Longrightarrow> length r < length t"
    and "\<And>e t e' r. members e t = Some (e', r) \<Longrightarrow> length r < length t"
    and "members_step val members e s = Some (e', r)"
  shows "length r < length s"
proof -
  from assms(3) obtain k u v r1 d w where 1: "member_key s = Some (k, u)" "val u = Some (v, r1)"
    "skip_ws r1 = d # w"
    by (auto simp: members_step_def split: option.splits list.splits)
  have "length u < length s" "length r1 < length u" "length w < length r1"
    "length (skip_ws w) \<le> length w"
    using assms(1) 1 member_key_shorter length_skip_ws [of r1] length_skip_ws [of w] by auto
  then show ?thesis
    using assms(3) 1 by (fastforce simp: members_step_def split: if_splits dest: assms(2))
qed

lemma members_step_cong:
  assumes "\<And>t. length t < length s \<Longrightarrow> val t = val' t"
    and "\<And>t v r. val t = Some (v, r) \<Longrightarrow> length r < length t"
    and "\<And>e t. length t < length s \<Longrightarrow> members e t = members' e t"
  shows "members_step val members e s = members_step val' members' e s"
proof (cases "member_key s")
  case None
  then show ?thesis by (simp add: members_step_def)
next
  case (Some p)
  then obtain k u where p: "member_key s = Some (k, u)" by (cases p) auto
  then have u: "length u < length s" by (rule member_key_shorter)
  have "length (skip_ws w) < length s" if "val u = Some (v, r)" "skip_ws r = d # w" for v r d w
    using assms(2) [OF that(1)] u length_skip_ws [of r] length_skip_ws [of w] that(2) by simp
  with assms(3) have "members e' (skip_ws w) = members' e' (skip_ws w)"
    if "val u = Some (v, r)" "skip_ws r = d # w" for v r d w e'
    using that by blast
  with p u assms(1) show ?thesis
    by (auto simp: members_step_def split: option.split list.split)
qed

lemma parse_shorter:
  "(\<forall>s v r. parse_value n s = Some (v, r) \<longrightarrow> length r < length s) \<and>
   (\<forall>s vs r. parse_elems n s = Some (vs, r) \<longrightarrow> length r < length s) \<and>
   (\<forall>e s e' r. parse_members n e s = Some (e', r) \<longrightarrow> length r < length s)"
proof (induction n)
  case 0
  show ?case by simp
next
  case (Suc n)
  then have IH: "\<And>s v r. parse_value n s = Some (v, r) \<Longrightarrow> length r < length s"
    "\<And>s vs r. parse_elems n s = Some (vs, r) \<Longrightarrow> length r < length s"
    "\<And>e s e' r. parse_members n e s = Some (e', r) \<Longrightarrow> length r < length s" by blast+
  have "length r < length s" if "parse_value (Suc n) s = Some (v, r)" for s v r
    by (rule value_step_shorter [OF IH(2,3) that [unfolded parse_value.simps]])
  moreover have "length r < length s" if "parse_elems (Suc n) s = Some (vs, r)" for s vs r
    by (rule elems_step_shorter [OF IH(1,2) that [unfolded parse_elems.simps]])
  moreover have "length r < length s" if "parse_members (Suc n) e s = Some (e', r)" for e s e' r
    by (rule members_step_shorter [OF IH(1,3) that [unfolded parse_members.simps]])
  ultimately show ?case by blast
qed

text \<open>Any fuel from twice the length of the text on gives the same result.\<close>

lemma json_fuel_enough:
  "(\<forall>s m. 2 * length s + 1 \<le> n \<longrightarrow> n \<le> m \<longrightarrow> parse_value m s = parse_value n s) \<and>
   (\<forall>s m. 2 * length s + 2 \<le> n \<longrightarrow> n \<le> m \<longrightarrow> parse_elems m s = parse_elems n s) \<and>
   (\<forall>s m e. 2 * length s + 2 \<le> n \<longrightarrow> n \<le> m \<longrightarrow> parse_members m e s = parse_members n e s)"
proof (induction n)
  case 0
  show ?case by simp
next
  case (Suc n)
  then have IH: "\<And>s m. 2 * length s + 1 \<le> n \<Longrightarrow> n \<le> m \<Longrightarrow> parse_value m s = parse_value n s"
    "\<And>s m. 2 * length s + 2 \<le> n \<Longrightarrow> n \<le> m \<Longrightarrow> parse_elems m s = parse_elems n s"
    "\<And>s m e. 2 * length s + 2 \<le> n \<Longrightarrow> n \<le> m \<Longrightarrow> parse_members m e s = parse_members n e s"
    by blast+
  note shorter = parse_shorter [THEN conjunct1, rule_format]
  have V: "parse_value (Suc m) s = parse_value (Suc n) s" if "2 * length s \<le> n" "n \<le> m" for s m
    unfolding parse_value.simps by (intro value_step_cong IH(2,3)) (use that in linarith)+
  have E: "parse_elems (Suc m) s = parse_elems (Suc n) s" if "2 * length s + 1 \<le> n" "n \<le> m" for s m
    unfolding parse_elems.simps
    by (rule elems_step_cong, rule IH(1), use that in linarith, use that in linarith,
        erule shorter, rule IH(2)) (use that in linarith)+
  have M: "parse_members (Suc m) e s = parse_members (Suc n) e s"
    if "2 * length s + 1 \<le> n" "n \<le> m" for s m e
    unfolding parse_members.simps
    by (rule members_step_cong, rule IH(1), use that in linarith, use that in linarith,
        erule shorter, rule IH(3)) (use that in linarith)+
  have m: "\<exists>k. m = Suc k \<and> n \<le> k" if "Suc n \<le> m" for m using that by (cases m) auto
  show ?case
  proof (intro conjI allI impI, goal_cases)
    case (1 s m)
    with m obtain k where k: "m = Suc k" "n \<le> k" by blast
    have "parse_value (Suc k) s = parse_value (Suc n) s" by (rule V) (use 1 k in linarith)+
    with k(1) show ?case by (simp only:)
  next
    case (2 s m)
    with m obtain k where k: "m = Suc k" "n \<le> k" by blast
    have "parse_elems (Suc k) s = parse_elems (Suc n) s" by (rule E) (use 2 k in linarith)+
    with k(1) show ?case by (simp only:)
  next
    case (3 s m e)
    with m obtain k where k: "m = Suc k" "n \<le> k" by blast
    have "parse_members (Suc k) e s = parse_members (Suc n) e s" by (rule M) (use 3 k in linarith)+
    with k(1) show ?case by (simp only:)
  qed
qed

section \<open>Reading back what was written\<close>

lemma hex_val_hex_char: "n < 16 \<Longrightarrow> hex_val (hex_char n) = Some n"
  by (auto simp: hex_val_def hex_char_def Let_def of_char_of take_bit_nat_def)

lemma escape_char_plain:
  assumes "\<not> (of_char c :: nat) < 32" "c \<noteq> CHR 0x22" "c \<noteq> CHR 0x5C"
  shows "escape_char c = [c]"
proof -
  have "c \<noteq> CHR 0x08" "c \<noteq> CHR 0x0C" "c \<noteq> CHR 0x0A" "c \<noteq> CHR 0x0D" "c \<noteq> CHR 0x09"
    using assms(1) by auto
  with assms show ?thesis by (simp add: escape_char_def)
qed

lemma unicode_escape_control:
  assumes "(of_char c :: nat) < 32"
  shows "unicode_escape (CHR ''0'' # CHR ''0'' # hex_char ((of_char c :: nat) div 16) #
           hex_char ((of_char c :: nat) mod 16) # t) = Some ([c], t)"
proof -
  have "hex_val (hex_char ((of_char c :: nat) div 16)) = Some ((of_char c :: nat) div 16)"
    "hex_val (hex_char ((of_char c :: nat) mod 16)) = Some ((of_char c :: nat) mod 16)"
    by (rule hex_val_hex_char, use assms in simp)+
  moreover have "hex_val (CHR ''0'') = Some 0" by (simp add: hex_val_def)
  moreover have "16 * ((of_char c :: nat) div 16) + (of_char c :: nat) mod 16 = of_char c" by simp
  ultimately show ?thesis using assms by (simp add: unicode_escape_def utf8_def)
qed

lemma string_body_escape_char:
  "string_body (Suc n) (escape_char c @ t) =
     (case string_body n t of None \<Rightarrow> None | Some (b, r) \<Rightarrow> Some (c # b, r))"
proof (cases "(of_char c :: nat) < 32")
  case False
  show ?thesis
  proof (cases "c = CHR 0x22 \<or> c = CHR 0x5C")
    case True
    then show ?thesis by (auto simp: escape_char_def simple_escape_def)
  next
    case False
    with \<open>\<not> (of_char c :: nat) < 32\<close> have "escape_char c = [c]" by (simp add: escape_char_plain)
    with False \<open>\<not> (of_char c :: nat) < 32\<close> show ?thesis by simp
  qed
next
  case True
  show ?thesis
  proof (cases "c \<in> {CHR 0x08, CHR 0x0C, CHR 0x0A, CHR 0x0D, CHR 0x09}")
    case True
    then show ?thesis by (auto simp: escape_char_def simple_escape_def)
  next
    case False
    have "c \<noteq> CHR 0x22" "c \<noteq> CHR 0x5C" using True by auto
    with False True have "escape_char c =
      [CHR 0x5C, CHR ''u'', CHR ''0'', CHR ''0'',
       hex_char ((of_char c :: nat) div 16), hex_char ((of_char c :: nat) mod 16)]"
      by (simp add: escape_char_def)
    with True show ?thesis by (simp add: unicode_escape_control split: option.split)
  qed
qed

lemma string_body_quote:
  "length s < n \<Longrightarrow> string_body n (concat (map escape_char s) @ CHR 0x22 # r) = Some (s, r)"
proof (induction s arbitrary: n)
  case Nil
  then show ?case by (cases n) auto
next
  case (Cons c s)
  then obtain m where "n = Suc m" "length s < m" by (cases n) auto
  with Cons.IH show ?case by (simp add: string_body_escape_char del: string_body.simps)
qed

lemma escape_char_nonempty: "1 \<le> length (escape_char c)"
  by (auto simp: escape_char_def)

lemma length_escaped: "length s \<le> length (concat (map escape_char s))"
proof (induction s)
  case Nil
  show ?case by simp
next
  case (Cons c s)
  with escape_char_nonempty [of c] show ?case by simp
qed

lemma parse_value_quote: "parse_value (Suc n) (quote s @ r) = Some (JStr s, r)"
proof -
  have "string_body (Suc (length (concat (map escape_char s) @ CHR 0x22 # r)))
      (concat (map escape_char s) @ CHR 0x22 # r) = Some (s, r)"
    by (rule string_body_quote) (use length_escaped [of s] in simp)
  then show ?thesis
    by (simp add: quote_def value_step_def literal_def)
qed

lemma parse_elems_quotes:
  "xs \<noteq> [] \<Longrightarrow> length xs < n \<Longrightarrow>
   parse_elems n (join '','' (map quote xs) @ CHR '']'' # r) = Some (map JStr xs, r)"
proof (induction xs arbitrary: n)
  case Nil
  then show ?case by simp
next
  case (Cons x xs)
  then obtain m where n: "n = Suc (Suc m)" "length xs < Suc m"
    by (cases n; cases "n - 1") auto
  show ?case
  proof (cases xs)
    case Nil
    then show ?thesis by (simp add: n elems_step_def parse_value_quote del: parse_value.simps)
  next
    case (Cons y ys)
    have ws: "skip_ws (join '','' (map quote xs) @ z) = join '','' (map quote xs) @ z" for z
      using Cons by (cases ys) (simp_all add: quote_def)
    have "parse_elems (Suc m) (join '','' (map quote xs) @ CHR '']'' # r) = Some (map JStr xs, r)"
      using Cons n Cons.IH by blast
    then show ?thesis
      using Cons ws [of "CHR '']'' # r"]
      by (simp add: n elems_step_def [of "parse_value (Suc m)"] parse_value_quote
          del: parse_value.simps parse_elems.simps(2)
          add: parse_elems.simps(2) [of "Suc m"])
  qed
qed

lemma length_join_quotes: "length xs \<le> length (join '','' (map quote xs))"
proof (induction xs)
  case Nil
  show ?case by simp
next
  case (Cons x xs)
  then show ?case by (cases xs) (auto simp: quote_def)
qed

theorem json_parse_stringify_strings: "json_parse (stringify_strings xs) = Some (JArr (map JStr xs))"
proof (cases xs)
  case Nil
  then show ?thesis
    by (simp add: json_parse_def stringify_strings_def value_step_def literal_def bracketed_def
        numeral_eq_Suc)
next
  case (Cons y ys)
  let ?j = "join '','' (map quote xs)"
  have ws: "skip_ws (?j @ z) = ?j @ z" "\<exists>u. ?j @ z = CHR 0x22 # u" for z
    using Cons by (cases ys; simp add: quote_def)+
  obtain u where u: "?j @ '']'' = CHR 0x22 # u" using ws(2) by blast
  have "parse_elems (2 * length (stringify_strings xs)) (?j @ '']'') = Some (map JStr xs, [])"
    by (rule parse_elems_quotes)
      (use Cons length_join_quotes [of xs] in \<open>simp_all add: stringify_strings_def\<close>)
  with ws(1) [of "'']''"] u show ?thesis
    by (simp add: json_parse_def stringify_strings_def value_step_def literal_def bracketed_def)
qed

end
