(* ===== verification/Store.thy ===== *)
theory Store
  imports Json
begin

text \<open>
  The state the back end works on: the tables of \<open>back/prisma/schema.prisma\<close> that the modelled
  code reads or writes, one record type per model, and the two job queues.  A table is the list of
  its rows in the order in which the database returns them; no theorem assumes anything about that
  order, so that a statement about \<open>findFirst\<close> without \<open>orderBy\<close> covers every row the database may
  pick.  The columns \<open>updatedAt\<close>, \<open>owner\<close>, \<open>followUpStep\<close> and the columns no modelled code reads are
  left out.

  What the code uses of Prisma is stated on these lists: \<open>findFirst\<close>/\<open>findUnique\<close>, \<open>findMany\<close>,
  \<open>update\<close> (which throws \<open>P2025\<close> when no row matches), \<open>updateMany\<close> and \<open>create\<close> (which throws
  \<open>P2002\<close> when a unique index of the schema would be violated and \<open>P2003\<close> when a foreign key points
  nowhere).  What the code relies on beyond this is an argument: the record \<open>env\<close> holds the
  collation of case-insensitive matching, the identifiers \<open>cuid()\<close> generates, the clock, and the
  answers of the language model.
\<close>

section \<open>Rows\<close>

datatype OrderStatus = PENDING | CONFIRMED | SHIPPED | DELIVERED | CANCELLED

datatype ConversationState =
    ST_IDLE | ST_GREETING | ST_PRODUCT_DISCOVERY | ST_PRODUCT_SELECTED | ST_WAITING_CONFIRMATION
  | ST_CONFIRMED | ST_SHIPPING | ST_FINISHED | ST_CANCELLED

datatype ConversationStatus = ACTIVE | RESOLVED

datatype MessageDirection = IN | OUT

datatype MessageSender = CUSTOMER | AI | MERCHANT

record product_ref =
  ref_id :: string
  ref_name :: string

record memory =
  lastProductResults :: "product_ref list option"
  rejectedProducts :: "product_ref list option"

record product_row =
  product_id :: string
  product_merchantId :: string
  product_platformProductId :: string
  product_name :: string
  product_description :: string
  product_variants :: jval
  product_price :: rat
  product_currency :: string
  product_stockStatus :: string
  product_category :: "string option"
  product_agentEnabled :: bool
  product_createdAt :: int

record customer_row =
  customer_id :: string
  customer_merchantId :: string
  customer_phone :: string
  customer_name :: "string option"
  customer_language :: "string option"
  customer_blocked :: bool
  customer_wilaya :: "string option"
  customer_commune :: "string option"
  customer_waJid :: "string option"
  customer_createdAt :: int

record order_row =
  order_id :: string
  order_merchantId :: string
  order_customerId :: string
  order_platformOrderId :: string
  order_wilaya :: string
  order_commune :: string
  order_address :: "string option"
  order_productId :: string
  order_productName :: string
  order_quantity :: int
  order_totalAmount :: rat
  order_deliveryCost :: rat
  order_status :: OrderStatus
  order_trackingNumber :: "string option"
  order_deliveryProvider :: "string option"
  order_createdAt :: int

record conversation_row =
  conv_id :: string
  conv_merchantId :: string
  conv_customerId :: string
  conv_customerPhone :: string
  conv_currentOrderId :: "string option"
  conv_currentProductId :: "string option"
  conv_state :: ConversationState
  conv_status :: ConversationStatus
  conv_language :: string
  conv_memory :: "memory option"
  conv_takenOverByHuman :: bool
  conv_lastMessageAt :: "int option"
  conv_lastReadMessageAt :: "int option"
  conv_escalatedAt :: "int option"
  conv_createdAt :: int

record message_row =
  msg_id :: string
  msg_conversationId :: string
  msg_content :: string
  msg_contentType :: string
  msg_mediaUrl :: "string option"
  msg_mimeType :: "string option"
  msg_whatsappMessageId :: "string option"
  msg_direction :: MessageDirection
  msg_sender :: MessageSender
  msg_text :: string
  msg_role :: string
  msg_messageType :: string
  msg_filePath :: "string option"
  msg_createdAt :: int

record cost_row =
  cost_merchantId :: string
  cost_wilaya :: string
  cost_wilayaCode :: int
  cost_cost :: rat

record commune_row =
  commune_name :: string
  commune_wilaya :: string
  commune_wilayaCode :: int

record session_row =
  session_id :: string
  session_merchantId :: string
  session_sessionId :: string
  session_status :: string
  session_phoneNumber :: "string option"

record notification_row =
  notif_id :: string
  notif_merchantId :: string
  notif_type :: string
  notif_title :: string
  notif_message :: string
  notif_link :: "string option"
  notif_read :: bool
  notif_createdAt :: int

record delivery_config_row =
  dconf_merchantId :: string
  dconf_provider :: string
  dconf_apiId :: "string option"
  dconf_apiToken :: "string option"
  dconf_isConnected :: bool

record merchant_row =
  merchant_id :: string
  merchant_email :: string
  merchant_passwordHash :: string
  merchant_name :: string
  merchant_shopName :: string
  merchant_googleId :: "string option"
  merchant_isVerified :: bool

record store_connection_row =
  store_id :: string
  store_merchantId :: string
  store_source :: string
  store_name :: string
  store_url :: string
  store_isActive :: bool

record shopify_connection_row =
  shopify_id :: string
  shopify_storeConnectionId :: string
  shopify_shopDomain :: string
  shopify_accessToken :: string
  shopify_refreshToken :: "string option"
  shopify_tokenExpiresAt :: "int option"
  shopify_refreshTokenExpiresAt :: "int option"
  shopify_scopes :: "string option"
  shopify_currency :: string
  shopify_defaultOrderStatus :: string

record agent_config_row =
  agent_merchantId :: string
  agent_defaultLanguage :: string
  agent_tone :: string
  agent_followUpDelays :: jval
  agent_maxFollowUps :: int
  agent_deliveryProvider :: "string option"
  agent_isActive :: bool
  agent_templates :: "jval option"
  agent_escalationThreshold :: int

text \<open>
  An entry of the Redis store: key, value, and the time in milliseconds at which it expires.
\<close>

record redis_entry =
  redis_key :: string
  redis_value :: string
  redis_expiresAt :: "int option"

text \<open>
  The state: the tables, the Redis store, the jobs of the e-mail queue, the media files on disk, the identifiers of the jobs in the order-confirmation and message queues,
  the requests made to the OpenWA gateway (method, path, body), and how many identifiers have been
  generated.
\<close>

record world =
  products :: "product_row list"
  customers :: "customer_row list"
  orders :: "order_row list"
  conversations :: "conversation_row list"
  messages :: "message_row list"
  wilayaDeliveryCosts :: "cost_row list"
  communes :: "commune_row list"
  whatsAppSessions :: "session_row list"
  notifications :: "notification_row list"
  deliveryConfigs :: "delivery_config_row list"
  merchants :: "merchant_row list"
  storeConnections :: "store_connection_row list"
  shopifyConnections :: "shopify_connection_row list"
  agentConfigs :: "agent_config_row list"
  redis :: "redis_entry list"
  emailJobs :: "(string \<times> jval) list"
  mediaFiles :: "(string \<times> string) list"
  orderJobs :: "string list"
  messageJobs :: "string list"
  owLog :: "(string \<times> string \<times> jval option) list"
  nextId :: nat

text \<open>
  What the back end calls and the repository does not hold: \<open>ieq col v\<close> and \<open>icontains col v\<close> are
  the database's case-insensitive \<open>equals\<close> and \<open>contains\<close>, \<open>lcontains\<close> its case-sensitive
  \<open>contains\<close>, \<open>cuid n\<close> the \<open>n\<close>-th generated identifier, \<open>clock\<close> the time in milliseconds, \<open>num_text\<close>
  the decimal text of a number, \<open>zod_issues schema value\<close> the paths and messages of the issues zod
  reports for a value a schema rejects, and \<open>llm catalog query\<close> the raw answer of the language model to the
  product-matching prompt (\<open>None\<close> when the call throws), \<open>b64url\<close>/\<open>unb64url\<close> the base64url coding,
  \<open>iso\<close> the ISO form of a time, \<open>parse_date\<close> the time the \<open>Date\<close> constructor makes of a value (\<open>None\<close> for an
  invalid date), \<open>collate\<close> the sort key of a text in the collation of the database, \<open>local_ymd\<close>,
  \<open>local_dow\<close> and \<open>local_time\<close> the calendar of the server's time zone (year, month and day of a time, its day
  of the week, and the time at which a day begins), \<open>media_llm prompt data mime\<close> the answer of the model to an
  audio or image file (\<open>None\<close> when the call throws), \<open>hmac key text\<close> the hexadecimal SHA-256 HMAC, \<open>fr_number\<close> a
  number in the French locale, the \<open>cfg_\<close> fields the configuration, and \<open>openwa n method path body\<close> what the
  \<open>n\<close>-th request to the OpenWA gateway returns or throws.
\<close>

datatype exn = P2002 | P2003 | P2025 | Error string | ErrorStatus string nat

record catalog_entry =
  entry_id :: string
  entry_name :: string
  entry_description :: string
  entry_variants :: jval

record env =
  ieq :: "string \<Rightarrow> string \<Rightarrow> bool"
  icontains :: "string \<Rightarrow> string \<Rightarrow> bool"
  lcontains :: "string \<Rightarrow> string \<Rightarrow> bool"
  cuid :: "nat \<Rightarrow> string"
  clock :: int
  num_text :: "rat \<Rightarrow> string"
  zod_issues :: "string \<Rightarrow> entities \<Rightarrow> (string \<times> string) list"
  llm :: "catalog_entry list \<Rightarrow> string \<Rightarrow> string option"
  b64url :: "string \<Rightarrow> string"
  unb64url :: "string \<Rightarrow> string"
  iso :: "int \<Rightarrow> string"
  parse_date :: "jval \<Rightarrow> int option"
  collate :: "string \<Rightarrow> nat list"
  local_ymd :: "int \<Rightarrow> int \<times> int \<times> int"
  local_dow :: "int \<Rightarrow> int"
  local_time :: "int \<Rightarrow> int \<Rightarrow> int \<Rightarrow> int"
  media_llm :: "string \<Rightarrow> string \<Rightarrow> string \<Rightarrow> string option"
  hmac :: "string \<Rightarrow> string \<Rightarrow> string"
  fr_number :: "rat \<Rightarrow> string"
  cfg_isDev :: bool
  cfg_webhookSecret :: string
  cfg_internalUrl :: string
  openwa :: "nat \<Rightarrow> string \<Rightarrow> string \<Rightarrow> jval option \<Rightarrow> exn + jval"

section \<open>Queries and updates\<close>

definition find_first :: "('r \<Rightarrow> bool) \<Rightarrow> 'r list \<Rightarrow> 'r option" where
  "find_first P rows = List.find P rows"

definition find_many :: "('r \<Rightarrow> bool) \<Rightarrow> nat \<Rightarrow> 'r list \<Rightarrow> 'r list" where
  "find_many P n rows = take n (filter P rows)"

definition update_where :: "('r \<Rightarrow> bool) \<Rightarrow> ('r \<Rightarrow> 'r) \<Rightarrow> 'r list \<Rightarrow> 'r list" where
  "update_where P f rows = map (\<lambda>r. if P r then f r else r) rows"

definition count_where :: "('r \<Rightarrow> bool) \<Rightarrow> 'r list \<Rightarrow> nat" where
  "count_where P rows = length (filter P rows)"

definition update_in ::
  "('w \<Rightarrow> 'r list) \<Rightarrow> ('r list \<Rightarrow> 'w \<Rightarrow> 'w) \<Rightarrow> ('r \<Rightarrow> bool) \<Rightarrow> ('r \<Rightarrow> 'r) \<Rightarrow> 'w \<Rightarrow> exn + ('r \<times> 'w)" where
  "update_in get put P f w =
     (case find_first P (get w) of
        None \<Rightarrow> Inl P2025
      | Some r \<Rightarrow> Inr (f r, put (update_where P f (get w)) w))"

definition put_orders :: "order_row list \<Rightarrow> world \<Rightarrow> world" where
  "put_orders rs w = w\<lparr>orders := rs\<rparr>"

definition put_conversations :: "conversation_row list \<Rightarrow> world \<Rightarrow> world" where
  "put_conversations rs w = w\<lparr>conversations := rs\<rparr>"

definition put_customers :: "customer_row list \<Rightarrow> world \<Rightarrow> world" where
  "put_customers rs w = w\<lparr>customers := rs\<rparr>"

definition put_messages :: "message_row list \<Rightarrow> world \<Rightarrow> world" where
  "put_messages rs w = w\<lparr>messages := rs\<rparr>"

definition put_products :: "product_row list \<Rightarrow> world \<Rightarrow> world" where
  "put_products rs w = w\<lparr>products := rs\<rparr>"

abbreviation update_order :: "(order_row \<Rightarrow> bool) \<Rightarrow> (order_row \<Rightarrow> order_row) \<Rightarrow> world \<Rightarrow> exn + (order_row \<times> world)" where
  "update_order \<equiv> update_in orders put_orders"

abbreviation update_conversation ::
  "(conversation_row \<Rightarrow> bool) \<Rightarrow> (conversation_row \<Rightarrow> conversation_row) \<Rightarrow> world \<Rightarrow> exn + (conversation_row \<times> world)" where
  "update_conversation \<equiv> update_in conversations put_conversations"

abbreviation update_customer ::
  "(customer_row \<Rightarrow> bool) \<Rightarrow> (customer_row \<Rightarrow> customer_row) \<Rightarrow> world \<Rightarrow> exn + (customer_row \<times> world)" where
  "update_customer \<equiv> update_in customers put_customers"

abbreviation update_message ::
  "(message_row \<Rightarrow> bool) \<Rightarrow> (message_row \<Rightarrow> message_row) \<Rightarrow> world \<Rightarrow> exn + (message_row \<times> world)" where
  "update_message \<equiv> update_in messages put_messages"

section \<open>Creating rows\<close>

text \<open>
  \<open>order.create\<close>: the range of the 32-bit quantity column, the unique index on merchant and platform order id, the foreign keys to customer
  and product, a generated id, and the defaults of the schema.
\<close>

record order_input =
  oi_merchantId :: string
  oi_customerId :: string
  oi_platformOrderId :: string
  oi_wilaya :: string
  oi_commune :: string
  oi_address :: "string option"
  oi_productId :: string
  oi_productName :: string
  oi_quantity :: int
  oi_totalAmount :: rat
  oi_deliveryCost :: rat

definition order_of_input :: "string \<Rightarrow> int \<Rightarrow> order_input \<Rightarrow> order_row" where
  "order_of_input i t d =
     \<lparr>order_id = i, order_merchantId = oi_merchantId d, order_customerId = oi_customerId d,
      order_platformOrderId = oi_platformOrderId d, order_wilaya = oi_wilaya d,
      order_commune = oi_commune d, order_address = oi_address d, order_productId = oi_productId d,
      order_productName = oi_productName d, order_quantity = oi_quantity d,
      order_totalAmount = oi_totalAmount d, order_deliveryCost = oi_deliveryCost d,
      order_status = PENDING, order_trackingNumber = None, order_deliveryProvider = None,
      order_createdAt = t\<rparr>"

definition int4_ok :: "int \<Rightarrow> bool" where
  "int4_ok n \<longleftrightarrow> - 2147483648 \<le> n \<and> n \<le> 2147483647"

definition create_order :: "env \<Rightarrow> order_input \<Rightarrow> world \<Rightarrow> exn + (order_row \<times> world)" where
  "create_order E d w =
     (if \<not> int4_ok (oi_quantity d) then Inl (Error ''value does not fit INT4'')
      else if \<exists>r \<in> set (orders w). order_merchantId r = oi_merchantId d \<and>
           order_platformOrderId r = oi_platformOrderId d then Inl P2002
      else if \<not> (\<exists>c \<in> set (customers w). customer_id c = oi_customerId d) \<or>
              \<not> (\<exists>p \<in> set (products w). product_id p = oi_productId d) then Inl P2003
      else
        (let r = order_of_input (cuid E (nextId w)) (clock E) d
         in Inr (r, w\<lparr>orders := orders w @ [r], nextId := Suc (nextId w)\<rparr>)))"

text \<open>
  \<open>customer.create\<close>, with the unique index on merchant and phone, and \<open>customer.upsert\<close> on that index.
\<close>

definition create_customer ::
  "env \<Rightarrow> string \<Rightarrow> string \<Rightarrow> string option \<Rightarrow> string option \<Rightarrow> world \<Rightarrow> exn + (customer_row \<times> world)" where
  "create_customer E m phone name jid w =
     (if \<exists>c \<in> set (customers w). customer_merchantId c = m \<and> customer_phone c = phone then Inl P2002
      else
        (let r = \<lparr>customer_id = cuid E (nextId w), customer_merchantId = m, customer_phone = phone,
                  customer_name = name, customer_language = None, customer_blocked = False,
                  customer_wilaya = None, customer_commune = None, customer_waJid = jid,
                  customer_createdAt = clock E\<rparr>
         in Inr (r, w\<lparr>customers := customers w @ [r], nextId := Suc (nextId w)\<rparr>)))"

definition upsert_customer ::
  "env \<Rightarrow> string \<Rightarrow> string \<Rightarrow> (customer_row \<Rightarrow> customer_row) \<Rightarrow> string option \<Rightarrow> string option \<Rightarrow> world \<Rightarrow>
   exn + (customer_row \<times> world)" where
  "upsert_customer E m phone f name jid w =
     (case find_first (\<lambda>c. customer_merchantId c = m \<and> customer_phone c = phone) (customers w) of
        Some _ \<Rightarrow> update_customer (\<lambda>c. customer_merchantId c = m \<and> customer_phone c = phone) f w
      | None \<Rightarrow> create_customer E m phone name jid w)"

definition create_conversation ::
  "env \<Rightarrow> string \<Rightarrow> string \<Rightarrow> string \<Rightarrow> string option \<Rightarrow> world \<Rightarrow> exn + (conversation_row \<times> world)" where
  "create_conversation E m c phone ord w =
     (if (\<exists>r \<in> set (conversations w). conv_merchantId r = m \<and> conv_customerId r = c) \<or>
         (ord \<noteq> None \<and> (\<exists>r \<in> set (conversations w). conv_currentOrderId r = ord)) then Inl P2002
      else
        (let r = \<lparr>conv_id = cuid E (nextId w), conv_merchantId = m, conv_customerId = c,
                  conv_customerPhone = phone, conv_currentOrderId = ord,
                  conv_currentProductId = None, conv_state = ST_IDLE, conv_status = ACTIVE,
                  conv_language = ''auto'', conv_memory = None, conv_takenOverByHuman = False,
                  conv_lastMessageAt = None, conv_lastReadMessageAt = None,
                  conv_escalatedAt = None, conv_createdAt = clock E\<rparr>
         in Inr (r, w\<lparr>conversations := conversations w @ [r], nextId := Suc (nextId w)\<rparr>)))"

definition create_notification ::
  "env \<Rightarrow> string \<Rightarrow> string \<Rightarrow> string \<Rightarrow> string \<Rightarrow> string option \<Rightarrow> world \<Rightarrow> notification_row \<times> world" where
  "create_notification E m ty title msg link w =
     (let r = \<lparr>notif_id = cuid E (nextId w), notif_merchantId = m, notif_type = ty,
               notif_title = title, notif_message = msg, notif_link = link, notif_read = False,
               notif_createdAt = clock E\<rparr>
      in (r, w\<lparr>notifications := notifications w @ [r], nextId := Suc (nextId w)\<rparr>))"

text \<open>
  \<open>message.create\<close>: the conversation must exist, and \<open>whatsappMessageId\<close> is unique where it is set;
  \<open>set_wa_id\<close> is the update of that column.
\<close>

record message_input =
  mi_conversationId :: string
  mi_content :: string
  mi_contentType :: string
  mi_mediaUrl :: "string option"
  mi_mimeType :: "string option"
  mi_whatsappMessageId :: "string option"
  mi_direction :: MessageDirection
  mi_sender :: MessageSender
  mi_role :: string
  mi_messageType :: string
  mi_filePath :: "string option"
  mi_createdAt :: int

definition message_of_input :: "string \<Rightarrow> message_input \<Rightarrow> message_row" where
  "message_of_input i d =
     \<lparr>msg_id = i, msg_conversationId = mi_conversationId d, msg_content = mi_content d,
      msg_contentType = mi_contentType d, msg_mediaUrl = mi_mediaUrl d, msg_mimeType = mi_mimeType d,
      msg_whatsappMessageId = mi_whatsappMessageId d, msg_direction = mi_direction d,
      msg_sender = mi_sender d, msg_text = mi_content d, msg_role = mi_role d,
      msg_messageType = mi_messageType d, msg_filePath = mi_filePath d, msg_createdAt = mi_createdAt d\<rparr>"

definition wa_id_taken :: "string option \<Rightarrow> string option \<Rightarrow> world \<Rightarrow> bool" where
  "wa_id_taken wid own w \<longleftrightarrow>
     wid \<noteq> None \<and> (\<exists>m \<in> set (messages w). msg_whatsappMessageId m = wid \<and> Some (msg_id m) \<noteq> own)"

definition create_message :: "env \<Rightarrow> message_input \<Rightarrow> world \<Rightarrow> exn + (message_row \<times> world)" where
  "create_message E d w =
     (if wa_id_taken (mi_whatsappMessageId d) None w then Inl P2002
      else if \<not> (\<exists>c \<in> set (conversations w). conv_id c = mi_conversationId d) then Inl P2003
      else (let r = message_of_input (cuid E (nextId w)) d
            in Inr (r, w\<lparr>messages := messages w @ [r], nextId := Suc (nextId w)\<rparr>)))"

definition set_wa_id :: "string \<Rightarrow> string option \<Rightarrow> world \<Rightarrow> exn + (message_row \<times> world)" where
  "set_wa_id i wid w =
     (if wa_id_taken wid (Some i) w then Inl P2002
      else update_in messages put_messages (\<lambda>m. msg_id m = i)
             (\<lambda>m. m\<lparr>msg_whatsappMessageId := (if wid = None then msg_whatsappMessageId m else wid)\<rparr>) w)"

section \<open>The job queues\<close>

text \<open>
  \<open>enqueueOrderJob\<close> adds a job whose id is the order id; BullMQ ignores an \<open>add\<close> with the id of a job
  that is there.  \<open>enqueueMessageJob\<close> lets BullMQ choose the job id.
\<close>

definition enqueueOrderJob :: "string \<Rightarrow> world \<Rightarrow> world" where
  "enqueueOrderJob i w = (if i \<in> set (orderJobs w) then w else w\<lparr>orderJobs := orderJobs w @ [i]\<rparr>)"

definition enqueueMessageJob :: "string \<Rightarrow> world \<Rightarrow> world" where
  "enqueueMessageJob i w = w\<lparr>messageJobs := messageJobs w @ [i]\<rparr>"

section \<open>Facts about queries and updates\<close>

lemma find_first_SomeD: "find_first P rows = Some r \<Longrightarrow> r \<in> set rows \<and> P r"
  by (simp add: find_first_def find_SomeD)

lemma find_first_None [table_simps]: "find_first P rows = None \<longleftrightarrow> (\<forall>r \<in> set rows. \<not> P r)"
  by (auto simp: find_first_def find_None_iff)

lemma find_first_exists:
  assumes "r \<in> set rows" and "P r"
  shows "\<exists>q \<in> set rows. find_first P rows = Some q \<and> P q"
  using assms by (cases "find_first P rows") (auto simp: find_first_None dest: find_first_SomeD)

lemma find_first_filter: "find_first P (filter Q rows) = find_first (\<lambda>r. Q r \<and> P r) rows"
  by (induction rows) (auto simp: find_first_def)

lemma find_first_Cons: "find_first P (x # rows) = (if P x then Some x else find_first P rows)"
  by (simp add: find_first_def)

lemma find_first_cong: "(\<And>r. r \<in> set rows \<Longrightarrow> P r = Q r) \<Longrightarrow> find_first P rows = find_first Q rows"
  by (induction rows) (auto simp: find_first_def)

lemma find_first_append:
  "find_first P (xs @ ys) = (case find_first P xs of Some r \<Rightarrow> Some r | None \<Rightarrow> find_first P ys)"
  by (induction xs) (auto simp: find_first_def)

lemma find_first_unique:
  assumes "distinct (map k rows)" and "r \<in> set rows" and "P r" and "\<And>s. P s \<Longrightarrow> k s = k r"
  shows "find_first P rows = Some r"
proof (cases "find_first P rows")
  case None
  with assms(2,3) show ?thesis by (auto simp: find_first_None)
next
  case (Some s)
  then have "s \<in> set rows" "P s" by (auto dest: find_first_SomeD)
  with assms show ?thesis using Some by (metis distinct_map_eq)
qed

lemma set_find_many: "set (find_many P n rows) \<subseteq> {r \<in> set rows. P r}"
  by (auto simp: find_many_def dest: in_set_takeD)

lemma length_find_many: "length (find_many P n rows) \<le> n"
  by (simp add: find_many_def)

lemma set_update_where: "set (update_where P f rows) = (\<lambda>r. if P r then f r else r) ` set rows"
  by (simp add: update_where_def)

lemma length_update_where [simp]: "length (update_where P f rows) = length rows"
  by (simp add: update_where_def)

lemma map_update_where: "(\<And>r. k (f r) = k r) \<Longrightarrow> map k (update_where P f rows) = map k rows"
  by (simp add: update_where_def)

lemma filter_update_where:
  "(\<And>r. Q (f r) = Q r) \<Longrightarrow> (\<And>r. P r \<Longrightarrow> \<not> Q r) \<Longrightarrow> filter Q (update_where P f rows) = filter Q rows"
  unfolding update_where_def by (induction rows) auto

lemma find_first_updated:
  assumes "distinct (map k rows)" and "\<And>r. k (f r) = k r" and "q \<in> set rows"
  shows "find_first (\<lambda>r. k r = k q) (update_where (\<lambda>r. k r = k q) f rows) = Some (f q)"
proof (rule find_first_unique)
  show "distinct (map k (update_where (\<lambda>r. k r = k q) f rows))"
    using assms(1,2) by (simp add: map_update_where)
  show "f q \<in> set (update_where (\<lambda>r. k r = k q) f rows)"
    using assms(3) unfolding update_where_def by force
qed (use assms(2) in simp_all)

lemma update_where_none: "(\<And>r. r \<in> set rows \<Longrightarrow> \<not> P r) \<Longrightarrow> update_where P f rows = rows"
  by (simp add: update_where_def map_idI)

lemma update_in_Inl: "update_in get put P f w = Inl e \<longleftrightarrow> e = P2025 \<and> (\<forall>r \<in> set (get w). \<not> P r)"
  by (auto simp: update_in_def find_first_None split: option.splits dest: find_first_SomeD)

lemma update_in_Inr:
  "update_in get put P f w = Inr (r, w') \<longleftrightarrow>
     (\<exists>q. find_first P (get w) = Some q \<and> r = f q \<and> w' = put (update_where P f (get w)) w)"
  by (auto simp: update_in_def split: option.splits)

lemma enqueueOrderJob_twice [simp]: "enqueueOrderJob i (enqueueOrderJob i w) = enqueueOrderJob i w"
  by (simp add: enqueueOrderJob_def)

section \<open>The table interface\<close>

text \<open>
  A table of the state: reading its rows, replacing them, and the primary key.  The laws are those
  of a lens.  The lemmas say what a lookup by primary key returns after an \<open>update\<close> with a filter
  that names that key.
\<close>

locale table =
  fixes get :: "'w \<Rightarrow> 'r list"
    and put :: "'r list \<Rightarrow> 'w \<Rightarrow> 'w"
    and rid :: "'r \<Rightarrow> string"
  assumes get_put: "get (put rs w) = rs"
    and put_get: "put (get w) w = w"
    and put_put: "put rs (put qs w) = put rs w"
begin

lemma update_keeps_ids:
  assumes "\<And>r. rid (f r) = rid r" and "update_in get put P f w = Inr (r, w')"
  shows "map rid (get w') = map rid (get w)"
  using assms by (auto simp: update_in_Inr get_put map_update_where)

lemma lookup_updated:
  assumes "distinct (map rid (get w))" and "\<And>r. rid (f r) = rid r"
    and "\<And>r. P r \<Longrightarrow> rid r = i" and "update_in get put P f w = Inr (r, w')"
  shows "find_first (\<lambda>r. rid r = i) (get w') = Some r"
proof -
  from assms(4) obtain q where q: "find_first P (get w) = Some q" "r = f q"
    "get w' = update_where P f (get w)" by (auto simp: update_in_Inr get_put)
  from q(1) have "q \<in> set (get w)" "P q" by (auto dest: find_first_SomeD)
  with q have "r \<in> set (get w')" by (force simp: set_update_where)
  moreover have "rid r = i" using assms(2,3) q(2) \<open>P q\<close> by simp
  moreover have "distinct (map rid (get w'))" using assms(1,2) q(3) by (simp add: map_update_where)
  ultimately show ?thesis by (intro find_first_unique [where k = rid]) auto
qed

lemma lookup_other:
  assumes "\<And>r. rid (f r) = rid r" and "\<And>r. P r \<Longrightarrow> rid r = i" and "j \<noteq> i"
    and "update_in get put P f w = Inr (r, w')"
  shows "filter (\<lambda>r. rid r = j) (get w') = filter (\<lambda>r. rid r = j) (get w)"
  using assms by (auto simp: update_in_Inr get_put intro!: filter_update_where)

end

lemmas put_defs [table_simps] =
  put_orders_def put_conversations_def put_customers_def put_messages_def put_products_def

interpretation ordT: table orders put_orders order_id
  by unfold_locales (simp_all add: put_defs)

interpretation convT: table conversations put_conversations conv_id
  by unfold_locales (simp_all add: put_defs)

interpretation custT: table customers put_customers customer_id
  by unfold_locales (simp_all add: put_defs)

interpretation msgT: table messages put_messages msg_id
  by unfold_locales (simp_all add: put_defs)

interpretation prodT: table products put_products product_id
  by unfold_locales (simp_all add: put_defs)

section \<open>Well-formed states\<close>

text \<open>
  What the schema guarantees of a state: the primary keys and the unique indexes, and the foreign
  keys of orders and conversations; and of the identifiers still to be generated, that they are new.
\<close>

definition unique_by :: "('r \<Rightarrow> 'k) \<Rightarrow> 'r list \<Rightarrow> bool" where
  "unique_by k rows = distinct (map k rows)"

definition fresh_ids :: "env \<Rightarrow> world \<Rightarrow> bool" where
  "fresh_ids E w \<longleftrightarrow>
     (\<forall>n \<ge> nextId w.
        cuid E n \<notin> order_id ` set (orders w) \<and> cuid E n \<notin> conv_id ` set (conversations w) \<and>
        cuid E n \<notin> msg_id ` set (messages w) \<and> cuid E n \<notin> notif_id ` set (notifications w) \<and>
        cuid E n \<notin> customer_id ` set (customers w) \<and> cuid E n \<notin> product_id ` set (products w) \<and>
        Some (cuid E n) \<notin> conv_currentOrderId ` set (conversations w))"

definition schema_ok :: "world \<Rightarrow> bool" where
  "schema_ok w \<longleftrightarrow>
     unique_by order_id (orders w) \<and>
     unique_by (\<lambda>r. (order_merchantId r, order_platformOrderId r)) (orders w) \<and>
     unique_by conv_id (conversations w) \<and>
     unique_by (\<lambda>r. (conv_merchantId r, conv_customerId r)) (conversations w) \<and>
     unique_by customer_id (customers w) \<and>
     unique_by (\<lambda>r. (customer_merchantId r, customer_phone r)) (customers w) \<and>
     unique_by msg_id (messages w) \<and>
     unique_by product_id (products w) \<and>
     unique_by (\<lambda>r. (product_merchantId r, product_platformProductId r)) (products w) \<and>
     (\<forall>r \<in> set (orders w). order_customerId r \<in> customer_id ` set (customers w)) \<and>
     (\<forall>r \<in> set (orders w). order_productId r \<in> product_id ` set (products w))"

definition world_ok :: "env \<Rightarrow> world \<Rightarrow> bool" where
  "world_ok E w \<longleftrightarrow> schema_ok w \<and> fresh_ids E w \<and> inj (cuid E)"


section \<open>Preservation of well-formedness\<close>

text \<open>
  Updates that keep the keys of the rows they change keep the state well formed; so does adding an
  order, a conversation or a notification the way \<open>create\<close> does.
\<close>

lemma image_update_where: "(\<And>r. k (f r) = k r) \<Longrightarrow> k ` set (update_where P f rows) = k ` set rows"
  by (metis list.set_map map_update_where)

lemma ball_update_where:
  "(\<And>r. Q (f r) = Q r) \<Longrightarrow> (\<forall>r \<in> set (update_where P f rows). Q r) = (\<forall>r \<in> set rows. Q r)"
  unfolding update_where_def by (induction rows) auto

lemma world_ok_update_orders:
  assumes "\<And>r. order_id (f r) = order_id r" "\<And>r. order_merchantId (f r) = order_merchantId r"
    "\<And>r. order_platformOrderId (f r) = order_platformOrderId r"
    "\<And>r. order_customerId (f r) = order_customerId r" "\<And>r. order_productId (f r) = order_productId r"
  shows "world_ok E (w\<lparr>orders := update_where P f (orders w)\<rparr>) = world_ok E w"
  using assms
  by (simp add: world_ok_def schema_ok_def fresh_ids_def unique_by_def map_update_where
      image_update_where ball_update_where)

lemma world_ok_update_customers:
  assumes "\<And>r. customer_id (f r) = customer_id r" "\<And>r. customer_merchantId (f r) = customer_merchantId r"
    "\<And>r. customer_phone (f r) = customer_phone r"
  shows "world_ok E (w\<lparr>customers := update_where P f (customers w)\<rparr>) = world_ok E w"
  using assms
  by (simp add: world_ok_def schema_ok_def fresh_ids_def unique_by_def map_update_where image_update_where)

lemma world_ok_update_products:
  assumes "\<And>r. product_id (f r) = product_id r" "\<And>r. product_merchantId (f r) = product_merchantId r"
    "\<And>r. product_platformProductId (f r) = product_platformProductId r"
  shows "world_ok E (w\<lparr>products := update_where P f (products w)\<rparr>) = world_ok E w"
  using assms
  by (simp add: world_ok_def schema_ok_def fresh_ids_def unique_by_def map_update_where image_update_where)

lemma world_ok_update_conversations:
  assumes "\<And>r. conv_id (f r) = conv_id r" "\<And>r. conv_merchantId (f r) = conv_merchantId r"
    "\<And>r. conv_customerId (f r) = conv_customerId r"
    "\<And>r n. nextId w \<le> n \<Longrightarrow> conv_currentOrderId (f r) = Some (cuid E n) \<Longrightarrow>
       conv_currentOrderId r = Some (cuid E n)"
    and "world_ok E w"
  shows "world_ok E (w\<lparr>conversations := update_where P f (conversations w)\<rparr>)"
proof -
  have "schema_ok (w\<lparr>conversations := update_where P f (conversations w)\<rparr>)"
    using assms by (simp add: world_ok_def schema_ok_def unique_by_def map_update_where image_update_where)
  moreover have "Some (cuid E n) \<notin> conv_currentOrderId ` set (update_where P f (conversations w))"
    if "nextId w \<le> n" for n
  proof
    assume "Some (cuid E n) \<in> conv_currentOrderId ` set (update_where P f (conversations w))"
    then obtain r where r: "r \<in> set (conversations w)"
      "conv_currentOrderId (if P r then f r else r) = Some (cuid E n)"
      by (auto simp: update_where_def split: if_splits)
    then have "conv_currentOrderId r = Some (cuid E n)"
      using assms(4) [OF that, of r] by (simp split: if_splits)
    then have "Some (cuid E n) \<in> conv_currentOrderId ` set (conversations w)"
      using r(1) by (metis image_eqI)
    with that assms(5) show False by (simp add: world_ok_def fresh_ids_def)
  qed
  moreover have "conv_id ` set (update_where P f (conversations w)) = conv_id ` set (conversations w)"
    using assms(1) by (rule image_update_where)
  ultimately show ?thesis
    using assms(5) unfolding world_ok_def fresh_ids_def by simp
qed

lemma create_order_Inr:
  "create_order E d w = Inr (r, w') \<longleftrightarrow>
     int4_ok (oi_quantity d) \<and>
     (\<forall>q \<in> set (orders w). \<not> (order_merchantId q = oi_merchantId d \<and>
        order_platformOrderId q = oi_platformOrderId d)) \<and>
     oi_customerId d \<in> customer_id ` set (customers w) \<and> oi_productId d \<in> product_id ` set (products w) \<and>
     r = order_of_input (cuid E (nextId w)) (clock E) d \<and>
     w' = w\<lparr>orders := orders w @ [r], nextId := Suc (nextId w)\<rparr>"
  by (auto simp: create_order_def Let_def intro: rev_image_eqI)

lemma create_order_duplicate:
  assumes "int4_ok (oi_quantity d)" "q \<in> set (orders w)" "order_merchantId q = oi_merchantId d"
    "order_platformOrderId q = oi_platformOrderId d"
  shows "create_order E d w = Inl P2002"
  using assms by (auto simp: create_order_def)

lemma order_of_input_simps [simp]:
  "order_id (order_of_input i t d) = i"
  "order_merchantId (order_of_input i t d) = oi_merchantId d"
  "order_customerId (order_of_input i t d) = oi_customerId d"
  "order_platformOrderId (order_of_input i t d) = oi_platformOrderId d"
  "order_productId (order_of_input i t d) = oi_productId d"
  "order_productName (order_of_input i t d) = oi_productName d"
  "order_quantity (order_of_input i t d) = oi_quantity d"
  "order_totalAmount (order_of_input i t d) = oi_totalAmount d"
  "order_deliveryCost (order_of_input i t d) = oi_deliveryCost d"
  "order_wilaya (order_of_input i t d) = oi_wilaya d"
  "order_commune (order_of_input i t d) = oi_commune d"
  "order_address (order_of_input i t d) = oi_address d"
  "order_status (order_of_input i t d) = PENDING"
  "order_createdAt (order_of_input i t d) = t"
  by (simp_all add: order_of_input_def)

lemma fresh_ids_later:
  assumes "fresh_ids E w" "inj (cuid E)" "Suc (nextId w) \<le> n"
  shows "cuid E n \<noteq> cuid E (nextId w)"
  using assms by (auto dest: injD)

lemma world_ok_create_order:
  assumes "world_ok E w" and "create_order E d w = Inr (r, w')"
  shows "world_ok E w'"
  using assms fresh_ids_later [of E w]
  by (auto simp: world_ok_def create_order_Inr schema_ok_def unique_by_def fresh_ids_def image_iff)

lemma create_customer_Inr:
  "create_customer E m phone name jid w = Inr (r, w') \<Longrightarrow>
     (\<forall>c \<in> set (customers w). \<not> (customer_merchantId c = m \<and> customer_phone c = phone)) \<and>
     customer_id r = cuid E (nextId w) \<and> customer_merchantId r = m \<and> customer_phone r = phone \<and>
     w' = w\<lparr>customers := customers w @ [r], nextId := Suc (nextId w)\<rparr>"
  by (auto simp: create_customer_def Let_def split: if_splits)

lemma world_ok_create_customer:
  assumes "world_ok E w" and "create_customer E m phone name jid w = Inr (r, w')"
  shows "world_ok E w'"
  using assms(1) create_customer_Inr [OF assms(2)] fresh_ids_later [of E w]
  by (auto simp: world_ok_def schema_ok_def unique_by_def fresh_ids_def image_iff)

text \<open>\<open>upsert\<close> on an existing or new customer: it returns, and touches only the customers.\<close>

lemma upsert_customer_effect:
  assumes "world_ok E w" and "\<And>c. customer_id (f c) = customer_id c"
    "\<And>c. customer_merchantId (f c) = customer_merchantId c" "\<And>c. customer_phone (f c) = customer_phone c"
  obtains c C n where "upsert_customer E m phone f name jid w = Inr (c, w\<lparr>customers := C, nextId := n\<rparr>)"
    "c \<in> set C" "customer_merchantId c = m" "customer_phone c = phone" "nextId w \<le> n"
    "world_ok E (w\<lparr>customers := C, nextId := n\<rparr>)"
    "filter (\<lambda>c. customer_merchantId c \<noteq> m) C = filter (\<lambda>c. customer_merchantId c \<noteq> m) (customers w)"
proof (cases "find_first (\<lambda>c. customer_merchantId c = m \<and> customer_phone c = phone) (customers w)")
  case None
  then have none: "\<not> (\<exists>c \<in> set (customers w). customer_merchantId c = m \<and> customer_phone c = phone)"
    by (simp add: find_first_None)
  obtain r w' where r: "create_customer E m phone name jid w = Inr (r, w')"
    using none by (simp add: create_customer_def Let_def)
  note F = create_customer_Inr [OF r]
  show thesis
  proof (rule that [where c = r and C = "customers w @ [r]" and n = "Suc (nextId w)"])
    show "upsert_customer E m phone f name jid w = Inr (r, w\<lparr>customers := customers w @ [r], nextId := Suc (nextId w)\<rparr>)"
      using None r F by (simp add: upsert_customer_def)
    show "world_ok E (w\<lparr>customers := customers w @ [r], nextId := Suc (nextId w)\<rparr>)"
      using world_ok_create_customer [OF assms(1) r] F by simp
  qed (use F in simp_all)
next
  case (Some q)
  then have q: "q \<in> set (customers w)" "customer_merchantId q = m" "customer_phone q = phone"
    by (auto dest: find_first_SomeD)
  let ?P = "\<lambda>c. customer_merchantId c = m \<and> customer_phone c = phone"
  show thesis
  proof (rule that [where c = "f q" and C = "update_where ?P f (customers w)" and n = "nextId w"])
    show "upsert_customer E m phone f name jid w =
        Inr (f q, w\<lparr>customers := update_where ?P f (customers w), nextId := nextId w\<rparr>)"
      using Some by (simp add: upsert_customer_def update_in_def put_customers_def)
    show "f q \<in> set (update_where ?P f (customers w))" using q by (force simp: set_update_where)
    show "world_ok E (w\<lparr>customers := update_where ?P f (customers w), nextId := nextId w\<rparr>)"
      using assms world_ok_update_customers [where f = f and P = ?P and w = w and E = E] by simp
    show "filter (\<lambda>c. customer_merchantId c \<noteq> m) (update_where ?P f (customers w)) =
        filter (\<lambda>c. customer_merchantId c \<noteq> m) (customers w)"
      by (rule filter_update_where) (use assms(3) in simp_all)
  qed (use q assms in simp_all)
qed

lemma create_conversation_Inr:
  "create_conversation E m c phone ord w = Inr (r, w') \<Longrightarrow>
     (\<forall>q \<in> set (conversations w). \<not> (conv_merchantId q = m \<and> conv_customerId q = c)) \<and>
     conv_id r = cuid E (nextId w) \<and> conv_merchantId r = m \<and> conv_customerId r = c \<and>
     conv_currentOrderId r = ord \<and> conv_takenOverByHuman r = False \<and>
     w' = w\<lparr>conversations := conversations w @ [r], nextId := Suc (nextId w)\<rparr>"
  by (auto simp: create_conversation_def Let_def split: if_splits)

lemma world_ok_create_conversation:
  assumes "world_ok E w" and "create_conversation E m c phone ord w = Inr (r, w')"
    and "\<And>n. Suc (nextId w) \<le> n \<Longrightarrow> Some (cuid E n) \<noteq> ord"
  shows "world_ok E w'"
  using assms(1,3) create_conversation_Inr [OF assms(2)] fresh_ids_later [of E w]
  by (auto simp: world_ok_def schema_ok_def unique_by_def fresh_ids_def image_iff)

lemma world_ok_create_notification:
  assumes "world_ok E w"
  shows "world_ok E (snd (create_notification E m ty title msg link w))"
  using assms fresh_ids_later [of E w]
  by (auto simp: world_ok_def create_notification_def Let_def schema_ok_def fresh_ids_def)

lemma create_message_Inr:
  "create_message E d w = Inr (r, w') \<longleftrightarrow>
     \<not> wa_id_taken (mi_whatsappMessageId d) None w \<and>
     (\<exists>c \<in> set (conversations w). conv_id c = mi_conversationId d) \<and>
     r = message_of_input (cuid E (nextId w)) d \<and>
     w' = w\<lparr>messages := messages w @ [r], nextId := Suc (nextId w)\<rparr>"
  by (auto simp: create_message_def Let_def)

lemma message_of_input_simps [simp]:
  "msg_id (message_of_input i d) = i" "msg_conversationId (message_of_input i d) = mi_conversationId d"
  "msg_content (message_of_input i d) = mi_content d" "msg_sender (message_of_input i d) = mi_sender d"
  "msg_direction (message_of_input i d) = mi_direction d" "msg_role (message_of_input i d) = mi_role d"
  "msg_whatsappMessageId (message_of_input i d) = mi_whatsappMessageId d"
  "msg_createdAt (message_of_input i d) = mi_createdAt d" "msg_text (message_of_input i d) = mi_content d"
  by (simp_all add: message_of_input_def)

lemma world_ok_create_message:
  assumes "world_ok E w" and "create_message E d w = Inr (r, w')"
  shows "world_ok E w'"
  using assms fresh_ids_later [of E w]
  by (auto simp: world_ok_def create_message_Inr schema_ok_def unique_by_def fresh_ids_def image_iff)

lemma world_ok_update_messages:
  assumes "\<And>r. msg_id (f r) = msg_id r"
  shows "world_ok E (w\<lparr>messages := update_where P f (messages w)\<rparr>) = world_ok E w"
  using assms
  by (simp add: world_ok_def schema_ok_def fresh_ids_def unique_by_def map_update_where image_update_where)

lemma world_ok_enqueue [simp]: "world_ok E (enqueueOrderJob i w) = world_ok E w"
  by (simp add: world_ok_def enqueueOrderJob_def schema_ok_def fresh_ids_def)

lemma enqueueOrderJob_frame [simp]:
  "orders (enqueueOrderJob i w) = orders w" "customers (enqueueOrderJob i w) = customers w"
  "conversations (enqueueOrderJob i w) = conversations w" "products (enqueueOrderJob i w) = products w"
  "messages (enqueueOrderJob i w) = messages w" "notifications (enqueueOrderJob i w) = notifications w"
  "wilayaDeliveryCosts (enqueueOrderJob i w) = wilayaDeliveryCosts w"
  "communes (enqueueOrderJob i w) = communes w" "nextId (enqueueOrderJob i w) = nextId w"
  "messageJobs (enqueueOrderJob i w) = messageJobs w" "owLog (enqueueOrderJob i w) = owLog w"
  by (simp_all add: enqueueOrderJob_def)

end
