(* ===== verification/Openwa.thy ===== *)
theory Openwa
  imports Store
begin

text \<open>
  The client of the WhatsApp gateway (\<open>back/src/modules/whatsapp/whatsapp.service.ts\<close>).  Every call is
  one request, recorded in the state; what it returns or throws comes from the environment.  The
  typing delays are not modelled.
\<close>

definition request :: "env \<Rightarrow> string \<Rightarrow> string \<Rightarrow> jval option \<Rightarrow> world \<Rightarrow> (exn + jval) \<times> world" where
  "request E method path body w =
     (openwa E (length (owLog w)) method path body, w\<lparr>owLog := owLog w @ [(method, path, body)]\<rparr>)"

definition is_suffix_char :: "char \<Rightarrow> bool" where
  "is_suffix_char c \<longleftrightarrow> c = CHR ''.'' \<or> (97 \<le> (of_char c :: nat) \<and> (of_char c :: nat) \<le> 122)"

definition stripSuffix :: "string \<Rightarrow> string" where
  "stripSuffix phone =
     (let tail = takeWhile is_suffix_char (rev phone); rest = dropWhile is_suffix_char (rev phone)
      in (case rest of
            c # r \<Rightarrow> (if c = CHR ''@'' \<and> tail \<noteq> [] then rev r else phone)
          | [] \<Rightarrow> phone))"

definition strip_plus :: "string \<Rightarrow> string" where
  "strip_plus s = (case s of c # r \<Rightarrow> (if c = CHR ''+'' then r else s) | [] \<Rightarrow> s)"

definition addSuffix :: "string \<Rightarrow> string" where
  "addSuffix phoneOrJid =
     (if CHR ''@'' \<in> set phoneOrJid then phoneOrJid
      else stripSuffix (strip_plus phoneOrJid) @ ''@c.us'')"

definition session_path :: "string \<Rightarrow> string \<Rightarrow> string" where
  "session_path sessionId rest = ''/sessions/'' @ sessionId @ rest"

definition json_field :: "string \<Rightarrow> jval \<Rightarrow> jval option" where
  "json_field k v = (case v of JObj e \<Rightarrow> map_of e k | _ \<Rightarrow> None)"

definition json_str :: "string \<Rightarrow> jval \<Rightarrow> string option" where
  "json_str k v = (case json_field k v of Some (JStr s) \<Rightarrow> Some s | _ \<Rightarrow> None)"

text \<open>The calls that only pass their arguments on.\<close>

definition createSession :: "env \<Rightarrow> string \<Rightarrow> world \<Rightarrow> (exn + jval) \<times> world" where
  "createSession E name = request E ''POST'' ''/sessions'' (Some (JObj [(''name'', JStr name)]))"

definition startSession :: "env \<Rightarrow> string \<Rightarrow> world \<Rightarrow> (exn + jval) \<times> world" where
  "startSession E sessionId = request E ''POST'' (session_path sessionId ''/start'') None"

definition stopSession :: "env \<Rightarrow> string \<Rightarrow> world \<Rightarrow> (exn + jval) \<times> world" where
  "stopSession E sessionId = request E ''POST'' (session_path sessionId ''/stop'') None"

definition logoutSession :: "env \<Rightarrow> string \<Rightarrow> world \<Rightarrow> (exn + jval) \<times> world" where
  "logoutSession E sessionId = request E ''POST'' (session_path sessionId ''/logout'') None"

definition getSession :: "env \<Rightarrow> string \<Rightarrow> world \<Rightarrow> (exn + jval) \<times> world" where
  "getSession E sessionId = request E ''GET'' (session_path sessionId []) None"

definition deleteSession :: "env \<Rightarrow> string \<Rightarrow> world \<Rightarrow> (exn + jval) \<times> world" where
  "deleteSession E sessionId = request E ''DELETE'' (session_path sessionId []) None"

definition deleteWebhook :: "env \<Rightarrow> string \<Rightarrow> string \<Rightarrow> world \<Rightarrow> (exn + jval) \<times> world" where
  "deleteWebhook E sessionId webhookId =
     request E ''DELETE'' (session_path sessionId (''/webhooks/'' @ webhookId)) None"

definition registerWebhook ::
  "env \<Rightarrow> string \<Rightarrow> string \<Rightarrow> string list \<Rightarrow> string \<Rightarrow> world \<Rightarrow> (exn + jval) \<times> world" where
  "registerWebhook E sessionId url events secret =
     request E ''POST'' (session_path sessionId ''/webhooks'')
       (Some (JObj [(''url'', JStr url), (''events'', JArr (map JStr events)), (''secret'', JStr secret)]))"

text \<open>The calls that read the answer.\<close>

definition getQR :: "env \<Rightarrow> string \<Rightarrow> world \<Rightarrow> (exn + jval option) \<times> world" where
  "getQR E sessionId w =
     (case request E ''GET'' (session_path sessionId ''/qr'') None w of
        (Inl err, w') \<Rightarrow> (Inl err, w')
      | (Inr v, w') \<Rightarrow> (Inr (json_field ''qrCode'' v), w'))"

definition as_array :: "jval \<Rightarrow> jval list" where
  "as_array v = (case v of JArr vs \<Rightarrow> vs | _ \<Rightarrow> [])"

definition listWebhooks :: "env \<Rightarrow> string \<Rightarrow> world \<Rightarrow> (exn + jval list) \<times> world" where
  "listWebhooks E sessionId w =
     (case request E ''GET'' (session_path sessionId ''/webhooks'') None w of
        (Inl err, w') \<Rightarrow> (Inl err, w')
      | (Inr v, w') \<Rightarrow> (Inr (as_array v), w'))"

definition listSessions :: "env \<Rightarrow> world \<Rightarrow> (exn + jval list) \<times> world" where
  "listSessions E w =
     (case request E ''GET'' ''/sessions'' None w of
        (Inl err, w') \<Rightarrow> (Inl err, w')
      | (Inr v, w') \<Rightarrow> (Inr (as_array v), w'))"

definition checkPhone :: "env \<Rightarrow> string \<Rightarrow> string \<Rightarrow> world \<Rightarrow> jval option \<times> world" where
  "checkPhone E sessionId phone w =
     (case request E ''GET'' (session_path sessionId (''/contacts/check/'' @ stripSuffix phone)) None w of
        (Inl err, w') \<Rightarrow> (Some (JBool False), w')
      | (Inr v, w') \<Rightarrow> (json_field ''exists'' v, w'))"

definition getPairingCode :: "env \<Rightarrow> string \<Rightarrow> string \<Rightarrow> world \<Rightarrow> (exn + jval option) \<times> world" where
  "getPairingCode E sessionId phoneNumber w =
     (case request E ''POST'' (session_path sessionId ''/pairing-code'')
             (Some (JObj [(''phoneNumber'', JStr (stripSuffix phoneNumber))])) w of
        (Inl err, w') \<Rightarrow> (Inl err, w')
      | (Inr v, w') \<Rightarrow> (Inr (json_field ''code'' v), w'))"

definition resolveContactPhone :: "env \<Rightarrow> string \<Rightarrow> string \<Rightarrow> world \<Rightarrow> string option \<times> world" where
  "resolveContactPhone E sessionId contactId w =
     (case request E ''GET'' (session_path sessionId (''/contacts/'' @ stripSuffix contactId @ ''/phone'')) None w of
        (Inl err, w') \<Rightarrow> (None, w')
      | (Inr v, w') \<Rightarrow> (or_str (json_str ''phone'' v) None, w'))"

section \<open>Sending\<close>

definition sendText :: "env \<Rightarrow> string \<Rightarrow> string \<Rightarrow> string \<Rightarrow> world \<Rightarrow> (exn + string option) \<times> world" where
  "sendText E sessionId to text w =
     (case request E ''POST'' (session_path sessionId ''/messages/send-text'')
             (Some (JObj [(''chatId'', JStr (addSuffix to)), (''text'', JStr text)])) w of
        (Inl err, w') \<Rightarrow> (Inl err, w')
      | (Inr v, w') \<Rightarrow> (Inr (json_str ''messageId'' v), w'))"

definition sendChatState :: "env \<Rightarrow> string \<Rightarrow> string \<Rightarrow> string \<Rightarrow> world \<Rightarrow> (exn + jval) \<times> world" where
  "sendChatState E sessionId to st =
     request E ''POST'' (session_path sessionId ''/chats/typing'')
       (Some (JObj [(''chatId'', JStr (addSuffix to)), (''state'', JStr st)]))"

text \<open>
  One pass of the loop shows the typing indicator unless an earlier attempt failed, sends the text,
  and clears the indicator; a send that throws ends the loop.
\<close>

definition try_typing :: "env \<Rightarrow> string \<Rightarrow> string \<Rightarrow> bool \<Rightarrow> world \<Rightarrow> bool \<times> world" where
  "try_typing E sessionId to typingFailed w =
     (if typingFailed then (True, w)
      else (case sendChatState E sessionId to ''typing'' w of
              (Inl _, w') \<Rightarrow> (True, w')
            | (Inr _, w') \<Rightarrow> (False, w')))"

definition clear_typing :: "env \<Rightarrow> string \<Rightarrow> string \<Rightarrow> bool \<Rightarrow> world \<Rightarrow> world" where
  "clear_typing E sessionId to typingFailed w =
     (if typingFailed then w else snd (sendChatState E sessionId to ''paused'' w))"

fun send_loop ::
  "env \<Rightarrow> string \<Rightarrow> string \<Rightarrow> bool \<Rightarrow> string list \<Rightarrow> world \<Rightarrow> (exn + string option list) \<times> world" where
  "send_loop E sessionId to typingFailed [] w = (Inr [], w)"
| "send_loop E sessionId to typingFailed (text # texts) w =
     (case try_typing E sessionId to typingFailed w of (failed, w1) \<Rightarrow>
       (case sendText E sessionId to text w1 of
          (Inl err, w2) \<Rightarrow> (Inl err, w2)
        | (Inr messageId, w2) \<Rightarrow>
            (case send_loop E sessionId to failed texts (clear_typing E sessionId to failed w2) of
               (Inl err, w3) \<Rightarrow> (Inl err, w3)
             | (Inr ids, w3) \<Rightarrow> (Inr (messageId # ids), w3))))"

definition sendMessagesSequentially ::
  "env \<Rightarrow> string \<Rightarrow> string \<Rightarrow> string list \<Rightarrow> world \<Rightarrow> (exn + string option list) \<times> world" where
  "sendMessagesSequentially E sessionId to msgs w = send_loop E sessionId to False msgs w"

section \<open>Facts\<close>

text \<open>What is left of the state but the request log.\<close>

definition quiet :: "world \<Rightarrow> world" where
  "quiet w = w\<lparr>owLog := []\<rparr>"

lemma quiet_eq: "quiet w' = quiet w \<Longrightarrow> \<exists>L. w' = w\<lparr>owLog := L\<rparr>"
  by (intro exI [of _ "owLog w'"], cases w, cases w') (simp add: quiet_def)

lemma quiet_request [simp]: "quiet (snd (request E m p b w)) = quiet w"
  by (simp add: request_def quiet_def)

lemma snd_try_typing: "snd (try_typing E s to f w) = (if f then w else snd (sendChatState E s to ''typing'' w))"
  by (simp add: try_typing_def split: prod.splits sum.splits)

lemma snd_sendText:
  "snd (sendText E s to t w) = snd (request E ''POST'' (session_path s ''/messages/send-text'')
     (Some (JObj [(''chatId'', JStr (addSuffix to)), (''text'', JStr t)])) w)"
  by (simp add: sendText_def split: prod.splits sum.splits)

lemma quiet_typing [simp]:
  "quiet (snd (try_typing E s to f w)) = quiet w" "quiet (clear_typing E s to f w) = quiet w"
  by (simp_all add: snd_try_typing clear_typing_def sendChatState_def)

lemma quiet_sendText [simp]: "quiet (snd (sendText E s to t w)) = quiet w"
  by (simp add: snd_sendText)

lemma quiet_send_loop: "quiet (snd (send_loop E s to f ts w)) = quiet w"
proof (induction ts arbitrary: f w)
  case (Cons t ts)
  obtain f1 w1 where t1: "try_typing E s to f w = (f1, w1)" by fastforce
  obtain r w2 where t2: "sendText E s to t w1 = (r, w2)" by fastforce
  have "quiet w2 = quiet w" using quiet_typing(1) [of E s to f w] quiet_sendText [of E s to t w1] t1 t2 by simp
  then show ?case
    using t1 t2 Cons.IH [of f1 "clear_typing E s to f1 w2"]
    by (auto split: sum.splits prod.splits)
qed simp

text \<open>The texts handed to the gateway, read off the log.\<close>

definition sent_text :: "string \<times> string \<times> jval option \<Rightarrow> (string \<times> string) option" where
  "sent_text q =
     (case q of (method, path, body) \<Rightarrow>
       (case body of
          Some (JObj e) \<Rightarrow>
            (case (map_of e ''chatId'', map_of e ''text'') of
               (Some (JStr to), Some (JStr t)) \<Rightarrow> Some (to, t)
             | _ \<Rightarrow> None)
        | _ \<Rightarrow> None))"

definition sent_texts :: "world \<Rightarrow> (string \<times> string) list" where
  "sent_texts w = List.map_filter sent_text (owLog w)"

lemma sent_texts_chat_state [simp]: "sent_texts (snd (sendChatState E s to st w)) = sent_texts w"
  by (simp add: sendChatState_def request_def sent_texts_def map_filter_def sent_text_def)

lemma sent_texts_typing [simp]:
  "sent_texts (snd (try_typing E s to f w)) = sent_texts w" "sent_texts (clear_typing E s to f w) = sent_texts w"
  by (simp_all add: snd_try_typing clear_typing_def)

lemma sent_texts_sendText:
  "sent_texts (snd (sendText E s to t w)) = sent_texts w @ [(addSuffix to, t)]"
  by (simp add: snd_sendText request_def sent_texts_def map_filter_def sent_text_def)

lemma send_loop_texts:
  "send_loop E s to f ts w = (r, w') \<Longrightarrow>
   \<exists>n \<le> length ts. sent_texts w' = sent_texts w @ map (\<lambda>t. (addSuffix to, t)) (take n ts) \<and>
     (case r of Inl _ \<Rightarrow> True | Inr ids \<Rightarrow> n = length ts \<and> length ids = length ts)"
proof (induction ts arbitrary: f w r w')
  case (Cons t ts)
  obtain f1 w1 where t1: "try_typing E s to f w = (f1, w1)" by fastforce
  obtain q w2 where t2: "sendText E s to t w1 = (q, w2)" by fastforce
  have w1: "sent_texts w1 = sent_texts w" using sent_texts_typing(1) [of E s to f w] t1 by simp
  have w2: "sent_texts w2 = sent_texts w @ [(addSuffix to, t)]"
    using sent_texts_sendText [of E s to t w1] t2 w1 by simp
  show ?case
  proof (cases q)
    case (Inl err)
    then show ?thesis using Cons.prems t1 t2 w2 by (intro exI [of _ "Suc 0"]) auto
  next
    case (Inr m)
    obtain r3 w3 where t3: "send_loop E s to f1 ts (clear_typing E s to f1 w2) = (r3, w3)" by fastforce
    from Cons.IH [OF this] obtain n where "n \<le> length ts"
      "sent_texts w3 = sent_texts w2 @ map (\<lambda>t. (addSuffix to, t)) (take n ts)"
      "case r3 of Inl _ \<Rightarrow> True | Inr ids \<Rightarrow> n = length ts \<and> length ids = length ts" by auto
    then show ?thesis
      using Cons.prems t1 t2 t3 Inr w2
      by (intro exI [of _ "Suc n"]) (auto split: sum.splits)
  qed
qed simp

end
