(* ===== verification/Sample.thy ===== *)
theory Sample
  imports Store
begin

text \<open>
  A small concrete environment and state on which the properties are instantiated: two merchants,
  their products and customers, one pending order and its conversation.
\<close>

definition sample_env :: env where
  "sample_env =
     \<lparr>ieq = (\<lambda>col v. col = v), icontains = (\<lambda>col v. str_includes v col),
      lcontains = (\<lambda>col v. str_includes v col), cuid = (\<lambda>n. CHR ''k'' # replicate n (CHR ''0'')),
      clock = 1000, num_text = (\<lambda>_. ''0''), zod_issues = (\<lambda>_ _. []),
      llm = (\<lambda>_ _. Some ''{}''),
      b64url = (\<lambda>s. s), unb64url = (\<lambda>s. s), iso = (\<lambda>t. replicate (nat t) (CHR ''1'')),
      parse_date = (\<lambda>v. case v of JStr s \<Rightarrow> Some (int (length s)) | _ \<Rightarrow> None),
      collate = map of_char, local_ymd = (\<lambda>_. (1970, 0, 1)),
      local_dow = (\<lambda>_. 4), local_time = (\<lambda>_ _ _. 0),
      media_llm = (\<lambda>_ _ _. None), hmac = (\<lambda>key t. key @ t), fr_number = (\<lambda>_. ''0''), cfg_isDev = True,
      cfg_webhookSecret = ''secret'', cfg_internalUrl = ''http://back:3000'',
      openwa = (\<lambda>n _ _ _. Inr (JObj [(''messageId'', JStr (CHR ''w'' # replicate n (CHR ''0'')))]))\<rparr>"

definition sample_product :: "string \<Rightarrow> string \<Rightarrow> string \<Rightarrow> rat \<Rightarrow> int \<Rightarrow> product_row" where
  "sample_product i m nm price t =
     \<lparr>product_id = i, product_merchantId = m, product_platformProductId = i, product_name = nm,
      product_description = [], product_variants = JArr [], product_price = price,
      product_currency = ''DZD'', product_stockStatus = ''in_stock'', product_category = None,
      product_agentEnabled = True, product_createdAt = t\<rparr>"

definition sample_customer :: "string \<Rightarrow> string \<Rightarrow> string \<Rightarrow> customer_row" where
  "sample_customer i m phone =
     \<lparr>customer_id = i, customer_merchantId = m, customer_phone = phone, customer_name = Some ''Amine'',
      customer_language = None, customer_blocked = False, customer_wilaya = None,
      customer_commune = None, customer_waJid = None, customer_createdAt = 1\<rparr>"

definition sample_order :: "string \<Rightarrow> string \<Rightarrow> string \<Rightarrow> string \<Rightarrow> OrderStatus \<Rightarrow> int \<Rightarrow> order_row" where
  "sample_order i m c p st t =
     \<lparr>order_id = i, order_merchantId = m, order_customerId = c, order_platformOrderId = i,
      order_wilaya = ''Alger'', order_commune = ''Kouba'', order_address = None, order_productId = p,
      order_productName = ''bag'', order_quantity = 1, order_totalAmount = 500,
      order_deliveryCost = 400, order_status = st, order_trackingNumber = None,
      order_deliveryProvider = None, order_createdAt = t\<rparr>"

definition sample_conversation :: "string \<Rightarrow> string \<Rightarrow> string \<Rightarrow> string option \<Rightarrow> bool \<Rightarrow> conversation_row" where
  "sample_conversation i m c ord human =
     \<lparr>conv_id = i, conv_merchantId = m, conv_customerId = c, conv_customerPhone = ''213550'',
      conv_currentOrderId = ord, conv_currentProductId = Some ''p1'', conv_state = ST_IDLE,
      conv_status = ACTIVE, conv_language = ''auto'', conv_memory = None,
      conv_takenOverByHuman = human, conv_lastMessageAt = None, conv_lastReadMessageAt = None,
      conv_escalatedAt = None, conv_createdAt = 1\<rparr>"

definition sample_world :: world where
  "sample_world =
     \<lparr>products = [sample_product ''p1'' ''m1'' ''bag'' 100 1, sample_product ''p2'' ''m1'' ''shoe'' 300 2,
                  sample_product ''p3'' ''m2'' ''watch'' 700 3],
      customers = [sample_customer ''c1'' ''m1'' ''213550'', sample_customer ''c2'' ''m2'' ''213551'',
                   sample_customer ''c3'' ''m1'' ''213552''],
      orders = [sample_order ''o1'' ''m1'' ''c1'' ''p1'' PENDING 5, sample_order ''o2'' ''m2'' ''c2'' ''p3'' PENDING 6],
      conversations = [sample_conversation ''v1'' ''m1'' ''c1'' (Some ''o1'') False,
                       sample_conversation ''v2'' ''m2'' ''c2'' (Some ''o2'') False,
                       sample_conversation ''v3'' ''m1'' ''c3'' None True],
      messages = [],
      wilayaDeliveryCosts = [\<lparr>cost_merchantId = ''m1'', cost_wilaya = ''Alger'', cost_wilayaCode = 16, cost_cost = 400\<rparr>],
      communes = [\<lparr>commune_name = ''Kouba'', commune_wilaya = ''Alger'', commune_wilayaCode = 16\<rparr>],
      whatsAppSessions = [\<lparr>session_id = ''s1'', session_merchantId = ''m1'', session_sessionId = ''wa1'',
                           session_status = ''ready'', session_phoneNumber = None\<rparr>],
      notifications = [],
      deliveryConfigs = [],
      merchants = [], storeConnections = [], shopifyConnections = [], agentConfigs = [],
      redis = [], emailJobs = [], mediaFiles = [],
      orderJobs = [],
      messageJobs = [],
      owLog = [],
      nextId = 0\<rparr>"

lemmas sample_defs =
  sample_env_def sample_world_def sample_product_def sample_customer_def sample_order_def
  sample_conversation_def

lemma inj_sample_cuid: "inj (cuid sample_env)"
  by (auto simp: inj_def sample_env_def)

lemma sample_ok: "world_ok sample_env sample_world"
proof -
  have "schema_ok sample_world"
    by (simp add: schema_ok_def unique_by_def sample_defs)
  moreover have "fresh_ids sample_env sample_world"
    by (simp add: fresh_ids_def sample_defs)
  ultimately show ?thesis by (simp add: world_ok_def inj_sample_cuid)
qed

end
