(* ===== verification/Reply.thy ===== *)
theory Reply
  imports Openwa Sample
begin

text \<open>
  \<open>back/src/modules/whatsapp/reply.service.ts\<close>: an assistant reply is stored as messages first and then
  sent over WhatsApp when the merchant's session is up.  The \<open>ReplyServiceDeps\<close> are the default ones:
  the tables of the store and the OpenWA client.
\<close>

definition lid_digits :: "string \<Rightarrow> string" where
  "lid_digits waJid = takeWhile (\<lambda>c. c \<noteq> CHR ''@'') waJid"

definition resolveDeliveryTarget :: "customer_row option \<Rightarrow> string option" where
  "resolveDeliveryTarget customer =
     (case customer of
        None \<Rightarrow> None
      | Some c \<Rightarrow>
          (case customer_waJid c of
             Some jid \<Rightarrow>
               (if ends_with ''@lid'' (ascii_lower jid) \<and>
                   (customer_phone c = [] \<or> customer_phone c = lid_digits jid)
                then Some jid else Some (customer_phone c))
           | None \<Rightarrow> Some (customer_phone c)))"

definition reply_input :: "string \<Rightarrow> string \<Rightarrow> int \<Rightarrow> message_input" where
  "reply_input conversationId t now =
     \<lparr>mi_conversationId = conversationId, mi_content = t, mi_contentType = ''text'', mi_mediaUrl = None,
      mi_mimeType = None, mi_whatsappMessageId = None, mi_direction = OUT, mi_sender = AI,
      mi_role = ''assistant'', mi_messageType = ''text'', mi_filePath = None, mi_createdAt = now\<rparr>"

fun persist_replies :: "env \<Rightarrow> string \<Rightarrow> string list \<Rightarrow> world \<Rightarrow> (exn + string list) \<times> world" where
  "persist_replies E conversationId [] w = (Inr [], w)"
| "persist_replies E conversationId (t # ts) w =
     (case create_message E (reply_input conversationId t (clock E)) w of
        Inl err \<Rightarrow> (Inl err, w)
      | Inr (row, w1) \<Rightarrow>
          (case persist_replies E conversationId ts w1 of
             (Inl err, w2) \<Rightarrow> (Inl err, w2)
           | (Inr ids, w2) \<Rightarrow> (Inr (msg_id row # ids), w2)))"

text \<open>The update of \<open>lastMessageAt\<close>, whose failure is only logged.\<close>

definition bump_lastMessageAt :: "env \<Rightarrow> string \<Rightarrow> world \<Rightarrow> world" where
  "bump_lastMessageAt E conversationId w =
     (case update_conversation (\<lambda>c. conv_id c = conversationId) (\<lambda>c. c\<lparr>conv_lastMessageAt := Some (clock E)\<rparr>) w of
        Inl _ \<Rightarrow> w
      | Inr (_, w') \<Rightarrow> w')"

text \<open>The ids the gateway returned, written to the stored rows in turn until an update throws.\<close>

fun record_ids :: "string list \<Rightarrow> string option list \<Rightarrow> world \<Rightarrow> (exn + unit) \<times> world" where
  "record_ids [] is w = (Inr (), w)"
| "record_ids (m # ms) [] w = (Inr (), w)"
| "record_ids (m # ms) (i # is) w =
     (case set_wa_id m i w of
        Inl err \<Rightarrow> (Inl err, w)
      | Inr (_, w') \<Rightarrow> record_ids ms is w')"

text \<open>Sending the stored texts and writing back their ids; an error of either is only logged.\<close>

definition transmit :: "env \<Rightarrow> string \<Rightarrow> string \<Rightarrow> string list \<Rightarrow> string list \<Rightarrow> world \<Rightarrow> world" where
  "transmit E sessionId target texts messageIds w =
     (case sendMessagesSequentially E sessionId target texts w of
        (Inl _, w1) \<Rightarrow> w1
      | (Inr sentIds, w1) \<Rightarrow> snd (record_ids messageIds sentIds w1))"

definition send_replies ::
  "env \<Rightarrow> conversation_row \<Rightarrow> customer_row option \<Rightarrow> string list \<Rightarrow> string list \<Rightarrow> world \<Rightarrow> world" where
  "send_replies E conversation customer texts messageIds w =
     (case find_first (\<lambda>s. session_merchantId s = conv_merchantId conversation) (whatsAppSessions w) of
        None \<Rightarrow> w
      | Some waSession \<Rightarrow>
          (if session_status waSession = ''connected'' \<or> session_status waSession = ''ready'' then
             (case resolveDeliveryTarget customer of
                None \<Rightarrow> w
              | Some target \<Rightarrow>
                  (if target = [] then w
                   else transmit E (session_sessionId waSession) target texts messageIds w))
           else w))"

definition deliverAssistantReply :: "env \<Rightarrow> string \<Rightarrow> string list \<Rightarrow> world \<Rightarrow> (exn + unit) \<times> world" where
  "deliverAssistantReply E conversationId texts w =
     (case find_first (\<lambda>c. conv_id c = conversationId) (conversations w) of
        None \<Rightarrow> (Inr (), w)
      | Some conversation \<Rightarrow>
          (if conv_takenOverByHuman conversation then (Inr (), w)
           else
             (let customer = find_first (\<lambda>c. customer_id c = conv_customerId conversation) (customers w) in
              (case persist_replies E conversationId texts w of
                 (Inl err, w1) \<Rightarrow> (Inl err, w1)
               | (Inr messageIds, w1) \<Rightarrow>
                   (let w2 = (if messageIds \<noteq> [] then bump_lastMessageAt E conversationId w1 else w1)
                    in (Inr (), send_replies E conversation customer texts messageIds w2))))))"

section \<open>Facts\<close>

text \<open>The rows the texts become.\<close>

fun reply_rows :: "env \<Rightarrow> string \<Rightarrow> nat \<Rightarrow> string list \<Rightarrow> message_row list" where
  "reply_rows E v n [] = []"
| "reply_rows E v n (t # ts) = message_of_input (cuid E n) (reply_input v t (clock E)) # reply_rows E v (Suc n) ts"

lemma reply_rows_facts:
  "map msg_content (reply_rows E v n ts) = ts"
  "\<forall>m \<in> set (reply_rows E v n ts). msg_conversationId m = v \<and> msg_direction m = OUT \<and> msg_sender m = AI"
  "length (reply_rows E v n ts) = length ts"
  by (induction ts arbitrary: n) (simp_all add: reply_input_def)

lemma reply_rows_fresh: "i \<in> set (map msg_id (reply_rows E v n ts)) \<Longrightarrow> \<exists>k \<ge> n. i = cuid E k"
  by (induction ts arbitrary: n) (auto dest: Suc_leD)

text \<open>With the conversation there, storing the texts cannot fail: nothing of a reply is a unique key.\<close>

lemma persist_replies_ok:
  assumes "\<exists>c \<in> set (conversations w). conv_id c = v"
  shows "persist_replies E v ts w =
    (Inr (map msg_id (reply_rows E v (nextId w) ts)),
     w\<lparr>messages := messages w @ reply_rows E v (nextId w) ts, nextId := nextId w + length ts\<rparr>)"
  using assms
proof (induction ts arbitrary: w)
  case (Cons t ts)
  let ?r = "message_of_input (cuid E (nextId w)) (reply_input v t (clock E))"
  let ?w1 = "w\<lparr>messages := messages w @ [?r], nextId := Suc (nextId w)\<rparr>"
  have "create_message E (reply_input v t (clock E)) w = Inr (?r, ?w1)"
    using Cons.prems by (simp add: create_message_Inr wa_id_taken_def reply_input_def)
  then show ?case using Cons.IH [of ?w1] Cons.prems by simp
qed simp

definition same_contents :: "message_row list \<Rightarrow> message_row list \<Rightarrow> bool" where
  "same_contents xs ys \<longleftrightarrow>
     map (\<lambda>m. m\<lparr>msg_whatsappMessageId := None\<rparr>) xs = map (\<lambda>m. m\<lparr>msg_whatsappMessageId := None\<rparr>) ys"

lemma set_wa_id_messages:
  assumes "set_wa_id i wid w = Inr (r, w')"
  shows "\<exists>M. w' = w\<lparr>messages := M\<rparr> \<and> same_contents M (messages w) \<and>
    filter (\<lambda>m. msg_id m \<noteq> i) M = filter (\<lambda>m. msg_id m \<noteq> i) (messages w)"
proof -
  let ?f = "\<lambda>m. m\<lparr>msg_whatsappMessageId := (if wid = None then msg_whatsappMessageId m else wid)\<rparr>"
  let ?M = "update_where (\<lambda>m. msg_id m = i) ?f (messages w)"
  have "w' = w\<lparr>messages := ?M\<rparr>"
    using assms by (auto simp: set_wa_id_def update_in_Inr put_messages_def split: if_splits)
  moreover have "same_contents ?M (messages w)"
    unfolding same_contents_def by (simp add: map_update_where)
  moreover have "filter (\<lambda>m. msg_id m \<noteq> i) ?M = filter (\<lambda>m. msg_id m \<noteq> i) (messages w)"
    by (simp add: filter_update_where)
  ultimately show ?thesis by blast
qed

lemma filter_mono_eq:
  "filter P xs = filter P ys \<Longrightarrow> (\<And>x. Q x \<Longrightarrow> P x) \<Longrightarrow> filter Q xs = filter Q ys"
  using filter_filter [of Q P xs] filter_filter [of Q P ys]
  by (metis (no_types, lifting) filter_cong)

lemma record_ids_messages:
  "\<exists>M. snd (record_ids ms is w) = w\<lparr>messages := M\<rparr> \<and> same_contents M (messages w) \<and>
     filter (\<lambda>m. msg_id m \<notin> set ms) M = filter (\<lambda>m. msg_id m \<notin> set ms) (messages w)"
proof (induction ms "is" w rule: record_ids.induct)
  case (1 "is" w)
  show ?case by (intro exI [of _ "messages w"]) (simp add: same_contents_def)
next
  case (2 m ms w)
  show ?case by (intro exI [of _ "messages w"]) (simp add: same_contents_def)
next
  case (3 m ms i "is" w)
  show ?case
  proof (cases "set_wa_id m i w")
    case (Inl err)
    then show ?thesis by (intro exI [of _ "messages w"]) (simp add: same_contents_def)
  next
    case (Inr x)
    obtain r1 w1 where x: "x = (r1, w1)" by fastforce
    obtain M1 where m1: "w1 = w\<lparr>messages := M1\<rparr>" "same_contents M1 (messages w)"
      "filter (\<lambda>x. msg_id x \<noteq> m) M1 = filter (\<lambda>x. msg_id x \<noteq> m) (messages w)"
      using set_wa_id_messages [OF Inr [unfolded x]] by blast
    obtain M where m2: "snd (record_ids ms is w1) = w1\<lparr>messages := M\<rparr>" "same_contents M M1"
      "filter (\<lambda>m. msg_id m \<notin> set ms) M = filter (\<lambda>m. msg_id m \<notin> set ms) M1"
      using "3.IH" [OF Inr x [symmetric]] m1(1) by auto
    have "filter (\<lambda>x. msg_id x \<notin> set (m # ms)) M = filter (\<lambda>x. msg_id x \<notin> set (m # ms)) (messages w)"
      using filter_mono_eq [OF m2(3), of "\<lambda>x. msg_id x \<notin> set (m # ms)"]
        filter_mono_eq [OF m1(3), of "\<lambda>x. msg_id x \<notin> set (m # ms)"] by simp
    then show ?thesis using Inr x m1 m2 by (intro exI [of _ M]) (simp add: same_contents_def)
  qed
qed

text \<open>Sending touches the log and the WhatsApp ids of the rows it is given, nothing else.\<close>

lemma transmit_facts:
  "\<exists>M L n. transmit E s target texts ids w = w\<lparr>messages := M, owLog := L\<rparr> \<and>
     same_contents M (messages w) \<and>
     filter (\<lambda>m. msg_id m \<notin> set ids) M = filter (\<lambda>m. msg_id m \<notin> set ids) (messages w) \<and>
     n \<le> length texts \<and>
     List.map_filter sent_text L = sent_texts w @ map (\<lambda>t. (addSuffix target, t)) (take n texts)"
proof -
  obtain r1 w1 where s1: "sendMessagesSequentially E s target texts w = (r1, w1)" by fastforce
  have "quiet w1 = quiet w"
    using quiet_send_loop [of E s target False texts w] s1 by (simp add: sendMessagesSequentially_def)
  then obtain L where L: "w1 = w\<lparr>owLog := L\<rparr>" using quiet_eq by blast
  obtain n where n: "n \<le> length texts" "sent_texts w1 = sent_texts w @ map (\<lambda>t. (addSuffix target, t)) (take n texts)"
    using send_loop_texts s1 by (fastforce simp: sendMessagesSequentially_def)
  obtain M where M: "transmit E s target texts ids w = w1\<lparr>messages := M\<rparr>" "same_contents M (messages w1)"
    "filter (\<lambda>m. msg_id m \<notin> set ids) M = filter (\<lambda>m. msg_id m \<notin> set ids) (messages w1)"
  proof (cases r1)
    case (Inl err)
    then show ?thesis using that [of "messages w1"] s1 by (simp add: transmit_def same_contents_def)
  next
    case (Inr sentIds)
    then show ?thesis using that s1 record_ids_messages [of ids sentIds w1] by (auto simp: transmit_def)
  qed
  then show ?thesis
    using L n by (intro exI [of _ M] exI [of _ L] exI [of _ n]) (simp add: sent_texts_def)
qed

lemma no_transmission:
  "\<exists>M L n. w = w\<lparr>messages := M, owLog := L\<rparr> \<and> same_contents M (messages w) \<and>
     filter (\<lambda>m. msg_id m \<notin> set ids) M = filter (\<lambda>m. msg_id m \<notin> set ids) (messages w) \<and>
     n \<le> length texts \<and> List.map_filter sent_text L = sent_texts w @ map (\<lambda>t. (to, t)) (take n texts)"
  by (intro exI [of _ "messages w"] exI [of _ "owLog w"] exI [of _ 0]) (simp add: same_contents_def sent_texts_def)

lemma send_replies_facts:
  "\<exists>M L n to. send_replies E c cu texts ids w = w\<lparr>messages := M, owLog := L\<rparr> \<and>
     same_contents M (messages w) \<and>
     filter (\<lambda>m. msg_id m \<notin> set ids) M = filter (\<lambda>m. msg_id m \<notin> set ids) (messages w) \<and>
     n \<le> length texts \<and> List.map_filter sent_text L = sent_texts w @ map (\<lambda>t. (to, t)) (take n texts)"
proof -
  have "send_replies E c cu texts ids w = w \<or>
      (\<exists>s target. send_replies E c cu texts ids w = transmit E s target texts ids w)"
    by (auto simp: send_replies_def split: option.splits)
  then show ?thesis using transmit_facts no_transmission by metis
qed

lemma deliver_skips:
  assumes "\<forall>c \<in> set (conversations w). conv_id c = v \<longrightarrow> conv_takenOverByHuman c"
  shows "deliverAssistantReply E v texts w = (Inr (), w)"
  using assms
  by (auto simp: deliverAssistantReply_def Let_def split: option.splits dest!: find_first_SomeD)

text \<open>The delivery of a reply to a conversation the assistant owns.\<close>

lemma deliver_effect:
  assumes "world_ok E w" and "find_first (\<lambda>c. conv_id c = v) (conversations w) = Some c"
    and "\<not> conv_takenOverByHuman c"
  shows "\<exists>w' rows n to. deliverAssistantReply E v texts w = (Inr (), w') \<and>
    same_contents (messages w') (messages w @ rows) \<and> map msg_content rows = texts \<and>
    (\<forall>m \<in> set rows. msg_conversationId m = v \<and> msg_direction m = OUT \<and> msg_sender m = AI) \<and>
    filter (\<lambda>m. msg_id m \<notin> set (map msg_id rows)) (messages w') = messages w \<and>
    n \<le> length texts \<and> sent_texts w' = sent_texts w @ map (\<lambda>t. (to, t)) (take n texts)"
proof -
  have c: "c \<in> set (conversations w)" "conv_id c = v" using find_first_SomeD [OF assms(2)] by auto
  let ?rows = "reply_rows E v (nextId w) texts" and ?cu = "find_first (\<lambda>x. customer_id x = conv_customerId c) (customers w)"
  define w1 where "w1 = w\<lparr>messages := messages w @ ?rows, nextId := nextId w + length texts\<rparr>"
  define w2 where "w2 = (if map msg_id ?rows \<noteq> [] then bump_lastMessageAt E v w1 else w1)"
  have "persist_replies E v texts w = (Inr (map msg_id ?rows), w1)"
    unfolding w1_def using c by (intro persist_replies_ok) blast
  then have d: "deliverAssistantReply E v texts w = (Inr (), send_replies E c ?cu texts (map msg_id ?rows) w2)"
    using assms(2,3) by (simp add: deliverAssistantReply_def w2_def)
  have w2: "messages w2 = messages w @ ?rows" "sent_texts w2 = sent_texts w"
    by (auto simp: w2_def w1_def bump_lastMessageAt_def update_in_def put_conversations_def sent_texts_def
        split: option.splits)
  have "msg_id m \<notin> set (map msg_id ?rows)" if "m \<in> set (messages w)" for m
  proof
    assume "msg_id m \<in> set (map msg_id ?rows)"
    then obtain k where "nextId w \<le> k" "msg_id m = cuid E k" using reply_rows_fresh by blast
    moreover have "msg_id m \<in> msg_id ` set (messages w)" using that by simp
    ultimately show False using assms(1) by (simp add: world_ok_def fresh_ids_def)
  qed
  then have "filter (\<lambda>m. msg_id m \<notin> set (map msg_id ?rows)) (messages w @ ?rows) = messages w"
    by (simp add: filter_empty_conv)
  moreover obtain M L n to where
    "send_replies E c ?cu texts (map msg_id ?rows) w2 = w2\<lparr>messages := M, owLog := L\<rparr>"
    "same_contents M (messages w2)"
    "filter (\<lambda>m. msg_id m \<notin> set (map msg_id ?rows)) M = filter (\<lambda>m. msg_id m \<notin> set (map msg_id ?rows)) (messages w2)"
    "n \<le> length texts" "List.map_filter sent_text L = sent_texts w2 @ map (\<lambda>t. (to, t)) (take n texts)"
    using send_replies_facts by blast
  ultimately show ?thesis
    using d w2 reply_rows_facts [of E v "nextId w" texts]
    by (intro exI [of _ "send_replies E c ?cu texts (map msg_id ?rows) w2"] exI [of _ ?rows] exI [of _ n] exI [of _ to])
      (simp add: sent_texts_def)
qed

section \<open>Properties\<close>

text \<open>C11. To a conversation that no human owns a reply is delivered without an error whatever the gateway does: each text is stored,
  in order, as an outgoing AI message of the conversation, the messages that were there are unchanged,
  and the texts handed to WhatsApp are a prefix of the stored ones, in order, all to one address.\<close>

theorem reply_stored_before_sent:
  assumes "world_ok E w" and "find_first (\<lambda>c. conv_id c = v) (conversations w) = Some c"
    and "\<not> conv_takenOverByHuman c"
  shows "\<exists>w' rows n to. deliverAssistantReply E v texts w = (Inr (), w') \<and>
    same_contents (messages w') (messages w @ rows) \<and> map msg_content rows = texts \<and>
    (\<forall>m \<in> set rows. msg_conversationId m = v \<and> msg_direction m = OUT \<and> msg_sender m = AI) \<and>
    filter (\<lambda>m. msg_id m \<notin> set (map msg_id rows)) (messages w') = messages w \<and>
    n \<le> length texts \<and> sent_texts w' = sent_texts w @ map (\<lambda>t. (to, t)) (take n texts)"
  using assms by (rule deliver_effect)

theorem reply_stored_before_sent_witness:
  "\<exists>w'. deliverAssistantReply sample_env ''v1'' [''a'', ''b''] sample_world = (Inr (), w') \<and>
     length (messages w') = 2 \<and> sent_texts w' = [(''213550@c.us'', ''a''), (''213550@c.us'', ''b'')]"
proof -
  have "find_first (\<lambda>c. conv_id c = ''v1'') (conversations sample_world) =
    Some (sample_conversation ''v1'' ''m1'' ''c1'' (Some ''o1'') False)" by code_simp
  moreover have "\<not> conv_takenOverByHuman (sample_conversation ''v1'' ''m1'' ''c1'' (Some ''o1'') False)" by code_simp
  ultimately obtain w' where "deliverAssistantReply sample_env ''v1'' [''a'', ''b''] sample_world = (Inr (), w')"
    using reply_stored_before_sent [OF sample_ok] by blast
  moreover have "length (messages (snd (deliverAssistantReply sample_env ''v1'' [''a'', ''b''] sample_world))) = 2"
    by code_simp
  moreover have "sent_texts (snd (deliverAssistantReply sample_env ''v1'' [''a'', ''b''] sample_world)) =
      [(''213550@c.us'', ''a''), (''213550@c.us'', ''b'')]" by code_simp
  ultimately show ?thesis by simp
qed

end
