(* ===== verification/Tool_Schemas.thy ===== *)
theory Tool_Schemas
  imports Store
begin

text \<open>
  The vocabulary of the tool layer: the tool names and their read/write classification, the
  conversation-state transitions, and the argument schemas (\<open>back/src/modules/ai/schemas/intents.schemas.ts\<close>,
  \<open>back/src/modules/ai/conversationState.ts\<close>, \<open>back/src/modules/ai/tools/toolMeta.ts\<close> and
  \<open>contracts/src/tools.ts\<close>).

  A schema is the list of its keys in the order of the source, each with the check the source writes
  for it, and the groups of keys of which a \<open>refine\<close> wants one to be defined.  \<open>safe_parse\<close> is what
  \<open>safeParse\<close> means for such a schema: it accepts an object whose listed keys pass their checks, and
  its data are the listed keys only.  The texts of the issues of a rejected object are zod's and come
  from the environment.
\<close>

section \<open>Tool names\<close>

datatype ToolName =
    SearchProducts | SelectProduct | GetProductDetails | SuggestProducts | CalculateShipping
  | GetOrderStatus | CreateOrder | ConfirmOrder | ModifyOrder | CancelOrder | EscalateConversation

definition ReadToolNameSchema :: "(string \<times> ToolName) list" where
  "ReadToolNameSchema =
     [(''searchProducts'', SearchProducts), (''selectProduct'', SelectProduct),
      (''getProductDetails'', GetProductDetails), (''suggestProducts'', SuggestProducts),
      (''calculateShipping'', CalculateShipping), (''getOrderStatus'', GetOrderStatus)]"

definition WriteToolNameSchema :: "(string \<times> ToolName) list" where
  "WriteToolNameSchema =
     [(''createOrder'', CreateOrder), (''confirmOrder'', ConfirmOrder), (''modifyOrder'', ModifyOrder),
      (''cancelOrder'', CancelOrder), (''escalateConversation'', EscalateConversation)]"

definition ToolNameSchema :: "(string \<times> ToolName) list" where
  "ToolNameSchema = ReadToolNameSchema @ WriteToolNameSchema"

definition LEGACY_ONLY_TOOL_NAMES :: "string list" where
  "LEGACY_ONLY_TOOL_NAMES = []"

text \<open>The name under which a tool is registered, and the two type guards.\<close>

fun tool_name :: "ToolName \<Rightarrow> string" where
  "tool_name SearchProducts = ''searchProducts''"
| "tool_name SelectProduct = ''selectProduct''"
| "tool_name GetProductDetails = ''getProductDetails''"
| "tool_name SuggestProducts = ''suggestProducts''"
| "tool_name CalculateShipping = ''calculateShipping''"
| "tool_name GetOrderStatus = ''getOrderStatus''"
| "tool_name CreateOrder = ''createOrder''"
| "tool_name ConfirmOrder = ''confirmOrder''"
| "tool_name ModifyOrder = ''modifyOrder''"
| "tool_name CancelOrder = ''cancelOrder''"
| "tool_name EscalateConversation = ''escalateConversation''"

definition isReadTool :: "ToolName \<Rightarrow> bool" where
  "isReadTool t = (map_of ReadToolNameSchema (tool_name t) \<noteq> None)"

definition isWriteTool :: "ToolName \<Rightarrow> bool" where
  "isWriteTool t = (map_of WriteToolNameSchema (tool_name t) \<noteq> None)"

definition TOOL_NAMES :: "string list" where
  "TOOL_NAMES =
     [''searchProducts'', ''selectProduct'', ''getProductDetails'', ''suggestProducts'',
      ''calculateShipping'', ''getOrderStatus'', ''createOrder'', ''confirmOrder'', ''modifyOrder'',
      ''cancelOrder'', ''escalateConversation'']"

section \<open>State transitions\<close>

fun TOOL_STATE_TRANSITIONS :: "ToolName \<Rightarrow> ConversationState option" where
  "TOOL_STATE_TRANSITIONS SearchProducts = Some ST_PRODUCT_DISCOVERY"
| "TOOL_STATE_TRANSITIONS SuggestProducts = Some ST_PRODUCT_DISCOVERY"
| "TOOL_STATE_TRANSITIONS SelectProduct = Some ST_PRODUCT_SELECTED"
| "TOOL_STATE_TRANSITIONS GetProductDetails = Some ST_PRODUCT_SELECTED"
| "TOOL_STATE_TRANSITIONS CreateOrder = Some ST_WAITING_CONFIRMATION"
| "TOOL_STATE_TRANSITIONS ConfirmOrder = Some ST_CONFIRMED"
| "TOOL_STATE_TRANSITIONS CancelOrder = Some ST_CANCELLED"
| "TOOL_STATE_TRANSITIONS _ = None"

fun READ_TOOL_TRANSITIONS :: "ToolName \<Rightarrow> ConversationState option" where
  "READ_TOOL_TRANSITIONS SearchProducts = TOOL_STATE_TRANSITIONS SearchProducts"
| "READ_TOOL_TRANSITIONS SuggestProducts = TOOL_STATE_TRANSITIONS SuggestProducts"
| "READ_TOOL_TRANSITIONS SelectProduct = TOOL_STATE_TRANSITIONS SelectProduct"
| "READ_TOOL_TRANSITIONS GetProductDetails = TOOL_STATE_TRANSITIONS GetProductDetails"
| "READ_TOOL_TRANSITIONS _ = None"

section \<open>Schemas\<close>

datatype check = StringMin nat | NumberMin0 | PositiveInt

record field =
  field_key :: string
  field_check :: check
  field_required :: bool

record schema =
  schema_fields :: "field list"
  schema_refine :: "string list option"

abbreviation str1 :: "string \<Rightarrow> field" where
  "str1 k \<equiv> \<lparr>field_key = k, field_check = StringMin 1, field_required = True\<rparr>"

abbreviation str1_opt :: "string \<Rightarrow> field" where
  "str1_opt k \<equiv> \<lparr>field_key = k, field_check = StringMin 1, field_required = False\<rparr>"

abbreviation str_opt :: "string \<Rightarrow> field" where
  "str_opt k \<equiv> \<lparr>field_key = k, field_check = StringMin 0, field_required = False\<rparr>"

abbreviation num_opt :: "string \<Rightarrow> field" where
  "num_opt k \<equiv> \<lparr>field_key = k, field_check = NumberMin0, field_required = False\<rparr>"

definition InjectedMerchantId :: field where
  "InjectedMerchantId = str1 ''merchantId''"

definition InjectedCustomerId :: field where
  "InjectedCustomerId = str1 ''customerId''"

definition InjectedConversationId :: field where
  "InjectedConversationId = str1 ''conversationId''"

definition InjectedProductId :: field where
  "InjectedProductId = str_opt ''productId''"

definition InjectedExcludedProductIds :: field where
  "InjectedExcludedProductIds = str_opt ''excludedProductIds''"

definition SearchProductsArgsSchema :: schema where
  "SearchProductsArgsSchema =
     \<lparr>schema_fields = [str1 ''product'', InjectedMerchantId, InjectedConversationId],
      schema_refine = None\<rparr>"

definition SelectProductArgsSchema :: schema where
  "SelectProductArgsSchema =
     \<lparr>schema_fields =
        [str1_opt ''productId'', str1_opt ''productName'', InjectedMerchantId, InjectedConversationId],
      schema_refine = Some [''productId'', ''productName'']\<rparr>"

definition GetProductDetailsArgsSchema :: schema where
  "GetProductDetailsArgsSchema =
     \<lparr>schema_fields =
        [str1_opt ''productName'', InjectedMerchantId, InjectedConversationId, InjectedProductId],
      schema_refine = Some [''productId'', ''productName'']\<rparr>"

definition SuggestProductsArgsSchema :: schema where
  "SuggestProductsArgsSchema =
     \<lparr>schema_fields =
        [str1_opt ''category'', str1_opt ''color'', str1_opt ''size'', num_opt ''minPrice'',
         num_opt ''maxPrice'', str1_opt ''preferences'', InjectedExcludedProductIds,
         InjectedMerchantId, InjectedConversationId],
      schema_refine = None\<rparr>"

definition CreateOrderArgsSchema :: schema where
  "CreateOrderArgsSchema =
     \<lparr>schema_fields =
        [str1 ''productId'', str1 ''wilaya'', str1 ''commune'',
         \<lparr>field_key = ''quantity'', field_check = PositiveInt, field_required = True\<rparr>,
         str1_opt ''address'', InjectedMerchantId, InjectedCustomerId, InjectedConversationId],
      schema_refine = None\<rparr>"

definition ConfirmOrderArgsSchema :: schema where
  "ConfirmOrderArgsSchema =
     \<lparr>schema_fields =
        [str1 ''orderId'', InjectedMerchantId, InjectedCustomerId, InjectedConversationId],
      schema_refine = None\<rparr>"

definition ModifyOrderArgsSchema :: schema where
  "ModifyOrderArgsSchema =
     \<lparr>schema_fields =
        [str1 ''orderId'', str1_opt ''wilaya'', str1_opt ''commune'',
         \<lparr>field_key = ''quantity'', field_check = PositiveInt, field_required = False\<rparr>,
         InjectedMerchantId, InjectedCustomerId],
      schema_refine = Some [''wilaya'', ''commune'', ''quantity'']\<rparr>"

definition CancelOrderArgsSchema :: schema where
  "CancelOrderArgsSchema =
     \<lparr>schema_fields =
        [str1 ''orderId'', InjectedMerchantId, InjectedCustomerId, InjectedConversationId],
      schema_refine = None\<rparr>"

definition CalculateShippingArgsSchema :: schema where
  "CalculateShippingArgsSchema =
     \<lparr>schema_fields = [str1 ''wilaya'', InjectedMerchantId], schema_refine = None\<rparr>"

definition GetOrderStatusArgsSchema :: schema where
  "GetOrderStatusArgsSchema =
     \<lparr>schema_fields = [str1 ''orderId'', InjectedMerchantId, InjectedCustomerId],
      schema_refine = None\<rparr>"

definition EscalateConversationArgsSchema :: schema where
  "EscalateConversationArgsSchema =
     \<lparr>schema_fields =
        [str1 ''reason'', InjectedMerchantId, InjectedCustomerId, InjectedConversationId],
      schema_refine = None\<rparr>"

fun toolSchemas :: "ToolName \<Rightarrow> schema" where
  "toolSchemas SearchProducts = SearchProductsArgsSchema"
| "toolSchemas SelectProduct = SelectProductArgsSchema"
| "toolSchemas GetProductDetails = GetProductDetailsArgsSchema"
| "toolSchemas SuggestProducts = SuggestProductsArgsSchema"
| "toolSchemas CalculateShipping = CalculateShippingArgsSchema"
| "toolSchemas GetOrderStatus = GetOrderStatusArgsSchema"
| "toolSchemas CreateOrder = CreateOrderArgsSchema"
| "toolSchemas ConfirmOrder = ConfirmOrderArgsSchema"
| "toolSchemas ModifyOrder = ModifyOrderArgsSchema"
| "toolSchemas CancelOrder = CancelOrderArgsSchema"
| "toolSchemas EscalateConversation = EscalateConversationArgsSchema"

lemmas schema_defs =
  SearchProductsArgsSchema_def SelectProductArgsSchema_def GetProductDetailsArgsSchema_def
  SuggestProductsArgsSchema_def CalculateShippingArgsSchema_def GetOrderStatusArgsSchema_def
  CreateOrderArgsSchema_def ConfirmOrderArgsSchema_def ModifyOrderArgsSchema_def
  CancelOrderArgsSchema_def EscalateConversationArgsSchema_def InjectedMerchantId_def
  InjectedCustomerId_def InjectedConversationId_def InjectedProductId_def
  InjectedExcludedProductIds_def

section \<open>Validation\<close>

fun check_value :: "check \<Rightarrow> jval \<Rightarrow> bool" where
  "check_value (StringMin n) (JStr s) = (n \<le> length s)"
| "check_value NumberMin0 (JNum x) = (0 \<le> x)"
| "check_value PositiveInt (JNum x) = (of_int \<lfloor>x\<rfloor> = x \<and> 0 < x)"
| "check_value _ _ = False"

definition check_field :: "entities \<Rightarrow> field \<Rightarrow> bool" where
  "check_field e f =
     (case map_of e (field_key f) of
        None \<Rightarrow> \<not> field_required f
      | Some v \<Rightarrow> check_value (field_check f) v)"

definition strip_unknown :: "field list \<Rightarrow> entities \<Rightarrow> entities" where
  "strip_unknown fs e =
     List.map_filter (\<lambda>f. map_option (\<lambda>v. (field_key f, v)) (map_of e (field_key f))) fs"

definition safe_parse :: "schema \<Rightarrow> entities \<Rightarrow> entities option" where
  "safe_parse sch e =
     (if list_all (check_field e) (schema_fields sch) \<and>
         (case schema_refine sch of None \<Rightarrow> True | Some ks \<Rightarrow> list_ex (\<lambda>k. map_of e k \<noteq> None) ks)
      then Some (strip_unknown (schema_fields sch) e) else None)"

text \<open>Reading a validated argument.\<close>

definition str_arg :: "string \<Rightarrow> entities \<Rightarrow> string option" where
  "str_arg k d = (case map_of d k of Some (JStr s) \<Rightarrow> Some s | _ \<Rightarrow> None)"

definition req_str :: "string \<Rightarrow> entities \<Rightarrow> string" where
  "req_str k d = coalesce (str_arg k d) []"

definition int_arg :: "string \<Rightarrow> entities \<Rightarrow> int option" where
  "int_arg k d = (case map_of d k of Some (JNum x) \<Rightarrow> Some \<lfloor>x\<rfloor> | _ \<Rightarrow> None)"

definition req_int :: "string \<Rightarrow> entities \<Rightarrow> int" where
  "req_int k d = coalesce (int_arg k d) 0"

section \<open>Facts\<close>

text \<open>The instance lets the automation enumerate the tools.\<close>

definition all_tools :: "ToolName list" where
  "all_tools =
     [SearchProducts, SelectProduct, GetProductDetails, SuggestProducts, CalculateShipping,
      GetOrderStatus, CreateOrder, ConfirmOrder, ModifyOrder, CancelOrder, EscalateConversation]"

lemma set_all_tools: "set all_tools = UNIV"
  unfolding all_tools_def by (auto intro: ToolName.exhaust)

lemma map_of_tool_name [simp]: "map_of ToolNameSchema (tool_name t) = Some t"
  by (cases t) (simp_all add: ToolNameSchema_def ReadToolNameSchema_def WriteToolNameSchema_def)

lemma map_of_ToolNameSchema: "map_of ToolNameSchema s = Some t \<longleftrightarrow> s = tool_name t"
proof
  assume "map_of ToolNameSchema s = Some t"
  then have "(s, t) \<in> set ToolNameSchema" by (rule map_of_SomeD)
  then show "s = tool_name t"
    by (auto simp: ToolNameSchema_def ReadToolNameSchema_def WriteToolNameSchema_def)
qed simp

lemma isReadTool_simps [simp]:
  "isReadTool SearchProducts" "isReadTool SelectProduct" "isReadTool GetProductDetails"
  "isReadTool SuggestProducts" "isReadTool CalculateShipping" "isReadTool GetOrderStatus"
  "\<not> isReadTool CreateOrder" "\<not> isReadTool ConfirmOrder" "\<not> isReadTool ModifyOrder"
  "\<not> isReadTool CancelOrder" "\<not> isReadTool EscalateConversation"
  by (simp_all add: isReadTool_def ReadToolNameSchema_def)

lemma isReadTool_transition: "\<not> isReadTool t \<Longrightarrow> READ_TOOL_TRANSITIONS t = None"
  by (cases t) simp_all

lemma map_of_map_filter:
  assumes "distinct (map field_key fs)"
  shows "map_of (strip_unknown fs e) k = (if k \<in> field_key ` set fs then map_of e k else None)"
  using assms unfolding strip_unknown_def
  by (induction fs) (auto simp: map_filter_simps split: option.splits)

lemma schema_keys_distinct: "distinct (map field_key (schema_fields (toolSchemas t)))"
  by (cases t) (simp_all add: schema_defs)

lemma refine_keys: "schema_refine (toolSchemas t) = Some ks \<Longrightarrow>
   set ks \<subseteq> field_key ` set (schema_fields (toolSchemas t))"
  by (cases t) (auto simp: schema_defs)

lemma strip_unknown_idem:
  assumes "distinct (map field_key fs)"
  shows "strip_unknown fs (strip_unknown fs e) = strip_unknown fs e"
proof -
  have "map_of (strip_unknown fs e) (field_key f) = map_of e (field_key f)" if "f \<in> set fs" for f
    using that assms by (simp add: map_of_map_filter)
  then show ?thesis
    unfolding strip_unknown_def [of fs "strip_unknown fs e"]
    by (simp add: strip_unknown_def map_filter_def cong: filter_cong map_cong)
qed


lemma safe_parse_lookup:
  assumes "safe_parse (toolSchemas t) e = Some d"
  shows "map_of d k = (if k \<in> field_key ` set (schema_fields (toolSchemas t)) then map_of e k else None)"
  using assms schema_keys_distinct [of t]
  by (auto simp: safe_parse_def map_of_map_filter split: if_splits)

lemma safe_parse_check:
  assumes "safe_parse (toolSchemas t) e = Some d" and "f \<in> set (schema_fields (toolSchemas t))"
  shows "check_field d f"
  using assms safe_parse_lookup [OF assms(1), of "field_key f"]
  by (auto simp: safe_parse_def list_all_iff check_field_def split: if_splits)

lemma safe_parse_refine:
  assumes "safe_parse (toolSchemas t) e = Some d" and "schema_refine (toolSchemas t) = Some ks"
  shows "\<exists>k \<in> set ks. map_of d k \<noteq> None"
proof -
  obtain k where "k \<in> set ks" "map_of e k \<noteq> None"
    using assms by (auto simp: safe_parse_def list_ex_iff split: if_splits)
  moreover have "k \<in> field_key ` set (schema_fields (toolSchemas t))"
    using refine_keys [OF assms(2)] \<open>k \<in> set ks\<close> by blast
  ultimately show ?thesis using safe_parse_lookup [OF assms(1), of k] by (intro bexI [of _ k]) simp_all
qed

lemma safe_parse_idem:
  assumes "safe_parse (toolSchemas t) e = Some d"
  shows "safe_parse (toolSchemas t) d = Some d"
proof -
  have d: "d = strip_unknown (schema_fields (toolSchemas t)) e"
    using assms by (auto simp: safe_parse_def split: if_splits)
  have "list_all (check_field d) (schema_fields (toolSchemas t))"
    using safe_parse_check [OF assms] by (simp add: list_all_iff)
  moreover have "case schema_refine (toolSchemas t) of None \<Rightarrow> True
      | Some ks \<Rightarrow> list_ex (\<lambda>k. map_of d k \<noteq> None) ks"
    using safe_parse_refine [OF assms] by (auto simp: list_ex_iff split: option.splits)
  moreover have "strip_unknown (schema_fields (toolSchemas t)) d = d"
    using strip_unknown_idem [OF schema_keys_distinct, of t e] d by simp
  ultimately show ?thesis by (simp add: safe_parse_def)
qed

text \<open>A required string argument of accepted data is a string of the length its check asks for.\<close>

lemma check_required_string:
  assumes "check_field d f" and "field_required f" and "field_check f = StringMin n"
  shows "map_of d (field_key f) = Some (JStr (req_str (field_key f) d)) \<and>
         n \<le> length (req_str (field_key f) d)"
  using assms
  by (auto simp: check_field_def req_str_def str_arg_def split: option.splits elim!: check_value.elims)

end
