(* ===== verification/Search_Helpers.thy ===== *)
theory Search_Helpers
  imports Tool_Schemas
begin

text \<open>
  The catalogue queries behind \<open>searchProducts\<close> and \<open>suggestProducts\<close>
  (\<open>back/src/modules/ai/tools/searchHelpers.ts\<close>, \<open>suggestionHelpers.ts\<close>): the candidate pools, the
  reading of the language model's ranking, and the exclusions computed from a conversation's memory.
\<close>

section \<open>Numbers in strings\<close>

text \<open>\<open>Number(s)\<close> for a string, \<open>None\<close> where the result is not finite.\<close>

fun radix_digits :: "nat \<Rightarrow> string \<Rightarrow> nat option" where
  "radix_digits b [] = Some 0"
| "radix_digits b (c # cs) =
     (case hex_val c of
        None \<Rightarrow> None
      | Some d \<Rightarrow> (if d < b then map_option (\<lambda>r. d * b ^ length cs + r) (radix_digits b cs) else None))"

definition unsigned_decimal :: "string \<Rightarrow> rat option" where
  "unsigned_decimal s =
     (case digits s of (ip, r) \<Rightarrow>
       (case (case r of CHR ''.'' # r' \<Rightarrow> digits r' | _ \<Rightarrow> ([], r)) of (fp, r2) \<Rightarrow>
         (if ip = [] \<and> fp = [] then None
          else (case exp_part r2 of
                  Some (x, []) \<Rightarrow>
                    Some ((of_nat (nat_of_digits ip) + of_nat (nat_of_digits fp) / 10 ^ length fp) * x)
                | _ \<Rightarrow> None))))"

definition js_Number :: "string \<Rightarrow> rat option" where
  "js_Number s =
     (case js_trim s of
        [] \<Rightarrow> Some 0
      | CHR ''0'' # CHR ''x'' # c # cs \<Rightarrow> map_option of_nat (radix_digits 16 (c # cs))
      | CHR ''0'' # CHR ''X'' # c # cs \<Rightarrow> map_option of_nat (radix_digits 16 (c # cs))
      | CHR ''0'' # CHR ''o'' # c # cs \<Rightarrow> map_option of_nat (radix_digits 8 (c # cs))
      | CHR ''0'' # CHR ''O'' # c # cs \<Rightarrow> map_option of_nat (radix_digits 8 (c # cs))
      | CHR ''0'' # CHR ''b'' # c # cs \<Rightarrow> map_option of_nat (radix_digits 2 (c # cs))
      | CHR ''0'' # CHR ''B'' # c # cs \<Rightarrow> map_option of_nat (radix_digits 2 (c # cs))
      | CHR ''-'' # cs \<Rightarrow> map_option uminus (unsigned_decimal cs)
      | CHR ''+'' # cs \<Rightarrow> unsigned_decimal cs
      | cs \<Rightarrow> unsigned_decimal cs)"

section \<open>Search\<close>

definition CATALOG_LIMIT :: nat where
  "CATALOG_LIMIT = 200"

definition entry_of :: "product_row \<Rightarrow> catalog_entry" where
  "entry_of p =
     \<lparr>entry_id = product_id p, entry_name = product_name p, entry_description = product_description p,
      entry_variants = product_variants p\<rparr>"

text \<open>\<open>orderBy: \{ createdAt: 'desc' \}\<close> with a \<open>take\<close>.\<close>

definition newest :: "nat \<Rightarrow> (product_row \<Rightarrow> bool) \<Rightarrow> world \<Rightarrow> product_row list" where
  "newest n P w = take n (sort_key (\<lambda>p. - product_createdAt p) (filter P (products w)))"

definition buildProductCatalog :: "string \<Rightarrow> world \<Rightarrow> catalog_entry list" where
  "buildProductCatalog merchantId w =
     map entry_of (newest CATALOG_LIMIT (\<lambda>p. product_merchantId p = merchantId) w)"

text \<open>\<open>ProductMatchSchema.parse\<close> of the answer: the matches with their confidence, and the flag.\<close>

fun parse_match :: "jval \<Rightarrow> (string \<times> rat) option" where
  "parse_match (JObj o1) =
     (case (map_of o1 ''id'', map_of o1 ''confidence'') of
        (Some (JStr i), Some (JNum c)) \<Rightarrow> Some (i, c)
      | _ \<Rightarrow> None)"
| "parse_match _ = None"

fun ProductMatchSchema :: "jval \<Rightarrow> ((string \<times> rat) list \<times> bool) option" where
  "ProductMatchSchema (JObj o1) =
     (case map_of o1 ''matches'' of
        Some (JArr ms) \<Rightarrow>
          (if list_all (\<lambda>m. parse_match m \<noteq> None) ms then
             (case map_of o1 ''isReference'' of
                None \<Rightarrow> Some (List.map_filter parse_match ms, False)
              | Some (JBool b) \<Rightarrow> Some (List.map_filter parse_match ms, b)
              | _ \<Rightarrow> None)
           else None)
      | _ \<Rightarrow> None)"
| "ProductMatchSchema _ = None"

definition matchProductsWithLLM ::
  "env \<Rightarrow> catalog_entry list \<Rightarrow> string \<Rightarrow> exn + (string list \<times> bool)" where
  "matchProductsWithLLM E catalog query =
     (case llm E catalog query of
        None \<Rightarrow> Inl (Error ''LLM call failed'')
      | Some raw \<Rightarrow>
          (case (case json_parse raw of None \<Rightarrow> None | Some json \<Rightarrow> ProductMatchSchema json) of
             None \<Rightarrow> Inr ([], False)
           | Some (ms, ref) \<Rightarrow> Inr (map fst (sort_key (\<lambda>m. - snd m) ms), ref)))"

definition fetchProductsByIds :: "string \<Rightarrow> string list \<Rightarrow> world \<Rightarrow> product_row list" where
  "fetchProductsByIds merchantId ids w =
     (if ids = [] then []
      else
        (let rows = filter (\<lambda>p. product_id p \<in> set ids \<and> product_merchantId p = merchantId) (products w);
             productMap = map_of (rev (map (\<lambda>p. (product_id p, p)) rows))
         in List.map_filter productMap ids))"

section \<open>Suggestions\<close>

record SuggestionPreferences =
  pref_category :: "string option"
  pref_color :: "string option"
  pref_size :: "string option"
  pref_minPrice :: "rat option"
  pref_maxPrice :: "rat option"
  pref_terms :: "string list"

definition stringVal :: "entities \<Rightarrow> string \<Rightarrow> string option" where
  "stringVal e key =
     (case map_of e key of
        Some (JStr s) \<Rightarrow> (if js_trim s \<noteq> [] then Some (js_trim s) else None)
      | _ \<Rightarrow> None)"

definition numberVal :: "entities \<Rightarrow> string \<Rightarrow> rat option" where
  "numberVal e key =
     (case map_of e key of
        Some (JNum x) \<Rightarrow> (if 0 \<le> x then Some x else None)
      | Some (JStr s) \<Rightarrow>
          (case js_Number s of Some x \<Rightarrow> (if 0 \<le> x then Some x else None) | None \<Rightarrow> None)
      | _ \<Rightarrow> None)"

definition buildSuggestionPreferences :: "entities \<Rightarrow> SuggestionPreferences" where
  "buildSuggestionPreferences e =
     \<lparr>pref_category = stringVal e ''category'', pref_color = stringVal e ''color'',
      pref_size = stringVal e ''size'', pref_minPrice = numberVal e ''minPrice'',
      pref_maxPrice = numberVal e ''maxPrice'',
      pref_terms =
        List.map_filter (stringVal e) [''category'', ''color'', ''size''] @
        (case stringVal e ''preferences'' of Some s \<Rightarrow> [s] | None \<Rightarrow> [])\<rparr>"

text \<open>A JavaScript \<open>Set\<close> keeps the first insertion of each element.\<close>

definition set_add :: "'a list \<Rightarrow> 'a \<Rightarrow> 'a list" where
  "set_add xs x = (if x \<in> set xs then xs else xs @ [x])"

definition memoryExclusionIds :: "memory \<Rightarrow> string option \<Rightarrow> string list" where
  "memoryExclusionIds mem currentProductId =
     (let entries = coalesce (lastProductResults mem) [] @ coalesce (rejectedProducts mem) [];
          ids = foldl set_add [] (filter (\<lambda>i. i \<noteq> []) (map ref_id entries))
      in (case currentProductId of
            Some i \<Rightarrow> (if i \<noteq> [] then set_add ids i else ids)
          | None \<Rightarrow> ids))"

definition buildProductWhere ::
  "env \<Rightarrow> string \<Rightarrow> SuggestionPreferences \<Rightarrow> string list \<Rightarrow> product_row \<Rightarrow> bool" where
  "buildProductWhere E merchantId prefs excludeIds p \<longleftrightarrow>
     product_merchantId p = merchantId \<and> product_agentEnabled p \<and>
     (excludeIds = [] \<or> product_id p \<notin> set excludeIds) \<and>
     (case pref_category prefs of
        Some c \<Rightarrow> c = [] \<or> (case product_category p of Some pc \<Rightarrow> icontains E pc c | None \<Rightarrow> False)
      | None \<Rightarrow> True) \<and>
     (case pref_minPrice prefs of Some x \<Rightarrow> x \<le> product_price p | None \<Rightarrow> True) \<and>
     (case pref_maxPrice prefs of Some x \<Rightarrow> product_price p \<le> x | None \<Rightarrow> True) \<and>
     list_all (\<lambda>term. icontains E (product_name p) term \<or> icontains E (product_description p) term)
       (filter (\<lambda>term. js_trim term \<noteq> []) (pref_terms prefs))"

definition buildSuggestionCatalog ::
  "env \<Rightarrow> string \<Rightarrow> SuggestionPreferences \<Rightarrow> string list \<Rightarrow> world \<Rightarrow> catalog_entry list" where
  "buildSuggestionCatalog E merchantId prefs excludeIds w =
     map entry_of (newest 200 (buildProductWhere E merchantId prefs excludeIds) w)"

definition recentProducts :: "string \<Rightarrow> string list \<Rightarrow> nat \<Rightarrow> world \<Rightarrow> product_row list" where
  "recentProducts merchantId excludeIds limit w =
     newest limit
       (\<lambda>p. product_merchantId p = merchantId \<and> product_agentEnabled p \<and>
            (excludeIds = [] \<or> product_id p \<notin> set excludeIds)) w"

section \<open>Facts\<close>

lemma set_newest: "p \<in> set (newest n P w) \<Longrightarrow> p \<in> set (products w) \<and> P p"
  by (auto simp: newest_def dest: in_set_takeD)

lemma length_newest: "length (newest n P w) \<le> n"
  by (simp add: newest_def)

lemma newest_sorted: "sorted_wrt (\<lambda>p q. product_createdAt q \<le> product_createdAt p) (newest n P w)"
proof -
  have "sorted (map (\<lambda>p. - product_createdAt p) (newest n P w))"
    by (simp add: newest_def take_map [symmetric])
  then show ?thesis by (simp add: sorted_map)
qed

lemma map_filter_Some: "y \<in> set (List.map_filter f xs) \<longleftrightarrow> (\<exists>x \<in> set xs. f x = Some y)"
  by (force simp: map_filter_def)

lemma map_of_rev_rows:
  "map_of (rev (map (\<lambda>p. (product_id p, p)) rows)) i = Some p \<Longrightarrow> p \<in> set rows \<and> product_id p = i"
  by (auto dest: map_of_SomeD)

lemma set_fetchProductsByIds:
  "p \<in> set (fetchProductsByIds m ids w) \<Longrightarrow>
   p \<in> set (products w) \<and> product_merchantId p = m \<and> product_id p \<in> set ids"
  by (auto simp: fetchProductsByIds_def Let_def map_filter_Some split: if_splits dest!: map_of_rev_rows)

text \<open>With the catalogue's ids unique, fetching by ids looks each id up and keeps their order.\<close>

lemma map_of_rev_distinct:
  assumes "distinct (map fst xs)"
  shows "map_of (rev xs) k = map_of xs k"
proof -
  have "map_of (rev xs) k = Some v \<longleftrightarrow> map_of xs k = Some v" for v
    using assms by (simp add: map_of_eq_Some_iff rev_map [symmetric])
  then show ?thesis by (metis not_Some_eq)
qed

lemma map_of_rows: "map_of (map (\<lambda>p. (k p, p)) rows) i = find_first (\<lambda>p. k p = i) rows"
  by (induction rows) (auto simp: find_first_def)

lemma fetchProductsByIds_lookup:
  assumes "distinct (map product_id (products w))"
  shows "fetchProductsByIds m ids w =
    List.map_filter (\<lambda>i. find_first (\<lambda>p. product_id p = i \<and> product_merchantId p = m) (products w)) ids"
proof -
  let ?rows = "filter (\<lambda>p. product_id p \<in> set ids \<and> product_merchantId p = m) (products w)"
  have "distinct (map fst (map (\<lambda>p. (product_id p, p)) ?rows))"
    using assms by (simp add: comp_def distinct_map_filter)
  then have eq: "map_of (rev (map (\<lambda>p. (product_id p, p)) ?rows)) i =
      find_first (\<lambda>p. product_id p = i) ?rows" for i
    using map_of_rows [of product_id ?rows i] by (simp add: map_of_rev_distinct)
  have "find_first (\<lambda>p. product_id p = i) ?rows =
      find_first (\<lambda>p. product_id p = i \<and> product_merchantId p = m) (products w)" if "i \<in> set ids" for i
    unfolding find_first_filter using that by (intro find_first_cong) auto
  then show ?thesis
    unfolding fetchProductsByIds_def Let_def eq by (auto simp: map_filter_def cong: map_cong filter_cong)
qed

lemma set_foldl_set_add: "set (foldl set_add xs ys) = set xs \<union> set ys"
  by (induction ys arbitrary: xs) (auto simp: set_add_def)

lemma distinct_foldl_set_add: "distinct xs \<Longrightarrow> distinct (foldl set_add xs ys)"
  by (induction ys arbitrary: xs) (auto simp: set_add_def)

lemma set_memoryExclusionIds:
  "set (memoryExclusionIds mem c) =
     {i. i \<noteq> [] \<and> (c = Some i \<or>
        (\<exists>r \<in> set (coalesce (lastProductResults mem) []) \<union> set (coalesce (rejectedProducts mem) []).
           ref_id r = i))}"
  by (auto simp: memoryExclusionIds_def Let_def set_foldl_set_add set_add_def split: option.splits if_splits)

lemma distinct_memoryExclusionIds: "distinct (memoryExclusionIds mem c)"
  by (auto simp: memoryExclusionIds_def Let_def distinct_foldl_set_add set_add_def split: option.splits)

end
