(* ===== verification/Create_Once.thy ===== *)
theory Create_Once
  imports Prelude
begin

text \<open>
  \<open>back/src/modules/ai/tools/createOrderOnce.ts\<close>: one order per idempotency key.  The code takes its
  database steps as arguments (\<open>CreateOnceDeps\<close>); here they are the fields of a record over an
  arbitrary state.  A step that throws returns \<open>Inl\<close> of the error.  The two arguments of type
  \<open>'s \<Rightarrow> 's\<close> are what parallel calls do to the state at the two places where the function waits
  between steps that read and steps that write: after the first \<open>findExisting\<close>, and between a failed
  \<open>create\<close> and the second \<open>findExisting\<close>.

  The locale \<open>create_once\<close> states what the comments of \<open>CreateOnceDeps\<close> promise of the steps; the
  lemmas inside it say what the function guarantees whoever provides them.  It is interpreted on the
  steps \<open>createOrder\<close> passes in the theory \<open>Tools\<close>.
\<close>

datatype ('o, 'f) CreateStep = StepOk 'o | StepFail 'f

datatype ('o, 'f) CreateOnceResult = OnceOk 'o bool | OnceFail 'f

record ('s, 'o, 'f, 'e) CreateOnceDeps =
  findExisting :: "'s \<Rightarrow> 'o option"
  create :: "'s \<Rightarrow> ('e + ('o, 'f) CreateStep) \<times> 's"
  isDuplicateError :: "'e \<Rightarrow> bool"
  enqueue :: "string \<Rightarrow> 's \<Rightarrow> 's"
  orderId :: "'o \<Rightarrow> string"
  orderPending :: "'o \<Rightarrow> bool"

definition finish ::
  "('s, 'o, 'f, 'e) CreateOnceDeps \<Rightarrow> 'o \<Rightarrow> bool \<Rightarrow> 's \<Rightarrow> ('e + ('o, 'f) CreateOnceResult) \<times> 's" where
  "finish deps order created s =
     (Inr (OnceOk order created),
      if orderPending deps order then enqueue deps (orderId deps order) s else s)"

definition createOrderOnce ::
  "('s, 'o, 'f, 'e) CreateOnceDeps \<Rightarrow> ('s \<Rightarrow> 's) \<Rightarrow> ('s \<Rightarrow> 's) \<Rightarrow> 's \<Rightarrow>
   ('e + ('o, 'f) CreateOnceResult) \<times> 's" where
  "createOrderOnce deps par1 par2 s =
     (case findExisting deps s of
        Some existing \<Rightarrow> finish deps existing False s
      | None \<Rightarrow>
          (case create deps (par1 s) of
             (Inl err, s1) \<Rightarrow>
               if \<not> isDuplicateError deps err then (Inl err, s1)
               else (let s2 = par2 s1 in
                 (case findExisting deps s2 of
                    None \<Rightarrow> (Inl err, s2)
                  | Some winner \<Rightarrow> finish deps winner False s2))
           | (Inr (StepFail f), s1) \<Rightarrow> (Inr (OnceFail f), s1)
           | (Inr (StepOk order), s1) \<Rightarrow> finish deps order True s1))"

section \<open>The contract of the steps\<close>

text \<open>
  \<open>rows s\<close> is the number of orders of the state and \<open>inv\<close> what the schema keeps.  A \<open>create\<close> that does
  not succeed leaves the state as it was (it is one transaction); one that succeeds adds one order,
  which \<open>findExisting\<close> then finds when the call has a key (\<open>keyed\<close>); queueing does not touch the
  orders and queueing the same order twice is queueing it once.
\<close>

locale create_once =
  fixes deps :: "('s, 'o, 'f, 'e) CreateOnceDeps"
    and rows :: "'s \<Rightarrow> nat"
    and inv :: "'s \<Rightarrow> bool"
    and keyed :: bool
  assumes create_fails: "create deps s = (r, s') \<Longrightarrow> (\<nexists>x. r = Inr (StepOk x)) \<Longrightarrow> s' = s"
    and create_adds: "inv s \<Longrightarrow> create deps s = (Inr (StepOk x), s') \<Longrightarrow> rows s' = Suc (rows s) \<and> inv s'"
    and create_found: "inv s \<Longrightarrow> keyed \<Longrightarrow> create deps s = (Inr (StepOk x), s') \<Longrightarrow> findExisting deps s' = Some x"
    and enqueue_find: "findExisting deps (enqueue deps i s) = findExisting deps s"
    and enqueue_rows: "rows (enqueue deps i s) = rows s"
    and enqueue_inv: "inv (enqueue deps i s) = inv s"
    and enqueue_twice: "enqueue deps i (enqueue deps i s) = enqueue deps i s"
begin

lemma finish_facts:
  assumes "finish deps x b s = (r, s')"
  shows "r = Inr (OnceOk x b)" "findExisting deps s' = findExisting deps s" "rows s' = rows s"
    "inv s' = inv s"
  using assms by (auto simp: finish_def enqueue_find enqueue_rows enqueue_inv split: if_splits)

lemma finish_twice:
  assumes "finish deps x b s = (r, s')"
  shows "finish deps x c s' = (Inr (OnceOk x c), s')"
  using assms by (auto simp: finish_def enqueue_twice split: if_splits)

text \<open>The three ways the function returns.\<close>

lemma once_existing:
  "findExisting deps s = Some x \<Longrightarrow> createOrderOnce deps p q s = finish deps x False s"
  by (simp add: createOrderOnce_def)

lemma once_created:
  "findExisting deps s = None \<Longrightarrow> create deps (p s) = (Inr (StepOk x), s1) \<Longrightarrow>
   createOrderOnce deps p q s = finish deps x True s1"
  by (simp add: createOrderOnce_def)

lemma once_lost_race:
  "findExisting deps s = None \<Longrightarrow> create deps (p s) = (Inl err, s1) \<Longrightarrow> isDuplicateError deps err \<Longrightarrow>
   findExisting deps (q s1) = Some x \<Longrightarrow> createOrderOnce deps p q s = finish deps x False (q s1)"
  by (simp add: createOrderOnce_def Let_def)

text \<open>
  The number of orders after a call alone: one more exactly when it reports \<open>created\<close>, otherwise the
  same.
\<close>

lemma once_rows:
  assumes "inv s" and "createOrderOnce deps id id s = (r, s')"
  shows "rows s' = (case r of Inr (OnceOk _ True) \<Rightarrow> Suc (rows s) | _ \<Rightarrow> rows s)"
proof (cases "findExisting deps s")
  case (Some x)
  then show ?thesis using assms(2) once_existing finish_facts by fastforce
next
  case None
  obtain c s1 where c: "create deps s = (c, s1)" by fastforce
  show ?thesis
  proof (cases "\<exists>x. c = Inr (StepOk x)")
    case True
    then obtain x where "c = Inr (StepOk x)" ..
    with c None assms show ?thesis
      using once_created [of s id] create_adds finish_facts by fastforce
  next
    case False
    with c have "s1 = s" using create_fails by blast
    with c False None assms show ?thesis
      by (auto simp: createOrderOnce_def Let_def split: sum.splits CreateStep.splits if_splits)
  qed
qed

text \<open>A call with a key that returned an order: any later call returns that order and changes nothing.\<close>

lemma once_then_found:
  assumes "inv s" and "keyed" and "createOrderOnce deps id id s = (Inr (OnceOk x b), s')"
  shows "findExisting deps s' = Some x"
proof (cases "findExisting deps s")
  case (Some y)
  then show ?thesis using assms(3) once_existing [OF Some] finish_facts by (metis CreateOnceResult.inject(1) Inr_inject)
next
  case None
  obtain c s1 where c: "create deps s = (c, s1)" by fastforce
  show ?thesis
  proof (cases "\<exists>y. c = Inr (StepOk y)")
    case True
    then obtain y where y: "c = Inr (StepOk y)" ..
    then have f: "finish deps y True s1 = (Inr (OnceOk x b), s')"
      using assms(3) c None by (simp add: createOrderOnce_def)
    then show ?thesis
      using finish_facts [OF f] create_found [OF assms(1,2)] c y by fastforce
  next
    case False
    with c have "s1 = s" using create_fails by blast
    with c False None assms show ?thesis
      by (auto simp: createOrderOnce_def Let_def split: sum.splits CreateStep.splits if_splits)
  qed
qed

lemma once_repeat:
  assumes "inv s" and "keyed" and "createOrderOnce deps id id s = (Inr (OnceOk x b), s')"
  shows "\<exists>s''. createOrderOnce deps p q s' = (Inr (OnceOk x False), s'') \<and> rows s'' = rows s' \<and>
           findExisting deps s'' = Some x"
proof -
  have found: "findExisting deps s' = Some x" using once_then_found assms by blast
  then show ?thesis
    using once_existing [OF found, of p q] finish_facts [OF surjective_pairing]
    by (metis finish_def fst_conv surjective_pairing)
qed

text \<open>
  Two calls with the same key at once: the second looked before the first wrote and then finds the
  index taken.  It returns the order of the first and adds none.
\<close>

lemma once_parallel:
  assumes "inv s" and "keyed" and "findExisting deps s = None"
    and "createOrderOnce deps id id s = (Inr (OnceOk x b), s')"
    and "create deps s' = (Inl err, s'')" and "isDuplicateError deps err"
  shows "createOrderOnce deps (\<lambda>_. s') id s = finish deps x False s'"
proof -
  have "s'' = s'" using create_fails [OF assms(5)] by simp
  moreover have "findExisting deps s' = Some x" using once_then_found assms(1,2,4) by blast
  ultimately show ?thesis using once_lost_race [of s "\<lambda>_. s'" err s' id x] assms by simp
qed

end

end
