(* ===== verification/Tools.thy ===== *)
theory Tools
  imports Search_Helpers Create_Once
begin

text \<open>
  The tool handlers of \<open>back/src/modules/ai/tools/registry.ts\<close> and \<open>executeTool\<close>.  A handler takes the
  environment, the entities and the state, and returns its result (\<open>Inl\<close> when it throws) with the
  state it leaves.  A prisma transaction that throws leaves the state as it was; outside a
  transaction the changes before a throw stay.
\<close>

section \<open>Results\<close>

datatype ToolOutcome = SUCCESS | NOT_FOUND | AMBIGUOUS

record ToolResult =
  tr_success :: bool
  tr_data :: "entities option"
  tr_error :: "string option"
  tr_outcome :: "ToolOutcome option"

definition ok :: "entities \<Rightarrow> ToolResult" where
  "ok d = \<lparr>tr_success = True, tr_data = Some d, tr_error = None, tr_outcome = None\<rparr>"

definition failure :: "string \<Rightarrow> ToolResult" where
  "failure msg = \<lparr>tr_success = False, tr_data = None, tr_error = Some msg, tr_outcome = None\<rparr>"

definition not_found :: "entities option \<Rightarrow> string \<Rightarrow> ToolResult" where
  "not_found d msg =
     \<lparr>tr_success = False, tr_data = d, tr_error = Some msg, tr_outcome = Some NOT_FOUND\<rparr>"

type_synonym handler = "env \<Rightarrow> entities \<Rightarrow> world \<Rightarrow> (exn + ToolResult) \<times> world"

definition status_text :: "OrderStatus \<Rightarrow> string" where
  "status_text s =
     (case s of PENDING \<Rightarrow> ''PENDING'' | CONFIRMED \<Rightarrow> ''CONFIRMED'' | SHIPPED \<Rightarrow> ''SHIPPED''
      | DELIVERED \<Rightarrow> ''DELIVERED'' | CANCELLED \<Rightarrow> ''CANCELLED'')"

section \<open>Communes\<close>

record CommuneValidation =
  cv_valid :: bool
  cv_commune :: "string option"
  cv_wilaya :: "string option"
  cv_suggestions :: "string list option"

definition wilaya_matches :: "env \<Rightarrow> string option \<Rightarrow> commune_row \<Rightarrow> bool" where
  "wilaya_matches E wilaya c =
     (case wilaya of Some v \<Rightarrow> v = [] \<or> ieq E (commune_wilaya c) v | None \<Rightarrow> True)"

definition with_wilaya :: "commune_row \<Rightarrow> string" where
  "with_wilaya c = commune_name c @ '' ('' @ commune_wilaya c @ '')''"

definition validateCommune :: "env \<Rightarrow> string \<Rightarrow> string option \<Rightarrow> world \<Rightarrow> CommuneValidation" where
  "validateCommune E name wilaya w =
     (case find_first (\<lambda>c. ieq E (commune_name c) name \<and> wilaya_matches E wilaya c) (communes w) of
        Some exact \<Rightarrow>
          \<lparr>cv_valid = True, cv_commune = Some (commune_name exact),
           cv_wilaya = Some (commune_wilaya exact), cv_suggestions = None\<rparr>
      | None \<Rightarrow>
          (let fuzzy = find_many (\<lambda>c. icontains E (commune_name c) name \<and> wilaya_matches E wilaya c) 3
                         (communes w)
           in if fuzzy \<noteq> [] then
                \<lparr>cv_valid = False, cv_commune = None, cv_wilaya = None,
                 cv_suggestions =
                   Some (map (\<lambda>c. if coalesce wilaya [] \<noteq> [] then commune_name c else with_wilaya c) fuzzy)\<rparr>
              else
                (let allSimilar = find_many (\<lambda>c. icontains E (commune_name c) name) 3 (communes w)
                 in if allSimilar \<noteq> [] then
                      \<lparr>cv_valid = False, cv_commune = None, cv_wilaya = None,
                       cv_suggestions = Some (map with_wilaya allSimilar)\<rparr>
                    else \<lparr>cv_valid = False, cv_commune = None, cv_wilaya = None, cv_suggestions = None\<rparr>)))"

text \<open>The message for a commune that does not validate (\<open>createOrder\<close> and \<open>modifyOrder\<close> share it).\<close>

definition commune_error :: "string \<Rightarrow> string \<Rightarrow> CommuneValidation \<Rightarrow> string" where
  "commune_error commune wilaya cv =
     (case cv_suggestions cv of
        Some (s # ss) \<Rightarrow>
          ''Baladia \"'' @ commune @ ''\" makanach. Chno khatrek? '' @ join '', '' (s # ss)
      | _ \<Rightarrow> ''Baladia \"'' @ commune @ ''\" makanach f l'' @ [CHR 0x27] @ ''wilaya dyal '' @ wilaya @ ''.'')"

definition parseOptionalJson :: "string option \<Rightarrow> jval option" where
  "parseOptionalJson v = (case v of None \<Rightarrow> None | Some s \<Rightarrow> if s = [] then None else json_parse s)"

definition formatProducts :: "product_row list \<Rightarrow> jval" where
  "formatProducts ps =
     JArr (map (\<lambda>p. JObj [(''id'', JStr (product_id p)), (''name'', JStr (product_name p)),
                          (''price'', JNum (product_price p)), (''currency'', JStr (product_currency p)),
                          (''stockStatus'', JStr (product_stockStatus p))]) ps)"

section \<open>Read tools\<close>

definition search_miss :: "string \<Rightarrow> ToolResult" where
  "search_miss query =
     not_found (Some [(''query'', JStr query)])
       (''No product matching \"'' @ query @ ''\" exists in the store'' @ [CHR 0x27] @ ''s catalog.'')"

definition searchProducts :: handler where
  "searchProducts E e w =
     (case safe_parse SearchProductsArgsSchema e of
        None \<Rightarrow> (Inr (failure ''No product name provided to search for''), w)
      | Some a \<Rightarrow>
          (let query = js_trim (req_str ''product'' a); merchantId = req_str ''merchantId'' a in
           if query = [] then (Inr (failure ''No product name provided to search for''), w)
           else
             (let fastResults = find_many (\<lambda>p. product_merchantId p = merchantId \<and>
                    icontains E (product_name p) query) 5 (products w) in
              if fastResults \<noteq> [] then (Inr (ok [(''products'', formatProducts fastResults)]), w)
              else
                (let catalog = buildProductCatalog merchantId w in
                 if catalog = [] then (Inr (search_miss query), w)
                 else
                   (case matchProductsWithLLM E catalog query of
                      Inl err \<Rightarrow> (Inl err, w)
                    | Inr (ids, _) \<Rightarrow>
                        (if ids \<noteq> [] \<and> fetchProductsByIds merchantId ids w \<noteq> [] then
                           (Inr (ok [(''products'',
                              formatProducts (take 5 (fetchProductsByIds merchantId ids w)))]), w)
                         else (Inr (search_miss query), w)))))))"

definition scoped_order :: "entities \<Rightarrow> order_row \<Rightarrow> bool" where
  "scoped_order a r \<longleftrightarrow>
     order_id r = req_str ''orderId'' a \<and> order_merchantId r = req_str ''merchantId'' a \<and>
     order_customerId r = req_str ''customerId'' a"

definition getOrderStatus :: handler where
  "getOrderStatus E e w =
     (case safe_parse GetOrderStatusArgsSchema e of
        None \<Rightarrow> (Inr (failure ''No order provided to check status for''), w)
      | Some a \<Rightarrow>
          (case find_first (scoped_order a) (orders w) of
             None \<Rightarrow> (Inr (not_found None ''Order not found''), w)
           | Some r \<Rightarrow>
               (Inr (ok [(''orderId'', JStr (order_id r)), (''status'', JStr (status_text (order_status r))),
                         (''trackingNumber'', opt_str (order_trackingNumber r))]), w)))"

definition cost_for :: "env \<Rightarrow> string \<Rightarrow> string \<Rightarrow> world \<Rightarrow> cost_row option" where
  "cost_for E merchantId wilaya w =
     find_first (\<lambda>c. cost_merchantId c = merchantId \<and> ieq E (cost_wilaya c) wilaya) (wilayaDeliveryCosts w)"

definition calculateShipping :: handler where
  "calculateShipping E e w =
     (case safe_parse CalculateShippingArgsSchema e of
        None \<Rightarrow> (Inr (failure ''No wilaya provided to calculate shipping for''), w)
      | Some a \<Rightarrow>
          (case cost_for E (req_str ''merchantId'' a) (req_str ''wilaya'' a) w of
             None \<Rightarrow>
               (Inr (not_found None
                  (''No delivery cost configured for \"'' @ req_str ''wilaya'' a @ ''\"'')), w)
           | Some c \<Rightarrow> (Inr (ok [(''wilaya'', JStr (cost_wilaya c)), (''cost'', JNum (cost_cost c))]), w)))"

text \<open>A product of the merchant by id, and by a part of its name.\<close>

definition product_by_id :: "string \<Rightarrow> string \<Rightarrow> world \<Rightarrow> product_row option" where
  "product_by_id i merchantId w =
     find_first (\<lambda>p. product_id p = i \<and> product_merchantId p = merchantId) (products w)"

definition product_by_name :: "env \<Rightarrow> string \<Rightarrow> string \<Rightarrow> world \<Rightarrow> product_row option" where
  "product_by_name E name merchantId w =
     find_first (\<lambda>p. product_merchantId p = merchantId \<and> icontains E (product_name p) name) (products w)"

definition selectProduct :: handler where
  "selectProduct E e w =
     (case safe_parse SelectProductArgsSchema e of
        None \<Rightarrow> (Inr (failure ''No product name or product id provided to select''), w)
      | Some a \<Rightarrow>
          (let merchantId = req_str ''merchantId'' a;
               product =
                 (if has_truthy ''productId'' a then product_by_id (req_str ''productId'' a) merchantId w
                  else if has_truthy ''productName'' a
                       then product_by_name E (req_str ''productName'' a) merchantId w
                       else None)
           in (case product of
                 None \<Rightarrow> (Inr (not_found None ''Product not found''), w)
               | Some p \<Rightarrow>
                   (Inr (ok [(''productId'', JStr (product_id p)), (''productName'', JStr (product_name p)),
                             (''price'', JNum (product_price p)), (''currency'', JStr (product_currency p)),
                             (''stockStatus'', JStr (product_stockStatus p)),
                             (''description'', JStr (product_description p))]), w))))"

definition getProductDetails :: handler where
  "getProductDetails E e w =
     (case safe_parse GetProductDetailsArgsSchema e of
        None \<Rightarrow> (Inr (failure ''Missing product details context''), w)
      | Some a \<Rightarrow>
          (let merchantId = req_str ''merchantId'' a;
               product =
                 (if has_truthy ''productName'' a
                  then product_by_name E (req_str ''productName'' a) merchantId w
                  else if has_truthy ''productId'' a
                       then product_by_id (req_str ''productId'' a) merchantId w
                       else None)
           in (case product of
                 None \<Rightarrow> (Inr (not_found None ''Product not found''), w)
               | Some p \<Rightarrow>
                   (Inr (ok [(''productId'', JStr (product_id p)), (''productName'', JStr (product_name p)),
                             (''description'', JStr (product_description p)),
                             (''price'', JNum (product_price p)), (''currency'', JStr (product_currency p)),
                             (''stockStatus'', JStr (product_stockStatus p)),
                             (''category'', opt_str (product_category p))]), w))))"

text \<open>
  What the queries make of the parsed \<open>excludedProductIds\<close>: a value without a truthy \<open>length\<close> excludes
  nothing, an array of strings excludes them, and prisma rejects anything else given to \<open>notIn\<close>.
\<close>

definition str_of :: "jval \<Rightarrow> string option" where
  "str_of v = (case v of JStr s \<Rightarrow> Some s | _ \<Rightarrow> None)"

fun exclude_filter :: "jval \<Rightarrow> exn + string list" where
  "exclude_filter (JArr vs) =
     (if list_all (\<lambda>v. str_of v \<noteq> None) vs then Inr (List.map_filter str_of vs)
      else Inl (Error ''PrismaClientValidationError''))"
| "exclude_filter (JStr s) = (if s = [] then Inr [] else Inl (Error ''PrismaClientValidationError''))"
| "exclude_filter (JObj o1) =
     (if has_truthy ''length'' o1 then Inl (Error ''PrismaClientValidationError'') else Inr [])"
| "exclude_filter _ = Inr []"

definition hasPreferences :: "SuggestionPreferences \<Rightarrow> bool" where
  "hasPreferences prefs \<longleftrightarrow>
     pref_terms prefs \<noteq> [] \<or> pref_category prefs \<noteq> None \<or> pref_minPrice prefs \<noteq> None \<or>
     pref_maxPrice prefs \<noteq> None"

text \<open>The ranked candidates, or the first five of the catalogue when the ranking yields nothing.\<close>

definition ranked_products :: "env \<Rightarrow> string \<Rightarrow> catalog_entry list \<Rightarrow> string \<Rightarrow> world \<Rightarrow> exn + product_row list" where
  "ranked_products E merchantId catalog query w =
     (case matchProductsWithLLM E catalog query of
        Inl err \<Rightarrow> Inl err
      | Inr (ids, _) \<Rightarrow>
          (let ranked = (if ids \<noteq> [] then fetchProductsByIds merchantId ids w else []) in
           Inr (if ranked \<noteq> [] then take 5 ranked
                else fetchProductsByIds merchantId (map entry_id (take 5 catalog)) w)))"

definition suggestion_result :: "product_row list \<Rightarrow> string \<Rightarrow> ToolResult" where
  "suggestion_result ps basedOn =
     (if ps = [] then not_found None ''No products available to recommend right now.''
      else ok [(''products'', formatProducts ps), (''recommended'', JBool True), (''basedOn'', JStr basedOn)])"

definition suggestProducts :: handler where
  "suggestProducts E e w =
     (case safe_parse SuggestProductsArgsSchema e of
        None \<Rightarrow> (Inr (failure ''Missing suggestion context''), w)
      | Some a \<Rightarrow>
          (let prefs = buildSuggestionPreferences a; merchantId = req_str ''merchantId'' a in
           (case exclude_filter (coalesce (parseOptionalJson (str_arg ''excludedProductIds'' a)) (JArr [])) of
              Inl err \<Rightarrow> (Inl err, w)
            | Inr excludeIds \<Rightarrow>
                (if \<not> hasPreferences prefs then
                   (Inr (suggestion_result (recentProducts merchantId excludeIds 5 w) ''popular''), w)
                 else
                   (let catalog = buildSuggestionCatalog E merchantId prefs excludeIds w;
                        joined = join '', '' (pref_terms prefs);
                        query = (if joined \<noteq> [] then joined else ''recommended product'')
                    in if catalog = [] then
                         (Inr (not_found None ''No products in the store match those preferences.''), w)
                       else
                         (case ranked_products E merchantId catalog query w of
                            Inl err \<Rightarrow> (Inl err, w)
                          | Inr ps \<Rightarrow> (Inr (suggestion_result ps ''preferences''), w)))))))"


section \<open>Write tools\<close>

text \<open>\<open>prisma.conversation.update(\{ where: \{ id \}, data \})\<close>.\<close>

definition set_conversation ::
  "string \<Rightarrow> (conversation_row \<Rightarrow> conversation_row) \<Rightarrow> world \<Rightarrow> exn + (conversation_row \<times> world)" where
  "set_conversation i f w = update_conversation (\<lambda>c. conv_id c = i) f w"

text \<open>
  The common end of \<open>confirmOrder\<close> and \<open>cancelOrder\<close>: set the order's status, then the state of the
  conversation; a \<open>P2025\<close> of either is answered with the same message, any other error is thrown.
\<close>

definition set_order_status ::
  "entities \<Rightarrow> OrderStatus \<Rightarrow> ConversationState \<Rightarrow> world \<Rightarrow> (exn + ToolResult) \<times> world" where
  "set_order_status a st cst w =
     (case update_order (scoped_order a) (\<lambda>r. r\<lparr>order_status := st\<rparr>) w of
        Inl P2025 \<Rightarrow> (Inr (failure ''Order not found''), w)
      | Inl err \<Rightarrow> (Inl err, w)
      | Inr (r, w1) \<Rightarrow>
          (case set_conversation (req_str ''conversationId'' a) (\<lambda>c. c\<lparr>conv_state := cst\<rparr>) w1 of
             Inl P2025 \<Rightarrow> (Inr (failure ''Order not found''), w1)
           | Inl err \<Rightarrow> (Inl err, w1)
           | Inr (_, w2) \<Rightarrow>
               (Inr (ok [(''orderId'', JStr (order_id r)), (''productName'', JStr (order_productName r)),
                         (''status'', JStr (status_text (order_status r)))]), w2)))"

definition confirmOrder :: handler where
  "confirmOrder E e w =
     (case safe_parse ConfirmOrderArgsSchema e of
        None \<Rightarrow> (Inr (failure ''Missing order confirmation parameters''), w)
      | Some a \<Rightarrow> set_order_status a CONFIRMED (the (TOOL_STATE_TRANSITIONS ConfirmOrder)) w)"

definition cancelOrder :: handler where
  "cancelOrder E e w =
     (case safe_parse CancelOrderArgsSchema e of
        None \<Rightarrow> (Inr (failure ''Missing order cancellation parameters''), w)
      | Some a \<Rightarrow>
          (case find_first (scoped_order a) (orders w) of
             None \<Rightarrow> (Inr (failure ''Order not found''), w)
           | Some existing \<Rightarrow>
               (if order_status existing = CANCELLED then (Inr (failure ''Order is already cancelled''), w)
                else set_order_status a CANCELLED (the (TOOL_STATE_TRANSITIONS CancelOrder)) w)))"

text \<open>\<open>createOrder\<close>: the transaction, the steps it passes to \<open>createOrderOnce\<close>, and the handler.\<close>

definition order_transaction ::
  "env \<Rightarrow> order_input \<Rightarrow> string \<Rightarrow> world \<Rightarrow> (exn + order_row) \<times> world" where
  "order_transaction E d conversationId w =
     (case create_order E d w of
        Inl err \<Rightarrow> (Inl err, w)
      | Inr (created, w1) \<Rightarrow>
          (case update_customer (\<lambda>c. customer_id c = oi_customerId d)
                  (\<lambda>c. c\<lparr>customer_wilaya := Some (oi_wilaya d), customer_commune := Some (oi_commune d)\<rparr>) w1 of
             Inl err \<Rightarrow> (Inl err, w)
           | Inr (_, w2) \<Rightarrow>
               (case set_conversation conversationId
                       (\<lambda>c. c\<lparr>conv_currentOrderId := Some (order_id created),
                              conv_state := ST_WAITING_CONFIRMATION\<rparr>) w2 of
                  Inl err \<Rightarrow> (Inl err, w)
                | Inr (_, w3) \<Rightarrow> (Inr created, w3))))"

definition platformOrderId_for :: "env \<Rightarrow> string option \<Rightarrow> string" where
  "platformOrderId_for E key =
     (case key of
        Some k \<Rightarrow> (if k \<noteq> [] then ''AGENT-'' @ k else ''FAKE-'' @ num_text E (of_int (clock E)))
      | None \<Rightarrow> ''FAKE-'' @ num_text E (of_int (clock E)))"

definition create_step ::
  "env \<Rightarrow> entities \<Rightarrow> string \<Rightarrow> world \<Rightarrow> (exn + (order_row, ToolResult) CreateStep) \<times> world" where
  "create_step E a platformOrderId w =
     (let merchantId = req_str ''merchantId'' a; wilaya = req_str ''wilaya'' a;
          communeCheck = validateCommune E (req_str ''commune'' a) (Some wilaya) w
      in if \<not> cv_valid communeCheck then
           (Inr (StepFail (failure (commune_error (req_str ''commune'' a) wilaya communeCheck))), w)
         else
           (case product_by_id (req_str ''productId'' a) merchantId w of
              None \<Rightarrow> (Inr (StepFail (failure ''Product not found. Choose a product first.'')), w)
            | Some product \<Rightarrow>
                (if product_stockStatus product = ''out_of_stock'' then
                   (Inr (StepFail (failure (''Product \"'' @ product_name product @ ''\" is out of stock''))), w)
                 else
                   (let deliveryCostValue =
                          (case cost_for E merchantId wilaya w of Some c \<Rightarrow> cost_cost c | None \<Rightarrow> 0);
                        quantity = req_int ''quantity'' a;
                        totalAmount = product_price product * of_int quantity + deliveryCostValue
                    in (case order_transaction E
                               \<lparr>oi_merchantId = merchantId, oi_customerId = req_str ''customerId'' a,
                                oi_platformOrderId = platformOrderId, oi_wilaya = wilaya,
                                oi_commune = coalesce (cv_commune communeCheck) [],
                                oi_address = str_arg ''address'' a, oi_productId = product_id product,
                                oi_productName = product_name product, oi_quantity = quantity,
                                oi_totalAmount = totalAmount, oi_deliveryCost = deliveryCostValue\<rparr>
                               (req_str ''conversationId'' a) w of
                          (Inl err, w') \<Rightarrow> (Inl err, w')
                        | (Inr order, w') \<Rightarrow> (Inr (StepOk order), w'))))))"

definition find_keyed :: "env \<Rightarrow> entities \<Rightarrow> string option \<Rightarrow> world \<Rightarrow> order_row option" where
  "find_keyed E a key w =
     (if coalesce key [] \<noteq> [] then
        find_first (\<lambda>r. order_merchantId r = req_str ''merchantId'' a \<and>
                        order_customerId r = req_str ''customerId'' a \<and>
                        order_platformOrderId r = platformOrderId_for E key) (orders w)
      else None)"

definition create_deps ::
  "env \<Rightarrow> entities \<Rightarrow> string option \<Rightarrow> (world, order_row, ToolResult, exn) CreateOnceDeps" where
  "create_deps E a key =
     \<lparr>findExisting = find_keyed E a key,
      create = create_step E a (platformOrderId_for E key),
      isDuplicateError = (\<lambda>err. err = P2002),
      enqueue = enqueueOrderJob,
      orderId = order_id,
      orderPending = (\<lambda>r. order_status r = PENDING)\<rparr>"

definition js_round :: "rat \<Rightarrow> int" where
  "js_round x = \<lfloor>x + 1 / 2\<rfloor>"

definition created_result :: "order_row \<Rightarrow> ToolResult" where
  "created_result r =
     ok [(''orderId'', JStr (order_id r)), (''productName'', JStr (order_productName r)),
         (''quantity'', JNum (of_int (order_quantity r))),
         (''price'',
            if order_quantity r = 0 then JNull
            else JNum (of_int (js_round ((order_totalAmount r - order_deliveryCost r) /
                         of_int (order_quantity r) * 100)) / 100)),
         (''totalAmount'', JNum (order_totalAmount r)), (''deliveryCost'', JNum (order_deliveryCost r)),
         (''wilaya'', JStr (order_wilaya r)), (''commune'', JStr (order_commune r)),
         (''address'', opt_str (order_address r))]"

definition createOrder ::
  "env \<Rightarrow> (world \<Rightarrow> world) \<Rightarrow> (world \<Rightarrow> world) \<Rightarrow> string option \<Rightarrow> entities \<Rightarrow> world \<Rightarrow>
   (exn + ToolResult) \<times> world" where
  "createOrder E par1 par2 key e w =
     (case safe_parse CreateOrderArgsSchema e of
        None \<Rightarrow>
          (Inr (failure (''Missing required fields: '' @ join '', '' (map fst (zod_issues E ''createOrder'' e)))), w)
      | Some a \<Rightarrow>
          (case createOrderOnce (create_deps E a key) par1 par2 w of
             (Inl err, w') \<Rightarrow> (Inl err, w')
           | (Inr (OnceFail f), w') \<Rightarrow> (Inr f, w')
           | (Inr (OnceOk order created), w') \<Rightarrow> (Inr (created_result order), w')))"

text \<open>\<open>modifyOrder\<close>: the fields it changes, then the handler.\<close>

definition modified ::
  "int option \<Rightarrow> string option \<Rightarrow> string option \<Rightarrow> rat \<Rightarrow> rat \<Rightarrow> order_row \<Rightarrow> order_row" where
  "modified quantity wilaya commune cost newTotal r =
     r\<lparr>order_quantity := coalesce quantity (order_quantity r),
       order_wilaya := coalesce wilaya (order_wilaya r),
       order_commune := coalesce commune (order_commune r),
       order_deliveryCost := (if wilaya = None then order_deliveryCost r else cost),
       order_totalAmount := newTotal\<rparr>"

definition update_delivery ::
  "string \<Rightarrow> string option \<Rightarrow> string option \<Rightarrow> world \<Rightarrow> exn + world" where
  "update_delivery customerId wilaya commune w =
     (if wilaya = None \<and> commune = None then Inr w
      else (case update_customer (\<lambda>c. customer_id c = customerId)
                   (\<lambda>c. c\<lparr>customer_wilaya := (if wilaya = None then customer_wilaya c else wilaya),
                          customer_commune := (if commune = None then customer_commune c else commune)\<rparr>) w of
              Inl err \<Rightarrow> Inl err
            | Inr (_, w') \<Rightarrow> Inr w'))"

definition modify_commit ::
  "entities \<Rightarrow> order_row \<Rightarrow> string option \<Rightarrow> int \<Rightarrow> rat \<Rightarrow> rat \<Rightarrow> world \<Rightarrow> (exn + ToolResult) \<times> world" where
  "modify_commit a order commune newQuantity cost newTotal w =
     (if \<not> int4_ok newQuantity then (Inl (Error ''value does not fit INT4''), w)
      else
        (case update_order (\<lambda>r. order_id r = order_id order)
                (modified (int_arg ''quantity'' a) (str_arg ''wilaya'' a) commune cost newTotal) w of
           Inl err \<Rightarrow> (Inl err, w)
         | Inr (updated, w1) \<Rightarrow>
             (case update_delivery (req_str ''customerId'' a) (str_arg ''wilaya'' a) (str_arg ''commune'' a) w1 of
                Inl err \<Rightarrow> (Inl err, w1)
              | Inr w2 \<Rightarrow>
                  (Inr (ok [(''orderId'', JStr (order_id updated)),
                            (''productName'', JStr (order_productName updated)),
                            (''quantity'', JNum (of_int (order_quantity updated))),
                            (''wilaya'', JStr (order_wilaya updated)),
                            (''commune'', JStr (order_commune updated)),
                            (''deliveryCost'', JNum cost), (''totalAmount'', JNum newTotal)]), w2))))"

text \<open>The delivery cost of the modified order: looked up again only when the wilaya is given.\<close>

definition modify_cost :: "env \<Rightarrow> entities \<Rightarrow> order_row \<Rightarrow> world \<Rightarrow> rat" where
  "modify_cost E a order w =
     (case str_arg ''wilaya'' a of
        None \<Rightarrow> order_deliveryCost order
      | Some wl \<Rightarrow> (case cost_for E (req_str ''merchantId'' a) wl w of Some c \<Rightarrow> cost_cost c | None \<Rightarrow> 0))"

definition modifyOrder :: handler where
  "modifyOrder E e w =
     (case safe_parse ModifyOrderArgsSchema e of
        None \<Rightarrow> (Inr (failure ''No fields provided to modify''), w)
      | Some a \<Rightarrow>
          (case find_first (\<lambda>r. scoped_order a r \<and> order_status r = PENDING) (orders w) of
             None \<Rightarrow> (Inr (failure ''No pending order found to update''), w)
           | Some order \<Rightarrow>
               (case product_by_id (order_productId order) (req_str ''merchantId'' a) w of
                  None \<Rightarrow> (Inr (failure ''Product for this order no longer exists''), w)
                | Some product \<Rightarrow>
                    (let newQuantity = coalesce (int_arg ''quantity'' a) (order_quantity order);
                         inWilaya = coalesce (str_arg ''wilaya'' a) (order_wilaya order);
                         communeCheck = map_option (\<lambda>c. validateCommune E c (Some inWilaya) w) (str_arg ''commune'' a);
                         cost = modify_cost E a order w;
                         newTotal = product_price product * of_int newQuantity + cost
                     in (case communeCheck of
                           None \<Rightarrow> modify_commit a order None newQuantity cost newTotal w
                         | Some cv \<Rightarrow>
                             (if \<not> cv_valid cv then
                                (Inr (failure (commune_error (req_str ''commune'' a) inWilaya cv)), w)
                              else modify_commit a order (cv_commune cv) newQuantity cost newTotal w))))))"

definition escalation_message :: "customer_row option \<Rightarrow> string \<Rightarrow> string" where
  "escalation_message customer reason =
     ''Le client '' @
     coalesce (or_str (case customer of Some c \<Rightarrow> customer_name c | None \<Rightarrow> None)
                (or_str (case customer of Some c \<Rightarrow> Some (customer_phone c) | None \<Rightarrow> None) (Some ''inconnu''))) [] @
     '' a besoin d'' @ [CHR 0x27] @ ''un agent: '' @ reason"

definition escalation_title :: string where
  "escalation_title = ''Conversation escalad'' @ [CHR 0xC3, CHR 0xA9] @ ''e''"

definition escalateConversation :: handler where
  "escalateConversation E e w =
     (case safe_parse EscalateConversationArgsSchema e of
        None \<Rightarrow> (Inr (failure ''Missing escalation context''), w)
      | Some a \<Rightarrow>
          (case find_first (\<lambda>c. conv_id c = req_str ''conversationId'' a) (conversations w) of
             None \<Rightarrow> (Inr (failure ''Conversation not found''), w)
           | Some conversation \<Rightarrow>
               (if conv_takenOverByHuman conversation then (Inr (ok [(''escalated'', JBool False)]), w)
                else
                  (case set_conversation (req_str ''conversationId'' a)
                          (\<lambda>c. c\<lparr>conv_takenOverByHuman := True, conv_escalatedAt := Some (clock E)\<rparr>) w of
                     Inl err \<Rightarrow> (Inl err, w)
                   | Inr (_, w1) \<Rightarrow>
                       (let customer = find_first (\<lambda>c. customer_id c = req_str ''customerId'' a) (customers w1);
                            w2 = snd (create_notification E (req_str ''merchantId'' a) ''escalation'' escalation_title
                                        (escalation_message customer (req_str ''reason'' a))
                                        (Some ''/dashboard/escalations'') w1)
                        in (Inr (ok [(''escalated'', JBool True), (''reason'', JStr (req_str ''reason'' a))]), w2))))))"

section \<open>Dispatch\<close>

fun toolRegistry :: "ToolName \<Rightarrow> env \<Rightarrow> string option \<Rightarrow> entities \<Rightarrow> world \<Rightarrow> (exn + ToolResult) \<times> world" where
  "toolRegistry SearchProducts E key = searchProducts E"
| "toolRegistry SelectProduct E key = selectProduct E"
| "toolRegistry GetProductDetails E key = getProductDetails E"
| "toolRegistry SuggestProducts E key = suggestProducts E"
| "toolRegistry CalculateShipping E key = calculateShipping E"
| "toolRegistry GetOrderStatus E key = getOrderStatus E"
| "toolRegistry CreateOrder E key = createOrder E id id key"
| "toolRegistry ConfirmOrder E key = confirmOrder E"
| "toolRegistry ModifyOrder E key = modifyOrder E"
| "toolRegistry CancelOrder E key = cancelOrder E"
| "toolRegistry EscalateConversation E key = escalateConversation E"

definition executeTool :: "env \<Rightarrow> ToolName \<Rightarrow> entities \<Rightarrow> string option \<Rightarrow> world \<Rightarrow> ToolResult \<times> world" where
  "executeTool E t e key w =
     (case safe_parse (toolSchemas t) e of
        None \<Rightarrow>
          (failure (case zod_issues E (tool_name t) e of [] \<Rightarrow> ''Invalid tool arguments'' | (_, msg) # _ \<Rightarrow> msg), w)
      | Some a \<Rightarrow>
          (case toolRegistry t E key a w of
             (Inl _, w') \<Rightarrow> (failure ''Tool execution failed unexpectedly'', w')
           | (Inr r, w') \<Rightarrow> (r, w')))"

end
