(* ===== verification/Order_Tools.thy ===== *)
theory Order_Tools
  imports Tools Sample
begin

text \<open>
  What the order tools do: the transaction of \<open>createOrder\<close> and the steps it passes to
  \<open>createOrderOnce\<close> satisfy the contract \<open>create_once\<close>, so a key makes one order; and the effect of
  \<open>confirmOrder\<close>, \<open>cancelOrder\<close> and \<open>modifyOrder\<close> on every branch.
\<close>

section \<open>Inversion of the steps\<close>

lemma set_conversation_Inr:
  "set_conversation i f w = Inr (c, w') \<longleftrightarrow>
     (\<exists>q. find_first (\<lambda>c. conv_id c = i) (conversations w) = Some q \<and> c = f q \<and>
        w' = w\<lparr>conversations := update_where (\<lambda>c. conv_id c = i) f (conversations w)\<rparr>)"
  by (simp add: set_conversation_def update_in_Inr put_conversations_def)

lemma set_conversation_Inl:
  "set_conversation i f w = Inl err \<longleftrightarrow> err = P2025 \<and> (\<forall>c \<in> set (conversations w). conv_id c \<noteq> i)"
  by (simp add: set_conversation_def update_in_Inl)

lemma order_transaction_Inl: "order_transaction E d v w = (Inl err, w') \<Longrightarrow> w' = w"
  by (auto simp: order_transaction_def split: sum.splits prod.splits)

lemma order_transaction_Inr:
  assumes "order_transaction E d v w = (Inr r, w')"
  shows "\<exists>w1. create_order E d w = Inr (r, w1) \<and>
    w' = w1\<lparr>customers := update_where (\<lambda>c. customer_id c = oi_customerId d)
             (\<lambda>c. c\<lparr>customer_wilaya := Some (oi_wilaya d), customer_commune := Some (oi_commune d)\<rparr>)
             (customers w),
           conversations := update_where (\<lambda>c. conv_id c = v)
             (\<lambda>c. c\<lparr>conv_currentOrderId := Some (order_id r), conv_state := ST_WAITING_CONFIRMATION\<rparr>)
             (conversations w)\<rparr> \<and>
    (\<exists>c \<in> set (conversations w). conv_id c = v)"
  using assms unfolding order_transaction_def
  by (auto simp: update_in_Inr set_conversation_Inr put_customers_def create_order_Inr
      split: sum.splits prod.splits dest!: find_first_SomeD)

text \<open>The order a successful \<open>create_step\<close> writes.\<close>

definition created_input ::
  "env \<Rightarrow> entities \<Rightarrow> string \<Rightarrow> product_row \<Rightarrow> string \<Rightarrow> world \<Rightarrow> order_input" where
  "created_input E a pid p commune w =
     (let cost = (case cost_for E (req_str ''merchantId'' a) (req_str ''wilaya'' a) w of
                    Some c \<Rightarrow> cost_cost c | None \<Rightarrow> 0) in
      \<lparr>oi_merchantId = req_str ''merchantId'' a, oi_customerId = req_str ''customerId'' a,
       oi_platformOrderId = pid, oi_wilaya = req_str ''wilaya'' a, oi_commune = commune,
       oi_address = str_arg ''address'' a, oi_productId = product_id p, oi_productName = product_name p,
       oi_quantity = req_int ''quantity'' a,
       oi_totalAmount = product_price p * of_int (req_int ''quantity'' a) + cost,
       oi_deliveryCost = cost\<rparr>)"

lemma create_step_ok:
  assumes "create_step E a pid w = (Inr (StepOk r), w')"
  shows "\<exists>p cv. validateCommune E (req_str ''commune'' a) (Some (req_str ''wilaya'' a)) w = cv \<and> cv_valid cv \<and>
    product_by_id (req_str ''productId'' a) (req_str ''merchantId'' a) w = Some p \<and>
    product_stockStatus p \<noteq> ''out_of_stock'' \<and>
    order_transaction E (created_input E a pid p (coalesce (cv_commune cv) []) w)
      (req_str ''conversationId'' a) w = (Inr r, w')"
  using assms unfolding create_step_def created_input_def
  by (auto simp: Let_def split: if_splits option.splits sum.splits prod.splits)

lemma create_step_fails:
  assumes "create_step E a pid w = (r, w')" and "\<nexists>x. r = Inr (StepOk x)"
  shows "w' = w"
  using assms unfolding create_step_def
  by (auto simp: Let_def split: if_splits option.splits sum.splits prod.splits dest: order_transaction_Inl)

lemma created_input_simps [simp]:
  "oi_merchantId (created_input E a pid p c w) = req_str ''merchantId'' a"
  "oi_customerId (created_input E a pid p c w) = req_str ''customerId'' a"
  "oi_platformOrderId (created_input E a pid p c w) = pid"
  "oi_wilaya (created_input E a pid p c w) = req_str ''wilaya'' a"
  "oi_commune (created_input E a pid p c w) = c"
  "oi_productId (created_input E a pid p c w) = product_id p"
  "oi_productName (created_input E a pid p c w) = product_name p"
  "oi_address (created_input E a pid p c w) = str_arg ''address'' a"
  "oi_quantity (created_input E a pid p c w) = req_int ''quantity'' a"
  by (simp_all add: created_input_def Let_def)

text \<open>What a successful step leaves: the new order last, the customer and the conversation updated.\<close>

lemma create_step_effect:
  assumes "create_step E a pid w = (Inr (StepOk r), w')"
  shows "orders w' = orders w @ [r]" "order_merchantId r = req_str ''merchantId'' a"
    "order_customerId r = req_str ''customerId'' a" "order_platformOrderId r = pid"
    "order_status r = PENDING" "nextId w' = Suc (nextId w)" "order_id r = cuid E (nextId w)"
    "\<forall>q \<in> set (orders w). \<not> (order_merchantId q = req_str ''merchantId'' a \<and> order_platformOrderId q = pid)"
  using create_step_ok [OF assms] order_transaction_Inr by (fastforce simp: create_order_Inr)+

lemma world_ok_order_transaction:
  assumes "world_ok E w" and "order_transaction E d v w = (Inr r, w')"
  shows "world_ok E w'"
proof -
  obtain w1 where w1: "create_order E d w = Inr (r, w1)"
    and w': "w' = w1\<lparr>customers := update_where (\<lambda>c. customer_id c = oi_customerId d)
             (\<lambda>c. c\<lparr>customer_wilaya := Some (oi_wilaya d), customer_commune := Some (oi_commune d)\<rparr>)
             (customers w),
           conversations := update_where (\<lambda>c. conv_id c = v)
             (\<lambda>c. c\<lparr>conv_currentOrderId := Some (order_id r), conv_state := ST_WAITING_CONFIRMATION\<rparr>)
             (conversations w)\<rparr>"
    using order_transaction_Inr [OF assms(2)] by blast
  have same: "customers w1 = customers w" "conversations w1 = conversations w"
    "nextId w1 = Suc (nextId w)" "order_id r = cuid E (nextId w)"
    using w1 by (auto simp: create_order_Inr)
  let ?w2 = "w1\<lparr>customers := update_where (\<lambda>c. customer_id c = oi_customerId d)
     (\<lambda>c. c\<lparr>customer_wilaya := Some (oi_wilaya d), customer_commune := Some (oi_commune d)\<rparr>) (customers w1)\<rparr>"
  have "world_ok E ?w2"
    using world_ok_create_order [OF assms(1) w1] by (subst world_ok_update_customers) simp_all
  moreover have "cuid E n \<noteq> cuid E (nextId w)" if "Suc (nextId w) \<le> n" for n
    using that assms(1) by (auto simp: world_ok_def dest: injD)
  ultimately have "world_ok E (?w2\<lparr>conversations := update_where (\<lambda>c. conv_id c = v)
      (\<lambda>c. c\<lparr>conv_currentOrderId := Some (order_id r), conv_state := ST_WAITING_CONFIRMATION\<rparr>)
      (conversations ?w2)\<rparr>)"
    by (intro world_ok_update_conversations) (use same in force)+
  then show ?thesis using same w' by simp
qed

lemma world_ok_create_step:
  "world_ok E w \<Longrightarrow> create_step E a pid w = (Inr (StepOk r), w') \<Longrightarrow> world_ok E w'"
  using create_step_ok world_ok_order_transaction by blast

section \<open>The contract of createOrderOnce holds\<close>

lemma create_deps_simps [simp]:
  "findExisting (create_deps E a key) = find_keyed E a key"
  "create (create_deps E a key) = create_step E a (platformOrderId_for E key)"
  "isDuplicateError (create_deps E a key) err = (err = P2002)"
  "enqueue (create_deps E a key) = enqueueOrderJob"
  "orderId (create_deps E a key) = order_id"
  "orderPending (create_deps E a key) r = (order_status r = PENDING)"
  by (simp_all add: create_deps_def)

lemma find_keyed_enqueue [simp]: "find_keyed E a key (enqueueOrderJob i w) = find_keyed E a key w"
  by (simp add: find_keyed_def)

lemma find_keyed_created:
  assumes "create_step E a (platformOrderId_for E key) w = (Inr (StepOk r), w')" and "coalesce key [] \<noteq> []"
  shows "find_keyed E a key w' = Some r"
proof -
  note eff = create_step_effect [OF assms(1)]
  have "find_first (\<lambda>r. order_merchantId r = req_str ''merchantId'' a \<and>
          order_customerId r = req_str ''customerId'' a \<and>
          order_platformOrderId r = platformOrderId_for E key) (orders w) = None"
    using eff(8) by (auto simp: find_first_None)
  then show ?thesis
    using eff(1-4) assms(2) by (simp add: find_keyed_def find_first_append) (simp add: find_first_def)
qed

interpretation co: create_once "create_deps E a key" "\<lambda>w. length (orders w)" "world_ok E" "coalesce key [] \<noteq> []"
  for E a key
  by unfold_locales
    (auto simp: create_step_fails create_step_effect(1) find_keyed_created dest: world_ok_create_step)


section \<open>createOrder\<close>

lemma result_success [simp]:
  "tr_success (ok d)" "\<not> tr_success (failure m)" "\<not> tr_success (not_found x m)"
  by (simp_all add: ok_def failure_def not_found_def)

lemma step_fail_unsuccessful: "create_step E a pid w = (Inr (StepFail f), w') \<Longrightarrow> \<not> tr_success f"
  unfolding create_step_def
  by (auto simp: Let_def split: if_splits option.splits sum.splits prod.splits)

lemma once_fail_unsuccessful:
  "createOrderOnce (create_deps E a key) p q w = (Inr (OnceFail f), w') \<Longrightarrow> \<not> tr_success f"
  by (auto simp: createOrderOnce_def finish_def Let_def split: option.splits sum.splits prod.splits
      CreateStep.splits if_splits dest: step_fail_unsuccessful)

text \<open>The only way \<open>createOrder\<close> succeeds is through an order of \<open>createOrderOnce\<close>.\<close>

lemma createOrder_successD:
  assumes "createOrder E p q key e w = (Inr res, w')" and "tr_success res"
  shows "\<exists>a r b. safe_parse CreateOrderArgsSchema e = Some a \<and>
    createOrderOnce (create_deps E a key) p q w = (Inr (OnceOk r b), w') \<and> res = created_result r"
  using assms unfolding createOrder_def
  by (auto split: option.splits sum.splits prod.splits CreateOnceResult.splits dest: once_fail_unsuccessful)

lemma createOrder_okI:
  "safe_parse CreateOrderArgsSchema e = Some a \<Longrightarrow>
   createOrderOnce (create_deps E a key) p q w = (Inr (OnceOk r b), w') \<Longrightarrow>
   createOrder E p q key e w = (Inr (created_result r), w')"
  by (simp add: createOrder_def)

lemma once_settled:
  assumes "world_ok E w" "coalesce key [] \<noteq> []"
    and "createOrderOnce (create_deps E a key) id id w = (Inr (OnceOk r b), w1)"
  shows "find_keyed E a key w1 = Some r" "order_status r = PENDING \<Longrightarrow> order_id r \<in> set (orderJobs w1)"
proof -
  show "find_keyed E a key w1 = Some r"
    using co.once_then_found [OF assms(1,2,3)] by simp
  show "order_id r \<in> set (orderJobs w1)" if "order_status r = PENDING"
    using assms(3) that
    by (auto simp: createOrderOnce_def finish_def Let_def enqueueOrderJob_def
        split: option.splits sum.splits prod.splits CreateStep.splits if_splits)
qed

lemma enqueued_already: "i \<in> set (orderJobs w) \<Longrightarrow> enqueueOrderJob i w = w"
  by (simp add: enqueueOrderJob_def)

lemma once_settled_repeat:
  assumes "find_keyed E a key w = Some r" "order_status r = PENDING \<Longrightarrow> order_id r \<in> set (orderJobs w)"
  shows "createOrderOnce (create_deps E a key) p q w = (Inr (OnceOk r False), w)"
  using assms by (simp add: createOrderOnce_def finish_def enqueued_already)

lemma once_new:
  assumes "createOrderOnce (create_deps E a key) id id w = (Inr (OnceOk r b), w1)"
    and "find_keyed E a key w = None"
  shows "\<exists>w'. create_step E a (platformOrderId_for E key) w = (Inr (StepOk r), w') \<and>
    w1 = enqueueOrderJob (order_id r) w'"
proof -
  obtain c w' where c: "create_step E a (platformOrderId_for E key) w = (c, w')" by fastforce
  show ?thesis
  proof (cases "\<exists>x. c = Inr (StepOk x)")
    case True
    then show ?thesis
      using assms c create_step_effect(5) by (fastforce simp: createOrderOnce_def finish_def)
  next
    case False
    then have "w' = w" using create_step_fails [OF c] by simp
    then show ?thesis
      using assms c False
      by (auto simp: createOrderOnce_def Let_def split: sum.splits CreateStep.splits if_splits)
  qed
qed

lemma find_keyed_cong:
  assumes "k \<noteq> []" "req_str ''merchantId'' a' = req_str ''merchantId'' a"
    "req_str ''customerId'' a' = req_str ''customerId'' a"
  shows "find_keyed E' a' (Some k) w = find_keyed E a (Some k) w"
  using assms by (simp add: find_keyed_def platformOrderId_for_def)

lemma validateCommune_cong:
  assumes "communes w2 = communes w"
  shows "validateCommune E name wl w2 = validateCommune E name wl w"
  unfolding validateCommune_def assms ..

text \<open>A step run again where the key is taken throws the duplicate-key error.\<close>

lemma create_step_again:
  assumes "create_step E a pid w = (Inr (StepOk r), w1)"
    and "communes w2 = communes w" "products w2 = products w"
    and "q \<in> set (orders w2)" "order_merchantId q = req_str ''merchantId'' a" "order_platformOrderId q = pid"
  shows "create_step E a pid w2 = (Inl P2002, w2)"
proof -
  obtain p cv where p: "validateCommune E (req_str ''commune'' a) (Some (req_str ''wilaya'' a)) w = cv" "cv_valid cv"
    "product_by_id (req_str ''productId'' a) (req_str ''merchantId'' a) w = Some p"
    "product_stockStatus p \<noteq> ''out_of_stock''"
    and t: "order_transaction E (created_input E a pid p (coalesce (cv_commune cv) []) w)
      (req_str ''conversationId'' a) w = (Inr r, w1)"
    using create_step_ok [OF assms(1)] by blast
  have "int4_ok (req_int ''quantity'' a)"
    using order_transaction_Inr [OF t] by (auto simp: create_order_Inr)
  then have "create_order E (created_input E a pid p (coalesce (cv_commune cv) []) w2) w2 = Inl P2002"
    using assms(4-6) by (intro create_order_duplicate) auto
  then have "order_transaction E (created_input E a pid p (coalesce (cv_commune cv) []) w2)
      (req_str ''conversationId'' a) w2 = (Inl P2002, w2)"
    by (simp add: order_transaction_def)
  moreover have "validateCommune E (req_str ''commune'' a) (Some (req_str ''wilaya'' a)) w2 = cv"
    "product_by_id (req_str ''productId'' a) (req_str ''merchantId'' a) w2 = Some p"
    using p(1,3) assms(2,3) by (simp_all add: validateCommune_cong [OF assms(2)] product_by_id_def)
  ultimately show ?thesis
    using p(2,4) by (simp add: create_step_def Let_def created_input_def)
qed

lemma create_step_frame:
  assumes "create_step E a pid w = (Inr (StepOk r), w')"
  shows "communes w' = communes w" "products w' = products w"
  using create_step_ok [OF assms] order_transaction_Inr by (fastforce simp: create_order_Inr)+


definition sample_create :: entities where
  "sample_create =
     [(''productId'', JStr ''p1''), (''wilaya'', JStr ''Alger''), (''commune'', JStr ''Kouba''),
      (''quantity'', JNum 2), (''merchantId'', JStr ''m1''), (''customerId'', JStr ''c1''),
      (''conversationId'', JStr ''v1'')]"

lemma sample_create_parse: "safe_parse CreateOrderArgsSchema sample_create = Some sample_create"
  by code_simp

lemma sample_create_runs:
  "\<exists>res w1. createOrder sample_env id id (Some ''k1'') sample_create sample_world = (Inr res, w1) \<and> tr_success res"
proof -
  have "case createOrder sample_env id id (Some ''k1'') sample_create sample_world of
     (Inr res, w1) \<Rightarrow> tr_success res | _ \<Rightarrow> False"
    by code_simp
  then show ?thesis by (auto split: prod.splits sum.splits)
qed

lemma createOrder_repeat:
  assumes "world_ok E w" and "k \<noteq> []"
    and "createOrder E id id (Some k) e w = (Inr res, w1)" and "tr_success res"
    and "safe_parse CreateOrderArgsSchema e = Some a" and "safe_parse CreateOrderArgsSchema e' = Some a'"
    and "req_str ''merchantId'' a' = req_str ''merchantId'' a"
    and "req_str ''customerId'' a' = req_str ''customerId'' a"
  shows "createOrder E' p q (Some k) e' w1 = (Inr res, w1)"
proof -
  obtain r b where once: "createOrderOnce (create_deps E a (Some k)) id id w = (Inr (OnceOk r b), w1)"
    and res: "res = created_result r"
    using createOrder_successD [OF assms(3,4)] assms(5) by auto
  have key: "coalesce (Some k) [] \<noteq> []" using assms(2) by simp
  have "find_keyed E' a' (Some k) w1 = Some r"
    using once_settled(1) [OF assms(1) key once] find_keyed_cong [OF assms(2,7,8), of E' w1 E] by simp
  then have "createOrderOnce (create_deps E' a' (Some k)) p q w1 = (Inr (OnceOk r False), w1)"
    using once_settled(2) [OF assms(1) key once] by (rule once_settled_repeat)
  then show ?thesis using createOrder_okI [OF assms(6)] res by blast
qed

text \<open>C1. A repeated createOrder with the same idempotency key, from the same merchant and customer and
  whatever its other arguments, returns the very answer of the first call and changes nothing: no
  second order, no second job, no change of the customer or the conversation.  The clock, the other
  environment and what parallel calls do meanwhile are arbitrary.  The first call added at most one
  order.\<close>

theorem createOrder_once:
  assumes "world_ok E w" and "k \<noteq> []"
    and "createOrder E id id (Some k) e w = (Inr res, w1)" and "tr_success res"
    and "safe_parse CreateOrderArgsSchema e = Some a" and "safe_parse CreateOrderArgsSchema e' = Some a'"
    and "req_str ''merchantId'' a' = req_str ''merchantId'' a"
    and "req_str ''customerId'' a' = req_str ''customerId'' a"
  shows "createOrder E' p q (Some k) e' w1 = (Inr res, w1) \<and> length (orders w1) \<le> Suc (length (orders w))"
proof
  show "createOrder E' p q (Some k) e' w1 = (Inr res, w1)" using createOrder_repeat [OF assms] .
  obtain r b where "createOrderOnce (create_deps E a (Some k)) id id w = (Inr (OnceOk r b), w1)"
    using createOrder_successD [OF assms(3,4)] assms(5) by auto
  then show "length (orders w1) \<le> Suc (length (orders w))"
    using co.once_rows [OF assms(1), of a "Some k"] by (fastforce split: bool.splits)
qed

theorem createOrder_once_witness:
  "\<exists>res w1. createOrder sample_env id id (Some ''k1'') sample_create sample_world = (Inr res, w1) \<and>
     createOrder sample_env id id (Some ''k1'') sample_create w1 = (Inr res, w1)"
proof -
  obtain res w1 where r: "createOrder sample_env id id (Some ''k1'') sample_create sample_world = (Inr res, w1)"
    "tr_success res" using sample_create_runs by blast
  then show ?thesis
    using createOrder_once [OF sample_ok _ r sample_create_parse sample_create_parse, of sample_env id id] by auto
qed

text \<open>C2. Two createOrder calls with the same key at once: the second looks for the key, then the first
  runs to its end, then the second tries to create.  The unique index stops it, and it returns the
  answer of the first call with no second order and no other change.\<close>

theorem createOrder_race:
  assumes "world_ok E w" and "k \<noteq> []"
    and "createOrder E id id (Some k) e w = (Inr res, w1)" and "tr_success res"
  shows "createOrder E (\<lambda>_. w1) id (Some k) e w = (Inr res, w1)"
proof -
  obtain a r b where a: "safe_parse CreateOrderArgsSchema e = Some a"
    and once: "createOrderOnce (create_deps E a (Some k)) id id w = (Inr (OnceOk r b), w1)"
    and res: "res = created_result r"
    using createOrder_successD [OF assms(3,4)] by blast
  have key: "coalesce (Some k) [] \<noteq> []" using assms(2) by simp
  have "createOrderOnce (create_deps E a (Some k)) (\<lambda>_. w1) id w = (Inr (OnceOk r False), w1)"
  proof (cases "find_keyed E a (Some k) w")
    case (Some x)
    with once show ?thesis by (auto simp: createOrderOnce_def finish_def split: if_splits)
  next
    case None
    obtain w' where step: "create_step E a (platformOrderId_for E (Some k)) w = (Inr (StepOk r), w')"
      and w1: "w1 = enqueueOrderJob (order_id r) w'"
      using once_new [OF once None] by blast
    have again: "create_step E a (platformOrderId_for E (Some k)) w1 = (Inl P2002, w1)"
      using create_step_again [OF step, of w1 r] create_step_frame [OF step] create_step_effect(1-4) [OF step] w1
      by simp
    then show ?thesis
      using co.once_parallel [of E w "Some k" a r b w1 P2002 w1] None once assms(1) key
        once_settled(2) [OF assms(1) key once] by (auto simp: finish_def enqueued_already)
  qed
  then show ?thesis using createOrder_okI [OF a] res by blast
qed

theorem createOrder_race_witness:
  "\<exists>res w1. createOrder sample_env id id (Some ''k1'') sample_create sample_world = (Inr res, w1) \<and>
     createOrder sample_env (\<lambda>_. w1) id (Some ''k1'') sample_create sample_world = (Inr res, w1)"
proof -
  obtain res w1 where r: "createOrder sample_env id id (Some ''k1'') sample_create sample_world = (Inr res, w1)"
    "tr_success res" using sample_create_runs by blast
  then show ?thesis using createOrder_race [OF sample_ok _ r] by auto
qed


lemma created_total:
  "oi_totalAmount (created_input E a pid p c w) =
     product_price p * of_int (req_int ''quantity'' a) + oi_deliveryCost (created_input E a pid p c w)"
  by (simp add: created_input_def Let_def)

lemma updated_row:
  "c \<in> set rows \<Longrightarrow> P c \<Longrightarrow> Q (f c) \<Longrightarrow> \<exists>x \<in> set (update_where P f rows). Q x"
  unfolding update_where_def by (rule bexI [of _ "f c"]) force+

text \<open>The rows a successful step leaves.\<close>

lemma transaction_links:
  assumes "order_transaction E d v w = (Inr r, w')"
  shows "\<exists>c \<in> set (conversations w'). conv_id c = v \<and>
       conv_currentOrderId c = Some (order_id r) \<and> conv_state c = ST_WAITING_CONFIRMATION"
    and "\<exists>c \<in> set (customers w'). customer_id c = oi_customerId d \<and>
       customer_wilaya c = Some (oi_wilaya d) \<and> customer_commune c = Some (oi_commune d)"
proof -
  obtain w1 q where w1: "create_order E d w = Inr (r, w1)"
    and w': "w' = w1\<lparr>customers := update_where (\<lambda>c. customer_id c = oi_customerId d)
             (\<lambda>c. c\<lparr>customer_wilaya := Some (oi_wilaya d), customer_commune := Some (oi_commune d)\<rparr>)
             (customers w),
           conversations := update_where (\<lambda>c. conv_id c = v)
             (\<lambda>c. c\<lparr>conv_currentOrderId := Some (order_id r), conv_state := ST_WAITING_CONFIRMATION\<rparr>)
             (conversations w)\<rparr>"
    and q: "q \<in> set (conversations w)" "conv_id q = v"
    using order_transaction_Inr [OF assms] by blast
  then show "\<exists>c \<in> set (conversations w'). conv_id c = v \<and>
       conv_currentOrderId c = Some (order_id r) \<and> conv_state c = ST_WAITING_CONFIRMATION"
    by (simp add: updated_row [OF q(1)])
  obtain c where "c \<in> set (customers w)" "customer_id c = oi_customerId d"
    using w1 by (auto simp: create_order_Inr)
  then show "\<exists>c \<in> set (customers w'). customer_id c = oi_customerId d \<and>
       customer_wilaya c = Some (oi_wilaya d) \<and> customer_commune c = Some (oi_commune d)"
    using w' by (simp add: updated_row [of c])
qed

text \<open>C4. A successful createOrder that finds no order for its key adds exactly one order, at the end of
  the table: pending, of the caller's merchant and customer, for a product of that merchant that is
  not out of stock, in the requested quantity, with a total of price times quantity plus delivery
  cost.  The conversation points to it and waits for confirmation, the customer keeps the delivery
  address, and the confirmation job is queued.\<close>

theorem createOrder_creates:
  assumes "createOrder E id id key e w = (Inr res, w')" and "tr_success res"
    and "safe_parse CreateOrderArgsSchema e = Some a" and "find_keyed E a key w = None"
  shows "\<exists>r p. orders w' = orders w @ [r] \<and> res = created_result r \<and>
    product_by_id (req_str ''productId'' a) (req_str ''merchantId'' a) w = Some p \<and>
    product_stockStatus p \<noteq> ''out_of_stock'' \<and>
    order_status r = PENDING \<and> order_merchantId r = req_str ''merchantId'' a \<and>
    order_customerId r = req_str ''customerId'' a \<and> order_productId r = product_id p \<and>
    order_quantity r = req_int ''quantity'' a \<and>
    order_totalAmount r = product_price p * of_int (order_quantity r) + order_deliveryCost r \<and>
    (\<exists>c \<in> set (conversations w'). conv_id c = req_str ''conversationId'' a \<and>
       conv_currentOrderId c = Some (order_id r) \<and> conv_state c = ST_WAITING_CONFIRMATION) \<and>
    (\<exists>c \<in> set (customers w'). customer_id c = req_str ''customerId'' a \<and>
       customer_wilaya c = Some (order_wilaya r) \<and> customer_commune c = Some (order_commune r)) \<and>
    order_id r \<in> set (orderJobs w')"
proof -
  obtain r b where once: "createOrderOnce (create_deps E a key) id id w = (Inr (OnceOk r b), w')"
    and res: "res = created_result r"
    using createOrder_successD [OF assms(1,2)] assms(3) by auto
  obtain w1 where step: "create_step E a (platformOrderId_for E key) w = (Inr (StepOk r), w1)"
    and w': "w' = enqueueOrderJob (order_id r) w1" using once_new [OF once assms(4)] by blast
  obtain p and cv :: CommuneValidation where
    p: "product_by_id (req_str ''productId'' a) (req_str ''merchantId'' a) w = Some p"
    "product_stockStatus p \<noteq> ''out_of_stock''" and
    t: "order_transaction E (created_input E a (platformOrderId_for E key) p (coalesce (cv_commune cv) []) w)
      (req_str ''conversationId'' a) w = (Inr r, w1)" using create_step_ok [OF step] by blast
  have r: "r = order_of_input (cuid E (nextId w)) (clock E)
      (created_input E a (platformOrderId_for E key) p (coalesce (cv_commune cv) []) w)"
    using order_transaction_Inr [OF t] by (auto simp: create_order_Inr)
  have "order_id r \<in> set (orderJobs w')" using w' by (simp add: enqueueOrderJob_def)
  moreover have "orders w' = orders w @ [r]" using create_step_effect(1) [OF step] w' by simp
  ultimately show ?thesis
    using p res transaction_links [OF t] w' r
    by (intro exI [of _ r] exI [of _ p]) (simp add: created_total)
qed

theorem createOrder_creates_witness:
  "\<exists>res w' r. createOrder sample_env id id (Some ''k1'') sample_create sample_world = (Inr res, w') \<and>
     orders w' = orders sample_world @ [r] \<and> order_totalAmount r = 600"
proof -
  obtain res w1 where r: "createOrder sample_env id id (Some ''k1'') sample_create sample_world = (Inr res, w1)"
    "tr_success res" using sample_create_runs by blast
  moreover have "find_keyed sample_env sample_create (Some ''k1'') sample_world = None" by code_simp
  ultimately obtain s p where s: "orders w1 = orders sample_world @ [s]"
    using createOrder_creates [OF r sample_create_parse] by blast
  moreover have "map order_totalAmount (orders (snd (createOrder sample_env id id (Some ''k1'') sample_create sample_world))) = [500, 500, 600]"
    by code_simp
  ultimately have "order_totalAmount s = 600" using r by (simp add: sample_defs)
  with s r show ?thesis by blast
qed

text \<open>A createOrder that does not succeed, whether it answers with a failure or throws, leaves the
  whole state as it was.\<close>

theorem createOrder_failure_keeps_state:
  assumes "createOrder E id id key e w = (r, w')" and "\<nexists>res. r = Inr res \<and> tr_success res"
  shows "w' = w"
proof (cases "safe_parse CreateOrderArgsSchema e")
  case None
  with assms(1) show ?thesis by (simp add: createOrder_def)
next
  case (Some a)
  obtain c w1 where c: "create_step E a (platformOrderId_for E key) w = (c, w1)" by fastforce
  have no_ok: "\<nexists>x b. fst (createOrderOnce (create_deps E a key) id id w) = Inr (OnceOk x b)"
  proof
    assume "\<exists>x b. fst (createOrderOnce (create_deps E a key) id id w) = Inr (OnceOk x b)"
    then obtain x b where "createOrderOnce (create_deps E a key) id id w = (Inr (OnceOk x b), snd (createOrderOnce (create_deps E a key) id id w))"
      by (metis prod.collapse)
    then have "createOrder E id id key e w = (Inr (created_result x), snd (createOrderOnce (create_deps E a key) id id w))"
      by (rule createOrder_okI [OF Some])
    then show False using assms by (auto simp: created_result_def)
  qed
  moreover have "find_keyed E a key w = None"
    using no_ok by (cases "find_keyed E a key w") (auto simp: createOrderOnce_def finish_def)
  moreover have "\<nexists>x. c = Inr (StepOk x)"
    using no_ok c \<open>find_keyed E a key w = None\<close> by (auto simp: createOrderOnce_def finish_def)
  moreover have "w1 = w" using create_step_fails [OF c] calculation(3) by simp
  ultimately show ?thesis
    using assms(1) Some c
    by (auto simp: createOrder_def createOrderOnce_def Let_def split: sum.splits CreateStep.splits if_splits)
qed

theorem createOrder_failure_keeps_state_witness:
  "\<exists>m. createOrder sample_env id id None (obj_set ''commune'' (JStr ''Oran'') sample_create) sample_world =
     (Inr (failure m), sample_world)"
proof -
  have "case createOrder sample_env id id None (obj_set ''commune'' (JStr ''Oran'') sample_create) sample_world of
     (Inr r, w') \<Rightarrow> \<not> tr_success r \<and> (\<exists>m \<in> {coalesce (tr_error r) []}. r = failure m) | _ \<Rightarrow> False" by code_simp
  then obtain m w' where m: "createOrder sample_env id id None (obj_set ''commune'' (JStr ''Oran'') sample_create) sample_world =
     (Inr (failure m), w')" by (auto split: prod.splits sum.splits)
  then have "w' = sample_world" using createOrder_failure_keeps_state by (metis Inr_inject result_success(2))
  with m show ?thesis by blast
qed


section \<open>confirmOrder and cancelOrder\<close>

lemma scoped_order_unique:
  assumes "schema_ok w" "r \<in> set (orders w)" "scoped_order a r"
  shows "q \<in> set (orders w) \<Longrightarrow> scoped_order a q \<longleftrightarrow> order_id q = order_id r"
    and "find_first (scoped_order a) (orders w) = Some r"
proof -
  have d: "distinct (map order_id (orders w))" using assms(1) by (simp add: schema_ok_def unique_by_def)
  show "scoped_order a q \<longleftrightarrow> order_id q = order_id r" if "q \<in> set (orders w)"
    using distinct_map_eq [OF d that assms(2)] assms(3) by (metis scoped_order_def)
  show "find_first (scoped_order a) (orders w) = Some r"
    using assms(2,3) by (intro find_first_unique [OF d]) (auto simp: scoped_order_def)
qed

lemma update_where_cong:
  "(\<And>r. r \<in> set rows \<Longrightarrow> P r = Q r) \<Longrightarrow> update_where P f rows = update_where Q f rows"
  by (simp add: update_where_def)

text \<open>
  The status change an order and its conversation go through together: \<open>settled w w' r st v cst\<close> says
  that \<open>w'\<close> is \<open>w\<close> with the status of order \<open>r\<close> set to \<open>st\<close>, the state of conversation \<open>v\<close> set to
  \<open>cst\<close>, and nothing else changed.
\<close>

definition settled ::
  "world \<Rightarrow> world \<Rightarrow> order_row \<Rightarrow> OrderStatus \<Rightarrow> string \<Rightarrow> ConversationState \<Rightarrow> bool" where
  "settled w w' r st v cst \<longleftrightarrow>
     w' = w\<lparr>orders := update_where (\<lambda>q. order_id q = order_id r) (\<lambda>q. q\<lparr>order_status := st\<rparr>) (orders w),
            conversations := update_where (\<lambda>c. conv_id c = v) (\<lambda>c. c\<lparr>conv_state := cst\<rparr>) (conversations w)\<rparr>"

lemma set_order_status_effect:
  assumes "schema_ok w" "r \<in> set (orders w)" "scoped_order a r"
    and "c \<in> set (conversations w)" "conv_id c = req_str ''conversationId'' a"
  shows "\<exists>w'. set_order_status a st cst w =
      (Inr (ok [(''orderId'', JStr (order_id r)), (''productName'', JStr (order_productName r)),
                (''status'', JStr (status_text st))]), w') \<and>
    settled w w' r st (req_str ''conversationId'' a) cst"
proof -
  note u = scoped_order_unique [OF assms(1-3)]
  let ?w1 = "w\<lparr>orders := update_where (\<lambda>q. order_id q = order_id r) (\<lambda>q. q\<lparr>order_status := st\<rparr>) (orders w)\<rparr>"
  have "update_where (scoped_order a) (\<lambda>q. q\<lparr>order_status := st\<rparr>) (orders w) =
      update_where (\<lambda>q. order_id q = order_id r) (\<lambda>q. q\<lparr>order_status := st\<rparr>) (orders w)"
    using u(1) by (rule update_where_cong)
  then have s1: "update_order (scoped_order a) (\<lambda>q. q\<lparr>order_status := st\<rparr>) w = Inr (r\<lparr>order_status := st\<rparr>, ?w1)"
    using u(2) by (simp add: update_in_Inr put_orders_def)
  obtain q where "find_first (\<lambda>c. conv_id c = req_str ''conversationId'' a) (conversations w) = Some q"
    using find_first_exists [OF assms(4), of "\<lambda>c. conv_id c = req_str ''conversationId'' a"] assms(5) by blast
  then have s2: "set_conversation (req_str ''conversationId'' a) (\<lambda>c. c\<lparr>conv_state := cst\<rparr>) ?w1 =
      Inr (q\<lparr>conv_state := cst\<rparr>, ?w1\<lparr>conversations := update_where (\<lambda>c. conv_id c = req_str ''conversationId'' a)
        (\<lambda>c. c\<lparr>conv_state := cst\<rparr>) (conversations w)\<rparr>)"
    by (simp add: set_conversation_Inr)
  show ?thesis by (simp add: set_order_status_def s1 s2 settled_def)
qed

lemma set_order_status_missing:
  "(\<And>r. r \<in> set (orders w) \<Longrightarrow> \<not> scoped_order a r) \<Longrightarrow>
   set_order_status a st cst w = (Inr (failure ''Order not found''), w)"
  by (simp add: set_order_status_def update_in_def find_first_None [THEN iffD2])

lemma settled_lookup:
  assumes "schema_ok w" "r \<in> set (orders w)" "settled w w' r st v cst"
  shows "find_first (\<lambda>q. order_id q = order_id r) (orders w') = Some (r\<lparr>order_status := st\<rparr>)"
  using assms find_first_updated [of order_id "orders w" "\<lambda>q. q\<lparr>order_status := st\<rparr>" r]
  by (simp add: settled_def schema_ok_def unique_by_def)

text \<open>confirmOrder on an order of the caller's merchant and customer, with the conversation there,
  answers with the order's id and the status CONFIRMED; looking the order up afterwards gives it
  confirmed, whatever its status was, and every other order and everything but the conversation's
  state is as before.  Where no order of that merchant and customer has the id, it answers Order not
  found and changes nothing.\<close>

theorem confirmOrder_effect:
  assumes "schema_ok w" and "safe_parse ConfirmOrderArgsSchema e = Some a"
  shows "(\<forall>r \<in> set (orders w). \<forall>c \<in> set (conversations w).
            scoped_order a r \<longrightarrow> conv_id c = req_str ''conversationId'' a \<longrightarrow>
            (\<exists>w'. confirmOrder E e w =
                (Inr (ok [(''orderId'', JStr (order_id r)), (''productName'', JStr (order_productName r)),
                          (''status'', JStr ''CONFIRMED'')]), w') \<and>
              settled w w' r CONFIRMED (req_str ''conversationId'' a) ST_CONFIRMED \<and>
              find_first (\<lambda>q. order_id q = order_id r) (orders w') = Some (r\<lparr>order_status := CONFIRMED\<rparr>))) \<and>
         ((\<forall>r \<in> set (orders w). \<not> scoped_order a r) \<longrightarrow>
            confirmOrder E e w = (Inr (failure ''Order not found''), w))"
proof (intro conjI ballI impI)
  fix r c
  assume *: "r \<in> set (orders w)" "c \<in> set (conversations w)" "scoped_order a r"
    "conv_id c = req_str ''conversationId'' a"
  show "\<exists>w'. confirmOrder E e w =
                (Inr (ok [(''orderId'', JStr (order_id r)), (''productName'', JStr (order_productName r)),
                          (''status'', JStr ''CONFIRMED'')]), w') \<and>
              settled w w' r CONFIRMED (req_str ''conversationId'' a) ST_CONFIRMED \<and>
              find_first (\<lambda>q. order_id q = order_id r) (orders w') = Some (r\<lparr>order_status := CONFIRMED\<rparr>)"
    using set_order_status_effect [OF assms(1) *(1,3,2,4), of CONFIRMED ST_CONFIRMED]
      settled_lookup [OF assms(1) *(1)] assms(2)
    by (auto simp: confirmOrder_def status_text_def)
next
  assume "\<forall>r \<in> set (orders w). \<not> scoped_order a r"
  then show "confirmOrder E e w = (Inr (failure ''Order not found''), w)"
    using assms(2) by (simp add: confirmOrder_def set_order_status_missing)
qed

definition sample_confirm :: entities where
  "sample_confirm =
     [(''orderId'', JStr ''o1''), (''merchantId'', JStr ''m1''), (''customerId'', JStr ''c1''),
      (''conversationId'', JStr ''v1'')]"

lemma sample_schema_ok: "schema_ok sample_world"
  using sample_ok by (simp add: world_ok_def)

lemma sample_scoped: "scoped_order sample_confirm (sample_order ''o1'' ''m1'' ''c1'' ''p1'' PENDING 5)"
  by code_simp

lemma sample_rows:
  "sample_order ''o1'' ''m1'' ''c1'' ''p1'' PENDING 5 \<in> set (orders sample_world)"
  "sample_conversation ''v1'' ''m1'' ''c1'' (Some ''o1'') False \<in> set (conversations sample_world)"
  by (simp_all add: sample_world_def)

theorem confirmOrder_effect_witness:
  "\<exists>w'. find_first (\<lambda>q. order_id q = ''o1'') (orders w') =
     Some ((sample_order ''o1'' ''m1'' ''c1'' ''p1'' PENDING 5)\<lparr>order_status := CONFIRMED\<rparr>) \<and>
     snd (confirmOrder sample_env sample_confirm sample_world) = w'"
proof -
  have "safe_parse ConfirmOrderArgsSchema sample_confirm = Some sample_confirm" by code_simp
  from confirmOrder_effect [OF sample_schema_ok this, of sample_env] sample_rows sample_scoped
  obtain w' where "confirmOrder sample_env sample_confirm sample_world =
      (Inr (ok [(''orderId'', JStr ''o1''), (''productName'', JStr ''bag''), (''status'', JStr ''CONFIRMED'')]), w')"
    "find_first (\<lambda>q. order_id q = ''o1'') (orders w') =
      Some ((sample_order ''o1'' ''m1'' ''c1'' ''p1'' PENDING 5)\<lparr>order_status := CONFIRMED\<rparr>)"
    by (fastforce simp: sample_order_def sample_conversation_def sample_confirm_def req_str_def str_arg_def)
  then show ?thesis by simp
qed

text \<open>C7. cancelOrder on an order of the caller's merchant and customer: an order that is already
  cancelled is refused and nothing changes; any other status becomes CANCELLED, the conversation's
  state becomes CANCELLED, and nothing else changes.  So a second cancellation is always refused.\<close>

theorem cancelOrder_effect:
  assumes "schema_ok w" and "safe_parse CancelOrderArgsSchema e = Some a"
    and "r \<in> set (orders w)" and "scoped_order a r"
    and "c \<in> set (conversations w)" and "conv_id c = req_str ''conversationId'' a"
  shows "if order_status r = CANCELLED
         then cancelOrder E e w = (Inr (failure ''Order is already cancelled''), w)
         else \<exists>w'. cancelOrder E e w =
                (Inr (ok [(''orderId'', JStr (order_id r)), (''productName'', JStr (order_productName r)),
                          (''status'', JStr ''CANCELLED'')]), w') \<and>
              settled w w' r CANCELLED (req_str ''conversationId'' a) ST_CANCELLED \<and>
              cancelOrder E e w' = (Inr (failure ''Order is already cancelled''), w')"
proof (cases "order_status r = CANCELLED")
  case True
  then show ?thesis
    using assms(2) scoped_order_unique(2) [OF assms(1,3,4)] by (simp add: cancelOrder_def)
next
  case False
  obtain w' where w': "set_order_status a CANCELLED ST_CANCELLED w =
      (Inr (ok [(''orderId'', JStr (order_id r)), (''productName'', JStr (order_productName r)),
                (''status'', JStr ''CANCELLED'')]), w')"
    and s: "settled w w' r CANCELLED (req_str ''conversationId'' a) ST_CANCELLED"
    using set_order_status_effect [OF assms(1,3-6), of CANCELLED ST_CANCELLED] by (auto simp: status_text_def)
  have "schema_ok w'"
    using assms(1) s
    by (simp add: settled_def schema_ok_def unique_by_def map_update_where image_update_where ball_update_where)
  moreover have "r\<lparr>order_status := CANCELLED\<rparr> \<in> set (orders w')"
    using settled_lookup [OF assms(1,3) s] by (auto dest: find_first_SomeD)
  ultimately have "find_first (scoped_order a) (orders w') = Some (r\<lparr>order_status := CANCELLED\<rparr>)"
    using assms(4) by (intro scoped_order_unique(2)) (auto simp: scoped_order_def)
  then show ?thesis
    using False w' s assms(2) scoped_order_unique(2) [OF assms(1,3,4)] by (simp add: cancelOrder_def)
qed

theorem cancelOrder_effect_witness:
  "\<exists>w'. snd (cancelOrder sample_env sample_confirm sample_world) = w' \<and>
     cancelOrder sample_env sample_confirm w' = (Inr (failure ''Order is already cancelled''), w')"
proof -
  have "safe_parse CancelOrderArgsSchema sample_confirm = Some sample_confirm" by code_simp
  moreover have "conv_id (sample_conversation ''v1'' ''m1'' ''c1'' (Some ''o1'') False) =
    req_str ''conversationId'' sample_confirm" by code_simp
  moreover have "order_status (sample_order ''o1'' ''m1'' ''c1'' ''p1'' PENDING 5) \<noteq> CANCELLED" by code_simp
  ultimately show ?thesis
    using cancelOrder_effect [OF sample_schema_ok _ sample_rows(1) sample_scoped sample_rows(2), of sample_confirm sample_env]
    by fastforce
qed


section \<open>modifyOrder\<close>

lemma modified_simps [simp]:
  "order_id (modified q wl cm cost tot r) = order_id r"
  "order_merchantId (modified q wl cm cost tot r) = order_merchantId r"
  "order_customerId (modified q wl cm cost tot r) = order_customerId r"
  "order_platformOrderId (modified q wl cm cost tot r) = order_platformOrderId r"
  "order_productId (modified q wl cm cost tot r) = order_productId r"
  "order_status (modified q wl cm cost tot r) = order_status r"
  "order_quantity (modified q wl cm cost tot r) = coalesce q (order_quantity r)"
  "order_totalAmount (modified q wl cm cost tot r) = tot"
  "order_deliveryCost (modified q wl cm cost tot r) = (if wl = None then order_deliveryCost r else cost)"
  by (simp_all add: modified_def)

definition keeps_customer_keys :: "(customer_row \<Rightarrow> customer_row) \<Rightarrow> bool" where
  "keeps_customer_keys f \<longleftrightarrow>
     (\<forall>r. customer_id (f r) = customer_id r \<and> customer_merchantId (f r) = customer_merchantId r \<and>
          customer_phone (f r) = customer_phone r)"

lemma update_delivery_Inr:
  "update_delivery c wl cm w = Inr w' \<Longrightarrow>
     \<exists>f. keeps_customer_keys f \<and>
       w' = w\<lparr>customers := update_where (\<lambda>r. customer_id r = c) f (customers w)\<rparr>"
proof (cases "wl = None \<and> cm = None")
  case True
  moreover assume "update_delivery c wl cm w = Inr w'"
  ultimately show ?thesis by (intro exI [of _ "\<lambda>r. r"]) (simp add: update_delivery_def update_where_def keeps_customer_keys_def)
next
  case False
  moreover assume "update_delivery c wl cm w = Inr w'"
  ultimately show ?thesis
    by (intro exI [of _ "\<lambda>c. c\<lparr>customer_wilaya := (if wl = None then customer_wilaya c else wl),
          customer_commune := (if cm = None then customer_commune c else cm)\<rparr>"])
      (auto simp: update_delivery_def update_in_Inr put_customers_def keeps_customer_keys_def
        split: sum.splits prod.splits)
qed

lemma update_delivery_total:
  "c \<in> customer_id ` set (customers w) \<Longrightarrow> \<exists>w'. update_delivery c wl cm w = Inr w'"
  by (auto simp: update_delivery_def update_in_Inl split: sum.splits prod.splits)

text \<open>The last part of the handler: what it leaves when it is given an order of the table.\<close>

lemma modify_commit_cases:
  assumes "schema_ok w" "q \<in> set (orders w)" "scoped_order a q"
    and "modify_commit a q commune n cost tot w = (res, w')"
  shows "(\<not> int4_ok n \<and> (\<exists>m. res = Inl (Error m)) \<and> w' = w) \<or>
    (\<exists>d f. res = Inr (ok d) \<and> keeps_customer_keys f \<and>
      w' = w\<lparr>orders := update_where (\<lambda>r. order_id r = order_id q)
                (modified (int_arg ''quantity'' a) (str_arg ''wilaya'' a) commune cost tot) (orders w),
             customers := update_where (\<lambda>r. customer_id r = req_str ''customerId'' a) f (customers w)\<rparr>)"
proof (cases "int4_ok n")
  case False
  then show ?thesis using assms(4) by (auto simp: modify_commit_def)
next
  case True
  let ?f = "modified (int_arg ''quantity'' a) (str_arg ''wilaya'' a) commune cost tot"
  let ?w1 = "w\<lparr>orders := update_where (\<lambda>r. order_id r = order_id q) ?f (orders w)\<rparr>"
  obtain q' where "find_first (\<lambda>r. order_id r = order_id q) (orders w) = Some q'"
    using find_first_exists [OF assms(2), of "\<lambda>r. order_id r = order_id q"] by blast
  then have u: "update_order (\<lambda>r. order_id r = order_id q) ?f w = Inr (?f q', ?w1)"
    by (simp add: update_in_Inr put_orders_def)
  have "order_customerId q \<in> customer_id ` set (customers w)"
    using assms(1,2) by (simp add: schema_ok_def)
  then have "req_str ''customerId'' a \<in> customer_id ` set (customers ?w1)"
    using assms(3) by (simp add: scoped_order_def)
  then obtain w2 where d: "update_delivery (req_str ''customerId'' a) (str_arg ''wilaya'' a) (str_arg ''commune'' a) ?w1 = Inr w2"
    using update_delivery_total by blast
  obtain f where "keeps_customer_keys f"
    "w2 = ?w1\<lparr>customers := update_where (\<lambda>r. customer_id r = req_str ''customerId'' a) f (customers ?w1)\<rparr>"
    using update_delivery_Inr [OF d] by blast
  then show ?thesis using assms(4) True by (auto simp: modify_commit_def u d)
qed

lemma modifyOrder_reduces:
  assumes "safe_parse ModifyOrderArgsSchema e = Some a"
    and "find_first (\<lambda>r. scoped_order a r \<and> order_status r = PENDING) (orders w) = Some q"
    and "product_by_id (order_productId q) (req_str ''merchantId'' a) w = Some p"
  shows "(\<exists>commune. modifyOrder E e w =
      modify_commit a q commune (coalesce (int_arg ''quantity'' a) (order_quantity q)) (modify_cost E a q w)
        (product_price p * of_int (coalesce (int_arg ''quantity'' a) (order_quantity q)) + modify_cost E a q w) w) \<or>
    (\<exists>m. modifyOrder E e w = (Inr (failure m), w))"
  using assms by (cases "str_arg ''commune'' a") (auto simp: modifyOrder_def Let_def)

text \<open>C6. A successful modifyOrder changed one pending order of the caller's merchant and customer: it
  stays pending, has the requested quantity (or the one it had), and its total is the product's
  current price times that quantity plus its delivery cost; every other order and all conversations
  are as before.  A modifyOrder that does not succeed changes nothing.\<close>

theorem modifyOrder_effect:
  assumes "schema_ok w" and "modifyOrder E e w = (res, w')"
  shows "(\<exists>d a q r p. res = Inr (ok d) \<and> safe_parse ModifyOrderArgsSchema e = Some a \<and>
      q \<in> set (orders w) \<and> scoped_order a q \<and> order_status q = PENDING \<and>
      product_by_id (order_productId q) (req_str ''merchantId'' a) w = Some p \<and>
      find_first (\<lambda>x. order_id x = order_id q) (orders w') = Some r \<and> order_status r = PENDING \<and>
      order_quantity r = coalesce (int_arg ''quantity'' a) (order_quantity q) \<and>
      order_totalAmount r = product_price p * of_int (order_quantity r) + order_deliveryCost r \<and>
      filter (\<lambda>x. order_id x \<noteq> order_id q) (orders w') = filter (\<lambda>x. order_id x \<noteq> order_id q) (orders w) \<and>
      conversations w' = conversations w) \<or>
    ((\<nexists>d. res = Inr (ok d)) \<and> w' = w)"
proof (cases "\<exists>a q p. safe_parse ModifyOrderArgsSchema e = Some a \<and>
    find_first (\<lambda>r. scoped_order a r \<and> order_status r = PENDING) (orders w) = Some q \<and>
    product_by_id (order_productId q) (req_str ''merchantId'' a) w = Some p")
  case False
  then show ?thesis
    using assms(2) by (auto simp: modifyOrder_def ok_def failure_def split: option.splits)
next
  case True
  then obtain a q p where a: "safe_parse ModifyOrderArgsSchema e = Some a"
    and q: "find_first (\<lambda>r. scoped_order a r \<and> order_status r = PENDING) (orders w) = Some q"
    and p: "product_by_id (order_productId q) (req_str ''merchantId'' a) w = Some p" by blast
  have qw: "q \<in> set (orders w)" "scoped_order a q" "order_status q = PENDING"
    using find_first_SomeD [OF q] by auto
  let ?n = "coalesce (int_arg ''quantity'' a) (order_quantity q)"
  let ?c = "modify_cost E a q w"
  have mc: "(\<exists>commune. modify_commit a q commune ?n ?c (product_price p * of_int ?n + ?c) w = (res, w')) \<or>
      (\<exists>m. res = Inr (failure m)) \<and> w' = w"
    using modifyOrder_reduces [OF a q p, of E] assms(2) by auto
  show ?thesis
  proof (cases "\<exists>d. res = Inr (ok d)")
    case False
    then show ?thesis using mc modify_commit_cases [OF assms(1) qw(1,2)] by blast
  next
    case True
    then obtain commune f where w': "w' = w\<lparr>orders := update_where (\<lambda>r. order_id r = order_id q)
          (modified (int_arg ''quantity'' a) (str_arg ''wilaya'' a) commune ?c (product_price p * of_int ?n + ?c)) (orders w),
             customers := update_where (\<lambda>r. customer_id r = req_str ''customerId'' a) f (customers w)\<rparr>"
      using mc modify_commit_cases [OF assms(1) qw(1,2)] by (fastforce simp: ok_def failure_def)
    let ?m = "modified (int_arg ''quantity'' a) (str_arg ''wilaya'' a) commune ?c (product_price p * of_int ?n + ?c)"
    have cost: "str_arg ''wilaya'' a = None \<longrightarrow> ?c = order_deliveryCost q" by (simp add: modify_cost_def)
    have "find_first (\<lambda>x. order_id x = order_id q) (orders w') = Some (?m q)"
      using assms(1) qw(1) w' by (simp add: find_first_updated schema_ok_def unique_by_def)
    moreover have "filter (\<lambda>x. order_id x \<noteq> order_id q) (orders w') = filter (\<lambda>x. order_id x \<noteq> order_id q) (orders w)"
      using w' by (auto intro!: filter_update_where)
    ultimately show ?thesis using True a qw p cost w' by auto
  qed
qed


definition sample_modify :: entities where
  "sample_modify =
     [(''orderId'', JStr ''o1''), (''quantity'', JNum 3), (''merchantId'', JStr ''m1''),
      (''customerId'', JStr ''c1'')]"

theorem modifyOrder_effect_witness:
  "conversations (snd (modifyOrder sample_env sample_modify sample_world)) = conversations sample_world \<and>
   map order_totalAmount (orders (snd (modifyOrder sample_env sample_modify sample_world))) = [700, 500]"
proof
  show "conversations (snd (modifyOrder sample_env sample_modify sample_world)) = conversations sample_world"
    using modifyOrder_effect [OF sample_schema_ok surjective_pairing, of sample_env sample_modify] by auto
  show "map order_totalAmount (orders (snd (modifyOrder sample_env sample_modify sample_world))) = [700, 500]"
    by code_simp
qed

end
