(* ===== verification/Tool_Scope.thy ===== *)
theory Tool_Scope
  imports Order_Tools
begin

text \<open>
  What no tool call touches.  \<open>confined m c v w w'\<close> says that \<open>w'\<close> differs from \<open>w\<close> at most in the orders of
  merchant \<open>m\<close> for customer \<open>c\<close>, in the row of that customer, in the row of conversation \<open>v\<close>, in the
  notifications of \<open>m\<close>, in order jobs added at the end and in the count of identifiers drawn; every other table, the
  Redis store, the mail jobs, the files and the requests to the gateway are the same.  Every tool keeps within the merchant, customer and
  conversation of its arguments, the read tools change nothing at all, and every tool keeps the state
  well formed.
\<close>

definition confined :: "string \<Rightarrow> string \<Rightarrow> string \<Rightarrow> world \<Rightarrow> world \<Rightarrow> bool" where
  "confined m c v w w' \<longleftrightarrow>
     filter (\<lambda>r. \<not> (order_merchantId r = m \<and> order_customerId r = c)) (orders w') =
       filter (\<lambda>r. \<not> (order_merchantId r = m \<and> order_customerId r = c)) (orders w) \<and>
     filter (\<lambda>r. customer_id r \<noteq> c) (customers w') = filter (\<lambda>r. customer_id r \<noteq> c) (customers w) \<and>
     filter (\<lambda>r. conv_id r \<noteq> v) (conversations w') = filter (\<lambda>r. conv_id r \<noteq> v) (conversations w) \<and>
     filter (\<lambda>r. notif_merchantId r \<noteq> m) (notifications w') =
       filter (\<lambda>r. notif_merchantId r \<noteq> m) (notifications w) \<and>
     (\<exists>js. orderJobs w' = orderJobs w @ js) \<and>
     w' = w\<lparr>orders := orders w', customers := customers w', conversations := conversations w',
            notifications := notifications w', orderJobs := orderJobs w', nextId := nextId w'\<rparr>"

text \<open>Every other field is untouched.\<close>

lemma confined_rest:
  assumes "confined m c v w w'"
  shows "products w' = products w" "messages w' = messages w" "owLog w' = owLog w" "messageJobs w' = messageJobs w"
proof -
  have eq: "w' = w\<lparr>orders := orders w', customers := customers w', conversations := conversations w',
      notifications := notifications w', orderJobs := orderJobs w', nextId := nextId w'\<rparr>"
    using assms by (simp add: confined_def)
  show "products w' = products w" "messages w' = messages w" "owLog w' = owLog w" "messageJobs w' = messageJobs w"
    by (subst eq, simp)+
qed

lemma confined_refl [simp]: "confined m c v w w"
  by (simp add: confined_def)

lemma confined_trans:
  assumes "confined m c v w w1" "confined m c v w1 w2"
  shows "confined m c v w w2"
proof -
  have 1: "w1 = w\<lparr>orders := orders w1, customers := customers w1, conversations := conversations w1,
      notifications := notifications w1, orderJobs := orderJobs w1, nextId := nextId w1\<rparr>"
    using assms(1) by (simp add: confined_def)
  have 2: "w2 = w1\<lparr>orders := orders w2, customers := customers w2, conversations := conversations w2,
      notifications := notifications w2, orderJobs := orderJobs w2, nextId := nextId w2\<rparr>"
    using assms(2) by (simp add: confined_def)
  have "w2 = w\<lparr>orders := orders w2, customers := customers w2, conversations := conversations w2,
      notifications := notifications w2, orderJobs := orderJobs w2, nextId := nextId w2\<rparr>"
    by (subst 2, subst 1) simp
  then show ?thesis using assms by (auto simp: confined_def)
qed

lemma confined_orders:
  "(\<And>r. r \<in> set (orders w) \<Longrightarrow> P r \<Longrightarrow> order_merchantId r = m \<and> order_customerId r = c) \<Longrightarrow>
   (\<And>r. order_merchantId (f r) = order_merchantId r) \<Longrightarrow> (\<And>r. order_customerId (f r) = order_customerId r) \<Longrightarrow>
   confined m c v w (w\<lparr>orders := update_where P f (orders w)\<rparr>)"
proof -
  assume *: "\<And>r. r \<in> set (orders w) \<Longrightarrow> P r \<Longrightarrow> order_merchantId r = m \<and> order_customerId r = c"
    "\<And>r. order_merchantId (f r) = order_merchantId r" "\<And>r. order_customerId (f r) = order_customerId r"
  have "update_where P f (orders w) =
      update_where (\<lambda>r. P r \<and> order_merchantId r = m \<and> order_customerId r = c) f (orders w)"
    by (rule update_where_cong) (use *(1) in blast)
  then show ?thesis using *(2,3) by (auto simp: confined_def intro!: filter_update_where)
qed

lemma confined_customers:
  "(\<And>r. customer_id (f r) = customer_id r) \<Longrightarrow>
   confined m c v w (w\<lparr>customers := update_where (\<lambda>r. customer_id r = c) f (customers w)\<rparr>)"
  by (simp add: confined_def filter_update_where)

lemma confined_conversations:
  "(\<And>r. conv_id (f r) = conv_id r) \<Longrightarrow>
   confined m c v w (w\<lparr>conversations := update_where (\<lambda>r. conv_id r = v) f (conversations w)\<rparr>)"
  by (simp add: confined_def filter_update_where)

lemma confined_jobs: "confined m c v w (enqueueOrderJob i w)"
  by (simp add: confined_def enqueueOrderJob_def)

lemma confined_notification:
  "confined m c v w (snd (create_notification E m ty title msg link w))"
  by (simp add: confined_def create_notification_def Let_def)

lemma confined_create_order:
  "create_order E d w = Inr (r, w') \<Longrightarrow> confined (oi_merchantId d) (oi_customerId d) v w w'"
  by (auto simp: create_order_Inr confined_def)

abbreviation args_confined :: "entities \<Rightarrow> world \<Rightarrow> world \<Rightarrow> bool" where
  "args_confined a w w' \<equiv>
     confined (req_str ''merchantId'' a) (req_str ''customerId'' a) (req_str ''conversationId'' a) w w'"

section \<open>Each write tool\<close>

text \<open>A step from a well-formed state that stays in scope and keeps the state well formed.\<close>

definition good_step :: "env \<Rightarrow> entities \<Rightarrow> world \<Rightarrow> world \<Rightarrow> bool" where
  "good_step E a w w' \<longleftrightarrow> args_confined a w w' \<and> world_ok E w'"

lemma good_stepI [intro]: "args_confined a w w' \<Longrightarrow> world_ok E w' \<Longrightarrow> good_step E a w w'"
  by (simp add: good_step_def)

lemma good_refl: "world_ok E w \<Longrightarrow> good_step E a w w"
  by (simp add: good_step_def)

lemma good_trans: "good_step E a w w1 \<Longrightarrow> good_step E a w1 w2 \<Longrightarrow> good_step E a w w2"
  by (auto simp: good_step_def intro: confined_trans)

lemma good_conversation:
  assumes "world_ok E w" "set_conversation (req_str ''conversationId'' a) f w = Inr (c, w')"
    and "\<And>r. conv_id (f r) = conv_id r" "\<And>r. conv_merchantId (f r) = conv_merchantId r"
    "\<And>r. conv_customerId (f r) = conv_customerId r" "\<And>r. conv_currentOrderId (f r) = conv_currentOrderId r"
  shows "good_step E a w w'"
proof -
  have w': "w' = w\<lparr>conversations := update_where (\<lambda>c. conv_id c = req_str ''conversationId'' a) f (conversations w)\<rparr>"
    using assms(2) by (auto simp: set_conversation_Inr)
  have "world_ok E w'"
    unfolding w' using assms by (intro world_ok_update_conversations) simp_all
  moreover have "args_confined a w w'" unfolding w' using assms(3) by (rule confined_conversations)
  ultimately show ?thesis by (rule good_stepI [rotated])
qed

lemma good_customers:
  "world_ok E w \<Longrightarrow> keeps_customer_keys f \<Longrightarrow>
   good_step E a w (w\<lparr>customers := update_where (\<lambda>r. customer_id r = req_str ''customerId'' a) f (customers w)\<rparr>)"
  by (simp add: good_step_def world_ok_update_customers confined_customers keeps_customer_keys_def)

lemma good_set_order_status:
  assumes "world_ok E w"
  shows "good_step E a w (snd (set_order_status a st cst w))"
proof (cases "update_order (scoped_order a) (\<lambda>r. r\<lparr>order_status := st\<rparr>) w")
  case (Inl err)
  then show ?thesis using assms by (cases err) (simp_all add: set_order_status_def good_refl)
next
  case (Inr x)
  obtain r w1 where x: "x = (r, w1)" by fastforce
  with Inr have w1: "w1 = w\<lparr>orders := update_where (scoped_order a) (\<lambda>r. r\<lparr>order_status := st\<rparr>) (orders w)\<rparr>"
    by (auto simp: update_in_Inr put_orders_def)
  have g1: "good_step E a w w1"
    unfolding w1 using assms
    by (intro good_stepI confined_orders) (simp_all add: world_ok_update_orders scoped_order_def)
  then have ok1: "world_ok E w1" by (simp add: good_step_def)
  show ?thesis
  proof (cases "set_conversation (req_str ''conversationId'' a) (\<lambda>c. c\<lparr>conv_state := cst\<rparr>) w1")
    case (Inl err)
    then show ?thesis using Inr x g1 by (cases err) (simp_all add: set_order_status_def)
  next
    case (Inr y)
    then obtain c w2 where y: "set_conversation (req_str ''conversationId'' a) (\<lambda>c. c\<lparr>conv_state := cst\<rparr>) w1 = Inr (c, w2)"
      by (cases y) auto
    have "good_step E a w1 w2" by (rule good_conversation [OF ok1 y]) simp_all
    then show ?thesis using g1 y \<open>update_order _ _ w = Inr x\<close> x
      by (auto simp: set_order_status_def intro: good_trans)
  qed
qed

lemma good_order_transaction:
  assumes "world_ok E w" "order_transaction E d v w = (Inr r, w')"
    "oi_merchantId d = req_str ''merchantId'' a" "oi_customerId d = req_str ''customerId'' a"
    "v = req_str ''conversationId'' a"
  shows "good_step E a w w'"
proof -
  obtain w1 where w1: "create_order E d w = Inr (r, w1)"
    and w': "w' = w1\<lparr>customers := update_where (\<lambda>c. customer_id c = oi_customerId d)
             (\<lambda>c. c\<lparr>customer_wilaya := Some (oi_wilaya d), customer_commune := Some (oi_commune d)\<rparr>)
             (customers w),
           conversations := update_where (\<lambda>c. conv_id c = v)
             (\<lambda>c. c\<lparr>conv_currentOrderId := Some (order_id r), conv_state := ST_WAITING_CONFIRMATION\<rparr>)
             (conversations w)\<rparr>"
    using order_transaction_Inr [OF assms(2)] by blast
  have same: "customers w1 = customers w" "conversations w1 = conversations w"
    using w1 by (auto simp: create_order_Inr)
  let ?w2 = "w1\<lparr>customers := update_where (\<lambda>c. customer_id c = oi_customerId d)
     (\<lambda>c. c\<lparr>customer_wilaya := Some (oi_wilaya d), customer_commune := Some (oi_commune d)\<rparr>) (customers w1)\<rparr>"
  have "args_confined a w w1" using confined_create_order [OF w1] assms(3,4) by simp
  moreover have "args_confined a w1 ?w2" unfolding assms(4) by (rule confined_customers) simp
  moreover have "args_confined a ?w2 (?w2\<lparr>conversations := update_where (\<lambda>c. conv_id c = req_str ''conversationId'' a)
      (\<lambda>c. c\<lparr>conv_currentOrderId := Some (order_id r), conv_state := ST_WAITING_CONFIRMATION\<rparr>) (conversations ?w2)\<rparr>)"
    by (rule confined_conversations) simp
  ultimately have "args_confined a w (?w2\<lparr>conversations := update_where (\<lambda>c. conv_id c = req_str ''conversationId'' a)
      (\<lambda>c. c\<lparr>conv_currentOrderId := Some (order_id r), conv_state := ST_WAITING_CONFIRMATION\<rparr>) (conversations ?w2)\<rparr>)"
    using confined_trans by blast
  then have "args_confined a w w'" using w' same assms(5) by simp
  then show ?thesis using world_ok_order_transaction [OF assms(1,2)] by (rule good_stepI)
qed


lemma good_create_step:
  assumes "world_ok E w" "create_step E a pid w = (r, w')"
  shows "good_step E a w w'"
proof (cases "\<exists>x. r = Inr (StepOk x)")
  case True
  then obtain x where "create_step E a pid w = (Inr (StepOk x), w')" using assms(2) by blast
  from create_step_ok [OF this] show ?thesis
    using good_order_transaction [OF assms(1)] by fastforce
next
  case False
  then show ?thesis using create_step_fails [OF assms(2)] assms(1) good_refl by blast
qed

lemma good_finish:
  "world_ok E w \<Longrightarrow> good_step E a w (snd (finish (create_deps E b key) x c w))"
  by (auto simp: finish_def intro!: good_stepI confined_jobs)

lemma good_createOrder:
  assumes "world_ok E w" "safe_parse CreateOrderArgsSchema e = Some a"
  shows "good_step E a w (snd (createOrder E id id key e w))"
proof -
  obtain c w1 where c: "create_step E a (platformOrderId_for E key) w = (c, w1)" by fastforce
  note g1 = good_create_step [OF assms(1) c]
  then have ok1: "world_ok E w1" by (simp add: good_step_def)
  have "good_step E a w (snd (createOrderOnce (create_deps E a key) id id w))"
    using good_finish [OF assms(1), of a a key] good_trans [OF g1 good_finish [OF ok1, of a a key]] g1 c
    by (auto simp: createOrderOnce_def Let_def split: option.splits sum.splits CreateStep.splits)
  moreover have "snd (createOrder E id id key e w) = snd (createOrderOnce (create_deps E a key) id id w)"
    using assms(2) by (auto simp: createOrder_def split: prod.splits sum.splits CreateOnceResult.splits)
  ultimately show ?thesis by simp
qed

lemma good_modifyOrder:
  assumes "world_ok E w" "safe_parse ModifyOrderArgsSchema e = Some a"
  shows "good_step E a w (snd (modifyOrder E e w))"
proof (cases "\<exists>q p. find_first (\<lambda>r. scoped_order a r \<and> order_status r = PENDING) (orders w) = Some q \<and>
    product_by_id (order_productId q) (req_str ''merchantId'' a) w = Some p")
  case False
  then show ?thesis
    using assms by (auto simp: modifyOrder_def good_refl split: option.splits)
next
  case True
  then obtain q p where q: "find_first (\<lambda>r. scoped_order a r \<and> order_status r = PENDING) (orders w) = Some q"
    and p: "product_by_id (order_productId q) (req_str ''merchantId'' a) w = Some p" by blast
  have sch: "schema_ok w" using assms(1) by (simp add: world_ok_def)
  have qw: "q \<in> set (orders w)" "scoped_order a q" using find_first_SomeD [OF q] by auto
  have commit: "good_step E a w w'" if m: "modify_commit a q cm n cost tot w = (res, w')" for cm n cost tot res w'
    using modify_commit_cases [OF sch qw m]
  proof (elim disjE exE conjE)
    fix f
    assume f: "keeps_customer_keys f" and
      w': "w' = w\<lparr>orders := update_where (\<lambda>r. order_id r = order_id q)
              (modified (int_arg ''quantity'' a) (str_arg ''wilaya'' a) cm cost tot) (orders w),
             customers := update_where (\<lambda>r. customer_id r = req_str ''customerId'' a) f (customers w)\<rparr>"
    let ?w1 = "w\<lparr>orders := update_where (\<lambda>r. order_id r = order_id q)
              (modified (int_arg ''quantity'' a) (str_arg ''wilaya'' a) cm cost tot) (orders w)\<rparr>"
    have g1: "good_step E a w ?w1"
      using scoped_order_unique(1) [OF sch qw] assms(1)
      by (intro good_stepI confined_orders) (auto simp: world_ok_update_orders scoped_order_def)
    then have ok1: "world_ok E ?w1" by (simp add: good_step_def)
    show ?thesis using good_trans [OF g1 good_customers [OF ok1 f]] w' by simp
  qed (use assms(1) good_refl in blast)
  show ?thesis
    using modifyOrder_reduces [OF assms(2) q p, of E] commit good_refl [OF assms(1)]
    by (metis prod.collapse snd_conv)
qed

lemma modify_commit_conversations:
  "conversations (snd (modify_commit a q cm n cost tot w)) = conversations w"
  by (auto simp: modify_commit_def update_in_Inr put_orders_def split: sum.splits prod.splits
      dest!: update_delivery_Inr)

lemma modifyOrder_conversations: "conversations (snd (modifyOrder E e w)) = conversations w"
  by (auto simp: modifyOrder_def Let_def modify_commit_conversations split: option.splits)

lemma good_escalate:
  assumes "world_ok E w" "safe_parse EscalateConversationArgsSchema e = Some a"
  shows "good_step E a w (snd (escalateConversation E e w))"
proof -
  have notify: "good_step E a w1 (snd (create_notification E (req_str ''merchantId'' a) ty title msg link w1))"
    if "world_ok E w1" for w1 ty title msg link
    using that by (intro good_stepI confined_notification world_ok_create_notification)
  have "good_step E a w (snd (create_notification E (req_str ''merchantId'' a) ty title msg link w1))"
    if c: "set_conversation (req_str ''conversationId'' a)
        (\<lambda>c. c\<lparr>conv_takenOverByHuman := True, conv_escalatedAt := Some (clock E)\<rparr>) w = Inr (c, w1)"
    for c w1 ty title msg link
  proof -
    have "good_step E a w w1" by (rule good_conversation [OF assms(1) c]) simp_all
    moreover from this have "world_ok E w1" by (simp add: good_step_def)
    ultimately show ?thesis using notify good_trans by blast
  qed
  then show ?thesis
    using assms by (auto simp: escalateConversation_def Let_def good_refl split: option.splits sum.splits)
qed

section \<open>All tools\<close>

lemma read_tools_pure: "isReadTool t \<Longrightarrow> snd (toolRegistry t E key e w) = w"
  by (cases t)
    (auto simp: searchProducts_def selectProduct_def getProductDetails_def suggestProducts_def
      calculateShipping_def getOrderStatus_def Let_def split: option.splits sum.splits prod.splits)

lemma good_toolRegistry:
  assumes "world_ok E w" "safe_parse (toolSchemas t) e = Some a"
  shows "good_step E a w (snd (toolRegistry t E key e w))"
proof (cases "isReadTool t")
  case True
  then show ?thesis using assms(1) by (simp add: read_tools_pure good_refl)
next
  case False
  then show ?thesis
    using assms good_set_order_status [OF assms(1), of a]
    by (cases t) (auto simp: good_createOrder good_modifyOrder good_escalate confirmOrder_def cancelOrder_def
        good_refl split: option.splits)
qed

lemma snd_executeTool:
  "snd (executeTool E t e key w) =
     (case safe_parse (toolSchemas t) e of None \<Rightarrow> w | Some a \<Rightarrow> snd (toolRegistry t E key a w))"
  by (auto simp: executeTool_def split: option.splits prod.splits sum.splits)

lemma good_executeTool:
  assumes "world_ok E w" "safe_parse (toolSchemas t) e = Some a"
  shows "good_step E a w (snd (executeTool E t e key w))"
  using good_toolRegistry [OF assms(1) safe_parse_idem [OF assms(2)], of key] assms(2)
  by (simp add: snd_executeTool)

lemma executeTool_rejected:
  "safe_parse (toolSchemas t) e = None \<Longrightarrow> snd (executeTool E t e key w) = w \<and> \<not> tr_success (fst (executeTool E t e key w))"
  by (simp add: executeTool_def)

lemma executeTool_read: "isReadTool t \<Longrightarrow> snd (executeTool E t e key w) = w"
  by (simp add: snd_executeTool read_tools_pure split: option.splits)

end
