(* ===== verification/Tool_Context.thy ===== *)
theory Tool_Context
  imports Tool_Scope
begin

text \<open>
  The transport's side of a tool call (\<open>back/src/modules/ai/toolContext.ts\<close>): which explicit entities a
  tool receives, and the navigation state a successful read tool leaves on the conversation.
\<close>

section \<open>Entities\<close>

text \<open>\<open>memory\<close> is null for a conversation that has none; the handlers then use an empty object.\<close>

definition empty_memory :: memory where
  "empty_memory = \<lparr>lastProductResults = None, rejectedProducts = None\<rparr>"

definition inject_order :: "conversation_row \<Rightarrow> entities \<Rightarrow> entities" where
  "inject_order c e =
     (if \<not> has_truthy ''orderId'' e \<and> coalesce (conv_currentOrderId c) [] \<noteq> []
      then obj_set ''orderId'' (JStr (coalesce (conv_currentOrderId c) [])) e else e)"

definition inject_product :: "conversation_row \<Rightarrow> entities \<Rightarrow> entities" where
  "inject_product c e =
     (if coalesce (conv_currentProductId c) [] \<noteq> []
      then obj_set ''productId'' (JStr (coalesce (conv_currentProductId c) [])) e else e)"

definition inject_exclusions ::
  "conversation_row \<Rightarrow> memory \<Rightarrow> product_ref list option \<Rightarrow> entities \<Rightarrow> entities" where
  "inject_exclusions c mem lastResults e =
     (let excludeIds =
            memoryExclusionIds
              (mem\<lparr>lastProductResults := Some (coalesce lastResults (coalesce (lastProductResults mem) []))\<rparr>)
              (conv_currentProductId c)
      in if excludeIds \<noteq> [] then obj_set ''excludedProductIds'' (JStr (stringify_strings excludeIds)) e else e)"

definition identity_entities :: "conversation_row \<Rightarrow> entities \<Rightarrow> entities" where
  "identity_entities c e =
     obj_set ''conversationId'' (JStr (conv_id c))
       (obj_set ''customerId'' (JStr (conv_customerId c))
         (obj_set ''merchantId'' (JStr (conv_merchantId c)) e))"

fun buildToolEntities ::
  "ToolName \<Rightarrow> entities \<Rightarrow> conversation_row \<Rightarrow> memory \<Rightarrow> product_ref list option \<Rightarrow> entities" where
  "buildToolEntities CancelOrder e c mem lastResults = inject_order c (identity_entities c e)"
| "buildToolEntities GetOrderStatus e c mem lastResults = inject_order c (identity_entities c e)"
| "buildToolEntities ModifyOrder e c mem lastResults = inject_order c (identity_entities c e)"
| "buildToolEntities ConfirmOrder e c mem lastResults = inject_order c (identity_entities c e)"
| "buildToolEntities SuggestProducts e c mem lastResults =
     inject_exclusions c mem lastResults (identity_entities c e)"
| "buildToolEntities SelectProduct e c mem lastResults =
     (let t = identity_entities c e in
      if \<not> has_truthy ''productId'' t \<and> \<not> has_truthy ''productName'' t then inject_product c t else t)"
| "buildToolEntities GetProductDetails e c mem lastResults =
     (let t = identity_entities c e in
      if \<not> has_truthy ''productId'' t then inject_product c t else t)"
| "buildToolEntities _ e c mem lastResults = identity_entities c e"

section \<open>Navigation state\<close>

definition applyReadToolState :: "string \<Rightarrow> ToolName \<Rightarrow> ToolResult \<Rightarrow> world \<Rightarrow> exn + world" where
  "applyReadToolState conversationId t result w =
     (if \<not> tr_success result then Inr w
      else (case READ_TOOL_TRANSITIONS t of
              None \<Rightarrow> Inr w
            | Some transition \<Rightarrow>
                (let productId = (case tr_data result of Some d \<Rightarrow> str_arg ''productId'' d | None \<Rightarrow> None) in
                 (case set_conversation conversationId
                         (\<lambda>c. c\<lparr>conv_state := transition,
                                conv_currentProductId :=
                                  (if productId = None then conv_currentProductId c else productId)\<rparr>) w of
                    Inl err \<Rightarrow> Inl err
                  | Inr (_, w') \<Rightarrow> Inr w'))))"

section \<open>Facts\<close>

lemma map_of_identity_entities:
  "map_of (identity_entities c e) k =
     (if k = ''conversationId'' then Some (JStr (conv_id c))
      else if k = ''customerId'' then Some (JStr (conv_customerId c))
      else if k = ''merchantId'' then Some (JStr (conv_merchantId c)) else map_of e k)"
  by (simp add: identity_entities_def)

lemma map_of_inject_order:
  "k \<noteq> ''orderId'' \<Longrightarrow> map_of (inject_order c e) k = map_of e k"
  by (simp add: inject_order_def)

lemma map_of_inject_product:
  "k \<noteq> ''productId'' \<Longrightarrow> map_of (inject_product c e) k = map_of e k"
  by (simp add: inject_product_def)

lemma map_of_inject_exclusions:
  "k \<noteq> ''excludedProductIds'' \<Longrightarrow> map_of (inject_exclusions c mem l e) k = map_of e k"
  by (simp add: inject_exclusions_def Let_def)

lemmas map_of_inject = map_of_inject_order map_of_inject_product map_of_inject_exclusions map_of_identity_entities

lemma buildToolEntities_identity:
  "map_of (buildToolEntities t e c mem l) ''merchantId'' = Some (JStr (conv_merchantId c))"
  "map_of (buildToolEntities t e c mem l) ''customerId'' = Some (JStr (conv_customerId c))"
  "map_of (buildToolEntities t e c mem l) ''conversationId'' = Some (JStr (conv_id c))"
  by (cases t; simp add: map_of_inject Let_def)+

text \<open>The identity a tool sees after validation is that of the conversation row, whatever was sent.\<close>

lemma parsed_identity:
  assumes "safe_parse (toolSchemas t) (buildToolEntities t' e c mem l) = Some a"
  shows "req_str ''merchantId'' a = conv_merchantId c"
    "req_str ''customerId'' a = (if ''customerId'' \<in> field_key ` set (schema_fields (toolSchemas t)) then conv_customerId c else [])"
    "req_str ''conversationId'' a = (if ''conversationId'' \<in> field_key ` set (schema_fields (toolSchemas t)) then conv_id c else [])"
proof -
  note look = safe_parse_lookup [OF assms] and ident = buildToolEntities_identity [of t' e c mem l]
  have "''merchantId'' \<in> field_key ` set (schema_fields (toolSchemas t))"
    by (cases t) (simp_all add: schema_defs)
  then show "req_str ''merchantId'' a = conv_merchantId c"
    using look [of "''merchantId''"] ident(1) by (simp add: req_str_def str_arg_def)
  show "req_str ''customerId'' a = (if ''customerId'' \<in> field_key ` set (schema_fields (toolSchemas t)) then conv_customerId c else [])"
    using look [of "''customerId''"] ident(2) by (simp add: req_str_def str_arg_def)
  show "req_str ''conversationId'' a = (if ''conversationId'' \<in> field_key ` set (schema_fields (toolSchemas t)) then conv_id c else [])"
    using look [of "''conversationId''"] ident(3) by (simp add: req_str_def str_arg_def)
qed

lemma applyReadToolState_Inr:
  assumes "applyReadToolState v t r w = Inr w'"
  shows "w' = w \<or> (\<exists>st pid. tr_success r \<and> READ_TOOL_TRANSITIONS t = Some st \<and>
    pid = (case tr_data r of Some d \<Rightarrow> str_arg ''productId'' d | None \<Rightarrow> None) \<and>
    w' = w\<lparr>conversations := update_where (\<lambda>c. conv_id c = v)
      (\<lambda>c. c\<lparr>conv_state := st,
             conv_currentProductId := (if pid = None then conv_currentProductId c else pid)\<rparr>) (conversations w)\<rparr>)"
  using assms
  by (auto simp: applyReadToolState_def Let_def set_conversation_Inr split: if_splits option.splits sum.splits)

lemma applyReadToolState_write: "\<not> isReadTool t \<Longrightarrow> applyReadToolState v t r w = Inr w"
  by (simp add: applyReadToolState_def isReadTool_transition)

end
