(* ===== verification/Tool_Server.thy ===== *)
theory Tool_Server
  imports Tool_Context
begin

text \<open>
  The gRPC ToolService (\<open>back/src/grpc/tool.server.ts\<close>): authentication, \<open>Health\<close>, \<open>ExecuteTool\<close> and
  \<open>GetConversationContext\<close>.  A call is the list of its \<open>authorization\<close> metadata values and its
  request; the answer is a gRPC status with a message or a response.  \<open>dataJson\<close> is kept as the object
  that is serialised, times as milliseconds.
\<close>

section \<open>Requests and answers\<close>

record IdentityInput =
  idn_merchantId :: "string option"
  idn_customerId :: "string option"
  idn_conversationId :: "string option"

record ExecuteToolRequest =
  req_toolName :: string
  req_entitiesJson :: string
  req_identity :: "IdentityInput option"
  req_idempotencyKey :: "string option"

datatype wire_outcome = OUTCOME_SUCCESS | OUTCOME_NOT_FOUND | OUTCOME_AMBIGUOUS | OUTCOME_UNSPECIFIED

record ExecuteToolResponse =
  resp_success :: bool
  resp_outcome :: wire_outcome
  resp_data :: entities
  resp_error :: string

datatype grpc_status = PERMISSION_DENIED | INVALID_ARGUMENT | STATUS_NOT_FOUND | INTERNAL

datatype 'a grpc_answer = Status grpc_status string | Answer 'a

section \<open>Authentication and health\<close>

definition authError :: "string \<Rightarrow> string list \<Rightarrow> (grpc_status \<times> string) option" where
  "authError internalApiKey authorization =
     (let expected = ''Bearer '' @ internalApiKey;
          received = (case authorization of [] \<Rightarrow> [] | v # _ \<Rightarrow> v)
      in if received \<noteq> expected then Some (PERMISSION_DENIED, ''missing or invalid INTERNAL_API_KEY'') else None)"

definition healthHandler :: "string \<Rightarrow> string list \<Rightarrow> string grpc_answer" where
  "healthHandler internalApiKey authorization =
     (case authError internalApiKey authorization of
        Some (code, msg) \<Rightarrow> Status code msg
      | None \<Rightarrow> Answer ''STATUS_SERVING'')"

section \<open>ExecuteTool\<close>

definition toolResponse :: "bool \<Rightarrow> wire_outcome \<Rightarrow> entities \<Rightarrow> string \<Rightarrow> ExecuteToolResponse" where
  "toolResponse success outcome data err =
     \<lparr>resp_success = success, resp_outcome = outcome, resp_data = data, resp_error = err\<rparr>"

definition wire_response :: "ToolResult \<Rightarrow> ExecuteToolResponse" where
  "wire_response r =
     toolResponse (tr_success r)
       (if tr_success r then OUTCOME_SUCCESS
        else if tr_outcome r = Some NOT_FOUND then OUTCOME_NOT_FOUND
        else if tr_outcome r = Some AMBIGUOUS then OUTCOME_AMBIGUOUS else OUTCOME_UNSPECIFIED)
       (coalesce (tr_data r) []) (coalesce (tr_error r) [])"

text \<open>\<open>entitiesJson\<close>: empty means no entities; anything but a JSON object is rejected.\<close>

definition parse_entities :: "string \<Rightarrow> entities option" where
  "parse_entities s =
     (if s = [] then Some []
      else (case json_parse s of Some (JObj e) \<Rightarrow> Some e | _ \<Rightarrow> None))"

definition truthy_str :: "string option \<Rightarrow> string option" where
  "truthy_str v = (case v of Some s \<Rightarrow> (if s = [] then None else Some s) | None \<Rightarrow> None)"

text \<open>
  The scope both handlers establish: the conversation row the identity names, provided the merchant
  and the customer it names, if any, are the row's.
\<close>

definition resolve_conversation ::
  "IdentityInput option \<Rightarrow> world \<Rightarrow> (grpc_status \<times> string) + conversation_row" where
  "resolve_conversation identity w =
     (case truthy_str (case identity of Some i \<Rightarrow> idn_conversationId i | None \<Rightarrow> None) of
        None \<Rightarrow> Inl (INVALID_ARGUMENT, ''identity.conversation_id is required'')
      | Some cid \<Rightarrow>
          (case find_first (\<lambda>c. conv_id c = cid) (conversations w) of
             None \<Rightarrow> Inl (STATUS_NOT_FOUND, ''Conversation \"'' @ cid @ ''\" not found'')
           | Some c \<Rightarrow>
               (let m = truthy_str (case identity of Some i \<Rightarrow> idn_merchantId i | None \<Rightarrow> None);
                    cu = truthy_str (case identity of Some i \<Rightarrow> idn_customerId i | None \<Rightarrow> None)
                in if m \<noteq> None \<and> m \<noteq> Some (conv_merchantId c) then
                     Inl (INVALID_ARGUMENT, ''identity.merchant_id does not match the conversation'')
                   else if cu \<noteq> None \<and> cu \<noteq> Some (conv_customerId c) then
                     Inl (INVALID_ARGUMENT, ''identity.customer_id does not match the conversation'')
                   else Inr c)))"

definition run_tool ::
  "env \<Rightarrow> ToolName \<Rightarrow> entities \<Rightarrow> string option \<Rightarrow> conversation_row \<Rightarrow> world \<Rightarrow>
   ExecuteToolResponse grpc_answer \<times> world" where
  "run_tool E t agentEntities key conversation w =
     (let toolEntities =
            buildToolEntities t agentEntities conversation (coalesce (conv_memory conversation) empty_memory) None
      in (case executeTool E t toolEntities (truthy_str key) w of (result, w1) \<Rightarrow>
           (case applyReadToolState (conv_id conversation) t result w1 of
              Inl _ \<Rightarrow> (Status INTERNAL ''Tool execution failed unexpectedly'', w1)
            | Inr w2 \<Rightarrow> (Answer (wire_response result), w2))))"

definition has_conversationId :: "IdentityInput option \<Rightarrow> bool" where
  "has_conversationId identity =
     (truthy_str (case identity of Some i \<Rightarrow> idn_conversationId i | None \<Rightarrow> None) \<noteq> None)"

definition suppressed_response :: ExecuteToolResponse where
  "suppressed_response =
     toolResponse False OUTCOME_UNSPECIFIED []
       ''Conversation is under human takeover; read tools are suppressed''"

definition executeToolHandler ::
  "env \<Rightarrow> string \<Rightarrow> string list \<Rightarrow> ExecuteToolRequest \<Rightarrow> world \<Rightarrow>
   ExecuteToolResponse grpc_answer \<times> world" where
  "executeToolHandler E internalApiKey authorization req w =
     (case authError internalApiKey authorization of
        Some (code, msg) \<Rightarrow> (Status code msg, w)
      | None \<Rightarrow>
          (case map_of ToolNameSchema (req_toolName req) of
             None \<Rightarrow> (Status INVALID_ARGUMENT (''Unknown tool \"'' @ req_toolName req @ ''\"''), w)
           | Some t \<Rightarrow>
               if req_toolName req \<in> set LEGACY_ONLY_TOOL_NAMES then
                 (Status INVALID_ARGUMENT (''Tool \"'' @ req_toolName req @ ''\" is not part of the agent contract''), w)
               else if \<not> has_conversationId (req_identity req) then
                 (Status INVALID_ARGUMENT ''identity.conversation_id is required'', w)
               else
                 (case parse_entities (req_entitiesJson req) of
                    None \<Rightarrow> (Status INVALID_ARGUMENT ''entities_json is not a valid JSON object'', w)
                  | Some agentEntities \<Rightarrow>
                      (case resolve_conversation (req_identity req) w of
                         Inl (code, msg) \<Rightarrow> (Status code msg, w)
                       | Inr conversation \<Rightarrow>
                           (case find_first (\<lambda>c. customer_id c = conv_customerId conversation) (customers w) of
                              None \<Rightarrow>
                                (Status STATUS_NOT_FOUND
                                   (''Customer \"'' @ conv_customerId conversation @ ''\" not found''), w)
                            | Some _ \<Rightarrow>
                                if conv_takenOverByHuman conversation \<and> isReadTool t
                                then (Answer suppressed_response, w)
                                else run_tool E t agentEntities (req_idempotencyKey req) conversation w)))))"

section \<open>GetConversationContext\<close>

datatype proto_sender = SENDER_CUSTOMER | SENDER_AI | SENDER_MERCHANT

fun SENDER_TO_PROTO :: "MessageSender \<Rightarrow> proto_sender" where
  "SENDER_TO_PROTO CUSTOMER = SENDER_CUSTOMER"
| "SENDER_TO_PROTO AI = SENDER_AI"
| "SENDER_TO_PROTO MERCHANT = SENDER_MERCHANT"

record CustomerContext =
  cc_name :: string
  cc_language :: string
  cc_wilaya :: string
  cc_commune :: string

record OrderContext =
  oc_orderId :: string
  oc_status :: string
  oc_productId :: string
  oc_productName :: string
  oc_quantity :: int
  oc_totalAmount :: rat
  oc_deliveryCost :: rat
  oc_wilaya :: string
  oc_commune :: string
  oc_address :: string
  oc_trackingNumber :: string

record ProductContext =
  pc_productId :: string
  pc_name :: string
  pc_price :: rat
  pc_currency :: string
  pc_stockStatus :: string

record ContextMessage =
  cm_sender :: proto_sender
  cm_text :: string
  cm_createdAt :: int

record GetConversationContextResponse =
  ctx_customer :: CustomerContext
  ctx_currentOrder :: "OrderContext option"
  ctx_currentProduct :: "ProductContext option"
  ctx_messages :: "ContextMessage list"

definition DEFAULT_CONTEXT_MESSAGES :: int where
  "DEFAULT_CONTEXT_MESSAGES = 20"

definition MAX_CONTEXT_MESSAGES :: int where
  "MAX_CONTEXT_MESSAGES = 50"

definition context_limit :: "int \<Rightarrow> nat" where
  "context_limit requested =
     nat (if requested > 0 then min requested MAX_CONTEXT_MESSAGES else DEFAULT_CONTEXT_MESSAGES)"

definition customer_context :: "customer_row \<Rightarrow> CustomerContext" where
  "customer_context c =
     \<lparr>cc_name = coalesce (customer_name c) [], cc_language = coalesce (customer_language c) [],
      cc_wilaya = coalesce (customer_wilaya c) [], cc_commune = coalesce (customer_commune c) []\<rparr>"

definition order_context :: "order_row \<Rightarrow> OrderContext" where
  "order_context r =
     \<lparr>oc_orderId = order_id r, oc_status = status_text (order_status r), oc_productId = order_productId r,
      oc_productName = order_productName r, oc_quantity = order_quantity r,
      oc_totalAmount = order_totalAmount r, oc_deliveryCost = order_deliveryCost r,
      oc_wilaya = order_wilaya r, oc_commune = order_commune r,
      oc_address = coalesce (order_address r) [], oc_trackingNumber = coalesce (order_trackingNumber r) []\<rparr>"

definition product_context :: "product_row \<Rightarrow> ProductContext" where
  "product_context p =
     \<lparr>pc_productId = product_id p, pc_name = product_name p, pc_price = product_price p,
      pc_currency = product_currency p, pc_stockStatus = product_stockStatus p\<rparr>"

definition context_message :: "message_row \<Rightarrow> ContextMessage" where
  "context_message m =
     \<lparr>cm_sender = SENDER_TO_PROTO (msg_sender m),
      cm_text = (if msg_text m \<noteq> [] then msg_text m else msg_content m),
      cm_createdAt = msg_createdAt m\<rparr>"

definition recent_messages :: "string \<Rightarrow> nat \<Rightarrow> world \<Rightarrow> message_row list" where
  "recent_messages conversationId limit w =
     take limit (sort_key (\<lambda>m. - msg_createdAt m)
       (filter (\<lambda>m. msg_conversationId m = conversationId) (messages w)))"

definition getConversationContextHandler ::
  "string \<Rightarrow> string list \<Rightarrow> IdentityInput option \<Rightarrow> int \<Rightarrow> world \<Rightarrow>
   GetConversationContextResponse grpc_answer" where
  "getConversationContextHandler internalApiKey authorization identity messageLimit w =
     (case authError internalApiKey authorization of
        Some (code, msg) \<Rightarrow> Status code msg
      | None \<Rightarrow>
          (case resolve_conversation identity w of
             Inl (code, msg) \<Rightarrow> Status code msg
           | Inr conversation \<Rightarrow>
               (let product =
                      (case truthy_str (conv_currentProductId conversation) of
                         Some i \<Rightarrow> product_by_id i (conv_merchantId conversation) w
                       | None \<Rightarrow> None);
                    order =
                      (case conv_currentOrderId conversation of
                         Some i \<Rightarrow> find_first (\<lambda>r. order_id r = i) (orders w)
                       | None \<Rightarrow> None);
                    recent = recent_messages (conv_id conversation) (context_limit messageLimit) w
                in (case find_first (\<lambda>c. customer_id c = conv_customerId conversation) (customers w) of
                      None \<Rightarrow> Status INTERNAL ''Reading the conversation context failed unexpectedly''
                    | Some customer \<Rightarrow>
                        Answer \<lparr>ctx_customer = customer_context customer,
                                ctx_currentOrder = map_option order_context order,
                                ctx_currentProduct = map_option product_context product,
                                ctx_messages = map context_message (rev recent)\<rparr>))))"


section \<open>Facts\<close>

lemma wire_response_simps [simp]:
  "resp_success (wire_response r) = tr_success r" "resp_data (wire_response r) = coalesce (tr_data r) []"
  by (simp_all add: wire_response_def toolResponse_def)

lemma resolve_conversation_Inr:
  assumes "resolve_conversation identity w = Inr c"
  shows "c \<in> set (conversations w)"
    and "\<exists>i. identity = Some i \<and> idn_conversationId i = Some (conv_id c) \<and>
      (\<forall>m. truthy_str (idn_merchantId i) = Some m \<longrightarrow> m = conv_merchantId c) \<and>
      (\<forall>m. truthy_str (idn_customerId i) = Some m \<longrightarrow> m = conv_customerId c)"
  using assms
  by (auto simp: resolve_conversation_def truthy_str_def Let_def split: option.splits if_splits
      dest: find_first_SomeD)

text \<open>A call of \<open>ExecuteTool\<close> is answered without running the tool, or is the run of the tool.\<close>

definition runs ::
  "string \<Rightarrow> string list \<Rightarrow> ExecuteToolRequest \<Rightarrow> world \<Rightarrow> ToolName \<Rightarrow> entities \<Rightarrow> conversation_row \<Rightarrow> bool" where
  "runs key auth req w t e c \<longleftrightarrow>
     authError key auth = None \<and> req_toolName req = tool_name t \<and>
     parse_entities (req_entitiesJson req) = Some e \<and> resolve_conversation (req_identity req) w = Inr c \<and>
     (\<exists>cu \<in> set (customers w). customer_id cu = conv_customerId c) \<and>
     \<not> (conv_takenOverByHuman c \<and> isReadTool t)"

lemma executeToolHandler_runs:
  assumes "runs key auth req w t e c"
  shows "executeToolHandler E key auth req w = run_tool E t e (req_idempotencyKey req) c w"
proof -
  have "has_conversationId (req_identity req)"
    using assms by (auto simp: runs_def resolve_conversation_def has_conversationId_def split: option.splits)
  moreover obtain cu where "find_first (\<lambda>cu. customer_id cu = conv_customerId c) (customers w) = Some cu"
    using assms find_first_exists [of _ "customers w" "\<lambda>cu. customer_id cu = conv_customerId c"]
    by (auto simp: runs_def)
  ultimately show ?thesis
    using assms by (auto simp: executeToolHandler_def runs_def LEGACY_ONLY_TOOL_NAMES_def)
qed

lemma executeToolHandler_cases:
  "(\<exists>t e c. runs key auth req w t e c) \<or>
   (\<exists>code msg. executeToolHandler E key auth req w = (Status code msg, w)) \<or>
   executeToolHandler E key auth req w = (Answer suppressed_response, w)"
  unfolding executeToolHandler_def runs_def LEGACY_ONLY_TOOL_NAMES_def
  by (auto simp: map_of_ToolNameSchema split: option.splits sum.splits prod.splits dest!: find_first_SomeD)

section \<open>Rejected calls\<close>

definition sample_req :: "string \<Rightarrow> string \<Rightarrow> string \<Rightarrow> ExecuteToolRequest" where
  "sample_req tool json conv =
     \<lparr>req_toolName = tool, req_entitiesJson = json,
      req_identity = Some \<lparr>idn_merchantId = Some ''m1'', idn_customerId = None, idn_conversationId = Some conv\<rparr>,
      req_idempotencyKey = Some ''k1''\<rparr>"

text \<open>C5. ExecuteTool runs a tool, and can change the state, only for a call that carries the internal API
  key as its first authorization value, names a tool of the contract, has a JSON object (or nothing)
  as entities, and whose identity names an existing conversation without contradicting that row's
  merchant or customer.  Every other call leaves the state as it was.\<close>

theorem executeTool_rejects:
  assumes "snd (executeToolHandler E key auth req w) \<noteq> w"
  shows "\<exists>rest t e c i. auth = (''Bearer '' @ key) # rest \<and> req_toolName req = tool_name t \<and>
    tool_name t \<in> set TOOL_NAMES \<and> parse_entities (req_entitiesJson req) = Some e \<and>
    req_identity req = Some i \<and> c \<in> set (conversations w) \<and> idn_conversationId i = Some (conv_id c) \<and>
    idn_merchantId i \<in> {None, Some [], Some (conv_merchantId c)} \<and>
    idn_customerId i \<in> {None, Some [], Some (conv_customerId c)}"
proof -
  obtain t e c where r: "runs key auth req w t e c"
    using executeToolHandler_cases [of key auth req w E] assms by auto
  then obtain rest where "auth = (''Bearer '' @ key) # rest"
    by (auto simp: runs_def authError_def Let_def split: list.splits if_splits)
  moreover have "tool_name t \<in> set TOOL_NAMES" by (cases t) (simp_all add: TOOL_NAMES_def)
  moreover obtain i where "req_identity req = Some i" "idn_conversationId i = Some (conv_id c)"
    "\<forall>m. truthy_str (idn_merchantId i) = Some m \<longrightarrow> m = conv_merchantId c"
    "\<forall>m. truthy_str (idn_customerId i) = Some m \<longrightarrow> m = conv_customerId c"
    using resolve_conversation_Inr(2) r by (metis runs_def)
  moreover have "c \<in> set (conversations w)" using resolve_conversation_Inr(1) r by (metis runs_def)
  ultimately show ?thesis using r
    by (intro exI [of _ rest] exI [of _ t] exI [of _ e] exI [of _ c] exI [of _ i])
      (auto simp: runs_def truthy_str_def split: option.splits if_splits)
qed

theorem executeTool_rejects_witness:
  "\<exists>rest. [''Bearer k''] = (''Bearer '' @ ''k'') # rest \<and>
     snd (executeToolHandler sample_env ''k'' [''Bearer k''] (sample_req ''confirmOrder'' [] ''v1'') sample_world) \<noteq> sample_world"
proof -
  have "map order_status (orders (snd (executeToolHandler sample_env ''k'' [''Bearer k'']
      (sample_req ''confirmOrder'' [] ''v1'') sample_world))) = [CONFIRMED, PENDING]" by code_simp
  moreover have "map order_status (orders sample_world) = [PENDING, PENDING]" by code_simp
  ultimately have ne: "snd (executeToolHandler sample_env ''k'' [''Bearer k''] (sample_req ''confirmOrder'' [] ''v1'') sample_world) \<noteq> sample_world"
    by (metis OrderStatus.distinct(1) list.inject)
  from executeTool_rejects [OF this] obtain rest where "[''Bearer k''] = (''Bearer '' @ ''k'') # rest" by blast
  with ne show ?thesis by blast
qed

text \<open>While a human owns the conversation, a well-formed call of a read tool is answered with the
  suppression message and changes nothing; nothing of the catalogue or the orders is read out.\<close>

theorem takeover_suppresses_reads:
  assumes "authError key auth = None" and "req_toolName req = tool_name t" and "isReadTool t"
    and "parse_entities (req_entitiesJson req) = Some e" and "resolve_conversation (req_identity req) w = Inr c"
    and "conv_takenOverByHuman c" and "cu \<in> set (customers w)" and "customer_id cu = conv_customerId c"
  shows "executeToolHandler E key auth req w = (Answer suppressed_response, w)"
proof -
  have "has_conversationId (req_identity req)"
    using assms(5) by (auto simp: resolve_conversation_def has_conversationId_def split: option.splits)
  moreover obtain q where "find_first (\<lambda>cu. customer_id cu = conv_customerId c) (customers w) = Some q"
    using find_first_exists [OF assms(7), of "\<lambda>cu. customer_id cu = conv_customerId c"] assms(8) by blast
  ultimately show ?thesis
    using assms by (simp add: executeToolHandler_def LEGACY_ONLY_TOOL_NAMES_def)
qed

theorem takeover_suppresses_reads_witness:
  "executeToolHandler sample_env ''k'' [''Bearer k''] (sample_req ''calculateShipping'' [] ''v3'') sample_world =
     (Answer suppressed_response, sample_world)"
proof (rule takeover_suppresses_reads)
  show "authError ''k'' [''Bearer k''] = None" by code_simp
  show "req_toolName (sample_req ''calculateShipping'' [] ''v3'') = tool_name CalculateShipping" by code_simp
  show "isReadTool CalculateShipping" by simp
  show "parse_entities (req_entitiesJson (sample_req ''calculateShipping'' [] ''v3'')) = Some []" by code_simp
  show "resolve_conversation (req_identity (sample_req ''calculateShipping'' [] ''v3'')) sample_world =
      Inr (sample_conversation ''v3'' ''m1'' ''c3'' None True)" by code_simp
  show "conv_takenOverByHuman (sample_conversation ''v3'' ''m1'' ''c3'' None True)" by code_simp
  show "sample_customer ''c3'' ''m1'' ''213552'' \<in> set (customers sample_world)" by (simp add: sample_world_def)
  show "customer_id (sample_customer ''c3'' ''m1'' ''213552'') =
      conv_customerId (sample_conversation ''v3'' ''m1'' ''c3'' None True)" by code_simp
qed


section \<open>What a call may change\<close>

lemma executeTool_confined:
  assumes "world_ok E w"
  shows "confined (conv_merchantId c) (conv_customerId c) (conv_id c) w
           (snd (executeTool E t (buildToolEntities t e c mem l) key w)) \<and>
         world_ok E (snd (executeTool E t (buildToolEntities t e c mem l) key w))"
proof (cases "safe_parse (toolSchemas t) (buildToolEntities t e c mem l)")
  case None
  then show ?thesis using assms by (simp add: snd_executeTool)
next
  case (Some a)
  let ?w = "snd (executeTool E t (buildToolEntities t e c mem l) key w)"
  note good = good_executeTool [OF assms Some, of key] and ident = parsed_identity [OF Some]
  show ?thesis
  proof (cases "isReadTool t \<or> t = ModifyOrder")
    case False
    then have "req_str ''customerId'' a = conv_customerId c" "req_str ''conversationId'' a = conv_id c"
      using ident by (cases t; simp add: schema_defs)+
    then show ?thesis using good ident(1) by (simp add: good_step_def)
  next
    case True
    then consider "isReadTool t" | "t = ModifyOrder" by blast
    then show ?thesis
    proof cases
      case 1
      then show ?thesis using assms by (simp add: executeTool_read)
    next
      case 2
      then have "req_str ''customerId'' a = conv_customerId c" using ident by (simp add: schema_defs)
      moreover have "conversations ?w = conversations w"
        using 2 Some by (simp add: snd_executeTool modifyOrder_conversations)
      ultimately show ?thesis using good ident(1) by (simp add: good_step_def confined_def)
    qed
  qed
qed

lemma applyReadToolState_confined:
  assumes "applyReadToolState v t r w = Inr w'" "world_ok E w"
  shows "confined m c v w w' \<and> world_ok E w'"
  using applyReadToolState_Inr [OF assms(1)]
proof (elim disjE exE conjE)
  fix st pid
  assume w': "w' = w\<lparr>conversations := update_where (\<lambda>c. conv_id c = v)
      (\<lambda>c. c\<lparr>conv_state := st,
             conv_currentProductId := (if pid = None then conv_currentProductId c else pid)\<rparr>) (conversations w)\<rparr>"
  have "confined m c v w w'" unfolding w' by (rule confined_conversations) simp
  moreover have "world_ok E w'" unfolding w' using assms(2) by (intro world_ok_update_conversations) simp_all
  ultimately show ?thesis ..
qed (use assms(2) in simp)

lemma run_tool_confined:
  assumes "world_ok E w"
  shows "confined (conv_merchantId c) (conv_customerId c) (conv_id c) w (snd (run_tool E t e key c w)) \<and>
         world_ok E (snd (run_tool E t e key c w))"
proof -
  let ?e = "buildToolEntities t e c (coalesce (conv_memory c) empty_memory) None"
  obtain r w1 where x: "executeTool E t ?e (truthy_str key) w = (r, w1)" by fastforce
  then have "confined (conv_merchantId c) (conv_customerId c) (conv_id c) w w1" "world_ok E w1"
    using executeTool_confined [OF assms, of c t e "coalesce (conv_memory c) empty_memory" None "truthy_str key"] by auto
  then show ?thesis
    using x applyReadToolState_confined confined_trans
    by (auto simp: run_tool_def Let_def split: sum.splits)
qed

lemma executeToolHandler_messages:
  assumes "world_ok E w"
  shows "messages (snd (executeToolHandler E key auth req w)) = messages w \<and>
         owLog (snd (executeToolHandler E key auth req w)) = owLog w \<and>
         world_ok E (snd (executeToolHandler E key auth req w))"
  using executeToolHandler_cases [of key auth req w E]
proof (elim disjE exE)
  fix t e c
  assume r: "runs key auth req w t e c"
  from run_tool_confined [OF assms, of c t e "req_idempotencyKey req"] show ?thesis
    by (auto simp: executeToolHandler_runs [OF r] dest: confined_rest)
qed (use assms in simp_all)

text \<open>C3. Tenant isolation of ExecuteTool: whatever the tool, the entities and the key, a call changes at
  most the orders of the conversation's merchant for the conversation's customer, that customer's row,
  that conversation's row and that merchant's notifications, and adds jobs to the order queue; every other row and
  table, the Redis store, the other queues, the files and the requests to the gateway stay as they are.  And it keeps
  the state well formed (unique ids and keys, no dangling reference of an order).\<close>

theorem executeTool_isolated:
  assumes "world_ok E w" and "resolve_conversation (req_identity req) w = Inr c"
  shows "confined (conv_merchantId c) (conv_customerId c) (conv_id c) w (snd (executeToolHandler E key auth req w)) \<and>
         world_ok E (snd (executeToolHandler E key auth req w))"
  using executeToolHandler_cases [of key auth req w E]
proof (elim disjE exE)
  fix t e c'
  assume r: "runs key auth req w t e c'"
  then have "c' = c" using assms(2) by (simp add: runs_def)
  then show ?thesis using executeToolHandler_runs [OF r, of E] run_tool_confined [OF assms(1)] by simp
qed (use assms(1) in simp_all)

theorem executeTool_isolated_witness:
  "confined ''m1'' ''c1'' ''v1'' sample_world
     (snd (executeToolHandler sample_env ''k'' [''Bearer k''] (sample_req ''cancelOrder'' [] ''v1'') sample_world))"
proof -
  have "resolve_conversation (req_identity (sample_req ''cancelOrder'' [] ''v1'')) sample_world =
      Inr (sample_conversation ''v1'' ''m1'' ''c1'' (Some ''o1'') False)" by code_simp
  from executeTool_isolated [OF sample_ok this, of "''k''" "[''Bearer k'']"] show ?thesis
    by (simp add: sample_conversation_def)
qed

text \<open>A read tool has no business effect: after it, everything is as before except that on the
  conversation's row the state and the current product may have changed, and only after a successful
  run of a tool that has a transition.  In particular orders, customers, notifications, jobs and the
  takeover flag are untouched.\<close>

theorem read_tool_effect:
  assumes "isReadTool t" and "run_tool E t e key c w = (ans, w')"
  shows "w' = w \<or>
    (\<exists>resp st pid. ans = Answer resp \<and> resp_success resp \<and> READ_TOOL_TRANSITIONS t = Some st \<and>
       pid = str_arg ''productId'' (resp_data resp) \<and>
       w' = w\<lparr>conversations := update_where (\<lambda>x. conv_id x = conv_id c)
         (\<lambda>x. x\<lparr>conv_state := st,
                conv_currentProductId := (if pid = None then conv_currentProductId x else pid)\<rparr>) (conversations w)\<rparr>)"
proof -
  let ?e = "buildToolEntities t e c (coalesce (conv_memory c) empty_memory) None"
  obtain r where x: "executeTool E t ?e (truthy_str key) w = (r, w)"
    using executeTool_read [OF assms(1)] by (metis prod.collapse)
  show ?thesis
  proof (cases "applyReadToolState (conv_id c) t r w")
    case (Inl err)
    then show ?thesis using assms(2) x by (simp add: run_tool_def Let_def)
  next
    case (Inr w2)
    then have ans: "ans = Answer (wire_response r)" "w' = w2"
      using assms(2) x by (simp_all add: run_tool_def Let_def)
    have "(case tr_data r of Some d \<Rightarrow> str_arg ''productId'' d | None \<Rightarrow> None) = str_arg ''productId'' (coalesce (tr_data r) [])"
      by (simp add: str_arg_def split: option.splits)
    then have pid: "(case tr_data r of Some d \<Rightarrow> str_arg ''productId'' d | None \<Rightarrow> None) =
        str_arg ''productId'' (resp_data (wire_response r))" by simp
    show ?thesis
      using applyReadToolState_Inr [OF Inr] unfolding ans pid wire_response_simps(1) [symmetric] by blast
  qed
qed

theorem read_tool_effect_witness:
  "orders (snd (run_tool sample_env SelectProduct [(''productId'', JStr ''p2'')] None
      (sample_conversation ''v1'' ''m1'' ''c1'' (Some ''o1'') False) sample_world)) = orders sample_world \<and>
   map conv_currentProductId (conversations (snd (run_tool sample_env SelectProduct [(''productId'', JStr ''p2'')] None
      (sample_conversation ''v1'' ''m1'' ''c1'' (Some ''o1'') False) sample_world))) =
     [Some ''p2'', Some ''p1'', Some ''p1'']"
proof
  show "orders (snd (run_tool sample_env SelectProduct [(''productId'', JStr ''p2'')] None
      (sample_conversation ''v1'' ''m1'' ''c1'' (Some ''o1'') False) sample_world)) = orders sample_world"
    using read_tool_effect [OF _ surjective_pairing, of SelectProduct sample_env "[(''productId'', JStr ''p2'')]" None
        "sample_conversation ''v1'' ''m1'' ''c1'' (Some ''o1'') False" sample_world] by auto
qed code_simp


section \<open>A retried createOrder call\<close>

definition conv_key :: "conversation_row \<Rightarrow> string \<times> string \<times> string" where
  "conv_key c = (conv_id c, conv_merchantId c, conv_customerId c)"

lemma find_first_same_keys:
  assumes "map k xs = map k ys" and "\<And>x y. k x = k y \<Longrightarrow> P x = P y"
  shows "map_option k (find_first P xs) = map_option k (find_first P ys)"
  using assms(1)
proof (induction xs arbitrary: ys)
  case Nil
  then show ?case by (simp add: find_first_def)
next
  case (Cons x xs)
  then obtain y zs where ys: "ys = y # zs" "k x = k y" "map k xs = map k zs" by (cases ys) auto
  have "P x = P y" using assms(2) [OF ys(2)] .
  then show ?case using Cons.IH [OF ys(3)] ys by (cases "P x") (simp_all add: find_first_def)
qed

lemma create_step_keys:
  assumes "create_step E a pid w = (Inr (StepOk r), w')"
  shows "map conv_key (conversations w') = map conv_key (conversations w)"
    "customer_id ` set (customers w') = customer_id ` set (customers w)"
proof -
  obtain d v where "order_transaction E d v w = (Inr r, w')" using create_step_ok [OF assms] by blast
  from order_transaction_Inr [OF this] obtain w1 f g where
    "w' = w1\<lparr>customers := update_where (\<lambda>c. customer_id c = oi_customerId d) f (customers w),
       conversations := update_where (\<lambda>c. conv_id c = v) g (conversations w)\<rparr>"
    "\<And>c. customer_id (f c) = customer_id c" "\<And>c. conv_key (g c) = conv_key c"
    by (auto simp: conv_key_def)
  then show "map conv_key (conversations w') = map conv_key (conversations w)"
    "customer_id ` set (customers w') = customer_id ` set (customers w)"
    by (simp_all add: map_update_where image_update_where)
qed

lemma createOrder_keys:
  assumes "createOrder E id id key e w = (Inr res, w')" "tr_success res"
  shows "map conv_key (conversations w') = map conv_key (conversations w)"
    "customer_id ` set (customers w') = customer_id ` set (customers w)"
proof -
  obtain a r b where once: "createOrderOnce (create_deps E a key) id id w = (Inr (OnceOk r b), w')"
    using createOrder_successD [OF assms] by blast
  have "map conv_key (conversations w') = map conv_key (conversations w) \<and>
    customer_id ` set (customers w') = customer_id ` set (customers w)"
  proof (cases "find_keyed E a key w")
    case None
    from once_new [OF once None] show ?thesis using create_step_keys by fastforce
  next
    case (Some x)
    then show ?thesis using once by (auto simp: createOrderOnce_def finish_def split: if_splits)
  qed
  then show "map conv_key (conversations w') = map conv_key (conversations w)"
    "customer_id ` set (customers w') = customer_id ` set (customers w)" by blast+
qed

lemma resolve_same_keys:
  assumes "resolve_conversation i w = Inr c" "map conv_key (conversations w') = map conv_key (conversations w)"
  shows "\<exists>c'. resolve_conversation i w' = Inr c' \<and> conv_key c' = conv_key c"
proof -
  obtain cid where cid: "truthy_str (case i of Some i \<Rightarrow> idn_conversationId i | None \<Rightarrow> None) = Some cid"
    and c: "find_first (\<lambda>c. conv_id c = cid) (conversations w) = Some c"
    using assms(1) by (auto simp: resolve_conversation_def Let_def split: option.splits if_splits)
  have "map_option conv_key (find_first (\<lambda>c. conv_id c = cid) (conversations w')) = Some (conv_key c)"
    using find_first_same_keys [OF assms(2), of "\<lambda>c. conv_id c = cid"] c by (simp add: conv_key_def)
  then obtain c' where "find_first (\<lambda>c. conv_id c = cid) (conversations w') = Some c'" "conv_key c' = conv_key c"
    by auto
  then show ?thesis
    using assms(1) cid c by (auto simp: resolve_conversation_def Let_def conv_key_def split: if_splits)
qed

lemma run_createOrder:
  "run_tool E CreateOrder e key c w =
     (case executeTool E CreateOrder (identity_entities c e) (truthy_str key) w of
        (r, w1) \<Rightarrow> (Answer (wire_response r), w1))"
  by (simp add: run_tool_def applyReadToolState_write split: prod.splits)

lemma executeTool_successD:
  assumes "executeTool E t e key w = (r, w1)" "tr_success r"
  shows "\<exists>a. safe_parse (toolSchemas t) e = Some a \<and> toolRegistry t E key a w = (Inr r, w1)"
  using assms by (auto simp: executeTool_def split: option.splits prod.splits sum.splits)

text \<open>End to end: when the agent repeats a createOrder request with the same idempotency key after a
  success, the ToolService returns the very same response and changes nothing, although the first
  call moved the conversation to another state.  The environment may have changed meanwhile (clock,
  language model, generated ids).\<close>

theorem createOrder_retry:
  assumes "world_ok E w" and "runs key auth req w CreateOrder e c"
    and "req_idempotencyKey req = Some k" and "k \<noteq> []"
    and "executeToolHandler E key auth req w = (Answer resp, w1)" and "resp_success resp"
  shows "executeToolHandler E' key auth req w1 = (Answer resp, w1)"
proof -
  obtain r where x: "executeTool E CreateOrder (identity_entities c e) (Some k) w = (r, w1)"
    and resp: "resp = wire_response r"
    using assms(3-5) executeToolHandler_runs [OF assms(2), of E]
    by (auto simp: run_createOrder truthy_str_def split: prod.splits)
  have "tr_success r" using assms(6) resp by simp
  from executeTool_successD [OF x this] obtain a where a: "safe_parse CreateOrderArgsSchema (identity_entities c e) = Some a"
    and cr: "createOrder E id id (Some k) a w = (Inr r, w1)" by auto
  have aa: "safe_parse CreateOrderArgsSchema a = Some a" using safe_parse_idem [of CreateOrder] a by simp
  have again: "createOrder E' id id (Some k) a w1 = (Inr r, w1)"
    using createOrder_repeat [OF assms(1,4) cr \<open>tr_success r\<close> aa aa] by simp
  obtain c' where c': "resolve_conversation (req_identity req) w1 = Inr c'" "conv_key c' = conv_key c"
    using resolve_same_keys createOrder_keys(1) [OF cr \<open>tr_success r\<close>] assms(2) by (metis runs_def)
  then have same: "identity_entities c' e = identity_entities c e" "conv_customerId c' = conv_customerId c"
    by (simp_all add: identity_entities_def conv_key_def)
  have "conv_customerId c' \<in> customer_id ` set (customers w1)"
    using assms(2) same(2) createOrder_keys(2) [OF cr \<open>tr_success r\<close>]
    by (auto simp: runs_def intro: rev_image_eqI)
  then have "runs key auth req w1 CreateOrder e c'" using assms(2) c'(1) by (auto simp: runs_def)
  from executeToolHandler_runs [OF this, of E'] show ?thesis
    using again a same(1) resp assms(3,4) by (simp add: run_createOrder executeTool_def truthy_str_def)
qed

definition sample_create_json :: string where
  "sample_create_json =
     ''{'' @ quote ''productId'' @ '':'' @ quote ''p1'' @ '','' @ quote ''wilaya'' @ '':'' @ quote ''Alger'' @ '','' @
     quote ''commune'' @ '':'' @ quote ''Kouba'' @ '','' @ quote ''quantity'' @ '':2}''"

theorem createOrder_retry_witness:
  "\<exists>resp w1. executeToolHandler sample_env ''k'' [''Bearer k''] (sample_req ''createOrder'' sample_create_json ''v1'') sample_world =
       (Answer resp, w1) \<and> length (orders w1) = 3 \<and>
     executeToolHandler sample_env ''k'' [''Bearer k''] (sample_req ''createOrder'' sample_create_json ''v1'') w1 = (Answer resp, w1)"
proof -
  let ?req = "sample_req ''createOrder'' sample_create_json ''v1''"
  let ?e = "[(''productId'', JStr ''p1''), (''wilaya'', JStr ''Alger''), (''commune'', JStr ''Kouba''), (''quantity'', JNum 2)]"
  let ?c = "sample_conversation ''v1'' ''m1'' ''c1'' (Some ''o1'') False"
  have "runs ''k'' [''Bearer k''] ?req sample_world CreateOrder ?e ?c"
    unfolding runs_def
  proof (intro conjI)
    show "parse_entities (req_entitiesJson ?req) = Some ?e" by code_simp
    show "\<exists>cu \<in> set (customers sample_world). customer_id cu = conv_customerId ?c"
      by (simp add: sample_defs)
  qed code_simp+
  moreover have "case executeToolHandler sample_env ''k'' [''Bearer k''] ?req sample_world of
      (Answer resp, w1) \<Rightarrow> resp_success resp \<and> length (orders w1) = 3 | _ \<Rightarrow> False" by code_simp
  then obtain resp w1 where r: "executeToolHandler sample_env ''k'' [''Bearer k''] ?req sample_world = (Answer resp, w1)"
    "resp_success resp" "length (orders w1) = 3" by (auto split: prod.splits grpc_answer.splits)
  moreover have "req_idempotencyKey ?req = Some ''k1''" by (simp add: sample_req_def)
  ultimately show ?thesis using createOrder_retry [OF sample_ok, of "''k''" _ ?req ?e ?c "''k1''" resp w1 sample_env] by auto
qed


section \<open>The conversation context\<close>

lemma recent_messages_sorted:
  "sorted_wrt (\<lambda>m n. msg_createdAt m \<le> msg_createdAt n) (rev (recent_messages v n w))"
proof -
  have "sorted (map (\<lambda>m. - msg_createdAt m) (recent_messages v n w))"
    by (simp add: recent_messages_def take_map [symmetric])
  then show ?thesis by (simp add: sorted_wrt_rev sorted_map)
qed

lemma recent_messages_newest:
  assumes "m \<in> set (recent_messages v n w)" and "x \<in> set (messages w)" and "msg_conversationId x = v"
    and "x \<notin> set (recent_messages v n w)"
  shows "msg_createdAt x \<le> msg_createdAt m"
proof -
  let ?s = "sort_key (\<lambda>m. - msg_createdAt m) (filter (\<lambda>m. msg_conversationId m = v) (messages w))"
  have "sorted (map (\<lambda>m. - msg_createdAt m) (take n ?s @ drop n ?s))" by simp
  then have "\<forall>m \<in> set (take n ?s). \<forall>x \<in> set (drop n ?s). - msg_createdAt m \<le> - msg_createdAt x"
    unfolding map_append sorted_append by simp
  moreover have "m \<in> set (take n ?s)" using assms(1) by (simp add: recent_messages_def)
  moreover have "x \<in> set (drop n ?s)"
    using assms(2-4) set_append [of "take n ?s" "drop n ?s"] by (auto simp: recent_messages_def)
  ultimately show ?thesis by simp
qed

lemma set_recent_messages:
  "m \<in> set (recent_messages v n w) \<Longrightarrow> m \<in> set (messages w) \<and> msg_conversationId m = v"
  by (auto simp: recent_messages_def dest: in_set_takeD)

text \<open>C12. GetConversationContext answers only an authenticated call whose identity matches the
  conversation's row, with at most 50 messages (20 when no limit is asked, never more than asked), all
  of that conversation, oldest first, and the newest ones: a message of the conversation that is left
  out is not newer than any that is returned.\<close>

theorem context_answer:
  assumes "getConversationContextHandler key auth identity limit w = Answer ctx"
  shows "authError key auth = None \<and>
    (\<exists>c ms. resolve_conversation identity w = Inr c \<and> ctx_messages ctx = map context_message ms \<and>
       int (length ms) \<le> 50 \<and> (0 < limit \<longrightarrow> int (length ms) \<le> limit) \<and> (limit \<le> 0 \<longrightarrow> length ms \<le> 20) \<and>
       (\<forall>m \<in> set ms. m \<in> set (messages w) \<and> msg_conversationId m = conv_id c) \<and>
       sorted_wrt (\<lambda>m n. msg_createdAt m \<le> msg_createdAt n) ms \<and>
       (\<forall>m \<in> set ms. \<forall>x \<in> set (messages w). msg_conversationId x = conv_id c \<longrightarrow> x \<notin> set ms \<longrightarrow>
          msg_createdAt x \<le> msg_createdAt m))"
proof -
  obtain c where a: "authError key auth = None" and c: "resolve_conversation identity w = Inr c"
    and ms: "ctx_messages ctx = map context_message (rev (recent_messages (conv_id c) (context_limit limit) w))"
    using assms by (auto simp: getConversationContextHandler_def Let_def split: option.splits sum.splits prod.splits)
  let ?ms = "rev (recent_messages (conv_id c) (context_limit limit) w)"
  have "int (length ?ms) \<le> int (context_limit limit)" by (simp add: recent_messages_def)
  then have "int (length ?ms) \<le> 50 \<and> (0 < limit \<longrightarrow> int (length ?ms) \<le> limit) \<and> (limit \<le> 0 \<longrightarrow> length ?ms \<le> 20)"
    by (auto simp: context_limit_def MAX_CONTEXT_MESSAGES_def DEFAULT_CONTEXT_MESSAGES_def split: if_splits)
  moreover have "\<forall>m \<in> set ?ms. m \<in> set (messages w) \<and> msg_conversationId m = conv_id c"
    using set_recent_messages by auto
  moreover have "\<forall>m \<in> set ?ms. \<forall>x \<in> set (messages w). msg_conversationId x = conv_id c \<longrightarrow> x \<notin> set ?ms \<longrightarrow>
      msg_createdAt x \<le> msg_createdAt m"
    using recent_messages_newest by auto
  ultimately show ?thesis using a c ms recent_messages_sorted by blast
qed

theorem context_answer_witness:
  "\<exists>ctx. getConversationContextHandler ''k'' [''Bearer k''] (req_identity (sample_req [] [] ''v1'')) 5 sample_world = Answer ctx \<and>
     length (ctx_messages ctx) \<le> 5"
proof -
  have "case getConversationContextHandler ''k'' [''Bearer k''] (req_identity (sample_req [] [] ''v1'')) 5 sample_world of
      Answer ctx \<Rightarrow> True | _ \<Rightarrow> False" by code_simp
  then obtain ctx where c: "getConversationContextHandler ''k'' [''Bearer k''] (req_identity (sample_req [] [] ''v1'')) 5 sample_world = Answer ctx"
    by (auto split: grpc_answer.splits)
  from context_answer [OF this] show ?thesis using c by auto
qed

end
