(* ===== verification/Agent_Bridge.thy ===== *)
theory Agent_Bridge
  imports Reply Tool_Server
begin

text \<open>
  \<open>back/src/modules/ai/agentBridgeCore.ts\<close> and \<open>agent.bridge.ts\<close>: the job that hands an inbound message
  to the agent and acts on its decision.  The core takes its effects as arguments (\<open>AgentBridgeDeps\<close>),
  here the fields of a record over an arbitrary state; the locale \<open>agent_bridge\<close> says what it needs of
  them, and the interpretation discharges this for the default ones.

  The agent itself is a separate program.  While it answers it acts on the back end only through the
  ToolService, so a run of it is any sequence of \<open>ExecuteTool\<close> requests followed by a response or an
  error; both are arbitrary functions of the request.
\<close>

section \<open>The core\<close>

record bridge_conversation =
  bc_id :: string
  bc_merchantId :: string
  bc_customerId :: string
  bc_takenOverByHuman :: bool

record bridge_customer =
  bu_id :: string
  bu_name :: "string option"
  bu_phone :: "string option"

record ProcessMessageRequest =
  pm_messageId :: string
  pm_conversationId :: string
  pm_merchantId :: string
  pm_customerId :: string

record ProcessMessageResponse =
  pr_decision :: string
  pr_text :: string

record 's AgentBridgeDeps =
  dep_findMessage :: "string \<Rightarrow> 's \<Rightarrow> bridge_conversation option"
  dep_findCustomer :: "string \<Rightarrow> 's \<Rightarrow> bridge_customer option"
  dep_callAgent :: "ProcessMessageRequest \<Rightarrow> 's \<Rightarrow> (exn + ProcessMessageResponse) \<times> 's"
  dep_deliverReply :: "string \<Rightarrow> string \<Rightarrow> 's \<Rightarrow> (exn + unit) \<times> 's"
  dep_escalate :: "bridge_conversation \<Rightarrow> bridge_customer option \<Rightarrow> 's \<Rightarrow> (exn + unit) \<times> 's"

definition runAgentBridge :: "string \<Rightarrow> 's AgentBridgeDeps \<Rightarrow> 's \<Rightarrow> (exn + unit) \<times> 's" where
  "runAgentBridge messageId deps s =
     (case dep_findMessage deps messageId s of
        None \<Rightarrow> (Inl (Error (''message '' @ messageId @ '' not found'')), s)
      | Some conversation \<Rightarrow>
          (if bc_takenOverByHuman conversation then (Inr (), s)
           else
             (let customer = dep_findCustomer deps (bc_customerId conversation) s in
              (case dep_callAgent deps
                      \<lparr>pm_messageId = messageId, pm_conversationId = bc_id conversation,
                       pm_merchantId = bc_merchantId conversation, pm_customerId = bc_customerId conversation\<rparr> s of
                 (Inl err, s1) \<Rightarrow> (Inl err, s1)
               | (Inr response, s1) \<Rightarrow>
                   (if pr_decision response = ''DECISION_REPLY'' \<and> js_trim (pr_text response) \<noteq> []
                    then dep_deliverReply deps (bc_id conversation) (pr_text response) s1
                    else dep_escalate deps conversation customer s1)))))"

text \<open>
  The queue runs a job again when it throws, at most \<open>MESSAGE_JOB_ATTEMPTS\<close> times in all.  Each attempt asks the agent
  anew, so each has its own dependencies.
\<close>

definition MESSAGE_JOB_ATTEMPTS :: nat where "MESSAGE_JOB_ATTEMPTS = 5"

fun attempts :: "string \<Rightarrow> 's AgentBridgeDeps list \<Rightarrow> 's \<Rightarrow> (exn + unit) \<times> 's" where
  "attempts messageId [] s = (Inl (Error ''no attempt''), s)"
| "attempts messageId (d # ds) s =
     (case runAgentBridge messageId d s of
        (Inr _, s1) \<Rightarrow> (Inr (), s1)
      | (Inl err, s1) \<Rightarrow> (if ds = [] then (Inl err, s1) else attempts messageId ds s1))"

section \<open>The contract of the dependencies\<close>

text \<open>
  \<open>replies s\<close> are the automatic replies stored in the state, \<open>texts s\<close> the texts handed to WhatsApp, each with its address,
  and \<open>human s v\<close> says whether a human owns conversation \<open>v\<close>; \<open>belongs m s v\<close> that message \<open>m\<close> is one of \<open>v\<close>.  The agent
  neither replies nor sends by itself.  A delivery does not throw; it adds nothing where a human owns the
  conversation and at most the one text otherwise.  An escalation adds nothing and, when it does not throw, leaves the
  conversation with a human; when it throws it has done nothing.
\<close>

locale agent_bridge =
  fixes deps :: "'d \<Rightarrow> 's AgentBridgeDeps"
    and replies :: "'s \<Rightarrow> (string \<times> string) list"
    and texts :: "'s \<Rightarrow> (string \<times> string) list"
    and human :: "'s \<Rightarrow> string \<Rightarrow> bool"
    and belongs :: "string \<Rightarrow> 's \<Rightarrow> string \<Rightarrow> bool"
    and inv :: "'s \<Rightarrow> bool"
  assumes found_human: "dep_findMessage (deps a) m s = Some c \<Longrightarrow> inv s \<Longrightarrow> bc_takenOverByHuman c = human s (bc_id c)"
    and found_belongs: "dep_findMessage (deps a) m s = Some c \<Longrightarrow> inv s \<Longrightarrow> belongs m s v \<Longrightarrow> bc_id c = v"
    and agent_silent: "inv s \<Longrightarrow> dep_callAgent (deps a) q s = (ra, s') \<Longrightarrow>
      replies s' = replies s \<and> texts s' = texts s \<and> inv s' \<and> (belongs m s v \<longrightarrow> belongs m s' v)"
    and deliver_human: "human s v \<Longrightarrow> inv s \<Longrightarrow> dep_deliverReply (deps a) v t s = (Inr (), s)"
    and deliver_one: "inv s \<Longrightarrow> dep_deliverReply (deps a) v t s = (r, s') \<Longrightarrow> r = Inr () \<and>
      (replies s' = replies s \<and> texts s' = texts s \<or>
       replies s' = replies s @ [(v, t)] \<and> (texts s' = texts s \<or> (\<exists>to. texts s' = texts s @ [(to, t)])))"
    and escalate_silent: "inv s \<Longrightarrow> dep_escalate (deps a) c u s = (r, s') \<Longrightarrow> replies s' = replies s \<and> texts s' = texts s"
    and escalate_fails: "inv s \<Longrightarrow> dep_escalate (deps a) c u s = (Inl e, s') \<Longrightarrow> s' = s"
    and escalate_human: "inv s \<Longrightarrow> dep_escalate (deps a) c u s = (Inr (), s') \<Longrightarrow> human s' (bc_id c)"
begin

lemma human_skips:
  assumes "inv s" "dep_findMessage (deps a) m s = Some c" "human s (bc_id c)"
  shows "runAgentBridge m (deps a) s = (Inr (), s)"
  using assms found_human by (simp add: runAgentBridge_def)

lemma missing_message:
  "dep_findMessage (deps a) m s = None \<Longrightarrow>
   runAgentBridge m (deps a) s = (Inl (Error (''message '' @ m @ '' not found'')), s)"
  by (simp add: runAgentBridge_def)

text \<open>One attempt: either nothing was stored and sent, or it ended without an error and its one reply was stored.\<close>

lemma one_attempt:
  assumes "inv s" "belongs m s v" "runAgentBridge m (deps a) s = (r, s')"
  shows "replies s' = replies s \<and> texts s' = texts s \<and> (r \<noteq> Inr () \<longrightarrow> inv s' \<and> belongs m s' v) \<or>
    r = Inr () \<and> (\<exists>t. js_trim t \<noteq> [] \<and> replies s' = replies s @ [(v, t)] \<and>
      (texts s' = texts s \<or> (\<exists>to. texts s' = texts s @ [(to, t)])))"
proof (cases "dep_findMessage (deps a) m s")
  case None
  then show ?thesis using assms by (auto simp: missing_message)
next
  case (Some c)
  have v: "bc_id c = v" using found_belongs [OF Some assms(1,2)] .
  show ?thesis
  proof (cases "bc_takenOverByHuman c")
    case True
    then show ?thesis using assms(3) Some by (simp add: runAgentBridge_def)
  next
    case False
    define q where "q = \<lparr>pm_messageId = m, pm_conversationId = bc_id c, pm_merchantId = bc_merchantId c, pm_customerId = bc_customerId c\<rparr>"
    obtain x s1 where x: "dep_callAgent (deps a) q s = (x, s1)" by fastforce
    have s1: "replies s1 = replies s" "texts s1 = texts s" "inv s1" "belongs m s1 v"
      using agent_silent [OF assms(1) x] assms(2) by blast+
    note run = assms(3) [unfolded runAgentBridge_def Some option.case if_not_P [OF False] Let_def q_def [symmetric] x prod.case]
    show ?thesis
    proof (cases x)
      case (Inl e)
      then show ?thesis using run s1 by simp
    next
      case (Inr resp)
      show ?thesis
      proof (cases "pr_decision resp = ''DECISION_REPLY'' \<and> js_trim (pr_text resp) \<noteq> []")
        case True
        then have "dep_deliverReply (deps a) v (pr_text resp) s1 = (r, s')" using run Inr v by simp
        from deliver_one [OF s1(3) this] show ?thesis using s1 True by auto
      next
        case False
        then have e: "dep_escalate (deps a) c (dep_findCustomer (deps a) (bc_customerId c) s) s1 = (r, s')" using run Inr by auto
        have "r \<noteq> Inr () \<Longrightarrow> s' = s1" using e escalate_fails [OF s1(3)] by (cases r) auto
        then show ?thesis using escalate_silent [OF s1(3) e] s1 by auto
      qed
    qed
  qed
qed

lemma at_most_one_reply:
  assumes "inv s" "belongs m s v" "attempts m (map deps as) s = (r, s')"
  shows "replies s' = replies s \<and> texts s' = texts s \<or>
    r = Inr () \<and> (\<exists>t. js_trim t \<noteq> [] \<and> replies s' = replies s @ [(v, t)] \<and>
      (texts s' = texts s \<or> (\<exists>to. texts s' = texts s @ [(to, t)])))"
  using assms
proof (induction "as" arbitrary: s)
  case (Cons a as)
  obtain r1 s1 where one: "runAgentBridge m (deps a) s = (r1, s1)" by fastforce
  note first = one_attempt [OF Cons.prems(1,2) one]
  show ?case
  proof (cases r1)
    case (Inr u)
    then show ?thesis using first Cons.prems(3) one by auto
  next
    case (Inl e)
    then have s1: "replies s1 = replies s" "texts s1 = texts s" "inv s1" "belongs m s1 v" using first by auto
    show ?thesis
    proof (cases "as = []")
      case True
      then show ?thesis using Cons.prems(3) one Inl s1 by simp
    next
      case False
      then show ?thesis using Cons.IH [OF s1(3,4)] Cons.prems(3) one Inl s1 by simp
    qed
  qed
qed simp

lemma reply_or_human:
  assumes "inv s" "dep_findMessage (deps a) m s = Some c" "runAgentBridge m (deps a) s = (Inr (), s')"
  shows "human s' (bc_id c) \<or>
    (\<exists>q resp s1. dep_callAgent (deps a) q s = (Inr resp, s1) \<and> pr_decision resp = ''DECISION_REPLY'' \<and>
       dep_deliverReply (deps a) (bc_id c) (pr_text resp) s1 = (Inr (), s'))"
proof (cases "bc_takenOverByHuman c")
  case True
  then show ?thesis using assms found_human by (auto simp: runAgentBridge_def)
next
  case False
  define q where "q = \<lparr>pm_messageId = m, pm_conversationId = bc_id c, pm_merchantId = bc_merchantId c, pm_customerId = bc_customerId c\<rparr>"
  obtain r s1 where a: "dep_callAgent (deps a) q s = (r, s1)" by fastforce
  have "inv s1" using agent_silent [OF assms(1) a] by simp
  show ?thesis
  proof (cases r)
    case (Inl err)
    then show ?thesis using assms(2,3) False a by (simp add: runAgentBridge_def q_def)
  next
    case (Inr resp)
    then show ?thesis
      using assms(2,3) False a escalate_human [OF \<open>inv s1\<close>]
      by (auto simp: runAgentBridge_def q_def split: if_splits)
  qed
qed

text \<open>Taken over before the agent answers: the attempt ends where the agent left the state, or with an escalation.\<close>

lemma taken_over_meanwhile:
  assumes "inv s" "dep_findMessage (deps a) m s = Some c"
    and "\<And>q ra s1. dep_callAgent (deps a) q s = (ra, s1) \<Longrightarrow> human s1 (bc_id c)"
    and "runAgentBridge m (deps a) s = (r, s')"
  shows "s' = s \<or> (\<exists>q ra s1. dep_callAgent (deps a) q s = (ra, s1) \<and> inv s1 \<and>
    (s' = s1 \<or> (\<exists>u. dep_escalate (deps a) c u s1 = (r, s'))))"
proof (cases "bc_takenOverByHuman c")
  case True
  then show ?thesis using assms by (simp add: runAgentBridge_def)
next
  case False
  define q where "q = \<lparr>pm_messageId = m, pm_conversationId = bc_id c, pm_merchantId = bc_merchantId c, pm_customerId = bc_customerId c\<rparr>"
  obtain x s1 where a: "dep_callAgent (deps a) q s = (x, s1)" by fastforce
  have s1: "inv s1" using agent_silent [OF assms(1) a] by simp
  have h: "human s1 (bc_id c)" using assms(3) [OF a] .
  have "s' = s1 \<or> (\<exists>u. dep_escalate (deps a) c u s1 = (r, s'))"
    using assms(2,4) False a deliver_human [OF h s1]
    by (auto simp: runAgentBridge_def q_def split: sum.splits if_splits)
  then show ?thesis using a s1 by blast
qed

end

section \<open>The default dependencies\<close>

definition bridge_conversation_of :: "conversation_row \<Rightarrow> bridge_conversation" where
  "bridge_conversation_of c =
     \<lparr>bc_id = conv_id c, bc_merchantId = conv_merchantId c, bc_customerId = conv_customerId c,
      bc_takenOverByHuman = conv_takenOverByHuman c\<rparr>"

definition findMessage_default :: "string \<Rightarrow> world \<Rightarrow> bridge_conversation option" where
  "findMessage_default messageId w =
     (case find_first (\<lambda>m. msg_id m = messageId) (messages w) of
        None \<Rightarrow> None
      | Some m \<Rightarrow>
          map_option bridge_conversation_of (find_first (\<lambda>c. conv_id c = msg_conversationId m) (conversations w)))"

definition findCustomer_default :: "string \<Rightarrow> world \<Rightarrow> bridge_customer option" where
  "findCustomer_default customerId w =
     map_option (\<lambda>c. \<lparr>bu_id = customer_id c, bu_name = customer_name c, bu_phone = Some (customer_phone c)\<rparr>)
       (find_first (\<lambda>c. customer_id c = customerId) (customers w))"

definition bridge_escalation_message :: "bridge_customer option \<Rightarrow> string" where
  "bridge_escalation_message customer =
     ''L'' @ [CHR 0x27] @ ''agent a escalad'' @ [CHR 0xC3, CHR 0xA9] @ '' la conversation avec le client '' @
     coalesce (or_str (case customer of Some c \<Rightarrow> bu_name c | None \<Rightarrow> None)
                (or_str (case customer of Some c \<Rightarrow> bu_phone c | None \<Rightarrow> None) (Some ''inconnu''))) [] @ ''.''"

definition bridge_escalate ::
  "env \<Rightarrow> bridge_conversation \<Rightarrow> bridge_customer option \<Rightarrow> world \<Rightarrow> (exn + unit) \<times> world" where
  "bridge_escalate E conversation customer w =
     (case set_conversation (bc_id conversation)
             (\<lambda>c. c\<lparr>conv_takenOverByHuman := True, conv_escalatedAt := Some (clock E)\<rparr>) w of
        Inl err \<Rightarrow> (Inl err, w)
      | Inr (_, w1) \<Rightarrow>
          (Inr (), snd (create_notification E (bc_merchantId conversation) ''escalation'' escalation_title
                          (bridge_escalation_message customer) (Some ''/dashboard/escalations'') w1)))"

text \<open>A run of the agent: the tool calls it makes, then what it answers.\<close>

type_synonym agent_run = "ProcessMessageRequest \<Rightarrow> ExecuteToolRequest list \<times> (exn + ProcessMessageResponse)"

fun run_calls :: "env \<Rightarrow> string \<Rightarrow> ExecuteToolRequest list \<Rightarrow> world \<Rightarrow> world" where
  "run_calls E key [] w = w"
| "run_calls E key (q # qs) w = run_calls E key qs (snd (executeToolHandler E key [''Bearer '' @ key] q w))"

definition callAgent_default ::
  "env \<Rightarrow> string \<Rightarrow> agent_run \<Rightarrow> ProcessMessageRequest \<Rightarrow> world \<Rightarrow> (exn + ProcessMessageResponse) \<times> world" where
  "callAgent_default E key agent q w = (snd (agent q), run_calls E key (fst (agent q)) w)"

definition defaultDeps :: "env \<Rightarrow> string \<Rightarrow> agent_run \<Rightarrow> world AgentBridgeDeps" where
  "defaultDeps E key agent =
     \<lparr>dep_findMessage = findMessage_default, dep_findCustomer = findCustomer_default,
      dep_callAgent = callAgent_default E key agent,
      dep_deliverReply = (\<lambda>conversationId text. deliverAssistantReply E conversationId [text]),
      dep_escalate = bridge_escalate E\<rparr>"

definition handleMessageViaAgent :: "env \<Rightarrow> string \<Rightarrow> agent_run \<Rightarrow> string \<Rightarrow> world \<Rightarrow> (exn + unit) \<times> world" where
  "handleMessageViaAgent E key agent messageId w = runAgentBridge messageId (defaultDeps E key agent) w"

text \<open>The job of a message, with the run of the agent in each attempt.\<close>

definition message_job :: "env \<Rightarrow> string \<Rightarrow> agent_run list \<Rightarrow> string \<Rightarrow> world \<Rightarrow> (exn + unit) \<times> world" where
  "message_job E key agents messageId w =
     attempts messageId (map (defaultDeps E key) (take MESSAGE_JOB_ATTEMPTS agents)) w"

section \<open>The default dependencies satisfy the contract\<close>

definition auto_replies :: "world \<Rightarrow> (string \<times> string) list" where
  "auto_replies w =
     map (\<lambda>m. (msg_conversationId m, msg_content m))
       (filter (\<lambda>m. msg_sender m = AI \<and> msg_direction m = OUT) (messages w))"

definition human_owns :: "world \<Rightarrow> string \<Rightarrow> bool" where
  "human_owns w v \<longleftrightarrow> (\<exists>c \<in> set (conversations w). conv_id c = v \<and> conv_takenOverByHuman c)"

lemma unique_conversation:
  assumes "world_ok E w" "c \<in> set (conversations w)" "d \<in> set (conversations w)" "conv_id c = conv_id d"
  shows "c = d"
  using assms by (auto simp: world_ok_def schema_ok_def unique_by_def dest: distinct_map_eq)

lemma human_owns_row:
  "world_ok E w \<Longrightarrow> c \<in> set (conversations w) \<Longrightarrow> human_owns w (conv_id c) = conv_takenOverByHuman c"
  using unique_conversation by (fastforce simp: human_owns_def)

lemma run_calls_silent:
  "world_ok E w \<Longrightarrow> messages (run_calls E key qs w) = messages w \<and> owLog (run_calls E key qs w) = owLog w \<and>
    world_ok E (run_calls E key qs w)"
proof (induction qs arbitrary: w)
  case (Cons q qs)
  then show ?case using executeToolHandler_messages [OF Cons.prems, of key "[''Bearer '' @ key]" q] by simp
qed simp

lemma findMessage_conversation:
  "findMessage_default m w = Some c \<Longrightarrow> \<exists>r \<in> set (conversations w). c = bridge_conversation_of r"
  by (auto simp: findMessage_default_def split: option.splits dest!: find_first_SomeD)

lemma replies_same_contents:
  assumes "same_contents xs ys"
  shows "map (\<lambda>m. (msg_conversationId m, msg_content m)) (filter (\<lambda>m. msg_sender m = AI \<and> msg_direction m = OUT) xs) =
    map (\<lambda>m. (msg_conversationId m, msg_content m)) (filter (\<lambda>m. msg_sender m = AI \<and> msg_direction m = OUT) ys)"
  using assms unfolding same_contents_def
proof (induction xs arbitrary: ys)
  case (Cons x xs)
  then obtain y zs where y: "ys = y # zs" "x\<lparr>msg_whatsappMessageId := None\<rparr> = y\<lparr>msg_whatsappMessageId := None\<rparr>"
    by (cases ys) auto
  then have "msg_sender x = msg_sender y" "msg_direction x = msg_direction y"
    "msg_conversationId x = msg_conversationId y" "msg_content x = msg_content y"
    by (cases x; cases y; simp)+
  then show ?case using Cons y by auto
qed simp

lemma deliver_replies:
  assumes "world_ok E w" "deliverAssistantReply E v [t] w = (r, w')"
  shows "r = Inr () \<and>
    (auto_replies w' = auto_replies w \<and> sent_texts w' = sent_texts w \<or>
     auto_replies w' = auto_replies w @ [(v, t)] \<and>
       (sent_texts w' = sent_texts w \<or> (\<exists>to. sent_texts w' = sent_texts w @ [(to, t)])))"
proof (cases "\<exists>c. find_first (\<lambda>c. conv_id c = v) (conversations w) = Some c \<and> \<not> conv_takenOverByHuman c")
  case True
  then obtain c where "find_first (\<lambda>c. conv_id c = v) (conversations w) = Some c" "\<not> conv_takenOverByHuman c" by blast
  from deliver_effect [OF assms(1) this, of "[t]"] obtain w1 rows n to where
    "deliverAssistantReply E v [t] w = (Inr (), w1)" "same_contents (messages w1) (messages w @ rows)" "map msg_content rows = [t]"
    "\<forall>m \<in> set rows. msg_conversationId m = v \<and> msg_direction m = OUT \<and> msg_sender m = AI"
    "n \<le> length [t]" "sent_texts w1 = sent_texts w @ map (\<lambda>t. (to, t)) (take n [t])"
    by (elim exE conjE) (rule that; assumption)
  moreover from this(1) have "r = Inr ()" "w1 = w'" using assms(2) by simp_all
  moreover from calculation have "auto_replies w' = auto_replies w @ [(v, t)]"
    using replies_same_contents by (fastforce simp: auto_replies_def)
  ultimately show ?thesis by (cases n) auto
next
  case False
  then have "r = Inr () \<and> w' = w" using assms(2) by (auto simp: deliverAssistantReply_def split: option.splits)
  then show ?thesis by simp
qed

lemma bridge_escalate_facts:
  assumes "bridge_escalate E c u w = (r, w')"
  shows "messages w' = messages w" and "owLog w' = owLog w" and "r = Inl e \<Longrightarrow> w' = w"
    and "r = Inr () \<Longrightarrow> human_owns w' (bc_id c)"
proof -
  show "messages w' = messages w" "owLog w' = owLog w" "r = Inl e \<Longrightarrow> w' = w"
    using assms by (auto simp: bridge_escalate_def create_notification_def Let_def set_conversation_Inr
        split: sum.splits)
  assume "r = Inr ()"
  then obtain w1 q where w1: "set_conversation (bc_id c)
      (\<lambda>c. c\<lparr>conv_takenOverByHuman := True, conv_escalatedAt := Some (clock E)\<rparr>) w = Inr (q, w1)"
    and w': "conversations w' = conversations w1"
    using assms by (auto simp: bridge_escalate_def create_notification_def Let_def split: sum.splits)
  have "\<exists>x \<in> set (conversations w1). conv_id x = bc_id c \<and> conv_takenOverByHuman x"
    using w1 by (auto simp: set_conversation_Inr dest!: find_first_SomeD intro!: updated_row)
  then show "human_owns w' (bc_id c)" using w' by (simp add: human_owns_def)
qed

text \<open>The message's conversation.\<close>

definition belongs_to :: "string \<Rightarrow> world \<Rightarrow> string \<Rightarrow> bool" where
  "belongs_to m w v \<longleftrightarrow> (\<exists>x. find_first (\<lambda>x. msg_id x = m) (messages w) = Some x \<and> msg_conversationId x = v)"

lemma found_belongs_to: "findMessage_default m w = Some c \<Longrightarrow> belongs_to m w v \<Longrightarrow> bc_id c = v"
  by (auto simp: findMessage_default_def belongs_to_def bridge_conversation_of_def dest!: find_first_SomeD split: option.splits)

interpretation ab: agent_bridge "defaultDeps E key" auto_replies sent_texts human_owns belongs_to "world_ok E"
  for E key
proof
  fix a m s c
  assume "dep_findMessage (defaultDeps E key a) m s = Some c" "world_ok E s"
  then show "bc_takenOverByHuman c = human_owns s (bc_id c)"
    using findMessage_conversation human_owns_row by (fastforce simp: defaultDeps_def bridge_conversation_of_def)
next
  fix a m s c v
  assume "dep_findMessage (defaultDeps E key a) m s = Some c" "belongs_to m s v"
  then show "bc_id c = v" using found_belongs_to by (simp add: defaultDeps_def)
next
  fix s a q ra s' m v
  assume "world_ok E s" "dep_callAgent (defaultDeps E key a) q s = (ra, s')"
  then show "auto_replies s' = auto_replies s \<and> sent_texts s' = sent_texts s \<and> world_ok E s' \<and> (belongs_to m s v \<longrightarrow> belongs_to m s' v)"
    using run_calls_silent [of E s key "fst (a q)"]
    by (auto simp: defaultDeps_def callAgent_default_def auto_replies_def sent_texts_def belongs_to_def)
next
  fix s v a t
  assume "human_owns s v" "world_ok E s"
  then have "\<forall>c \<in> set (conversations s). conv_id c = v \<longrightarrow> conv_takenOverByHuman c"
    using human_owns_row by blast
  then show "dep_deliverReply (defaultDeps E key a) v t s = (Inr (), s)"
    using deliver_skips by (simp add: defaultDeps_def)
next
  fix s a v t r s'
  assume "world_ok E s" "dep_deliverReply (defaultDeps E key a) v t s = (r, s')"
  then show "r = Inr () \<and> (auto_replies s' = auto_replies s \<and> sent_texts s' = sent_texts s \<or>
      auto_replies s' = auto_replies s @ [(v, t)] \<and>
        (sent_texts s' = sent_texts s \<or> (\<exists>to. sent_texts s' = sent_texts s @ [(to, t)])))"
    by (simp only: defaultDeps_def AgentBridgeDeps.simps) (rule deliver_replies)
next
  fix s a c u r s'
  assume "dep_escalate (defaultDeps E key a) c u s = (r, s')"
  then show "auto_replies s' = auto_replies s \<and> sent_texts s' = sent_texts s"
    using bridge_escalate_facts(1,2) by (simp add: defaultDeps_def auto_replies_def sent_texts_def)
next
  fix s a c u e s'
  assume "dep_escalate (defaultDeps E key a) c u s = (Inl e, s')"
  then show "s' = s" using bridge_escalate_facts(3) by (simp add: defaultDeps_def)
next
  fix s a c u s'
  assume "dep_escalate (defaultDeps E key a) c u s = (Inr (), s')"
  then show "human_owns s' (bc_id c)" using bridge_escalate_facts(4) by (simp add: defaultDeps_def)
qed

section \<open>Properties\<close>

definition sample_message :: message_row where
  "sample_message = message_of_input ''x1''
     \<lparr>mi_conversationId = ''v1'', mi_content = ''salam'', mi_contentType = ''text'', mi_mediaUrl = None,
      mi_mimeType = None, mi_whatsappMessageId = None, mi_direction = IN, mi_sender = CUSTOMER,
      mi_role = ''customer'', mi_messageType = ''text'', mi_filePath = None, mi_createdAt = 1\<rparr>"

definition sample_inbox :: world where
  "sample_inbox = sample_world\<lparr>messages := [sample_message]\<rparr>"

definition sample_agent :: "string \<Rightarrow> agent_run" where
  "sample_agent decision q = ([], Inr \<lparr>pr_decision = decision, pr_text = ''ok''\<rparr>)"

lemma sample_inbox_ok: "world_ok sample_env sample_inbox"
  using sample_ok
  by (simp add: world_ok_def schema_ok_def fresh_ids_def sample_inbox_def unique_by_def sample_message_def sample_env_def)

text \<open>C9. An inbound message gets at most one automatic reply, over all attempts of its job: either the job has stored and
  sent nothing, or it ended without an error and has stored exactly one reply, not an empty one, in the conversation
  of the message, and has handed at most that text to WhatsApp.  This holds whatever the agent does through the
  ToolService while it thinks and whatever it answers in each attempt.\<close>

theorem bridge_at_most_one_reply:
  assumes "world_ok E w" and "find_first (\<lambda>x. msg_id x = m) (messages w) = Some x"
    and "message_job E key agents m w = (r, w')"
  shows "auto_replies w' = auto_replies w \<and> sent_texts w' = sent_texts w \<or>
    r = Inr () \<and> (\<exists>t. js_trim t \<noteq> [] \<and> auto_replies w' = auto_replies w @ [(msg_conversationId x, t)] \<and>
      (sent_texts w' = sent_texts w \<or> (\<exists>to. sent_texts w' = sent_texts w @ [(to, t)])))"
proof -
  have "belongs_to m w (msg_conversationId x)" using assms(2) by (simp add: belongs_to_def)
  then show ?thesis using ab.at_most_one_reply [OF assms(1)] assms(3) unfolding message_job_def by blast
qed

text \<open>An agent that is down at first and answers the second attempt.\<close>

definition sample_down :: agent_run where
  "sample_down q = ([], Inl (Error ''down''))"

theorem bridge_at_most_one_reply_witness:
  "auto_replies (snd (message_job sample_env ''k'' [sample_down, sample_agent ''DECISION_REPLY'', sample_agent ''DECISION_REPLY''] ''x1'' sample_inbox)) =
     [(''v1'', ''ok'')] \<and>
   (\<exists>t. [(''v1'', ''ok'')] = auto_replies sample_inbox @ [(msg_conversationId sample_message, t)] \<and> js_trim t \<noteq> [])"
proof -
  let ?runs = "[sample_down, sample_agent ''DECISION_REPLY'', sample_agent ''DECISION_REPLY'']"
  have a: "auto_replies (snd (message_job sample_env ''k'' ?runs ''x1'' sample_inbox)) = [(''v1'', ''ok'')]" by code_simp
  have e: "auto_replies sample_inbox = []" by code_simp
  have f: "find_first (\<lambda>x. msg_id x = ''x1'') (messages sample_inbox) = Some sample_message"
    by (simp add: find_first_def sample_inbox_def sample_message_def)
  show ?thesis
    using bridge_at_most_one_reply [OF sample_inbox_ok f surjective_pairing, of "''k''" ?runs] a e by auto
qed

text \<open>C8. A job that finishes without an error leaves the conversation of its message either with a human,
  or answered by a delivered reply of the agent: no message is silently dropped.  In particular every
  decision other than a non-empty DECISION_REPLY hands the conversation to a human.\<close>

theorem bridge_reply_or_human:
  assumes "world_ok E w" and "findMessage_default m w = Some c"
    and "handleMessageViaAgent E key agent m w = (Inr (), w')"
  shows "human_owns w' (bc_id c) \<or>
    (\<exists>q resp w1. callAgent_default E key agent q w = (Inr resp, w1) \<and> pr_decision resp = ''DECISION_REPLY'' \<and>
       deliverAssistantReply E (bc_id c) [pr_text resp] w1 = (Inr (), w'))"
  using ab.reply_or_human [OF assms(1), where m = m and c = c and key = key and a = agent and s' = w'] assms(2,3)
  by (simp add: handleMessageViaAgent_def defaultDeps_def)

theorem bridge_reply_or_human_witness:
  "human_owns (snd (handleMessageViaAgent sample_env ''k'' (sample_agent ''DECISION_ESCALATE'') ''x1'' sample_inbox)) ''v1''"
proof -
  let ?r = "handleMessageViaAgent sample_env ''k'' (sample_agent ''DECISION_ESCALATE'') ''x1'' sample_inbox"
  have f: "findMessage_default ''x1'' sample_inbox =
      Some (bridge_conversation_of (sample_conversation ''v1'' ''m1'' ''c1'' (Some ''o1'') False))" by code_simp
  have "fst ?r = Inr ()" by code_simp
  then have r: "?r = (Inr (), snd ?r)" by (metis prod.collapse)
  have "\<not> (\<exists>q resp w1. callAgent_default sample_env ''k'' (sample_agent ''DECISION_ESCALATE'') q sample_inbox = (Inr resp, w1) \<and>
      pr_decision resp = ''DECISION_REPLY'' \<and> deliverAssistantReply sample_env ''v1'' [pr_text resp] w1 = (Inr (), snd ?r))"
    by (simp add: callAgent_default_def sample_agent_def)
  then show ?thesis
    using bridge_reply_or_human [OF sample_inbox_ok f r] by (auto simp: bridge_conversation_of_def sample_conversation_def)
qed

text \<open>C10. When the conversation is handed to a human while the agent is thinking (for instance by the
  agent's own escalateConversation call), the reply the agent returns afterwards is neither stored nor
  sent: the job leaves the messages as they were and makes no request to the gateway.\<close>

theorem bridge_taken_over_meanwhile:
  assumes "world_ok E w" and "findMessage_default m w = Some c"
    and "\<And>q. human_owns (run_calls E key (fst (agent q)) w) (bc_id c)"
    and "handleMessageViaAgent E key agent m w = (r, w')"
  shows "messages w' = messages w \<and> owLog w' = owLog w"
proof -
  have "w' = w \<or> (\<exists>q ra w1. dep_callAgent (defaultDeps E key agent) q w = (ra, w1) \<and> world_ok E w1 \<and>
      (w' = w1 \<or> (\<exists>u. dep_escalate (defaultDeps E key agent) c u w1 = (r, w'))))"
  proof (rule ab.taken_over_meanwhile [OF assms(1)])
    show "dep_findMessage (defaultDeps E key agent) m w = Some c" using assms(2) by (simp add: defaultDeps_def)
    show "human_owns w1 (bc_id c)" if "dep_callAgent (defaultDeps E key agent) q w = (ra, w1)" for q ra w1
      using that assms(3) by (auto simp: defaultDeps_def callAgent_default_def)
    show "runAgentBridge m (defaultDeps E key agent) w = (r, w')" using assms(4) by (simp add: handleMessageViaAgent_def)
  qed
  then show ?thesis
    using run_calls_silent [OF assms(1)] bridge_escalate_facts(1,2)
    by (auto simp: defaultDeps_def callAgent_default_def)
qed

definition sample_escalating_agent :: agent_run where
  "sample_escalating_agent q =
     ([sample_req ''escalateConversation'' (''{'' @ quote ''reason'' @ '':'' @ quote ''help'' @ ''}'') ''v1''],
      Inr \<lparr>pr_decision = ''DECISION_REPLY'', pr_text = ''ok''\<rparr>)"

theorem bridge_taken_over_meanwhile_witness:
  "messages (snd (handleMessageViaAgent sample_env ''k'' sample_escalating_agent ''x1'' sample_inbox)) = messages sample_inbox \<and>
   owLog (snd (handleMessageViaAgent sample_env ''k'' sample_escalating_agent ''x1'' sample_inbox)) = owLog sample_inbox"
proof (rule bridge_taken_over_meanwhile [OF sample_inbox_ok _ _ surjective_pairing])
  show "findMessage_default ''x1'' sample_inbox =
      Some (bridge_conversation_of (sample_conversation ''v1'' ''m1'' ''c1'' (Some ''o1'') False))" by code_simp
  show "human_owns (run_calls sample_env ''k'' (fst (sample_escalating_agent q)) sample_inbox)
      (bc_id (bridge_conversation_of (sample_conversation ''v1'' ''m1'' ''c1'' (Some ''o1'') False)))" for q
    unfolding sample_escalating_agent_def fst_conv by code_simp
qed

end
