(* ===== verification/Catalog_Tools.thy ===== *)
theory Catalog_Tools
  imports Tool_Context
begin

text \<open>
  What the catalogue tools may show: products of the caller's merchant only, at most five of them, and
  for a bare request for suggestions none of the products the conversation already discussed.
\<close>

lemma not_ok [simp]: "failure m \<noteq> ok d" "not_found x m \<noteq> ok d" "ok d \<noteq> failure m" "ok d \<noteq> not_found x m"
  by (simp_all add: ok_def failure_def not_found_def)

lemma ok_inject [simp]: "ok d = ok d' \<longleftrightarrow> d = d'"
  by (simp add: ok_def)

lemma search_miss_not_ok [simp]: "search_miss q \<noteq> ok d" "ok d \<noteq> search_miss q"
  by (simp_all add: search_miss_def)

text \<open>The shown products: rows of the merchant, at most five.\<close>

definition shows_own :: "string \<Rightarrow> world \<Rightarrow> product_row list \<Rightarrow> bool" where
  "shows_own m w ps \<longleftrightarrow>
     ps \<noteq> [] \<and> length ps \<le> 5 \<and> (\<forall>p \<in> set ps. p \<in> set (products w) \<and> product_merchantId p = m)"

lemma shows_own_fetch:
  "fetchProductsByIds m ids w \<noteq> [] \<Longrightarrow> shows_own m w (take 5 (fetchProductsByIds m ids w))"
  by (auto simp: shows_own_def dest!: in_set_takeD set_fetchProductsByIds)

lemma shows_own_find_many:
  "find_many (\<lambda>p. product_merchantId p = m \<and> Q p) 5 (products w) \<noteq> [] \<Longrightarrow>
   shows_own m w (find_many (\<lambda>p. product_merchantId p = m \<and> Q p) 5 (products w))"
  using set_find_many [of "\<lambda>p. product_merchantId p = m \<and> Q p" 5 "products w"]
  by (auto simp: shows_own_def length_find_many)

text \<open>C13. Whatever the language model answers, a successful searchProducts shows between one and five
  products, all of them rows of the caller's merchant: ids the model invented, or of another merchant,
  never reach the answer.\<close>

theorem searchProducts_shows_own:
  assumes "searchProducts E e w = (Inr (ok d), w')" and "safe_parse SearchProductsArgsSchema e = Some a"
  shows "\<exists>ps. d = [(''products'', formatProducts ps)] \<and> shows_own (req_str ''merchantId'' a) w ps"
  using assms shows_own_fetch shows_own_find_many
  by (auto simp: searchProducts_def Let_def split: if_splits sum.splits prod.splits)

definition sample_search :: entities where
  "sample_search = [(''product'', JStr ''sho''), (''merchantId'', JStr ''m1''), (''conversationId'', JStr ''v1'')]"

theorem searchProducts_shows_own_witness:
  "\<exists>d ps. searchProducts sample_env sample_search sample_world = (Inr (ok d), sample_world) \<and>
     d = [(''products'', formatProducts ps)] \<and> shows_own ''m1'' sample_world ps"
proof -
  let ?d = "[(''products'', formatProducts [sample_product ''p2'' ''m1'' ''shoe'' 300 2])]"
  have r: "searchProducts sample_env sample_search sample_world = (Inr (ok ?d), sample_world)" by code_simp
  moreover have "safe_parse SearchProductsArgsSchema sample_search = Some sample_search" by code_simp
  ultimately obtain ps where "?d = [(''products'', formatProducts ps)]"
    "shows_own (req_str ''merchantId'' sample_search) sample_world ps"
    using searchProducts_shows_own by blast
  moreover have "req_str ''merchantId'' sample_search = ''m1''" by code_simp
  ultimately show ?thesis using r by auto
qed

section \<open>Suggestions\<close>

text \<open>The exclusions the transport computes reach the query of the tool unchanged.\<close>

lemma exclusions_round_trip:
  "exclude_filter (coalesce (parseOptionalJson (Some (stringify_strings ids))) (JArr [])) = Inr ids"
proof -
  have "stringify_strings ids \<noteq> []" by (simp add: stringify_strings_def)
  moreover have "List.map_filter str_of (map JStr ids) = ids"
    by (induction ids) (simp_all add: map_filter_simps str_of_def)
  ultimately show ?thesis
    by (simp add: parseOptionalJson_def json_parse_stringify_strings list_all_iff str_of_def)
qed

definition conversation_exclusions :: "conversation_row \<Rightarrow> memory \<Rightarrow> product_ref list option \<Rightarrow> string list" where
  "conversation_exclusions c mem l =
     memoryExclusionIds
       (mem\<lparr>lastProductResults := Some (coalesce l (coalesce (lastProductResults mem) []))\<rparr>)
       (conv_currentProductId c)"

lemma parsed_exclusions:
  assumes "safe_parse SuggestProductsArgsSchema (buildToolEntities SuggestProducts e c mem l) = Some a"
    and "conversation_exclusions c mem l \<noteq> []"
  shows "exclude_filter (coalesce (parseOptionalJson (str_arg ''excludedProductIds'' a)) (JArr [])) =
    Inr (conversation_exclusions c mem l)"
proof -
  have "map_of a ''excludedProductIds'' = Some (JStr (stringify_strings (conversation_exclusions c mem l)))"
    using safe_parse_lookup [of SuggestProducts, simplified, OF assms(1)[simplified], of "''excludedProductIds''"] assms(2)
    by (simp add: schema_defs inject_exclusions_def conversation_exclusions_def Let_def)
  then show ?thesis by (simp add: str_arg_def exclusions_round_trip)
qed

lemma set_recentProducts:
  "p \<in> set (recentProducts m ids n w) \<Longrightarrow>
   p \<in> set (products w) \<and> product_merchantId p = m \<and> product_agentEnabled p \<and> (ids \<noteq> [] \<longrightarrow> product_id p \<notin> set ids)"
  unfolding recentProducts_def by (drule set_newest) auto

lemma length_recentProducts: "length (recentProducts m ids n w) \<le> n"
  by (simp add: recentProducts_def length_newest)

text \<open>A bare request for suggestions (no category, term or price) shows at most five products of the
  conversation's merchant that are enabled for the agent, and none of those the conversation
  excludes: not the current product, none of the last results shown, none the customer rejected.  The
  exclusions travel as a JSON string through the entities.\<close>

theorem suggest_popular_excludes:
  assumes "safe_parse SuggestProductsArgsSchema (buildToolEntities SuggestProducts e c mem l) = Some a"
    and "\<not> hasPreferences (buildSuggestionPreferences a)"
    and "conversation_exclusions c mem l \<noteq> []"
    and "suggestProducts E a w = (Inr (ok d), w')"
  shows "\<exists>ps. map_of d ''products'' = Some (formatProducts ps) \<and> shows_own (conv_merchantId c) w ps \<and>
    (\<forall>p \<in> set ps. product_agentEnabled p \<and> product_id p \<notin> set (conversation_exclusions c mem l))"
proof -
  have aa: "safe_parse SuggestProductsArgsSchema a = Some a"
    using safe_parse_idem [of SuggestProducts, simplified, OF assms(1)[simplified]] .
  have m: "req_str ''merchantId'' a = conv_merchantId c"
    using parsed_identity(1) [of SuggestProducts SuggestProducts] assms(1) by simp
  let ?ps = "recentProducts (conv_merchantId c) (conversation_exclusions c mem l) 5 w"
  have "suggestProducts E a w = (Inr (suggestion_result ?ps ''popular''), w)"
    using aa assms(2) m parsed_exclusions [OF assms(1,3)] by (simp add: suggestProducts_def)
  then have "?ps \<noteq> []" "map_of d ''products'' = Some (formatProducts ?ps)"
    using assms(4) by (auto simp: suggestion_result_def split: if_splits)
  moreover have "shows_own (conv_merchantId c) w ?ps"
    using \<open>?ps \<noteq> []\<close> by (auto simp: shows_own_def length_recentProducts dest: set_recentProducts)
  moreover have "\<forall>p \<in> set ?ps. product_agentEnabled p \<and> product_id p \<notin> set (conversation_exclusions c mem l)"
    using set_recentProducts assms(3) by blast
  ultimately show ?thesis by blast
qed

definition sample_v1 :: conversation_row where
  "sample_v1 = sample_conversation ''v1'' ''m1'' ''c1'' (Some ''o1'') False"

definition sample_suggest :: entities where
  "sample_suggest =
     [(''excludedProductIds'', JStr (stringify_strings [''p1''])), (''merchantId'', JStr ''m1''), (''conversationId'', JStr ''v1'')]"

theorem suggest_popular_excludes_witness:
  "\<exists>d ps. fst (suggestProducts sample_env sample_suggest sample_world) = Inr (ok d) \<and>
     map_of d ''products'' = Some (formatProducts ps) \<and> (\<forall>p \<in> set ps. product_id p \<noteq> ''p1'')"
proof -
  let ?d = "[(''products'', formatProducts [sample_product ''p2'' ''m1'' ''shoe'' 300 2]), (''recommended'', JBool True), (''basedOn'', JStr ''popular'')]"
  have p: "safe_parse SuggestProductsArgsSchema (buildToolEntities SuggestProducts [] sample_v1 empty_memory None) = Some sample_suggest"
    by code_simp
  have r: "suggestProducts sample_env sample_suggest sample_world = (Inr (ok ?d), sample_world)" by code_simp
  have "conversation_exclusions sample_v1 empty_memory None = [''p1'']" by code_simp
  moreover have "\<not> hasPreferences (buildSuggestionPreferences sample_suggest)" by code_simp
  ultimately obtain ps where "map_of ?d ''products'' = Some (formatProducts ps)" "\<forall>p \<in> set ps. product_id p \<notin> {''p1''}"
    using suggest_popular_excludes [OF p _ _ r] by auto
  then show ?thesis using r by auto
qed

text \<open>
  With a preference the exclusions bind only the candidate pool: the products are then fetched by the
  ids of the model's answer, which may name an excluded product of the merchant.
\<close>

definition leaky_env :: env where
  "leaky_env = sample_env\<lparr>llm := \<lambda>_ _. Some (''{'' @ quote ''matches'' @ '':[{'' @ quote ''id'' @ '':'' @ quote ''p1'' @ '','' @
     quote ''confidence'' @ '':1}]}'')\<rparr>"

lemma suggestProducts_returns_excluded:
  "fst (suggestProducts leaky_env (obj_set ''maxPrice'' (JNum 500) sample_suggest) sample_world) =
     Inr (ok [(''products'', formatProducts [sample_product ''p1'' ''m1'' ''bag'' 100 1]),
              (''recommended'', JBool True), (''basedOn'', JStr ''preferences'')])"
  by code_simp

end
