(* ===== verification/Pagination.thy ===== *)
theory Pagination
  imports Openwa "HOL-Library.List_Lexorder" "HOL-Library.Product_Lexorder"
begin

text \<open>
  The keyset pagination that \<open>orders.service.ts\<close>, \<open>products.service.ts\<close>, \<open>customers.service.ts\<close> and
  \<open>escalations.service.ts\<close> share: the opaque cursor, the page query, and the fields of a
  \<open>PaginatedResult\<close>.  The coding of a cursor is Node's \<open>Buffer\<close> and \<open>Date\<close>, arguments of the model.

  The locale \<open>keyset\<close> is what a listing relies on: a table whose rows have distinct ids.  In it, a
  client that follows \<open>nextCursor\<close> gets every row of the listing once, newest first.
\<close>

section \<open>Cursors\<close>

definition stringify_fields :: "(string \<times> string) list \<Rightarrow> string" where
  "stringify_fields e = ''{'' @ join '','' (map (\<lambda>(k, v). quote k @ '':'' @ quote v) e) @ ''}''"

definition encodeCursor :: "env \<Rightarrow> string \<Rightarrow> int \<Rightarrow> string \<Rightarrow> string" where
  "encodeCursor E fld t i = b64url E (stringify_fields [(fld, iso E t), (''id'', i)])"

text \<open>
  A decoded cursor: the date (\<open>None\<close> when invalid) and the \<open>id\<close> property as it is in the JSON text.
\<close>

record cursor =
  cursor_date :: "int option"
  cursor_id :: "jval option"

definition decodeCursor :: "env \<Rightarrow> string \<Rightarrow> string \<Rightarrow> exn + cursor" where
  "decodeCursor E fld s =
     (case json_parse (unb64url E s) of
        None \<Rightarrow> Inl (Error ''SyntaxError'')
      | Some v \<Rightarrow>
          (if v = JNull then Inl (Error ''TypeError'')
           else Inr \<lparr>cursor_date = (case json_field fld v of None \<Rightarrow> None | Some d \<Rightarrow> parse_date E d),
                     cursor_id = json_field ''id'' v\<rparr>))"

section \<open>The page query\<close>

text \<open>
  \<open>Math.min(Number(limit) || 20, 100)\<close>, for the number \<open>Number\<close> gives (\<open>None\<close> is \<open>NaN\<close>).
\<close>

definition page_limit :: "rat option \<Rightarrow> rat" where
  "page_limit n = min (case n of None \<Rightarrow> 20 | Some x \<Rightarrow> (if x = 0 then 20 else x)) 100"

text \<open>
  \<open>take\<close> of \<open>findMany\<close>: a negative number takes the rows from the end.
\<close>

definition take_rows :: "int \<Rightarrow> 'r list \<Rightarrow> 'r list" where
  "take_rows n rows = (if 0 \<le> n then take (nat n) rows else drop (length rows - nat (- n)) rows)"

definition row_key :: "env \<Rightarrow> ('r \<Rightarrow> int) \<Rightarrow> ('r \<Rightarrow> string) \<Rightarrow> 'r \<Rightarrow> int \<times> nat list" where
  "row_key E tm rid r = (tm r, collate E (rid r))"

definition newest_first :: "env \<Rightarrow> ('r \<Rightarrow> int) \<Rightarrow> ('r \<Rightarrow> string) \<Rightarrow> 'r list \<Rightarrow> 'r list" where
  "newest_first E tm rid rows = rev (sort_key (row_key E tm rid) rows)"

text \<open>
  The condition a cursor adds.  A property \<open>id\<close> that is missing drops its half of the condition, as
  Prisma does with \<open>undefined\<close>; an invalid date or an \<open>id\<close> that is no text is refused by Prisma.
\<close>

definition cursorWhere ::
  "env \<Rightarrow> ('r \<Rightarrow> int) \<Rightarrow> ('r \<Rightarrow> string) \<Rightarrow> cursor \<Rightarrow> exn + ('r \<Rightarrow> bool)" where
  "cursorWhere E tm rid c =
     (case cursor_date c of
        None \<Rightarrow> Inl (Error ''PrismaClientValidationError'')
      | Some d \<Rightarrow>
          (case cursor_id c of
             None \<Rightarrow> Inr (\<lambda>r. tm r < d \<or> tm r = d)
           | Some (JStr i) \<Rightarrow> Inr (\<lambda>r. tm r < d \<or> tm r = d \<and> collate E (rid r) < collate E i)
           | Some _ \<Rightarrow> Inl (Error ''PrismaClientValidationError'')))"

record 'r page =
  page_data :: "'r list"
  page_total :: nat
  hasNextPage :: bool
  hasPrevPage :: bool
  nextCursor :: "string option"
  prevCursor :: "string option"

text \<open>
  The cursor of the first or last row of a page; reading a property of a row that is not there throws.
\<close>

definition cursor_of ::
  "env \<Rightarrow> string \<Rightarrow> ('r \<Rightarrow> int) \<Rightarrow> ('r \<Rightarrow> string) \<Rightarrow> bool \<Rightarrow> ('r list \<Rightarrow> 'r) \<Rightarrow> 'r list \<Rightarrow> exn + string option" where
  "cursor_of E fld tm rid wanted pick rows =
     (if \<not> wanted then Inr None
      else if rows = [] then Inl (Error ''TypeError'')
      else Inr (Some (encodeCursor E fld (tm (pick rows)) (rid (pick rows)))))"

definition make_page ::
  "env \<Rightarrow> string \<Rightarrow> ('r \<Rightarrow> int) \<Rightarrow> ('r \<Rightarrow> string) \<Rightarrow> int \<Rightarrow> bool \<Rightarrow> nat \<Rightarrow> 'r list \<Rightarrow> exn + 'r page" where
  "make_page E fld tm rid limit cursor_given count rows =
     (let more = limit < int (length rows);
          kept = (if more then butlast rows else rows)
      in (case cursor_of E fld tm rid more last kept of
            Inl e \<Rightarrow> Inl e
          | Inr nxt \<Rightarrow>
              (case cursor_of E fld tm rid cursor_given hd kept of
                 Inl e \<Rightarrow> Inl e
               | Inr prv \<Rightarrow>
                   Inr \<lparr>page_data = kept, page_total = count, hasNextPage = more,
                        hasPrevPage = cursor_given, nextCursor = nxt, prevCursor = prv\<rparr>)))"

text \<open>
  A listing: \<open>base\<close> is the part of \<open>where\<close> outside \<open>OR\<close>, \<open>search\<close> the \<open>OR\<close> of the search text.  The page
  query is \<open>{ ...where, ...cursorWhere }\<close>, in which the \<open>OR\<close> of the cursor takes the place of that of
  the search; \<open>total\<close> counts \<open>where\<close> without the cursor.
\<close>

definition paginate ::
  "env \<Rightarrow> string \<Rightarrow> ('r \<Rightarrow> int) \<Rightarrow> ('r \<Rightarrow> string) \<Rightarrow> ('r \<Rightarrow> bool) \<Rightarrow> ('r \<Rightarrow> bool) \<Rightarrow>
   string option \<Rightarrow> rat option \<Rightarrow> 'r list \<Rightarrow> exn + 'r page" where
  "paginate E fld tm rid base search cursor limit rows =
     (let lim = page_limit limit;
          given = (case cursor of None \<Rightarrow> False | Some s \<Rightarrow> s \<noteq> []);
          run = (\<lambda>extra.
            if of_int \<lfloor>lim\<rfloor> \<noteq> lim then Inl (Error ''PrismaClientValidationError'')
            else make_page E fld tm rid \<lfloor>lim\<rfloor> given (count_where (\<lambda>r. base r \<and> search r) rows)
                   (take_rows (\<lfloor>lim\<rfloor> + 1) (newest_first E tm rid (filter (\<lambda>r. base r \<and> extra r) rows))))
      in if \<not> given then run search
         else (case decodeCursor E fld (coalesce cursor []) of
                 Inl e \<Rightarrow> Inl e
               | Inr c \<Rightarrow>
                   (case cursorWhere E tm rid c of
                      Inl e \<Rightarrow> Inl e
                    | Inr extra \<Rightarrow> run extra)))"

text \<open>
  A client that follows \<open>nextCursor\<close> for at most \<open>n\<close> pages and collects the rows.
\<close>

fun follow :: "nat \<Rightarrow> (string option \<Rightarrow> exn + 'r page) \<Rightarrow> string option \<Rightarrow> exn + 'r list" where
  "follow 0 query c = Inl (Error ''pages left'')"
| "follow (Suc n) query c =
     (case query c of
        Inl e \<Rightarrow> Inl e
      | Inr p \<Rightarrow>
          (case nextCursor p of
             None \<Rightarrow> Inr (page_data p)
           | Some d \<Rightarrow>
               (case follow n query (Some d) of
                  Inl e \<Rightarrow> Inl e
                | Inr rest \<Rightarrow> Inr (page_data p @ rest))))"

section \<open>The cursor codec\<close>

lemma member_key_quote: "member_key (quote k @ CHR '':'' # t) = Some (k, skip_ws t)"
proof -
  have "string_body (Suc (length (concat (map escape_char k) @ CHR 0x22 # CHR '':'' # t)))
      (concat (map escape_char k) @ CHR 0x22 # CHR '':'' # t) = Some (k, CHR '':'' # t)"
    by (rule string_body_quote) (use length_escaped [of k] in simp)
  then show ?thesis by (simp add: member_key_def quote_def)
qed

lemma skip_ws_quote [simp]: "skip_ws (quote s @ r) = quote s @ r"
  by (simp add: quote_def)

lemma parse_members_last:
  "parse_members (Suc (Suc n)) e (quote k @ CHR '':'' # quote v @ CHR ''}'' # r) = Some (obj_set k (JStr v) e, r)"
  by (simp add: members_step_def member_key_quote parse_value_quote del: parse_value.simps)

lemma parse_members_more:
  "parse_members (Suc (Suc n)) e (quote k @ CHR '':'' # quote v @ CHR '','' # quote k' @ r) =
   parse_members (Suc n) (obj_set k (JStr v) e) (quote k' @ r)"
  by (simp add: members_step_def member_key_quote parse_value_quote
      del: parse_value.simps parse_members.simps(2) add: parse_members.simps(2) [of "Suc n"])

lemma quote_head: "\<exists>u. quote s @ r = CHR 0x22 # u"
  by (simp add: quote_def)

lemma json_parse_fields:
  "json_parse (stringify_fields [(a, x), (b, y)]) = Some (JObj (obj_set b (JStr y) [(a, JStr x)]))"
proof -
  let ?m = "quote a @ CHR '':'' # quote x @ CHR '','' # quote b @ CHR '':'' # quote y @ ''}''"
  have s: "stringify_fields [(a, x), (b, y)] = CHR ''{'' # ?m"
    by (simp add: stringify_fields_def)
  obtain u where u: "?m = CHR 0x22 # u" using quote_head by blast
  obtain n where n: "2 * length (stringify_fields [(a, x), (b, y)]) = Suc (Suc (Suc n))"
    by (rule that [of "2 * length (stringify_fields [(a, x), (b, y)]) - 3"]) (simp add: s quote_def)
  have "parse_members (Suc (Suc (Suc n))) [] ?m = Some (obj_set b (JStr y) [(a, JStr x)], [])"
    using parse_members_more [of "Suc n" "[]" a x b "CHR '':'' # quote y @ ''}''"]
      parse_members_last [of n "[(a, JStr x)]" b y "[]"]
    by (simp add: obj_set_def del: parse_members.simps)
  then have "parse_value (Suc (Suc (Suc (Suc n)))) (CHR ''{'' # ?m) =
      Some (JObj (obj_set b (JStr y) [(a, JStr x)]), [])"
    using u by (simp add: value_step_def literal_def bracketed_def del: parse_members.simps)
  then show ?thesis
    using n by (simp add: json_parse_def s del: parse_value.simps)
qed

text \<open>
  What a listing relies on: base64url decoding inverts encoding and keeps texts that are not empty so,
  distinct ids have distinct sort keys, and a date of a row survives its ISO form.
\<close>

definition cursor_codec :: "env \<Rightarrow> bool" where
  "cursor_codec E \<longleftrightarrow>
     (\<forall>s. unb64url E (b64url E s) = s) \<and> (\<forall>s. s \<noteq> [] \<longrightarrow> b64url E s \<noteq> []) \<and> inj (collate E)"

definition date_codec :: "env \<Rightarrow> int \<Rightarrow> bool" where
  "date_codec E t \<longleftrightarrow> parse_date E (JStr (iso E t)) = Some t"

lemma decode_encode:
  assumes "cursor_codec E" and "date_codec E t" and "fld \<noteq> ''id''"
  shows "decodeCursor E fld (encodeCursor E fld t i) = Inr \<lparr>cursor_date = Some t, cursor_id = Some (JStr i)\<rparr>"
  using assms
  by (simp add: decodeCursor_def encodeCursor_def cursor_codec_def date_codec_def json_parse_fields json_field_def)

lemma encodeCursor_nonempty: "cursor_codec E \<Longrightarrow> encodeCursor E fld t i \<noteq> []"
  by (simp add: cursor_codec_def encodeCursor_def stringify_fields_def)

lemma cursorWhere_row:
  "cursorWhere E tm rid \<lparr>cursor_date = Some (tm q), cursor_id = Some (JStr (rid q))\<rparr> =
   Inr (\<lambda>r. row_key E tm rid r < row_key E tm rid q)"
  by (auto simp: cursorWhere_def row_key_def fun_eq_iff)

section \<open>Strictly ordered listings\<close>

lemma filter_after:
  assumes "sorted_wrt (\<lambda>a b. k b < k a) xs" and "i < length xs"
  shows "filter (\<lambda>r. k r < (k (xs ! i) :: 'k :: linorder)) xs = drop (Suc i) xs"
  using assms
proof (induction xs arbitrary: i)
  case (Cons x xs)
  show ?case
  proof (cases i)
    case 0
    then show ?thesis using Cons.prems by (auto intro: filter_True)
  next
    case (Suc j)
    then have "k (xs ! j) < k x" using Cons.prems by simp
    then have "\<not> k x < k (xs ! j)" by (rule less_not_sym)
    with Suc Cons show ?thesis by simp
  qed
qed simp

lemma newest_first_strict:
  assumes "distinct (map rid rows)" and "inj (collate E)"
  shows "sorted_wrt (\<lambda>a b. row_key E tm rid b < row_key E tm rid a) (newest_first E tm rid rows)"
proof -
  let ?k = "row_key E tm rid"
  have "distinct (map ?k rows)"
    using assms by (auto simp: distinct_map inj_on_def row_key_def)
  then have "distinct (map ?k (sort_key ?k rows))"
    by (simp add: distinct_map)
  then have "sorted_wrt (<) (map ?k (sort_key ?k rows))"
    by (simp add: strict_sorted_iff)
  then show ?thesis
    by (simp add: newest_first_def sorted_wrt_rev sorted_wrt_map)
qed

lemma newest_first_filter:
  "newest_first E tm rid (filter (\<lambda>r. base r \<and> P r) rows) =
   filter P (newest_first E tm rid (filter base rows))"
  unfolding newest_first_def filter_filter [symmetric] filter_sort [symmetric] rev_filter ..

lemma set_newest_first [simp]: "set (newest_first E tm rid rows) = set rows"
  by (simp add: newest_first_def)

lemma length_newest_first [simp]: "length (newest_first E tm rid rows) = length rows"
  by (simp add: newest_first_def)

lemma take_rows_nat: "take_rows (int k + 1) rows = take (Suc k) rows"
  by (simp add: take_rows_def nat_add_distrib)

text \<open>What a page shows of the rows still to be listed.\<close>

lemma make_page_last:
  assumes "length rows \<le> k" and "given \<Longrightarrow> rows \<noteq> []"
  shows "\<exists>p. make_page E fld tm rid (int k) given n (take (Suc k) rows) = Inr p \<and>
           page_data p = rows \<and> nextCursor p = None"
  using assms by (auto simp: make_page_def Let_def cursor_of_def)

lemma make_page_more:
  assumes "k < length rows" and "0 < k"
  shows "\<exists>p. make_page E fld tm rid (int k) given n (take (Suc k) rows) = Inr p \<and>
           page_data p = take k rows \<and>
           nextCursor p = Some (encodeCursor E fld (tm (rows ! (k - 1))) (rid (rows ! (k - 1))))"
proof -
  have "butlast (take (Suc k) rows) = take k rows"
    using assms(1) by (simp add: butlast_take)
  moreover have "take k rows \<noteq> []" using assms by auto
  moreover have "last (take k rows) = rows ! (k - 1)"
    using assms by (cases k) (simp_all add: take_Suc_conv_app_nth)
  ultimately show ?thesis
    using assms by (auto simp: make_page_def Let_def cursor_of_def)
qed

section \<open>Listings\<close>

locale keyset =
  fixes get :: "'w \<Rightarrow> 'r list"
    and tm :: "'r \<Rightarrow> int"
    and rid :: "'r \<Rightarrow> string"
    and ok :: "'w \<Rightarrow> bool"
  assumes ids_distinct: "ok w \<Longrightarrow> distinct (map rid (get w))"
begin

lemma page_query:
  assumes "ok w" "cursor_codec E" "page_limit lmt = of_nat k" "fld \<noteq> ''id''"
    and "\<forall>r \<in> set (get w). date_codec E (tm r)"
    and L: "L = newest_first E tm rid (filter base (get w))"
    and c: "c = None \<and> j = 0 \<or>
      (\<exists>q. c = Some (encodeCursor E fld (tm q) (rid q)) \<and> 0 < j \<and> j \<le> length L \<and> q = L ! (j - 1))"
  shows "paginate E fld tm rid base (\<lambda>_. True) c lmt (get w) =
    make_page E fld tm rid (int k) (c \<noteq> None) (count_where base (get w)) (take (Suc k) (drop j L))"
proof -
  have "distinct (map rid (filter base (get w)))"
    using ids_distinct [OF assms(1)] by (rule distinct_map_filter)
  then have strict: "sorted_wrt (\<lambda>a b. row_key E tm rid b < row_key E tm rid a) L"
    unfolding L using assms(2) by (intro newest_first_strict) (simp_all add: cursor_codec_def)
  show ?thesis
  proof (cases "c = None")
    case True
    with c show ?thesis
      by (simp add: paginate_def Let_def L take_rows_nat assms(3) del: of_int_floor_cancel)
  next
    case False
    then obtain q where q: "c = Some (encodeCursor E fld (tm q) (rid q))" "0 < j" "j \<le> length L" "q = L ! (j - 1)"
      using c by blast
    then have "q \<in> set L" by simp
    then have "date_codec E (tm q)" using assms(5) unfolding L by simp
    then have dec: "decodeCursor E fld (encodeCursor E fld (tm q) (rid q)) =
        Inr \<lparr>cursor_date = Some (tm q), cursor_id = Some (JStr (rid q))\<rparr>"
      using assms(2,4) by (intro decode_encode)
    have "filter (\<lambda>r. row_key E tm rid r < row_key E tm rid q) L = drop j L"
      using filter_after [OF strict, of "j - 1"] q by simp
    then show ?thesis
      using dec encodeCursor_nonempty [OF assms(2), of fld "tm q" "rid q"]
      by (simp add: paginate_def Let_def q(1) cursorWhere_row newest_first_filter take_rows_nat
          assms(3) del: of_int_floor_cancel flip: L)
  qed
qed

text \<open>
  Following \<open>nextCursor\<close> lists the rows of \<open>base\<close> once each, newest first; one page per row and one more
  are enough.
\<close>

lemma follow_from:
  assumes "ok w" "cursor_codec E" "page_limit lmt = of_nat k" "0 < k" "fld \<noteq> ''id''"
    and "\<forall>r \<in> set (get w). date_codec E (tm r)"
    and L: "L = newest_first E tm rid (filter base (get w))"
    and "c = None \<and> j = 0 \<or>
      (\<exists>q. c = Some (encodeCursor E fld (tm q) (rid q)) \<and> 0 < j \<and> j < length L \<and> q = L ! (j - 1))"
    and "length L - j < n"
  shows "follow n (\<lambda>c. paginate E fld tm rid base (\<lambda>_. True) c lmt (get w)) c = Inr (drop j L)"
  using assms(8,9)
proof (induction n arbitrary: c j)
  case (Suc n)
  have page: "paginate E fld tm rid base (\<lambda>_. True) c lmt (get w) =
      make_page E fld tm rid (int k) (c \<noteq> None) (count_where base (get w)) (take (Suc k) (drop j L))"
    using assms(1-3,5,6) L Suc.prems(1) by (intro page_query) auto
  show ?case
  proof (cases "length (drop j L) \<le> k")
    case True
    have "c \<noteq> None \<Longrightarrow> drop j L \<noteq> []" using Suc.prems(1) by auto
    from make_page_last [OF True this, where E = E and fld = fld and tm = tm and rid = rid and n = "count_where base (get w)"] obtain p where
      "make_page E fld tm rid (int k) (c \<noteq> None) (count_where base (get w)) (take (Suc k) (drop j L)) = Inr p"
      "page_data p = drop j L" "nextCursor p = None" by blast
    then show ?thesis using page by simp
  next
    case False
    then have more: "k < length (drop j L)" by simp
    from make_page_more [OF this assms(4), where E = E and fld = fld and tm = tm and rid = rid
        and given = "c \<noteq> None" and n = "count_where base (get w)"] obtain p where
      p: "make_page E fld tm rid (int k) (c \<noteq> None) (count_where base (get w)) (take (Suc k) (drop j L)) = Inr p"
        "page_data p = take k (drop j L)"
        "nextCursor p = Some (encodeCursor E fld (tm (drop j L ! (k - 1))) (rid (drop j L ! (k - 1))))"
      by blast
    have nth: "drop j L ! (k - 1) = L ! (j + k - 1)" using more assms(4) by simp
    have "follow n (\<lambda>c. paginate E fld tm rid base (\<lambda>_. True) c lmt (get w)) (nextCursor p) = Inr (drop (j + k) L)"
      using more Suc.prems(2) assms(4) unfolding p(3) nth by (intro Suc.IH) auto
    moreover have "take k (drop j L) @ drop (j + k) L = drop j L"
      by (metis add.commute append_take_drop_id drop_drop)
    ultimately show ?thesis using page p by simp
  qed
qed simp

lemma follow_all:
  assumes "ok w" "cursor_codec E" "page_limit lmt = of_nat k" "0 < k" "fld \<noteq> ''id''"
    and "\<forall>r \<in> set (get w). date_codec E (tm r)" "length (get w) < n"
  shows "follow n (\<lambda>c. paginate E fld tm rid base (\<lambda>_. True) c lmt (get w)) None =
    Inr (newest_first E tm rid (filter base (get w)))"
proof -
  have "length (filter base (get w)) < n" using assms(7) length_filter_le [of base "get w"] by linarith
  then show ?thesis
    using follow_from [OF assms(1-6) refl, of None 0 base n] by simp
qed

end

text \<open>A page of rows that are turned into something else, and following it.\<close>

definition map_page :: "('r \<Rightarrow> 's) \<Rightarrow> 'r page \<Rightarrow> 's page" where
  "map_page f p =
     \<lparr>page_data = map f (page_data p), page_total = page_total p, hasNextPage = hasNextPage p,
      hasPrevPage = hasPrevPage p, nextCursor = nextCursor p, prevCursor = prevCursor p\<rparr>"

lemma map_page_simps [simp]:
  "page_data (map_page f p) = map f (page_data p)" "nextCursor (map_page f p) = nextCursor p"
  "page_total (map_page f p) = page_total p" "hasNextPage (map_page f p) = hasNextPage p"
  by (simp_all add: map_page_def)

lemma follow_map:
  "follow n (\<lambda>c. map_sum id (map_page f) (query c)) c = map_sum id (map f) (follow n query c)"
  by (induction n arbitrary: c) (auto split: sum.splits option.splits)

lemma follow_cong: "(\<And>c. q c = q' c) \<Longrightarrow> follow n q c = follow n q' c"
  by presburger

text \<open>With a cursor the search plays no part in which rows a page shows.\<close>

lemma paginate_ignores_search:
  assumes "s \<noteq> []" and "paginate E fld tm rid base search (Some s) lmt rows = Inr p"
  shows "\<exists>q. paginate E fld tm rid base (\<lambda>_. True) (Some s) lmt rows = Inr q \<and> page_data q = page_data p"
  using assms
  by (auto simp: paginate_def Let_def make_page_def split: sum.splits if_splits)

end
