(* ===== verification/Orders.thy ===== *)
theory Orders
  imports Pagination Reply Tools
begin

text \<open>
  \<open>back/src/modules/orders\<close>: the listings of a merchant's orders, the bulk updates, order ingestion, and
  the confirmation message the order worker sends.
\<close>

section \<open>Answers\<close>

text \<open>
  What an Express handler answers: a status and a value, or a status and the text of the \<open>message\<close> or
  \<open>error\<close> property.  A handler that throws is an \<open>Inl\<close>.
\<close>

datatype 'a reply = Reply nat 'a | Refuse nat string

definition validation_error :: exn where
  "validation_error = Error ''PrismaClientValidationError''"

text \<open>
  The message a handler takes from an error; that of an error of Prisma is not modelled, its code stands
  for it.
\<close>

fun err_message :: "exn \<Rightarrow> string" where
  "err_message (Error s) = (if s = [] then ''Internal server error'' else s)"
| "err_message (ErrorStatus s n) = (if s = [] then ''Internal server error'' else s)"
| "err_message P2002 = ''P2002''"
| "err_message P2003 = ''P2003''"
| "err_message P2025 = ''P2025''"

text \<open>The \<open>catch\<close> of most handlers: status 500 and the message of the error.\<close>

definition or_500 :: "exn + 'a reply \<Rightarrow> 'a reply" where
  "or_500 res = (case res of Inl e \<Rightarrow> Refuse 500 (err_message e) | Inr r \<Rightarrow> r)"

text \<open>A filter or a value for a text column that is not a text is refused by Prisma.\<close>

fun all_strings :: "jval list \<Rightarrow> string list option" where
  "all_strings [] = Some []"
| "all_strings (JStr s # vs) = map_option (Cons s) (all_strings vs)"
| "all_strings (_ # vs) = None"

definition nonempty_array :: "jval option \<Rightarrow> jval list option" where
  "nonempty_array v = (case v of Some (JArr vs) \<Rightarrow> (if vs = [] then None else Some vs) | _ \<Rightarrow> None)"

definition opt_truthy :: "jval option \<Rightarrow> bool" where
  "opt_truthy v = (case v of None \<Rightarrow> False | Some x \<Rightarrow> truthy x)"

definition order_statuses :: "(string \<times> OrderStatus) list" where
  "order_statuses = map (\<lambda>s. (status_text s, s)) [PENDING, CONFIRMED, SHIPPED, DELIVERED, CANCELLED]"

section \<open>Listings\<close>

record GetOrdersParams =
  gop_merchantId :: string
  gop_cursor :: "string option"
  gop_limit :: "rat option"
  gop_status :: "string option"
  gop_search :: "string option"
  gop_dateRange :: "string option"

text \<open>An optional text that is used only when it is given and not empty.\<close>

definition given :: "string option \<Rightarrow> string option" where
  "given s = (case s of None \<Rightarrow> None | Some t \<Rightarrow> (if t = [] then None else s))"

text \<open>The start of the current day, week (from Monday), month or year.\<close>

definition range_start :: "env \<Rightarrow> string \<Rightarrow> int option" where
  "range_start E period =
     (case local_ymd E (clock E) of (y, m, d) \<Rightarrow>
       if period = ''today'' then Some (local_time E y m d)
       else if period = ''week'' then
         (let day = local_dow E (clock E); diff = (if day = 0 then 6 else day - 1)
          in Some (local_time E y m (d - diff)))
       else if period = ''month'' then Some (local_time E y m 1)
       else if period = ''year'' then Some (local_time E y 0 1)
       else None)"

definition status_filter :: "string option \<Rightarrow> exn + (order_row \<Rightarrow> bool)" where
  "status_filter status =
     (case given status of
        None \<Rightarrow> Inr (\<lambda>_. True)
      | Some s \<Rightarrow>
          (let names = split_on (CHR '','') s
           in if \<forall>n \<in> set names. map_of order_statuses n \<noteq> None
              then Inr (\<lambda>r. status_text (order_status r) \<in> set names)
              else Inl validation_error))"

definition date_filter :: "env \<Rightarrow> string option \<Rightarrow> order_row \<Rightarrow> bool" where
  "date_filter E dateRange r =
     (case given dateRange of
        None \<Rightarrow> True
      | Some period \<Rightarrow> (case range_start E period of None \<Rightarrow> True | Some t \<Rightarrow> t \<le> order_createdAt r))"

definition customer_of_order :: "world \<Rightarrow> order_row \<Rightarrow> customer_row option" where
  "customer_of_order w r = find_first (\<lambda>c. customer_id c = order_customerId r) (customers w)"

definition order_search :: "env \<Rightarrow> world \<Rightarrow> string option \<Rightarrow> order_row \<Rightarrow> bool" where
  "order_search E w search r =
     (case given search of
        None \<Rightarrow> True
      | Some s \<Rightarrow>
          (case customer_of_order w r of
             None \<Rightarrow> False
           | Some c \<Rightarrow>
               (case customer_name c of None \<Rightarrow> False | Some n \<Rightarrow> icontains E n s) \<or>
               lcontains E (customer_phone c) s) \<or>
          icontains E (order_productName r) s)"

record order_view =
  ov_order :: order_row
  ov_customer :: "customer_row option"
  ov_takenOverByHuman :: "bool option"
  ov_customerName :: string
  ov_customerPhone :: string

definition order_view_of :: "world \<Rightarrow> order_row \<Rightarrow> order_view" where
  "order_view_of w r =
     (let c = customer_of_order w r
      in \<lparr>ov_order = r, ov_customer = c,
          ov_takenOverByHuman =
            map_option conv_takenOverByHuman
              (find_first (\<lambda>v. conv_currentOrderId v = Some (order_id r)) (conversations w)),
          ov_customerName = (case c of None \<Rightarrow> [] | Some x \<Rightarrow> coalesce (customer_name x) []),
          ov_customerPhone = (case c of None \<Rightarrow> [] | Some x \<Rightarrow> customer_phone x)\<rparr>)"

text \<open>The cursor is decoded before the query is sent.\<close>

definition cursor_error :: "env \<Rightarrow> string \<Rightarrow> string option \<Rightarrow> exn option" where
  "cursor_error E fld cursor =
     (case given cursor of
        None \<Rightarrow> None
      | Some s \<Rightarrow> (case decodeCursor E fld s of Inl e \<Rightarrow> Some e | Inr _ \<Rightarrow> None))"

definition getOrders :: "env \<Rightarrow> GetOrdersParams \<Rightarrow> world \<Rightarrow> exn + order_view page" where
  "getOrders E params w =
     (case status_filter (gop_status params) of
        Inl e \<Rightarrow> Inl (coalesce (cursor_error E ''createdAt'' (gop_cursor params)) e)
      | Inr by_status \<Rightarrow>
          map_sum id (map_page (order_view_of w))
            (paginate E ''createdAt'' order_createdAt order_id
               (\<lambda>r. order_merchantId r = gop_merchantId params \<and> by_status r \<and> date_filter E (gop_dateRange params) r)
               (order_search E w (gop_search params)) (gop_cursor params) (gop_limit params) (orders w)))"

definition listOrderIds ::
  "env \<Rightarrow> string \<Rightarrow> string option \<Rightarrow> string option \<Rightarrow> string option \<Rightarrow> world \<Rightarrow> exn + string list" where
  "listOrderIds E merchantId status search dateRange w =
     (case status_filter status of
        Inl e \<Rightarrow> Inl e
      | Inr by_status \<Rightarrow>
          Inr (map order_id (newest_first E order_createdAt order_id
            (filter (\<lambda>r. order_merchantId r = merchantId \<and> by_status r \<and> date_filter E dateRange r \<and>
                         order_search E w search r) (orders w)))))"

section \<open>Bulk updates\<close>

definition update_many ::
  "('w \<Rightarrow> 'r list) \<Rightarrow> ('r list \<Rightarrow> 'w \<Rightarrow> 'w) \<Rightarrow> ('r \<Rightarrow> bool) \<Rightarrow> ('r \<Rightarrow> 'r) \<Rightarrow> 'w \<Rightarrow> nat \<times> 'w" where
  "update_many get put P f w = (count_where P (get w), put (update_where P f (get w)) w)"

definition bulkUpdateStatus :: "string \<Rightarrow> string list \<Rightarrow> string \<Rightarrow> world \<Rightarrow> exn + (nat \<times> world)" where
  "bulkUpdateStatus merchantId orderIds status w =
     (case map_of order_statuses status of
        None \<Rightarrow> Inl validation_error
      | Some s \<Rightarrow>
          Inr (update_many orders put_orders
                 (\<lambda>r. order_merchantId r = merchantId \<and> order_id r \<in> set orderIds)
                 (\<lambda>r. r\<lparr>order_status := s\<rparr>) w))"

definition bulkHoldAgent :: "string \<Rightarrow> string list \<Rightarrow> bool \<Rightarrow> world \<Rightarrow> nat \<times> world" where
  "bulkHoldAgent merchantId orderIds hold w =
     update_many conversations put_conversations
       (\<lambda>c. conv_merchantId c = merchantId \<and>
            (case conv_currentOrderId c of None \<Rightarrow> False | Some i \<Rightarrow> i \<in> set orderIds))
       (\<lambda>c. c\<lparr>conv_takenOverByHuman := hold\<rparr>) w"

definition bulkUpdateTracking ::
  "string \<Rightarrow> string list \<Rightarrow> string \<Rightarrow> string \<Rightarrow> world \<Rightarrow> nat \<times> world" where
  "bulkUpdateTracking merchantId orderIds trackingNumber deliveryProvider w =
     update_many orders put_orders
       (\<lambda>r. order_merchantId r = merchantId \<and> order_id r \<in> set orderIds)
       (\<lambda>r. r\<lparr>order_trackingNumber := Some trackingNumber, order_deliveryProvider := Some deliveryProvider\<rparr>) w"

section \<open>Ingestion\<close>

record FakeOrderInput =
  fo_merchantId :: string
  fo_customerPhone :: string
  fo_customerName :: "string option"
  fo_productId :: string
  fo_quantity :: int
  fo_wilaya :: string
  fo_commune :: "string option"
  fo_address :: string
  fo_platformOrderId :: "string option"

definition fo_name_update :: "FakeOrderInput \<Rightarrow> customer_row \<Rightarrow> customer_row" where
  "fo_name_update d c = (case fo_customerName d of None \<Rightarrow> c | Some n \<Rightarrow> c\<lparr>customer_name := Some n\<rparr>)"

definition fo_platform_id :: "env \<Rightarrow> FakeOrderInput \<Rightarrow> string" where
  "fo_platform_id E d = coalesce (fo_platformOrderId d) (''FAKE-'' @ num_text E (of_int (clock E)))"

definition fo_delivery_cost :: "env \<Rightarrow> FakeOrderInput \<Rightarrow> world \<Rightarrow> rat" where
  "fo_delivery_cost E d w =
     (case find_first (\<lambda>r. cost_merchantId r = fo_merchantId d \<and> ieq E (cost_wilaya r) (fo_wilaya d))
             (wilayaDeliveryCosts w) of
        None \<Rightarrow> 0
      | Some r \<Rightarrow> cost_cost r)"

definition fo_order_input :: "env \<Rightarrow> FakeOrderInput \<Rightarrow> product_row \<Rightarrow> customer_row \<Rightarrow> world \<Rightarrow> order_input" where
  "fo_order_input E d p c w =
     \<lparr>oi_merchantId = fo_merchantId d, oi_customerId = customer_id c, oi_platformOrderId = fo_platform_id E d,
      oi_wilaya = fo_wilaya d, oi_commune = coalesce (fo_commune d) [], oi_address = Some (fo_address d),
      oi_productId = product_id p, oi_productName = product_name p, oi_quantity = fo_quantity d,
      oi_totalAmount = product_price p * of_int (fo_quantity d) + fo_delivery_cost E d w,
      oi_deliveryCost = fo_delivery_cost E d w\<rparr>"

definition duplicate_error :: "string \<Rightarrow> exn" where
  "duplicate_error i = ErrorStatus (''Order with platformOrderId '' @ [CHR 0x22] @ i @ [CHR 0x22] @ '' already exists'') 409"

text \<open>The conversation the order is attached to: an open one, or a new one.\<close>

definition fo_conversation :: "env \<Rightarrow> string \<Rightarrow> string \<Rightarrow> world \<Rightarrow> exn + (conversation_row \<times> world)" where
  "fo_conversation E merchantId customerId w =
     (case find_first (\<lambda>c. conv_merchantId c = merchantId \<and> conv_customerId c = customerId \<and>
                            conv_state c \<noteq> ST_FINISHED \<and> conv_state c \<noteq> ST_CANCELLED) (conversations w) of
        Some c \<Rightarrow> Inr (c, w)
      | None \<Rightarrow> create_conversation E merchantId customerId [] None w)"

definition attach_order :: "env \<Rightarrow> order_row \<Rightarrow> world \<Rightarrow> (exn + (string \<times> string)) \<times> world" where
  "attach_order E r w =
     (case fo_conversation E (order_merchantId r) (order_customerId r) w of
        Inl e \<Rightarrow> (Inl e, w)
      | Inr (c, w1) \<Rightarrow>
          (case update_conversation (\<lambda>v. conv_id v = conv_id c)
                  (\<lambda>v. v\<lparr>conv_currentOrderId := Some (order_id r), conv_state := ST_WAITING_CONFIRMATION\<rparr>) w1 of
             Inl e \<Rightarrow> (Inl e, w1)
           | Inr (_, w2) \<Rightarrow> (Inr (order_id r, conv_id c), enqueueOrderJob (order_id r) w2)))"

definition ingestOrder :: "env \<Rightarrow> FakeOrderInput \<Rightarrow> world \<Rightarrow> (exn + (string \<times> string)) \<times> world" where
  "ingestOrder E d w =
     (case find_first (\<lambda>p. product_id p = fo_productId d \<and> product_merchantId p = fo_merchantId d) (products w) of
        None \<Rightarrow> (Inl (Error (''Product '' @ fo_productId d @ '' not found for merchant '' @ fo_merchantId d)), w)
      | Some p \<Rightarrow>
          (case upsert_customer E (fo_merchantId d) (fo_customerPhone d) (fo_name_update d) (fo_customerName d) None w of
             Inl e \<Rightarrow> (Inl e, w)
           | Inr (c, w1) \<Rightarrow>
               (case create_order E (fo_order_input E d p c w1) w1 of
                  Inl e \<Rightarrow> (Inl (if e = P2002 then duplicate_error (fo_platform_id E d) else e), w1)
                | Inr (r, w2) \<Rightarrow> attach_order E r w2)))"

section \<open>The confirmation message\<close>

record ConfirmationTemplateInput =
  ct_productName :: string
  ct_quantity :: int
  ct_totalAmount :: rat
  ct_currency :: string
  ct_wilaya :: string
  ct_commune :: string
  ct_clientName :: "string option"

definition buildOrderConfirmationText :: "env \<Rightarrow> ConfirmationTemplateInput \<Rightarrow> string \<Rightarrow> string list" where
  "buildOrderConfirmationText E input language =
     (let productName = ct_productName input; qty = num_text E (of_int (ct_quantity input));
          tot = num_text E (ct_totalAmount input); currency = ct_currency input;
          location = ct_commune input @ '', '' @ ct_wilaya input;
          name = (case ct_clientName input of None \<Rightarrow> [] | Some n \<Rightarrow> (if n = [] then [] else '' '' @ n))
      in
      if language = ''ar-dz'' \<or> language = ''darija'' \<or> language = ''auto'' then
        [''Salam'' @ name @ '', nta li dit 3lina '' @ qty @ '' '' @ productName @ ''?'',
         ''Total ja: '' @ tot @ '' '' @ currency @ '' w la livraison l '' @ location @ ''.'',
         ''Choufha mlih. Ila kayn kch 7aja khasa ttbadel 9olli, w ila kolchi mli7 nb3toulk la commande.'']
      else if language = ''fr'' then
        [''Bonjour'' @ name @ '', voici le r'' @ utf8_text [0xE9] @ ''capitulatif de votre commande :'',
         ''Produit : '' @ productName @ utf8_text [0xA] @ ''Quantit'' @ utf8_text [0xE9] @ '' : ''
         @ qty @ utf8_text [0xA] @ ''Prix total : '' @ tot @ '' '' @ currency @ utf8_text [0xA]
         @ ''Livraison : '' @ location,
         ''V'' @ utf8_text [0xE9] @ ''rifiez les informations. S'' @ utf8_text [0x27]
         @ ''il y a quelque chose '' @ utf8_text [0xE0] @ '' modifier, dites-le-moi.'']
      else
        [utf8_text [0x645, 0x631, 0x62D, 0x628, 0x627, 0x64B] @ name @ utf8_text [0x60C, 0x20, 0x647,
         0x630, 0x627, 0x20, 0x645, 0x644, 0x62E, 0x635, 0x20, 0x637, 0x644, 0x628, 0x643, 0x3A],
         utf8_text [0x627, 0x644, 0x645, 0x646, 0x62A, 0x62C, 0x3A, 0x20] @ productName
         @ utf8_text [0xA, 0x627, 0x644, 0x643, 0x645, 0x64A, 0x629, 0x3A, 0x20] @ qty
         @ utf8_text [0xA, 0x627, 0x644, 0x633, 0x639, 0x631, 0x20, 0x627, 0x644, 0x625, 0x62C, 0x645,
         0x627, 0x644, 0x64A, 0x3A, 0x20] @ tot @ '' '' @ currency @ utf8_text [0xA, 0x645, 0x643,
         0x627, 0x646, 0x20, 0x627, 0x644, 0x62A, 0x648, 0x635, 0x64A, 0x644, 0x3A, 0x20] @ location,
         utf8_text [0x631, 0x627, 0x62C, 0x639, 0x20, 0x627, 0x644, 0x645, 0x639, 0x644, 0x648, 0x645,
         0x627, 0x62A, 0x60C, 0x20, 0x648, 0x625, 0x630, 0x627, 0x20, 0x643, 0x627, 0x646, 0x20,
         0x647, 0x646, 0x627, 0x643, 0x20, 0x623, 0x64A, 0x20, 0x634, 0x64A, 0x621, 0x20, 0x64A,
         0x62D, 0x62A, 0x627, 0x62C, 0x20, 0x625, 0x644, 0x649, 0x20, 0x62A, 0x639, 0x62F, 0x64A,
         0x644, 0x20, 0x623, 0x62E, 0x628, 0x631, 0x646, 0x64A, 0x20, 0x628, 0x647, 0x2E]])"

definition template_input :: "order_row \<Rightarrow> customer_row \<Rightarrow> ConfirmationTemplateInput" where
  "template_input r c =
     \<lparr>ct_productName = order_productName r, ct_quantity = order_quantity r,
      ct_totalAmount = order_totalAmount r, ct_currency = ''DZD'', ct_wilaya = order_wilaya r,
      ct_commune = order_commune r, ct_clientName = customer_name c\<rparr>"

definition send_confirmation ::
  "env \<Rightarrow> order_row \<Rightarrow> customer_row \<Rightarrow> string list \<Rightarrow> string list \<Rightarrow> world \<Rightarrow> world" where
  "send_confirmation E r c texts messageIds w =
     (case find_first (\<lambda>s. session_merchantId s = order_merchantId r) (whatsAppSessions w) of
        None \<Rightarrow> w
      | Some waSession \<Rightarrow>
          (if (session_status waSession = ''connected'' \<or> session_status waSession = ''ready'') \<and>
              customer_phone c \<noteq> [] then
             transmit E (session_sessionId waSession) (customer_phone c) texts messageIds w
           else w))"

definition sendOrderConfirmation :: "env \<Rightarrow> string \<Rightarrow> world \<Rightarrow> (exn + unit) \<times> world" where
  "sendOrderConfirmation E i w =
     (case find_first (\<lambda>r. order_id r = i) (orders w) of
        None \<Rightarrow> (Inl P2025, w)
      | Some r \<Rightarrow>
          (case customer_of_order w r of
             None \<Rightarrow> (Inl P2025, w)
           | Some c \<Rightarrow>
               (case find_first (\<lambda>v. conv_merchantId v = order_merchantId r \<and> conv_customerId v = order_customerId r)
                       (conversations w) of
                  None \<Rightarrow> (Inl P2025, w)
                | Some v \<Rightarrow>
                    (let texts = buildOrderConfirmationText E (template_input r c)
                                   (coalesce (customer_language c) (conv_language v))
                     in (case persist_replies E (conv_id v) texts w of
                           (Inl e, w1) \<Rightarrow> (Inl e, w1)
                         | (Inr ids, w1) \<Rightarrow>
                             (case update_conversation (\<lambda>x. conv_id x = conv_id v)
                                     (\<lambda>x. x\<lparr>conv_lastMessageAt := Some (clock E)\<rparr>) w1 of
                                Inl e \<Rightarrow> (Inl e, w1)
                              | Inr (_, w2) \<Rightarrow> (Inr (), send_confirmation E r c texts ids w2)))))))"

text \<open>\<open>workers/order.worker.ts\<close>: the job of the order queue.\<close>

definition orderWorker :: "env \<Rightarrow> string \<Rightarrow> world \<Rightarrow> (exn + unit) \<times> world" where
  "orderWorker E i w = sendOrderConfirmation E i w"

section \<open>Handlers\<close>

text \<open>
  \<open>orders.controller.ts\<close>.  The merchant comes from the access token.  The query parameters of a listing
  are not validated: \<open>validate(getOrdersSchema)\<close> checks the body.
\<close>

definition listOrders :: "env \<Rightarrow> GetOrdersParams \<Rightarrow> world \<Rightarrow> exn + order_view page reply" where
  "listOrders E params w = map_sum id (Reply 200) (getOrders E params w)"

definition postFakeOrder :: "env \<Rightarrow> FakeOrderInput \<Rightarrow> world \<Rightarrow> (exn + (string \<times> string) reply) \<times> world" where
  "postFakeOrder E d w = (case ingestOrder E d w of (res, w') \<Rightarrow> (map_sum id (Reply 202) res, w'))"

text \<open>
  \<open>getOrderIds\<close> sends the ids and goes on: it ingests the body as an order.  Its second answer, whether of
  success or of failure, throws because the headers are sent.
\<close>

definition headers_sent :: exn where
  "headers_sent = Error ''Cannot set headers after they are sent to the client''"

definition getOrderIds ::
  "env \<Rightarrow> string \<Rightarrow> string option \<Rightarrow> string option \<Rightarrow> string option \<Rightarrow> FakeOrderInput \<Rightarrow> world \<Rightarrow>
   (string list reply option \<times> exn) \<times> world" where
  "getOrderIds E merchantId status search dateRange body w =
     (case listOrderIds E merchantId status search dateRange w of
        Inl e \<Rightarrow> ((None, e), w)
      | Inr ids \<Rightarrow> ((Some (Reply 200 ids), headers_sent), snd (ingestOrder E body w)))"

definition patchBulkStatus :: "string \<Rightarrow> jval \<Rightarrow> world \<Rightarrow> (exn + nat reply) \<times> world" where
  "patchBulkStatus merchantId body w =
     (case (nonempty_array (json_field ''orderIds'' body), json_field ''status'' body) of
        (Some vs, Some status) \<Rightarrow>
          (if \<not> truthy status then (Inr (Refuse 400 ''orderIds (array) and status are required''), w)
           else
             (case (all_strings vs, status) of
                (Some orderIds, JStr s) \<Rightarrow>
                  (case bulkUpdateStatus merchantId orderIds s w of
                     Inl e \<Rightarrow> (Inl e, w)
                   | Inr (count, w') \<Rightarrow> (Inr (Reply 200 count), w'))
              | _ \<Rightarrow> (Inl validation_error, w)))
      | _ \<Rightarrow> (Inr (Refuse 400 ''orderIds (array) and status are required''), w))"

definition patchBulkHold :: "string \<Rightarrow> jval \<Rightarrow> world \<Rightarrow> (exn + nat reply) \<times> world" where
  "patchBulkHold merchantId body w =
     (case (nonempty_array (json_field ''orderIds'' body), json_field ''hold'' body) of
        (Some vs, Some (JBool hold)) \<Rightarrow>
          (case all_strings vs of
             None \<Rightarrow> (Inl validation_error, w)
           | Some orderIds \<Rightarrow>
               (case bulkHoldAgent merchantId orderIds hold w of (count, w') \<Rightarrow> (Inr (Reply 200 count), w')))
      | _ \<Rightarrow> (Inr (Refuse 400 ''orderIds (array) and hold (boolean) are required''), w))"

definition patchBulkTracking :: "string \<Rightarrow> jval \<Rightarrow> world \<Rightarrow> (exn + nat reply) \<times> world" where
  "patchBulkTracking merchantId body w =
     (case (nonempty_array (json_field ''orderIds'' body), json_field ''trackingNumber'' body,
            json_field ''deliveryProvider'' body) of
        (Some vs, Some num, Some provider) \<Rightarrow>
          (if \<not> truthy num \<or> \<not> truthy provider then
             (Inr (Refuse 400 ''orderIds (array), trackingNumber, and deliveryProvider are required''), w)
           else
             (case (all_strings vs, num, provider) of
                (Some orderIds, JStr trackingNumber, JStr deliveryProvider) \<Rightarrow>
                  (case bulkUpdateTracking merchantId orderIds trackingNumber deliveryProvider w of
                     (count, w') \<Rightarrow> (Inr (Reply 200 count), w'))
              | _ \<Rightarrow> (Inl validation_error, w)))
      | _ \<Rightarrow> (Inr (Refuse 400 ''orderIds (array), trackingNumber, and deliveryProvider are required''), w))"

section \<open>Listings are complete\<close>

interpretation orderList: keyset orders order_createdAt order_id schema_ok
  by unfold_locales (simp add: schema_ok_def unique_by_def)

text \<open>C18. For a listing without a search text (and with a valid status), paging through a merchant's orders by following
  \<open>nextCursor\<close> gives the orders that \<open>listOrderIds\<close> lists for the same filters, each once and in the same order, whatever
  the page size.  With a search text the source drops the cursor's condition: \<open>getOrders_cursor_ignores_search\<close>.\<close>

theorem getOrders_pages_are_listing:
  assumes "schema_ok w" and "cursor_codec E" and "\<forall>r \<in> set (orders w). date_codec E (order_createdAt r)"
    and "page_limit (gop_limit params) = of_nat k" and "0 < k"
    and "gop_search params = None" and "status_filter (gop_status params) = Inr by_status"
  shows "\<exists>rows. follow (Suc (length (orders w))) (\<lambda>c. getOrders E (params\<lparr>gop_cursor := c\<rparr>) w) None = Inr rows \<and>
    listOrderIds E (gop_merchantId params) (gop_status params) None (gop_dateRange params) w =
      Inr (map (order_id \<circ> ov_order) rows) \<and>
    distinct (map (order_id \<circ> ov_order) rows)"
proof -
  let ?base = "\<lambda>r. order_merchantId r = gop_merchantId params \<and> by_status r \<and> date_filter E (gop_dateRange params) r"
  let ?L = "newest_first E order_createdAt order_id (filter ?base (orders w))"
  have search: "order_search E w None = (\<lambda>_. True)"
    by (simp add: order_search_def given_def fun_eq_iff)
  have "follow (Suc (length (orders w))) (\<lambda>c. paginate E ''createdAt'' order_createdAt order_id ?base
      (\<lambda>_. True) c (gop_limit params) (orders w)) None = Inr ?L"
    using assms(1-5) by (intro orderList.follow_all) simp_all
  then have "follow (Suc (length (orders w))) (\<lambda>c. getOrders E (params\<lparr>gop_cursor := c\<rparr>) w) None =
      Inr (map (order_view_of w) ?L)"
    using assms(6,7) by (simp add: getOrders_def follow_map search del: follow.simps)
  moreover have "order_id \<circ> ov_order \<circ> order_view_of w = order_id"
    by (simp add: fun_eq_iff order_view_of_def Let_def)
  moreover have "listOrderIds E (gop_merchantId params) (gop_status params) None (gop_dateRange params) w =
      Inr (map order_id ?L)"
    using assms(7) by (simp add: listOrderIds_def search)
  moreover have "distinct (map order_id ?L)"
    using distinct_map_filter [of order_id "orders w" ?base] assms(1)
    by (simp add: newest_first_def schema_ok_def unique_by_def rev_map [symmetric] distinct_map)
  ultimately show ?thesis by (simp add: comp_assoc)
qed

definition sample_params :: GetOrdersParams where
  "sample_params = \<lparr>gop_merchantId = ''m1'', gop_cursor = None, gop_limit = Some 1, gop_status = Some ''PENDING'',
     gop_search = None, gop_dateRange = None\<rparr>"

definition sample_orders :: world where
  "sample_orders = sample_world\<lparr>orders := orders sample_world @
     [sample_order ''o3'' ''m1'' ''c1'' ''p1'' PENDING 5, sample_order ''o4'' ''m1'' ''c3'' ''p1'' CANCELLED 7]\<rparr>"

lemma sample_cursor_codec: "cursor_codec sample_env"
proof -
  have "inj (map (of_char :: char \<Rightarrow> nat))" by (simp add: inj_map inj_def)
  then show ?thesis by (simp add: cursor_codec_def sample_env_def)
qed

lemma sample_date_codec: "0 \<le> t \<Longrightarrow> date_codec sample_env t"
  by (simp add: date_codec_def sample_env_def)

lemma sample_orders_ok: "schema_ok sample_orders"
  by (simp add: schema_ok_def unique_by_def sample_orders_def sample_defs)

theorem getOrders_pages_are_listing_witness:
  "\<exists>rows. follow (Suc (length (orders sample_orders)))
      (\<lambda>c. getOrders sample_env (sample_params\<lparr>gop_cursor := c\<rparr>) sample_orders) None = Inr rows \<and>
    map (order_id \<circ> ov_order) rows = [''o3'', ''o1'']"
proof -
  obtain f where f: "status_filter (gop_status sample_params) = Inr f"
    by (simp add: status_filter_def sample_params_def given_def order_statuses_def status_text_def)
  have dates: "\<forall>r \<in> set (orders sample_orders). date_codec sample_env (order_createdAt r)"
    by (simp add: sample_orders_def sample_defs sample_date_codec [unfolded sample_env_def])
  have "page_limit (gop_limit sample_params) = of_nat 1" "gop_search sample_params = None"
    by (simp_all add: sample_params_def page_limit_def)
  from getOrders_pages_are_listing [OF sample_orders_ok sample_cursor_codec dates this(1) _ this(2) f]
  obtain rows where rows: "follow (Suc (length (orders sample_orders)))
      (\<lambda>c. getOrders sample_env (sample_params\<lparr>gop_cursor := c\<rparr>) sample_orders) None = Inr rows"
    "listOrderIds sample_env (gop_merchantId sample_params) (gop_status sample_params) None
       (gop_dateRange sample_params) sample_orders = Inr (map (order_id \<circ> ov_order) rows)" by auto
  moreover have "listOrderIds sample_env (gop_merchantId sample_params) (gop_status sample_params) None
       (gop_dateRange sample_params) sample_orders = Inr [''o3'', ''o1'']" by code_simp
  ultimately show ?thesis by simp
qed

text \<open>From the second page on the search text plays no part: a page asked for with a cursor shows the
  same rows whatever is searched for, although \<open>total\<close> still counts the matches.\<close>

theorem getOrders_cursor_ignores_search:
  assumes "c \<noteq> []" and "getOrders E (params\<lparr>gop_cursor := Some c\<rparr>) w = Inr p"
  shows "\<exists>q. getOrders E (params\<lparr>gop_cursor := Some c, gop_search := None\<rparr>) w = Inr q \<and>
    page_data q = page_data p"
proof -
  have search: "order_search E w None = (\<lambda>_. True)"
    by (simp add: order_search_def given_def fun_eq_iff)
  obtain by_status where st: "status_filter (gop_status params) = Inr by_status"
    using assms(2) by (auto simp: getOrders_def split: sum.splits)
  let ?base = "\<lambda>r. order_merchantId r = gop_merchantId params \<and> by_status r \<and> date_filter E (gop_dateRange params) r"
  obtain p' where p': "paginate E ''createdAt'' order_createdAt order_id ?base
      (order_search E w (gop_search params)) (Some c) (gop_limit params) (orders w) = Inr p'"
    "p = map_page (order_view_of w) p'"
    using assms(2) st by (auto simp: getOrders_def map_sum_def split: sum.splits)
  from paginate_ignores_search [OF assms(1) p'(1)] obtain q' where
    "paginate E ''createdAt'' order_createdAt order_id ?base (\<lambda>_. True) (Some c) (gop_limit params) (orders w) = Inr q'"
    "page_data q' = page_data p'" by blast
  then show ?thesis using st p'(2) by (simp add: getOrders_def search)
qed

theorem getOrders_cursor_ignores_search_witness:
  "\<exists>c q. map (order_id \<circ> ov_order) (page_data q) = [''o1''] \<and> icontains sample_env ''bag'' ''zzz'' = False \<and>
     getOrders sample_env (sample_params\<lparr>gop_search := Some ''zzz'', gop_cursor := Some c\<rparr>) sample_orders = Inr q"
proof -
  let ?c = "encodeCursor sample_env ''createdAt'' 5 ''o3''"
  let ?params = "sample_params\<lparr>gop_search := Some ''zzz''\<rparr>"
  have ne: "?c \<noteq> []" by code_simp
  have "\<not> isl (getOrders sample_env (?params\<lparr>gop_cursor := Some ?c\<rparr>) sample_orders)" by code_simp
  then obtain p where p: "getOrders sample_env (?params\<lparr>gop_cursor := Some ?c\<rparr>) sample_orders = Inr p"
    using not_isl_Inr by blast
  from getOrders_cursor_ignores_search [OF ne p] obtain q where q:
    "getOrders sample_env (?params\<lparr>gop_cursor := Some ?c, gop_search := None\<rparr>) sample_orders = Inr q"
    "page_data q = page_data p" by blast
  moreover have "map_sum id (\<lambda>q. map (order_id \<circ> ov_order) (page_data q)) (getOrders sample_env (?params\<lparr>gop_cursor := Some ?c, gop_search := None\<rparr>) sample_orders) = Inr [''o1'']"
    by code_simp
  moreover have "icontains sample_env ''bag'' ''zzz'' = False" by code_simp
  ultimately have "map (order_id \<circ> ov_order) (page_data p) = [''o1''] \<and> icontains sample_env ''bag'' ''zzz'' = False \<and>
    getOrders sample_env (?params\<lparr>gop_cursor := Some ?c\<rparr>) sample_orders = Inr p"
    using p by simp
  then show ?thesis by (intro exI)
qed

end
