(* ===== verification/Order_Intake.thy ===== *)
theory Order_Intake
  imports Orders
begin

text \<open>
  What the bulk updates, the ingestion of an order and its confirmation message do
  (\<open>back/src/modules/orders\<close>).
\<close>

section \<open>Bulk updates\<close>

lemma put_orders_frame [simp]:
  "conversations (put_orders rs w) = conversations w" "customers (put_orders rs w) = customers w"
  "orders (put_orders rs w) = rs" "orders (put_conversations cs w) = orders w"
  "conversations (put_conversations cs w) = cs" "customers (put_conversations cs w) = customers w"
  by (simp_all add: put_defs)

lemma bulk_status_scoped:
  "filter (\<lambda>r. order_merchantId r \<noteq> m) (orders (snd (patchBulkStatus m body w))) =
     filter (\<lambda>r. order_merchantId r \<noteq> m) (orders w)"
  "conversations (snd (patchBulkStatus m body w)) = conversations w"
  "world_ok E (snd (patchBulkStatus m body w)) = world_ok E w"
  by (auto simp: patchBulkStatus_def bulkUpdateStatus_def update_many_def put_orders_def
      world_ok_update_orders split: option.splits jval.splits intro!: filter_update_where)

lemma bulk_tracking_scoped:
  "filter (\<lambda>r. order_merchantId r \<noteq> m) (orders (snd (patchBulkTracking m body w))) =
     filter (\<lambda>r. order_merchantId r \<noteq> m) (orders w)"
  "conversations (snd (patchBulkTracking m body w)) = conversations w"
  "world_ok E (snd (patchBulkTracking m body w)) = world_ok E w"
  by (auto simp: patchBulkTracking_def bulkUpdateTracking_def update_many_def put_orders_def
      world_ok_update_orders split: option.splits jval.splits intro!: filter_update_where)

lemma bulk_hold_scoped:
  "filter (\<lambda>c. conv_merchantId c \<noteq> m) (conversations (snd (patchBulkHold m body w))) =
     filter (\<lambda>c. conv_merchantId c \<noteq> m) (conversations w)"
  "orders (snd (patchBulkHold m body w)) = orders w"
  "world_ok E w \<Longrightarrow> world_ok E (snd (patchBulkHold m body w))"
  by (auto simp: patchBulkHold_def bulkHoldAgent_def update_many_def put_conversations_def
      split: option.splits jval.splits intro!: world_ok_update_conversations filter_update_where)

text \<open>The three bulk handlers change no order and no conversation of another merchant, whatever ids the
  request names, and keep the state well formed.\<close>

theorem bulk_updates_scoped:
  assumes "world_ok E w"
    and "w' \<in> {snd (patchBulkStatus m body w), snd (patchBulkTracking m body w), snd (patchBulkHold m body w)}"
  shows "filter (\<lambda>r. order_merchantId r \<noteq> m) (orders w') = filter (\<lambda>r. order_merchantId r \<noteq> m) (orders w) \<and>
    filter (\<lambda>c. conv_merchantId c \<noteq> m) (conversations w') = filter (\<lambda>c. conv_merchantId c \<noteq> m) (conversations w) \<and>
    world_ok E w'"
  using assms bulk_status_scoped bulk_tracking_scoped bulk_hold_scoped by auto

theorem bulk_updates_scoped_witness:
  "fst (patchBulkStatus ''m1'' (JObj [(''orderIds'', JArr [JStr ''o1'', JStr ''o2'']), (''status'', JStr ''SHIPPED'')])
        sample_world) = Inr (Reply 200 1) \<and>
   world_ok sample_env (snd (patchBulkStatus ''m1''
     (JObj [(''orderIds'', JArr [JStr ''o1'', JStr ''o2'']), (''status'', JStr ''SHIPPED'')]) sample_world))"
proof (rule conjI)
  show "fst (patchBulkStatus ''m1'' (JObj [(''orderIds'', JArr [JStr ''o1'', JStr ''o2'']), (''status'', JStr ''SHIPPED'')])
        sample_world) = Inr (Reply 200 1)" by code_simp
qed (use bulk_updates_scoped [OF sample_ok, where m = "''m1''" and body =
  "JObj [(''orderIds'', JArr [JStr ''o1'', JStr ''o2'']), (''status'', JStr ''SHIPPED'')]"] in blast)

section \<open>Ingestion\<close>

lemma fo_name_update_keys [simp]:
  "customer_id (fo_name_update d c) = customer_id c" "customer_merchantId (fo_name_update d c) = customer_merchantId c"
  "customer_phone (fo_name_update d c) = customer_phone c"
  by (simp_all add: fo_name_update_def split: option.split)

lemma fo_conversation_Inr:
  assumes "world_ok E w" and "fo_conversation E m i w = Inr (c, w')"
  shows "world_ok E w' \<and> c \<in> set (conversations w') \<and> conv_merchantId c = m \<and> conv_customerId c = i \<and>
    nextId w \<le> nextId w' \<and> orders w' = orders w \<and> customers w' = customers w \<and> orderJobs w' = orderJobs w"
proof (cases "find_first (\<lambda>c. conv_merchantId c = m \<and> conv_customerId c = i \<and>
    conv_state c \<noteq> ST_FINISHED \<and> conv_state c \<noteq> ST_CANCELLED) (conversations w)")
  case None
  with assms(2) have new: "create_conversation E m i [] None w = Inr (c, w')" by (simp add: fo_conversation_def)
  have "world_ok E w'" using world_ok_create_conversation [OF assms(1) new] by simp
  then show ?thesis using create_conversation_Inr [OF new] by simp
next
  case (Some q)
  with assms show ?thesis by (auto simp: fo_conversation_def dest: find_first_SomeD)
qed

lemma attach_order_Inr:
  assumes "world_ok E w" and "order_id r = cuid E k" and "k < nextId w"
    and "attach_order E r w = (Inr (i, v), w')"
  shows "world_ok E w' \<and> orders w' = orders w \<and> customers w' = customers w \<and> i = order_id r \<and>
    i \<in> set (orderJobs w') \<and>
    (\<exists>c \<in> set (conversations w'). conv_id c = v \<and> conv_merchantId c = order_merchantId r \<and>
       conv_customerId c = order_customerId r \<and> conv_currentOrderId c = Some i \<and>
       conv_state c = ST_WAITING_CONFIRMATION)"
proof -
  let ?f = "\<lambda>c. c\<lparr>conv_currentOrderId := Some (order_id r), conv_state := ST_WAITING_CONFIRMATION\<rparr>"
  obtain c w1 where c: "fo_conversation E (order_merchantId r) (order_customerId r) w = Inr (c, w1)"
    using assms(4) by (auto simp: attach_order_def split: sum.splits)
  note F = fo_conversation_Inr [OF assms(1) c]
  let ?C = "update_where (\<lambda>x. conv_id x = conv_id c) ?f (conversations w1)"
  have w': "w' = enqueueOrderJob (order_id r) (w1\<lparr>conversations := ?C\<rparr>)" "i = order_id r" "v = conv_id c"
    using assms(4) c by (auto simp: attach_order_def update_in_def put_conversations_def split: option.splits)
  have "world_ok E (w1\<lparr>conversations := ?C\<rparr>)"
  proof (rule world_ok_update_conversations)
    fix x :: conversation_row and n
    assume "nextId w1 \<le> n" "conv_currentOrderId (?f x) = Some (cuid E n)"
    then have "cuid E n = cuid E k" using assms(2) by simp
    moreover have "inj (cuid E)" using assms(1) by (simp add: world_ok_def)
    ultimately have "n = k" by (simp add: inj_eq)
    with \<open>nextId w1 \<le> n\<close> F assms(3) show "conv_currentOrderId x = Some (cuid E n)" by linarith
  qed (use F in simp_all)
  moreover have "?f c \<in> set ?C" using F by (force simp: set_update_where)
  moreover have "i \<in> set (orderJobs w')" by (simp add: w' enqueueOrderJob_def)
  ultimately show ?thesis using F w' by (auto intro!: bexI [of _ "?f c"])
qed

text \<open>The three steps of an ingestion: the customer, the order, the conversation.\<close>

lemma ingestOrder_steps:
  assumes "world_ok E w" and "find_first (\<lambda>p. product_id p = fo_productId d \<and> product_merchantId p = fo_merchantId d)
    (products w) = Some p"
  obtains c C n where "world_ok E (w\<lparr>customers := C, nextId := n\<rparr>)" "c \<in> set C"
    "customer_merchantId c = fo_merchantId d" "customer_phone c = fo_customerPhone d" "nextId w \<le> n"
    "upsert_customer E (fo_merchantId d) (fo_customerPhone d) (fo_name_update d) (fo_customerName d) None w =
       Inr (c, w\<lparr>customers := C, nextId := n\<rparr>)"
    "ingestOrder E d w =
      (case create_order E (fo_order_input E d p c w) (w\<lparr>customers := C, nextId := n\<rparr>) of
         Inl e \<Rightarrow> (Inl (if e = P2002 then duplicate_error (fo_platform_id E d) else e), w\<lparr>customers := C, nextId := n\<rparr>)
       | Inr (r, w2) \<Rightarrow> attach_order E r w2)"
proof -
  obtain c C n where F: "upsert_customer E (fo_merchantId d) (fo_customerPhone d) (fo_name_update d) (fo_customerName d) None w =
      Inr (c, w\<lparr>customers := C, nextId := n\<rparr>)" "c \<in> set C" "customer_merchantId c = fo_merchantId d"
    "customer_phone c = fo_customerPhone d" "nextId w \<le> n" "world_ok E (w\<lparr>customers := C, nextId := n\<rparr>)"
    by (rule upsert_customer_effect [OF assms(1), where f = "fo_name_update d"]) auto
  have "fo_order_input E d p c (w\<lparr>customers := C, nextId := n\<rparr>) = fo_order_input E d p c w"
    by (simp add: fo_order_input_def fo_delivery_cost_def)
  then show thesis
    using that [OF F(6,2,3,4,5,1)] F(1) assms(2) by (simp add: ingestOrder_def)
qed

text \<open>C16. When \<open>ingestOrder\<close> succeeds it has added one pending order of the merchant, priced by the
  backend, to a customer with the given phone, made it the current order of that customer's conversation
  in state \<open>WAITING_CONFIRMATION\<close>, and queued its confirmation; the state stays well formed.\<close>

theorem ingestOrder_creates:
  assumes "world_ok E w" and "ingestOrder E d w = (Inr (i, v), w')"
  shows "world_ok E w' \<and>
    (\<exists>p r c. p \<in> set (products w) \<and> product_merchantId p = fo_merchantId d \<and> product_id p = fo_productId d \<and>
       orders w' = orders w @ [r] \<and> order_id r = i \<and> order_merchantId r = fo_merchantId d \<and>
       order_productId r = product_id p \<and> order_status r = PENDING \<and> order_quantity r = fo_quantity d \<and>
       order_totalAmount r = product_price p * of_int (fo_quantity d) + order_deliveryCost r \<and>
       order_deliveryCost r = fo_delivery_cost E d w \<and>
       c \<in> set (customers w') \<and> customer_id c = order_customerId r \<and> customer_phone c = fo_customerPhone d \<and>
       (\<exists>x \<in> set (conversations w'). conv_id x = v \<and> conv_merchantId x = fo_merchantId d \<and>
          conv_customerId x = customer_id c \<and> conv_currentOrderId x = Some i \<and> conv_state x = ST_WAITING_CONFIRMATION) \<and>
       i \<in> set (orderJobs w'))"
proof -
  obtain p where p: "find_first (\<lambda>p. product_id p = fo_productId d \<and> product_merchantId p = fo_merchantId d)
    (products w) = Some p"
    using assms(2) by (auto simp: ingestOrder_def split: option.splits)
  from p have p': "p \<in> set (products w)" "product_merchantId p = fo_merchantId d" "product_id p = fo_productId d"
    by (auto dest: find_first_SomeD)
  obtain c C n where F: "world_ok E (w\<lparr>customers := C, nextId := n\<rparr>)" "c \<in> set C"
    "customer_phone c = fo_customerPhone d"
    "ingestOrder E d w =
      (case create_order E (fo_order_input E d p c w) (w\<lparr>customers := C, nextId := n\<rparr>) of
         Inl e \<Rightarrow> (Inl (if e = P2002 then duplicate_error (fo_platform_id E d) else e), w\<lparr>customers := C, nextId := n\<rparr>)
       | Inr (r, w2) \<Rightarrow> attach_order E r w2)"
    by (rule ingestOrder_steps [OF assms(1) p]) blast
  obtain r w2 where r: "create_order E (fo_order_input E d p c w) (w\<lparr>customers := C, nextId := n\<rparr>) = Inr (r, w2)"
    "attach_order E r w2 = (Inr (i, v), w')"
    using assms(2) F(4) by (auto split: sum.splits)
  have r': "r = order_of_input (cuid E n) (clock E) (fo_order_input E d p c w)"
    "w2 = w\<lparr>customers := C, orders := orders w @ [r], nextId := Suc n\<rparr>"
    using r(1) by (simp_all add: create_order_Inr)
  have "world_ok E w2" using world_ok_create_order [OF F(1) r(1)] .
  moreover have "order_id r = cuid E n" "n < nextId w2" "orders w2 = orders w @ [r]" "customers w2 = C"
    using r' by simp_all
  ultimately have
    "world_ok E w' \<and> orders w' = orders w @ [r] \<and> customers w' = C \<and> i = order_id r \<and>
     i \<in> set (orderJobs w') \<and> (\<exists>x \<in> set (conversations w'). conv_id x = v \<and> conv_merchantId x = order_merchantId r \<and>
       conv_customerId x = order_customerId r \<and> conv_currentOrderId x = Some i \<and> conv_state x = ST_WAITING_CONFIRMATION)"
    using attach_order_Inr [OF _ _ _ r(2), where k = n] by metis
  moreover have "order_merchantId r = fo_merchantId d" "order_productId r = product_id p" "order_status r = PENDING"
    "order_quantity r = fo_quantity d" "order_deliveryCost r = fo_delivery_cost E d w"
    "order_totalAmount r = product_price p * of_int (fo_quantity d) + order_deliveryCost r"
    "order_customerId r = customer_id c"
    by (simp_all add: r'(1) fo_order_input_def)
  ultimately show ?thesis using p' F(2,3)
    by (intro conjI exI [of _ p] exI [of _ r] exI [of _ c]) auto
qed

definition sample_fake_order :: FakeOrderInput where
  "sample_fake_order = \<lparr>fo_merchantId = ''m1'', fo_customerPhone = ''213559'', fo_customerName = Some ''Nour'',
     fo_productId = ''p2'', fo_quantity = 2, fo_wilaya = ''Alger'', fo_commune = None, fo_address = ''1 rue X'',
     fo_platformOrderId = Some ''shop-7''\<rparr>"

theorem ingestOrder_creates_witness:
  "\<exists>i v w'. ingestOrder sample_env sample_fake_order sample_world = (Inr (i, v), w') \<and>
     world_ok sample_env w' \<and> map order_totalAmount (orders w') = [500, 500, 1000] \<and> length (customers w') = 4"
proof -
  obtain res w' where run: "ingestOrder sample_env sample_fake_order sample_world = (res, w')" by fastforce
  have "\<not> isl (fst (ingestOrder sample_env sample_fake_order sample_world))" by code_simp
  then obtain iv where "res = Inr iv" using run not_isl_Inr by fastforce
  then have run': "ingestOrder sample_env sample_fake_order sample_world = (Inr (fst iv, snd iv), w')"
    using run by simp
  have "world_ok sample_env w'" using ingestOrder_creates [OF sample_ok run'] by blast
  moreover have "map order_totalAmount (orders (snd (ingestOrder sample_env sample_fake_order sample_world))) = [500, 500, 1000]"
    by code_simp
  moreover have "length (customers (snd (ingestOrder sample_env sample_fake_order sample_world))) = 4"
    by code_simp
  ultimately show ?thesis using run' by auto
qed

text \<open>An order whose platform id the merchant already has is refused with status 409; no order is added,
  no conversation changes and nothing is queued.\<close>

theorem ingestOrder_duplicate:
  assumes "world_ok E w" and "p \<in> set (products w)" "product_id p = fo_productId d" "product_merchantId p = fo_merchantId d"
    and "r \<in> set (orders w)" "order_merchantId r = fo_merchantId d" "order_platformOrderId r = fo_platform_id E d"
    and "int4_ok (fo_quantity d)"
  shows "\<exists>w'. ingestOrder E d w = (Inl (duplicate_error (fo_platform_id E d)), w') \<and> orders w' = orders w \<and>
    conversations w' = conversations w \<and> orderJobs w' = orderJobs w \<and> world_ok E w'"
proof -
  obtain q where q: "find_first (\<lambda>p. product_id p = fo_productId d \<and> product_merchantId p = fo_merchantId d)
    (products w) = Some q"
    using find_first_exists [OF assms(2), of "\<lambda>p. product_id p = fo_productId d \<and> product_merchantId p = fo_merchantId d"]
      assms(3,4) by blast
  obtain c C n where F: "world_ok E (w\<lparr>customers := C, nextId := n\<rparr>)"
    "ingestOrder E d w =
      (case create_order E (fo_order_input E d q c w) (w\<lparr>customers := C, nextId := n\<rparr>) of
         Inl e \<Rightarrow> (Inl (if e = P2002 then duplicate_error (fo_platform_id E d) else e), w\<lparr>customers := C, nextId := n\<rparr>)
       | Inr (r, w2) \<Rightarrow> attach_order E r w2)"
    by (rule ingestOrder_steps [OF assms(1) q]) blast
  have "create_order E (fo_order_input E d q c w) (w\<lparr>customers := C, nextId := n\<rparr>) = Inl P2002"
    using assms(5-8) by (intro create_order_duplicate [of _ r]) (simp_all add: fo_order_input_def)
  then show ?thesis using F by simp
qed

theorem ingestOrder_duplicate_witness:
  "\<exists>w'. ingestOrder sample_env (sample_fake_order\<lparr>fo_platformOrderId := Some ''o1''\<rparr>) sample_world =
     (Inl (duplicate_error ''o1''), w') \<and> orders w' = orders sample_world"
proof -
  let ?p = "sample_product ''p2'' ''m1'' ''shoe'' 300 2" and ?r = "sample_order ''o1'' ''m1'' ''c1'' ''p1'' PENDING 5"
  let ?d = "sample_fake_order\<lparr>fo_platformOrderId := Some ''o1''\<rparr>"
  have "?p \<in> set (products sample_world)" "product_id ?p = fo_productId ?d" "product_merchantId ?p = fo_merchantId ?d"
    "?r \<in> set (orders sample_world)" "order_merchantId ?r = fo_merchantId ?d"
    "order_platformOrderId ?r = fo_platform_id sample_env ?d" "int4_ok (fo_quantity ?d)"
    by (simp_all add: sample_world_def sample_product_def sample_order_def sample_fake_order_def fo_platform_id_def int4_ok_def)
  from ingestOrder_duplicate [OF sample_ok this] show ?thesis
    by (auto simp: fo_platform_id_def)
qed

text \<open>C17. A customer whose only conversation is finished or cancelled cannot be served: the order is stored,
  then attaching it fails with \<open>P2002\<close>, because a second conversation of the same customer violates the
  unique index, and its confirmation is never queued.\<close>

theorem ingestOrder_closed_conversation:
  assumes "world_ok E w" and "p \<in> set (products w)" "product_id p = fo_productId d" "product_merchantId p = fo_merchantId d"
    and "\<forall>r \<in> set (orders w). \<not> (order_merchantId r = fo_merchantId d \<and> order_platformOrderId r = fo_platform_id E d)"
    and "int4_ok (fo_quantity d)"
    and "c \<in> set (customers w)" "customer_merchantId c = fo_merchantId d" "customer_phone c = fo_customerPhone d"
    and "v \<in> set (conversations w)" "conv_merchantId v = fo_merchantId d" "conv_customerId v = customer_id c"
    and "conv_state v = ST_FINISHED \<or> conv_state v = ST_CANCELLED"
  shows "\<exists>r w'. ingestOrder E d w = (Inl P2002, w') \<and> orders w' = orders w @ [r] \<and>
    order_platformOrderId r = fo_platform_id E d \<and> conversations w' = conversations w \<and> orderJobs w' = orderJobs w"
proof -
  obtain q where q: "find_first (\<lambda>p. product_id p = fo_productId d \<and> product_merchantId p = fo_merchantId d)
    (products w) = Some q"
    using find_first_exists [OF assms(2), of "\<lambda>p. product_id p = fo_productId d \<and> product_merchantId p = fo_merchantId d"]
      assms(3,4) by blast
  have uniq: "distinct (map (\<lambda>r. (conv_merchantId r, conv_customerId r)) (conversations w))"
    "distinct (map (\<lambda>r. (customer_merchantId r, customer_phone r)) (customers w))"
    using assms(1) by (simp_all add: world_ok_def schema_ok_def unique_by_def)
  obtain x C n where F: "world_ok E (w\<lparr>customers := C, nextId := n\<rparr>)" "x \<in> set C"
    "upsert_customer E (fo_merchantId d) (fo_customerPhone d) (fo_name_update d) (fo_customerName d) None w =
       Inr (x, w\<lparr>customers := C, nextId := n\<rparr>)"
    "ingestOrder E d w =
      (case create_order E (fo_order_input E d q x w) (w\<lparr>customers := C, nextId := n\<rparr>) of
         Inl e \<Rightarrow> (Inl (if e = P2002 then duplicate_error (fo_platform_id E d) else e), w\<lparr>customers := C, nextId := n\<rparr>)
       | Inr (r, w2) \<Rightarrow> attach_order E r w2)"
    by (rule ingestOrder_steps [OF assms(1) q]) blast
  have "find_first (\<lambda>c. customer_merchantId c = fo_merchantId d \<and> customer_phone c = fo_customerPhone d) (customers w) = Some c"
    using uniq(2) assms(7-9) by (intro find_first_unique [where k = "\<lambda>r. (customer_merchantId r, customer_phone r)"]) auto
  then have "x = fo_name_update d c"
    using F(3) by (simp add: upsert_customer_def update_in_def)
  then have x: "customer_id x = customer_id c" by simp
  let ?d = "fo_order_input E d q x w" and ?w1 = "w\<lparr>customers := C, nextId := n\<rparr>"
  have "q \<in> set (products w)" using q by (auto dest: find_first_SomeD)
  then obtain r w2 where r: "create_order E ?d ?w1 = Inr (r, w2)"
    using assms(5,6) F(2) by (auto simp: create_order_Inr fo_order_input_def)
  then have r': "w2 = ?w1\<lparr>orders := orders w @ [r], nextId := Suc n\<rparr>" "order_merchantId r = fo_merchantId d"
    "order_customerId r = customer_id c" "order_platformOrderId r = fo_platform_id E d"
    using x by (simp_all add: create_order_Inr fo_order_input_def)
  have "\<forall>y \<in> set (conversations w). conv_merchantId y = fo_merchantId d \<and> conv_customerId y = customer_id c \<longrightarrow> y = v"
    using distinct_map_eq [OF uniq(1) _ assms(10)] assms(11,12) by auto
  then have "find_first (\<lambda>y. conv_merchantId y = fo_merchantId d \<and> conv_customerId y = customer_id c \<and>
      conv_state y \<noteq> ST_FINISHED \<and> conv_state y \<noteq> ST_CANCELLED) (conversations w) = None"
    using assms(13) by (auto simp: find_first_None)
  moreover have "create_conversation E (fo_merchantId d) (customer_id c) [] None w2 = Inl P2002"
    using assms(10-12) r'(1) by (auto simp: create_conversation_def)
  ultimately have "attach_order E r w2 = (Inl P2002, w2)"
    using r' by (simp add: attach_order_def fo_conversation_def)
  then have "ingestOrder E d w = (Inl P2002, w2)" using F(4) r by simp
  then show ?thesis using r' by simp
qed

definition sample_finished :: world where
  "sample_finished = sample_world\<lparr>conversations :=
     [sample_conversation ''v1'' ''m1'' ''c1'' None False\<lparr>conv_state := ST_FINISHED\<rparr>]\<rparr>"

lemma sample_finished_ok: "world_ok sample_env sample_finished"
proof -
  have "schema_ok sample_finished"
    by (simp add: schema_ok_def unique_by_def sample_defs sample_finished_def)
  moreover have "fresh_ids sample_env sample_finished"
    by (simp add: fresh_ids_def sample_defs sample_finished_def)
  ultimately show ?thesis by (simp add: world_ok_def inj_sample_cuid)
qed

theorem ingestOrder_closed_conversation_witness:
  "\<exists>r w'. ingestOrder sample_env (sample_fake_order\<lparr>fo_customerPhone := ''213550''\<rparr>) sample_finished = (Inl P2002, w') \<and>
     orders w' = orders sample_finished @ [r] \<and> orderJobs w' = []"
proof -
  let ?p = "sample_product ''p2'' ''m1'' ''shoe'' 300 2" and ?c = "sample_customer ''c1'' ''m1'' ''213550''"
  let ?v = "sample_conversation ''v1'' ''m1'' ''c1'' None False\<lparr>conv_state := ST_FINISHED\<rparr>"
  let ?d = "sample_fake_order\<lparr>fo_customerPhone := ''213550''\<rparr>"
  have "?p \<in> set (products sample_finished)" "product_id ?p = fo_productId ?d" "product_merchantId ?p = fo_merchantId ?d"
    "\<forall>r \<in> set (orders sample_finished). \<not> (order_merchantId r = fo_merchantId ?d \<and>
       order_platformOrderId r = fo_platform_id sample_env ?d)"
    "int4_ok (fo_quantity ?d)" "?c \<in> set (customers sample_finished)" "customer_merchantId ?c = fo_merchantId ?d"
    "customer_phone ?c = fo_customerPhone ?d" "?v \<in> set (conversations sample_finished)"
    "conv_merchantId ?v = fo_merchantId ?d" "conv_customerId ?v = customer_id ?c"
    "conv_state ?v = ST_FINISHED \<or> conv_state ?v = ST_CANCELLED"
    by (simp_all add: sample_finished_def sample_world_def sample_product_def sample_order_def sample_customer_def
        sample_conversation_def sample_fake_order_def fo_platform_id_def int4_ok_def)
  from ingestOrder_closed_conversation [OF sample_finished_ok this] show ?thesis
    by (auto simp: sample_finished_def sample_world_def)
qed

section \<open>The confirmation message\<close>

lemma str_includes_here [simp]: "str_includes s (s @ r)" "str_includes s s"
  by (simp_all add: str_includes_def sublist_appendI [of _ "[]", simplified])

lemma str_includes_amount [simp]: "str_includes (a @ '' DZD'') (a @ CHR '' '' # CHR ''D'' # CHR ''Z'' # CHR ''D'' # r)"
  using str_includes_here(1) [of "a @ '' DZD''" r] by simp

lemma str_includes_Cons: "str_includes s (c # r) \<longleftrightarrow> prefix s (c # r) \<or> str_includes s r"
  by (simp add: str_includes_def sublist_Cons_right)

lemma str_includes_append [simp]: "str_includes s r \<Longrightarrow> str_includes s (u @ r)"
  by (auto simp: str_includes_def sublist_append)

definition stated :: "string \<Rightarrow> string list \<Rightarrow> bool" where
  "stated s texts = list_ex (str_includes s) texts"

text \<open>In every language the confirmation is three messages, and between them they state the product, the
  quantity, the total with its currency, the commune and the wilaya as they are in the order.\<close>

theorem confirmation_states_order:
  "let texts = buildOrderConfirmationText E (template_input r c) language in
    length texts = 3 \<and> stated (order_productName r) texts \<and>
    stated (num_text E (of_int (order_quantity r))) texts \<and>
    stated (num_text E (order_totalAmount r) @ '' DZD'') texts \<and>
    stated (order_commune r) texts \<and> stated (order_wilaya r) texts"
  by (simp add: buildOrderConfirmationText_def template_input_def Let_def stated_def
      str_includes_Cons)

text \<open>The stored and sent texts of a confirmation.\<close>

lemma send_confirmation_facts:
  "\<exists>M L n. send_confirmation E r c texts ids w = w\<lparr>messages := M, owLog := L\<rparr> \<and>
     same_contents M (messages w) \<and>
     filter (\<lambda>m. msg_id m \<notin> set ids) M = filter (\<lambda>m. msg_id m \<notin> set ids) (messages w) \<and>
     n \<le> length texts \<and>
     List.map_filter sent_text L = sent_texts w @ map (\<lambda>t. (addSuffix (customer_phone c), t)) (take n texts)"
proof -
  have "send_confirmation E r c texts ids w = w \<or>
      (\<exists>s. send_confirmation E r c texts ids w = transmit E s (customer_phone c) texts ids w)"
    by (auto simp: send_confirmation_def split: option.splits)
  then show ?thesis using transmit_facts no_transmission by metis
qed

text \<open>The order job stores the confirmation of an order in the conversation of its customer, in order and
  completely, whatever the gateway does; what it sends is a prefix of it, to the phone of that customer,
  and the other messages stay as they were.\<close>

theorem orderWorker_confirms:
  assumes "world_ok E w" and "r \<in> set (orders w)" and "c \<in> set (customers w)" "customer_id c = order_customerId r"
    and "v \<in> set (conversations w)" "conv_merchantId v = order_merchantId r" "conv_customerId v = order_customerId r"
  defines "texts \<equiv> buildOrderConfirmationText E (template_input r c) (coalesce (customer_language c) (conv_language v))"
  shows "\<exists>w' rows n. orderWorker E (order_id r) w = (Inr (), w') \<and>
    same_contents (messages w') (messages w @ rows) \<and> map msg_content rows = texts \<and>
    (\<forall>m \<in> set rows. msg_conversationId m = conv_id v \<and> msg_direction m = OUT \<and> msg_sender m = AI) \<and>
    n \<le> length texts \<and> sent_texts w' = sent_texts w @ map (\<lambda>t. (addSuffix (customer_phone c), t)) (take n texts)"
proof -
  have uniq: "distinct (map order_id (orders w))" "distinct (map customer_id (customers w))"
    "distinct (map (\<lambda>r. (conv_merchantId r, conv_customerId r)) (conversations w))"
    using assms(1) by (simp_all add: world_ok_def schema_ok_def unique_by_def)
  have r: "find_first (\<lambda>q. order_id q = order_id r) (orders w) = Some r"
    using uniq(1) assms(2) by (intro find_first_unique [where k = order_id]) auto
  have c: "customer_of_order w r = Some c"
    unfolding customer_of_order_def using uniq(2) assms(3,4) by (intro find_first_unique [where k = customer_id]) auto
  have v: "find_first (\<lambda>x. conv_merchantId x = order_merchantId r \<and> conv_customerId x = order_customerId r) (conversations w) = Some v"
    using uniq(3) assms(5-7) by (intro find_first_unique [where k = "\<lambda>r. (conv_merchantId r, conv_customerId r)"]) auto
  let ?rows = "reply_rows E (conv_id v) (nextId w) texts"
  define w1 where "w1 = w\<lparr>messages := messages w @ ?rows, nextId := nextId w + length texts\<rparr>"
  have p: "persist_replies E (conv_id v) texts w = (Inr (map msg_id ?rows), w1)"
    unfolding w1_def using assms(5) by (intro persist_replies_ok) blast
  let ?f = "\<lambda>x. x\<lparr>conv_lastMessageAt := Some (clock E)\<rparr>"
  define w2 where "w2 = w1\<lparr>conversations := update_where (\<lambda>x. conv_id x = conv_id v) ?f (conversations w)\<rparr>"
  obtain y where "update_conversation (\<lambda>x. conv_id x = conv_id v) ?f w1 = Inr (y, w2)"
    using find_first_exists [of v "conversations w" "\<lambda>x. conv_id x = conv_id v"] assms(5)
    by (auto simp: update_in_def w1_def w2_def put_conversations_def)
  then have run: "orderWorker E (order_id r) w = (Inr (), send_confirmation E r c texts (map msg_id ?rows) w2)"
    using r c v p by (simp add: orderWorker_def sendOrderConfirmation_def texts_def Let_def)
  obtain M L n where "send_confirmation E r c texts (map msg_id ?rows) w2 = w2\<lparr>messages := M, owLog := L\<rparr>"
    "same_contents M (messages w2)" "n \<le> length texts"
    "List.map_filter sent_text L = sent_texts w2 @ map (\<lambda>t. (addSuffix (customer_phone c), t)) (take n texts)"
    using send_confirmation_facts by blast
  then show ?thesis
    using run reply_rows_facts [of E "conv_id v" "nextId w" texts]
    by (intro exI [of _ "send_confirmation E r c texts (map msg_id ?rows) w2"] exI [of _ ?rows] exI [of _ n])
      (simp add: sent_texts_def w1_def w2_def)
qed

theorem orderWorker_confirms_witness:
  "\<exists>w'. orderWorker sample_env ''o1'' sample_world = (Inr (), w') \<and> length (sent_texts w') = 3 \<and> length (messages w') = 3"
proof -
  let ?r = "sample_order ''o1'' ''m1'' ''c1'' ''p1'' PENDING 5" and ?c = "sample_customer ''c1'' ''m1'' ''213550''"
  let ?v = "sample_conversation ''v1'' ''m1'' ''c1'' (Some ''o1'') False"
  have "?r \<in> set (orders sample_world)" "?c \<in> set (customers sample_world)" "customer_id ?c = order_customerId ?r"
    "?v \<in> set (conversations sample_world)" "conv_merchantId ?v = order_merchantId ?r" "conv_customerId ?v = order_customerId ?r"
    by (simp_all add: sample_world_def sample_order_def sample_customer_def sample_conversation_def)
  from orderWorker_confirms [OF sample_ok this] obtain w' where "orderWorker sample_env (order_id ?r) sample_world = (Inr (), w')"
    by blast
  then have "orderWorker sample_env ''o1'' sample_world = (Inr (), w')" by (simp add: sample_order_def)
  moreover have "length (sent_texts (snd (orderWorker sample_env ''o1'' sample_world))) = 3" by code_simp
  moreover have "length (messages (snd (orderWorker sample_env ''o1'' sample_world))) = 3" by code_simp
  ultimately show ?thesis by simp
qed

end
