(* ===== verification/Decimal.thy ===== *)
theory Decimal
  imports Json
begin

text \<open>
  Decimal text of a number, as \<open>String(n)\<close> writes it and \<open>parseInt\<close> and \<open>Number\<close> read it, and the facts about splitting a text that its readers share.
\<close>

fun nat_text :: "nat \<Rightarrow> string" where
  "nat_text n = (if n < 10 then [char_of (48 + n)] else nat_text (n div 10) @ [char_of (48 + n mod 10)])"

declare nat_text.simps [simp del]

definition int_text :: "int \<Rightarrow> string" where
  "int_text i = (if i < 0 then CHR ''-'' # nat_text (nat (- i)) else nat_text (nat i))"

lemma of_char_digit: "n < 10 \<Longrightarrow> (of_char (char_of (48 + n) :: char) :: nat) = 48 + n"
  by (simp add: of_char_of)

lemma nat_text_digits: "list_all is_digit (nat_text n) \<and> nat_text n \<noteq> []"
proof (induction n rule: nat_text.induct)
  case (1 n)
  have d: "is_digit (char_of (48 + k))" if "k < 10" for k :: nat
    using that by (simp add: is_digit_def of_char_digit del: of_char_of)
  show ?case
    using "1.IH" d [of n] d [of "n mod 10"] by (cases "n < 10") (simp_all add: nat_text.simps [of n])
qed

lemma nat_of_digits_snoc: "nat_of_digits (ds @ [c]) = 10 * nat_of_digits ds + digit_val c"
  by (simp add: nat_of_digits_def)

lemma nat_of_digits_text: "nat_of_digits (nat_text n) = n"
proof (induction n rule: nat_text.induct)
  case (1 n)
  have v: "digit_val (char_of (48 + k)) = k" if "k < 10" for k :: nat
    using that by (simp add: digit_val_def of_char_digit del: of_char_of)
  show ?case
  proof (cases "n < 10")
    case True
    then show ?thesis by (simp add: nat_text.simps [of n] nat_of_digits_def v)
  next
    case False
    then show ?thesis
      using "1.IH" v [of "n mod 10"] by (simp add: nat_text.simps [of n] nat_of_digits_snoc)
  qed
qed

lemma digits_all: "list_all is_digit s \<Longrightarrow> digits s = (s, [])"
  by (induction s) auto

lemma split_on_once: "c \<notin> set s \<Longrightarrow> split_on c (s @ c # t) = s # split_on c t" for s :: string
  by (induction s) auto

lemma split_on_none: "c \<notin> set s \<Longrightarrow> split_on c s = [s]" for s :: string
  by (induction s) auto

section \<open>Reading a number\<close>

text \<open>\<open>parseInt(s, 10)\<close>, \<open>None\<close> for \<open>NaN\<close>.\<close>

definition parseInt :: "string \<Rightarrow> int option" where
  "parseInt s =
     (let t = js_trim_start s;
          (neg, u) = (case t of c # r \<Rightarrow> (if c = CHR ''-'' then (True, r) else if c = CHR ''+'' then (False, r) else (False, t))
                      | [] \<Rightarrow> (False, []));
          ds = fst (digits u)
      in if ds = [] then None else Some ((if neg then - 1 else 1) * int (nat_of_digits ds)))"

text \<open>\<open>Number(s)\<close>, \<open>None\<close> for \<open>NaN\<close> and the infinities.\<close>

definition radix_number :: "nat \<Rightarrow> string \<Rightarrow> rat option" where
  "radix_number b s =
     (if s \<noteq> [] \<and> list_all (\<lambda>c. case hex_val c of Some v \<Rightarrow> v < b | None \<Rightarrow> False) s
      then Some (of_nat (foldl (\<lambda>n c. b * n + the (hex_val c)) 0 s)) else None)"

definition decimal_number :: "string \<Rightarrow> rat option" where
  "decimal_number s =
     (let (ds, r) = digits s;
          (fs, r1) = (case r of c # r' \<Rightarrow> (if c = CHR ''.'' then digits r' else ([], r)) | [] \<Rightarrow> ([], []));
          m = of_nat (nat_of_digits ds) + of_nat (nat_of_digits fs) / 10 ^ length fs
      in if ds = [] \<and> fs = [] then None
         else (case r1 of
                 [] \<Rightarrow> Some m
               | c # r2 \<Rightarrow>
                   (if c \<noteq> CHR ''e'' \<and> c \<noteq> CHR ''E'' then None
                    else
                      (let (neg, u) = (case r2 of d # r3 \<Rightarrow> (if d = CHR ''-'' then (True, r3) else if d = CHR ''+'' then (False, r3) else (False, r2))
                                       | [] \<Rightarrow> (False, []))
                       in if u = [] \<or> \<not> list_all is_digit u then None
                          else Some (if neg then m / 10 ^ nat_of_digits u else m * 10 ^ nat_of_digits u)))))"

definition number_of_text :: "string \<Rightarrow> rat option" where
  "number_of_text s =
     (case js_trim s of
        [] \<Rightarrow> Some 0
      | c # r \<Rightarrow>
          (if c = CHR ''-'' then map_option uminus (decimal_number r)
           else if c = CHR ''+'' then decimal_number r
           else if c = CHR ''0'' then
             (case r of
                d # u \<Rightarrow> (if d = CHR ''x'' \<or> d = CHR ''X'' then radix_number 16 u
                          else if d = CHR ''o'' \<or> d = CHR ''O'' then radix_number 8 u
                          else if d = CHR ''b'' \<or> d = CHR ''B'' then radix_number 2 u
                          else decimal_number (c # r))
              | [] \<Rightarrow> Some 0)
           else decimal_number (c # r)))"

lemma trim_digits:
  assumes "list_all is_digit s"
  shows "js_trim_start s = s"
proof (cases s)
  case (Cons c r)
  have "c \<noteq> CHR 0x09 \<and> c \<noteq> CHR 0x0A \<and> c \<noteq> CHR 0x0B \<and> c \<noteq> CHR 0x0C \<and> c \<noteq> CHR 0x0D \<and> c \<noteq> CHR 0x20 \<and>
      c \<noteq> CHR 0xC2 \<and> c \<noteq> CHR 0xE1 \<and> c \<noteq> CHR 0xE2 \<and> c \<noteq> CHR 0xE3 \<and> c \<noteq> CHR 0xEF"
    using assms Cons by (auto simp: is_digit_def)
  then have "strip_any js_whitespace (c # r) = None"
    by (simp add: js_whitespace_def eq_commute [of _ c])
  then show ?thesis by (simp add: js_trim_start_def Cons)
qed (simp add: js_trim_start_def)

lemma parseInt_int_text:
  assumes "0 \<le> i"
  shows "parseInt (int_text i) = Some i"
proof -
  obtain c r where s: "nat_text (nat i) = c # r" using nat_text_digits by (metis neq_Nil_conv)
  then have d: "list_all is_digit (c # r)" using nat_text_digits by metis
  then have "c \<noteq> CHR ''-'' \<and> c \<noteq> CHR ''+''" by (auto simp: is_digit_def)
  then show ?thesis
    using d assms nat_of_digits_text [of "nat i"]
    by (simp add: parseInt_def int_text_def s trim_digits [OF d] digits_all Let_def)
qed

end
