(* ===== verification/Products.thy ===== *)
theory Products
  imports Orders Decimal
begin

text \<open>
  \<open>back/src/modules/products\<close>: the catalogue listings, switching products on and off for the assistant, and
  the product a Shopify notification describes.
\<close>

section \<open>Listings\<close>

record GetProductsParams =
  gpp_merchantId :: string
  gpp_cursor :: "string option"
  gpp_limit :: "rat option"
  gpp_search :: "string option"
  gpp_stockStatus :: "string option"

definition product_base :: "string \<Rightarrow> string option \<Rightarrow> product_row \<Rightarrow> bool" where
  "product_base merchantId stockStatus p \<longleftrightarrow>
     product_merchantId p = merchantId \<and>
     (case given stockStatus of None \<Rightarrow> True | Some s \<Rightarrow> product_stockStatus p \<in> set (split_on (CHR '','') s))"

definition product_search :: "env \<Rightarrow> string option \<Rightarrow> product_row \<Rightarrow> bool" where
  "product_search E search p =
     (case given search of
        None \<Rightarrow> True
      | Some s \<Rightarrow> icontains E (product_name p) s \<or> icontains E (product_description p) s)"

definition shop_domain :: "string \<Rightarrow> world \<Rightarrow> string option" where
  "shop_domain merchantId w =
     map_option shopify_shopDomain
       (find_first (\<lambda>x. list_ex (\<lambda>s. store_id s = shopify_storeConnectionId x \<and> store_merchantId s = merchantId)
                          (storeConnections w)) (shopifyConnections w))"

definition getProducts :: "env \<Rightarrow> GetProductsParams \<Rightarrow> world \<Rightarrow> exn + (product_row \<times> string option) page" where
  "getProducts E params w =
     map_sum id (map_page (\<lambda>p. (p, shop_domain (gpp_merchantId params) w)))
       (paginate E ''createdAt'' product_createdAt product_id
          (product_base (gpp_merchantId params) (gpp_stockStatus params)) (product_search E (gpp_search params))
          (gpp_cursor params) (gpp_limit params) (products w))"

definition listProductIds :: "env \<Rightarrow> string \<Rightarrow> string option \<Rightarrow> string option \<Rightarrow> world \<Rightarrow> string list" where
  "listProductIds E merchantId search stockStatus w =
     map product_id (newest_first E product_createdAt product_id
       (filter (\<lambda>p. product_base merchantId stockStatus p \<and> product_search E search p) (products w)))"

definition bulkToggleAgent :: "string \<Rightarrow> string list \<Rightarrow> bool \<Rightarrow> world \<Rightarrow> nat \<times> world" where
  "bulkToggleAgent merchantId productIds agentEnabled w =
     update_many products put_products
       (\<lambda>p. product_merchantId p = merchantId \<and> product_id p \<in> set productIds)
       (\<lambda>p. p\<lparr>product_agentEnabled := agentEnabled\<rparr>) w"

section \<open>A product from Shopify\<close>

definition first_variant :: "jval \<Rightarrow> jval option" where
  "first_variant p = (case json_field ''variants'' p of Some (JArr (v # _)) \<Rightarrow> Some v | _ \<Rightarrow> None)"

definition variant_field :: "string \<Rightarrow> jval \<Rightarrow> jval option" where
  "variant_field k p =
     (case first_variant p of
        None \<Rightarrow> None
      | Some v \<Rightarrow> (case json_field k v of Some JNull \<Rightarrow> None | x \<Rightarrow> x))"

text \<open>\<open>parseFloat\<close>: the longest decimal literal at the start, \<open>None\<close> for \<open>NaN\<close>.\<close>

definition parseFloat :: "string \<Rightarrow> rat option" where
  "parseFloat s =
     (let t = js_trim_start s;
          (neg, u) = (case t of c # r \<Rightarrow> (if c = CHR ''-'' then (True, r) else if c = CHR ''+'' then (False, r) else (False, t))
                      | [] \<Rightarrow> (False, []));
          (ds, r) = digits u;
          (fs, r') = (case r of c # q \<Rightarrow> (if c = CHR ''.'' then digits q else ([], r)) | [] \<Rightarrow> ([], []));
          mant = of_nat (nat_of_digits ds) + of_nat (nat_of_digits fs) / 10 ^ length fs;
          e = (case exp_part r' of Some (x, _) \<Rightarrow> x | None \<Rightarrow> 1)
      in if ds = [] \<and> fs = [] then None else Some ((if neg then - mant else mant) * e))"

definition shopify_price :: "jval \<Rightarrow> rat option" where
  "shopify_price p =
     (case variant_field ''price'' p of
        None \<Rightarrow> Some 0
      | Some (JNum x) \<Rightarrow> Some x
      | Some (JStr s) \<Rightarrow> parseFloat s
      | Some _ \<Rightarrow> None)"

definition shopify_stockStatus :: "jval \<Rightarrow> string" where
  "shopify_stockStatus p =
     (case variant_field ''inventory_quantity'' p of
        Some (JNum x) \<Rightarrow> (if 0 < x then ''in_stock'' else ''out_of_stock'')
      | _ \<Rightarrow> ''out_of_stock'')"

definition id_text :: "env \<Rightarrow> jval option \<Rightarrow> string" where
  "id_text E v =
     (case v of
        None \<Rightarrow> ''undefined''
      | Some (JStr s) \<Rightarrow> s
      | Some (JNum x) \<Rightarrow> num_text E x
      | Some JNull \<Rightarrow> ''null''
      | Some (JBool b) \<Rightarrow> (if b then ''true'' else ''false'')
      | Some _ \<Rightarrow> ''[object Object]'')"

text \<open>
  The columns written for a product: what Shopify sends, with the price of the first variant.  A property
  that is missing leaves the column of an existing row alone; one of the wrong type is refused.  The images
  are not kept by the model.
\<close>

record product_fields =
  pf_platformProductId :: string
  pf_name :: "string option"
  pf_description :: string
  pf_price :: rat
  pf_variants :: "jval option"
  pf_stockStatus :: string
  pf_category :: "string option"

definition nullish_text :: "jval option \<Rightarrow> string option" where
  "nullish_text v = (case v of None \<Rightarrow> Some [] | Some JNull \<Rightarrow> Some [] | Some (JStr s) \<Rightarrow> Some s | Some _ \<Rightarrow> None)"

definition falsy_text :: "jval option \<Rightarrow> string option option" where
  "falsy_text v =
     (case v of
        None \<Rightarrow> Some None
      | Some x \<Rightarrow> (if \<not> truthy x then Some None else (case x of JStr s \<Rightarrow> Some (Some s) | _ \<Rightarrow> None)))"

definition product_fields_of :: "env \<Rightarrow> jval \<Rightarrow> product_fields option" where
  "product_fields_of E p =
     (case (shopify_price p, nullish_text (json_field ''body_html'' p), falsy_text (json_field ''product_type'' p)) of
        (Some price, Some body, Some category) \<Rightarrow>
          (let title = json_field ''title'' p; vs = json_field ''variants'' p
           in if (title \<noteq> None \<and> json_str ''title'' p = None) \<or> vs = Some JNull then None
              else Some \<lparr>pf_platformProductId = id_text E (json_field ''id'' p), pf_name = json_str ''title'' p,
                pf_description = body, pf_price = price, pf_variants = vs,
                pf_stockStatus = shopify_stockStatus p, pf_category = category\<rparr>)
      | _ \<Rightarrow> None)"

definition update_product_fields :: "product_fields \<Rightarrow> product_row \<Rightarrow> product_row" where
  "update_product_fields d p =
     p\<lparr>product_name := coalesce (pf_name d) (product_name p), product_description := pf_description d,
       product_price := pf_price d, product_variants := coalesce (pf_variants d) (product_variants p),
       product_stockStatus := pf_stockStatus d, product_category := pf_category d\<rparr>"

definition new_product :: "env \<Rightarrow> string \<Rightarrow> product_fields \<Rightarrow> string \<Rightarrow> jval \<Rightarrow> world \<Rightarrow> product_row" where
  "new_product E merchantId d name variants w =
     \<lparr>product_id = cuid E (nextId w), product_merchantId = merchantId,
      product_platformProductId = pf_platformProductId d, product_name = name,
      product_description = pf_description d, product_variants = variants, product_price = pf_price d,
      product_currency = ''DZD'', product_stockStatus = pf_stockStatus d, product_category = pf_category d,
      product_agentEnabled = True, product_createdAt = clock E\<rparr>"

definition same_product :: "string \<Rightarrow> string \<Rightarrow> product_row \<Rightarrow> bool" where
  "same_product merchantId i p \<longleftrightarrow> product_merchantId p = merchantId \<and> product_platformProductId p = i"

definition product_upsert :: "env \<Rightarrow> string \<Rightarrow> jval \<Rightarrow> world \<Rightarrow> exn + world" where
  "product_upsert E merchantId shopifyProduct w =
     (case product_fields_of E shopifyProduct of
        None \<Rightarrow> Inl validation_error
      | Some d \<Rightarrow>
          (if list_ex (same_product merchantId (pf_platformProductId d)) (products w)
           then Inr (w\<lparr>products := update_where (same_product merchantId (pf_platformProductId d))
                                     (update_product_fields d) (products w)\<rparr>)
           else
             (case (pf_name d, pf_variants d) of
                (Some name, Some variants) \<Rightarrow>
                  Inr (w\<lparr>products := products w @ [new_product E merchantId d name variants w],
                         nextId := Suc (nextId w)\<rparr>)
              | _ \<Rightarrow> Inl validation_error)))"

text \<open>Reading \<open>src\<close> of every image throws when the images are no list or one of them is null.\<close>

definition images_ok :: "jval \<Rightarrow> bool" where
  "images_ok v = (case v of JArr vs \<Rightarrow> JNull \<notin> set vs | _ \<Rightarrow> False)"

definition upsertSingleProduct :: "env \<Rightarrow> string \<Rightarrow> jval \<Rightarrow> world \<Rightarrow> exn + world" where
  "upsertSingleProduct E merchantId shopifyProduct w =
     (if shopifyProduct \<noteq> JNull \<and>
         (case json_field ''images'' shopifyProduct of None \<Rightarrow> True | Some v \<Rightarrow> v = JNull \<or> images_ok v)
      then product_upsert E merchantId shopifyProduct w
      else Inl (Error ''TypeError''))"

section \<open>Handlers\<close>

definition listProducts ::
  "env \<Rightarrow> string \<Rightarrow> string option \<Rightarrow> string option \<Rightarrow> string option \<Rightarrow> string option \<Rightarrow> world \<Rightarrow>
   exn + (product_row \<times> string option) page reply" where
  "listProducts E merchantId cursor limit search stockStatus w =
     map_sum id (Reply 200)
       (getProducts E \<lparr>gpp_merchantId = merchantId, gpp_cursor = cursor,
          gpp_limit = (case given limit of None \<Rightarrow> None | Some s \<Rightarrow> map_option of_int (parseInt s)),
          gpp_search = search, gpp_stockStatus = stockStatus\<rparr> w)"

definition getProductIds :: "env \<Rightarrow> string \<Rightarrow> string option \<Rightarrow> string option \<Rightarrow> world \<Rightarrow> string list reply" where
  "getProductIds E merchantId search stockStatus w = Reply 200 (listProductIds E merchantId search stockStatus w)"

definition patchBulkAgent :: "string \<Rightarrow> jval \<Rightarrow> world \<Rightarrow> nat reply \<times> world" where
  "patchBulkAgent merchantId body w =
     (case (nonempty_array (json_field ''productIds'' body), json_field ''agentEnabled'' body) of
        (Some vs, Some (JBool agentEnabled)) \<Rightarrow>
          (case all_strings vs of
             None \<Rightarrow> (or_500 (Inl validation_error), w)
           | Some productIds \<Rightarrow>
               (case bulkToggleAgent merchantId productIds agentEnabled w of (count, w') \<Rightarrow> (Reply 200 count, w')))
      | _ \<Rightarrow> (Refuse 400 ''productIds (array) and agentEnabled (boolean) are required'', w))"

section \<open>Properties\<close>

interpretation productList: keyset products product_createdAt product_id schema_ok
  by unfold_locales (simp add: schema_ok_def unique_by_def)

lemma product_pages_are_listing:
  assumes "schema_ok w" "cursor_codec E" "\<forall>p \<in> set (products w). date_codec E (product_createdAt p)"
    and "page_limit (gpp_limit params) = of_nat k" "0 < k" "gpp_search params = None"
  shows "map_sum id (map (product_id \<circ> fst))
      (follow (Suc (length (products w))) (\<lambda>c. getProducts E (params\<lparr>gpp_cursor := c\<rparr>) w) None) =
    Inr (listProductIds E (gpp_merchantId params) None (gpp_stockStatus params) w)"
proof -
  have search: "product_search E None = (\<lambda>_. True)" by (simp add: product_search_def given_def fun_eq_iff)
  have "follow (Suc (length (products w))) (\<lambda>c. paginate E ''createdAt'' product_createdAt product_id
      (product_base (gpp_merchantId params) (gpp_stockStatus params)) (\<lambda>_. True) c (gpp_limit params) (products w)) None =
    Inr (newest_first E product_createdAt product_id
      (filter (product_base (gpp_merchantId params) (gpp_stockStatus params)) (products w)))"
    using assms(1-5) by (intro productList.follow_all) simp_all
  then show ?thesis
    using assms(6) by (simp add: getProducts_def listProductIds_def search follow_map comp_def del: follow.simps)
qed

lemma list_ex_update_where: "(\<And>r. Q (f r) = Q r) \<Longrightarrow> list_ex Q (update_where P f rows) = list_ex Q rows"
  unfolding update_where_def by (induction rows) auto

lemma world_ok_product_upsert:
  assumes "world_ok E w" and "product_upsert E m p w = Inr w'"
  shows "world_ok E w'"
proof -
  obtain d where d: "product_fields_of E p = Some d"
    using assms(2) by (auto simp: product_upsert_def split: option.splits)
  let ?P = "same_product m (pf_platformProductId d)"
  show ?thesis
  proof (cases "list_ex ?P (products w)")
    case True
    then have "w' = w\<lparr>products := update_where ?P (update_product_fields d) (products w)\<rparr>"
      using assms(2) d by (simp add: product_upsert_def)
    then show ?thesis
      using assms(1) by (simp add: world_ok_update_products update_product_fields_def)
  next
    case False
    then obtain name vs where "w' = w\<lparr>products := products w @ [new_product E m d name vs w], nextId := Suc (nextId w)\<rparr>"
      using assms(2) d by (auto simp: product_upsert_def split: option.splits)
    moreover have "\<forall>q \<in> set (products w). \<not> (product_merchantId q = m \<and> product_platformProductId q = pf_platformProductId d)"
      using False by (simp add: list_ex_iff same_product_def)
    ultimately show ?thesis
      using assms(1) fresh_ids_later [of E w]
      by (auto simp: world_ok_def schema_ok_def unique_by_def fresh_ids_def image_iff new_product_def)
  qed
qed

text \<open>
  Upserting twice is upserting once: the second notification finds the row of the first.
\<close>

lemma product_upsert_again:
  assumes "product_upsert E m p w = Inr w'"
  shows "product_upsert E m p w' = Inr w'"
proof -
  obtain d where d: "product_fields_of E p = Some d"
    using assms by (auto simp: product_upsert_def split: option.splits)
  let ?P = "same_product m (pf_platformProductId d)"
  have keys: "same_product m i (update_product_fields d q) = same_product m i q" for i q
    by (simp add: same_product_def update_product_fields_def)
  have idem: "update_product_fields d (update_product_fields d q) = update_product_fields d q" for q
    by (cases "pf_name d"; cases "pf_variants d") (simp_all add: update_product_fields_def)
  show ?thesis
  proof (cases "list_ex ?P (products w)")
    case True
    then have w': "w' = w\<lparr>products := update_where ?P (update_product_fields d) (products w)\<rparr>"
      using assms d by (simp add: product_upsert_def)
    have "list_ex ?P (update_where ?P (update_product_fields d) (products w))"
      using True by (simp add: list_ex_update_where keys)
    moreover have "update_where ?P (update_product_fields d) (update_where ?P (update_product_fields d) (products w)) =
        update_where ?P (update_product_fields d) (products w)"
      by (simp add: update_where_def keys idem)
    ultimately show ?thesis using d by (simp add: product_upsert_def w')
  next
    case False
    then obtain name vs where w': "w' = w\<lparr>products := products w @ [new_product E m d name vs w], nextId := Suc (nextId w)\<rparr>"
        and nv: "pf_name d = Some name" "pf_variants d = Some vs"
      using assms d by (auto simp: product_upsert_def split: option.splits)
    then have new: "update_product_fields d (new_product E m d name vs w) = new_product E m d name vs w"
        "?P (new_product E m d name vs w)"
      by (simp_all add: update_product_fields_def new_product_def same_product_def)
    have "update_where ?P (update_product_fields d) (products w) = products w"
      using False by (intro update_where_none) (simp add: list_ex_iff)
    then show ?thesis
      using d new by (simp add: product_upsert_def w' update_where_def)
  qed
qed

lemma upsertSingleProduct_Inr:
  assumes "upsertSingleProduct E m p w = Inr w'"
  shows "product_upsert E m p w = Inr w' \<and> (product_upsert E m p w'' = Inr w3 \<longrightarrow> upsertSingleProduct E m p w'' = Inr w3)"
  using assms by (simp add: upsertSingleProduct_def split: if_splits)

lemma world_ok_upsertSingleProduct: "world_ok E w \<Longrightarrow> upsertSingleProduct E m p w = Inr w' \<Longrightarrow> world_ok E w'"
  using upsertSingleProduct_Inr world_ok_product_upsert by blast

lemma upsertSingleProduct_again: "upsertSingleProduct E m p w = Inr w' \<Longrightarrow> upsertSingleProduct E m p w' = Inr w'"
  using upsertSingleProduct_Inr product_upsert_again by blast

end
