(* ===== verification/Customers.thy ===== *)
theory Customers
  imports Orders
begin

text \<open>
  \<open>back/src/modules/customers\<close> and \<open>back/src/modules/escalations\<close>: the customer listing with its order counts,
  blocking customers, and the escalated conversations of a merchant.
\<close>

section \<open>Customers\<close>

record GetCustomersParams =
  gcp_merchantId :: string
  gcp_cursor :: "string option"
  gcp_limit :: "string option"
  gcp_search :: "string option"
  gcp_orderFilter :: "string option"

definition customer_search :: "env \<Rightarrow> string option \<Rightarrow> customer_row \<Rightarrow> bool" where
  "customer_search E search c =
     (case given search of
        None \<Rightarrow> True
      | Some s \<Rightarrow>
          (case customer_name c of None \<Rightarrow> False | Some n \<Rightarrow> icontains E n s) \<or> lcontains E (customer_phone c) s)"

text \<open>
  A single \<open>with_orders\<close> or \<open>without_orders\<close> puts \<open>_count\<close> into the filter of the relation \<open>orders\<close>, which
  Prisma refuses: the filter of a list relation is \<open>some\<close>, \<open>every\<close> or \<open>none\<close>.
\<close>

definition orderFilter_refused :: "string option \<Rightarrow> bool" where
  "orderFilter_refused orderFilter =
     (case given orderFilter of
        None \<Rightarrow> False
      | Some s \<Rightarrow> split_on (CHR '','') s \<in> {[''with_orders''], [''without_orders'']})"

text \<open>\<open>groupBy\<close> on the customer of an order, with the size of each group.\<close>

definition group_orders :: "(order_row \<Rightarrow> bool) \<Rightarrow> world \<Rightarrow> (string \<times> nat) list" where
  "group_orders P w =
     map (\<lambda>i. (i, count_where (\<lambda>r. P r \<and> order_customerId r = i) (orders w)))
       (remdups (map order_customerId (filter P (orders w))))"

record customer_view =
  cv_customer :: customer_row
  cv_orders :: nat
  cv_confirmedOrders :: nat
  cv_cancelledOrders :: nat

definition customer_views :: "string \<Rightarrow> world \<Rightarrow> customer_row list \<Rightarrow> customer_view list" where
  "customer_views merchantId w cs =
     (let ids = map customer_id cs;
          groups = (\<lambda>st. group_orders (\<lambda>r. order_merchantId r = merchantId \<and> order_customerId r \<in> set ids \<and>
                                             order_status r = st) w);
          confirmed = map_of (groups CONFIRMED); cancelled = map_of (groups CANCELLED)
      in map (\<lambda>c. \<lparr>cv_customer = c,
                   cv_orders = count_where (\<lambda>r. order_customerId r = customer_id c) (orders w),
                   cv_confirmedOrders = coalesce (confirmed (customer_id c)) 0,
                   cv_cancelledOrders = coalesce (cancelled (customer_id c)) 0\<rparr>) cs)"

definition customer_page :: "string \<Rightarrow> world \<Rightarrow> customer_row page \<Rightarrow> customer_view page" where
  "customer_page merchantId w p =
     \<lparr>page_data = customer_views merchantId w (page_data p), page_total = page_total p,
      hasNextPage = hasNextPage p, hasPrevPage = hasPrevPage p, nextCursor = nextCursor p, prevCursor = prevCursor p\<rparr>"

definition getCustomers :: "env \<Rightarrow> GetCustomersParams \<Rightarrow> world \<Rightarrow> exn + customer_view page" where
  "getCustomers E params w =
     (if orderFilter_refused (gcp_orderFilter params)
      then Inl (coalesce (cursor_error E ''createdAt'' (gcp_cursor params)) validation_error)
      else
        map_sum id (customer_page (gcp_merchantId params) w)
          (paginate E ''createdAt'' customer_createdAt customer_id
             (\<lambda>c. customer_merchantId c = gcp_merchantId params) (customer_search E (gcp_search params))
             (gcp_cursor params) (case gcp_limit params of None \<Rightarrow> None | Some s \<Rightarrow> js_Number s) (customers w)))"

definition listCustomerIds :: "env \<Rightarrow> string \<Rightarrow> string option \<Rightarrow> string option \<Rightarrow> world \<Rightarrow> exn + string list" where
  "listCustomerIds E merchantId search orderFilter w =
     (if orderFilter_refused orderFilter then Inl validation_error
      else Inr (map customer_id (newest_first E customer_createdAt customer_id
             (filter (\<lambda>c. customer_merchantId c = merchantId \<and> customer_search E search c) (customers w)))))"

definition bulkBlockCustomers :: "string \<Rightarrow> string list \<Rightarrow> bool \<Rightarrow> world \<Rightarrow> nat \<times> world" where
  "bulkBlockCustomers merchantId customerIds blocked w =
     update_many customers put_customers
       (\<lambda>c. customer_merchantId c = merchantId \<and> customer_id c \<in> set customerIds)
       (\<lambda>c. c\<lparr>customer_blocked := blocked\<rparr>) w"

text \<open>The handlers.\<close>

definition listCustomers :: "env \<Rightarrow> GetCustomersParams \<Rightarrow> world \<Rightarrow> customer_view page reply" where
  "listCustomers E params w = or_500 (map_sum id (Reply 200) (getCustomers E params w))"

definition getCustomerIds ::
  "env \<Rightarrow> string \<Rightarrow> string option \<Rightarrow> string option \<Rightarrow> world \<Rightarrow> string list reply" where
  "getCustomerIds E merchantId search orderFilter w =
     or_500 (map_sum id (Reply 200) (listCustomerIds E merchantId search orderFilter w))"

definition patchBulkBlock :: "string \<Rightarrow> jval \<Rightarrow> world \<Rightarrow> nat reply \<times> world" where
  "patchBulkBlock merchantId body w =
     (case (nonempty_array (json_field ''customerIds'' body), json_field ''blocked'' body) of
        (Some vs, Some (JBool blocked)) \<Rightarrow>
          (case all_strings vs of
             None \<Rightarrow> (or_500 (Inl validation_error), w)
           | Some customerIds \<Rightarrow>
               (case bulkBlockCustomers merchantId customerIds blocked w of (count, w') \<Rightarrow> (Reply 200 count, w')))
      | _ \<Rightarrow> (Refuse 400 ''customerIds (array) and blocked (boolean) are required'', w))"

section \<open>Escalations\<close>

definition escalated_open :: "string \<Rightarrow> conversation_row \<Rightarrow> bool" where
  "escalated_open merchantId c \<longleftrightarrow>
     conv_merchantId c = merchantId \<and> conv_escalatedAt c \<noteq> None \<and> conv_status c \<noteq> RESOLVED"

definition escalation_time :: "conversation_row \<Rightarrow> int" where
  "escalation_time c = coalesce (conv_escalatedAt c) 0"

record escalation_view =
  ev_conversation :: conversation_row
  ev_customer :: "customer_row option"
  ev_lastMessage :: "message_row option"

text \<open>The last message: the newest by \<open>createdAt\<close>, any one of them when several are.\<close>

definition last_message :: "string \<Rightarrow> world \<Rightarrow> message_row option" where
  "last_message conversationId w =
     (let ms = filter (\<lambda>m. msg_conversationId m = conversationId) (messages w)
      in find_first (\<lambda>m. \<forall>x \<in> set ms. msg_createdAt x \<le> msg_createdAt m) ms)"

definition escalation_view_of :: "world \<Rightarrow> conversation_row \<Rightarrow> escalation_view" where
  "escalation_view_of w c =
     \<lparr>ev_conversation = c, ev_customer = find_first (\<lambda>x. customer_id x = conv_customerId c) (customers w),
      ev_lastMessage = last_message (conv_id c) w\<rparr>"

definition getEscalations ::
  "env \<Rightarrow> string \<Rightarrow> string option \<Rightarrow> string option \<Rightarrow> world \<Rightarrow> exn + escalation_view page" where
  "getEscalations E merchantId cursor limit w =
     map_sum id (map_page (escalation_view_of w))
       (paginate E ''escalatedAt'' escalation_time conv_id (escalated_open merchantId) (\<lambda>_. True) cursor
          (case limit of None \<Rightarrow> None | Some s \<Rightarrow> js_Number s) (conversations w))"

definition resolveEscalation :: "string \<Rightarrow> string \<Rightarrow> world \<Rightarrow> exn + (conversation_row option \<times> world)" where
  "resolveEscalation conversationId merchantId w =
     (case find_first (\<lambda>c. conv_id c = conversationId \<and> conv_merchantId c = merchantId) (conversations w) of
        None \<Rightarrow> Inr (None, w)
      | Some _ \<Rightarrow>
          (case update_conversation (\<lambda>c. conv_id c = conversationId) (\<lambda>c. c\<lparr>conv_status := RESOLVED\<rparr>) w of
             Inl e \<Rightarrow> Inl e
           | Inr (c, w') \<Rightarrow> Inr (Some c, w')))"

definition resolveAllEscalations :: "string \<Rightarrow> world \<Rightarrow> nat \<times> world" where
  "resolveAllEscalations merchantId w =
     update_many conversations put_conversations (escalated_open merchantId) (\<lambda>c. c\<lparr>conv_status := RESOLVED\<rparr>) w"

definition listEscalations ::
  "env \<Rightarrow> string \<Rightarrow> string option \<Rightarrow> string option \<Rightarrow> world \<Rightarrow> escalation_view page reply" where
  "listEscalations E merchantId cursor limit w = or_500 (map_sum id (Reply 200) (getEscalations E merchantId cursor limit w))"

definition resolve :: "string \<Rightarrow> string \<Rightarrow> world \<Rightarrow> string reply \<times> world" where
  "resolve merchantId i w =
     (case resolveEscalation i merchantId w of
        Inl e \<Rightarrow> (or_500 (Inl e), w)
      | Inr (None, w') \<Rightarrow> (Refuse 404 ''Escalation not found'', w')
      | Inr (Some _, w') \<Rightarrow> (Reply 200 ''Escalation resolved'', w'))"

definition resolveAll :: "string \<Rightarrow> world \<Rightarrow> (string \<times> nat) reply \<times> world" where
  "resolveAll merchantId w =
     (case resolveAllEscalations merchantId w of (count, w') \<Rightarrow> (Reply 200 (''All escalations resolved'', count), w'))"

section \<open>Properties\<close>

interpretation customerList: keyset customers customer_createdAt customer_id schema_ok
  by unfold_locales (simp add: schema_ok_def unique_by_def)

interpretation escalationList: keyset conversations escalation_time conv_id schema_ok
  by unfold_locales (simp add: schema_ok_def unique_by_def)

text \<open>The counts read from the groups are the counts of the orders themselves.\<close>

lemma map_of_group_orders:
  "coalesce (map_of (group_orders P w) i) 0 = count_where (\<lambda>r. P r \<and> order_customerId r = i) (orders w)"
proof (cases "i \<in> order_customerId ` set (filter P (orders w))")
  case True
  then have "map_of (group_orders P w) i = Some (count_where (\<lambda>r. P r \<and> order_customerId r = i) (orders w))"
    unfolding group_orders_def by (subst map_of_map_restrict) (auto simp: restrict_map_def)
  then show ?thesis by simp
next
  case False
  then have "map_of (group_orders P w) i = None"
    by (auto simp: group_orders_def map_of_eq_None_iff)
  moreover have "count_where (\<lambda>r. P r \<and> order_customerId r = i) (orders w) = 0"
    using False by (auto simp: count_where_def filter_empty_conv)
  ultimately show ?thesis by simp
qed

text \<open>The counts shown with a customer are the numbers of that customer's confirmed and cancelled orders at
  the merchant.\<close>

lemma customer_counts:
  assumes "v \<in> set (customer_views m w cs)"
  shows "cv_customer v \<in> set cs \<and>
    cv_confirmedOrders v = count_where (\<lambda>r. order_merchantId r = m \<and> order_customerId r = customer_id (cv_customer v) \<and>
      order_status r = CONFIRMED) (orders w) \<and>
    cv_cancelledOrders v = count_where (\<lambda>r. order_merchantId r = m \<and> order_customerId r = customer_id (cv_customer v) \<and>
      order_status r = CANCELLED) (orders w)"
proof -
  obtain c where c: "c \<in> set cs" "cv_customer v = c"
    "cv_confirmedOrders v = count_where (\<lambda>r. (order_merchantId r = m \<and> order_customerId r \<in> customer_id ` set cs \<and>
       order_status r = CONFIRMED) \<and> order_customerId r = customer_id c) (orders w)"
    "cv_cancelledOrders v = count_where (\<lambda>r. (order_merchantId r = m \<and> order_customerId r \<in> customer_id ` set cs \<and>
       order_status r = CANCELLED) \<and> order_customerId r = customer_id c) (orders w)"
    using assms by (auto simp: customer_views_def Let_def map_of_group_orders)
  have eq: "(\<lambda>r. (order_merchantId r = m \<and> order_customerId r \<in> customer_id ` set cs \<and> order_status r = st) \<and>
      order_customerId r = customer_id c) =
    (\<lambda>r. order_merchantId r = m \<and> order_customerId r = customer_id c \<and> order_status r = st)" for st
    using c(1) by auto
  show ?thesis using c(1) unfolding c(2-4) eq by simp
qed

text \<open>Resolving an escalation changes the status of that conversation only, and only for its merchant:
  afterwards it is in no page of open escalations, and every other conversation is as it was.\<close>

lemma resolve_effect:
  assumes "schema_ok w" and "resolve m i w = (res, w')"
  shows "filter (\<lambda>c. \<not> (conv_id c = i \<and> conv_merchantId c = m)) (conversations w') =
      filter (\<lambda>c. \<not> (conv_id c = i \<and> conv_merchantId c = m)) (conversations w) \<and>
    (res = Reply 200 ''Escalation resolved'' \<longleftrightarrow> (\<exists>c \<in> set (conversations w). conv_id c = i \<and> conv_merchantId c = m)) \<and>
    (\<forall>c \<in> set (conversations w'). conv_id c = i \<longrightarrow> \<not> escalated_open m c)"
proof (cases "find_first (\<lambda>c. conv_id c = i \<and> conv_merchantId c = m) (conversations w)")
  case None
  then have "w' = w" "res = Refuse 404 ''Escalation not found''"
    using assms(2) by (simp_all add: resolve_def resolveEscalation_def)
  moreover have none: "\<forall>c \<in> set (conversations w). \<not> (conv_id c = i \<and> conv_merchantId c = m)"
    using None by (simp add: find_first_None)
  ultimately show ?thesis by (auto simp: escalated_open_def)
next
  case (Some q)
  then have q: "q \<in> set (conversations w)" "conv_id q = i" "conv_merchantId q = m" by (auto dest: find_first_SomeD)
  let ?C = "update_where (\<lambda>c. conv_id c = i) (\<lambda>c. c\<lparr>conv_status := RESOLVED\<rparr>) (conversations w)"
  have "find_first (\<lambda>c. conv_id c = i) (conversations w) \<noteq> None" using q by (auto simp: find_first_None)
  then have w': "w' = w\<lparr>conversations := ?C\<rparr>" "res = Reply 200 ''Escalation resolved''"
    using assms(2) Some
    by (auto simp: resolve_def resolveEscalation_def update_in_def put_conversations_def split: option.splits)
  have one: "x = q" if "x \<in> set (conversations w)" "conv_id x = i" for x
    using distinct_map_eq [of conv_id "conversations w" x q] that q assms(1) by (simp add: schema_ok_def unique_by_def)
  have same: "x \<in> set (conversations w) \<Longrightarrow> conv_id x = i \<longleftrightarrow> conv_id x = i \<and> conv_merchantId x = m" for x
    using one q(3) by blast
  have "update_where (\<lambda>c. conv_id c = i) (\<lambda>c. c\<lparr>conv_status := RESOLVED\<rparr>) (conversations w) =
      update_where (\<lambda>c. conv_id c = i \<and> conv_merchantId c = m) (\<lambda>c. c\<lparr>conv_status := RESOLVED\<rparr>) (conversations w)"
    unfolding update_where_def by (rule map_cong [OF refl]) (use same in \<open>simp cong: if_cong\<close>)
  moreover have "filter (\<lambda>c. \<not> (conv_id c = i \<and> conv_merchantId c = m))
      (update_where (\<lambda>c. conv_id c = i \<and> conv_merchantId c = m) (\<lambda>c. c\<lparr>conv_status := RESOLVED\<rparr>) (conversations w)) =
      filter (\<lambda>c. \<not> (conv_id c = i \<and> conv_merchantId c = m)) (conversations w)"
    by (rule filter_update_where) simp_all
  ultimately have "filter (\<lambda>c. \<not> (conv_id c = i \<and> conv_merchantId c = m)) ?C =
      filter (\<lambda>c. \<not> (conv_id c = i \<and> conv_merchantId c = m)) (conversations w)"
    by (rule ssubst)
  moreover have "\<forall>c \<in> set ?C. conv_id c = i \<longrightarrow> \<not> escalated_open m c"
    unfolding update_where_def list.set_map ball_simps by (simp add: escalated_open_def)
  moreover have "\<exists>c \<in> set (conversations w). conv_id c = i \<and> conv_merchantId c = m" using q by blast
  ultimately show ?thesis using w' by simp
qed

end
