(* ===== verification/Conversations.thy ===== *)
theory Conversations
  imports Customers
begin

text \<open>
  \<open>back/src/modules/whatsapp/conversation.service.ts\<close> and \<open>notification.service.ts\<close>: finding, creating and
  listing conversations, storing a message, and the notifications of a merchant.  The in-process event
  emitter that feeds open browser streams is not part of the state.
\<close>

section \<open>Finding a conversation\<close>

definition conversation_of_customer :: "string \<Rightarrow> customer_row \<Rightarrow> world \<Rightarrow> conversation_row option" where
  "conversation_of_customer merchantId c w =
     find_first (\<lambda>v. conv_merchantId v = merchantId \<and> conv_customerId v = customer_id c) (conversations w)"

definition getByPhone :: "string \<Rightarrow> string \<Rightarrow> world \<Rightarrow> conversation_row option" where
  "getByPhone merchantId phone w =
     (let clean = strip_plus phone
      in (case find_first (\<lambda>c. customer_merchantId c = merchantId \<and>
                               (customer_phone c = ''+'' @ clean \<or> customer_phone c = clean)) (customers w) of
            None \<Rightarrow> None
          | Some c \<Rightarrow> conversation_of_customer merchantId c w))"

definition getByJid :: "string \<Rightarrow> string \<Rightarrow> world \<Rightarrow> conversation_row option" where
  "getByJid merchantId jid w =
     (case find_first (\<lambda>c. customer_merchantId c = merchantId \<and> customer_waJid c = Some jid) (customers w) of
        None \<Rightarrow> None
      | Some c \<Rightarrow> conversation_of_customer merchantId c w)"

definition messages_of :: "string \<Rightarrow> world \<Rightarrow> message_row list" where
  "messages_of conversationId w = sort_key msg_createdAt (filter (\<lambda>m. msg_conversationId m = conversationId) (messages w))"

definition getById :: "string \<Rightarrow> world \<Rightarrow> (conversation_row \<times> message_row list \<times> customer_row option) option" where
  "getById i w =
     (case find_first (\<lambda>c. conv_id c = i) (conversations w) of
        None \<Rightarrow> None
      | Some c \<Rightarrow> Some (c, messages_of i w, find_first (\<lambda>x. customer_id x = conv_customerId c) (customers w)))"

section \<open>Storing a message\<close>

record message_opts =
  mo_direction :: "MessageDirection option"
  mo_sender :: "MessageSender option"
  mo_contentType :: "string option"
  mo_mediaUrl :: "string option"
  mo_mimeType :: "string option"
  mo_messageType :: "string option"
  mo_filePath :: "string option"
  mo_createdAt :: "int option"
  mo_whatsappMessageId :: "string option"

definition no_opts :: message_opts where
  "no_opts = \<lparr>mo_direction = None, mo_sender = None, mo_contentType = None, mo_mediaUrl = None, mo_mimeType = None,
     mo_messageType = None, mo_filePath = None, mo_createdAt = None, mo_whatsappMessageId = None\<rparr>"

definition message_input_of :: "env \<Rightarrow> string \<Rightarrow> string \<Rightarrow> string \<Rightarrow> message_opts \<Rightarrow> message_input" where
  "message_input_of E conversationId role content opts =
     \<lparr>mi_conversationId = conversationId, mi_content = content, mi_contentType = coalesce (mo_contentType opts) ''text'',
      mi_mediaUrl = mo_mediaUrl opts, mi_mimeType = mo_mimeType opts, mi_whatsappMessageId = mo_whatsappMessageId opts,
      mi_direction = coalesce (mo_direction opts) (if role = ''customer'' then IN else OUT),
      mi_sender = coalesce (mo_sender opts) (if role = ''customer'' then CUSTOMER else AI), mi_role = role,
      mi_messageType = coalesce (mo_messageType opts) ''text'', mi_filePath = mo_filePath opts,
      mi_createdAt = coalesce (mo_createdAt opts) (clock E)\<rparr>"

definition touch_conversation :: "string \<Rightarrow> int \<Rightarrow> world \<Rightarrow> world" where
  "touch_conversation conversationId t w =
     w\<lparr>conversations := update_where (\<lambda>c. conv_id c = conversationId) (\<lambda>c. c\<lparr>conv_lastMessageAt := Some t\<rparr>) (conversations w)\<rparr>"

text \<open>
  The row and the \<open>lastMessageAt\<close> of the conversation are written side by side (\<open>Promise.all\<close>): when the
  row is refused the other update still happens.  On a conversation that is not there both fail.
\<close>

definition addMessage ::
  "env \<Rightarrow> string \<Rightarrow> string \<Rightarrow> string \<Rightarrow> message_opts \<Rightarrow> world \<Rightarrow> (exn + message_row) \<times> world" where
  "addMessage E conversationId role content opts w =
     (let now = coalesce (mo_createdAt opts) (clock E)
      in (case create_message E (message_input_of E conversationId role content opts) w of
            Inl e \<Rightarrow> (Inl e, touch_conversation conversationId now w)
          | Inr (m, w') \<Rightarrow> (Inr m, touch_conversation conversationId now w')))"

section \<open>Changing a conversation\<close>

definition markAsRead :: "env \<Rightarrow> string \<Rightarrow> world \<Rightarrow> exn + (conversation_row \<times> world)" where
  "markAsRead E i w =
     update_conversation (\<lambda>c. conv_id c = i) (\<lambda>c. c\<lparr>conv_lastReadMessageAt := Some (clock E)\<rparr>) w"

definition updateStatus :: "string \<Rightarrow> ConversationStatus \<Rightarrow> world \<Rightarrow> exn + (conversation_row \<times> world)" where
  "updateStatus i status w = update_conversation (\<lambda>c. conv_id c = i) (\<lambda>c. c\<lparr>conv_status := status\<rparr>) w"

definition findOrCreateByCustomer ::
  "env \<Rightarrow> string \<Rightarrow> string \<Rightarrow> string \<Rightarrow> world \<Rightarrow> exn + (conversation_row \<times> world)" where
  "findOrCreateByCustomer E merchantId customerId customerPhone w =
     (case find_first (\<lambda>c. conv_merchantId c = merchantId \<and> conv_customerId c = customerId) (conversations w) of
        Some c \<Rightarrow> Inr (c, w)
      | None \<Rightarrow> create_conversation E merchantId customerId customerPhone None w)"

text \<open>
  \<open>currentOrderId\<close> is unique and refers to an order: an id that another conversation has, or that no order
  has, is refused.
\<close>

definition set_current_order :: "string \<Rightarrow> string \<Rightarrow> world \<Rightarrow> exn + world" where
  "set_current_order i ord w =
     (if list_ex (\<lambda>c. conv_currentOrderId c = Some ord \<and> conv_id c \<noteq> i) (conversations w) then Inl P2002
      else if \<not> list_ex (\<lambda>r. order_id r = ord) (orders w) then Inl P2003
      else map_sum id snd (update_conversation (\<lambda>c. conv_id c = i) (\<lambda>c. c\<lparr>conv_currentOrderId := Some ord\<rparr>) w))"

definition createFromOrder ::
  "env \<Rightarrow> string \<Rightarrow> string \<Rightarrow> string \<Rightarrow> string \<Rightarrow> world \<Rightarrow> exn + (conversation_row \<times> world)" where
  "createFromOrder E merchantId ord customerId customerPhone w =
     (case find_first (\<lambda>c. conv_merchantId c = merchantId \<and> conv_customerId c = customerId) (conversations w) of
        Some c \<Rightarrow> (case set_current_order (conv_id c) ord w of Inl e \<Rightarrow> Inl e | Inr w' \<Rightarrow> Inr (c, w'))
      | None \<Rightarrow>
          (if \<not> list_ex (\<lambda>r. order_id r = ord) (orders w) then Inl P2003
           else create_conversation E merchantId customerId customerPhone (Some ord) w))"

section \<open>Listing conversations\<close>

record conversation_view =
  vw_conversation :: conversation_row
  vw_customer :: "customer_row option"
  vw_lastMessage :: "message_row option"
  vw_unreadCount :: nat

record 'a offset_page =
  op_data :: "'a list"
  op_total :: nat
  op_hasMore :: bool
  op_nextOffset :: "nat option"

definition unread :: "conversation_row \<Rightarrow> message_row \<Rightarrow> bool" where
  "unread c m \<longleftrightarrow>
     msg_conversationId m = conv_id c \<and> msg_role m = ''customer'' \<and>
     (case conv_lastReadMessageAt c of None \<Rightarrow> True | Some t \<Rightarrow> t < msg_createdAt m)"

definition view_of :: "world \<Rightarrow> conversation_row \<Rightarrow> conversation_view" where
  "view_of w c =
     \<lparr>vw_conversation = c, vw_customer = find_first (\<lambda>x. customer_id x = conv_customerId c) (customers w),
      vw_lastMessage = last_message (conv_id c) w, vw_unreadCount = count_where (unread c) (messages w)\<rparr>"

text \<open>
  One page by offset: the rows from \<open>offset\<close>, one more than asked for to see whether there are more.
\<close>

definition paged :: "nat \<Rightarrow> nat \<Rightarrow> nat \<Rightarrow> 'a list \<Rightarrow> 'a offset_page" where
  "paged limit offset count rows =
     (let data = take (limit + 1) (drop offset rows); more = limit < length data
      in \<lparr>op_data = (if more then butlast data else data), op_total = count, op_hasMore = more,
          op_nextOffset = (if more then Some (offset + limit) else None)\<rparr>)"

text \<open>Newest message first, conversations without a message last, then the newest conversation first.\<close>

definition recency :: "conversation_row \<Rightarrow> (nat \<times> int) \<times> int" where
  "recency c = ((case conv_lastMessageAt c of None \<Rightarrow> (1, 0) | Some t \<Rightarrow> (0, - t)), - conv_createdAt c)"

definition conversation_statuses :: "(string \<times> ConversationStatus) list" where
  "conversation_statuses = [(''ACTIVE'', ACTIVE), (''RESOLVED'', RESOLVED)]"

definition conversation_matches :: "env \<Rightarrow> world \<Rightarrow> string \<Rightarrow> ConversationStatus option \<Rightarrow> string option \<Rightarrow> conversation_row \<Rightarrow> bool" where
  "conversation_matches E w merchantId status search c \<longleftrightarrow>
     conv_merchantId c = merchantId \<and> (case status of None \<Rightarrow> True | Some s \<Rightarrow> conv_status c = s) \<and>
     (case given search of
        None \<Rightarrow> True
      | Some s \<Rightarrow>
          (case find_first (\<lambda>x. customer_id x = conv_customerId c) (customers w) of
             None \<Rightarrow> False
           | Some x \<Rightarrow>
               (case customer_name x of None \<Rightarrow> False | Some n \<Rightarrow> icontains E n s) \<or> lcontains E (customer_phone x) s))"

definition list_conversations ::
  "env \<Rightarrow> string \<Rightarrow> string option \<Rightarrow> string option \<Rightarrow> nat \<Rightarrow> nat \<Rightarrow> world \<Rightarrow> exn + conversation_view offset_page" where
  "list_conversations E merchantId status search limit offset w =
     (case given status of
        Some s \<Rightarrow>
          (case map_of conversation_statuses s of
             None \<Rightarrow> Inl validation_error
           | Some st \<Rightarrow>
               (let rows = sort_key recency (filter (conversation_matches E w merchantId (Some st) search) (conversations w))
                in Inr (paged limit offset (length rows) (map (view_of w) rows))))
      | None \<Rightarrow>
          (let rows = sort_key recency (filter (conversation_matches E w merchantId None search) (conversations w))
           in Inr (paged limit offset (length rows) (map (view_of w) rows))))"

section \<open>Notifications\<close>

definition list_notifications ::
  "string \<Rightarrow> bool \<Rightarrow> nat \<Rightarrow> nat \<Rightarrow> world \<Rightarrow> notification_row offset_page \<times> nat" where
  "list_notifications merchantId unreadOnly limit offset w =
     (let rows = sort_key (\<lambda>n. - notif_createdAt n)
            (filter (\<lambda>n. notif_merchantId n = merchantId \<and> (\<not> unreadOnly \<or> \<not> notif_read n)) (notifications w))
      in (paged limit offset (length rows) rows,
          count_where (\<lambda>n. notif_merchantId n = merchantId \<and> \<not> notif_read n) (notifications w)))"

definition put_notifications :: "notification_row list \<Rightarrow> world \<Rightarrow> world" where
  "put_notifications rs w = w\<lparr>notifications := rs\<rparr>"

definition notification_markAsRead :: "string \<Rightarrow> string \<Rightarrow> world \<Rightarrow> nat \<times> world" where
  "notification_markAsRead i merchantId w =
     update_many notifications put_notifications (\<lambda>n. notif_id n = i \<and> notif_merchantId n = merchantId)
       (\<lambda>n. n\<lparr>notif_read := True\<rparr>) w"

definition markAllAsRead :: "string \<Rightarrow> world \<Rightarrow> nat \<times> world" where
  "markAllAsRead merchantId w =
     update_many notifications put_notifications (\<lambda>n. notif_merchantId n = merchantId \<and> \<not> notif_read n)
       (\<lambda>n. n\<lparr>notif_read := True\<rparr>) w"

text \<open>The notification routes clamp what they are asked for.\<close>

definition notification_limit :: "int option \<Rightarrow> int" where
  "notification_limit n = min (case n of None \<Rightarrow> 20 | Some x \<Rightarrow> (if x = 0 then 20 else x)) 50"

section \<open>Facts\<close>

lemma offset_pages:
  assumes "0 < limit"
  shows "op_data (paged limit offset n rows) = take limit (drop offset rows)"
    "op_nextOffset (paged limit offset n rows) =
      (if offset + limit < length rows then Some (offset + limit) else None)"
proof -
  have "butlast (take (limit + 1) (drop offset rows)) = take limit (drop offset rows)"
    if "limit < length (take (limit + 1) (drop offset rows))"
    using that by (simp add: butlast_take)
  moreover have "take (limit + 1) (drop offset rows) = take limit (drop offset rows)"
    if "\<not> limit < length (take (limit + 1) (drop offset rows))"
    using that by simp
  ultimately show "op_data (paged limit offset n rows) = take limit (drop offset rows)"
    by (simp add: paged_def Let_def)
  show "op_nextOffset (paged limit offset n rows) =
      (if offset + limit < length rows then Some (offset + limit) else None)"
    by (auto simp: paged_def Let_def)
qed

text \<open>Once a conversation is marked read, only messages after that instant are unread.\<close>

lemma markAsRead_unread:
  assumes "markAsRead E i w = Inr (c, w')"
  shows "unread c m \<longleftrightarrow> msg_conversationId m = i \<and> msg_role m = ''customer'' \<and> clock E < msg_createdAt m"
  using assms by (auto simp: markAsRead_def update_in_Inr unread_def dest!: find_first_SomeD)

lemma markAllAsRead_none_unread:
  "count_where (\<lambda>n. notif_merchantId n = m \<and> \<not> notif_read n) (notifications (snd (markAllAsRead m w))) = 0"
  unfolding count_where_def markAllAsRead_def update_many_def put_notifications_def snd_conv
  by (simp add: filter_empty_conv update_where_def)

lemma touch_conversation_frame [simp]:
  "messages (touch_conversation i t w) = messages w" "orders (touch_conversation i t w) = orders w"
  "customers (touch_conversation i t w) = customers w" "messageJobs (touch_conversation i t w) = messageJobs w"
  "whatsAppSessions (touch_conversation i t w) = whatsAppSessions w" "nextId (touch_conversation i t w) = nextId w"
  "owLog (touch_conversation i t w) = owLog w" "mediaFiles (touch_conversation i t w) = mediaFiles w"
  by (simp_all add: touch_conversation_def)

lemma world_ok_touch [simp]: "world_ok E w \<Longrightarrow> world_ok E (touch_conversation i t w)"
  unfolding touch_conversation_def by (rule world_ok_update_conversations) simp_all

lemma touch_conversation_keys:
  "map conv_id (conversations (touch_conversation i t w)) = map conv_id (conversations w)"
  "filter (\<lambda>c. conv_merchantId c \<noteq> m) (conversations (touch_conversation i t w)) =
     map (\<lambda>c. if conv_id c = i then c\<lparr>conv_lastMessageAt := Some t\<rparr> else c) (filter (\<lambda>c. conv_merchantId c \<noteq> m) (conversations w))"
  by (simp_all add: touch_conversation_def map_update_where) (simp add: update_where_def filter_map comp_def if_distrib cong: if_cong)

lemma addMessage_Inr:
  assumes "addMessage E v role content opts w = (Inr m, w')"
  shows "m = message_of_input (cuid E (nextId w)) (message_input_of E v role content opts) \<and>
    \<not> wa_id_taken (mo_whatsappMessageId opts) None w \<and> (\<exists>c \<in> set (conversations w). conv_id c = v) \<and>
    w' = touch_conversation v (coalesce (mo_createdAt opts) (clock E))
           (w\<lparr>messages := messages w @ [m], nextId := Suc (nextId w)\<rparr>)"
  using assms by (auto simp: addMessage_def Let_def create_message_Inr message_input_of_def split: sum.splits)

lemma addMessage_ok:
  assumes "\<not> wa_id_taken (mo_whatsappMessageId opts) None w" and "c \<in> set (conversations w)" "conv_id c = v"
  shows "\<exists>m w'. addMessage E v role content opts w = (Inr m, w')"
proof -
  have "create_message E (message_input_of E v role content opts) w =
      Inr (message_of_input (cuid E (nextId w)) (message_input_of E v role content opts),
           w\<lparr>messages := messages w @ [message_of_input (cuid E (nextId w)) (message_input_of E v role content opts)],
             nextId := Suc (nextId w)\<rparr>)"
    using assms by (auto simp: create_message_Inr message_input_of_def)
  then show ?thesis by (simp add: addMessage_def Let_def)
qed

lemma world_ok_addMessage:
  assumes "world_ok E w" and "addMessage E v role content opts w = (res, w')"
  shows "world_ok E w'"
proof (cases "create_message E (message_input_of E v role content opts) w")
  case (Inl e)
  then show ?thesis using assms by (auto simp: addMessage_def Let_def)
next
  case (Inr p)
  obtain m w1 where p: "p = (m, w1)" by fastforce
  then have "world_ok E w1" using world_ok_create_message [OF assms(1)] Inr by blast
  then show ?thesis using assms(2) Inr p by (auto simp: addMessage_def Let_def)
qed

lemma findOrCreate_Inr:
  assumes "world_ok E w" and "findOrCreateByCustomer E m i phone w = Inr (c, w')"
  shows "world_ok E w' \<and> c \<in> set (conversations w') \<and> conv_merchantId c = m \<and> conv_customerId c = i \<and>
    (\<exists>C n. w' = w\<lparr>conversations := C, nextId := n\<rparr> \<and> (C = conversations w \<or> C = conversations w @ [c]))"
proof (cases "find_first (\<lambda>c. conv_merchantId c = m \<and> conv_customerId c = i) (conversations w)")
  case None
  then have new: "create_conversation E m i phone None w = Inr (c, w')"
    using assms(2) by (simp add: findOrCreateByCustomer_def)
  have "world_ok E w'" using world_ok_create_conversation [OF assms(1) new] by simp
  then show ?thesis using create_conversation_Inr [OF new] by auto
next
  case (Some q)
  then have "q = c" "w' = w" using assms(2) by (simp_all add: findOrCreateByCustomer_def)
  with Some assms(1) show ?thesis by (auto dest!: find_first_SomeD intro!: exI [of _ "conversations w"] exI [of _ "nextId w"])
qed

lemma findOrCreate_total: "\<exists>c w'. findOrCreateByCustomer E m i phone w = Inr (c, w')"
proof (cases "find_first (\<lambda>c. conv_merchantId c = m \<and> conv_customerId c = i) (conversations w)")
  case None
  then have "\<not> (\<exists>c \<in> set (conversations w). conv_merchantId c = m \<and> conv_customerId c = i)"
    by (simp add: find_first_None)
  with None show ?thesis by (simp add: findOrCreateByCustomer_def create_conversation_def Let_def)
qed (simp add: findOrCreateByCustomer_def)

end
