(* ===== verification/Media.thy ===== *)
theory Media
  imports Conversations
begin

text \<open>
  \<open>back/src/modules/ai/media\<close>: turning a voice note or a picture into text.  The file is read from the media
  directory and handed to the model; what the model answers is an argument.
\<close>

definition NL :: string where
  "NL = [CHR 0x0A]"

definition buildTranscriptionPrompt :: string where
  "buildTranscriptionPrompt =
     join NL
       [''You are an audio transcription assistant.'',
        [],
        ''Transcribe the attached audio message VERBATIM.'',
        ''Preserve the original language or dialect '' @ utf8_text [0x2014] @ '' Algerian Darija, Arabic, French, English, or any mix of these.'',
        ''Do NOT translate, summarize, or add any commentary.'',
        ''Return ONLY the raw transcribed text, nothing else.'']"

definition readFile :: "string \<Rightarrow> world \<Rightarrow> string option" where
  "readFile path w = map_of (mediaFiles w) path"

text \<open>\<open>None\<close> when reading the file or calling the model throws.\<close>

definition transcribeAudio :: "env \<Rightarrow> string \<Rightarrow> string \<Rightarrow> world \<Rightarrow> string option" where
  "transcribeAudio E filePath mimeType w =
     (case readFile filePath w of
        None \<Rightarrow> None
      | Some buffer \<Rightarrow> map_option js_trim (media_llm E buildTranscriptionPrompt buffer mimeType))"

datatype ImageCategory = PRODUCT_PHOTO | PAYMENT_PROOF | DAMAGE_COMPLAINT | OTHER

definition ImageCategorySchema :: "(string \<times> ImageCategory) list" where
  "ImageCategorySchema =
     [(''PRODUCT_PHOTO'', PRODUCT_PHOTO), (''PAYMENT_PROOF'', PAYMENT_PROOF),
      (''DAMAGE_COMPLAINT'', DAMAGE_COMPLAINT), (''OTHER'', OTHER)]"

record ImageCaptionResult =
  ic_productName :: "jval option"
  ic_description :: "jval"
  ic_category :: ImageCategory

definition buildImageCaptionPrompt :: string where
  "buildImageCaptionPrompt =
     join NL
       [''You are an image analysis assistant for an Algerian e-commerce WhatsApp bot.'',
        [],
        ''Analyze the attached image from a customer message.'',
        [],
        ''1. EXTRACT the product name if visible (text on packaging, label, screen '' @ utf8_text [0x2014] @ '' whatever the image shows).'',
        ''   Set '' @ utf8_text [0x22] @ ''productName'' @ utf8_text [0x22] @ '' to the exact text you see, or null if no product name is visible.'',
        [],
        ''2. DESCRIBE what the image shows in enough detail to search a product catalog.'',
        ''   Include: item type, brand, model, color, visible features.'',
        ''   This goes in the '' @ utf8_text [0x22] @ ''description'' @ utf8_text [0x22] @ '' field.'',
        [],
        ''3. CLASSIFY the image into one of:'',
        ''   - PRODUCT_PHOTO: customer is showing or searching for a product'',
        ''   - PAYMENT_PROOF: payment screenshot or receipt'',
        ''   - DAMAGE_COMPLAINT: damaged or wrong item photo'',
        ''   - OTHER: doesn'' @ utf8_text [0x27] @ ''t fit the above categories'',
        [],
        ''Return valid JSON with '' @ utf8_text [0x22] @ ''productName'' @ utf8_text [0x22] @ '' (string or null), '' @ utf8_text [0x22] @ ''description'' @ utf8_text [0x22] @ '' (string), and '' @ utf8_text [0x22] @ ''category'' @ utf8_text [0x22] @ '' (one of the four values above).'']"

definition nullish :: "jval option \<Rightarrow> jval option" where
  "nullish v = (case v of Some JNull \<Rightarrow> None | _ \<Rightarrow> v)"

definition captionImage :: "env \<Rightarrow> string \<Rightarrow> string \<Rightarrow> world \<Rightarrow> ImageCaptionResult option" where
  "captionImage E filePath mimeType w =
     (case readFile filePath w of
        None \<Rightarrow> None
      | Some buffer \<Rightarrow>
          (case media_llm E buildImageCaptionPrompt buffer mimeType of
             None \<Rightarrow> None
           | Some raw \<Rightarrow>
               (case json_parse raw of
                  None \<Rightarrow> None
                | Some parsed \<Rightarrow>
                    (case json_field ''category'' parsed of
                       Some (JStr c) \<Rightarrow>
                         (case map_of ImageCategorySchema c of
                            None \<Rightarrow> None
                          | Some category \<Rightarrow>
                              Some \<lparr>ic_productName = nullish (json_field ''productName'' parsed),
                                    ic_description = coalesce (nullish (json_field ''description'' parsed)) (JStr []),
                                    ic_category = category\<rparr>)
                     | _ \<Rightarrow> None))))"

end
