(* ===== verification/Merchant_Message.thy ===== *)
theory Merchant_Message
  imports Conversations
begin

text \<open>
  \<open>back/src/modules/whatsapp/merchantMessage.service.ts\<close>: storing what the merchant types on the linked phone,
  without storing again what the back end has sent itself.  The function is over its dependencies, as in
  the source; the locale states what it relies on of them, and is interpreted on the default ones.
\<close>

section \<open>The service\<close>

record MerchantMessageInput =
  mm_merchantId :: string
  mm_to :: string
  mm_phone :: string
  mm_contentType :: string
  mm_body :: string
  mm_waMessageId :: "string option"
  mm_pushName :: "string option"
  mm_createdAt :: int

datatype MerchantMessageResult = Duplicate | Stored

record 's MerchantMessageDeps =
  messageFindByWaId :: "string \<Rightarrow> 's \<Rightarrow> string option"
  messageFindRecentOwn :: "string \<Rightarrow> string \<Rightarrow> int \<Rightarrow> 's \<Rightarrow> string option"
  conversationGetByPhone :: "string \<Rightarrow> string \<Rightarrow> 's \<Rightarrow> string option"
  conversationGetByJid :: "string \<Rightarrow> string \<Rightarrow> 's \<Rightarrow> string option"
  customerUpsertByPhone :: "string \<Rightarrow> string \<Rightarrow> string option \<Rightarrow> string option \<Rightarrow> 's \<Rightarrow> exn + ((string \<times> string) \<times> 's)"
  conversationFindOrCreate :: "string \<Rightarrow> string \<Rightarrow> string \<Rightarrow> 's \<Rightarrow> exn + (string \<times> 's)"
  merchantAddMessage :: "string \<Rightarrow> string \<Rightarrow> string \<Rightarrow> int \<Rightarrow> string option \<Rightarrow> 's \<Rightarrow> (exn + string) \<times> 's"

definition OWN_SEND_WINDOW_MS :: int where
  "OWN_SEND_WINDOW_MS = 120000"

definition isLid :: "string \<Rightarrow> bool" where
  "isLid jid = str_includes ''@lid'' (ascii_lower jid)"

text \<open>The conversation of the recipient: by phone, by LID, or that of a customer made for the purpose.\<close>

definition merchant_conversation :: "MerchantMessageInput \<Rightarrow> 's MerchantMessageDeps \<Rightarrow> 's \<Rightarrow> exn + (string \<times> 's)" where
  "merchant_conversation input deps s =
     (case conversationGetByPhone deps (mm_merchantId input) (mm_phone input) s of
        Some v \<Rightarrow> Inr (v, s)
      | None \<Rightarrow>
          (case (if isLid (mm_to input) then conversationGetByJid deps (mm_merchantId input) (mm_to input) s else None) of
             Some v \<Rightarrow> Inr (v, s)
           | None \<Rightarrow>
               (case customerUpsertByPhone deps (mm_merchantId input) (mm_phone input)
                       (if isLid (mm_to input) then Some (mm_to input) else None) (given (mm_pushName input)) s of
                  Inl e \<Rightarrow> Inl e
                | Inr ((customerId, phone), s1) \<Rightarrow>
                    conversationFindOrCreate deps (mm_merchantId input) customerId phone s1)))"

definition merchant_content :: "MerchantMessageInput \<Rightarrow> string" where
  "merchant_content input = (if mm_body input = [] then ''['' @ mm_contentType input @ '' message]'' else mm_body input)"

text \<open>\<open>now\<close> is the clock of the server.  An error after the conversation was made leaves it there.\<close>

definition persistMerchantMessage ::
  "int \<Rightarrow> MerchantMessageInput \<Rightarrow> 's MerchantMessageDeps \<Rightarrow> 's \<Rightarrow> (exn + MerchantMessageResult) \<times> 's" where
  "persistMerchantMessage now input deps s =
     (let waId = given (mm_waMessageId input);
          known = (case waId of None \<Rightarrow> None | Some i \<Rightarrow> messageFindByWaId deps i s)
      in if known \<noteq> None then (Inr Duplicate, s)
         else
           (case merchant_conversation input deps s of
              Inl e \<Rightarrow> (Inl e, s)
            | Inr (v, s1) \<Rightarrow>
                (if messageFindRecentOwn deps v (merchant_content input) (now - OWN_SEND_WINDOW_MS) s1 \<noteq> None
                 then (Inr Duplicate, s1)
                 else
                   (case merchantAddMessage deps v (merchant_content input) (mm_contentType input)
                           (mm_createdAt input) waId s1 of
                      (Inl e, s2) \<Rightarrow> (Inl e, s2)
                    | (Inr _, s2) \<Rightarrow> (Inr Stored, s2)))))"

section \<open>What the service relies on\<close>

text \<open>
  A row stored under a WhatsApp id is found under it.  Then a notification that is delivered again stores
  nothing.
\<close>

locale merchant_message =
  fixes deps :: "'s MerchantMessageDeps"
  assumes stored_is_known:
    "merchantAddMessage deps v content ty t (Some i) s = (Inr m, s') \<Longrightarrow> messageFindByWaId deps i s' \<noteq> None"
begin

lemma stored_then_known:
  assumes "persistMerchantMessage now input deps s = (Inr Stored, s')" and "given (mm_waMessageId input) = Some i"
  shows "messageFindByWaId deps i s' \<noteq> None"
proof -
  obtain v s1 m where "merchantAddMessage deps v (merchant_content input) (mm_contentType input)
      (mm_createdAt input) (Some i) s1 = (Inr m, s')"
    using assms by (auto simp: persistMerchantMessage_def Let_def split: if_splits sum.splits prod.splits)
  then show ?thesis by (rule stored_is_known)
qed

lemma known_is_skipped:
  assumes "given (mm_waMessageId input) = Some i" and "messageFindByWaId deps i s \<noteq> None"
  shows "persistMerchantMessage now input deps s = (Inr Duplicate, s)"
  using assms by (simp add: persistMerchantMessage_def)

lemma redelivered:
  assumes "persistMerchantMessage now input deps s = (Inr Stored, s')" and "given (mm_waMessageId input) = Some i"
  shows "persistMerchantMessage now' input deps s' = (Inr Duplicate, s')"
  using assms(2) stored_then_known [OF assms] by (rule known_is_skipped)

end

section \<open>The default dependencies\<close>

definition merchant_customer_update :: "string option \<Rightarrow> string option \<Rightarrow> customer_row \<Rightarrow> customer_row" where
  "merchant_customer_update waJid pushName c =
     (let c1 = (case waJid of None \<Rightarrow> c | Some j \<Rightarrow> c\<lparr>customer_waJid := Some j\<rparr>)
      in (case pushName of None \<Rightarrow> c1 | Some n \<Rightarrow> c1\<lparr>customer_name := Some n\<rparr>))"

definition last_chars :: "nat \<Rightarrow> string \<Rightarrow> string" where
  "last_chars n s = drop (length s - n) s"

definition whatsapp_name :: "string option \<Rightarrow> string \<Rightarrow> string" where
  "whatsapp_name pushName phone = coalesce (given pushName) (''WhatsApp '' @ last_chars 6 phone)"

definition upsertByPhone :: "env \<Rightarrow> string \<Rightarrow> string \<Rightarrow> string option \<Rightarrow> string option \<Rightarrow> world \<Rightarrow> exn + (customer_row \<times> world)" where
  "upsertByPhone E merchantId phone waJid pushName w =
     upsert_customer E merchantId phone (merchant_customer_update (given waJid) (given pushName))
       (Some (whatsapp_name pushName phone)) (given waJid) w"

definition merchant_opts :: "string \<Rightarrow> int \<Rightarrow> string option \<Rightarrow> message_opts" where
  "merchant_opts contentType createdAt waId =
     no_opts\<lparr>mo_direction := Some OUT, mo_sender := Some MERCHANT, mo_contentType := Some contentType,
             mo_createdAt := Some createdAt, mo_whatsappMessageId := waId\<rparr>"

definition merchantDeps :: "env \<Rightarrow> world MerchantMessageDeps" where
  "merchantDeps E =
     \<lparr>messageFindByWaId = (\<lambda>i w. map_option msg_id (find_first (\<lambda>m. msg_whatsappMessageId m = Some i) (messages w))),
      messageFindRecentOwn = (\<lambda>v content since w.
        map_option msg_id (find_first (\<lambda>m. msg_conversationId m = v \<and> msg_content m = content \<and> msg_direction m = OUT \<and>
          msg_sender m \<noteq> MERCHANT \<and> since \<le> msg_createdAt m) (messages w))),
      conversationGetByPhone = (\<lambda>m p w. map_option conv_id (getByPhone m p w)),
      conversationGetByJid = (\<lambda>m j w. map_option conv_id (getByJid m j w)),
      customerUpsertByPhone = (\<lambda>m p j n w.
        (case upsertByPhone E m p j n w of Inl e \<Rightarrow> Inl e | Inr (c, w') \<Rightarrow> Inr ((customer_id c, customer_phone c), w'))),
      conversationFindOrCreate = (\<lambda>m c p w.
        (case findOrCreateByCustomer E m c p w of Inl e \<Rightarrow> Inl e | Inr (v, w') \<Rightarrow> Inr (conv_id v, w'))),
      merchantAddMessage = (\<lambda>v content ty t waId w.
        (case addMessage E v ''agent'' content (merchant_opts ty t waId) w of (res, w') \<Rightarrow> (map_sum id msg_id res, w')))\<rparr>"

definition storeMerchantMessage :: "env \<Rightarrow> MerchantMessageInput \<Rightarrow> world \<Rightarrow> (exn + MerchantMessageResult) \<times> world" where
  "storeMerchantMessage E input w = persistMerchantMessage (clock E) input (merchantDeps E) w"

interpretation mm: merchant_message "merchantDeps E" for E
proof
  fix v content ty t i s m s'
  assume "merchantAddMessage (merchantDeps E) v content ty t (Some i) s = (Inr m, s')"
  then obtain r where r: "addMessage E v ''agent'' content (merchant_opts ty t (Some i)) s = (Inr r, s')"
    by (auto simp: merchantDeps_def map_sum_def split: sum.splits prod.splits)
  have "r \<in> set (messages s')" "msg_whatsappMessageId r = Some i"
    using addMessage_Inr [OF r] by (auto simp: merchant_opts_def message_input_of_def)
  then have "find_first (\<lambda>m. msg_whatsappMessageId m = Some i) (messages s') \<noteq> None"
    by (auto simp: find_first_None)
  then show "messageFindByWaId (merchantDeps E) i s' \<noteq> None" by (simp add: merchantDeps_def)
qed

section \<open>Effect of the default dependencies\<close>

lemma merchant_customer_update_keys [simp]:
  "customer_id (merchant_customer_update j n c) = customer_id c"
  "customer_merchantId (merchant_customer_update j n c) = customer_merchantId c"
  "customer_phone (merchant_customer_update j n c) = customer_phone c"
  by (simp_all add: merchant_customer_update_def Let_def split: option.split)

lemma upsert_customer_sessions:
  "upsert_customer E m phone f name jid w = Inr (c, w') \<Longrightarrow> whatsAppSessions w' = whatsAppSessions w"
  by (auto simp: upsert_customer_def update_in_Inr put_customers_def create_customer_def Let_def
      split: option.splits if_splits)

lemma findOrCreate_sessions:
  "findOrCreateByCustomer E m i phone w = Inr (c, w') \<Longrightarrow> whatsAppSessions w' = whatsAppSessions w"
  by (auto simp: findOrCreateByCustomer_def create_conversation_def Let_def split: option.splits if_splits)

lemma addMessage_sessions: "addMessage E v role content opts w = (res, w') \<Longrightarrow> whatsAppSessions w' = whatsAppSessions w"
  by (auto simp: addMessage_def create_message_def Let_def split: if_splits)

lemma merchant_conversation_sessions:
  "merchant_conversation input (merchantDeps E) w = Inr (v, w') \<Longrightarrow> whatsAppSessions w' = whatsAppSessions w"
  by (auto simp: merchant_conversation_def merchantDeps_def upsertByPhone_def split: option.splits if_splits sum.splits
      dest!: upsert_customer_sessions findOrCreate_sessions)

lemma storeMerchantMessage_sessions:
  "storeMerchantMessage E input w = (res, w') \<Longrightarrow> whatsAppSessions w' = whatsAppSessions w"
proof -
  assume run: "storeMerchantMessage E input w = (res, w')"
  show ?thesis
  proof (cases "merchant_conversation input (merchantDeps E) w")
    case (Inl e)
    then show ?thesis using run by (auto simp: storeMerchantMessage_def persistMerchantMessage_def Let_def split: if_splits)
  next
    case (Inr p)
    obtain v w1 where p: "p = (v, w1)" by fastforce
    have "whatsAppSessions w1 = whatsAppSessions w" using merchant_conversation_sessions Inr p by blast
    moreover have "w' = w \<or> w' = w1 \<or> (\<exists>r. addMessage E v ''agent'' (merchant_content input)
        (merchant_opts (mm_contentType input) (mm_createdAt input) (given (mm_waMessageId input))) w1 = (r, w'))"
      using run Inr p
      by (auto simp: storeMerchantMessage_def persistMerchantMessage_def Let_def merchantDeps_def
          split: if_splits sum.splits prod.splits)
    ultimately show ?thesis by (auto dest: addMessage_sessions)
  qed
qed

lemma getByPhone_Some: "getByPhone m p w = Some c \<Longrightarrow> c \<in> set (conversations w) \<and> conv_merchantId c = m"
  by (auto simp: getByPhone_def conversation_of_customer_def Let_def split: option.splits dest!: find_first_SomeD)

lemma getByJid_Some: "getByJid m p w = Some c \<Longrightarrow> c \<in> set (conversations w) \<and> conv_merchantId c = m"
  by (auto simp: getByJid_def conversation_of_customer_def split: option.splits dest!: find_first_SomeD)

end
