(* ===== verification/Webhook.thy ===== *)
theory Webhook
  imports Media Merchant_Message
begin

text \<open>
  The webhook of \<open>back/src/modules/whatsapp/whatsapp.controller.ts\<close>: what the back end does when the gateway
  reports a received message, a sent message or a change of a session.  The properties of the payload have the
  types the code casts them to; a property of another type counts as missing.
\<close>

section \<open>Helpers\<close>

definition mime_base :: "string \<Rightarrow> string" where
  "mime_base mime = ascii_lower (js_trim (takeWhile (\<lambda>c. c \<noteq> CHR '';'') mime))"

definition mimeToExt :: "string \<Rightarrow> string" where
  "mimeToExt mime =
     coalesce
       (map_of [(''image/jpeg'', ''.jpg''), (''image/png'', ''.png''), (''image/gif'', ''.gif''), (''image/webp'', ''.webp''),
                (''audio/ogg'', ''.ogg''), (''audio/mpeg'', ''.mp3''), (''audio/mp4'', ''.m4a''), (''video/mp4'', ''.mp4''),
                (''video/3gpp'', ''.3gp''), (''application/pdf'', ''.pdf'')] (mime_base mime)) ''.bin''"

definition mapWaType :: "string \<Rightarrow> string" where
  "mapWaType ty =
     coalesce
       (map_of [(''text'', ''text''), (''image'', ''image''), (''video'', ''video''), (''audio'', ''audio''), (''voice'', ''audio''),
                (''ptt'', ''audio''), (''document'', ''document''), (''sticker'', ''image'')] ty) ''text''"

definition WEBHOOK_EVENTS :: "string list" where
  "WEBHOOK_EVENTS = [''message.received'', ''message.sent'', ''session.status'']"

text \<open>\<open>JSON.stringify\<close> of a value.\<close>

fun json_stringify :: "env \<Rightarrow> jval \<Rightarrow> string" where
  "json_stringify E JNull = ''null''"
| "json_stringify E (JBool b) = (if b then ''true'' else ''false'')"
| "json_stringify E (JNum x) = num_text E x"
| "json_stringify E (JStr s) = quote s"
| "json_stringify E (JArr vs) = ''['' @ join '','' (map (json_stringify E) vs) @ '']''"
| "json_stringify E (JObj e) = ''{'' @ join '','' (map (\<lambda>p. quote (fst p) @ '':'' @ json_stringify E (snd p)) e) @ ''}''"

text \<open>\<open>timingSafeEqual\<close> throws on texts of different length.\<close>

definition verifyHmac :: "env \<Rightarrow> string \<Rightarrow> string \<Rightarrow> exn + bool" where
  "verifyHmac E payload signatureHeader =
     (if cfg_webhookSecret E = [] then Inr False
      else
        (let computed = hmac E (cfg_webhookSecret E) payload
         in if length computed \<noteq> length signatureHeader then Inl (Error ''Input buffers must have the same byte length'')
            else Inr (computed = signatureHeader)))"

definition extractPhone :: "string \<Rightarrow> string" where
  "extractPhone from = stripSuffix from"

definition resolveSenderPhone ::
  "env \<Rightarrow> string \<Rightarrow> string option \<Rightarrow> string option \<Rightarrow> world \<Rightarrow> (exn + string option) \<times> world" where
  "resolveSenderPhone E sessionId from senderPhone w =
     (case given senderPhone of
        Some p \<Rightarrow> (Inr (Some (strip_plus p)), w)
      | None \<Rightarrow>
          (case from of
             None \<Rightarrow> (Inl (Error ''TypeError''), w)
           | Some f \<Rightarrow>
               (let plain = extractPhone f
                in if str_includes ''@lid'' f then
                     (case resolveContactPhone E sessionId plain w of
                        (Some p, w') \<Rightarrow> (Inr (Some (strip_plus p)), w')
                      | (None, w') \<Rightarrow> (Inr (given (Some plain)), w'))
                   else (Inr (given (Some plain)), w))))"

section \<open>A received message\<close>

text \<open>The payload of \<open>message.received\<close> and \<open>message.sent\<close>.\<close>

record media_part =
  md_mimetype :: "string option"
  md_data :: "string option"
  md_omitted :: bool

record wa_message =
  wm_from :: "string option"
  wm_to :: "string option"
  wm_id :: "string option"
  wm_body :: string
  wm_type :: string
  wm_timestamp :: "rat option"
  wm_senderPhone :: "string option"
  wm_isLidSender :: bool
  wm_pushName :: "string option"
  wm_media :: "media_part option"

definition js_truthy_field :: "string \<Rightarrow> jval \<Rightarrow> bool" where
  "js_truthy_field k v = (case json_field k v of None \<Rightarrow> False | Some x \<Rightarrow> truthy x)"

definition wa_message_of :: "jval \<Rightarrow> wa_message" where
  "wa_message_of data =
     \<lparr>wm_from = json_str ''from'' data, wm_to = json_str ''to'' data, wm_id = given (json_str ''id'' data),
      wm_body = coalesce (json_str ''body'' data) [],
      wm_type = mapWaType (coalesce (given (json_str ''type'' data)) ''text''),
      wm_timestamp = (case json_field ''timestamp'' data of Some (JNum x) \<Rightarrow> (if x = 0 then None else Some x) | _ \<Rightarrow> None),
      wm_senderPhone = json_str ''senderPhone'' data,
      wm_isLidSender = (json_field ''isLidSender'' data = Some (JBool True)),
      wm_pushName = (case json_field ''contact'' data of None \<Rightarrow> None | Some c \<Rightarrow> given (json_str ''pushName'' c)),
      wm_media = map_option (\<lambda>m. \<lparr>md_mimetype = given (json_str ''mimetype'' m), md_data = given (json_str ''data'' m),
                                  md_omitted = js_truthy_field ''omitted'' m\<rparr>) (json_field ''media'' data)\<rparr>"

definition message_time :: "env \<Rightarrow> wa_message \<Rightarrow> int" where
  "message_time E d = (case wm_timestamp d of None \<Rightarrow> clock E | Some x \<Rightarrow> \<lfloor>x * 1000\<rfloor>)"

text \<open>
  The conversation the message belongs to.  An unknown sender is ignored unless it has only a LID, which
  becomes a customer of its own.
\<close>

definition conversation_for :: "env \<Rightarrow> string \<Rightarrow> customer_row \<Rightarrow> world \<Rightarrow> (exn + conversation_row option) \<times> world" where
  "conversation_for E merchantId c w =
     (case findOrCreateByCustomer E merchantId (customer_id c) (customer_phone c) w of
        Inl e \<Rightarrow> (Inl e, w)
      | Inr (v, w') \<Rightarrow> (Inr (Some v), w'))"

definition sender_conversation ::
  "env \<Rightarrow> string \<Rightarrow> string \<Rightarrow> wa_message \<Rightarrow> world \<Rightarrow> (exn + conversation_row option) \<times> world" where
  "sender_conversation E merchantId phone d w =
     (case getByPhone merchantId phone w of
        Some c \<Rightarrow> (Inr (Some c), w)
      | None \<Rightarrow>
          if wm_isLidSender d \<and> wm_from d = None then (Inl (Error ''TypeError''), w)
          else
          (let lidJid = (if wm_isLidSender d \<and> isLid (coalesce (wm_from d) []) then wm_from d else None)
           in (case (case lidJid of Some j \<Rightarrow> getByJid merchantId j w | None \<Rightarrow> None) of
                 Some c \<Rightarrow> (Inr (Some c), w)
               | None \<Rightarrow>
                   (case lidJid of
                      Some j \<Rightarrow>
                        (case upsertByPhone E merchantId (extractPhone j) (Some j) (wm_pushName d) w of
                           Inl e \<Rightarrow> (Inl e, w)
                         | Inr (c, w1) \<Rightarrow> conversation_for E merchantId c w1)
                    | None \<Rightarrow>
                        (case find_first (\<lambda>c. customer_merchantId c = merchantId \<and>
                                 (customer_phone c = ''+'' @ phone \<or> customer_phone c = phone)) (customers w) of
                           None \<Rightarrow> (Inr None, w)
                         | Some c \<Rightarrow> conversation_for E merchantId c w)))))"

record stored_media =
  sm_mediaUrl :: "string option"
  sm_mimeType :: "string option"
  sm_messageType :: string

definition media_kind :: "string \<Rightarrow> string \<Rightarrow> string" where
  "media_kind mime msgType =
     (if starts_with ''audio/'' (mime_base mime) then ''voice''
      else if starts_with ''image/'' (mime_base mime) then ''image''
      else if msgType = ''audio'' then ''voice''
      else if msgType = ''image'' then ''image''
      else ''text'')"

definition MEDIA_DIR :: string where
  "MEDIA_DIR = ''/app/uploads/media''"

definition store_media :: "env \<Rightarrow> string \<Rightarrow> wa_message \<Rightarrow> world \<Rightarrow> stored_media \<times> world" where
  "store_media E conversationId d w =
     (case wm_media d of
        None \<Rightarrow> (\<lparr>sm_mediaUrl = None, sm_mimeType = None, sm_messageType = ''text''\<rparr>, w)
      | Some m \<Rightarrow>
          (case (md_data m, md_mimetype m, md_omitted m) of
             (Some bytes, Some mime, False) \<Rightarrow>
               (let filename = conversationId @ ''-'' @ num_text E (of_int (clock E)) @ mimeToExt mime
                in (\<lparr>sm_mediaUrl = Some (''/uploads/media/'' @ filename), sm_mimeType = Some mime,
                     sm_messageType = media_kind mime (wm_type d)\<rparr>,
                    w\<lparr>mediaFiles := (MEDIA_DIR @ ''/'' @ filename, bytes) # mediaFiles w\<rparr>))
           | _ \<Rightarrow> (\<lparr>sm_mediaUrl = None, sm_mimeType = None, sm_messageType = ''text''\<rparr>, w)))"

definition received_content :: "wa_message \<Rightarrow> string" where
  "received_content d =
     (if wm_body d \<noteq> [] then wm_body d
      else if wm_type d = ''text'' then [] else ''['' @ wm_type d @ '' message]'')"

definition received_opts :: "env \<Rightarrow> wa_message \<Rightarrow> stored_media \<Rightarrow> message_opts" where
  "received_opts E d sm =
     no_opts\<lparr>mo_contentType := Some (wm_type d), mo_mediaUrl := sm_mediaUrl sm, mo_mimeType := sm_mimeType sm,
             mo_messageType := Some (sm_messageType sm), mo_filePath := sm_mediaUrl sm,
             mo_createdAt := Some (message_time E d), mo_whatsappMessageId := wm_id d\<rparr>"

definition set_content :: "string \<Rightarrow> string \<Rightarrow> world \<Rightarrow> exn + world" where
  "set_content i t w =
     map_sum id snd (update_message (\<lambda>m. msg_id m = i) (\<lambda>m. m\<lparr>msg_content := t, msg_text := t\<rparr>) w)"

text \<open>
  The text of a voice note or picture, or a placeholder when the model fails.
\<close>

definition media_text :: "env \<Rightarrow> stored_media \<Rightarrow> world \<Rightarrow> string option" where
  "media_text E sm w =
     (case (sm_mediaUrl sm, sm_mimeType sm) of
        (Some url, Some mime) \<Rightarrow>
          (if sm_messageType sm = ''voice'' then
             Some (coalesce (transcribeAudio E (''/app'' @ url) mime w) ''[voice message - transcription failed]'')
           else if sm_messageType sm = ''image'' then
             Some (case captionImage E (''/app'' @ url) mime w of
                     Some r \<Rightarrow> (case ic_description r of JStr s \<Rightarrow> s | _ \<Rightarrow> ''[image - could not process]'')
                   | None \<Rightarrow> ''[image - could not process]'')
           else None)
      | _ \<Rightarrow> None)"

definition receive_message :: "env \<Rightarrow> conversation_row \<Rightarrow> wa_message \<Rightarrow> world \<Rightarrow> (exn + string reply) \<times> world" where
  "receive_message E conversation d w =
     (case store_media E (conv_id conversation) d w of (sm, w1) \<Rightarrow>
       (case addMessage E (conv_id conversation) ''customer'' (received_content d) (received_opts E d sm) w1 of
          (Inl e, w2) \<Rightarrow> (Inl e, w2)
        | (Inr saved, w2) \<Rightarrow>
            (case media_text E sm w2 of
               None \<Rightarrow> (Inr (Reply 200 ''received''), enqueueMessageJob (msg_id saved) w2)
             | Some t \<Rightarrow>
                 (case set_content (msg_id saved) t w2 of
                    Inl e \<Rightarrow> (Inl e, w2)
                  | Inr w3 \<Rightarrow> (Inr (Reply 200 ''received''), enqueueMessageJob (msg_id saved) w3)))))"

definition known_message :: "string option \<Rightarrow> world \<Rightarrow> bool" where
  "known_message i w = (i \<noteq> None \<and> list_ex (\<lambda>m. msg_whatsappMessageId m = i) (messages w))"

text \<open>\<open>findUnique\<close> without a value for the unique column is refused.\<close>

definition session_by_id :: "string option \<Rightarrow> world \<Rightarrow> exn + session_row option" where
  "session_by_id sessionId w =
     (case sessionId of
        None \<Rightarrow> Inl validation_error
      | Some i \<Rightarrow> Inr (find_first (\<lambda>s. session_sessionId s = i) (whatsAppSessions w)))"

definition onMessageReceived :: "env \<Rightarrow> string option \<Rightarrow> wa_message \<Rightarrow> world \<Rightarrow> (exn + string reply) \<times> world" where
  "onMessageReceived E sessionId d w =
     (case resolveSenderPhone E (coalesce sessionId ''undefined'') (wm_from d) (wm_senderPhone d) w of
        (Inl e, w1) \<Rightarrow> (Inl e, w1)
      | (Inr phone, w1) \<Rightarrow>
          (case session_by_id sessionId w1 of
             Inl e \<Rightarrow> (Inl e, w1)
           | Inr None \<Rightarrow> (Inr (Reply 200 ''ignored''), w1)
           | Inr (Some s) \<Rightarrow>
               (if known_message (wm_id d) w1 then (Inr (Reply 200 ''duplicate''), w1)
                else
                  (case sender_conversation E (session_merchantId s) (coalesce phone []) d w1 of
                     (Inl e, w2) \<Rightarrow> (Inl e, w2)
                   | (Inr None, w2) \<Rightarrow> (Inr (Reply 200 ''ignored''), w2)
                   | (Inr (Some c), w2) \<Rightarrow> receive_message E c d w2))))"

section \<open>A change of a session\<close>

definition put_sessions :: "session_row list \<Rightarrow> world \<Rightarrow> world" where
  "put_sessions rs w = w\<lparr>whatsAppSessions := rs\<rparr>"

definition set_session :: "string \<Rightarrow> (session_row \<Rightarrow> session_row) \<Rightarrow> world \<Rightarrow> world" where
  "set_session i f w = snd (update_many whatsAppSessions put_sessions (\<lambda>s. session_sessionId s = i) f w)"

definition refresh_phone :: "env \<Rightarrow> string \<Rightarrow> session_row option \<Rightarrow> world \<Rightarrow> world" where
  "refresh_phone E i s w =
     (case getSession E i w of
        (Inl _, w1) \<Rightarrow> w1
      | (Inr remote, w1) \<Rightarrow>
          (case given (json_str ''phone'' remote) of
             None \<Rightarrow> w1
           | Some p \<Rightarrow>
               (if (case s of None \<Rightarrow> None | Some x \<Rightarrow> session_phoneNumber x) \<noteq> Some p
                then set_session i (\<lambda>x. x\<lparr>session_phoneNumber := Some p\<rparr>) w1 else w1)))"

definition status_notification :: "env \<Rightarrow> string \<Rightarrow> string \<Rightarrow> string option \<Rightarrow> world \<Rightarrow> world" where
  "status_notification E merchantId previous status w =
     (if previous \<noteq> ''disconnected'' \<and> status = Some ''disconnected'' then
        snd (create_notification E merchantId ''whatsapp_disconnected''
          (''WhatsApp D'' @ utf8_text [0xE9] @ ''connect'' @ utf8_text [0xE9])
          (''Votre session WhatsApp a '' @ utf8_text [0xE9] @ ''t'' @ utf8_text [0xE9] @ '' d'' @ utf8_text [0xE9] @ ''connect'' @ utf8_text [0xE9] @ ''e. Reconnectez-la pour continuer '' @ utf8_text [0xE0] @ '' recevoir des messages.'')
          (Some ''/dashboard/settings?tab=whatsapp'') w)
      else if previous = ''disconnected'' \<and> status = Some ''connected'' then
        snd (create_notification E merchantId ''whatsapp_reconnected''
          (''WhatsApp Reconnect'' @ utf8_text [0xE9])
          (''Votre session WhatsApp est de nouveau connect'' @ utf8_text [0xE9] @ ''e.'') None w)
      else w)"

definition onSessionStatus :: "env \<Rightarrow> string option \<Rightarrow> string option \<Rightarrow> world \<Rightarrow> (exn + string reply) \<times> world" where
  "onSessionStatus E sessionId rawStatus w =
     (case session_by_id sessionId w of
        Inl e \<Rightarrow> (Inl e, w)
      | Inr s \<Rightarrow>
          (let status = (if rawStatus = Some ''ready'' then Some ''connected'' else rawStatus);
               i = coalesce sessionId [];
               w1 = (case status of None \<Rightarrow> w | Some st \<Rightarrow> set_session i (\<lambda>x. x\<lparr>session_status := st\<rparr>) w);
               w2 = (if status = Some ''connected'' then refresh_phone E i s w1 else w1)
           in (Inr (Reply 200 ''ok''),
               (case s of
                  None \<Rightarrow> w2
                | Some x \<Rightarrow> status_notification E (session_merchantId x) (session_status x) status w2))))"

section \<open>A sent message\<close>

definition merchant_input :: "env \<Rightarrow> string \<Rightarrow> wa_message \<Rightarrow> MerchantMessageInput" where
  "merchant_input E merchantId d =
     \<lparr>mm_merchantId = merchantId, mm_to = coalesce (wm_to d) [], mm_phone = extractPhone (coalesce (wm_to d) []),
      mm_contentType = wm_type d, mm_body = wm_body d, mm_waMessageId = wm_id d, mm_pushName = wm_pushName d,
      mm_createdAt = message_time E d\<rparr>"

definition onMessageSent :: "env \<Rightarrow> string option \<Rightarrow> wa_message \<Rightarrow> world \<Rightarrow> (exn + string reply) \<times> world" where
  "onMessageSent E sessionId d w =
     (case session_by_id sessionId w of
        Inl e \<Rightarrow> (Inl e, w)
      | Inr None \<Rightarrow> (Inr (Reply 200 ''ignored''), w)
      | Inr (Some s) \<Rightarrow>
          (case storeMerchantMessage E (merchant_input E (session_merchantId s) d) w of
             (Inl e, w') \<Rightarrow> (Inl e, w')
           | (Inr Duplicate, w') \<Rightarrow> (Inr (Reply 200 ''duplicate''), w')
           | (Inr Stored, w') \<Rightarrow> (Inr (Reply 200 ''stored''), w')))"

section \<open>The webhook\<close>

text \<open>
  Headers are looked up by their lower-case name.  Outside development the signature is checked first.
\<close>

definition header :: "string \<Rightarrow> (string \<times> string) list \<Rightarrow> string option" where
  "header name hs = map_of (map (\<lambda>(k, v). (ascii_lower k, v)) hs) name"

definition dispatch_event :: "env \<Rightarrow> jval \<Rightarrow> world \<Rightarrow> (exn + string reply) \<times> world" where
  "dispatch_event E body w =
     (let event = coalesce (json_str ''event'' body) []; sessionId = json_str ''sessionId'' body
      in if event \<notin> set WEBHOOK_EVENTS then (Inr (Reply 200 ''ignored''), w)
         else
           (case json_field ''data'' body of
              None \<Rightarrow> (Inl (Error ''TypeError''), w)
            | Some JNull \<Rightarrow> (Inl (Error ''TypeError''), w)
            | Some data \<Rightarrow>
                (if event = ''message.received'' then onMessageReceived E sessionId (wa_message_of data) w
                 else if event = ''session.status'' then onSessionStatus E sessionId (json_str ''status'' data) w
                 else onMessageSent E sessionId (wa_message_of data) w)))"

definition handleWebhook :: "env \<Rightarrow> (string \<times> string) list \<Rightarrow> jval \<Rightarrow> world \<Rightarrow> (exn + string reply) \<times> world" where
  "handleWebhook E headers body w =
     (if cfg_isDev E then dispatch_event E body w
      else
        (case given (header ''x-hub-signature-256'' headers) of
           None \<Rightarrow> (Inr (Refuse 401 ''Invalid webhook signature''), w)
         | Some signature \<Rightarrow>
             (case verifyHmac E (json_stringify E body) signature of
                Inl e \<Rightarrow> (Inl e, w)
              | Inr False \<Rightarrow> (Inr (Refuse 401 ''Invalid webhook signature''), w)
              | Inr True \<Rightarrow> dispatch_event E body w)))"

end
