(* ===== verification/Webhook_Effects.thy ===== *)
theory Webhook_Effects
  imports Webhook Sample
begin

text \<open>
  What a webhook does to the state: one message and one job per received message, nothing on redelivery,
  and no effect on the data of another merchant.
\<close>

section \<open>Frames\<close>

lemma world_ok_log [simp]: "world_ok E (w\<lparr>owLog := L\<rparr>) = world_ok E w"
  by (simp add: world_ok_def schema_ok_def fresh_ids_def)

lemma world_ok_media [simp]: "world_ok E (w\<lparr>mediaFiles := L\<rparr>) = world_ok E w"
  by (simp add: world_ok_def schema_ok_def fresh_ids_def)

lemma world_ok_message_job [simp]: "world_ok E (enqueueMessageJob i w) = world_ok E w"
  by (simp add: world_ok_def schema_ok_def fresh_ids_def enqueueMessageJob_def)

lemma request_log: "request E m p b w = (r, w') \<Longrightarrow> \<exists>L. w' = w\<lparr>owLog := L\<rparr>"
  by (auto simp: request_def)

lemma resolveContactPhone_log: "resolveContactPhone E s c w = (r, w') \<Longrightarrow> \<exists>L. w' = w\<lparr>owLog := L\<rparr>"
  by (auto simp: resolveContactPhone_def split: prod.splits sum.splits dest: request_log)

lemma same_log: "\<exists>L. w = w\<lparr>owLog := L\<rparr>"
  by (intro exI [of _ "owLog w"]) simp

lemma resolveSenderPhone_log:
  "resolveSenderPhone E s from sp w = (r, w') \<Longrightarrow> \<exists>L. w' = w\<lparr>owLog := L\<rparr>"
  using same_log [of w]
  by (auto simp: resolveSenderPhone_def Let_def split: option.splits if_splits prod.splits dest: resolveContactPhone_log)

text \<open>Everything but the customers, conversations and generated ids of one merchant.\<close>

definition only_contacts :: "string \<Rightarrow> world \<Rightarrow> world \<Rightarrow> bool" where
  "only_contacts m w w' \<longleftrightarrow>
     (\<exists>C V n. w' = w\<lparr>customers := C, conversations := V, nextId := n\<rparr> \<and> nextId w \<le> n \<and>
        filter (\<lambda>c. customer_merchantId c \<noteq> m) C = filter (\<lambda>c. customer_merchantId c \<noteq> m) (customers w) \<and>
        filter (\<lambda>c. conv_merchantId c \<noteq> m) V = filter (\<lambda>c. conv_merchantId c \<noteq> m) (conversations w))"

lemma only_contacts_refl [simp]: "only_contacts m w w"
  unfolding only_contacts_def by (intro exI [of _ "customers w"] exI [of _ "conversations w"] exI [of _ "nextId w"]) simp

lemma only_contacts_trans: "only_contacts m w w1 \<Longrightarrow> only_contacts m w1 w2 \<Longrightarrow> only_contacts m w w2"
  unfolding only_contacts_def by (elim exE conjE) (force intro: order_trans)

lemma findOrCreate_contacts:
  assumes "world_ok E w" and "findOrCreateByCustomer E m i phone w = Inr (c, w')"
  shows "only_contacts m w w'"
proof (cases "find_first (\<lambda>c. conv_merchantId c = m \<and> conv_customerId c = i) (conversations w)")
  case None
  then have new: "create_conversation E m i phone None w = Inr (c, w')"
    using assms(2) by (simp add: findOrCreateByCustomer_def)
  note F = create_conversation_Inr [OF new]
  then show ?thesis unfolding only_contacts_def
    by (intro exI [of _ "customers w"] exI [of _ "conversations w @ [c]"] exI [of _ "Suc (nextId w)"]) simp
next
  case (Some q)
  then have "w' = w" using assms(2) by (simp add: findOrCreateByCustomer_def)
  then show ?thesis by simp
qed

lemma upsert_contacts:
  assumes "world_ok E w" and "\<And>c. customer_id (f c) = customer_id c"
    "\<And>c. customer_merchantId (f c) = customer_merchantId c" "\<And>c. customer_phone (f c) = customer_phone c"
    and "upsert_customer E m phone f name jid w = Inr (c, w')"
  shows "world_ok E w' \<and> c \<in> set (customers w') \<and> customer_merchantId c = m \<and> only_contacts m w w'"
proof -
  obtain c0 C n where F: "upsert_customer E m phone f name jid w = Inr (c0, w\<lparr>customers := C, nextId := n\<rparr>)"
    "c0 \<in> set C" "customer_merchantId c0 = m" "nextId w \<le> n" "world_ok E (w\<lparr>customers := C, nextId := n\<rparr>)"
    "filter (\<lambda>c. customer_merchantId c \<noteq> m) C = filter (\<lambda>c. customer_merchantId c \<noteq> m) (customers w)"
    by (rule upsert_customer_effect [OF assms(1), where f = f]) (use assms(2-4) in blast)+
  then have "w' = w\<lparr>customers := C, nextId := n\<rparr>" "c = c0" using assms(5) by simp_all
  moreover have "only_contacts m w (w\<lparr>customers := C, nextId := n\<rparr>)"
    unfolding only_contacts_def using F(4,6)
    by (intro exI [of _ C] exI [of _ "conversations w"] exI [of _ n]) simp
  ultimately show ?thesis using F by simp
qed

lemma conversation_for_effect:
  assumes "world_ok E w" and "conversation_for E m c w = (Inr (Some v), w')"
  shows "world_ok E w' \<and> only_contacts m w w' \<and> v \<in> set (conversations w') \<and> conv_merchantId v = m"
proof -
  have f: "findOrCreateByCustomer E m (customer_id c) (customer_phone c) w = Inr (v, w')"
    using assms(2) by (auto simp: conversation_for_def split: sum.splits)
  show ?thesis using findOrCreate_Inr [OF assms(1) f] findOrCreate_contacts [OF assms(1) f] by simp
qed

lemma sender_conversation_effect:
  assumes "world_ok E w" and "sender_conversation E m phone d w = (Inr (Some v), w')"
  shows "world_ok E w' \<and> only_contacts m w w' \<and> v \<in> set (conversations w') \<and> conv_merchantId v = m"
proof -
  consider (found) "w' = w" "v \<in> set (conversations w)" "conv_merchantId v = m"
    | (known) c where "conversation_for E m c w = (Inr (Some v), w')"
    | (new) j c w1 where "upsertByPhone E m (extractPhone j) (Some j) (wm_pushName d) w = Inr (c, w1)"
        "conversation_for E m c w1 = (Inr (Some v), w')"
    using assms(2)
    by (auto simp: sender_conversation_def Let_def split: option.splits if_splits sum.splits
        dest!: getByPhone_Some getByJid_Some)
  then show ?thesis
  proof cases
    case found
    then show ?thesis using assms(1) by simp
  next
    case known
    then show ?thesis using conversation_for_effect [OF assms(1)] by blast
  next
    case new
    have "world_ok E w1 \<and> only_contacts m w w1"
      using upsert_contacts [OF assms(1) _ _ _ new(1) [unfolded upsertByPhone_def]] by simp
    then show ?thesis using conversation_for_effect [OF _ new(2)] only_contacts_trans by blast
  qed
qed

section \<open>Storing the message\<close>

lemma known_message_taken: "known_message i w = wa_id_taken i None w"
  by (auto simp: known_message_def wa_id_taken_def list_ex_iff)

lemma store_media_frame:
  "store_media E v d w = (sm, w') \<Longrightarrow> \<exists>F. w' = w\<lparr>mediaFiles := F\<rparr>"
  by (cases "wm_media d")
    (auto simp: store_media_def Let_def split: option.splits bool.splits intro: exI [of _ "mediaFiles w"])

lemma filter_touch:
  assumes "world_ok E w" and "v \<in> set (conversations w)"
  shows "filter (\<lambda>c. conv_merchantId c \<noteq> conv_merchantId v) (conversations (touch_conversation (conv_id v) t w)) =
    filter (\<lambda>c. conv_merchantId c \<noteq> conv_merchantId v) (conversations w)"
proof -
  have one: "c = v" if "c \<in> set (conversations w)" "conv_id c = conv_id v" for c
    using distinct_map_eq [of conv_id "conversations w" c v] that assms
    by (simp add: world_ok_def schema_ok_def unique_by_def)
  let ?f = "\<lambda>c. c\<lparr>conv_lastMessageAt := Some t\<rparr>"
  have "update_where (\<lambda>c. conv_id c = conv_id v) ?f (conversations w) =
      update_where (\<lambda>c. conv_id c = conv_id v \<and> conv_merchantId c = conv_merchantId v) ?f (conversations w)"
    unfolding update_where_def by (rule map_cong [OF refl]) (use one in auto)
  moreover have "filter (\<lambda>c. conv_merchantId c \<noteq> conv_merchantId v)
      (update_where (\<lambda>c. conv_id c = conv_id v \<and> conv_merchantId c = conv_merchantId v) ?f (conversations w)) =
      filter (\<lambda>c. conv_merchantId c \<noteq> conv_merchantId v) (conversations w)"
    by (rule filter_update_where) simp_all
  ultimately show ?thesis by (simp add: touch_conversation_def)
qed

lemma set_content_new:
  assumes "fresh_ids E w" and "msg_id m = cuid E (nextId w)" and "messages w' = messages w @ [m]"
  shows "set_content (msg_id m) t w' = Inr (w'\<lparr>messages := messages w @ [m\<lparr>msg_content := t, msg_text := t\<rparr>]\<rparr>)"
proof -
  have new: "\<not> msg_id x = msg_id m" if "x \<in> set (messages w)" for x
    using assms(1,2) that by (metis fresh_ids_def imageI order_refl)
  then have "find_first (\<lambda>x. msg_id x = msg_id m) (messages w) = None"
    by (simp add: find_first_None)
  moreover have "find_first (\<lambda>x. msg_id x = msg_id m) [m] = Some m" by (simp add: find_first_def)
  ultimately have "find_first (\<lambda>x. msg_id x = msg_id m) (messages w') = Some m"
    by (simp add: assms(3) find_first_append)
  moreover have "update_where (\<lambda>x. msg_id x = msg_id m) (\<lambda>x. x\<lparr>msg_content := t, msg_text := t\<rparr>) (messages w') =
      messages w @ [m\<lparr>msg_content := t, msg_text := t\<rparr>]"
    using new by (simp add: assms(3) update_where_def map_idI)
  ultimately show ?thesis by (simp add: set_content_def update_in_def put_messages_def)
qed

text \<open>A message the customer sent, as the table holds it.\<close>

definition inbound :: "conversation_row \<Rightarrow> wa_message \<Rightarrow> message_row \<Rightarrow> bool" where
  "inbound v d m \<longleftrightarrow>
     msg_conversationId m = conv_id v \<and> msg_direction m = IN \<and> msg_sender m = CUSTOMER \<and> msg_role m = ''customer'' \<and>
     msg_whatsappMessageId m = wm_id d"

lemma receive_message_effect:
  assumes "world_ok E w" and "v \<in> set (conversations w)" and "\<not> known_message (wm_id d) w"
  shows "\<exists>m F t. receive_message E v d w = (Inr (Reply 200 ''received''),
      touch_conversation (conv_id v) t (w\<lparr>messages := messages w @ [m], mediaFiles := F, nextId := Suc (nextId w),
        messageJobs := messageJobs w @ [msg_id m]\<rparr>)) \<and> msg_id m = cuid E (nextId w) \<and> inbound v d m"
proof -
  obtain sm F where sm: "store_media E (conv_id v) d w = (sm, w\<lparr>mediaFiles := F\<rparr>)"
    using store_media_frame by (metis prod.exhaust)
  let ?w1 = "w\<lparr>mediaFiles := F\<rparr>" and ?opts = "received_opts E d sm"
  have free: "\<not> wa_id_taken (mo_whatsappMessageId ?opts) None ?w1"
    using assms(3) by (simp add: known_message_taken received_opts_def no_opts_def wa_id_taken_def)
  have here: "v \<in> set (conversations ?w1)" using assms(2) by simp
  obtain m w2 where add: "addMessage E (conv_id v) ''customer'' (received_content d) ?opts ?w1 = (Inr m, w2)"
    using addMessage_ok [OF free here refl] by blast
  define t where "t = coalesce (mo_createdAt ?opts) (clock E)"
  have m: "m = message_of_input (cuid E (nextId w)) (message_input_of E (conv_id v) ''customer'' (received_content d) ?opts)"
    and w2: "w2 = touch_conversation (conv_id v) t (?w1\<lparr>messages := messages w @ [m], nextId := Suc (nextId w)\<rparr>)"
    using addMessage_Inr [OF add] by (simp_all add: t_def)
  have inb: "msg_id m = cuid E (nextId w)" "inbound v d m"
    by (simp_all add: m inbound_def message_input_of_def received_opts_def no_opts_def)
  have fresh: "fresh_ids E w" using assms(1) by (simp add: world_ok_def)
  show ?thesis
  proof (cases "media_text E sm w2")
    case None
    then have "receive_message E v d w = (Inr (Reply 200 ''received''), enqueueMessageJob (msg_id m) w2)"
      using sm add by (simp add: receive_message_def)
    then show ?thesis using inb
      by (intro exI [of _ m] exI [of _ F] exI [of _ t]) (simp add: w2 enqueueMessageJob_def touch_conversation_def)
  next
    case (Some x)
    let ?m = "m\<lparr>msg_content := x, msg_text := x\<rparr>"
    have "set_content (msg_id m) x w2 = Inr (w2\<lparr>messages := messages w @ [?m]\<rparr>)"
      by (rule set_content_new [OF fresh inb(1)]) (simp add: w2)
    then have "receive_message E v d w =
        (Inr (Reply 200 ''received''), enqueueMessageJob (msg_id m) (w2\<lparr>messages := messages w @ [?m]\<rparr>))"
      using sm add Some by (simp add: receive_message_def)
    then show ?thesis using inb
      by (intro exI [of _ ?m] exI [of _ F] exI [of _ t])
        (simp add: w2 enqueueMessageJob_def touch_conversation_def inbound_def)
  qed
qed

section \<open>The handler\<close>

lemma world_ok_append_message:
  assumes "world_ok E w" and "msg_id m = cuid E (nextId w)"
  shows "world_ok E (w\<lparr>messages := messages w @ [m], mediaFiles := F, nextId := Suc (nextId w), messageJobs := J\<rparr>)"
  using assms fresh_ids_later [of E w]
  by (auto simp: world_ok_def schema_ok_def unique_by_def fresh_ids_def image_iff)

lemma received_steps:
  assumes "world_ok E w" and "onMessageReceived E sid d w = (Inr (Reply 200 ''received''), w')"
  obtains s L v w2 where "session_by_id sid w = Inr (Some s)" "\<not> known_message (wm_id d) w"
    "world_ok E w2" "only_contacts (session_merchantId s) (w\<lparr>owLog := L\<rparr>) w2" "v \<in> set (conversations w2)"
    "conv_merchantId v = session_merchantId s" "receive_message E v d w2 = (Inr (Reply 200 ''received''), w')"
proof -
  obtain r w1 where r: "resolveSenderPhone E (coalesce sid ''undefined'') (wm_from d) (wm_senderPhone d) w = (r, w1)"
    by fastforce
  then obtain L where w1: "w1 = w\<lparr>owLog := L\<rparr>" using resolveSenderPhone_log by blast
  have by_id: "session_by_id sid w1 = session_by_id sid w" by (simp add: session_by_id_def w1 split: option.splits)
  obtain phone s where p: "r = Inr phone" "session_by_id sid w = Inr (Some s)" "\<not> known_message (wm_id d) w1"
    using assms(2) r by_id by (auto simp: onMessageReceived_def split: sum.splits option.splits if_splits)
  obtain q w2 where q: "sender_conversation E (session_merchantId s) (coalesce phone []) d w1 = (q, w2)" by fastforce
  then obtain v where v: "q = Inr (Some v)" "receive_message E v d w2 = (Inr (Reply 200 ''received''), w')"
    using assms(2) r p by_id by (auto simp: onMessageReceived_def split: sum.splits option.splits)
  have "world_ok E w1" using assms(1) w1 by simp
  from sender_conversation_effect [OF this q [unfolded v(1)]] show thesis
    using that [of s w2 L v] p v w1 by (simp add: known_message_def)
qed

lemma known_contacts: "only_contacts m (w\<lparr>owLog := L\<rparr>) w2 \<Longrightarrow> known_message i w2 = known_message i w"
  by (auto simp: only_contacts_def known_message_def)

text \<open>C14. A webhook that reports a received message and is answered \<open>received\<close> has stored exactly one message,
  incoming and from the customer, in a conversation of the merchant who owns the session, and queued exactly
  one agent job, for that message.  Orders and products are untouched, as are the customers and conversations
  of every other merchant, and the state stays well formed.\<close>

theorem webhook_stores_one_message:
  assumes "world_ok E w" and "onMessageReceived E (Some sid) d w = (Inr (Reply 200 ''received''), w')"
  shows "world_ok E w' \<and>
    (\<exists>s v m. s \<in> set (whatsAppSessions w) \<and> session_sessionId s = sid \<and>
       messages w' = messages w @ [m] \<and> messageJobs w' = messageJobs w @ [msg_id m] \<and> inbound v d m \<and>
       conv_id v \<in> conv_id ` set (conversations w') \<and> conv_merchantId v = session_merchantId s \<and>
       orders w' = orders w \<and> products w' = products w \<and>
       filter (\<lambda>c. customer_merchantId c \<noteq> session_merchantId s) (customers w') =
         filter (\<lambda>c. customer_merchantId c \<noteq> session_merchantId s) (customers w) \<and>
       filter (\<lambda>c. conv_merchantId c \<noteq> session_merchantId s) (conversations w') =
         filter (\<lambda>c. conv_merchantId c \<noteq> session_merchantId s) (conversations w))"
proof -
  obtain s L v w2 where S: "session_by_id (Some sid) w = Inr (Some s)" "\<not> known_message (wm_id d) w"
    "world_ok E w2" "only_contacts (session_merchantId s) (w\<lparr>owLog := L\<rparr>) w2" "v \<in> set (conversations w2)"
    "conv_merchantId v = session_merchantId s" "receive_message E v d w2 = (Inr (Reply 200 ''received''), w')"
    by (rule received_steps [OF assms]) blast
  have s: "s \<in> set (whatsAppSessions w)" "session_sessionId s = sid"
    using S(1) by (auto simp: session_by_id_def dest!: find_first_SomeD)
  have "\<not> known_message (wm_id d) w2" using S(2,4) by (simp add: known_contacts)
  from receive_message_effect [OF S(3,5) this] S(7) obtain m F t where
    w': "w' = touch_conversation (conv_id v) t (w2\<lparr>messages := messages w2 @ [m], mediaFiles := F, nextId := Suc (nextId w2),
        messageJobs := messageJobs w2 @ [msg_id m]\<rparr>)" "msg_id m = cuid E (nextId w2)" "inbound v d m" by auto
  let ?w3 = "w2\<lparr>messages := messages w2 @ [m], mediaFiles := F, nextId := Suc (nextId w2),
        messageJobs := messageJobs w2 @ [msg_id m]\<rparr>"
  have ok3: "world_ok E ?w3" using world_ok_append_message [OF S(3) w'(2)] by simp
  have "conv_id ` set (conversations w') = conv_id ` set (conversations w2)"
    unfolding w'(1) touch_conversation_def by (simp add: image_update_where)
  then have "conv_id v \<in> conv_id ` set (conversations w')" using S(5) by simp
  moreover have "filter (\<lambda>c. conv_merchantId c \<noteq> session_merchantId s) (conversations w') =
      filter (\<lambda>c. conv_merchantId c \<noteq> session_merchantId s) (conversations w2)"
    using filter_touch [OF ok3, of v t] S(5,6) w'(1) by simp
  moreover have "world_ok E w'" using ok3 w'(1) by simp
  moreover obtain C V n where "w2 = w\<lparr>owLog := L, customers := C, conversations := V, nextId := n\<rparr>"
    "filter (\<lambda>c. customer_merchantId c \<noteq> session_merchantId s) C =
       filter (\<lambda>c. customer_merchantId c \<noteq> session_merchantId s) (customers w)"
    "filter (\<lambda>c. conv_merchantId c \<noteq> session_merchantId s) V =
       filter (\<lambda>c. conv_merchantId c \<noteq> session_merchantId s) (conversations w)"
    using S(4) by (auto simp: only_contacts_def)
  ultimately show ?thesis
    using s S(6) w' by (intro conjI exI [of _ s] exI [of _ v] exI [of _ m]) (simp_all add: touch_conversation_def)
qed

definition sample_wa_message :: wa_message where
  "sample_wa_message = wa_message_of (JObj [(''from'', JStr ''213550@c.us''), (''id'', JStr ''wa-9''), (''body'', JStr ''salam''),
     (''type'', JStr ''chat''), (''timestamp'', JNum 7)])"

theorem webhook_stores_one_message_witness:
  "\<exists>w'. onMessageReceived sample_env (Some ''wa1'') sample_wa_message sample_world = (Inr (Reply 200 ''received''), w') \<and>
     world_ok sample_env w' \<and> map msg_content (messages w') = [''salam''] \<and> length (messageJobs w') = 1"
proof -
  obtain res w' where run: "onMessageReceived sample_env (Some ''wa1'') sample_wa_message sample_world = (res, w')" by fastforce
  have "fst (onMessageReceived sample_env (Some ''wa1'') sample_wa_message sample_world) = Inr (Reply 200 ''received'')"
    by code_simp
  then have run': "onMessageReceived sample_env (Some ''wa1'') sample_wa_message sample_world =
      (Inr (Reply 200 ''received''), w')" using run by simp
  have "world_ok sample_env w'" using webhook_stores_one_message [OF sample_ok run'] by blast
  moreover have "map msg_content (messages (snd (onMessageReceived sample_env (Some ''wa1'') sample_wa_message sample_world))) =
      [''salam'']" by code_simp
  moreover have "length (messageJobs (snd (onMessageReceived sample_env (Some ''wa1'') sample_wa_message sample_world))) = 1"
    by code_simp
  ultimately show ?thesis using run' by auto
qed

text \<open>C15. A message the gateway reports again is answered \<open>duplicate\<close> and changes nothing but the log of requests
  to the gateway, however much later the second report comes: no second row, no second agent run.\<close>

theorem webhook_redelivery_ignored:
  assumes "world_ok E w" and "onMessageReceived E sid d w = (Inr (Reply 200 ''received''), w')"
    and "wm_id d \<noteq> None"
  shows "\<exists>L. onMessageReceived E' sid d w' = (Inr (Reply 200 ''duplicate''), w'\<lparr>owLog := L\<rparr>)"
proof -
  obtain s L v w2 where S: "session_by_id sid w = Inr (Some s)" "\<not> known_message (wm_id d) w"
    "world_ok E w2" "only_contacts (session_merchantId s) (w\<lparr>owLog := L\<rparr>) w2" "v \<in> set (conversations w2)"
    "conv_merchantId v = session_merchantId s" "receive_message E v d w2 = (Inr (Reply 200 ''received''), w')"
    by (rule received_steps [OF assms(1,2)]) blast
  have "\<not> known_message (wm_id d) w2" using S(2,4) by (simp add: known_contacts)
  from receive_message_effect [OF S(3,5) this] S(7) obtain m where
    m: "messages w' = messages w2 @ [m]" "whatsAppSessions w' = whatsAppSessions w2" "inbound v d m" by auto
  have sess: "whatsAppSessions w2 = whatsAppSessions w" using S(4) by (auto simp: only_contacts_def)
  obtain r1 w1 where "resolveSenderPhone E (coalesce sid ''undefined'') (wm_from d) (wm_senderPhone d) w = (r1, w1)" by fastforce
  then have ok1: "\<not> isl r1" using assms(2) by (auto simp: onMessageReceived_def split: sum.splits)
  obtain r w3 where r: "resolveSenderPhone E' (coalesce sid ''undefined'') (wm_from d) (wm_senderPhone d) w' = (r, w3)" by fastforce
  then obtain L' where w3: "w3 = w'\<lparr>owLog := L'\<rparr>" using resolveSenderPhone_log by blast
  have "\<not> isl r"
    using r ok1 \<open>resolveSenderPhone E _ _ _ w = (r1, w1)\<close>
    by (auto simp: resolveSenderPhone_def Let_def split: option.splits if_splits prod.splits)
  then obtain phone where phone: "r = Inr phone" by (cases r) auto
  have "session_by_id sid w3 = Inr (Some s)"
    using S(1) m(2) sess by (auto simp: session_by_id_def w3 split: option.splits)
  moreover have "known_message (wm_id d) w3"
    using m assms(3) by (simp add: known_message_def w3 inbound_def)
  ultimately show ?thesis using r phone w3 by (intro exI [of _ L']) (simp add: onMessageReceived_def)
qed

theorem webhook_redelivery_ignored_witness:
  "\<exists>L w'. onMessageReceived sample_env (Some ''wa1'') sample_wa_message sample_world = (Inr (Reply 200 ''received''), w') \<and>
     onMessageReceived (sample_env\<lparr>clock := 99999999\<rparr>) (Some ''wa1'') sample_wa_message w' =
       (Inr (Reply 200 ''duplicate''), w'\<lparr>owLog := L\<rparr>)"
proof -
  obtain res w' where run: "onMessageReceived sample_env (Some ''wa1'') sample_wa_message sample_world = (res, w')" by fastforce
  have "fst (onMessageReceived sample_env (Some ''wa1'') sample_wa_message sample_world) = Inr (Reply 200 ''received'')"
    by code_simp
  then have run': "onMessageReceived sample_env (Some ''wa1'') sample_wa_message sample_world =
      (Inr (Reply 200 ''received''), w')" using run by simp
  have "wm_id sample_wa_message \<noteq> None" by code_simp
  from webhook_redelivery_ignored [OF sample_ok run' this] run' show ?thesis by blast
qed

section \<open>Sent messages\<close>

text \<open>A report that a message was sent stores nothing when a row with that WhatsApp id is there already, as
  the rows of the back end's own sends are; and a report that was stored is recognised when it comes again.\<close>

theorem sent_message_not_stored_twice:
  assumes "session_by_id sid w = Inr (Some s)" and "wm_id d = Some i" and "i \<noteq> []"
    and "list_ex (\<lambda>m. msg_whatsappMessageId m = Some i) (messages w) \<and> w' = w \<or>
      onMessageSent E sid d w = (Inr (Reply 200 ''stored''), w')"
  shows "onMessageSent E' sid d w' = (Inr (Reply 200 ''duplicate''), w')"
proof -
  let ?in = "\<lambda>E. merchant_input E (session_merchantId s) d"
  have id: "given (mm_waMessageId (?in X)) = Some i" for X
    using assms(2,3) by (simp add: merchant_input_def given_def)
  have "whatsAppSessions w' = whatsAppSessions w \<and> messageFindByWaId (merchantDeps E) i w' \<noteq> None"
    using assms(4)
  proof
    assume known: "list_ex (\<lambda>m. msg_whatsappMessageId m = Some i) (messages w) \<and> w' = w"
    then have "find_first (\<lambda>m. msg_whatsappMessageId m = Some i) (messages w) \<noteq> None"
      by (simp add: find_first_None list_ex_iff)
    then show ?thesis using known by (simp add: merchantDeps_def)
  next
    assume run: "onMessageSent E sid d w = (Inr (Reply 200 ''stored''), w')"
    then have st: "storeMerchantMessage E (?in E) w = (Inr Stored, w')"
      using assms(1) by (auto simp: onMessageSent_def split: sum.splits prod.splits MerchantMessageResult.splits)
    have "messageFindByWaId (merchantDeps E) i w' \<noteq> None"
      by (rule mm.stored_then_known [OF st [unfolded storeMerchantMessage_def] id])
    then show ?thesis using storeMerchantMessage_sessions [OF st] by simp
  qed
  then have kept: "whatsAppSessions w' = whatsAppSessions w" "messageFindByWaId (merchantDeps E') i w' \<noteq> None"
    by (simp_all add: merchantDeps_def)
  have "storeMerchantMessage E' (?in E') w' = (Inr Duplicate, w')"
    unfolding storeMerchantMessage_def by (rule mm.known_is_skipped [OF id kept(2)])
  moreover have "session_by_id sid w' = Inr (Some s)"
    using assms(1) kept(1) by (simp add: session_by_id_def split: option.splits)
  ultimately show ?thesis by (simp add: onMessageSent_def)
qed

definition sample_sent :: wa_message where
  "sample_sent = wa_message_of (JObj [(''to'', JStr ''213550@c.us''), (''id'', JStr ''wa-5''), (''body'', JStr ''ok'')])"

theorem sent_message_not_stored_twice_witness:
  "\<exists>w'. onMessageSent sample_env (Some ''wa1'') sample_sent sample_world = (Inr (Reply 200 ''stored''), w') \<and>
     onMessageSent sample_env (Some ''wa1'') sample_sent w' = (Inr (Reply 200 ''duplicate''), w')"
proof -
  let ?s = "\<lparr>session_id = ''s1'', session_merchantId = ''m1'', session_sessionId = ''wa1'', session_status = ''ready'',
     session_phoneNumber = None\<rparr>"
  obtain res w' where run: "onMessageSent sample_env (Some ''wa1'') sample_sent sample_world = (res, w')" by fastforce
  have "fst (onMessageSent sample_env (Some ''wa1'') sample_sent sample_world) = Inr (Reply 200 ''stored'')" by code_simp
  then have run': "onMessageSent sample_env (Some ''wa1'') sample_sent sample_world = (Inr (Reply 200 ''stored''), w')"
    using run by simp
  have "session_by_id (Some ''wa1'') sample_world = Inr (Some ?s)" by code_simp
  moreover have "wm_id sample_sent = Some ''wa-5''" by code_simp
  ultimately have "onMessageSent sample_env (Some ''wa1'') sample_sent w' = (Inr (Reply 200 ''duplicate''), w')"
    using sent_message_not_stored_twice [where i = "''wa-5''" and w = sample_world and E = sample_env] run' by blast
  then show ?thesis using run' by blast
qed

end
