(* ===== verification/Redis.thy ===== *)
theory Redis
  imports Store Decimal
begin

text \<open>
  The commands of Redis the back end uses, on the entries of the state: an entry whose time is past is as if
  it were not there.  The locale \<open>kv_store\<close> is what the clients rely on.
\<close>

definition live :: "env \<Rightarrow> redis_entry \<Rightarrow> bool" where
  "live E e = (case redis_expiresAt e of None \<Rightarrow> True | Some t \<Rightarrow> clock E < t)"

definition redis_entry_of :: "env \<Rightarrow> string \<Rightarrow> world \<Rightarrow> redis_entry option" where
  "redis_entry_of E k w = find_first (\<lambda>e. redis_key e = k \<and> live E e) (redis w)"

definition redis_get :: "env \<Rightarrow> string \<Rightarrow> world \<Rightarrow> string option" where
  "redis_get E k w = map_option redis_value (redis_entry_of E k w)"

definition redis_del :: "string \<Rightarrow> world \<Rightarrow> world" where
  "redis_del k w = w\<lparr>redis := filter (\<lambda>e. redis_key e \<noteq> k) (redis w)\<rparr>"

definition redis_put :: "redis_entry \<Rightarrow> world \<Rightarrow> world" where
  "redis_put e w = w\<lparr>redis := e # filter (\<lambda>x. redis_key x \<noteq> redis_key e) (redis w)\<rparr>"

text \<open>\<open>SET key value EX seconds\<close>.\<close>

definition redis_set :: "env \<Rightarrow> string \<Rightarrow> string \<Rightarrow> int \<Rightarrow> world \<Rightarrow> world" where
  "redis_set E k v secs w =
     redis_put \<lparr>redis_key = k, redis_value = v, redis_expiresAt = Some (clock E + 1000 * secs)\<rparr> w"

text \<open>\<open>KEYS prefix*\<close> and the deletion of a list of keys.\<close>

definition redis_keys :: "env \<Rightarrow> string \<Rightarrow> world \<Rightarrow> string list" where
  "redis_keys E p w = map redis_key (filter (\<lambda>e. starts_with p (redis_key e) \<and> live E e) (redis w))"

definition redis_del_all :: "string list \<Rightarrow> world \<Rightarrow> world" where
  "redis_del_all ks w = w\<lparr>redis := filter (\<lambda>e. redis_key e \<notin> set ks) (redis w)\<rparr>"

text \<open>
  \<open>INCR\<close> and \<open>EXPIRE\<close>: a counter is kept as decimal text; a missing key counts from zero, a value that is no
  number of 64 bits, or would leave the range, is an error; the time to live of the key is kept.
\<close>

definition redis_int :: "string \<Rightarrow> int option" where
  "redis_int s =
     (let (neg, u) = (case s of c # r \<Rightarrow> (if c = CHR ''-'' then (True, r) else (False, s)) | [] \<Rightarrow> (False, []));
          i = (if neg then - 1 else 1) * int (nat_of_digits u)
      in if list_all is_digit u \<and> int_text i = s \<and> - (2 ^ 63) \<le> i \<and> i < 2 ^ 63 then Some i else None)"

definition redis_incr :: "env \<Rightarrow> string \<Rightarrow> world \<Rightarrow> exn + world" where
  "redis_incr E k w =
     (case redis_entry_of E k w of
        None \<Rightarrow> Inr (redis_put \<lparr>redis_key = k, redis_value = ''1'', redis_expiresAt = None\<rparr> w)
      | Some e \<Rightarrow>
          (case redis_int (redis_value e) of
             None \<Rightarrow> Inl (Error ''ERR value is not an integer or out of range'')
           | Some i \<Rightarrow>
               (if i = 2 ^ 63 - 1 then Inl (Error ''ERR increment or decrement would overflow'')
                else Inr (redis_put (e\<lparr>redis_value := int_text (i + 1)\<rparr>) w))))"

definition redis_expire :: "env \<Rightarrow> string \<Rightarrow> int \<Rightarrow> world \<Rightarrow> world" where
  "redis_expire E k secs w =
     (case redis_entry_of E k w of
        None \<Rightarrow> w
      | Some e \<Rightarrow> redis_put (e\<lparr>redis_expiresAt := Some (clock E + 1000 * secs)\<rparr>) w)"

section \<open>The interface\<close>

locale kv_store =
  fixes get :: "string \<Rightarrow> 'w \<Rightarrow> string option"
    and set_key :: "string \<Rightarrow> string \<Rightarrow> 'w \<Rightarrow> 'w"
    and del :: "string \<Rightarrow> 'w \<Rightarrow> 'w"
  assumes get_set: "get k (set_key k' v w) = (if k = k' then Some v else get k w)"
    and get_del: "get k (del k' w) = (if k = k' then None else get k w)"
begin

text \<open>A key that is replaced by another is gone, the other is there, and the rest is as before.\<close>

lemma rotate:
  assumes "old \<noteq> new"
  shows "get old (set_key new v (del old w)) = None" "get new (set_key new v (del old w)) = Some v"
    "k \<noteq> old \<Longrightarrow> k \<noteq> new \<Longrightarrow> get k (set_key new v (del old w)) = get k w"
  using assms by (simp_all add: get_set get_del)

end

lemma redis_get_put:
  "redis_get E k (redis_put e w) =
     (if k = redis_key e then (if live E e then Some (redis_value e) else None) else redis_get E k w)"
proof (cases "k = redis_key e")
  case True
  have none: "find_first (\<lambda>r. redis_key r \<noteq> redis_key e \<and> redis_key r = redis_key e \<and> live E r) (redis w) = None"
    by (simp add: find_first_None)
  show ?thesis
    using True none by (auto simp: redis_get_def redis_entry_of_def redis_put_def find_first_Cons find_first_filter)
next
  case False
  have "find_first (\<lambda>r. redis_key r \<noteq> redis_key e \<and> redis_key r = k \<and> live E r) (redis w) =
      find_first (\<lambda>r. redis_key r = k \<and> live E r) (redis w)"
    using False by (intro find_first_cong) auto
  then show ?thesis
    using False by (simp add: redis_get_def redis_entry_of_def redis_put_def find_first_Cons find_first_filter)
qed

lemma redis_get_set: "0 < secs \<Longrightarrow> redis_get E k (redis_set E k' v secs w) = (if k = k' then Some v else redis_get E k w)"
  by (simp add: redis_set_def redis_get_put live_def)

lemma redis_get_del: "redis_get E k (redis_del k' w) = (if k = k' then None else redis_get E k w)"
proof (cases "k = k'")
  case True
  then show ?thesis
    by (simp add: redis_get_def redis_entry_of_def redis_del_def find_first_filter find_first_None)
next
  case False
  have "find_first (\<lambda>r. redis_key r \<noteq> k' \<and> redis_key r = k \<and> live E r) (redis w) =
      find_first (\<lambda>r. redis_key r = k \<and> live E r) (redis w)"
    using False by (intro find_first_cong) auto
  then show ?thesis using False by (simp add: redis_get_def redis_entry_of_def redis_del_def find_first_filter)
qed

lemma redis_get_del_all:
  "redis_get E k (redis_del_all ks w) = (if k \<in> set ks then None else redis_get E k w)"
proof (cases "k \<in> set ks")
  case True
  then show ?thesis
    by (auto simp: redis_get_def redis_entry_of_def redis_del_all_def find_first_filter find_first_None)
next
  case False
  have "find_first (\<lambda>r. redis_key r \<notin> set ks \<and> redis_key r = k \<and> live E r) (redis w) =
      find_first (\<lambda>r. redis_key r = k \<and> live E r) (redis w)"
    using False by (intro find_first_cong) auto
  then show ?thesis using False by (simp add: redis_get_def redis_entry_of_def redis_del_all_def find_first_filter)
qed

lemma redis_keys_get: "redis_get E k w \<noteq> None \<Longrightarrow> starts_with p k \<Longrightarrow> k \<in> set (redis_keys E p w)"
  by (auto simp: redis_get_def redis_entry_of_def redis_keys_def image_iff dest!: find_first_SomeD)

text \<open>Deleting every key with a prefix leaves none of them.\<close>

lemma redis_clear_prefix:
  "redis_get E k (redis_del_all (redis_keys E p w) w) = (if starts_with p k then None else redis_get E k w)"
proof (cases "starts_with p k")
  case True
  then show ?thesis
    using redis_keys_get [of E k w p] by (cases "redis_get E k w") (auto simp: redis_get_del_all)
next
  case False
  then have "k \<notin> set (redis_keys E p w)" by (auto simp: redis_keys_def)
  with False show ?thesis by (simp add: redis_get_del_all)
qed

text \<open>Every time to live is at least a second.\<close>

interpretation kv: kv_store "redis_get E" "\<lambda>k v. redis_set E k v (1 + int n)" redis_del for E n
  by unfold_locales (simp_all add: redis_get_set redis_get_del)

end
