(* ===== verification/Sessions.thy ===== *)
theory Sessions
  imports Webhook Redis Sample
begin

text \<open>
  The session handlers of \<open>back/src/modules/whatsapp/whatsapp.controller.ts\<close>: linking, inspecting and unlinking
  the WhatsApp account of a merchant.  The waits between two requests are not modelled; the events sent to
  open browser streams are not part of the state.
\<close>

section \<open>Helpers\<close>

definition session_of :: "string \<Rightarrow> world \<Rightarrow> session_row option" where
  "session_of merchantId w = find_first (\<lambda>s. session_merchantId s = merchantId) (whatsAppSessions w)"

definition delete_session_row :: "string \<Rightarrow> world \<Rightarrow> world" where
  "delete_session_row i w = w\<lparr>whatsAppSessions := filter (\<lambda>s. session_id s \<noteq> i) (whatsAppSessions w)\<rparr>"

definition create_session_row ::
  "env \<Rightarrow> string \<Rightarrow> string \<Rightarrow> string \<Rightarrow> string option \<Rightarrow> world \<Rightarrow> exn + world" where
  "create_session_row E merchantId sessionId status phone w =
     (if list_ex (\<lambda>s. session_merchantId s = merchantId \<or> session_sessionId s = sessionId) (whatsAppSessions w) then Inl P2002
      else Inr (w\<lparr>whatsAppSessions := whatsAppSessions w @
                    [\<lparr>session_id = cuid E (nextId w), session_merchantId = merchantId, session_sessionId = sessionId,
                      session_status = status, session_phoneNumber = phone\<rparr>],
                  nextId := Suc (nextId w)\<rparr>))"

text \<open>Stopping, logging out and deleting a session of the gateway, whatever each request answers.\<close>

definition discard_remote :: "env \<Rightarrow> string \<Rightarrow> world \<Rightarrow> world" where
  "discard_remote E i w = snd (deleteSession E i (snd (logoutSession E i (snd (stopSession E i w)))))"

definition drop_existing :: "env \<Rightarrow> string \<Rightarrow> world \<Rightarrow> world" where
  "drop_existing E merchantId w =
     (case session_of merchantId w of
        None \<Rightarrow> w
      | Some s \<Rightarrow> delete_session_row (session_id s) (discard_remote E (session_sessionId s) w))"

text \<open>
  The first session of the gateway whose name starts with the merchant's id.  A session without a name ends the
  search with an error, which is ignored like every error of this clean-up.
\<close>

fun stale_session :: "string \<Rightarrow> jval list \<Rightarrow> jval option" where
  "stale_session merchantId [] = None"
| "stale_session merchantId (s # ss) =
     (case json_str ''name'' s of
        None \<Rightarrow> None
      | Some n \<Rightarrow> (if starts_with merchantId n then Some s else stale_session merchantId ss))"

definition remote_id :: "jval \<Rightarrow> string" where
  "remote_id s = coalesce (json_str ''id'' s) ''undefined''"

definition drop_stale :: "env \<Rightarrow> string \<Rightarrow> world \<Rightarrow> world" where
  "drop_stale E merchantId w =
     (case listSessions E w of
        (Inl _, w1) \<Rightarrow> w1
      | (Inr ss, w1) \<Rightarrow>
          (case stale_session merchantId ss of
             None \<Rightarrow> w1
           | Some s \<Rightarrow> discard_remote E (remote_id s) w1))"

definition start_remote :: "env \<Rightarrow> string \<Rightarrow> world \<Rightarrow> (exn + string) \<times> world" where
  "start_remote E merchantId w =
     (case createSession E (merchantId @ ''-'' @ num_text E (of_int (clock E))) w of
        (Inl e, w1) \<Rightarrow> (Inl e, w1)
      | (Inr s, w1) \<Rightarrow>
          (case startSession E (remote_id s) w1 of
             (Inl e, w2) \<Rightarrow> (Inl e, w2)
           | (Inr _, w2) \<Rightarrow> (Inr (remote_id s), w2)))"

definition strip_slashes :: "string \<Rightarrow> string" where
  "strip_slashes s = rev (dropWhile (\<lambda>c. c = CHR ''/'') (rev s))"

definition register :: "env \<Rightarrow> string \<Rightarrow> world \<Rightarrow> (exn + jval) \<times> world" where
  "register E i w =
     registerWebhook E i (strip_slashes (cfg_internalUrl E) @ ''/whatsapp/webhook'') WEBHOOK_EVENTS (cfg_webhookSecret E) w"

text \<open>
  The thirty attempts to see a QR code or a session that is ready.
\<close>

fun await_qr :: "env \<Rightarrow> string \<Rightarrow> nat \<Rightarrow> world \<Rightarrow> (string option \<times> bool) \<times> world" where
  "await_qr E i 0 w = ((None, False), w)"
| "await_qr E i (Suc n) w =
     (case getQR E i w of (r, w1) \<Rightarrow>
       (case (case r of Inr (Some (JStr q)) \<Rightarrow> given (Some q) | _ \<Rightarrow> None) of
          Some q \<Rightarrow> ((Some q, False), w1)
        | None \<Rightarrow>
            (case getSession E i w1 of
               (Inr s, w2) \<Rightarrow>
                 (if json_str ''status'' s \<in> {Some ''ready'', Some ''connected''} then ((None, True), w2)
                  else await_qr E i n w2)
             | (Inl _, w2) \<Rightarrow> await_qr E i n w2)))"

definition QR_ATTEMPTS :: nat where
  "QR_ATTEMPTS = 30"

section \<open>The handlers\<close>

datatype session_answer = QrCode string | Connected

definition raw_qr :: "string \<Rightarrow> string" where
  "raw_qr q = coalesce (strip_prefix ''data:image/png;base64,'' q) q"

definition link_session ::
  "env \<Rightarrow> string \<Rightarrow> string \<Rightarrow> string option \<Rightarrow> bool \<Rightarrow> world \<Rightarrow> (exn + session_answer reply) \<times> world" where
  "link_session E merchantId i qr sessionReady w =
     (if qr = None \<and> \<not> sessionReady then (Inr (Refuse 502 ''QR code generation timeout''), w)
      else
        (case register E i w of
           (Inl e, w1) \<Rightarrow> (Inl e, w1)
         | (Inr _, w1) \<Rightarrow>
             (case create_session_row E merchantId i (if sessionReady then ''connected'' else ''connecting'') None w1 of
                Inl e \<Rightarrow> (Inl e, w1)
              | Inr w2 \<Rightarrow>
                  (case qr of
                     Some q \<Rightarrow> (Inr (Reply 201 (QrCode (raw_qr q))),
                                redis_set E (''whatsapp:qr:'' @ merchantId) (raw_qr q) 300 w2)
                   | None \<Rightarrow> (Inr (Reply 201 Connected), w2)))))"

definition createSessionHandler :: "env \<Rightarrow> string \<Rightarrow> world \<Rightarrow> (exn + session_answer reply) \<times> world" where
  "createSessionHandler E merchantId w =
     (case start_remote E merchantId (drop_stale E merchantId (drop_existing E merchantId w)) of
        (Inl e, w1) \<Rightarrow> (Inl e, w1)
      | (Inr i, w1) \<Rightarrow>
          (case await_qr E i QR_ATTEMPTS w1 of ((qr, sessionReady), w2) \<Rightarrow>
             link_session E merchantId i qr sessionReady w2))"

definition requestPairingCode ::
  "env \<Rightarrow> string \<Rightarrow> string option \<Rightarrow> world \<Rightarrow> (exn + (jval option \<times> string) reply) \<times> world" where
  "requestPairingCode E merchantId phoneNumber w =
     (case given phoneNumber of
        None \<Rightarrow> (Inr (Refuse 400 ''phoneNumber is required''), w)
      | Some p \<Rightarrow>
          (case start_remote E merchantId (drop_stale E merchantId (drop_existing E merchantId w)) of
             (Inl e, w1) \<Rightarrow> (Inl e, w1)
           | (Inr i, w1) \<Rightarrow>
               (case getPairingCode E i p w1 of
                  (Inl e, w2) \<Rightarrow> (Inl e, w2)
                | (Inr code, w2) \<Rightarrow>
                    (case register E i w2 of
                       (Inl e, w3) \<Rightarrow> (Inl e, w3)
                     | (Inr _, w3) \<Rightarrow>
                         (case create_session_row E merchantId i ''connecting'' (Some p) w3 of
                            Inl e \<Rightarrow> (Inl e, w3)
                          | Inr w4 \<Rightarrow> (Inr (Reply 201 (code, i)), w4))))))"

record session_status_view =
  ss_status :: string
  ss_phoneNumber :: "string option"
  ss_hasSession :: bool

definition update_session :: "string \<Rightarrow> (session_row \<Rightarrow> session_row) \<Rightarrow> world \<Rightarrow> world" where
  "update_session i f w = put_sessions (update_where (\<lambda>s. session_id s = i) f (whatsAppSessions w)) w"

definition shown_status :: "string \<Rightarrow> string" where
  "shown_status s = (if s = ''ready'' then ''connected'' else s)"

text \<open>
  The stored status follows that of the gateway; when the gateway cannot be asked the session counts as
  disconnected.
\<close>

definition getSessionStatus :: "env \<Rightarrow> string \<Rightarrow> world \<Rightarrow> session_status_view reply \<times> world" where
  "getSessionStatus E merchantId w =
     (case session_of merchantId w of
        None \<Rightarrow> (Reply 200 \<lparr>ss_status = ''disconnected'', ss_phoneNumber = None, ss_hasSession = False\<rparr>, w)
      | Some s \<Rightarrow>
          (case getSession E (session_sessionId s) w of
             (Inl _, w1) \<Rightarrow>
               (Reply 200 \<lparr>ss_status = ''disconnected'', ss_phoneNumber = session_phoneNumber s, ss_hasSession = True\<rparr>,
                update_session (session_id s) (\<lambda>x. x\<lparr>session_status := ''disconnected''\<rparr>) w1)
           | (Inr remote, w1) \<Rightarrow>
               (let status = coalesce (json_str ''status'' remote) (session_status s);
                    phone = (case given (json_str ''phone'' remote) of
                               Some p \<Rightarrow> (if status = ''ready'' then Some p else session_phoneNumber s)
                             | None \<Rightarrow> session_phoneNumber s)
                in (Reply 200 \<lparr>ss_status = shown_status status, ss_phoneNumber = phone, ss_hasSession = True\<rparr>,
                    update_session (session_id s)
                      (\<lambda>x. x\<lparr>session_status := status, session_phoneNumber := phone\<rparr>) w1))))"

fun delete_webhooks :: "env \<Rightarrow> string \<Rightarrow> jval list \<Rightarrow> world \<Rightarrow> world" where
  "delete_webhooks E i [] w = w"
| "delete_webhooks E i (h # hs) w =
     (case deleteWebhook E i (remote_id h) w of
        (Inl _, w1) \<Rightarrow> w1
      | (Inr _, w1) \<Rightarrow> delete_webhooks E i hs w1)"

definition deleteSessionHandler :: "env \<Rightarrow> string \<Rightarrow> world \<Rightarrow> string reply \<times> world" where
  "deleteSessionHandler E merchantId w =
     (case session_of merchantId w of
        None \<Rightarrow> (Refuse 404 ''No session found'', w)
      | Some s \<Rightarrow>
          (let i = session_sessionId s;
               w1 = (case listWebhooks E i w of
                       (Inl _, w1) \<Rightarrow> w1
                     | (Inr hs, w1) \<Rightarrow> delete_webhooks E i hs w1);
               w2 = snd (deleteSession E i (snd (logoutSession E i w1)))
           in (Reply 200 ''Session deleted'', delete_session_row (session_id s) w2)))"

definition disconnectSession :: "env \<Rightarrow> string \<Rightarrow> world \<Rightarrow> string reply \<times> world" where
  "disconnectSession E merchantId w =
     (case session_of merchantId w of
        None \<Rightarrow> (Refuse 404 ''No session found'', w)
      | Some s \<Rightarrow>
          (Reply 200 ''Session disconnected'',
           update_session (session_id s) (\<lambda>x. x\<lparr>session_status := ''disconnected''\<rparr>)
             (snd (stopSession E (session_sessionId s) w))))"

definition reconnectSession :: "env \<Rightarrow> string \<Rightarrow> world \<Rightarrow> string reply \<times> world" where
  "reconnectSession E merchantId w =
     (case session_of merchantId w of
        None \<Rightarrow> (Refuse 404 ''No session found'', w)
      | Some s \<Rightarrow> (Reply 200 ''connecting'', snd (startSession E (session_sessionId s) w)))"

section \<open>The log of requests\<close>

text \<open>A run of the gateway client that makes at most \<open>k\<close> requests and touches nothing else.\<close>

definition asks :: "nat \<Rightarrow> world \<Rightarrow> world \<Rightarrow> bool" where
  "asks k w w' \<longleftrightarrow> (\<exists>L. w' = w\<lparr>owLog := owLog w @ L\<rparr> \<and> length L \<le> k)"

lemma asks_refl [simp]: "asks k w w"
  unfolding asks_def by (intro exI [of _ "[]"]) simp

lemma asks_trans: "asks j w w1 \<Longrightarrow> asks k w1 w2 \<Longrightarrow> asks (j + k) w w2"
  unfolding asks_def by (elim exE conjE) (rule exI, force)

lemma asks_mono: "asks j w w' \<Longrightarrow> j \<le> k \<Longrightarrow> asks k w w'"
  by (auto simp: asks_def)

lemma asks_request: "asks 1 w (snd (request E m p b w))"
  unfolding asks_def request_def by (intro exI [of _ "[(m, p, b)]"]) simp

lemma snd_getQR: "snd (getQR E i w) = snd (request E ''GET'' (session_path i ''/qr'') None w)"
  by (simp add: getQR_def split: prod.splits sum.splits)

lemma snd_listSessions: "snd (listSessions E w) = snd (request E ''GET'' ''/sessions'' None w)"
  by (simp add: listSessions_def split: prod.splits sum.splits)

lemma asks_calls:
  "asks 1 w (snd (stopSession E i w))" "asks 1 w (snd (logoutSession E i w))" "asks 1 w (snd (deleteSession E i w))"
  "asks 1 w (snd (createSession E i w))" "asks 1 w (snd (startSession E i w))" "asks 1 w (snd (getSession E i w))"
  "asks 1 w (snd (getQR E i w))" "asks 1 w (snd (listSessions E w))" "asks 1 w (snd (register E i w))"
  unfolding stopSession_def logoutSession_def deleteSession_def createSession_def startSession_def
    getSession_def snd_getQR snd_listSessions register_def registerWebhook_def
  by (rule asks_request)+

lemma asks_discard: "asks 3 w (discard_remote E i w)"
  unfolding discard_remote_def
  using asks_trans [OF asks_trans [OF asks_calls(1) asks_calls(2)] asks_calls(3)] by (simp add: numeral_3_eq_3)

lemma asks_drop_stale: "asks 4 w (drop_stale E m w)"
proof -
  obtain r w1 where r: "listSessions E w = (r, w1)" by fastforce
  then have one: "asks 1 w w1" using asks_calls(8) [of w E] by simp
  then have "asks (1 + 3) w (discard_remote E i w1)" for i by (rule asks_trans [OF _ asks_discard])
  with one r show ?thesis by (auto simp: drop_stale_def split: sum.splits option.splits intro: asks_mono)
qed

lemma asks_start:
  assumes "start_remote E m w = (r, w')"
  shows "asks 2 w w'"
proof -
  let ?n = "m @ ''-'' @ num_text E (of_int (clock E))"
  obtain q w1 where q: "createSession E ?n w = (q, w1)" by fastforce
  then have one: "asks 1 w w1" using asks_calls(4) [of w E ?n] by simp
  show ?thesis
  proof (cases q)
    case (Inl e)
    then have "w' = w1" using assms q by (simp add: start_remote_def)
    then show ?thesis using one asks_mono by simp
  next
    case (Inr s)
    obtain z w2 where z: "startSession E (remote_id s) w1 = (z, w2)" by fastforce
    then have "w' = w2" using assms q Inr by (simp add: start_remote_def split: sum.splits)
    moreover have "asks (1 + 1) w w2" using asks_trans [OF one asks_calls(5)] z by (metis snd_conv)
    ultimately show ?thesis by (simp add: numeral_2_eq_2)
  qed
qed

lemma asks_await:
  "await_qr E i n w = (r, w') \<Longrightarrow> asks (2 * n) w w'"
proof (induction n arbitrary: w)
  case (Suc n)
  obtain q w1 where q: "getQR E i w = (q, w1)" by fastforce
  obtain g w2 where g: "getSession E i w1 = (g, w2)" by fastforce
  have one: "asks 1 w w1" using asks_calls(7) [of w E i] q by simp
  have two: "asks (1 + 1) w w2" using asks_trans [OF one asks_calls(6)] g by (metis snd_conv)
  have "w' = w1 \<or> w' = w2 \<or> await_qr E i n w2 = (r, w')"
    using Suc.prems q g by (auto split: sum.splits option.splits if_splits)
  then show ?case
  proof (elim disjE)
    assume "await_qr E i n w2 = (r, w')"
    then have "asks ((1 + 1) + 2 * n) w w'" by (rule asks_trans [OF two Suc.IH])
    then show ?thesis by simp
  qed (use one two asks_mono in force)+
qed simp

section \<open>Linking\<close>

definition sessions_ok :: "world \<Rightarrow> bool" where
  "sessions_ok w \<longleftrightarrow> distinct (map session_id (whatsAppSessions w)) \<and> distinct (map session_merchantId (whatsAppSessions w))"

lemma drop_existing_facts:
  assumes "sessions_ok w"
  shows "\<exists>w1. asks 3 w w1 \<and>
    drop_existing E m w = w1\<lparr>whatsAppSessions := filter (\<lambda>s. session_merchantId s \<noteq> m) (whatsAppSessions w)\<rparr>"
proof (cases "session_of m w")
  case None
  then have "filter (\<lambda>s. session_merchantId s \<noteq> m) (whatsAppSessions w) = whatsAppSessions w"
    by (simp add: session_of_def find_first_None)
  then show ?thesis using None by (intro exI [of _ w]) (simp add: drop_existing_def)
next
  case (Some s)
  then have s: "s \<in> set (whatsAppSessions w)" "session_merchantId s = m"
    by (auto simp: session_of_def dest!: find_first_SomeD)
  have "session_id x \<noteq> session_id s \<longleftrightarrow> session_merchantId x \<noteq> m" if "x \<in> set (whatsAppSessions w)" for x
    using distinct_map_eq [of session_id "whatsAppSessions w" x s]
      distinct_map_eq [of session_merchantId "whatsAppSessions w" x s] that s assms by (auto simp: sessions_ok_def)
  then have "filter (\<lambda>x. session_id x \<noteq> session_id s) (whatsAppSessions w) =
      filter (\<lambda>s. session_merchantId s \<noteq> m) (whatsAppSessions w)" by (rule filter_cong [OF refl])
  moreover have "whatsAppSessions (discard_remote E (session_sessionId s) w) = whatsAppSessions w"
    using asks_discard [of w E "session_sessionId s"] by (auto simp: asks_def)
  ultimately show ?thesis
    using Some asks_discard [of w E "session_sessionId s"]
    by (intro exI [of _ "discard_remote E (session_sessionId s) w"]) (simp add: drop_existing_def delete_session_row_def)
qed

text \<open>What linking may change, with at most \<open>k\<close> requests: the session of merchant \<open>m\<close>, its QR code, and no more.\<close>

definition links :: "nat \<Rightarrow> string \<Rightarrow> bool \<Rightarrow> world \<Rightarrow> world \<Rightarrow> bool" where
  "links k m linked w w' \<longleftrightarrow>
     (\<exists>S L R n. w' = w\<lparr>whatsAppSessions := S, owLog := owLog w @ L, redis := R, nextId := n\<rparr> \<and> length L \<le> k \<and>
        filter (\<lambda>s. session_merchantId s \<noteq> m) S = filter (\<lambda>s. session_merchantId s \<noteq> m) (whatsAppSessions w) \<and>
        length (filter (\<lambda>s. session_merchantId s = m) S) = (if linked then 1 else 0))"

lemma links_asks:
  assumes "links j m b w w1" and "asks k w1 w2"
  shows "links (j + k) m b w w2"
proof -
  obtain S L R n where *: "w1 = w\<lparr>whatsAppSessions := S, owLog := owLog w @ L, redis := R, nextId := n\<rparr>" "length L \<le> j"
    "filter (\<lambda>s. session_merchantId s \<noteq> m) S = filter (\<lambda>s. session_merchantId s \<noteq> m) (whatsAppSessions w)"
    "length (filter (\<lambda>s. session_merchantId s = m) S) = (if b then 1 else 0)"
    using assms(1) by (auto simp: links_def)
  obtain L2 where "w2 = w1\<lparr>owLog := owLog w1 @ L2\<rparr>" "length L2 \<le> k" using assms(2) by (auto simp: asks_def)
  with * show ?thesis unfolding links_def
    by (intro exI [of _ S] exI [of _ "L @ L2"] exI [of _ R] exI [of _ n]) simp
qed

lemma links_mono: "links j m b w w' \<Longrightarrow> j \<le> k \<Longrightarrow> links k m b w w'"
  unfolding links_def
  by (elim exE conjE, intro exI conjI) (assumption | erule (1) order_trans)+

lemma links_drop_existing: "sessions_ok w \<Longrightarrow> links 3 m False w (drop_existing E m w)"
proof -
  assume "sessions_ok w"
  from drop_existing_facts [OF this] obtain L where
    "drop_existing E m w = w\<lparr>owLog := owLog w @ L,
       whatsAppSessions := filter (\<lambda>s. session_merchantId s \<noteq> m) (whatsAppSessions w)\<rparr>" "length L \<le> 3"
    by (fastforce simp: asks_def)
  then show ?thesis unfolding links_def
    by (intro exI [of _ "filter (\<lambda>s. session_merchantId s \<noteq> m) (whatsAppSessions w)"] exI [of _ L] exI [of _ "redis w"]
        exI [of _ "nextId w"]) simp
qed

lemma links_create_row:
  assumes "links k m False w w1" and "create_session_row E m i st ph w1 = Inr w2"
  shows "links k m True w w2"
proof -
  obtain S L R n where *: "w1 = w\<lparr>whatsAppSessions := S, owLog := owLog w @ L, redis := R, nextId := n\<rparr>" "length L \<le> k"
    "filter (\<lambda>s. session_merchantId s \<noteq> m) S = filter (\<lambda>s. session_merchantId s \<noteq> m) (whatsAppSessions w)"
    "filter (\<lambda>s. session_merchantId s = m) S = []"
    using assms(1) by (auto simp: links_def)
  let ?s = "\<lparr>session_id = cuid E (nextId w1), session_merchantId = m, session_sessionId = i,
      session_status = st, session_phoneNumber = ph\<rparr>"
  have "w2 = w\<lparr>whatsAppSessions := S @ [?s], owLog := owLog w @ L, redis := R, nextId := Suc n\<rparr>"
    using assms(2) *(1) by (auto simp: create_session_row_def split: if_splits)
  with * show ?thesis unfolding links_def
    by (intro exI [of _ "S @ [?s]"] exI [of _ L] exI [of _ R] exI [of _ "Suc n"]) simp
qed

lemma links_redis:
  assumes "links k m b w w1"
  shows "links k m b w (redis_set E key v secs w1)"
proof -
  obtain S L R n where *: "w1 = w\<lparr>whatsAppSessions := S, owLog := owLog w @ L, redis := R, nextId := n\<rparr>" "length L \<le> k"
    "filter (\<lambda>s. session_merchantId s \<noteq> m) S = filter (\<lambda>s. session_merchantId s \<noteq> m) (whatsAppSessions w)"
    "length (filter (\<lambda>s. session_merchantId s = m) S) = (if b then 1 else 0)"
    using assms by (auto simp: links_def)
  then show ?thesis unfolding links_def
    by (intro exI [of _ S] exI [of _ L] exI [of _ "redis (redis_set E key v secs w1)"] exI [of _ n])
      (simp add: redis_set_def redis_put_def)
qed

lemma links_link_session:
  assumes "links k m False w w1" and "link_session E m i qr ready w1 = (res, w2)"
  shows "links (k + 1) m (\<exists>a. res = Inr (Reply 201 a)) w w2"
proof (cases "qr = None \<and> \<not> ready")
  case True
  then have "w2 = w1" "\<not> (\<exists>a. res = Inr (Reply 201 a))" using assms(2) by (auto simp: link_session_def)
  then show ?thesis using assms(1) links_mono by force
next
  case False
  obtain r w3 where r: "register E i w1 = (r, w3)" by fastforce
  have l3: "links (k + 1) m False w w3" using links_asks [OF assms(1) asks_calls(9)] r by (metis snd_conv)
  show ?thesis
  proof (cases "\<exists>v w4. r = Inr v \<and> create_session_row E m i (if ready then ''connected'' else ''connecting'') None w3 = Inr w4")
    case True
    then obtain v w4 where v: "r = Inr v" "create_session_row E m i (if ready then ''connected'' else ''connecting'') None w3 = Inr w4"
      by blast
    have l4: "links (k + 1) m True w w4" by (rule links_create_row [OF l3 v(2)])
    have "(\<exists>a. res = Inr (Reply 201 a)) \<and> (w2 = w4 \<or> (\<exists>key q. w2 = redis_set E key q 300 w4))"
      using assms(2) False r v by (cases qr) (auto simp: link_session_def)
    then show ?thesis using l4 links_redis [OF l4] by auto
  next
    case no: False
    then have "w2 = w3 \<and> \<not> (\<exists>a. res = Inr (Reply 201 a))"
      using assms(2) False r by (auto simp: link_session_def split: sum.splits)
    then show ?thesis using l3 by simp
  qed
qed

text \<open>C19. Linking an account ends after at most 70 requests to the gateway, however the gateway behaves.  The
  merchant then has exactly one session row if the answer is 201 and none otherwise; the sessions of every
  other merchant are as they were, and nothing else changes but the stored QR code.\<close>

theorem createSession_bounded:
  assumes "sessions_ok w" and "createSessionHandler E m w = (res, w')"
  shows "links 70 m (\<exists>a. res = Inr (Reply 201 a)) w w'"
proof -
  let ?w1 = "drop_stale E m (drop_existing E m w)"
  have l1: "links (3 + 4) m False w ?w1"
    by (rule links_asks [OF links_drop_existing [OF assms(1)] asks_drop_stale])
  obtain r w2 where r: "start_remote E m ?w1 = (r, w2)" by fastforce
  have l2: "links (3 + 4 + 2) m False w w2" by (rule links_asks [OF l1 asks_start [OF r]])
  show ?thesis
  proof (cases r)
    case (Inl e)
    then have "w' = w2" "res = Inl e" using assms(2) r by (simp_all add: createSessionHandler_def)
    then show ?thesis using links_mono [OF l2, of 70] by simp
  next
    case (Inr i)
    obtain qr ready w3 where q: "await_qr E i QR_ATTEMPTS w2 = ((qr, ready), w3)" by (metis prod.exhaust)
    have l3: "links (3 + 4 + 2 + 2 * QR_ATTEMPTS) m False w w3" by (rule links_asks [OF l2 asks_await [OF q]])
    have "link_session E m i qr ready w3 = (res, w')"
      using assms(2) r Inr q by (simp add: createSessionHandler_def)
    from links_link_session [OF l3 this] show ?thesis
      by (rule links_mono) (simp add: QR_ATTEMPTS_def)
  qed
qed

theorem createSession_bounded_witness:
  "\<exists>w'. createSessionHandler (sample_env\<lparr>openwa := (\<lambda>n _ _ _. Inr (JObj [(''id'', JStr ''r1''), (''qrCode'', JStr ''QR'')]))\<rparr>)
      ''m1'' sample_world = (Inr (Reply 201 (QrCode ''QR'')), w') \<and> links 70 ''m1'' True sample_world w'"
proof -
  let ?E = "sample_env\<lparr>openwa := (\<lambda>n _ _ _. Inr (JObj [(''id'', JStr ''r1''), (''qrCode'', JStr ''QR'')]))\<rparr>"
  obtain res w' where run: "createSessionHandler ?E ''m1'' sample_world = (res, w')" by fastforce
  have "fst (createSessionHandler ?E ''m1'' sample_world) = Inr (Reply 201 (QrCode ''QR''))" by code_simp
  then have res: "res = Inr (Reply 201 (QrCode ''QR''))" using run by simp
  have "sessions_ok sample_world" by (simp add: sessions_ok_def sample_world_def)
  from createSession_bounded [OF this run] show ?thesis using run res by simp
qed

end
