(* ===== verification/Order_Notify.thy ===== *)
theory Order_Notify
  imports Media Sessions
begin

text \<open>
  The notifications of \<open>back/src/modules/whatsapp/whatsapp.controller.ts\<close>: the text sent to a customer when a
  shop order arrives and when a parcel is shipped or delivered.
\<close>

section \<open>Replacing placeholders\<close>

text \<open>
  \<open>text.replace(/pattern/g, replacement)\<close> for a literal pattern: the matches from left to right, and the
  patterns with a dollar sign in the replacement (the dollar itself, the match, what is before and after it).
\<close>

fun expand :: "string \<Rightarrow> string \<Rightarrow> string \<Rightarrow> string \<Rightarrow> string" where
  "expand mt before after [] = []"
| "expand mt before after [c] = [c]"
| "expand mt before after (c # d # r) =
     (if c \<noteq> CHR ''$'' then c # expand mt before after (d # r)
      else if d = CHR ''$'' then CHR ''$'' # expand mt before after r
      else if d = CHR ''&'' then mt @ expand mt before after r
      else if d = CHR 0x60 then before @ expand mt before after r
      else if d = CHR 0x27 then after @ expand mt before after r
      else c # expand mt before after (d # r))"

function replace_from :: "char \<Rightarrow> string \<Rightarrow> string \<Rightarrow> string \<Rightarrow> string \<Rightarrow> string" where
  "replace_from p ps repl before [] = []"
| "replace_from p ps repl before (c # s) =
     (case strip_prefix (p # ps) (c # s) of
        Some r \<Rightarrow> expand (p # ps) before r repl @ replace_from p ps repl (before @ p # ps) r
      | None \<Rightarrow> c # replace_from p ps repl (before @ [c]) s)"
  by pat_completeness auto
termination
  by (relation "measure (\<lambda>(p, ps, repl, before, s). length s)") (auto simp: strip_prefix_Some split: if_splits)

definition replace_all :: "string \<Rightarrow> string \<Rightarrow> string \<Rightarrow> string" where
  "replace_all pat repl s = (case pat of [] \<Rightarrow> s | p # ps \<Rightarrow> replace_from p ps repl [] s)"

section \<open>The templates\<close>

definition default_confirmation :: string where
  "default_confirmation =
     join NL
       [''Bonjour {clientName},'',
        [],
        ''Votre commande #{orderId} pour '' @ utf8_text [0x22] @ ''{productName}'' @ utf8_text [0x22] @ '' a bien '' @ utf8_text [0xE9] @ ''t'' @ utf8_text [0xE9] @ '' re'' @ utf8_text [0xE7] @ ''ue.'',
        [],
        ''Montant: {totalAmount} DA'',
        ''Wilaya: {wilaya}'',
        [],
        ''Merci pour votre confiance !'']"

definition default_shipped :: string where
  "default_shipped =
     join NL
       [''Bonjour {clientName},'',
        [],
        ''Votre commande #{orderId} pour '' @ utf8_text [0x22] @ ''{productName}'' @ utf8_text [0x22] @ '' a '' @ utf8_text [0xE9] @ ''t'' @ utf8_text [0xE9] @ '' exp'' @ utf8_text [0xE9] @ ''di'' @ utf8_text [0xE9] @ ''e !'',
        [],
        ''Suivi: {trackingNumber} ({provider})'',
        [],
        ''Merci de votre confiance !'']"

definition default_delivered :: string where
  "default_delivered =
     join NL
       [''Bonjour {clientName},'',
        [],
        ''Votre commande #{orderId} pour '' @ utf8_text [0x22] @ ''{productName}'' @ utf8_text [0x22] @ '' a '' @ utf8_text [0xE9] @ ''t'' @ utf8_text [0xE9] @ '' livr'' @ utf8_text [0xE9] @ ''e.'',
        [],
        ''Merci pour votre achat !'']"

definition merchant_template :: "string \<Rightarrow> string \<Rightarrow> string \<Rightarrow> world \<Rightarrow> string" where
  "merchant_template merchantId key dflt w =
     (case find_first (\<lambda>a. agent_merchantId a = merchantId) (agentConfigs w) of
        None \<Rightarrow> dflt
      | Some a \<Rightarrow>
          (case agent_templates a of
             None \<Rightarrow> dflt
           | Some t \<Rightarrow> coalesce (given (json_str key t)) dflt))"

record order_notice =
  no_id :: string
  no_merchantId :: string
  no_customerId :: string
  no_customerName :: string
  no_customerPhone :: string
  no_productName :: string
  no_platformOrderId :: string
  no_totalAmount :: rat
  no_wilaya :: string

definition client_name :: "order_notice \<Rightarrow> string" where
  "client_name n = (if no_customerName n = [] then ''Client'' else no_customerName n)"

definition confirmation_text :: "env \<Rightarrow> order_notice \<Rightarrow> string \<Rightarrow> string" where
  "confirmation_text E n tmpl =
     replace_all ''{wilaya}'' (no_wilaya n)
       (replace_all ''{totalAmount}'' (fr_number E (no_totalAmount n))
         (replace_all ''{productName}'' (no_productName n)
           (replace_all ''{orderId}'' (no_platformOrderId n)
             (replace_all ''{clientName}'' (client_name n) tmpl))))"

definition delivery_text :: "env \<Rightarrow> order_notice \<Rightarrow> string \<Rightarrow> string \<Rightarrow> string \<Rightarrow> string" where
  "delivery_text E n trackingNumber provider tmpl =
     replace_all ''{wilaya}'' (no_wilaya n)
       (replace_all ''{totalAmount}'' (fr_number E (no_totalAmount n))
         (replace_all ''{provider}'' provider
           (replace_all ''{trackingNumber}'' trackingNumber
             (replace_all ''{productName}'' (no_productName n)
               (replace_all ''{orderId}'' (no_platformOrderId n)
                 (replace_all ''{clientName}'' (client_name n) tmpl))))))"

section \<open>Sending\<close>

text \<open>
  The text is sent first and stored when the gateway took it; an error of either is only logged.
\<close>

definition send_and_store :: "env \<Rightarrow> string \<Rightarrow> string \<Rightarrow> string \<Rightarrow> string \<Rightarrow> world \<Rightarrow> world" where
  "send_and_store E sessionId phone conversationId t w =
     (case sendText E sessionId phone t w of
        (Inl _, w1) \<Rightarrow> w1
      | (Inr messageId, w1) \<Rightarrow>
          snd (addMessage E conversationId ''agent'' t (no_opts\<lparr>mo_whatsappMessageId := messageId\<rparr>) w1))"

definition notify_customer :: "env \<Rightarrow> order_notice \<Rightarrow> (world \<Rightarrow> string) \<Rightarrow> world \<Rightarrow> (exn + unit) \<times> world" where
  "notify_customer E n text w =
     (if no_customerPhone n = [] then (Inr (), w)
      else
        (case session_of (no_merchantId n) w of
           None \<Rightarrow> (Inr (), w)
         | Some s \<Rightarrow>
             (if session_status s \<noteq> ''connected'' \<and> session_status s \<noteq> ''ready'' then (Inr (), w)
              else
                (case createFromOrder E (no_merchantId n) (no_id n) (no_customerId n) (no_customerPhone n) w of
                   Inl e \<Rightarrow> (Inl e, w)
                 | Inr (c, w1) \<Rightarrow>
                     (Inr (), send_and_store E (session_sessionId s) (no_customerPhone n) (conv_id c) (text w1) w1)))))"

definition sendOrderNotification :: "env \<Rightarrow> order_notice \<Rightarrow> world \<Rightarrow> (exn + unit) \<times> world" where
  "sendOrderNotification E n w =
     notify_customer E n
       (\<lambda>w1. confirmation_text E n (merchant_template (no_merchantId n) ''orderConfirmation'' default_confirmation w1)) w"

definition sendDeliveryStatusNotification ::
  "env \<Rightarrow> order_notice \<Rightarrow> string \<Rightarrow> bool \<Rightarrow> string \<Rightarrow> world \<Rightarrow> (exn + unit) \<times> world" where
  "sendDeliveryStatusNotification E n trackingNumber isShipped provider w =
     notify_customer E n
       (\<lambda>w1. delivery_text E n trackingNumber provider
               (if isShipped then merchant_template (no_merchantId n) ''deliveryShipped'' default_shipped w1
                else merchant_template (no_merchantId n) ''deliveryDelivered'' default_delivered w1)) w"

section \<open>Properties\<close>

text \<open>A text without the first character of the pattern is left alone.\<close>

lemma replace_from_id: "p \<notin> set s \<Longrightarrow> replace_from p ps repl before s = s"
  by (induction s arbitrary: before) auto

lemma expand_plain: "CHR ''$'' \<notin> set r \<Longrightarrow> expand mt before after r = r"
  by (induction mt before after r rule: expand.induct) auto

text \<open>The two stages of a notification: attaching the conversation, then sending and storing.\<close>

lemma createFromOrder_frame:
  "createFromOrder E m ord cid phone w = Inr (c, w1) \<Longrightarrow> messages w1 = messages w \<and> owLog w1 = owLog w \<and>
     orders w1 = orders w \<and> customers w1 = customers w \<and> messageJobs w1 = messageJobs w"
  by (auto simp: createFromOrder_def set_current_order_def update_in_def put_conversations_def create_conversation_def Let_def
      split: option.splits sum.splits if_splits)

lemma send_and_store_frame:
  "orders (send_and_store E s p v t w) = orders w" "messageJobs (send_and_store E s p v t w) = messageJobs w"
  "(messages (send_and_store E s p v t w) = messages w \<or>
    (\<exists>m. messages (send_and_store E s p v t w) = messages w @ [m] \<and> msg_content m = t \<and> msg_conversationId m = v \<and>
         msg_direction m = OUT \<and> msg_sender m = AI)) \<and>
   sent_texts (send_and_store E s p v t w) = sent_texts w @ [(addSuffix p, t)]"
proof -
  obtain r w1 where r: "sendText E s p t w = (r, w1)" by fastforce
  have "quiet w1 = quiet w" using quiet_sendText [of E s p t w] r by simp
  then obtain L where L: "w1 = w\<lparr>owLog := L\<rparr>" using quiet_eq by blast
  have sent: "sent_texts w1 = sent_texts w @ [(addSuffix p, t)]" using sent_texts_sendText [of E s p t w] r by simp
  let ?w' = "send_and_store E s p v t w"
  show "orders ?w' = orders w" "messageJobs ?w' = messageJobs w"
    using r L by (auto simp: send_and_store_def addMessage_def create_message_def Let_def split: sum.splits)
  show "(messages ?w' = messages w \<or> (\<exists>m. messages ?w' = messages w @ [m] \<and> msg_content m = t \<and> msg_conversationId m = v \<and>
         msg_direction m = OUT \<and> msg_sender m = AI)) \<and> sent_texts ?w' = sent_texts w @ [(addSuffix p, t)]"
    using r L sent
    by (auto simp: send_and_store_def addMessage_def create_message_def message_input_of_def no_opts_def Let_def
        sent_texts_def split: sum.splits)
qed

lemma notify_customer_effect:
  assumes run: "notify_customer E n msg w = (res, w')"
  shows "orders w' = orders w \<and> messageJobs w' = messageJobs w \<and>
    (messages w' = messages w \<and> sent_texts w' = sent_texts w \<or>
     (\<exists>t. sent_texts w' = sent_texts w @ [(addSuffix (no_customerPhone n), t)] \<and>
        (messages w' = messages w \<or>
         (\<exists>m. messages w' = messages w @ [m] \<and> msg_content m = t \<and> msg_direction m = OUT \<and> msg_sender m = AI))))"
proof (cases "w' = w")
  case False
  then obtain s :: session_row and c w1 where s: "createFromOrder E (no_merchantId n) (no_id n) (no_customerId n) (no_customerPhone n) w = Inr (c, w1)"
    "w' = send_and_store E (session_sessionId s) (no_customerPhone n) (conv_id c) (msg w1) w1"
    using run by (auto simp: notify_customer_def split: if_splits option.splits sum.splits)
  have "sent_texts w1 = sent_texts w" using createFromOrder_frame [OF s(1)] by (simp add: sent_texts_def)
  with createFromOrder_frame [OF s(1)]
    send_and_store_frame [of E "session_sessionId s" "no_customerPhone n" "conv_id c" "msg w1" w1]
  show ?thesis unfolding s(2) by auto
qed simp

lemma notification_orders: "sendDeliveryStatusNotification E n tn shipped provider w = (res, w') \<Longrightarrow> orders w' = orders w"
  using notify_customer_effect unfolding sendDeliveryStatusNotification_def by blast

text \<open>A notification about an order sends at most one text, to the phone of the customer, and what it stores is
  what it sent: it stores no message without sending its text.  It changes no order and starts no agent run.\<close>

theorem notification_stores_what_it_sent:
  assumes "sendOrderNotification E n w = (res, w') \<or> sendDeliveryStatusNotification E n tn shipped provider w = (res, w')"
  shows "orders w' = orders w \<and> messageJobs w' = messageJobs w \<and>
    (messages w' = messages w \<and> sent_texts w' = sent_texts w \<or>
     (\<exists>t. sent_texts w' = sent_texts w @ [(addSuffix (no_customerPhone n), t)] \<and>
        (messages w' = messages w \<or>
         (\<exists>m. messages w' = messages w @ [m] \<and> msg_content m = t \<and> msg_direction m = OUT \<and> msg_sender m = AI))))"
proof -
  obtain msg where "notify_customer E n msg w = (res, w')"
    using assms by (auto simp: sendOrderNotification_def sendDeliveryStatusNotification_def)
  then show ?thesis by (rule notify_customer_effect)
qed

definition sample_notice :: order_notice where
  "sample_notice = \<lparr>no_id = ''o1'', no_merchantId = ''m1'', no_customerId = ''c1'', no_customerName = ''Amine'',
     no_customerPhone = ''213550'', no_productName = ''bag'', no_platformOrderId = ''7'', no_totalAmount = 500,
     no_wilaya = ''Alger''\<rparr>"

theorem notification_stores_what_it_sent_witness:
  "\<exists>w'. sendDeliveryStatusNotification sample_env sample_notice ''TN1'' True ''yalidine'' sample_world = (Inr (), w') \<and>
     length (messages w') = 1 \<and> length (sent_texts w') = 1 \<and> orders w' = orders sample_world"
proof -
  obtain res w' where run: "sendDeliveryStatusNotification sample_env sample_notice ''TN1'' True ''yalidine'' sample_world = (res, w')"
    by fastforce
  have "orders w' = orders sample_world" using notification_stores_what_it_sent [OF disjI2 [OF run]] by blast
  moreover have "fst (sendDeliveryStatusNotification sample_env sample_notice ''TN1'' True ''yalidine'' sample_world) = Inr ()"
    by code_simp
  moreover have "length (messages (snd (sendDeliveryStatusNotification sample_env sample_notice ''TN1'' True ''yalidine'' sample_world))) = 1"
    by code_simp
  moreover have "length (sent_texts (snd (sendDeliveryStatusNotification sample_env sample_notice ''TN1'' True ''yalidine'' sample_world))) = 1"
    by code_simp
  ultimately show ?thesis using run by auto
qed

end
