(* ===== verification/Wilayas.thy ===== *)
theory Wilayas
  imports Json
begin

text \<open>
  The provinces of \<open>shared/src/utils/index.ts\<close>: the table, the comparison of names without accents, and the
  helpers for prices and phones.
\<close>

record WilayaInfo =
  wi_code :: int
  wi_name :: string
  wi_nameAr :: string
  wi_nameAscii :: string
  wi_communeCount :: nat

definition wilaya_info :: "int \<Rightarrow> string \<Rightarrow> string \<Rightarrow> string \<Rightarrow> nat \<Rightarrow> WilayaInfo" where
  "wilaya_info code name nameAr nameAscii communeCount =
     \<lparr>wi_code = code, wi_name = name, wi_nameAr = nameAr, wi_nameAscii = nameAscii, wi_communeCount = communeCount\<rparr>"

definition WILAYAS :: "WilayaInfo list" where
  "WILAYAS =
     [wilaya_info 1 ''Adrar'' (utf8_text [0x623, 0x62F, 0x631, 0x627, 0x631]) ''Adrar'' 16,
      wilaya_info 2 ''Chlef'' (utf8_text [0x627, 0x644, 0x634, 0x644, 0x641]) ''Chlef'' 35,
      wilaya_info 3 ''Laghouat'' (utf8_text [0x627, 0x644, 0x623, 0x63A, 0x648, 0x627, 0x637]) ''Laghouat'' 24,
      wilaya_info 4 ''Oum El Bouaghi'' (utf8_text [0x623, 0x645] @ '' '' @ utf8_text [0x627, 0x644, 0x628, 0x648, 0x627, 0x642, 0x64A]) ''Oum El Bouaghi'' 29,
      wilaya_info 5 ''Batna'' (utf8_text [0x628, 0x627, 0x62A, 0x646, 0x629]) ''Batna'' 61,
      wilaya_info 6 (''B'' @ utf8_text [0xE9] @ ''ja'' @ utf8_text [0xEF] @ ''a'') (utf8_text [0x628, 0x62C, 0x627, 0x64A, 0x629]) ''Bejaia'' 52,
      wilaya_info 7 ''Biskra'' (utf8_text [0x628, 0x633, 0x643, 0x631, 0x629]) ''Biskra'' 27,
      wilaya_info 8 (''B'' @ utf8_text [0xE9] @ ''char'') (utf8_text [0x628, 0x634, 0x627, 0x631]) ''Bechar'' 11,
      wilaya_info 9 ''Blida'' (utf8_text [0x627, 0x644, 0x628, 0x644, 0x64A, 0x62F, 0x629]) ''Blida'' 25,
      wilaya_info 10 ''Bouira'' (utf8_text [0x627, 0x644, 0x628, 0x648, 0x64A, 0x631, 0x629]) ''Bouira'' 45,
      wilaya_info 11 ''Tamanrasset'' (utf8_text [0x62A, 0x645, 0x646, 0x631, 0x627, 0x633, 0x62A]) ''Tamanrasset'' 5,
      wilaya_info 12 (''T'' @ utf8_text [0xE9] @ ''bessa'') (utf8_text [0x62A, 0x628, 0x633, 0x629]) ''Tebessa'' 28,
      wilaya_info 13 ''Tlemcen'' (utf8_text [0x62A, 0x644, 0x645, 0x633, 0x627, 0x646]) ''Tlemcen'' 53,
      wilaya_info 14 ''Tiaret'' (utf8_text [0x62A, 0x64A, 0x627, 0x631, 0x62A]) ''Tiaret'' 42,
      wilaya_info 15 ''Tizi Ouzou'' (utf8_text [0x62A, 0x64A, 0x632, 0x64A] @ '' '' @ utf8_text [0x648, 0x632, 0x648]) ''Tizi Ouzou'' 67,
      wilaya_info 16 ''Alger'' (utf8_text [0x627, 0x644, 0x62C, 0x632, 0x627, 0x626, 0x631]) ''Alger'' 57,
      wilaya_info 17 ''Djelfa'' (utf8_text [0x627, 0x644, 0x62C, 0x644, 0x641, 0x629]) ''Djelfa'' 36,
      wilaya_info 18 ''Jijel'' (utf8_text [0x62C, 0x64A, 0x62C, 0x644]) ''Jijel'' 28,
      wilaya_info 19 (''S'' @ utf8_text [0xE9] @ ''tif'') (utf8_text [0x633, 0x637, 0x64A, 0x641]) ''Setif'' 60,
      wilaya_info 20 (''Sa'' @ utf8_text [0xEF] @ ''da'') (utf8_text [0x633, 0x639, 0x64A, 0x62F, 0x629]) ''Saida'' 16,
      wilaya_info 21 ''Skikda'' (utf8_text [0x633, 0x643, 0x64A, 0x643, 0x62F, 0x629]) ''Skikda'' 38,
      wilaya_info 22 (''Sidi Bel Abb'' @ utf8_text [0xE8] @ ''s'') (utf8_text [0x633, 0x64A, 0x62F, 0x64A] @ '' '' @ utf8_text [0x628, 0x644, 0x639, 0x628, 0x627, 0x633]) ''Sidi Bel Abbes'' 52,
      wilaya_info 23 ''Annaba'' (utf8_text [0x639, 0x646, 0x627, 0x628, 0x629]) ''Annaba'' 12,
      wilaya_info 24 ''Guelma'' (utf8_text [0x642, 0x627, 0x644, 0x645, 0x629]) ''Guelma'' 34,
      wilaya_info 25 ''Constantine'' (utf8_text [0x642, 0x633, 0x646, 0x637, 0x64A, 0x646, 0x629]) ''Constantine'' 12,
      wilaya_info 26 (''M'' @ utf8_text [0xE9] @ ''d'' @ utf8_text [0xE9] @ ''a'') (utf8_text [0x627, 0x644, 0x645, 0x62F, 0x64A, 0x629]) ''Medea'' 64,
      wilaya_info 27 ''Mostaganem'' (utf8_text [0x645, 0x633, 0x62A, 0x63A, 0x627, 0x646, 0x645]) ''Mostaganem'' 32,
      wilaya_info 28 (''M'' @ utf8_text [0x27] @ ''Sila'') (utf8_text [0x627, 0x644, 0x645, 0x633, 0x64A, 0x644, 0x629]) (''M'' @ utf8_text [0x27] @ ''Sila'') 47,
      wilaya_info 29 ''Mascara'' (utf8_text [0x645, 0x639, 0x633, 0x643, 0x631]) ''Mascara'' 47,
      wilaya_info 30 ''Ouargla'' (utf8_text [0x648, 0x631, 0x642, 0x644, 0x629]) ''Ouargla'' 8,
      wilaya_info 31 ''Oran'' (utf8_text [0x648, 0x647, 0x631, 0x627, 0x646]) ''Oran'' 26,
      wilaya_info 32 ''El Bayadh'' (utf8_text [0x627, 0x644, 0x628, 0x64A, 0x636]) ''El Bayadh'' 22,
      wilaya_info 33 ''Illizi'' (utf8_text [0x625, 0x644, 0x64A, 0x632, 0x64A]) ''Illizi'' 4,
      wilaya_info 34 (''Bordj Bou Arr'' @ utf8_text [0xE9] @ ''ridj'') (utf8_text [0x628, 0x631, 0x62C] @ '' '' @ utf8_text [0x628, 0x648, 0x639, 0x631, 0x64A, 0x631, 0x64A, 0x62C]) ''Bordj Bou Arreridj'' 34,
      wilaya_info 35 (''Boumerd'' @ utf8_text [0xE8] @ ''s'') (utf8_text [0x628, 0x648, 0x645, 0x631, 0x62F, 0x627, 0x633]) ''Boumerdes'' 32,
      wilaya_info 36 ''El Tarf'' (utf8_text [0x627, 0x644, 0x637, 0x627, 0x631, 0x641]) ''El Tarf'' 24,
      wilaya_info 37 ''Tindouf'' (utf8_text [0x62A, 0x646, 0x62F, 0x648, 0x641]) ''Tindouf'' 2,
      wilaya_info 38 ''Tissemsilt'' (utf8_text [0x62A, 0x64A, 0x633, 0x645, 0x633, 0x64A, 0x644, 0x62A]) ''Tissemsilt'' 22,
      wilaya_info 39 ''El Oued'' (utf8_text [0x627, 0x644, 0x648, 0x627, 0x62F, 0x64A]) ''El Oued'' 22,
      wilaya_info 40 ''Khenchela'' (utf8_text [0x62E, 0x646, 0x634, 0x644, 0x629]) ''Khenchela'' 21,
      wilaya_info 41 ''Souk Ahras'' (utf8_text [0x633, 0x648, 0x642] @ '' '' @ utf8_text [0x623, 0x647, 0x631, 0x627, 0x633]) ''Souk Ahras'' 26,
      wilaya_info 42 ''Tipaza'' (utf8_text [0x62A, 0x64A, 0x628, 0x627, 0x632, 0x629]) ''Tipaza'' 28,
      wilaya_info 43 ''Mila'' (utf8_text [0x645, 0x64A, 0x644, 0x629]) ''Mila'' 32,
      wilaya_info 44 (''A'' @ utf8_text [0xEF] @ ''n Defla'') (utf8_text [0x639, 0x64A, 0x646] @ '' '' @ utf8_text [0x627, 0x644, 0x62F, 0x641, 0x644, 0x649]) ''Ain Defla'' 36,
      wilaya_info 45 (''Na'' @ utf8_text [0xE2] @ ''ma'') (utf8_text [0x627, 0x644, 0x646, 0x639, 0x627, 0x645, 0x629]) ''Naama'' 12,
      wilaya_info 46 (''A'' @ utf8_text [0xEF] @ ''n T'' @ utf8_text [0xE9] @ ''mouchent'') (utf8_text [0x639, 0x64A, 0x646] @ '' '' @ utf8_text [0x62A, 0x645, 0x648, 0x634, 0x646, 0x62A]) ''Ain Temouchent'' 28,
      wilaya_info 47 (''Gharda'' @ utf8_text [0xEF] @ ''a'') (utf8_text [0x63A, 0x631, 0x62F, 0x627, 0x64A, 0x629]) ''Ghardaia'' 10,
      wilaya_info 48 ''Relizane'' (utf8_text [0x63A, 0x644, 0x64A, 0x632, 0x627, 0x646]) ''Relizane'' 38,
      wilaya_info 49 ''Timimoun'' (utf8_text [0x62A, 0x64A, 0x645, 0x64A, 0x645, 0x648, 0x646]) ''Timimoun'' 10,
      wilaya_info 50 ''Bordj Badji Mokhtar'' (utf8_text [0x628, 0x631, 0x62C] @ '' '' @ utf8_text [0x628, 0x627, 0x62C, 0x64A] @ '' '' @ utf8_text [0x645, 0x62E, 0x62A, 0x627, 0x631]) ''Bordj Badji Mokhtar'' 2,
      wilaya_info 51 ''Ouled Djellal'' (utf8_text [0x623, 0x648, 0x644, 0x627, 0x62F] @ '' '' @ utf8_text [0x62C, 0x644, 0x627, 0x644]) ''Ouled Djellal'' 6,
      wilaya_info 52 (''B'' @ utf8_text [0xE9] @ ''ni Abb'' @ utf8_text [0xE8] @ ''s'') (utf8_text [0x628, 0x646, 0x64A] @ '' '' @ utf8_text [0x639, 0x628, 0x627, 0x633]) ''Beni Abbes'' 10,
      wilaya_info 53 ''In Salah'' (utf8_text [0x639, 0x64A, 0x646] @ '' '' @ utf8_text [0x635, 0x627, 0x644, 0x62D]) ''In Salah'' 3,
      wilaya_info 54 ''In Guezzam'' (utf8_text [0x639, 0x64A, 0x646] @ '' '' @ utf8_text [0x642, 0x632, 0x627, 0x645]) ''In Guezzam'' 2,
      wilaya_info 55 ''Touggourt'' (utf8_text [0x62A, 0x642, 0x631, 0x62A]) ''Touggourt'' 13,
      wilaya_info 56 ''Djanet'' (utf8_text [0x62C, 0x627, 0x646, 0x62A]) ''Djanet'' 2,
      wilaya_info 57 (''El M'' @ utf8_text [0x27] @ ''Ghair'') (utf8_text [0x627, 0x644, 0x645, 0x63A, 0x64A, 0x631]) (''El M'' @ utf8_text [0x27] @ ''Ghair'') 8,
      wilaya_info 58 ''El Meniaa'' (utf8_text [0x627, 0x644, 0x645, 0x646, 0x64A, 0x639, 0x629]) ''El Meniaa'' 3]"

text \<open>
  The combining marks U+0300 to U+036F in UTF-8, and what a name becomes without them.  The parameter gives
  the lower case of a text in canonical decomposition, which the tables of Unicode define.
\<close>

definition is_mark :: "char \<Rightarrow> char \<Rightarrow> bool" where
  "is_mark c d \<longleftrightarrow>
     c = CHR 0xCC \<and> 128 \<le> (of_char d :: nat) \<and> (of_char d :: nat) \<le> 191 \<or>
     c = CHR 0xCD \<and> 128 \<le> (of_char d :: nat) \<and> (of_char d :: nat) \<le> 175"

fun replace_marks :: "string \<Rightarrow> string \<Rightarrow> string" where
  "replace_marks r [] = []"
| "replace_marks r [c] = [c]"
| "replace_marks r (c # d # s) = (if is_mark c d then r @ replace_marks r s else c # replace_marks r (d # s))"

definition normalizeName :: "(string \<Rightarrow> string) \<Rightarrow> string \<Rightarrow> string" where
  "normalizeName lower_nfd name = replace_marks [] (lower_nfd name)"

definition getWilayaName :: "int \<Rightarrow> string option" where
  "getWilayaName code = map_option wi_name (List.find (\<lambda>w. wi_code w = code) WILAYAS)"

definition getWilayaCode :: "(string \<Rightarrow> string) \<Rightarrow> string \<Rightarrow> int option" where
  "getWilayaCode lower_nfd name =
     map_option wi_code
       (List.find (\<lambda>w. normalizeName lower_nfd (wi_name w) = normalizeName lower_nfd name) WILAYAS)"

text \<open>\<open>slice(-4)\<close> is the last four characters.\<close>

definition maskPhone :: "string \<Rightarrow> string" where
  "maskPhone phone =
     (if length phone < 6 then phone else take 4 phone @ ''****'' @ drop (length phone - 4) phone)"

section \<open>Names and codes\<close>

lemma find_by_key: "distinct (map k xs) \<Longrightarrow> x \<in> set xs \<Longrightarrow> List.find (\<lambda>y. k y = k x) xs = Some x"
  by (induction xs) auto

lemma wilaya_codes: "map wi_code WILAYAS = [1..58]"
  by (simp add: WILAYAS_def wilaya_info_def upto.simps)

text \<open>The code of a province is found from its name and the name from its code, for all 58 of them; a spelling
  that differs from the name only in case and accents gives the same code.\<close>

theorem wilaya_roundtrip:
  assumes "distinct (map (\<lambda>w. normalizeName lower_nfd (wi_name w)) WILAYAS)" "w \<in> set WILAYAS"
    and "normalizeName lower_nfd n = normalizeName lower_nfd (wi_name w)"
  shows "getWilayaCode lower_nfd n = Some (wi_code w) \<and> getWilayaName (wi_code w) = Some (wi_name w)"
proof -
  have "distinct (map wi_code WILAYAS)" by (simp add: wilaya_codes)
  then show ?thesis
    using find_by_key [OF assms(1,2)] find_by_key [of wi_code WILAYAS w] assms(2,3)
    by (simp add: getWilayaCode_def getWilayaName_def)
qed

lemma accents:
  "utf8_text [0x27] = [CHR 0x27]"
  "utf8_text [0xE2] = [CHR 0xC3, CHR 0xA2]"
  "utf8_text [0xE8] = [CHR 0xC3, CHR 0xA8]"
  "utf8_text [0xE9] = [CHR 0xC3, CHR 0xA9]"
  "utf8_text [0xEF] = [CHR 0xC3, CHR 0xAF]"
  by code_simp+

lemma plain_names_distinct: "distinct (map (\<lambda>w. normalizeName (\<lambda>s. s) (wi_name w)) WILAYAS)"
  by (simp add: WILAYAS_def wilaya_info_def accents normalizeName_def is_mark_def)

text \<open>Masking hides the characters between the first and the last four: nothing of a phone number of at most
  eight characters.\<close>

lemma maskPhone_hides:
  assumes "6 \<le> length p"
  shows "maskPhone (take 4 p @ mid @ drop (length p - 4) p) = take 4 p @ ''****'' @ drop (length p - 4) p"
  using assms by (simp add: maskPhone_def)

lemma maskPhone_short_reveals:
  assumes "length p = 8" and "maskPhone p = maskPhone q" and "length q = 8"
  shows "p = q"
proof -
  have "take 4 p = take 4 q" "drop 4 p = drop 4 q"
    using assms by (simp_all add: maskPhone_def append_eq_conv_conj)
  then show ?thesis by (metis append_take_drop_id)
qed

theorem wilaya_roundtrip_witness:
  "getWilayaCode (\<lambda>s. s) ''Alger'' = Some 16 \<and> getWilayaName 16 = Some ''Alger''"
proof -
  let ?w = "WILAYAS ! 15"
  have w: "?w \<in> set WILAYAS" "wi_code ?w = 16" "wi_name ?w = ''Alger''"
    by (simp_all add: WILAYAS_def wilaya_info_def)
  then show ?thesis using wilaya_roundtrip [OF plain_names_distinct w(1), of "''Alger''"] by simp
qed

end
