(* ===== verification/Delivery_Providers.thy ===== *)
theory Delivery_Providers
  imports Wilayas Products Webhook
begin

text \<open>
  The carriers of \<open>back/src/modules/delivery/providers\<close>: the parcel and tracking types, the four drivers with
  every request they make, and \<open>ProviderFactory\<close>.  A driver is a record of functions, as the abstract class
  declares them; the requests go into a log.  The locale \<open>carrier\<close> is what the service relies on when it creates
  a parcel.
\<close>

section \<open>Requests\<close>

text \<open>
  A request of \<open>axios\<close>, and what it gives: a response, or an error with the response it came with.  The
  parameter holds the answer to the \<open>n\<close>-th request, the lower-case canonical decomposition of a text, and the
  text of a base64 buffer.
\<close>

record http_request =
  rq_method :: string
  rq_base :: string
  rq_path :: string
  rq_headers :: "(string \<times> string) list"
  rq_params :: entities
  rq_body :: "jval option"

record http_response =
  rs_status :: nat
  rs_data :: jval

record http_error =
  he_message :: string
  he_response :: "http_response option"

type_synonym http_log = "http_request list"

record delivery_env =
  http :: "nat \<Rightarrow> http_request \<Rightarrow> http_error + http_response"
  lower_nfd :: "string \<Rightarrow> string"
  b64text :: "string \<Rightarrow> string"

definition send :: "delivery_env \<Rightarrow> http_request \<Rightarrow> http_log \<Rightarrow> (http_error + http_response) \<times> http_log" where
  "send D rq L = (http D (length L) rq, L @ [rq])"

definition JSON_TYPE :: "string \<times> string" where
  "JSON_TYPE = (''Content-Type'', ''application/json'')"

definition get_request :: "string \<Rightarrow> (string \<times> string) list \<Rightarrow> string \<Rightarrow> entities \<Rightarrow> http_request" where
  "get_request base headers path params =
     \<lparr>rq_method = ''GET'', rq_base = base, rq_path = path, rq_headers = headers, rq_params = params, rq_body = None\<rparr>"

definition post_request :: "string \<Rightarrow> (string \<times> string) list \<Rightarrow> string \<Rightarrow> jval option \<Rightarrow> http_request" where
  "post_request base headers path body =
     \<lparr>rq_method = ''POST'', rq_base = base, rq_path = path, rq_headers = headers, rq_params = [], rq_body = body\<rparr>"

section \<open>Values\<close>

text \<open>\<open>a || b\<close>, an object without the members that are \<open>undefined\<close>, and \<open>Number(v)\<close> (\<open>None\<close> is \<open>NaN\<close> or infinite).\<close>

definition js_or :: "jval option \<Rightarrow> jval option \<Rightarrow> jval option" where
  "js_or a b = (case a of Some v \<Rightarrow> (if truthy v then a else b) | None \<Rightarrow> b)"

definition members :: "(string \<times> jval option) list \<Rightarrow> entities" where
  "members ms = List.map_filter (\<lambda>(k, v). map_option (Pair k) v) ms"

fun js_number :: "jval \<Rightarrow> rat option" where
  "js_number JNull = Some 0"
| "js_number (JBool b) = Some (if b then 1 else 0)"
| "js_number (JNum x) = Some x"
| "js_number (JStr s) = number_of_text s"
| "js_number (JObj _) = None"
| "js_number (JArr []) = Some 0"
| "js_number (JArr [JBool _]) = None"
| "js_number (JArr [v]) = js_number v"
| "js_number (JArr (_ # _ # _)) = None"

definition Number_of :: "jval option \<Rightarrow> rat option" where
  "Number_of v = (case v of None \<Rightarrow> None | Some x \<Rightarrow> js_number x)"

definition math_round :: "rat \<Rightarrow> rat" where
  "math_round x = of_int \<lfloor>x + 1 / 2\<rfloor>"

section \<open>Types\<close>

record ParcelInput =
  pi_orderId :: string
  pi_platformOrderId :: string
  pi_firstName :: string
  pi_familyName :: string
  pi_phone :: string
  pi_address :: string
  pi_wilaya :: string
  pi_commune :: string
  pi_productList :: string
  pi_price :: rat
  pi_weight :: "rat option"
  pi_length :: "rat option"
  pi_width :: "rat option"
  pi_height :: "rat option"
  pi_freeShipping :: "bool option"
  pi_isStopDesk :: "bool option"
  pi_stopDeskId :: "rat option"
  pi_doInsurance :: "bool option"
  pi_declaredValue :: "rat option"
  pi_hasExchange :: "bool option"
  pi_productToCollect :: "string option"

record ParcelResult =
  pr_trackingNumber :: "jval option"
  pr_labelUrl :: "jval option"

record TrackingEvent =
  te_date :: "jval option"
  te_status :: "jval option"
  te_location :: "jval option"
  te_reason :: "jval option"

record TrackingStatus =
  ts_tracking :: string
  ts_status :: jval
  ts_lastUpdate :: jval
  ts_history :: "TrackingEvent list"

datatype event_status = shipped | delivered | returned | cancelled

record WebhookEvent =
  we_tracking :: string
  we_status :: event_status
  we_rawStatus :: string
  we_date :: "jval option"

record FeeQuery =
  fq_fromWilaya :: string
  fq_toWilaya :: string
  fq_weight :: rat

text \<open>\<open>AbstractDeliveryProvider\<close>; \<open>disconnect\<close> does nothing in every driver.\<close>

record driver =
  connect :: "http_log \<Rightarrow> bool \<times> http_log"
  createParcel :: "ParcelInput \<Rightarrow> http_log \<Rightarrow> (exn + ParcelResult) \<times> http_log"
  getTracking :: "string \<Rightarrow> http_log \<Rightarrow> (exn + TrackingStatus) \<times> http_log"
  getFee :: "FeeQuery \<Rightarrow> http_log \<Rightarrow> (exn + jval option) \<times> http_log"
  verifyWebhookSignature :: "string \<Rightarrow> string \<Rightarrow> bool"
  parseWebhook :: "string \<Rightarrow> jval \<Rightarrow> WebhookEvent option"

text \<open>
  The \<open>catch\<close> of the drivers: an error of a request, or one the driver threw itself.  The new error has the
  message of the response, or that of the error, or a default.
\<close>

datatype failure = Http http_error | Thrown string

definition rethrow :: "env \<Rightarrow> string \<Rightarrow> failure \<Rightarrow> exn" where
  "rethrow E dflt f =
     (case f of
        Thrown m \<Rightarrow> Error (if m = [] then dflt else m)
      | Http e \<Rightarrow>
          (case js_or (case he_response e of None \<Rightarrow> None | Some r \<Rightarrow> json_field ''message'' (rs_data r)) None of
             Some v \<Rightarrow> Error (id_text E (Some v))
           | None \<Rightarrow> Error (if he_message e = [] then dflt else he_message e)))"

definition full_name :: "ParcelInput \<Rightarrow> string" where
  "full_name p = js_trim (pi_firstName p @ '' '' @ pi_familyName p)"

definition first_element :: "jval option \<Rightarrow> jval option" where
  "first_element v = (case v of Some (JArr (x # _)) \<Rightarrow> Some x | _ \<Rightarrow> None)"

definition field_of :: "string \<Rightarrow> jval option \<Rightarrow> jval option" where
  "field_of k v = (case v of Some x \<Rightarrow> json_field k x | None \<Rightarrow> None)"

definition nullish_value :: "jval option \<Rightarrow> jval option" where
  "nullish_value v = (case v of Some JNull \<Rightarrow> None | _ \<Rightarrow> v)"

section \<open>Yalidine\<close>

definition YALIDINE_URL :: string where "YALIDINE_URL = ''https://api.yalidine.app/v1''"

definition yalidine_headers :: "string \<Rightarrow> string \<Rightarrow> (string \<times> string) list" where
  "yalidine_headers apiId apiToken = [(''X-API-ID'', apiId), (''X-API-Token'', apiToken), JSON_TYPE]"

definition yalidine_connect :: "delivery_env \<Rightarrow> string \<Rightarrow> string \<Rightarrow> http_log \<Rightarrow> bool \<times> http_log" where
  "yalidine_connect D apiId apiToken L =
     map_prod (\<lambda>r. \<not> isl r) id
       (send D (get_request YALIDINE_URL (yalidine_headers apiId apiToken) ''/centers'' [(''wilaya_id'', JNum 16)]) L)"

definition yalidine_parcel :: "ParcelInput \<Rightarrow> jval" where
  "yalidine_parcel p =
     JObj (members
       [(''order_id'', Some (JStr (pi_platformOrderId p))), (''from_wilaya_name'', Some (JStr ''Alger'')),
        (''firstname'', Some (JStr (pi_firstName p))), (''familyname'', Some (JStr (pi_familyName p))),
        (''contact_phone'', Some (JStr (pi_phone p))), (''address'', Some (JStr (pi_address p))),
        (''to_commune_name'', Some (JStr (pi_commune p))), (''to_wilaya_name'', Some (JStr (pi_wilaya p))),
        (''product_list'', Some (JStr (pi_productList p))), (''price'', Some (JNum (pi_price p))),
        (''weight'', Some (JNum (coalesce (pi_weight p) (1 / 2)))), (''length'', Some (JNum (coalesce (pi_length p) 10))),
        (''width'', Some (JNum (coalesce (pi_width p) 10))), (''height'', Some (JNum (coalesce (pi_height p) 10))),
        (''freeshipping'', Some (JBool (coalesce (pi_freeShipping p) False))),
        (''is_stopdesk'', Some (JBool (coalesce (pi_isStopDesk p) False))),
        (''stopdesk_id'', map_option JNum (pi_stopDeskId p)),
        (''do_insurance'', Some (JBool (coalesce (pi_doInsurance p) False))),
        (''declared_value'', map_option JNum (pi_declaredValue p)),
        (''has_exchange'', Some (JBool (coalesce (pi_hasExchange p) False))),
        (''product_to_collect'', map_option JStr (pi_productToCollect p))])"

text \<open>Reading a property of \<open>null\<close> throws.\<close>

definition yalidine_createParcel ::
  "env \<Rightarrow> delivery_env \<Rightarrow> string \<Rightarrow> string \<Rightarrow> ParcelInput \<Rightarrow> http_log \<Rightarrow> (exn + ParcelResult) \<times> http_log" where
  "yalidine_createParcel E D apiId apiToken p L =
     (case send D (post_request YALIDINE_URL (yalidine_headers apiId apiToken) ''/parcels'' (Some (yalidine_parcel p))) L of
        (Inl e, L1) \<Rightarrow> (Inl (rethrow E ''Yalidine API error'' (Http e)), L1)
      | (Inr r, L1) \<Rightarrow>
          (if rs_data r = JNull then (Inl (rethrow E ''Yalidine API error'' (Thrown ''TypeError'')), L1)
           else (Inr \<lparr>pr_trackingNumber = json_field ''tracking'' (rs_data r),
                      pr_labelUrl = json_field ''label_url'' (rs_data r)\<rparr>, L1)))"

definition yalidine_location :: "env \<Rightarrow> jval \<Rightarrow> string" where
  "yalidine_location E e =
     join '', '' (map (\<lambda>v. id_text E (Some v))
       (filter truthy (List.map_filter (\<lambda>k. json_field k e) [''center_name'', ''wilaya_name'', ''commune_name''])))"

definition yalidine_event :: "env \<Rightarrow> jval \<Rightarrow> TrackingEvent" where
  "yalidine_event E e =
     \<lparr>te_date = json_field ''date_status'' e, te_status = json_field ''status'' e,
      te_location = Some (JStr (yalidine_location E e)), te_reason = None\<rparr>"

definition status_of_history :: "string \<Rightarrow> TrackingEvent list \<Rightarrow> TrackingStatus" where
  "status_of_history trackingNumber events =
     \<lparr>ts_tracking = trackingNumber,
      ts_status = (case events of [] \<Rightarrow> JStr ''unknown'' | e # _ \<Rightarrow> coalesce (nullish_value (te_status e)) (JStr ''unknown'')),
      ts_lastUpdate = (case events of [] \<Rightarrow> JStr [] | e # _ \<Rightarrow> coalesce (nullish_value (te_date e)) (JStr [])),
      ts_history = events\<rparr>"

definition yalidine_getTracking ::
  "env \<Rightarrow> delivery_env \<Rightarrow> string \<Rightarrow> string \<Rightarrow> string \<Rightarrow> http_log \<Rightarrow> (exn + TrackingStatus) \<times> http_log" where
  "yalidine_getTracking E D apiId apiToken trackingNumber L =
     (case send D (get_request YALIDINE_URL (yalidine_headers apiId apiToken) (''/parcels/'' @ trackingNumber) []) L of
        (Inl e, L1) \<Rightarrow> (Inl (rethrow E ''Yalidine API error'' (Http e)), L1)
      | (Inr r, L1) \<Rightarrow>
          (case rs_data r of
             JArr vs \<Rightarrow>
               (if JNull \<in> set vs then (Inl (rethrow E ''Yalidine API error'' (Thrown ''TypeError'')), L1)
                else (Inr (status_of_history trackingNumber (map (yalidine_event E) vs)), L1))
           | _ \<Rightarrow> (Inl (rethrow E ''Yalidine API error'' (Thrown ''TypeError'')), L1)))"

definition yalidine_getFee ::
  "delivery_env \<Rightarrow> string \<Rightarrow> string \<Rightarrow> FeeQuery \<Rightarrow> http_log \<Rightarrow> (exn + jval option) \<times> http_log" where
  "yalidine_getFee D apiId apiToken q L =
     (case send D (get_request YALIDINE_URL (yalidine_headers apiId apiToken) ''/fees''
             [(''to_wilaya_name'', JStr (fq_toWilaya q)), (''from_wilaya_name'', JStr (fq_fromWilaya q)),
              (''weight'', JNum (fq_weight q))]) L of
        (Inl e, L1) \<Rightarrow> (Inl (Error (he_message e)), L1)
      | (Inr r, L1) \<Rightarrow> (if rs_data r = JNull then (Inl (Error ''TypeError''), L1) else (Inr (json_field ''fee'' (rs_data r)), L1)))"

definition YalidineProvider :: "env \<Rightarrow> delivery_env \<Rightarrow> string \<Rightarrow> string \<Rightarrow> driver" where
  "YalidineProvider E D apiId apiToken =
     \<lparr>connect = yalidine_connect D apiId apiToken, createParcel = yalidine_createParcel E D apiId apiToken,
      getTracking = yalidine_getTracking E D apiId apiToken, getFee = yalidine_getFee D apiId apiToken,
      verifyWebhookSignature = (\<lambda>_ _. True), parseWebhook = (\<lambda>_ _. None)\<rparr>"

section \<open>Procolis\<close>

definition PROCOLIS_URL :: string where "PROCOLIS_URL = ''https://procolis.com/api_v1''"

definition procolis_headers :: "string \<Rightarrow> string \<Rightarrow> (string \<times> string) list" where
  "procolis_headers apiId apiToken = [(''token'', apiId), (''key'', apiToken), JSON_TYPE]"

definition procolis_active :: string where
  "procolis_active = ''Acc'' @ utf8_text [0xE8] @ ''s activ'' @ utf8_text [0xE9]"

definition procolis_connect :: "delivery_env \<Rightarrow> string \<Rightarrow> string \<Rightarrow> http_log \<Rightarrow> bool \<times> http_log" where
  "procolis_connect D apiId apiToken L =
     (case send D (get_request PROCOLIS_URL (procolis_headers apiId apiToken) ''/token'' []) L of
        (Inl e, L1) \<Rightarrow> (False, L1)
      | (Inr r, L1) \<Rightarrow> (json_field ''Statut'' (rs_data r) = Some (JStr procolis_active), L1))"

definition procolis_parcel :: "ParcelInput \<Rightarrow> int \<Rightarrow> jval" where
  "procolis_parcel p code =
     JObj
       [(''Tracking'', JStr []), (''TypeLivraison'', JNum (if coalesce (pi_isStopDesk p) False then 1 else 0)),
        (''TypeColis'', JNum (if coalesce (pi_hasExchange p) False then 1 else 0)), (''Confirmee'', JNum 1),
        (''Client'', JStr (full_name p)), (''MobileA'', JStr (pi_phone p)), (''MobileB'', JStr []),
        (''Adresse'', JStr (pi_address p)), (''IDWilaya'', JNum (of_int code)), (''Commune'', JStr (pi_commune p)),
        (''Total'', JNum (pi_price p)), (''Note'', JStr []), (''TProduit'', JStr (pi_productList p)),
        (''id_Externe'', JStr (pi_platformOrderId p)), (''Source'', JStr [])]"

definition procolis_createParcel ::
  "env \<Rightarrow> delivery_env \<Rightarrow> string \<Rightarrow> string \<Rightarrow> ParcelInput \<Rightarrow> http_log \<Rightarrow> (exn + ParcelResult) \<times> http_log" where
  "procolis_createParcel E D apiId apiToken p L =
     (case getWilayaCode (lower_nfd D) (pi_wilaya p) of
        None \<Rightarrow> (Inl (Error (''Procolis: unknown wilaya '' @ [CHR 0x22] @ pi_wilaya p @ [CHR 0x22])), L)
      | Some code \<Rightarrow>
          (case send D (post_request PROCOLIS_URL (procolis_headers apiId apiToken) ''/add_colis''
                  (Some (JObj [(''Colis'', JArr [procolis_parcel p code])]))) L of
             (Inl e, L1) \<Rightarrow> (Inl (rethrow E ''Procolis API error'' (Http e)), L1)
           | (Inr r, L1) \<Rightarrow>
               (let created = first_element (json_field ''Colis'' (rs_data r)); message = field_of ''MessageRetour'' created
                in if message = Some (JStr ''Double Tracking'')
                   then (Inl (rethrow E ''Procolis API error''
                           (Thrown (''Procolis: duplicate tracking for order '' @ pi_platformOrderId p))), L1)
                   else if message \<noteq> Some (JStr ''Good'')
                   then (Inl (rethrow E ''Procolis API error''
                           (Thrown (''Procolis: '' @ id_text E (js_or message (Some (JStr ''failed to create parcel'')))))), L1)
                   else (Inr \<lparr>pr_trackingNumber = Some (JStr (id_text E (field_of ''Tracking'' created))), pr_labelUrl = None\<rparr>, L1))))"

definition procolis_getTracking ::
  "env \<Rightarrow> delivery_env \<Rightarrow> string \<Rightarrow> string \<Rightarrow> string \<Rightarrow> http_log \<Rightarrow> (exn + TrackingStatus) \<times> http_log" where
  "procolis_getTracking E D apiId apiToken trackingNumber L =
     (case send D (post_request PROCOLIS_URL (procolis_headers apiId apiToken) ''/lire''
             (Some (JObj [(''Colis'', JArr [JObj [(''Tracking'', JStr trackingNumber)]])]))) L of
        (Inl e, L1) \<Rightarrow> (Inl (rethrow E ''Procolis API error'' (Http e)), L1)
      | (Inr r, L1) \<Rightarrow>
          (case js_or (first_element (json_field ''Colis'' (rs_data r))) None of
             None \<Rightarrow> (Inl (rethrow E ''Procolis API error''
                       (Thrown (''Procolis: tracking '' @ trackingNumber @ '' not found''))), L1)
           | Some c \<Rightarrow>
               (let f = (\<lambda>k. json_field k c);
                    date = coalesce (js_or (f ''Date'') (js_or (f ''DateStatut'') None)) (JStr []);
                    status = coalesce (js_or (f ''Statut'') (js_or (f ''Etat'') None)) (JStr ''unknown'')
                in (Inr \<lparr>ts_tracking = trackingNumber, ts_status = status, ts_lastUpdate = date,
                         ts_history = [\<lparr>te_date = Some date, te_status = Some status,
                                        te_location = js_or (f ''Wilaya'') (f ''Commune''), te_reason = f ''MessageRetour''\<rparr>]\<rparr>, L1))))"

text \<open>
  The row of the tariff for the province: \<open>undefined\<close> on both sides is a match, and a \<open>null\<close> row that comes
  first throws.
\<close>

definition procolis_row :: "delivery_env \<Rightarrow> FeeQuery \<Rightarrow> jval \<Rightarrow> bool" where
  "procolis_row D q v =
     (json_field ''IDWilaya'' v = map_option (\<lambda>c. JNum (of_int c)) (getWilayaCode (lower_nfd D) (fq_toWilaya q)))"

definition procolis_getFee ::
  "delivery_env \<Rightarrow> string \<Rightarrow> string \<Rightarrow> FeeQuery \<Rightarrow> http_log \<Rightarrow> (exn + jval option) \<times> http_log" where
  "procolis_getFee D apiId apiToken q L =
     (case send D (post_request PROCOLIS_URL (procolis_headers apiId apiToken) ''/tarification'' None) L of
        (Inl e, L1) \<Rightarrow> (Inr (Some (JNum 0)), L1)
      | (Inr r, L1) \<Rightarrow>
          (case rs_data r of
             JArr vs \<Rightarrow>
               (if JNull \<in> set vs \<and> \<not> list_ex (\<lambda>v. procolis_row D q v) (takeWhile (\<lambda>v. v \<noteq> JNull) vs) then (Inr (Some (JNum 0)), L1)
                else
                  (let row = List.find (procolis_row D q) vs;
                       price = (case nullish_value (field_of ''Normal'' row) of Some v \<Rightarrow> Some v | None \<Rightarrow> field_of ''Domicile'' row)
                   in (Inr (Some (case price of Some (JNum x) \<Rightarrow> JNum x | _ \<Rightarrow> JNum 0)), L1)))
           | _ \<Rightarrow> (Inr (Some (JNum 0)), L1)))"

definition ProcolisProvider :: "env \<Rightarrow> delivery_env \<Rightarrow> string \<Rightarrow> string \<Rightarrow> driver" where
  "ProcolisProvider E D apiId apiToken =
     \<lparr>connect = procolis_connect D apiId apiToken, createParcel = procolis_createParcel E D apiId apiToken,
      getTracking = procolis_getTracking E D apiId apiToken, getFee = procolis_getFee D apiId apiToken,
      verifyWebhookSignature = (\<lambda>_ _. True), parseWebhook = (\<lambda>_ _. None)\<rparr>"

section \<open>Maystro\<close>

definition MAYSTRO_URL :: string where "MAYSTRO_URL = ''https://backend.maystro-delivery.com/api/''"

definition MAYSTRO_SOURCE_ID :: rat where "MAYSTRO_SOURCE_ID = 4"

definition MAYSTRO_STATUS :: "(rat \<times> event_status) list" where
  "MAYSTRO_STATUS = [(15, shipped), (41, delivered), (50, cancelled), (55, returned)]"

definition maystro_headers :: "string \<Rightarrow> (string \<times> string) list" where
  "maystro_headers apiToken = [(''Authorization'', ''Token '' @ apiToken), JSON_TYPE]"

lemma length_trim_start: "length (js_trim_start s) \<le> length s"
  using trim_fuel_suffix [of s "length s" js_whitespace] unfolding js_trim_start_def by (metis length_append le_add2)

lemma strip_whitespace: "strip_any js_whitespace s = Some r \<Longrightarrow> length r < length s"
proof -
  assume "strip_any js_whitespace s = Some r"
  then obtain p where "p \<in> set js_whitespace" "s = p @ r" using strip_any_shorter by blast
  moreover have "[] \<notin> set js_whitespace" by (simp add: js_whitespace_def)
  ultimately show ?thesis by (cases "p = []") auto
qed

text \<open>Every run of white space becomes one space.\<close>

function collapse_ws :: "string \<Rightarrow> string" where
  "collapse_ws [] = []"
| "collapse_ws (c # s) =
     (case strip_any js_whitespace (c # s) of
        Some r \<Rightarrow> CHR '' '' # collapse_ws (js_trim_start r)
      | None \<Rightarrow> c # collapse_ws s)"
  by pat_completeness auto

termination
  by (relation "measure length") (auto dest!: strip_whitespace intro: le_less_trans [OF length_trim_start])

text \<open>An accent becomes a space here, where \<open>normalizeName\<close> drops it.\<close>

definition normalizeCommune :: "delivery_env \<Rightarrow> string \<Rightarrow> string" where
  "normalizeCommune D name = js_trim (collapse_ws (replace_marks '' '' (lower_nfd D name)))"

definition maystro_connect :: "delivery_env \<Rightarrow> string \<Rightarrow> http_log \<Rightarrow> bool \<times> http_log" where
  "maystro_connect D apiToken L =
     (case send D (get_request MAYSTRO_URL (maystro_headers apiToken) ''/shared/wilayas/''
             [(''country'', JNum 1), (''language'', JStr ''en'')]) L of
        (Inl e, L1) \<Rightarrow> (False, L1)
      | (Inr r, L1) \<Rightarrow> (rs_status r = 200, L1))"

fun find_commune :: "delivery_env \<Rightarrow> string \<Rightarrow> jval list \<Rightarrow> exn + jval option" where
  "find_commune D target [] = Inr None"
| "find_commune D target (c # cs) =
     (case json_field ''name'' c of
        Some (JStr n) \<Rightarrow> (if normalizeCommune D n = target then Inr (Some c) else find_commune D target cs)
      | _ \<Rightarrow> Inl (Error ''TypeError''))"

definition resolveCommuneId ::
  "env \<Rightarrow> delivery_env \<Rightarrow> string \<Rightarrow> int \<Rightarrow> string \<Rightarrow> http_log \<Rightarrow> (exn + jval option) \<times> http_log" where
  "resolveCommuneId E D apiToken wilaya communeName L =
     (case send D (get_request MAYSTRO_URL (maystro_headers apiToken) ''/shared/communes/'' [(''wilaya'', JNum (of_int wilaya))]) L of
        (Inl e, L1) \<Rightarrow> (Inl (Error (he_message e)), L1)
      | (Inr r, L1) \<Rightarrow>
          (case (case rs_data r of JArr cs \<Rightarrow> find_commune D (normalizeCommune D communeName) cs | _ \<Rightarrow> Inr None) of
             Inl e \<Rightarrow> (Inl e, L1)
           | Inr None \<Rightarrow> (Inl (Error (''Maystro: commune '' @ [CHR 0x22] @ communeName @ [CHR 0x22] @ '' not found for wilaya '' @
                               num_text E (of_int wilaya))), L1)
           | Inr (Some c) \<Rightarrow> (Inr (json_field ''id'' c), L1)))"

definition maystro_parcel :: "ParcelInput \<Rightarrow> int \<Rightarrow> jval option \<Rightarrow> jval" where
  "maystro_parcel p wilaya commune =
     JObj (members
       [(''wilaya'', Some (JNum (of_int wilaya))), (''commune'', commune),
        (''destination_text'', Some (JStr (pi_address p))), (''customer_phone'', Some (JStr (pi_phone p))),
        (''customer_name'', Some (JStr (full_name p))), (''product_price'', Some (JNum (math_round (pi_price p)))),
        (''delivery_type'', Some (JNum (if coalesce (pi_isStopDesk p) False then 1 else 0))),
        (''express'', Some (JBool False)), (''note_to_driver'', Some (JStr [])),
        (''products'', Some (JArr [JObj [(''description'', JStr (pi_productList p)), (''quantity'', JNum 1)]])),
        (''source'', Some (JNum MAYSTRO_SOURCE_ID)), (''external_order_id'', Some (JStr (pi_platformOrderId p)))])"

definition has_length :: "jval \<Rightarrow> bool" where
  "has_length v =
     (case v of JArr vs \<Rightarrow> vs \<noteq> [] | JStr s \<Rightarrow> s \<noteq> [] | JObj _ \<Rightarrow> opt_truthy (json_field ''length'' v) | _ \<Rightarrow> False)"

definition join_text :: "env \<Rightarrow> jval \<Rightarrow> string" where
  "join_text E v = (if v = JNull then [] else id_text E (Some v))"

definition maystro_detail :: "env \<Rightarrow> jval option \<Rightarrow> jval \<Rightarrow> string" where
  "maystro_detail E errors data =
     (case nullish_value errors of
        None \<Rightarrow> ''Maystro: '' @ json_stringify E data
      | Some (JArr vs) \<Rightarrow>
          (let t = join '', '' (map (join_text E) vs) in ''Maystro: '' @ (if t = [] then json_stringify E data else t))
      | Some _ \<Rightarrow> ''TypeError'')"

definition maystro_result :: "env \<Rightarrow> jval \<Rightarrow> string + ParcelResult" where
  "maystro_result E data =
     (let orderRes = (case data of JArr _ \<Rightarrow> first_element (Some data) | _ \<Rightarrow> Some data);
          errors = field_of ''errors'' orderRes
      in if \<not> opt_truthy (field_of ''success'' orderRes) \<or> (case errors of Some v \<Rightarrow> has_length v | None \<Rightarrow> False)
         then Inl (maystro_detail E errors data)
         else Inr \<lparr>pr_trackingNumber = js_or (field_of ''tracking'' orderRes)
                     (js_or (field_of ''display_id_order'' orderRes) (Some (JStr []))), pr_labelUrl = None\<rparr>)"

definition maystro_createParcel ::
  "env \<Rightarrow> delivery_env \<Rightarrow> string \<Rightarrow> ParcelInput \<Rightarrow> http_log \<Rightarrow> (exn + ParcelResult) \<times> http_log" where
  "maystro_createParcel E D apiToken p L =
     (case getWilayaCode (lower_nfd D) (pi_wilaya p) of
        None \<Rightarrow> (Inl (Error (''Maystro: unknown wilaya '' @ [CHR 0x22] @ pi_wilaya p @ [CHR 0x22])), L)
      | Some wilaya \<Rightarrow>
          (case resolveCommuneId E D apiToken wilaya (pi_commune p) L of
             (Inl e, L1) \<Rightarrow> (Inl e, L1)
           | (Inr commune, L1) \<Rightarrow>
               (case send D (post_request MAYSTRO_URL (maystro_headers apiToken) ''/app/orders/''
                       (Some (maystro_parcel p wilaya commune))) L1 of
                  (Inl e, L2) \<Rightarrow>
                    (Inl (if starts_with ''Maystro:'' (he_message e) then Error (he_message e)
                          else rethrow E ''Maystro API error'' (Http e)), L2)
                | (Inr r, L2) \<Rightarrow>
                    (case maystro_result E (rs_data r) of
                       Inl m \<Rightarrow> (Inl (rethrow E ''Maystro API error'' (Thrown m)), L2)
                     | Inr res \<Rightarrow> (Inr res, L2)))))"

definition maystro_getTracking ::
  "env \<Rightarrow> delivery_env \<Rightarrow> string \<Rightarrow> string \<Rightarrow> http_log \<Rightarrow> (exn + TrackingStatus) \<times> http_log" where
  "maystro_getTracking E D apiToken trackingNumber L =
     (case send D (get_request MAYSTRO_URL (maystro_headers apiToken) (''/app/orders/'' @ trackingNumber @ ''/'') []) L of
        (Inl e, L1) \<Rightarrow> (Inl (rethrow E ''Maystro API error'' (Http e)), L1)
      | (Inr r, L1) \<Rightarrow>
          (let f = (\<lambda>k. json_field k (rs_data r));
               status = (case Number_of (f ''status'') of
                           Some x \<Rightarrow> (if x = 0 then JStr ''unknown'' else JStr (num_text E x))
                         | None \<Rightarrow> JStr ''unknown'');
               date = coalesce (js_or (f ''last_update'') (js_or (f ''updated_at'') None)) (JStr [])
           in (Inr \<lparr>ts_tracking = trackingNumber, ts_status = status, ts_lastUpdate = date,
                    ts_history = [\<lparr>te_date = Some date, te_status = Some status, te_location = None,
                                   te_reason = js_or (f ''abort_reason'') None\<rparr>]\<rparr>, L1)))"

text \<open>
  What the webhook check accepts: a text of the right shape.  The signature plays no part.
\<close>

definition decode_twice :: "delivery_env \<Rightarrow> jval \<Rightarrow> jval option" where
  "decode_twice D raw =
     (case field_of ''data'' (json_field ''message'' raw) of
        Some (JStr s) \<Rightarrow> json_parse (b64text D (b64text D s))
      | _ \<Rightarrow> None)"

definition maystro_verify :: "delivery_env \<Rightarrow> string \<Rightarrow> string \<Rightarrow> bool" where
  "maystro_verify D payload signature =
     (case json_parse payload of
        None \<Rightarrow> False
      | Some raw \<Rightarrow>
          (case decode_twice D raw of
             None \<Rightarrow> False
           | Some parsed \<Rightarrow>
               (case json_field ''event'' parsed of Some (JStr _) \<Rightarrow> opt_truthy (json_field ''payload'' parsed) | _ \<Rightarrow> False)))"

definition decodeDoubleBase64 :: "delivery_env \<Rightarrow> jval \<Rightarrow> jval option" where
  "decodeDoubleBase64 D body =
     (if \<not> truthy body then None
      else (case body of
              JStr s \<Rightarrow> (case json_parse s of None \<Rightarrow> None | Some v \<Rightarrow> decode_twice D v)
            | _ \<Rightarrow> decode_twice D body))"

definition maystro_parse :: "env \<Rightarrow> delivery_env \<Rightarrow> string \<Rightarrow> jval \<Rightarrow> WebhookEvent option" where
  "maystro_parse E D payload body =
     (case js_or (decodeDoubleBase64 D body) None of
        None \<Rightarrow> None
      | Some decoded \<Rightarrow>
          (let f = (\<lambda>k. field_of k (json_field ''payload'' decoded)) in
           (case Number_of (f ''status'') of
              None \<Rightarrow> None
            | Some rawStatus \<Rightarrow>
                (case (map_of MAYSTRO_STATUS rawStatus, js_or (f ''display_id_order'') (js_or (f ''external_order_id'') None)) of
                   (Some status, Some tracking) \<Rightarrow>
                     Some \<lparr>we_tracking = id_text E (Some tracking), we_status = status, we_rawStatus = num_text E rawStatus,
                           we_date = js_or (f ''last_update'') (f ''delivered_at'')\<rparr>
                 | _ \<Rightarrow> None))))"

definition MaystroProvider :: "env \<Rightarrow> delivery_env \<Rightarrow> string \<Rightarrow> string \<Rightarrow> driver" where
  "MaystroProvider E D apiId apiToken =
     \<lparr>connect = maystro_connect D apiToken, createParcel = maystro_createParcel E D apiToken,
      getTracking = maystro_getTracking E D apiToken, getFee = (\<lambda>_ L. (Inr (Some (JNum 0)), L)),
      verifyWebhookSignature = maystro_verify D, parseWebhook = maystro_parse E D\<rparr>"

section \<open>NOEST\<close>

definition NOEST_URL :: string where "NOEST_URL = ''https://app.noest-dz.com''"

definition noest_headers :: "string \<Rightarrow> (string \<times> string) list" where
  "noest_headers apiToken = [(''Authorization'', ''Bearer '' @ apiToken), JSON_TYPE]"

definition normalizePhone :: "string \<Rightarrow> string" where
  "normalizePhone phone =
     (let p = filter (\<lambda>c. is_digit c \<or> c = CHR ''+'') phone
      in if starts_with ''+213'' p then CHR ''0'' # drop 4 p
         else if starts_with ''213'' p then CHR ''0'' # drop 3 p
         else p)"

definition isDeliveryEvent :: "string \<Rightarrow> bool" where
  "isDeliveryEvent event =
     (\<not> list_ex (\<lambda>k. str_includes k (ascii_lower event))
        [''pay'', ''payment'', ''cash'', ''collect'', ''frais'', ''remise'', ''recharge''])"

definition noest_connect :: "delivery_env \<Rightarrow> string \<Rightarrow> http_log \<Rightarrow> bool \<times> http_log" where
  "noest_connect D apiToken L =
     (case send D (get_request NOEST_URL (noest_headers apiToken) ''/api/public/get/wilayas'' []) L of
        (Inl e, L1) \<Rightarrow> (False, L1)
      | (Inr r, L1) \<Rightarrow> ((case rs_data r of JArr _ \<Rightarrow> True | _ \<Rightarrow> False), L1))"

definition noest_parcel :: "env \<Rightarrow> string \<Rightarrow> ParcelInput \<Rightarrow> int \<Rightarrow> jval" where
  "noest_parcel E apiId p wilayaId =
     (let desk = coalesce (pi_isStopDesk p) False in
      JObj (members
       [(''user_guid'', Some (JStr apiId)), (''reference'', Some (JStr (pi_platformOrderId p))),
        (''client'', Some (JStr (full_name p))), (''phone'', Some (JStr (normalizePhone (pi_phone p)))),
        (''adresse'', Some (JStr (pi_address p))), (''wilaya_id'', Some (JNum (of_int wilayaId))),
        (''commune'', Some (JStr (pi_commune p))), (''montant'', Some (JNum (math_round (pi_price p)))),
        (''produit'', Some (JStr (pi_productList p))), (''type_id'', Some (JNum 1)),
        (''stop_desk'', Some (JNum (if desk then 1 else 0))),
        (''station_code'', if desk then map_option (\<lambda>x. JStr (num_text E x)) (pi_stopDeskId p) else None),
        (''poids'', map_option JNum (pi_weight p))]))"

definition noest_rethrow :: "env \<Rightarrow> http_error \<Rightarrow> exn" where
  "noest_rethrow E e =
     (if starts_with ''NOEST:'' (he_message e) then Error (he_message e) else rethrow E ''NOEST API error'' (Http e))"

definition noest_createParcel ::
  "env \<Rightarrow> delivery_env \<Rightarrow> string \<Rightarrow> string \<Rightarrow> ParcelInput \<Rightarrow> http_log \<Rightarrow> (exn + ParcelResult) \<times> http_log" where
  "noest_createParcel E D apiId apiToken p L =
     (case getWilayaCode (lower_nfd D) (pi_wilaya p) of
        None \<Rightarrow> (Inl (Error (''NOEST: unknown wilaya '' @ [CHR 0x22] @ pi_wilaya p @ [CHR 0x22])), L)
      | Some wilayaId \<Rightarrow>
          (case send D (post_request NOEST_URL (noest_headers apiToken) ''/api/public/create/order''
                  (Some (noest_parcel E apiId p wilayaId))) L of
             (Inl e, L1) \<Rightarrow> (Inl (noest_rethrow E e), L1)
           | (Inr r, L1) \<Rightarrow>
               (if \<not> opt_truthy (json_field ''success'' (rs_data r)) \<or> \<not> opt_truthy (json_field ''tracking'' (rs_data r))
                then (Inl (Error (case js_or (json_field ''message'' (rs_data r)) None of
                                    Some m \<Rightarrow> ''NOEST: '' @ id_text E (Some m)
                                  | None \<Rightarrow> ''NOEST: failed to create parcel'')), L1)
                else
                  (let tracking = the (json_field ''tracking'' (rs_data r)) in
                   (case send D (post_request NOEST_URL (noest_headers apiToken) ''/api/public/valid/order''
                           (Some (JObj [(''user_guid'', JStr apiId), (''tracking'', tracking)]))) L1 of
                      (Inl e, L2) \<Rightarrow> (Inl (noest_rethrow E e), L2)
                    | (Inr v, L2) \<Rightarrow>
                        (if \<not> opt_truthy (json_field ''success'' (rs_data v))
                         then (Inl (Error (''NOEST: created but validation failed for tracking '' @ id_text E (Some tracking))), L2)
                         else (Inr \<lparr>pr_trackingNumber = Some tracking, pr_labelUrl = None\<rparr>, L2)))))))"

fun noest_events :: "jval list \<Rightarrow> TrackingEvent list option" where
  "noest_events [] = Some []"
| "noest_events (e # es) =
     (case json_field ''event'' e of
        Some (JStr t) \<Rightarrow>
          map_option (\<lambda>r. if isDeliveryEvent t
                          then \<lparr>te_date = json_field ''date'' e, te_status = Some (JStr t), te_location = None,
                                te_reason = json_field ''causer'' e\<rparr> # r
                          else r) (noest_events es)
      | _ \<Rightarrow> None)"

definition noest_history :: "jval option \<Rightarrow> TrackingEvent list option" where
  "noest_history activity =
     (case nullish_value activity of None \<Rightarrow> Some [] | Some (JArr es) \<Rightarrow> noest_events es | Some _ \<Rightarrow> None)"

definition noest_getTracking ::
  "env \<Rightarrow> delivery_env \<Rightarrow> string \<Rightarrow> string \<Rightarrow> http_log \<Rightarrow> (exn + TrackingStatus) \<times> http_log" where
  "noest_getTracking E D apiToken trackingNumber L =
     (case send D (post_request NOEST_URL (noest_headers apiToken) ''/api/public/get/trackings/info''
             (Some (JObj [(''trackings'', JArr [JStr trackingNumber])]))) L of
        (Inl e, L1) \<Rightarrow> (Inl (rethrow E ''NOEST API error'' (Http e)), L1)
      | (Inr r, L1) \<Rightarrow>
          (case js_or (json_field trackingNumber (rs_data r)) None of
             None \<Rightarrow> (Inl (rethrow E ''NOEST API error'' (Thrown (''NOEST: tracking '' @ trackingNumber @ '' not found''))), L1)
           | Some result \<Rightarrow>
               (case noest_history (json_field ''activity'' result) of
                  None \<Rightarrow> (Inl (rethrow E ''NOEST API error'' (Thrown ''TypeError'')), L1)
                | Some events \<Rightarrow> (Inr (status_of_history trackingNumber events), L1))))"

definition noest_row :: "int \<Rightarrow> jval \<Rightarrow> bool" where
  "noest_row wilayaId v = (Number_of (json_field ''wilaya_id'' v) = Some (of_int wilayaId))"

definition noest_getFee ::
  "delivery_env \<Rightarrow> string \<Rightarrow> FeeQuery \<Rightarrow> http_log \<Rightarrow> (exn + jval option) \<times> http_log" where
  "noest_getFee D apiToken q L =
     (case getWilayaCode (lower_nfd D) (fq_toWilaya q) of
        None \<Rightarrow> (Inr (Some (JNum 0)), L)
      | Some wilayaId \<Rightarrow>
          (case send D (get_request NOEST_URL (noest_headers apiToken) ''/api/public/fees'' []) L of
             (Inl e, L1) \<Rightarrow> (Inr (Some (JNum 0)), L1)
           | (Inr r, L1) \<Rightarrow>
               (let row = (case rs_data r of JArr vs \<Rightarrow> List.find (noest_row wilayaId) (takeWhile (\<lambda>v. v \<noteq> JNull) vs) | _ \<Rightarrow> None)
                in (Inr (Some (case field_of ''fees'' row of Some (JNum x) \<Rightarrow> JNum x | _ \<Rightarrow> JNum 0)), L1))))"

definition NoestProvider :: "env \<Rightarrow> delivery_env \<Rightarrow> string \<Rightarrow> string \<Rightarrow> driver" where
  "NoestProvider E D apiId apiToken =
     \<lparr>connect = noest_connect D apiToken, createParcel = noest_createParcel E D apiId apiToken,
      getTracking = noest_getTracking E D apiToken, getFee = noest_getFee D apiToken,
      verifyWebhookSignature = (\<lambda>_ _. True), parseWebhook = (\<lambda>_ _. None)\<rparr>"

definition provider_create :: "env \<Rightarrow> delivery_env \<Rightarrow> string \<Rightarrow> string \<Rightarrow> string \<Rightarrow> exn + driver" where
  "provider_create E D provider apiId apiToken =
     (if provider = ''yalidine'' then Inr (YalidineProvider E D apiId apiToken)
      else if provider = ''procolis'' then Inr (ProcolisProvider E D apiId apiToken)
      else if provider = ''maystro'' then Inr (MaystroProvider E D apiId apiToken)
      else if provider = ''noest'' then Inr (NoestProvider E D apiId apiToken)
      else Inl (Error (''Unsupported delivery provider: '' @ provider)))"

section \<open>What a carrier is asked to do\<close>

text \<open>
  The interface the service relies on.  \<open>parcel_of\<close> reads from a request the reference and the amount to collect
  of the parcel it creates, \<open>collected\<close> is the amount a carrier collects for a price.  A driver adds its requests
  to the log, asks for at most one parcel, and when it succeeds it has asked for one, with the reference and the
  price it was given.
\<close>

locale carrier =
  fixes create :: "ParcelInput \<Rightarrow> http_log \<Rightarrow> (exn + ParcelResult) \<times> http_log"
    and parcel_of :: "http_request \<Rightarrow> (string \<times> rat) option"
    and collected :: "rat \<Rightarrow> rat"
  assumes adds: "\<exists>rs. snd (create p L) = L @ rs \<and>
      (List.map_filter parcel_of rs = [] \<or> List.map_filter parcel_of rs = [(pi_platformOrderId p, collected (pi_price p))])"
    and asked: "create p L = (Inr res, L @ rs) \<Longrightarrow>
      List.map_filter parcel_of rs = [(pi_platformOrderId p, collected (pi_price p))]"
begin

lemma success_asks_once:
  assumes "create p L = (Inr res, L')"
  shows "\<exists>rs. L' = L @ rs \<and> List.map_filter parcel_of rs = [(pi_platformOrderId p, collected (pi_price p))]"
  using assms adds [of p L] asked [of p L res] by auto

end

definition parcel_body :: "string \<Rightarrow> (jval \<Rightarrow> jval option) \<Rightarrow> string \<Rightarrow> string \<Rightarrow> http_request \<Rightarrow> (string \<times> rat) option" where
  "parcel_body path parcel ref amount rq =
     (if rq_method rq \<noteq> ''POST'' \<or> rq_path rq \<noteq> path then None
      else (case rq_body rq of
              None \<Rightarrow> None
            | Some b \<Rightarrow>
                (case (field_of ref (parcel b), field_of amount (parcel b)) of
                   (Some (JStr r), Some (JNum x)) \<Rightarrow> Some (r, x)
                 | _ \<Rightarrow> None)))"

definition yalidine_request :: "http_request \<Rightarrow> (string \<times> rat) option" where
  "yalidine_request = parcel_body ''/parcels'' Some ''order_id'' ''price''"

definition procolis_request :: "http_request \<Rightarrow> (string \<times> rat) option" where
  "procolis_request = parcel_body ''/add_colis'' (\<lambda>b. first_element (json_field ''Colis'' b)) ''id_Externe'' ''Total''"

definition maystro_request :: "http_request \<Rightarrow> (string \<times> rat) option" where
  "maystro_request = parcel_body ''/app/orders/'' Some ''external_order_id'' ''product_price''"

definition noest_request :: "http_request \<Rightarrow> (string \<times> rat) option" where
  "noest_request = parcel_body ''/api/public/create/order'' Some ''reference'' ''montant''"

lemma map_of_members: "distinct (map fst ms) \<Longrightarrow> map_of (members ms) k = (case map_of ms k of Some v \<Rightarrow> v | None \<Rightarrow> None)"
  unfolding members_def
proof (induction ms)
  case (Cons m ms)
  obtain a v where m: "m = (a, v)" by fastforce
  have "map_of ms a = None" using Cons.prems m by (auto simp: map_of_eq_None_iff image_iff)
  with Cons m show ?case by (cases v) (auto simp: List.map_filter_simps)
qed (simp add: List.map_filter_simps)

lemmas request_simps = send_def get_request_def post_request_def parcel_body_def field_of_def json_field_def
  first_element_def List.map_filter_simps

interpretation yalidine: carrier "yalidine_createParcel E D apiId apiToken" yalidine_request "\<lambda>x. x" for E D apiId apiToken
proof unfold_locales
  fix p L
  let ?rq = "post_request YALIDINE_URL (yalidine_headers apiId apiToken) ''/parcels'' (Some (yalidine_parcel p))"
  have r: "yalidine_request ?rq = Some (pi_platformOrderId p, pi_price p)"
    by (simp add: yalidine_request_def yalidine_parcel_def map_of_members request_simps)
  have s: "snd (yalidine_createParcel E D apiId apiToken p L) = L @ [?rq]"
    by (simp add: yalidine_createParcel_def send_def split: sum.splits)
  show "\<exists>rs. snd (yalidine_createParcel E D apiId apiToken p L) = L @ rs \<and>
      (List.map_filter yalidine_request rs = [] \<or> List.map_filter yalidine_request rs = [(pi_platformOrderId p, pi_price p)])"
    using r s by (auto simp: List.map_filter_simps)
  show "List.map_filter yalidine_request rs = [(pi_platformOrderId p, pi_price p)]"
    if "yalidine_createParcel E D apiId apiToken p L = (Inr res, L @ rs)" for res rs
    using that r s by (auto simp: List.map_filter_simps)
qed

interpretation procolis: carrier "procolis_createParcel E D apiId apiToken" procolis_request "\<lambda>x. x" for E D apiId apiToken
proof unfold_locales
  fix p L
  have r: "procolis_request (post_request PROCOLIS_URL (procolis_headers apiId apiToken) ''/add_colis''
      (Some (JObj [(''Colis'', JArr [procolis_parcel p code])]))) = Some (pi_platformOrderId p, pi_price p)" for code
    by (simp add: procolis_request_def procolis_parcel_def request_simps)
  show "\<exists>rs. snd (procolis_createParcel E D apiId apiToken p L) = L @ rs \<and>
      (List.map_filter procolis_request rs = [] \<or> List.map_filter procolis_request rs = [(pi_platformOrderId p, pi_price p)])"
    using r by (auto simp: procolis_createParcel_def send_def List.map_filter_simps Let_def split: option.splits sum.splits)
  show "List.map_filter procolis_request rs = [(pi_platformOrderId p, pi_price p)]"
    if "procolis_createParcel E D apiId apiToken p L = (Inr res, L @ rs)" for res rs
    using that r by (auto simp: procolis_createParcel_def send_def List.map_filter_simps Let_def split: option.splits sum.splits if_splits)
qed

interpretation maystro: carrier "maystro_createParcel E D apiToken" maystro_request math_round for E D apiToken
proof unfold_locales
  fix p L
  let ?get = "\<lambda>w. get_request MAYSTRO_URL (maystro_headers apiToken) ''/shared/communes/'' [(''wilaya'', JNum (of_int w))]"
  let ?post = "\<lambda>w c. post_request MAYSTRO_URL (maystro_headers apiToken) ''/app/orders/'' (Some (maystro_parcel p w c))"
  have g: "maystro_request (?get w) = None" for w by (simp add: maystro_request_def request_simps)
  have r: "maystro_request (?post w c) = Some (pi_platformOrderId p, math_round (pi_price p))" for w c
    by (simp add: maystro_request_def maystro_parcel_def map_of_members request_simps)
  have s: "snd (resolveCommuneId E D apiToken w n L) = L @ [?get w]" for w n
    by (simp add: resolveCommuneId_def send_def split: sum.splits option.splits)
  have c: "snd (maystro_createParcel E D apiToken p L) \<in> {L} \<union> {L @ [?get w] | w. True} \<union> {L @ [?get w, ?post w c] | w c. True} \<and>
      (\<forall>res. fst (maystro_createParcel E D apiToken p L) = Inr res \<longrightarrow>
         (\<exists>w c. snd (maystro_createParcel E D apiToken p L) = L @ [?get w, ?post w c]))"
  proof (cases "getWilayaCode (lower_nfd D) (pi_wilaya p)")
    case (Some w)
    then show ?thesis using s [of w "pi_commune p"]
      by (auto simp: maystro_createParcel_def send_def split: sum.splits prod.splits)
  qed (simp add: maystro_createParcel_def)
  show "\<exists>rs. snd (maystro_createParcel E D apiToken p L) = L @ rs \<and>
      (List.map_filter maystro_request rs = [] \<or>
       List.map_filter maystro_request rs = [(pi_platformOrderId p, math_round (pi_price p))])"
    using c g r by (auto simp: List.map_filter_simps)
  show "List.map_filter maystro_request rs = [(pi_platformOrderId p, math_round (pi_price p))]"
    if "maystro_createParcel E D apiToken p L = (Inr res, L @ rs)" for res rs
    using that c g r by (auto simp: List.map_filter_simps)
qed

interpretation noest: carrier "noest_createParcel E D apiId apiToken" noest_request math_round for E D apiId apiToken
proof unfold_locales
  fix p L
  let ?post = "\<lambda>w. post_request NOEST_URL (noest_headers apiToken) ''/api/public/create/order'' (Some (noest_parcel E apiId p w))"
  let ?valid = "\<lambda>b. post_request NOEST_URL (noest_headers apiToken) ''/api/public/valid/order'' b"
  have v: "noest_request (?valid b) = None" for b by (simp add: noest_request_def request_simps)
  have r: "noest_request (?post w) = Some (pi_platformOrderId p, math_round (pi_price p))" for w
    by (simp add: noest_request_def noest_parcel_def map_of_members request_simps Let_def)
  have c: "snd (noest_createParcel E D apiId apiToken p L) \<in> {L} \<union> {L @ [?post w] | w. True} \<union> {L @ [?post w, ?valid b] | w b. True} \<and>
      (\<forall>res. fst (noest_createParcel E D apiId apiToken p L) = Inr res \<longrightarrow>
         (\<exists>w b. snd (noest_createParcel E D apiId apiToken p L) = L @ [?post w, ?valid b]))"
    by (auto simp: noest_createParcel_def send_def Let_def split: option.splits sum.splits)
  show "\<exists>rs. snd (noest_createParcel E D apiId apiToken p L) = L @ rs \<and>
      (List.map_filter noest_request rs = [] \<or>
       List.map_filter noest_request rs = [(pi_platformOrderId p, math_round (pi_price p))])"
    using c v r by (auto simp: List.map_filter_simps)
  show "List.map_filter noest_request rs = [(pi_platformOrderId p, math_round (pi_price p))]"
    if "noest_createParcel E D apiId apiToken p L = (Inr res, L @ rs)" for res rs
    using that c v r by (auto simp: List.map_filter_simps)
qed

end
