(* ===== verification/Delivery.thy ===== *)
theory Delivery
  imports Order_Notify Delivery_Providers
begin

text \<open>
  \<open>back/src/modules/delivery/delivery.service.ts\<close> and \<open>delivery.controller.ts\<close>: connecting a carrier, shipping an
  order, tracking, and the webhook of the carriers.  The requests to the carriers are a log beside the state.
\<close>

section \<open>Configuration\<close>

definition config_of :: "string \<Rightarrow> world \<Rightarrow> delivery_config_row option" where
  "config_of merchantId w = find_first (\<lambda>c. dconf_merchantId c = merchantId) (deliveryConfigs w)"

definition upsert_config :: "string \<Rightarrow> string \<Rightarrow> string \<Rightarrow> string \<Rightarrow> world \<Rightarrow> world" where
  "upsert_config merchantId provider apiId apiToken w =
     (let row = \<lparr>dconf_merchantId = merchantId, dconf_provider = provider, dconf_apiId = Some apiId,
                 dconf_apiToken = Some apiToken, dconf_isConnected = True\<rparr>
      in case config_of merchantId w of
           None \<Rightarrow> w\<lparr>deliveryConfigs := deliveryConfigs w @ [row]\<rparr>
         | Some _ \<Rightarrow> w\<lparr>deliveryConfigs := update_where (\<lambda>c. dconf_merchantId c = merchantId) (\<lambda>_. row) (deliveryConfigs w)\<rparr>)"

definition connectProvider ::
  "env \<Rightarrow> delivery_env \<Rightarrow> string \<Rightarrow> string \<Rightarrow> string \<Rightarrow> string \<Rightarrow> world \<times> http_log \<Rightarrow> (exn + unit) \<times> world \<times> http_log" where
  "connectProvider E D merchantId provider apiId apiToken s =
     (case s of (w, L) \<Rightarrow>
        (case provider_create E D provider apiId apiToken of
           Inl e \<Rightarrow> (Inl e, w, L)
         | Inr d \<Rightarrow>
             (case connect d L of
                (False, L1) \<Rightarrow>
                  (Inl (Error (''Failed to connect to '' @ provider @ '' '' @ utf8_text [0x2014] @ '' check your API credentials'')), w, L1)
              | (True, L1) \<Rightarrow> (Inr (), upsert_config merchantId provider apiId apiToken w, L1))))"

definition disconnectProvider :: "string \<Rightarrow> world \<Rightarrow> world" where
  "disconnectProvider merchantId w =
     w\<lparr>deliveryConfigs := filter (\<lambda>c. dconf_merchantId c \<noteq> merchantId) (deliveryConfigs w)\<rparr>"

section \<open>Parcels\<close>

definition connected_driver :: "env \<Rightarrow> delivery_env \<Rightarrow> string \<Rightarrow> world \<Rightarrow> exn + (delivery_config_row \<times> driver)" where
  "connected_driver E D merchantId w =
     (case config_of merchantId w of
        None \<Rightarrow> Inl (Error ''No delivery provider connected'')
      | Some c \<Rightarrow>
          (if \<not> dconf_isConnected c then Inl (Error ''No delivery provider connected'')
           else map_sum id (Pair c)
                  (provider_create E D (dconf_provider c) (coalesce (dconf_apiId c) []) (coalesce (dconf_apiToken c) []))))"

text \<open>
  The tracking number as the carrier gave it: \<open>undefined\<close> leaves the column alone, and what is not a text is
  refused by the database client, after the parcel was created.
\<close>

definition set_tracking :: "string \<Rightarrow> jval option \<Rightarrow> string \<Rightarrow> world \<Rightarrow> exn + (order_row \<times> world)" where
  "set_tracking oid tracking provider w =
     (case tracking of
        None \<Rightarrow> update_order (\<lambda>r. order_id r = oid) (\<lambda>r. r\<lparr>order_deliveryProvider := Some provider\<rparr>) w
      | Some JNull \<Rightarrow> update_order (\<lambda>r. order_id r = oid)
                        (\<lambda>r. r\<lparr>order_trackingNumber := None, order_deliveryProvider := Some provider\<rparr>) w
      | Some (JStr t) \<Rightarrow> update_order (\<lambda>r. order_id r = oid)
                           (\<lambda>r. r\<lparr>order_trackingNumber := Some t, order_deliveryProvider := Some provider\<rparr>) w
      | Some _ \<Rightarrow> Inl validation_error)"

definition service_createParcel ::
  "env \<Rightarrow> delivery_env \<Rightarrow> string \<Rightarrow> ParcelInput \<Rightarrow> world \<times> http_log \<Rightarrow> (exn + ParcelResult) \<times> world \<times> http_log" where
  "service_createParcel E D merchantId input s =
     (case s of (w, L) \<Rightarrow>
        (case connected_driver E D merchantId w of
           Inl e \<Rightarrow> (Inl e, w, L)
         | Inr (c, d) \<Rightarrow>
             (case createParcel d input L of
                (Inl e, L1) \<Rightarrow> (Inl e, w, L1)
              | (Inr res, L1) \<Rightarrow>
                  (case set_tracking (pi_orderId input) (pr_trackingNumber res) (dconf_provider c) w of
                     Inl e \<Rightarrow> (Inl e, w, L1)
                   | Inr (_, w1) \<Rightarrow> (Inr res, w1, L1)))))"

record ShipOrderInput =
  si_weight :: "rat option"
  si_length :: "rat option"
  si_width :: "rat option"
  si_height :: "rat option"
  si_freeShipping :: "bool option"
  si_isStopDesk :: "bool option"
  si_stopDeskId :: "rat option"
  si_doInsurance :: "bool option"
  si_declaredValue :: "rat option"
  si_hasExchange :: "bool option"
  si_productToCollect :: "string option"

definition parcel_for :: "env \<Rightarrow> order_row \<Rightarrow> customer_row option \<Rightarrow> ShipOrderInput \<Rightarrow> ParcelInput" where
  "parcel_for E r c o' =
     (let parts = split_on (CHR '' '') (coalesce (case c of None \<Rightarrow> None | Some x \<Rightarrow> customer_name x) []) in
      \<lparr>pi_orderId = order_id r, pi_platformOrderId = order_platformOrderId r,
       pi_firstName = hd parts, pi_familyName = join '' '' (tl parts),
       pi_phone = (case c of None \<Rightarrow> [] | Some x \<Rightarrow> customer_phone x), pi_address = coalesce (order_address r) [],
       pi_wilaya = order_wilaya r, pi_commune = order_commune r,
       pi_productList = order_productName r @ '' x'' @ num_text E (of_int (order_quantity r)),
       pi_price = order_totalAmount r,
       pi_weight = Some (coalesce (si_weight o') (1 / 2)), pi_length = Some (coalesce (si_length o') 10),
       pi_width = Some (coalesce (si_width o') 10), pi_height = Some (coalesce (si_height o') 10),
       pi_freeShipping = Some (coalesce (si_freeShipping o') False), pi_isStopDesk = Some (coalesce (si_isStopDesk o') False),
       pi_stopDeskId = si_stopDeskId o', pi_doInsurance = Some (coalesce (si_doInsurance o') False),
       pi_declaredValue = si_declaredValue o', pi_hasExchange = Some (coalesce (si_hasExchange o') False),
       pi_productToCollect = si_productToCollect o'\<rparr>)"

definition shipOrder ::
  "env \<Rightarrow> delivery_env \<Rightarrow> string \<Rightarrow> string \<Rightarrow> ShipOrderInput \<Rightarrow> world \<times> http_log \<Rightarrow> (exn + ParcelResult) \<times> world \<times> http_log" where
  "shipOrder E D merchantId oid overrides s =
     (case find_first (\<lambda>r. order_id r = oid) (orders (fst s)) of
        None \<Rightarrow> (Inl (Error ''Order not found''), s)
      | Some r \<Rightarrow>
          (if order_merchantId r \<noteq> merchantId then (Inl (Error ''Order does not belong to this merchant''), s)
           else service_createParcel E D merchantId (parcel_for E r (customer_of_order (fst s) r) overrides) s))"

definition service_getTracking ::
  "env \<Rightarrow> delivery_env \<Rightarrow> string \<Rightarrow> string \<Rightarrow> world \<times> http_log \<Rightarrow> (exn + TrackingStatus) \<times> http_log" where
  "service_getTracking E D merchantId trackingNumber s =
     (case connected_driver E D merchantId (fst s) of
        Inl e \<Rightarrow> (Inl e, snd s)
      | Inr (c, d) \<Rightarrow> getTracking d trackingNumber (snd s))"

section \<open>The webhook\<close>

fun order_status_of :: "event_status \<Rightarrow> OrderStatus" where
  "order_status_of shipped = SHIPPED"
| "order_status_of delivered = DELIVERED"
| "order_status_of returned = CANCELLED"
| "order_status_of cancelled = CANCELLED"

datatype webhook_answer = Processed string event_status | NotProcessed | ReceivedOnly

definition tracked :: "string \<Rightarrow> string \<Rightarrow> order_row \<Rightarrow> bool" where
  "tracked merchantId tracking r \<longleftrightarrow>
     order_merchantId r = merchantId \<and> (order_trackingNumber r = Some tracking \<or> order_platformOrderId r = tracking)"

definition delivery_notice :: "world \<Rightarrow> order_row \<Rightarrow> order_notice" where
  "delivery_notice w r =
     (let c = customer_of_order w r in
      \<lparr>no_id = order_id r, no_merchantId = order_merchantId r, no_customerId = order_customerId r,
       no_customerName = coalesce (case c of None \<Rightarrow> None | Some x \<Rightarrow> customer_name x) [],
       no_customerPhone = (case c of None \<Rightarrow> [] | Some x \<Rightarrow> customer_phone x),
       no_productName = order_productName r, no_platformOrderId = order_platformOrderId r,
       no_totalAmount = order_totalAmount r, no_wilaya = order_wilaya r\<rparr>)"

definition apply_event ::
  "env \<Rightarrow> string \<Rightarrow> order_row \<Rightarrow> WebhookEvent \<Rightarrow> world \<Rightarrow> (exn + webhook_answer) \<times> world" where
  "apply_event E provider r ev w =
     (case update_order (\<lambda>x. order_id x = order_id r) (\<lambda>x. x\<lparr>order_status := order_status_of (we_status ev)\<rparr>) w of
        Inl e \<Rightarrow> (Inl e, w)
      | Inr (_, w1) \<Rightarrow>
          (if we_status ev = shipped \<or> we_status ev = delivered then
             (case sendDeliveryStatusNotification E (delivery_notice w r)
                     (coalesce (order_trackingNumber r) (we_tracking ev)) (we_status ev = shipped) provider w1 of
                (Inl e, w2) \<Rightarrow> (Inl e, w2)
              | (Inr _, w2) \<Rightarrow> (Inr (Processed (order_id r) (we_status ev)), w2))
           else (Inr (Processed (order_id r) (we_status ev)), w1)))"

fun webhook_loop ::
  "env \<Rightarrow> delivery_env \<Rightarrow> string \<Rightarrow> string \<Rightarrow> jval \<Rightarrow> delivery_config_row list \<Rightarrow> world \<Rightarrow> (exn + webhook_answer) \<times> world" where
  "webhook_loop E D provider payload body [] w = (Inr NotProcessed, w)"
| "webhook_loop E D provider payload body (c # cs) w =
     (case provider_create E D (dconf_provider c) (coalesce (dconf_apiId c) []) (coalesce (dconf_apiToken c) []) of
        Inl e \<Rightarrow> (Inl e, w)
      | Inr d \<Rightarrow>
          (if \<not> verifyWebhookSignature d payload [] then webhook_loop E D provider payload body cs w
           else
             (case parseWebhook d payload body of
                None \<Rightarrow> webhook_loop E D provider payload body cs w
              | Some ev \<Rightarrow>
                  (case find_first (tracked (dconf_merchantId c) (we_tracking ev)) (orders w) of
                     None \<Rightarrow> webhook_loop E D provider payload body cs w
                   | Some r \<Rightarrow> apply_event E provider r ev w))))"

definition delivery_handleWebhook ::
  "env \<Rightarrow> delivery_env \<Rightarrow> string \<Rightarrow> string \<Rightarrow> jval \<Rightarrow> world \<Rightarrow> (exn + webhook_answer) \<times> world" where
  "delivery_handleWebhook E D provider payload body w =
     webhook_loop E D provider payload body
       (filter (\<lambda>c. dconf_provider c = provider \<and> dconf_isConnected c) (deliveryConfigs w)) w"

section \<open>Handlers\<close>

datatype credential_field = ApiTokenOnly | BothCredentials

record DeliveryProviderMeta =
  dp_key :: string
  dp_name :: string
  dp_logo :: string
  dp_available :: bool
  dp_credentialField :: credential_field

definition DELIVERY_PROVIDERS :: "DeliveryProviderMeta list" where
  "DELIVERY_PROVIDERS =
     [\<lparr>dp_key = ''yalidine'', dp_name = ''Yalidine'', dp_logo = ''/images/providers/yalidine.png'', dp_available = True,
       dp_credentialField = BothCredentials\<rparr>,
      \<lparr>dp_key = ''procolis'', dp_name = ''ZR Express'', dp_logo = ''/images/providers/procolis.png'', dp_available = True,
       dp_credentialField = BothCredentials\<rparr>,
      \<lparr>dp_key = ''maystro'', dp_name = ''Maystro'', dp_logo = ''/images/providers/maystro.png'', dp_available = True,
       dp_credentialField = ApiTokenOnly\<rparr>,
      \<lparr>dp_key = ''noest'', dp_name = ''NOEST'', dp_logo = ''/images/providers/noest.png'', dp_available = True,
       dp_credentialField = BothCredentials\<rparr>]"

definition getStatus :: "string \<Rightarrow> world \<Rightarrow> (bool \<times> string option) reply" where
  "getStatus merchantId w =
     (let c = config_of merchantId w
      in Reply 200 ((case c of None \<Rightarrow> False | Some x \<Rightarrow> dconf_isConnected x), map_option dconf_provider c))"

definition getProviders :: "string \<Rightarrow> world \<Rightarrow> (string \<times> bool \<times> bool) list reply" where
  "getProviders merchantId w =
     (let c = config_of merchantId w
      in Reply 200 (map (\<lambda>p. (dp_key p, (case c of None \<Rightarrow> False | Some x \<Rightarrow> dconf_provider x = dp_key p \<and> dconf_isConnected x),
                              dp_available p)) DELIVERY_PROVIDERS))"

definition getConfigHandler :: "string \<Rightarrow> world \<Rightarrow> (string option \<times> bool) reply" where
  "getConfigHandler merchantId w =
     (let c = config_of merchantId w
      in Reply 200 (map_option dconf_provider c, coalesce (map_option dconf_isConnected c) False))"

definition connectHandler ::
  "env \<Rightarrow> delivery_env \<Rightarrow> string \<Rightarrow> string option \<Rightarrow> string option \<Rightarrow> string option \<Rightarrow> world \<times> http_log \<Rightarrow>
   string reply \<times> world \<times> http_log" where
  "connectHandler E D merchantId provider apiId apiToken s =
     (case (given provider, given apiToken) of
        (Some p, Some t) \<Rightarrow>
          (case List.find (\<lambda>m. dp_key m = p) DELIVERY_PROVIDERS of
             None \<Rightarrow> (Refuse 400 (''Unknown delivery provider: '' @ p), s)
           | Some meta \<Rightarrow>
               (if dp_credentialField meta \<noteq> ApiTokenOnly \<and> given apiId = None
                then (Refuse 400 ''apiId is required for this provider'', s)
                else
                  (case connectProvider E D merchantId p (coalesce apiId []) t s of
                     (Inl e, s1) \<Rightarrow> (Refuse 400 (err_message e), s1)
                   | (Inr _, s1) \<Rightarrow> (Reply 200 p, s1))))
      | _ \<Rightarrow> (Refuse 400 ''provider and apiToken are required'', s))"

definition disconnectHandler :: "string \<Rightarrow> world \<Rightarrow> string reply \<times> world" where
  "disconnectHandler merchantId w = (Reply 200 ''Disconnected'', disconnectProvider merchantId w)"

definition or_400 :: "exn + 'a \<Rightarrow> 'a reply" where
  "or_400 res = (case res of Inl e \<Rightarrow> Refuse 400 (err_message e) | Inr x \<Rightarrow> Reply 200 x)"

definition shipHandler ::
  "env \<Rightarrow> delivery_env \<Rightarrow> string \<Rightarrow> string \<Rightarrow> ShipOrderInput \<Rightarrow> world \<times> http_log \<Rightarrow> ParcelResult reply \<times> world \<times> http_log" where
  "shipHandler E D merchantId oid body s = map_prod or_400 id (shipOrder E D merchantId oid body s)"

definition parcelHandler ::
  "env \<Rightarrow> delivery_env \<Rightarrow> string \<Rightarrow> ParcelInput \<Rightarrow> world \<times> http_log \<Rightarrow> ParcelResult reply \<times> world \<times> http_log" where
  "parcelHandler E D merchantId body s = map_prod or_400 id (service_createParcel E D merchantId body s)"

definition trackingHandler ::
  "env \<Rightarrow> delivery_env \<Rightarrow> string \<Rightarrow> string \<Rightarrow> world \<times> http_log \<Rightarrow> TrackingStatus reply \<times> http_log" where
  "trackingHandler E D merchantId trackingNumber s = map_prod or_400 id (service_getTracking E D merchantId trackingNumber s)"

definition webhookHandler ::
  "env \<Rightarrow> delivery_env \<Rightarrow> string \<Rightarrow> string option \<Rightarrow> jval \<Rightarrow> world \<Rightarrow> webhook_answer reply \<times> world" where
  "webhookHandler E D provider rawBody body w =
     (case delivery_handleWebhook E D provider (coalesce rawBody []) body w of
        (Inl e, w1) \<Rightarrow> (Reply 200 ReceivedOnly, w1)
      | (Inr a, w1) \<Rightarrow> (Reply 200 a, w1))"

section \<open>Shipping\<close>

text \<open>How the carriers read a request, and the amounts they collect.\<close>

definition parcel_request :: "string \<Rightarrow> http_request \<Rightarrow> (string \<times> rat) option" where
  "parcel_request provider =
     (if provider = ''yalidine'' then yalidine_request else if provider = ''procolis'' then procolis_request
      else if provider = ''maystro'' then maystro_request else noest_request)"

definition collected_by :: "string \<Rightarrow> rat \<Rightarrow> rat" where
  "collected_by provider x = (if provider = ''maystro'' \<or> provider = ''noest'' then math_round x else x)"

lemma created_parcel:
  assumes "provider_create E D provider apiId apiToken = Inr d" "createParcel d p L = (Inr res, L')"
  shows "\<exists>rs. L' = L @ rs \<and>
    List.map_filter (parcel_request provider) rs = [(pi_platformOrderId p, collected_by provider (pi_price p))]"
proof -
  consider "provider = ''yalidine''" | "provider = ''procolis''" | "provider = ''maystro''" | "provider = ''noest''"
    using assms(1) by (auto simp: provider_create_def split: if_splits)
  then show ?thesis
  proof cases
    case 1
    then show ?thesis using assms yalidine.success_asks_once [of E D apiId apiToken p L res L']
      by (auto simp: provider_create_def YalidineProvider_def parcel_request_def collected_by_def)
  next
    case 2
    then show ?thesis using assms procolis.success_asks_once [of E D apiId apiToken p L res L']
      by (auto simp: provider_create_def ProcolisProvider_def parcel_request_def collected_by_def)
  next
    case 3
    then show ?thesis using assms maystro.success_asks_once [of E D apiToken p L res L']
      by (auto simp: provider_create_def MaystroProvider_def parcel_request_def collected_by_def)
  next
    case 4
    then show ?thesis using assms noest.success_asks_once [of E D apiId apiToken p L res L']
      by (auto simp: provider_create_def NoestProvider_def parcel_request_def collected_by_def)
  qed
qed

lemma set_tracking_Inr:
  assumes "set_tracking oid t provider w = Inr (r, w')"
  shows "w' = w\<lparr>orders := update_where (\<lambda>q. order_id q = oid)
    (\<lambda>q. q\<lparr>order_trackingNumber := (case t of None \<Rightarrow> order_trackingNumber q | Some (JStr n) \<Rightarrow> Some n | Some _ \<Rightarrow> None),
           order_deliveryProvider := Some provider\<rparr>) (orders w)\<rparr> \<and> (\<forall>v. t = Some v \<longrightarrow> v = JNull \<or> (\<exists>n. v = JStr n))"
  using assms unfolding set_tracking_def
  by (cases t rule: option.exhaust; cases "the t") (auto simp: update_in_Inr put_orders_def)

text \<open>C24. An order that was shipped is an order of the caller.  The connected carrier was asked for exactly one parcel,
  with the order's platform number as reference and the order's total as the amount to collect from the customer
  (rounded to a whole amount by Maystro and NOEST).  The order is marked with that carrier and with the tracking number
  of the answer, a text (an answer without one leaves the column alone, a null one clears it), and nothing else in the
  database changes.\<close>

theorem shipOrder_effect:
  assumes "shipOrder E D m oid ov (w, L) = (Inr res, w', L')"
  shows "\<exists>c r rs. config_of m w = Some c \<and> dconf_isConnected c \<and>
    find_first (\<lambda>r. order_id r = oid) (orders w) = Some r \<and> order_merchantId r = m \<and> L' = L @ rs \<and>
    List.map_filter (parcel_request (dconf_provider c)) rs =
      [(order_platformOrderId r, collected_by (dconf_provider c) (order_totalAmount r))] \<and>
    (\<forall>v. pr_trackingNumber res = Some v \<longrightarrow> v = JNull \<or> (\<exists>n. v = JStr n)) \<and>
    w' = w\<lparr>orders := update_where (\<lambda>q. order_id q = oid)
      (\<lambda>q. q\<lparr>order_trackingNumber := (case pr_trackingNumber res of None \<Rightarrow> order_trackingNumber q
                                       | Some (JStr n) \<Rightarrow> Some n | Some _ \<Rightarrow> None),
             order_deliveryProvider := Some (dconf_provider c)\<rparr>) (orders w)\<rparr> \<and>
    filter (\<lambda>q. order_id q \<noteq> oid) (orders w') = filter (\<lambda>q. order_id q \<noteq> oid) (orders w) \<and>
    (\<exists>r' \<in> set (orders w'). order_id r' = oid \<and> order_deliveryProvider r' = Some (dconf_provider c) \<and>
      (\<forall>n. pr_trackingNumber res = Some (JStr n) \<longrightarrow> order_trackingNumber r' = Some n))"
proof -
  obtain r where r: "find_first (\<lambda>r. order_id r = oid) (orders w) = Some r" "order_merchantId r = m"
    and run: "service_createParcel E D m (parcel_for E r (customer_of_order w r) ov) (w, L) = (Inr res, w', L')"
    using assms by (auto simp: shipOrder_def split: option.splits if_splits)
  let ?p = "parcel_for E r (customer_of_order w r) ov"
  obtain c d q where c: "connected_driver E D m w = Inr (c, d)" and mk: "createParcel d ?p L = (Inr res, L')"
    and t: "set_tracking (pi_orderId ?p) (pr_trackingNumber res) (dconf_provider c) w = Inr (q, w')"
    using run by (auto simp: service_createParcel_def split: sum.splits prod.splits)
  have conf: "config_of m w = Some c" "dconf_isConnected c"
    and drv: "provider_create E D (dconf_provider c) (coalesce (dconf_apiId c) []) (coalesce (dconf_apiToken c) []) = Inr d"
    using c by (auto simp: connected_driver_def map_sum_def split: option.splits if_splits sum.splits)
  have p: "pi_platformOrderId ?p = order_platformOrderId r" "pi_price ?p = order_totalAmount r" "pi_orderId ?p = oid"
    using find_first_SomeD [OF r(1)] by (auto simp: parcel_for_def Let_def)
  from created_parcel [OF drv mk] obtain rs where rs: "L' = L @ rs"
    "List.map_filter (parcel_request (dconf_provider c)) rs =
      [(order_platformOrderId r, collected_by (dconf_provider c) (order_totalAmount r))]"
    by (auto simp: p)
  let ?f = "\<lambda>q. q\<lparr>order_trackingNumber := (case pr_trackingNumber res of None \<Rightarrow> order_trackingNumber q
      | Some (JStr n) \<Rightarrow> Some n | Some _ \<Rightarrow> None), order_deliveryProvider := Some (dconf_provider c)\<rparr>"
  have f: "w' = w\<lparr>orders := update_where (\<lambda>q. order_id q = oid) ?f (orders w)\<rparr>"
    and tn: "\<forall>v. pr_trackingNumber res = Some v \<longrightarrow> v = JNull \<or> (\<exists>n. v = JStr n)"
    using set_tracking_Inr [OF t] unfolding p(3) by blast+
  have "filter (\<lambda>q. order_id q \<noteq> oid) (orders w') = filter (\<lambda>q. order_id q \<noteq> oid) (orders w)"
    unfolding f by (simp, rule filter_update_where) auto
  moreover have "\<exists>r' \<in> set (orders w'). order_id r' = oid \<and> order_deliveryProvider r' = Some (dconf_provider c) \<and>
      (\<forall>n. pr_trackingNumber res = Some (JStr n) \<longrightarrow> order_trackingNumber r' = Some n)"
    using find_first_SomeD [OF r(1)] by (intro bexI [of _ "?f r"]) (auto simp: f update_where_def)
  ultimately show ?thesis using conf r rs f tn by blast
qed

definition sample_delivery :: delivery_env where
  "sample_delivery =
     \<lparr>http = (\<lambda>_ _. Inr \<lparr>rs_status = 200, rs_data = JObj [(''tracking'', JStr ''T1'')]\<rparr>), lower_nfd = (\<lambda>s. s),
      b64text = (\<lambda>s. s)\<rparr>"

definition sample_overrides :: ShipOrderInput where
  "sample_overrides =
     \<lparr>si_weight = None, si_length = None, si_width = None, si_height = None, si_freeShipping = None, si_isStopDesk = None,
      si_stopDeskId = None, si_doInsurance = None, si_declaredValue = None, si_hasExchange = None, si_productToCollect = None\<rparr>"

definition sample_config :: "string \<Rightarrow> delivery_config_row" where
  "sample_config provider = \<lparr>dconf_merchantId = ''m1'', dconf_provider = provider, dconf_apiId = Some ''id'',
     dconf_apiToken = Some ''tok'', dconf_isConnected = True\<rparr>"

definition sample_shop :: "string \<Rightarrow> world" where
  "sample_shop provider = sample_world\<lparr>deliveryConfigs := [sample_config provider],
     orders := [sample_order ''o1'' ''m1'' ''c1'' ''p1'' CONFIRMED 1]\<rparr>"

lemma sample_ship_runs:
  "fst (shipOrder sample_env sample_delivery ''m1'' ''o1'' sample_overrides (sample_shop ''yalidine'', [])) =
     Inr \<lparr>pr_trackingNumber = Some (JStr ''T1''), pr_labelUrl = None\<rparr>"
  by code_simp

theorem shipOrder_effect_witness:
  "\<exists>res w' L'. shipOrder sample_env sample_delivery ''m1'' ''o1'' sample_overrides (sample_shop ''yalidine'', []) = (Inr res, w', L') \<and>
     List.map_filter yalidine_request L' = [(''o1'', 500)]"
proof -
  obtain w' L' where run: "shipOrder sample_env sample_delivery ''m1'' ''o1'' sample_overrides (sample_shop ''yalidine'', []) =
      (Inr \<lparr>pr_trackingNumber = Some (JStr ''T1''), pr_labelUrl = None\<rparr>, w', L')"
    using sample_ship_runs by (metis prod.collapse)
  have c: "config_of ''m1'' (sample_shop ''yalidine'') = Some (sample_config ''yalidine'')"
    "find_first (\<lambda>r. order_id r = ''o1'') (orders (sample_shop ''yalidine'')) = Some (sample_order ''o1'' ''m1'' ''c1'' ''p1'' CONFIRMED 1)"
    by (simp_all add: config_of_def sample_shop_def sample_config_def sample_order_def find_first_def)
  have "List.map_filter yalidine_request L' = [(''o1'', 500)]"
    using shipOrder_effect [OF run] c
    by (auto simp: sample_config_def parcel_request_def collected_by_def sample_order_def)
  then show ?thesis using run by blast
qed

section \<open>What a webhook can do\<close>

lemma apply_event_effect:
  assumes "apply_event E provider r ev w = (res, w')" "r \<in> set (orders w)"
  shows "orders w' = update_where (\<lambda>x. order_id x = order_id r) (\<lambda>x. x\<lparr>order_status := order_status_of (we_status ev)\<rparr>) (orders w)"
proof -
  obtain x where "find_first (\<lambda>x. order_id x = order_id r) (orders w) = Some x"
    using assms(2) by (cases "find_first (\<lambda>x. order_id x = order_id r) (orders w)") (auto simp: find_first_None)
  then obtain q w1 where u: "update_order (\<lambda>x. order_id x = order_id r) (\<lambda>x. x\<lparr>order_status := order_status_of (we_status ev)\<rparr>) w = Inr (q, w1)"
    by (simp add: update_in_def)
  have o1: "orders w1 = update_where (\<lambda>x. order_id x = order_id r) (\<lambda>x. x\<lparr>order_status := order_status_of (we_status ev)\<rparr>) (orders w)"
    using u by (auto simp: update_in_Inr put_orders_def)
  have "orders w2 = orders w1" if "sendDeliveryStatusNotification E n tn sh pv w1 = (x, w2)" for n tn sh pv x w2
    using notification_orders [OF that] .
  then show ?thesis
    using assms(1) o1 unfolding apply_event_def u by (auto split: if_splits sum.splits prod.splits)
qed

lemma webhook_loop_effect:
  assumes "webhook_loop E D provider payload body cs w = (res, w')"
  shows "w' = w \<or> (\<exists>c \<in> set cs. \<exists>d ev r.
      provider_create E D (dconf_provider c) (coalesce (dconf_apiId c) []) (coalesce (dconf_apiToken c) []) = Inr d \<and>
      parseWebhook d payload body = Some ev \<and> r \<in> set (orders w) \<and> tracked (dconf_merchantId c) (we_tracking ev) r \<and>
      apply_event E provider r ev w = (res, w'))"
  using assms
proof (induction cs)
  case (Cons c cs)
  then show ?case
    by (auto split: sum.splits if_splits option.splits dest!: find_first_SomeD)
qed simp

lemma maystro_parse_Some:
  assumes "maystro_parse E D payload body = Some ev"
  shows "\<exists>doc code tn. decodeDoubleBase64 D body = Some doc \<and>
    Number_of (field_of ''status'' (json_field ''payload'' doc)) = Some code \<and>
    js_or (field_of ''display_id_order'' (json_field ''payload'' doc))
      (js_or (field_of ''external_order_id'' (json_field ''payload'' doc)) None) = Some tn \<and>
    we_tracking ev = id_text E (Some tn) \<and>
    (code, order_status_of (we_status ev)) \<in> {(15, SHIPPED), (41, DELIVERED), (50, CANCELLED), (55, CANCELLED)}"
proof -
  obtain doc code st tn where "js_or (decodeDoubleBase64 D body) None = Some doc"
    "Number_of (field_of ''status'' (json_field ''payload'' doc)) = Some code" "map_of MAYSTRO_STATUS code = Some st"
    "js_or (field_of ''display_id_order'' (json_field ''payload'' doc))
      (js_or (field_of ''external_order_id'' (json_field ''payload'' doc)) None) = Some tn"
    "we_tracking ev = id_text E (Some tn)" "we_status ev = st"
    using assms unfolding maystro_parse_def Let_def by (auto split: option.splits)
  moreover have "decodeDoubleBase64 D body = Some doc"
    using calculation(1) by (auto simp: js_or_def split: option.splits if_splits)
  moreover have "(code, order_status_of st) \<in> {(15, SHIPPED), (41, DELIVERED), (50, CANCELLED), (55, CANCELLED)}"
    using calculation(3) by (auto simp: MAYSTRO_STATUS_def split: if_splits)
  ultimately show ?thesis by blast
qed

text \<open>C25. Whatever a carrier's webhook carries, it changes the status of at most one order and no other column of the
  orders: an order of a merchant connected to that carrier whose tracking or platform number is the one the decoded
  body names.  Maystro's status 15 makes it shipped, 41 delivered, 50 and 55 cancelled, and any other status changes
  nothing.  A carrier other than Maystro changes nothing at all, since its driver reads no webhook.\<close>

theorem delivery_webhook_effect:
  assumes "delivery_handleWebhook E D provider payload body w = (res, w')"
  shows "orders w' = orders w \<or> provider = ''maystro'' \<and>
    (\<exists>c \<in> set (deliveryConfigs w). \<exists>r \<in> set (orders w). \<exists>doc code tn st.
      dconf_provider c = provider \<and> dconf_isConnected c \<and> order_merchantId r = dconf_merchantId c \<and>
      decodeDoubleBase64 D body = Some doc \<and>
      Number_of (field_of ''status'' (json_field ''payload'' doc)) = Some code \<and>
      js_or (field_of ''display_id_order'' (json_field ''payload'' doc))
        (js_or (field_of ''external_order_id'' (json_field ''payload'' doc)) None) = Some tn \<and>
      (order_trackingNumber r = Some (id_text E (Some tn)) \<or> order_platformOrderId r = id_text E (Some tn)) \<and>
      (code, st) \<in> {(15, SHIPPED), (41, DELIVERED), (50, CANCELLED), (55, CANCELLED)} \<and>
      orders w' = update_where (\<lambda>x. order_id x = order_id r) (\<lambda>x. x\<lparr>order_status := st\<rparr>) (orders w))"
proof (cases "w' = w")
  case False
  then obtain c d ev r where c: "c \<in> set (deliveryConfigs w)" "dconf_provider c = provider" "dconf_isConnected c"
    and d: "provider_create E D provider (coalesce (dconf_apiId c) []) (coalesce (dconf_apiToken c) []) = Inr d"
    and ev: "parseWebhook d payload body = Some ev" and r: "r \<in> set (orders w)" "tracked (dconf_merchantId c) (we_tracking ev) r"
    and a: "apply_event E provider r ev w = (res, w')"
    using webhook_loop_effect [OF assms [unfolded delivery_handleWebhook_def]] by auto
  have p: "provider = ''maystro''" "maystro_parse E D payload body = Some ev"
    using d ev by (auto simp: provider_create_def YalidineProvider_def ProcolisProvider_def NoestProvider_def MaystroProvider_def
        split: if_splits)
  from maystro_parse_Some [OF p(2)] obtain doc code tn where m: "decodeDoubleBase64 D body = Some doc"
    "Number_of (field_of ''status'' (json_field ''payload'' doc)) = Some code"
    "js_or (field_of ''display_id_order'' (json_field ''payload'' doc))
      (js_or (field_of ''external_order_id'' (json_field ''payload'' doc)) None) = Some tn"
    "we_tracking ev = id_text E (Some tn)"
    "(code, order_status_of (we_status ev)) \<in> {(15, SHIPPED), (41, DELIVERED), (50, CANCELLED), (55, CANCELLED)}"
    by (elim exE conjE) (rule that; assumption)
  show ?thesis
    using p(1) c m(1-3,5) r(2) [unfolded tracked_def m(4)] apply_event_effect [OF a r(1)] r(1) by blast
qed simp

definition sample_event :: string where
  "sample_event = ''{'' @ quote ''event'' @ '':'' @ quote ''x'' @ '','' @ quote ''payload'' @ '':{'' @ quote ''status'' @ '':41,'' @
     quote ''display_id_order'' @ '':'' @ quote ''o1'' @ ''}}''"

definition sample_body :: jval where
  "sample_body = JObj [(''message'', JObj [(''data'', JStr sample_event)])]"

definition sample_payload :: string where
  "sample_payload = ''{'' @ quote ''message'' @ '':{'' @ quote ''data'' @ '':'' @ quote sample_event @ ''}}''"

theorem delivery_webhook_effect_witness:
  "\<exists>res w'. delivery_handleWebhook sample_env sample_delivery ''maystro'' sample_payload sample_body (sample_shop ''maystro'') = (res, w') \<and>
     map order_status (orders w') = [DELIVERED]"
proof -
  obtain res w' where run:
    "delivery_handleWebhook sample_env sample_delivery ''maystro'' sample_payload sample_body (sample_shop ''maystro'') = (res, w')"
    by fastforce
  have st: "map order_status (orders (snd (delivery_handleWebhook sample_env sample_delivery ''maystro'' sample_payload sample_body
      (sample_shop ''maystro'')))) = [DELIVERED]"
    by code_simp
  then show ?thesis using run delivery_webhook_effect [OF run] by auto
qed

text \<open>The webhook of a carrier is not authenticated: its outcome does not depend on the credentials of the
  connected merchants, so whoever can send a request can set the status of an order.\<close>

theorem delivery_webhook_ignores_credentials:
  assumes "map (\<lambda>c. (dconf_merchantId c, dconf_provider c)) cs = map (\<lambda>c. (dconf_merchantId c, dconf_provider c)) cs'"
  shows "webhook_loop E D provider payload body cs w = webhook_loop E D provider payload body cs' w"
  using assms
proof (induction cs arbitrary: cs')
  case (Cons c cs)
  then obtain c' ds where cs': "cs' = c' # ds" "dconf_merchantId c' = dconf_merchantId c" "dconf_provider c' = dconf_provider c"
    by (cases cs') auto
  have drv: "(case provider_create E D p i t of Inl e \<Rightarrow> Inl e | Inr d \<Rightarrow> Inr (verifyWebhookSignature d payload [], parseWebhook d payload body)) =
      (case provider_create E D p i' t' of Inl e \<Rightarrow> Inl e | Inr d \<Rightarrow> Inr (verifyWebhookSignature d payload [], parseWebhook d payload body))"
    for p i t i' t'
    by (simp add: provider_create_def YalidineProvider_def ProcolisProvider_def MaystroProvider_def NoestProvider_def)
  have "webhook_loop E D provider payload body cs w = webhook_loop E D provider payload body ds w"
    using Cons cs'(1) by simp
  then show ?case
    using drv [of "dconf_provider c" "coalesce (dconf_apiId c) []" "coalesce (dconf_apiToken c) []"
        "coalesce (dconf_apiId c') []" "coalesce (dconf_apiToken c') []"]
    by (auto simp: cs' split: sum.splits option.splits)
qed simp

theorem delivery_webhook_ignores_credentials_witness:
  "webhook_loop sample_env sample_delivery ''maystro'' sample_payload sample_body [sample_config ''maystro''] (sample_shop ''maystro'') =
   webhook_loop sample_env sample_delivery ''maystro'' sample_payload sample_body
     [(sample_config ''maystro'')\<lparr>dconf_apiToken := Some ''other''\<rparr>] (sample_shop ''maystro'')"
  by (rule delivery_webhook_ignores_credentials) (simp add: sample_config_def)

text \<open>
  A parcel created directly marks the order of the body, whoever it belongs to; \<open>shipOrder\<close> checks the owner first.
\<close>

lemma createParcel_marks_any_order:
  assumes "connected_driver E D m w = Inr (c, d)" "createParcel d input L = (Inr res, L')"
    "pr_trackingNumber res = Some (JStr t)" "r \<in> set (orders w)" "order_id r = pi_orderId input"
  shows "\<exists>w'. service_createParcel E D m input (w, L) = (Inr res, w', L') \<and>
    (\<exists>r' \<in> set (orders w'). order_id r' = order_id r \<and> order_merchantId r' = order_merchantId r \<and> order_trackingNumber r' = Some t)"
proof -
  let ?f = "\<lambda>r. r\<lparr>order_trackingNumber := Some t, order_deliveryProvider := Some (dconf_provider c)\<rparr>"
  obtain x where "find_first (\<lambda>x. order_id x = pi_orderId input) (orders w) = Some x"
    using assms(4,5) by (cases "find_first (\<lambda>x. order_id x = pi_orderId input) (orders w)") (auto simp: find_first_None)
  then have "service_createParcel E D m input (w, L) =
      (Inr res, w\<lparr>orders := update_where (\<lambda>r. order_id r = pi_orderId input) ?f (orders w)\<rparr>, L')"
    using assms(1-3) by (simp add: service_createParcel_def set_tracking_def update_in_def put_orders_def)
  moreover have "?f r \<in> set (update_where (\<lambda>r. order_id r = pi_orderId input) ?f (orders w))"
    using assms(4,5) by (auto simp: update_where_def)
  ultimately show ?thesis by (auto intro!: bexI [of _ "?f r"])
qed

end
