(* ===== verification/Auth.thy ===== *)
theory Auth
  imports Products Redis
begin

text \<open>
  Accounts and sessions: \<open>back/src/modules/auth/auth.service.ts\<close> and \<open>auth.controller.ts\<close>, the tokens of
  \<open>lib/jwt.ts\<close>, the codes of \<open>lib/otp.ts\<close>, the middlewares \<open>authenticate\<close> and \<open>csrfProtection\<close>, and the Google
  strategy of \<open>config/passport.ts\<close>.
\<close>

section \<open>What the component calls\<close>

text \<open>
  Packages the repository does not hold: \<open>bcrypt\<close> (the number stands for the salt it draws), \<open>jsonwebtoken\<close>
  with the secret of the configuration, \<open>crypto.randomUUID\<close> and \<open>Math.random\<close>.  The fields of a token are
  those \<open>generateToken\<close> signs; a token without a field is possible, since the verified text comes from a
  request.
\<close>

record jwt_claims =
  jc_merchantId :: "string option"
  jc_email :: "string option"
  jc_jti :: "string option"
  jc_iat :: "int option"
  jc_exp :: int

datatype jwt_error = TokenExpiredError | JsonWebTokenError | NotBeforeError

record auth_env =
  bcrypt_hash :: "nat \<Rightarrow> string \<Rightarrow> string"
  bcrypt_compare :: "string \<Rightarrow> string \<Rightarrow> bool"
  jwt_sign :: "jwt_claims \<Rightarrow> string"
  jwt_verify :: "int \<Rightarrow> string \<Rightarrow> jwt_error + jwt_claims option"
  uuid :: "nat \<Rightarrow> string"
  math_random :: "nat \<Rightarrow> rat"
  cfg_jwtTtl :: int
  cfg_refreshTtl :: int
  cfg_production :: bool
  cfg_frontendUrl :: string

definition draw :: "world \<Rightarrow> nat \<times> world" where
  "draw w = (nextId w, w\<lparr>nextId := Suc (nextId w)\<rparr>)"

section \<open>Tokens and codes\<close>

record TokenPayload =
  tp_merchantId :: string
  tp_email :: string
  tp_jti :: string
  tp_iat :: int

definition generateToken :: "auth_env \<Rightarrow> env \<Rightarrow> string \<Rightarrow> string option \<Rightarrow> world \<Rightarrow> string \<times> world" where
  "generateToken A E merchantId email w =
     (let (n, w1) = draw w; iat = clock E div 1000
      in (jwt_sign A \<lparr>jc_merchantId = Some merchantId, jc_email = email, jc_jti = Some (uuid A n),
                      jc_iat = Some iat, jc_exp = iat + cfg_jwtTtl A\<rparr>, w1))"

datatype token_failure = JwtFailure jwt_error | InvalidToken | InvalidTokenPayload

definition verifyToken :: "auth_env \<Rightarrow> env \<Rightarrow> string \<Rightarrow> token_failure + TokenPayload" where
  "verifyToken A E token =
     (case jwt_verify A (clock E div 1000) token of
        Inl e \<Rightarrow> Inl (JwtFailure e)
      | Inr None \<Rightarrow> Inl InvalidToken
      | Inr (Some c) \<Rightarrow>
          (case (given (jc_merchantId c), given (jc_email c), given (jc_jti c), jc_iat c) of
             (Some m, Some email, Some jti, Some iat) \<Rightarrow>
               (if iat = 0 then Inl InvalidTokenPayload
                else Inr \<lparr>tp_merchantId = m, tp_email = email, tp_jti = jti, tp_iat = iat\<rparr>)
           | _ \<Rightarrow> Inl InvalidTokenPayload))"

definition generateOTP :: "auth_env \<Rightarrow> nat \<Rightarrow> string" where
  "generateOTP A n = int_text \<lfloor>100000 + math_random A n * 900000\<rfloor>"

section \<open>Refresh tokens\<close>

definition refresh_key :: "string \<Rightarrow> string \<Rightarrow> string" where
  "refresh_key merchantId token = ''refresh:'' @ merchantId @ '':'' @ token"

definition session_payload :: "string \<Rightarrow> string option \<Rightarrow> string" where
  "session_payload merchantId email =
     stringify_fields ((''merchantId'', merchantId) # (case email of None \<Rightarrow> [] | Some e \<Rightarrow> [(''email'', e)]))"

definition storeRefreshToken :: "auth_env \<Rightarrow> env \<Rightarrow> string \<Rightarrow> string option \<Rightarrow> world \<Rightarrow> string \<times> world" where
  "storeRefreshToken A E merchantId email w =
     (let (n, w1) = draw w; token = uuid A n
      in (token, redis_set E (refresh_key merchantId token) (session_payload merchantId email) (cfg_refreshTtl A) w1))"

record auth_result =
  ar_accessToken :: string
  ar_refreshToken :: string

text \<open>A pair of tokens, as \<open>verifyEmail\<close>, \<open>loginMerchant\<close>, \<open>refreshToken\<close> and \<open>googleAuth\<close> make it.\<close>

definition issue_tokens :: "auth_env \<Rightarrow> env \<Rightarrow> string \<Rightarrow> string option \<Rightarrow> world \<Rightarrow> auth_result \<times> world" where
  "issue_tokens A E merchantId email w =
     (let (accessToken, w1) = generateToken A E merchantId email w;
          (refreshToken, w2) = storeRefreshToken A E merchantId email w1
      in (\<lparr>ar_accessToken = accessToken, ar_refreshToken = refreshToken\<rparr>, w2))"

section \<open>Accounts\<close>

text \<open>What the answers show of an account.\<close>

record merchant_view =
  mv_id :: string
  mv_email :: string
  mv_name :: string
  mv_shopName :: string
  mv_isVerified :: bool

definition merchant_view_of :: "merchant_row \<Rightarrow> merchant_view" where
  "merchant_view_of m =
     \<lparr>mv_id = merchant_id m, mv_email = merchant_email m, mv_name = merchant_name m,
      mv_shopName = merchant_shopName m, mv_isVerified = merchant_isVerified m\<rparr>"

record merchant_brief =
  mb_id :: string
  mb_email :: string
  mb_shopName :: string

definition merchant_brief_of :: "merchant_row \<Rightarrow> merchant_brief" where
  "merchant_brief_of m = \<lparr>mb_id = merchant_id m, mb_email = merchant_email m, mb_shopName = merchant_shopName m\<rparr>"

definition put_merchants :: "merchant_row list \<Rightarrow> world \<Rightarrow> world" where
  "put_merchants rs w = w\<lparr>merchants := rs\<rparr>"

abbreviation update_merchant ::
  "(merchant_row \<Rightarrow> bool) \<Rightarrow> (merchant_row \<Rightarrow> merchant_row) \<Rightarrow> world \<Rightarrow> exn + (merchant_row \<times> world)" where
  "update_merchant \<equiv> update_in merchants put_merchants"

definition merchant_by_email :: "string \<Rightarrow> world \<Rightarrow> merchant_row option" where
  "merchant_by_email email w = find_first (\<lambda>m. merchant_email m = email) (merchants w)"

definition merchant_by_id :: "string \<Rightarrow> world \<Rightarrow> merchant_row option" where
  "merchant_by_id i w = find_first (\<lambda>m. merchant_id m = i) (merchants w)"

definition create_merchant ::
  "env \<Rightarrow> string \<Rightarrow> string \<Rightarrow> string \<Rightarrow> string option \<Rightarrow> bool \<Rightarrow> world \<Rightarrow> exn + (merchant_row \<times> world)" where
  "create_merchant E email passwordHash name googleId verified w =
     (if list_ex (\<lambda>m. merchant_email m = email) (merchants w) then Inl P2002
      else
        (let r = \<lparr>merchant_id = cuid E (nextId w), merchant_email = email, merchant_passwordHash = passwordHash,
                  merchant_name = name, merchant_shopName = name, merchant_googleId = googleId,
                  merchant_isVerified = verified\<rparr>
         in Inr (r, w\<lparr>merchants := merchants w @ [r], nextId := Suc (nextId w)\<rparr>)))"

definition put_code :: "auth_env \<Rightarrow> env \<Rightarrow> string \<Rightarrow> string \<Rightarrow> string \<Rightarrow> string \<Rightarrow> world \<Rightarrow> world" where
  "put_code A E pre job email shopName w =
     (let (n, w1) = draw w; otp = generateOTP A n;
          (salt, w2) = draw w1;
          w3 = redis_set E (pre @ email) (bcrypt_hash A salt otp) 600 w2
      in w3\<lparr>emailJobs := emailJobs w3 @
              [(job, JObj [(''to'', JStr email), (''shopName'', JStr shopName), (''code'', JStr otp)])]\<rparr>)"

definition registerMerchant ::
  "auth_env \<Rightarrow> env \<Rightarrow> string \<Rightarrow> string \<Rightarrow> string \<Rightarrow> world \<Rightarrow> (exn + merchant_row) \<times> world" where
  "registerMerchant A E email passwordPlain shopName w =
     (let existing = merchant_by_email email w in
      if (case existing of Some m \<Rightarrow> merchant_isVerified m | None \<Rightarrow> False)
      then (Inl (Error ''Email is already registered''), w)
      else
        (let (salt, w1) = draw w; passwordHash = bcrypt_hash A salt passwordPlain in
         (case (case existing of
                  Some _ \<Rightarrow> update_merchant (\<lambda>m. merchant_email m = email)
                              (\<lambda>m. m\<lparr>merchant_passwordHash := passwordHash, merchant_name := shopName,
                                     merchant_shopName := shopName\<rparr>) w1
                | None \<Rightarrow> create_merchant E email passwordHash shopName None False w1) of
            Inl e \<Rightarrow> (Inl e, w1)
          | Inr (m, w2) \<Rightarrow> (Inr m, put_code A E ''otp:'' ''send-verification'' email shopName w2))))"

section \<open>Attempts\<close>

definition OTP_MAX_ATTEMPTS :: int where "OTP_MAX_ATTEMPTS = 5"

definition OTP_LOCKOUT_MINUTES :: int where "OTP_LOCKOUT_MINUTES = 15"

definition attempts_key :: "string \<Rightarrow> string" where
  "attempts_key email = ''otp-attempts:'' @ email"

definition too_many_attempts :: string where
  "too_many_attempts = ''Trop de tentatives. Veuillez r'' @ utf8_text [0xE9] @ ''essayer dans 15 minutes.''"

text \<open>A value \<open>parseInt\<close> cannot read is \<open>NaN\<close>, which is not at least the maximum.\<close>

definition checkOTPAttempts :: "env \<Rightarrow> string \<Rightarrow> world \<Rightarrow> exn option" where
  "checkOTPAttempts E email w =
     (case (case given (redis_get E (attempts_key email) w) of None \<Rightarrow> Some 0 | Some s \<Rightarrow> parseInt s) of
        None \<Rightarrow> None
      | Some count \<Rightarrow> (if OTP_MAX_ATTEMPTS \<le> count then Some (Error too_many_attempts) else None))"

definition incrementOTPAttempts :: "env \<Rightarrow> string \<Rightarrow> world \<Rightarrow> exn + world" where
  "incrementOTPAttempts E email w =
     (case redis_incr E (attempts_key email) w of
        Inl e \<Rightarrow> Inl e
      | Inr w1 \<Rightarrow> Inr (redis_expire E (attempts_key email) (OTP_LOCKOUT_MINUTES * 60) w1))"

definition clearOTPAttempts :: "string \<Rightarrow> world \<Rightarrow> world" where
  "clearOTPAttempts email w = redis_del (attempts_key email) w"

text \<open>
  The part \<open>verifyEmail\<close> and \<open>resetPassword\<close> share: the code given against the stored hash.  The attempts
  are looked at only when the code is wrong.
\<close>

definition count_attempt :: "env \<Rightarrow> string \<Rightarrow> string \<Rightarrow> world \<Rightarrow> exn \<times> world" where
  "count_attempt E email msg w =
     (case incrementOTPAttempts E email w of Inl e \<Rightarrow> (e, w) | Inr w1 \<Rightarrow> (Error msg, w1))"

definition check_code ::
  "auth_env \<Rightarrow> env \<Rightarrow> string \<Rightarrow> string \<Rightarrow> string \<Rightarrow> string \<Rightarrow> string \<Rightarrow> world \<Rightarrow> exn option \<times> world" where
  "check_code A E pre expired invalid email code w =
     (case given (redis_get E (pre @ email) w) of
        None \<Rightarrow> map_prod Some id (count_attempt E email expired w)
      | Some storedHash \<Rightarrow>
          (if bcrypt_compare A code storedHash then (None, clearOTPAttempts email w)
           else
             (case checkOTPAttempts E email w of
                Some e \<Rightarrow> (Some e, w)
              | None \<Rightarrow> map_prod Some id (count_attempt E email invalid w))))"

definition verifyEmail ::
  "auth_env \<Rightarrow> env \<Rightarrow> string \<Rightarrow> string \<Rightarrow> world \<Rightarrow> (exn + (auth_result \<times> merchant_view)) \<times> world" where
  "verifyEmail A E email code w =
     (case check_code A E ''otp:'' ''Verification code expired or invalid'' ''Invalid verification code'' email code w of
        (Some e, w1) \<Rightarrow> (Inl e, w1)
      | (None, w1) \<Rightarrow>
          (case merchant_by_email email w1 of
             None \<Rightarrow> (Inl (Error ''Merchant not found''), w1)
           | Some m \<Rightarrow>
               (if merchant_isVerified m then (Inl (Error ''Email already verified''), w1)
                else
                  (case update_merchant (\<lambda>m. merchant_email m = email) (\<lambda>m. m\<lparr>merchant_isVerified := True\<rparr>) w1 of
                     Inl e \<Rightarrow> (Inl e, w1)
                   | Inr (updated, w2) \<Rightarrow>
                       (case issue_tokens A E (merchant_id updated) (Some (merchant_email updated))
                               (redis_del (''otp:'' @ email) w2) of
                          (res, w3) \<Rightarrow> (Inr (res, merchant_view_of updated), w3))))))"

definition loginMerchant ::
  "auth_env \<Rightarrow> env \<Rightarrow> string \<Rightarrow> string \<Rightarrow> world \<Rightarrow> (exn + (auth_result \<times> merchant_brief)) \<times> world" where
  "loginMerchant A E email password w =
     (case merchant_by_email email w of
        None \<Rightarrow> (Inl (Error ''Invalid Email''), w)
      | Some m \<Rightarrow>
          (if \<not> merchant_isVerified m then (Inl (Error ''Email address not yet registered''), w)
           else if \<not> bcrypt_compare A password (merchant_passwordHash m) then (Inl (Error ''Password Incorrect''), w)
           else (case issue_tokens A E (merchant_id m) (Some (merchant_email m)) w of (res, w1) \<Rightarrow> (Inr (res, merchant_brief_of m), w1))))"

definition refreshToken ::
  "auth_env \<Rightarrow> env \<Rightarrow> string \<Rightarrow> string \<Rightarrow> world \<Rightarrow> (exn + auth_result) \<times> world" where
  "refreshToken A E merchantId token w =
     (let key = refresh_key merchantId token in
      (case given (redis_get E key w) of
         None \<Rightarrow> (Inl (Error ''Refresh token expired or invalid''), w)
       | Some stored \<Rightarrow>
           (case json_parse stored of
              None \<Rightarrow> (Inl (Error ''SyntaxError''), w)
            | Some v \<Rightarrow>
                (if v = JNull then (Inl (Error ''TypeError''), w)
                 else if \<not> (case merchant_by_id merchantId w of Some m \<Rightarrow> merchant_isVerified m | None \<Rightarrow> False)
                 then (Inl (Error ''Merchant not found or account unverified''), redis_del key w)
                 else (case issue_tokens A E merchantId (json_str ''email'' v) (redis_del key w) of
                         (res, w1) \<Rightarrow> (Inr res, w1))))))"

definition forgetPassword :: "auth_env \<Rightarrow> env \<Rightarrow> string \<Rightarrow> world \<Rightarrow> (exn + string) \<times> world" where
  "forgetPassword A E email w =
     (case merchant_by_email email w of
        None \<Rightarrow> (Inl (Error ''Merchant not found or email not verified''), w)
      | Some m \<Rightarrow>
          (if \<not> merchant_isVerified m then (Inl (Error ''Merchant not found or email not verified''), w)
           else (Inr ''Password reset code sent successfully'',
                 put_code A E ''reset-otp:'' ''send-reset-password'' email (merchant_shopName m) w)))"

text \<open>\<open>KEYS\<close> on \<open>refresh:<id>:*\<close> and the deletion of what it found.\<close>

definition delete_sessions :: "env \<Rightarrow> string \<Rightarrow> world \<Rightarrow> world" where
  "delete_sessions E merchantId w = redis_del_all (redis_keys E (refresh_key merchantId []) w) w"

definition resetPassword :: "auth_env \<Rightarrow> env \<Rightarrow> string \<Rightarrow> string \<Rightarrow> string \<Rightarrow> world \<Rightarrow> (exn + string) \<times> world" where
  "resetPassword A E email code newPassword w =
     (case check_code A E ''reset-otp:'' ''Reset code expired or invalid'' ''Invalid reset code'' email code w of
        (Some e, w1) \<Rightarrow> (Inl e, w1)
      | (None, w1) \<Rightarrow>
          (let (salt, w2) = draw w1; newHash = bcrypt_hash A salt newPassword in
           (case update_merchant (\<lambda>m. merchant_email m = email) (\<lambda>m. m\<lparr>merchant_passwordHash := newHash\<rparr>) w2 of
              Inl e \<Rightarrow> (Inl e, w2)
            | Inr (_, w3) \<Rightarrow>
                (let w4 = redis_del (''reset-otp:'' @ email) w3 in
                 (Inr ''Updated successfully. You can now log in.'',
                  case merchant_by_email email w4 of
                    None \<Rightarrow> w4
                  | Some m \<Rightarrow> delete_sessions E (merchant_id m) w4)))))"

definition getMerchantProfile :: "string \<Rightarrow> world \<Rightarrow> exn + merchant_view" where
  "getMerchantProfile merchantId w =
     (case merchant_by_id merchantId w of None \<Rightarrow> Inl (Error ''Merchant not found'') | Some m \<Rightarrow> Inr (merchant_view_of m))"

definition googleAuth :: "auth_env \<Rightarrow> env \<Rightarrow> merchant_row \<Rightarrow> world \<Rightarrow> (auth_result \<times> merchant_view) \<times> world" where
  "googleAuth A E m w =
     (case issue_tokens A E (merchant_id m) (Some (merchant_email m)) w of (res, w1) \<Rightarrow> ((res, merchant_view_of m), w1))"

definition WEEK_SECONDS :: int where "WEEK_SECONDS = 7 * 24 * 60 * 60"

definition logoutMerchant :: "env \<Rightarrow> string \<Rightarrow> string \<Rightarrow> string \<Rightarrow> world \<Rightarrow> world" where
  "logoutMerchant E merchantId token jti w =
     redis_set E (''jwt-blacklist:'' @ jti) ''1'' WEEK_SECONDS (redis_del (refresh_key merchantId token) w)"

definition logoutAllDevices :: "env \<Rightarrow> string \<Rightarrow> world \<Rightarrow> world" where
  "logoutAllDevices E merchantId w =
     redis_set E (''revoke-before:'' @ merchantId) (int_text (clock E div 1000)) WEEK_SECONDS
       (delete_sessions E merchantId w)"

section \<open>Google sign-in\<close>

record google_profile =
  gp_id :: string
  gp_email :: "string option"
  gp_displayName :: string

definition link_google :: "google_profile \<Rightarrow> merchant_row \<Rightarrow> world \<Rightarrow> exn + (merchant_row \<times> world)" where
  "link_google p m w =
     (if given (merchant_googleId m) \<noteq> None then Inr (m, w)
      else update_merchant (\<lambda>r. merchant_id r = merchant_id m) (\<lambda>r. r\<lparr>merchant_googleId := Some (gp_id p)\<rparr>) w)"

definition googleStrategy :: "env \<Rightarrow> google_profile \<Rightarrow> world \<Rightarrow> exn + ((merchant_row \<times> bool) \<times> world)" where
  "googleStrategy E p w =
     (case given (gp_email p) of
        None \<Rightarrow> Inl (Error ''Google account must have a primary email address'')
      | Some email \<Rightarrow>
          (let displayName = (if gp_displayName p \<noteq> [] then gp_displayName p else hd (split_on (CHR ''@'') email)) in
           (case find_first (\<lambda>m. merchant_googleId m = Some (gp_id p) \<or> merchant_email m = email) (merchants w) of
              Some m \<Rightarrow> map_sum id (map_prod (\<lambda>r. (r, False)) id) (link_google p m w)
            | None \<Rightarrow> map_sum id (map_prod (\<lambda>r. (r, True)) id)
                        (create_merchant E email [] displayName (Some (gp_id p)) True w))))"

section \<open>Middlewares\<close>

text \<open>\<open>authenticate\<close>: the message of the 401 answer, or the payload the handlers get.\<close>

definition request_token :: "string option \<Rightarrow> string option \<Rightarrow> string option" where
  "request_token cookie authHeader =
     (case given cookie of
        Some t \<Rightarrow> Some t
      | None \<Rightarrow>
          (case authHeader of
             Some h \<Rightarrow> (if starts_with ''Bearer '' h then given (Some (split_on (CHR '' '') h ! 1)) else None)
           | None \<Rightarrow> None))"

fun token_message :: "token_failure \<Rightarrow> string" where
  "token_message (JwtFailure TokenExpiredError) = ''Access token expired''"
| "token_message (JwtFailure JsonWebTokenError) = ''Invalid access token''"
| "token_message (JwtFailure NotBeforeError) = ''Unauthorized''"
| "token_message InvalidToken = ''Invalid access token''"
| "token_message InvalidTokenPayload = ''Invalid access token''"

text \<open>A time \<open>parseInt\<close> cannot read is \<open>NaN\<close> and revokes nothing.\<close>

definition revoked_before :: "env \<Rightarrow> TokenPayload \<Rightarrow> world \<Rightarrow> bool" where
  "revoked_before E p w =
     (case given (redis_get E (''revoke-before:'' @ tp_merchantId p) w) of
        None \<Rightarrow> False
      | Some s \<Rightarrow> (case parseInt s of None \<Rightarrow> False | Some t \<Rightarrow> tp_iat p \<le> t))"

definition authenticate :: "auth_env \<Rightarrow> env \<Rightarrow> string option \<Rightarrow> string option \<Rightarrow> world \<Rightarrow> string + TokenPayload" where
  "authenticate A E cookie authHeader w =
     (case request_token cookie authHeader of
        None \<Rightarrow> Inl ''Authorization token missing''
      | Some token \<Rightarrow>
          (case verifyToken A E token of
             Inl e \<Rightarrow> Inl (token_message e)
           | Inr p \<Rightarrow>
               (if given (redis_get E (''jwt-blacklist:'' @ tp_jti p) w) \<noteq> None then Inl ''Token revoked''
                else if revoked_before E p w then Inl ''Session revoked''
                else if merchant_by_id (tp_merchantId p) w = None then Inl ''Account not found''
                else Inr p)))"

text \<open>\<open>csrfProtection\<close>: whether the request goes on; otherwise it is answered 403.\<close>

definition SAFE_METHODS :: "string list" where
  "SAFE_METHODS = [''GET'', ''HEAD'', ''OPTIONS'']"

definition csrfProtection ::
  "string \<Rightarrow> string \<Rightarrow> string option \<Rightarrow> string option \<Rightarrow> string option \<Rightarrow> bool" where
  "csrfProtection meth path accessCookie cookieToken headerToken =
     (if meth \<in> set SAFE_METHODS then True
      else if starts_with ''/whatsapp/webhook'' path \<or> starts_with ''/delivery/webhook'' path then True
      else if given accessCookie = None then True
      else given cookieToken \<noteq> None \<and> given headerToken \<noteq> None \<and> cookieToken = headerToken)"

section \<open>Handlers\<close>

text \<open>
  A response with the cookies it sets (\<open>ck_value\<close> \<open>None\<close> clears the cookie); every cookie is \<open>sameSite\<close> strict.
  An error passed to \<open>next\<close> is \<open>Inl\<close>.
\<close>

record cookie =
  ck_name :: string
  ck_value :: "string option"
  ck_httpOnly :: bool
  ck_secure :: bool
  ck_path :: string

definition auth_cookie :: "auth_env \<Rightarrow> string \<Rightarrow> string option \<Rightarrow> bool \<Rightarrow> string \<Rightarrow> cookie" where
  "auth_cookie A name v httpOnly path =
     \<lparr>ck_name = name, ck_value = v, ck_httpOnly = httpOnly, ck_secure = cfg_production A, ck_path = path\<rparr>"

definition setAuthCookies :: "auth_env \<Rightarrow> auth_result \<Rightarrow> world \<Rightarrow> cookie list \<times> world" where
  "setAuthCookies A res w =
     (let (n, w1) = draw w
      in ([auth_cookie A ''accessToken'' (Some (ar_accessToken res)) True ''/'',
           auth_cookie A ''refreshToken'' (Some (ar_refreshToken res)) True ''/auth'',
           auth_cookie A ''csrf-token'' (Some (uuid A n)) False ''/''], w1))"

definition clearAuthCookies :: "auth_env \<Rightarrow> cookie list" where
  "clearAuthCookies A =
     [auth_cookie A ''accessToken'' None True ''/'', auth_cookie A ''refreshToken'' None True ''/auth'',
      auth_cookie A ''csrf-token'' None False ''/'']"

record 'a web =
  web_reply :: "'a reply"
  web_cookies :: "cookie list"

definition plain :: "'a reply \<Rightarrow> 'a web" where
  "plain r = \<lparr>web_reply = r, web_cookies = []\<rparr>"

definition refuse_with :: "(string \<times> nat) list \<Rightarrow> exn \<Rightarrow> exn + 'a web" where
  "refuse_with answers e =
     (case map_of answers (err_message e) of
        Some status \<Rightarrow> Inr (plain (Refuse status (err_message e)))
      | None \<Rightarrow> Inl e)"

definition with_cookies :: "auth_env \<Rightarrow> 'a \<Rightarrow> auth_result \<times> world \<Rightarrow> (exn + 'a web) \<times> world" where
  "with_cookies A body x =
     (case x of (res, w) \<Rightarrow>
        (case setAuthCookies A res w of (cs, w1) \<Rightarrow> (Inr \<lparr>web_reply = Reply 200 body, web_cookies = cs\<rparr>, w1)))"

definition getMe :: "TokenPayload \<Rightarrow> world \<Rightarrow> exn + merchant_view web" where
  "getMe p w = map_sum id (\<lambda>m. plain (Reply 200 m)) (getMerchantProfile (tp_merchantId p) w)"

definition signup ::
  "auth_env \<Rightarrow> env \<Rightarrow> string \<Rightarrow> string \<Rightarrow> string \<Rightarrow> world \<Rightarrow> (exn + string web) \<times> world" where
  "signup A E email password shopName w =
     (case registerMerchant A E email password shopName w of
        (Inl e, w1) \<Rightarrow> (refuse_with [(''Email is already registered'', 409)] e, w1)
      | (Inr _, w1) \<Rightarrow>
          (Inr (plain (Reply 201 ''Registration successful. Please check your email for the verification code.'')), w1))"

definition verify_errors :: "(string \<times> nat) list" where
  "verify_errors =
     [(too_many_attempts, 429), (''Verification code expired or invalid'', 400), (''Invalid verification code'', 400),
      (''Merchant not found'', 400), (''Email already verified'', 400)]"

definition verifyEmailHandler ::
  "auth_env \<Rightarrow> env \<Rightarrow> string \<Rightarrow> string \<Rightarrow> world \<Rightarrow> (exn + (string \<times> merchant_view) web) \<times> world" where
  "verifyEmailHandler A E email code w =
     (case verifyEmail A E email code w of
        (Inl e, w1) \<Rightarrow> (refuse_with verify_errors e, w1)
      | (Inr (res, m), w1) \<Rightarrow> with_cookies A (''Email verified successfully'', m) (res, w1))"

definition login_errors :: "(string \<times> nat) list" where
  "login_errors = [(''Invalid Email'', 401), (''Email address not yet registered'', 401), (''Password Incorrect'', 401)]"

definition login ::
  "auth_env \<Rightarrow> env \<Rightarrow> string \<Rightarrow> string \<Rightarrow> world \<Rightarrow> (exn + (string \<times> merchant_brief) web) \<times> world" where
  "login A E email password w =
     (case loginMerchant A E email password w of
        (Inl e, w1) \<Rightarrow> (refuse_with login_errors e, w1)
      | (Inr (res, m), w1) \<Rightarrow> with_cookies A (''Login successful'', m) (res, w1))"

definition refresh_errors :: "(string \<times> nat) list" where
  "refresh_errors = [(''Refresh token expired or invalid'', 401), (''Merchant not found or account unverified'', 403)]"

definition refresh ::
  "auth_env \<Rightarrow> env \<Rightarrow> string \<Rightarrow> string option \<Rightarrow> world \<Rightarrow> (exn + string web) \<times> world" where
  "refresh A E merchantId cookieToken w =
     (case given cookieToken of
        None \<Rightarrow> (Inr (plain (Refuse 401 ''Refresh token missing'')), w)
      | Some token \<Rightarrow>
          (case refreshToken A E merchantId token w of
             (Inl e, w1) \<Rightarrow> (map_sum id (\<lambda>r. r\<lparr>web_cookies := clearAuthCookies A\<rparr>) (refuse_with refresh_errors e), w1)
           | (Inr res, w1) \<Rightarrow> with_cookies A ''Token refreshed'' (res, w1)))"

definition logout :: "auth_env \<Rightarrow> env \<Rightarrow> TokenPayload \<Rightarrow> string option \<Rightarrow> world \<Rightarrow> string web \<times> world" where
  "logout A E p cookieToken w =
     (\<lparr>web_reply = Reply 200 ''Logged out successfully'', web_cookies = clearAuthCookies A\<rparr>,
      case given cookieToken of
        None \<Rightarrow> w
      | Some token \<Rightarrow> logoutMerchant E (tp_merchantId p) token (tp_jti p) w)"

definition logoutAll :: "auth_env \<Rightarrow> env \<Rightarrow> TokenPayload \<Rightarrow> world \<Rightarrow> string web \<times> world" where
  "logoutAll A E p w =
     (\<lparr>web_reply = Reply 200 ''Logged out from all devices'', web_cookies = clearAuthCookies A\<rparr>,
      logoutAllDevices E (tp_merchantId p) w)"

definition forgetPasswordHandler :: "auth_env \<Rightarrow> env \<Rightarrow> string \<Rightarrow> world \<Rightarrow> (exn + string web) \<times> world" where
  "forgetPasswordHandler A E email w =
     (case forgetPassword A E email w of
        (Inl e, w1) \<Rightarrow> (refuse_with [(''Merchant not found or email not verified'', 404)] e, w1)
      | (Inr msg, w1) \<Rightarrow> (Inr (plain (Reply 200 msg)), w1))"

definition reset_errors :: "(string \<times> nat) list" where
  "reset_errors = [(too_many_attempts, 429), (''Reset code expired or invalid'', 400), (''Invalid reset code'', 400)]"

definition resetPasswordHandler ::
  "auth_env \<Rightarrow> env \<Rightarrow> string \<Rightarrow> string \<Rightarrow> string \<Rightarrow> world \<Rightarrow> (exn + string web) \<times> world" where
  "resetPasswordHandler A E email code newPassword w =
     (case resetPassword A E email code newPassword w of
        (Inl e, w1) \<Rightarrow> (refuse_with reset_errors e, w1)
      | (Inr msg, w1) \<Rightarrow> (Inr (plain (Reply 200 msg)), w1))"

text \<open>The callback of Google: the strategy, then \<open>googleCallback\<close>, which redirects.\<close>

definition googleCallback :: "auth_env \<Rightarrow> env \<Rightarrow> google_profile \<Rightarrow> world \<Rightarrow> (exn + (string \<times> cookie list)) \<times> world" where
  "googleCallback A E p w =
     (case googleStrategy E p w of
        Inl e \<Rightarrow> (Inl e, w)
      | Inr ((m, isNew), w1) \<Rightarrow>
          (case googleAuth A E m w1 of ((res, _), w2) \<Rightarrow>
             (case setAuthCookies A res w2 of (cs, w3) \<Rightarrow>
                (Inr (cfg_frontendUrl A @ (if isNew then ''/onboarding'' else ''/dashboard''), cs), w3))))"

end
