(* ===== verification/Auth_Sessions.thy ===== *)
theory Auth_Sessions
  imports Auth
begin

text \<open>
  What the sessions of \<open>Auth\<close> promise: the stored refresh tokens refine a set of open sessions, every
  reachable session belongs to an account, signing out everywhere revokes every token, a registered account
  can sign in, and what the limit on code attempts does.
\<close>

section \<open>The set of open sessions\<close>

text \<open>
  The specification: a set of pairs of an account and a token.  The ids of accounts hold no colon, so that
  the key of a token names one account.
\<close>

type_synonym open_sessions = "(string \<times> string) set"

definition open_session :: "string \<Rightarrow> string \<Rightarrow> open_sessions \<Rightarrow> open_sessions" where
  "open_session m t S = insert (m, t) S"

definition close_session :: "string \<Rightarrow> string \<Rightarrow> open_sessions \<Rightarrow> open_sessions" where
  "close_session m t S = S - {(m, t)}"

definition close_all :: "string \<Rightarrow> open_sessions \<Rightarrow> open_sessions" where
  "close_all m S = {p \<in> S. fst p \<noteq> m}"

definition plain_id :: "string \<Rightarrow> bool" where
  "plain_id m \<longleftrightarrow> CHR '':'' \<notin> set m"

definition sessions :: "env \<Rightarrow> world \<Rightarrow> open_sessions" where
  "sessions E w = {(m, t). plain_id m \<and> redis_get E (refresh_key m t) w \<noteq> None}"

lemma colon_split:
  "plain_id m \<Longrightarrow> plain_id n \<Longrightarrow> m @ CHR '':'' # s = n @ CHR '':'' # t \<longleftrightarrow> m = n \<and> s = t"
proof (induction m arbitrary: n)
  case Nil
  then show ?case by (cases n) (auto simp: plain_id_def)
next
  case (Cons c m)
  then show ?case by (cases n) (auto simp: plain_id_def)
qed

lemma refresh_key_eq: "plain_id m \<Longrightarrow> plain_id n \<Longrightarrow> refresh_key m s = refresh_key n t \<longleftrightarrow> m = n \<and> s = t"
  by (simp add: refresh_key_def colon_split)

lemma refresh_key_prefix:
  assumes "plain_id m" "plain_id n"
  shows "starts_with (refresh_key m []) (refresh_key n t) \<longleftrightarrow> m = n"
proof
  assume "starts_with (refresh_key m []) (refresh_key n t)"
  then obtain u where "n @ CHR '':'' # t = m @ CHR '':'' # u"
    by (auto simp: starts_with_def refresh_key_def prefix_def)
  then show "m = n" using assms by (simp add: colon_split)
qed (simp add: starts_with_def refresh_key_def)

text \<open>Reading the store sees only the store.\<close>

lemma redis_get_cong: "redis w' = redis w \<Longrightarrow> redis_get E k w' = redis_get E k w"
  by (simp add: redis_get_def redis_entry_of_def)

lemma redis_get_frame [simp]:
  "redis_get E k (w\<lparr>nextId := n\<rparr>) = redis_get E k w" "redis_get E k (w\<lparr>merchants := ms\<rparr>) = redis_get E k w"
  "redis_get E k (w\<lparr>emailJobs := js\<rparr>) = redis_get E k w"
  by (rule redis_get_cong, simp)+

lemma redis_get_set_later:
  "redis_get E' k (redis_set E k' v secs w) =
     (if k = k' then (if clock E' < clock E + 1000 * secs then Some v else None) else redis_get E' k w)"
  by (simp add: redis_set_def redis_get_put live_def)

lemma other_key [simp]:
  "refresh_key m t \<noteq> CHR ''j'' # x" "refresh_key m t \<noteq> CHR ''o'' # x"
  "refresh_key m t \<noteq> CHR ''r'' # CHR ''e'' # CHR ''s'' # x" "refresh_key m t \<noteq> CHR ''r'' # CHR ''e'' # CHR ''v'' # x"
  by (simp_all add: refresh_key_def)

lemmas other_key_sym [simp] = other_key [symmetric]

lemma sessions_eqI: "(\<And>m t. redis_get E (refresh_key m t) w' = redis_get E (refresh_key m t) w) \<Longrightarrow> sessions E w' = sessions E w"
  by (simp add: sessions_def)

lemma sessions_del: "plain_id m \<Longrightarrow> sessions E (redis_del (refresh_key m t) w) = close_session m t (sessions E w)"
  by (auto simp: sessions_def close_session_def redis_get_del refresh_key_eq split: if_splits)

lemma sessions_issue:
  assumes "plain_id m" "0 < cfg_refreshTtl A" "issue_tokens A E m email w = (res, w')"
  shows "sessions E w' = open_session m (ar_refreshToken res) (sessions E w)"
  using assms
  by (auto simp: issue_tokens_def generateToken_def storeRefreshToken_def draw_def Let_def sessions_def
      open_session_def redis_get_set_later refresh_key_eq split: if_splits)

lemma sessions_delete_all: "plain_id m \<Longrightarrow> sessions E (delete_sessions E m w) = close_all m (sessions E w)"
  by (auto simp: sessions_def close_all_def delete_sessions_def redis_clear_prefix refresh_key_prefix split: if_splits)

lemma redis_get_put_other: "k \<noteq> redis_key e \<Longrightarrow> redis_get E k (redis_put e w) = redis_get E k w"
  by (simp add: redis_get_put)

lemma redis_entry_of_SomeD: "redis_entry_of E k w = Some e \<Longrightarrow> redis_key e = k"
  by (auto simp: redis_entry_of_def dest: find_first_SomeD)

lemma sessions_increment: "incrementOTPAttempts E email w = Inr w' \<Longrightarrow> sessions E w' = sessions E w"
  by (rule sessions_eqI)
    (auto simp: incrementOTPAttempts_def redis_incr_def redis_expire_def attempts_key_def redis_get_put
      dest!: redis_entry_of_SomeD split: option.splits if_splits)

text \<open>Looking at a code changes the store and nothing else.\<close>

definition only_redis :: "world \<Rightarrow> world \<Rightarrow> bool" where
  "only_redis w w' \<longleftrightarrow> w' = w\<lparr>redis := redis w'\<rparr>"

lemma only_redis_ops:
  "only_redis w w" "only_redis w (redis_put e w)" "only_redis w (redis_del k w)" "only_redis w (redis_del_all ks w)"
  "only_redis w (redis_put e (redis_put e' w))"
  by (simp_all add: only_redis_def redis_put_def redis_del_def redis_del_all_def)

lemma only_redis_trans: "only_redis w w1 \<Longrightarrow> only_redis w1 w2 \<Longrightarrow> only_redis w w2"
  by (cases w; cases w1; cases w2) (simp add: only_redis_def)

lemma only_redis_count: "only_redis w (snd (count_attempt E email msg w))"
  by (auto simp: count_attempt_def incrementOTPAttempts_def redis_incr_def redis_expire_def only_redis_ops
      split: option.splits sum.splits)

lemma only_redis_check: "check_code A E pre m1 m2 email code w = (r, w') \<Longrightarrow> only_redis w w'"
  using only_redis_count [of w E email m1] only_redis_count [of w E email m2]
  by (auto simp: check_code_def clearOTPAttempts_def map_prod_def only_redis_ops split: option.splits if_splits prod.splits)

lemma only_redis_merchants: "only_redis w w' \<Longrightarrow> merchants w' = merchants w"
  by (cases w; cases w') (simp add: only_redis_def)

lemma merchants_redis [simp]:
  "merchants (redis_put e w) = merchants w" "merchants (redis_del k w) = merchants w"
  "merchants (redis_del_all ks w) = merchants w" "merchants (redis_set E k v n w) = merchants w"
  by (simp_all add: redis_put_def redis_del_def redis_del_all_def redis_set_def)

lemma find_first_update_same:
  "(\<And>r. P (f r) = P r) \<Longrightarrow> find_first P (update_where P f rows) = map_option f (find_first P rows)"
  by (induction rows) (auto simp: find_first_def update_where_def)

lemma sessions_check_code:
  assumes "check_code A E pre m1 m2 email code w = (r, w')"
  shows "sessions E w' = sessions E w"
proof -
  have "sessions E (clearOTPAttempts email w) = sessions E w"
    by (rule sessions_eqI) (simp add: clearOTPAttempts_def attempts_key_def redis_get_del)
  with assms show ?thesis
    by (auto simp: check_code_def count_attempt_def dest: sessions_increment split: option.splits if_splits sum.splits)
qed

lemma update_merchant_Inr:
  "update_merchant P f w = Inr (r, w') \<Longrightarrow> \<exists>q. find_first P (merchants w) = Some q \<and> r = f q \<and>
     w' = w\<lparr>merchants := update_where P f (merchants w)\<rparr>"
  by (auto simp: update_in_Inr put_merchants_def)

lemma sessions_frame [simp]:
  "sessions E (w\<lparr>nextId := n\<rparr>) = sessions E w" "sessions E (w\<lparr>merchants := ms\<rparr>) = sessions E w"
  "sessions E (w\<lparr>emailJobs := js\<rparr>) = sessions E w"
  by (simp_all add: sessions_def)

lemma sessions_otp [simp]:
  "sessions E (redis_del (CHR ''o'' # x) w) = sessions E w"
  "sessions E (redis_del (CHR ''r'' # CHR ''e'' # CHR ''s'' # x) w) = sessions E w"
  "sessions E (redis_set E (CHR ''o'' # x) v n w) = sessions E w"
  "sessions E (redis_set E (CHR ''j'' # x) v n w) = sessions E w"
  "sessions E (redis_set E (CHR ''r'' # CHR ''e'' # CHR ''s'' # x) v n w) = sessions E w"
  "sessions E (redis_set E (CHR ''r'' # CHR ''e'' # CHR ''v'' # x) v n w) = sessions E w"
  by (simp_all add: sessions_def redis_get_del redis_get_set_later)

lemma sessions_login:
  assumes "0 < cfg_refreshTtl A" "loginMerchant A E email pw w = (Inr (res, b), w')" "plain_id (mb_id b)"
  shows "sessions E w' = open_session (mb_id b) (ar_refreshToken res) (sessions E w)"
  using assms sessions_issue [OF _ assms(1)]
  by (auto simp: loginMerchant_def merchant_brief_of_def split: option.splits if_splits prod.splits)

lemma sessions_verify:
  assumes "0 < cfg_refreshTtl A" "verifyEmail A E email code w = (Inr (res, v), w')" "plain_id (mv_id v)"
  shows "sessions E w' = open_session (mv_id v) (ar_refreshToken res) (sessions E w)"
proof -
  obtain w1 r w2 where c: "check_code A E ''otp:'' ''Verification code expired or invalid'' ''Invalid verification code'' email code w = (None, w1)"
    and u: "update_merchant (\<lambda>m. merchant_email m = email) (\<lambda>m. m\<lparr>merchant_isVerified := True\<rparr>) w1 = Inr (r, w2)"
    and i: "issue_tokens A E (merchant_id r) (Some (merchant_email r)) (redis_del (''otp:'' @ email) w2) = (res, w')"
    and v: "v = merchant_view_of r"
    using assms(2) by (auto simp: verifyEmail_def split: prod.splits option.splits if_splits sum.splits)
  have "sessions E w2 = sessions E w1" using update_merchant_Inr [OF u] by auto
  then show ?thesis
    using sessions_issue [OF _ assms(1) i] assms(3) sessions_check_code [OF c] v by (simp add: merchant_view_of_def)
qed

lemma sessions_refresh:
  assumes "0 < cfg_refreshTtl A" "plain_id m" "refreshToken A E m t w = (Inr res, w')"
  shows "(m, t) \<in> sessions E w \<and> sessions E w' = open_session m (ar_refreshToken res) (close_session m t (sessions E w))"
proof -
  obtain s v where s: "given (redis_get E (refresh_key m t) w) = Some s"
    and i: "issue_tokens A E m (json_str ''email'' v) (redis_del (refresh_key m t) w) = (res, w')"
    using assms(3) by (auto simp: refreshToken_def Let_def split: option.splits if_splits prod.splits)
  from s have "(m, t) \<in> sessions E w" using assms(2) by (auto simp: sessions_def given_def split: option.splits if_splits)
  then show ?thesis using sessions_issue [OF assms(2,1) i] sessions_del [OF assms(2)] by simp
qed

lemma refresh_closed: "plain_id m \<Longrightarrow> (m, t) \<notin> sessions E w \<Longrightarrow> refreshToken A E m t w = (Inl (Error ''Refresh token expired or invalid''), w)"
  by (simp add: sessions_def refreshToken_def given_def Let_def)

lemma sessions_reset:
  assumes "resetPassword A E email code np w = (Inr msg, w')" "merchant_by_email email w = Some r" "plain_id (merchant_id r)"
  shows "sessions E w' = close_all (merchant_id r) (sessions E w)"
proof -
  let ?P = "\<lambda>m. merchant_email m = email" and ?f = "\<lambda>n m. m\<lparr>merchant_passwordHash := bcrypt_hash A n np\<rparr>"
  obtain w1 q w3 where c: "check_code A E ''reset-otp:'' ''Reset code expired or invalid'' ''Invalid reset code'' email code w = (None, w1)"
    and u: "update_merchant ?P (?f (nextId w1)) (w1\<lparr>nextId := Suc (nextId w1)\<rparr>) = Inr (q, w3)"
    and w': "w' = (case merchant_by_email email (redis_del (''reset-otp:'' @ email) w3) of
        None \<Rightarrow> redis_del (''reset-otp:'' @ email) w3
      | Some m \<Rightarrow> delete_sessions E (merchant_id m) (redis_del (''reset-otp:'' @ email) w3))"
    using assms(1) by (auto simp: resetPassword_def draw_def Let_def split: prod.splits option.splits sum.splits)
  have "merchants w1 = merchants w"
    using only_redis_check [OF c] by (rule only_redis_merchants)
  then have "merchant_by_email email w3 = Some (?f (nextId w1) r)" "sessions E w3 = sessions E w1"
    using update_merchant_Inr [OF u] assms(2) by (auto simp: merchant_by_email_def find_first_update_same)
  then show ?thesis
    using sessions_check_code [OF c] sessions_delete_all [OF assms(3)] w' by (simp add: merchant_by_email_def)
qed

text \<open>C20. The refresh tokens in the store refine a set of open sessions.  Signing in and verifying an address open
  one session; refreshing needs an open session, closes it and opens another, so that a token is used once;
  signing out closes that session; signing out everywhere and resetting the password close every session of the
  account and no other; a refresh of a session that is not open is refused and changes nothing.\<close>

theorem sessions_refined:
  assumes "0 < cfg_refreshTtl A" "plain_id m"
  shows "(loginMerchant A E email pw w = (Inr (res, b), w') \<and> mb_id b = m \<longrightarrow>
            sessions E w' = open_session m (ar_refreshToken res) (sessions E w)) \<and>
         (verifyEmail A E email code w = (Inr (res, v), w') \<and> mv_id v = m \<longrightarrow>
            sessions E w' = open_session m (ar_refreshToken res) (sessions E w)) \<and>
         (refreshToken A E m t w = (Inr res, w') \<longrightarrow> (m, t) \<in> sessions E w \<and>
            sessions E w' = open_session m (ar_refreshToken res) (close_session m t (sessions E w))) \<and>
         ((m, t) \<notin> sessions E w \<longrightarrow> refreshToken A E m t w = (Inl (Error ''Refresh token expired or invalid''), w)) \<and>
         sessions E (logoutMerchant E m t jti w) = close_session m t (sessions E w) \<and>
         sessions E (logoutAllDevices E m w) = close_all m (sessions E w) \<and>
         (resetPassword A E email code np w = (Inr msg, w') \<and> map_option merchant_id (merchant_by_email email w) = Some m \<longrightarrow>
            sessions E w' = close_all m (sessions E w))"
proof (intro conjI impI; (elim conjE)?)
  show "sessions E w' = open_session m (ar_refreshToken res) (sessions E w)"
    if "loginMerchant A E email pw w = (Inr (res, b), w')" "mb_id b = m"
    using sessions_login [OF assms(1) that(1)] assms(2) that(2) by simp
  show "sessions E w' = open_session m (ar_refreshToken res) (sessions E w)"
    if "verifyEmail A E email code w = (Inr (res, v), w')" "mv_id v = m"
    using sessions_verify [OF assms(1) that(1)] assms(2) that(2) by simp
  show "(m, t) \<in> sessions E w" "sessions E w' = open_session m (ar_refreshToken res) (close_session m t (sessions E w))"
    if "refreshToken A E m t w = (Inr res, w')"
    using sessions_refresh [OF assms that] by simp_all
  show "refreshToken A E m t w = (Inl (Error ''Refresh token expired or invalid''), w)" if "(m, t) \<notin> sessions E w"
    using refresh_closed [OF assms(2) that] .
  show "sessions E (logoutMerchant E m t jti w) = close_session m t (sessions E w)"
    by (simp add: logoutMerchant_def sessions_del [OF assms(2)])
  show "sessions E (logoutAllDevices E m w) = close_all m (sessions E w)"
    by (simp add: logoutAllDevices_def sessions_delete_all [OF assms(2)])
  show "sessions E w' = close_all m (sessions E w)"
    if "resetPassword A E email code np w = (Inr msg, w')" "map_option merchant_id (merchant_by_email email w) = Some m"
    using sessions_reset [OF that(1)] that(2) assms(2) by auto
qed

text \<open>The example the witnesses use: one account, verified, with the password \<open>pw\<close>.\<close>

definition sample_auth :: auth_env where
  "sample_auth =
     \<lparr>bcrypt_hash = (\<lambda>_ p. CHR ''h'' # p), bcrypt_compare = (\<lambda>p h. h = CHR ''h'' # p),
      jwt_sign = (\<lambda>c. coalesce (jc_jti c) []),
      jwt_verify = (\<lambda>_ s. Inr (Some \<lparr>jc_merchantId = Some ''m1'', jc_email = Some ''a'', jc_jti = Some s,
                                     jc_iat = Some (int (length s)), jc_exp = 100\<rparr>)),
      uuid = (\<lambda>n. CHR ''u'' # replicate n (CHR ''0'')), math_random = (\<lambda>_. 0), cfg_jwtTtl = 60,
      cfg_refreshTtl = 600, cfg_production = False, cfg_frontendUrl = ''http://front''\<rparr>"

definition sample_account :: merchant_row where
  "sample_account = \<lparr>merchant_id = ''m1'', merchant_email = ''a'', merchant_passwordHash = ''hpw'', merchant_name = ''s'',
     merchant_shopName = ''s'', merchant_googleId = None, merchant_isVerified = True\<rparr>"

definition sample_accounts :: world where
  "sample_accounts = sample_world\<lparr>merchants := [sample_account], redis := []\<rparr>"

lemma sample_login:
  "fst (loginMerchant sample_auth sample_env ''a'' ''pw'' sample_accounts) =
     Inr (\<lparr>ar_accessToken = ''u'', ar_refreshToken = ''u0''\<rparr>, merchant_brief_of sample_account)"
  by code_simp

theorem sessions_refined_witness:
  "\<exists>res b w'. loginMerchant sample_auth sample_env ''a'' ''pw'' sample_accounts = (Inr (res, b), w') \<and>
     sessions sample_env w' = open_session ''m1'' (ar_refreshToken res) (sessions sample_env sample_accounts)"
proof -
  obtain w' where "loginMerchant sample_auth sample_env ''a'' ''pw'' sample_accounts =
      (Inr (\<lparr>ar_accessToken = ''u'', ar_refreshToken = ''u0''\<rparr>, merchant_brief_of sample_account), w')"
    using sample_login by (metis prod.collapse)
  moreover have "0 < cfg_refreshTtl sample_auth" "plain_id ''m1''" "mb_id (merchant_brief_of sample_account) = ''m1''"
    by (simp_all add: sample_auth_def plain_id_def merchant_brief_of_def sample_account_def)
  ultimately show ?thesis using sessions_refined [of sample_auth "''m1''" sample_env] by blast
qed

section \<open>Signing out everywhere\<close>

lemma redis_keys_later:
  "clock E \<le> clock E' \<Longrightarrow> redis_get E' k w \<noteq> None \<Longrightarrow> starts_with p k \<Longrightarrow> k \<in> set (redis_keys E p w)"
  by (force simp: redis_get_def redis_entry_of_def redis_keys_def live_def split: option.splits
      dest!: find_first_SomeD)

lemma delete_sessions_later:
  assumes "clock E \<le> clock E'"
  shows "redis_get E' k (delete_sessions E m w) = (if starts_with (refresh_key m []) k then None else redis_get E' k w)"
proof (cases "starts_with (refresh_key m []) k")
  case True
  then show ?thesis
    using redis_keys_later [OF assms, of k w "refresh_key m []"]
    by (cases "redis_get E' k w") (auto simp: delete_sessions_def redis_get_del_all)
next
  case False
  then have "k \<notin> set (redis_keys E (refresh_key m []) w)" by (auto simp: redis_keys_def)
  with False show ?thesis by (simp add: delete_sessions_def redis_get_del_all)
qed

lemma refresh_key_self: "starts_with (refresh_key m []) (refresh_key m t)"
  by (simp add: starts_with_def refresh_key_def)

lemma not_refresh_key [simp]:
  "\<not> starts_with (refresh_key m []) (CHR ''j'' # x)" "\<not> starts_with (refresh_key m []) (CHR ''r'' # CHR ''e'' # CHR ''v'' # x)"
  by (simp_all add: starts_with_def refresh_key_def)

lemma logoutAll_reads:
  assumes "clock E \<le> clock E'" "clock E' < clock E + 1000 * WEEK_SECONDS"
  shows "redis_get E' (refresh_key m t) (logoutAllDevices E m w) = None"
    "redis_get E' (''jwt-blacklist:'' @ j) (logoutAllDevices E m w) = redis_get E' (''jwt-blacklist:'' @ j) w"
    "redis_get E' (''revoke-before:'' @ n) (logoutAllDevices E m w) =
       (if n = m then Some (int_text (clock E div 1000)) else redis_get E' (''revoke-before:'' @ n) w)"
    "merchants (logoutAllDevices E m w) = merchants w"
  using assms
  by (simp_all add: logoutAllDevices_def redis_get_set_later delete_sessions_later refresh_key_self)
    (simp add: delete_sessions_def)

lemma revoked_after_logoutAll:
  assumes "0 \<le> clock E" "clock E \<le> clock E'" "clock E' < clock E + 1000 * WEEK_SECONDS"
  shows "revoked_before E' p (logoutAllDevices E m w) =
    (if tp_merchantId p = m then tp_iat p \<le> clock E div 1000 else revoked_before E' p w)"
proof -
  have "given (Some (int_text (clock E div 1000))) = Some (int_text (clock E div 1000))"
    using nat_text_digits assms(1) by (simp add: given_def int_text_def)
  then show ?thesis
    using assms(1) unfolding revoked_before_def logoutAll_reads(3) [OF assms(2,3)]
    by (simp add: parseInt_int_text)
qed

text \<open>C22. For a week after an account signed out everywhere, no access token issued to it up to that moment is
  accepted and none of its refresh tokens is exchanged.  Other accounts are unaffected: their access tokens are accepted as
  before and their stored refresh tokens are the same (the ids of accounts hold no colon).\<close>

theorem logoutAll_revokes:
  assumes "0 \<le> clock E" "clock E \<le> clock E'" "clock E' < clock E + 1000 * WEEK_SECONDS"
    and "w' = logoutAllDevices E m w"
  shows "(authenticate A E' cookie hdr w' = Inr p \<and> tp_merchantId p = m \<longrightarrow> clock E div 1000 < tp_iat p) \<and>
    refreshToken A E' m t w' = (Inl (Error ''Refresh token expired or invalid''), w') \<and>
    (authenticate A E' cookie hdr w = Inr p \<and> tp_merchantId p \<noteq> m \<longrightarrow> authenticate A E' cookie hdr w' = Inr p) \<and>
    (plain_id m \<and> plain_id n \<and> n \<noteq> m \<longrightarrow> redis_get E' (refresh_key n t) w' = redis_get E' (refresh_key n t) w)"
proof (intro conjI impI; (elim conjE)?)
  note reads = logoutAll_reads [OF assms(2,3)] and revoked = revoked_after_logoutAll [OF assms(1-3)]
  show "clock E div 1000 < tp_iat p" if "authenticate A E' cookie hdr w' = Inr p" "tp_merchantId p = m"
    using that unfolding assms(4) authenticate_def revoked
    by (auto split: option.splits sum.splits if_splits)
  show "refreshToken A E' m t w' = (Inl (Error ''Refresh token expired or invalid''), w')"
    by (simp add: refreshToken_def Let_def assms(4) reads given_def)
  show "authenticate A E' cookie hdr w' = Inr p"
    if "authenticate A E' cookie hdr w = Inr p" "tp_merchantId p \<noteq> m"
    using that unfolding assms(4) authenticate_def merchant_by_id_def revoked reads
    by (auto split: option.splits sum.splits if_splits)
  show "redis_get E' (refresh_key n t) w' = redis_get E' (refresh_key n t) w" if "plain_id m" "plain_id n" "n \<noteq> m"
    using that assms(2) refresh_key_prefix [OF that(1,2), of t]
    by (simp add: assms(4) logoutAllDevices_def redis_get_set_later delete_sessions_later refresh_key_def starts_with_def)
qed

theorem logoutAll_revokes_witness:
  "authenticate sample_auth sample_env (Some ''t'') None sample_accounts = Inr \<lparr>tp_merchantId = ''m1'', tp_email = ''a'', tp_jti = ''t'', tp_iat = 1\<rparr> \<and>
   authenticate sample_auth (sample_env\<lparr>clock := 9000\<rparr>) (Some ''t'') None (logoutAllDevices sample_env ''m1'' sample_accounts) \<noteq>
     Inr \<lparr>tp_merchantId = ''m1'', tp_email = ''a'', tp_jti = ''t'', tp_iat = 1\<rparr>"
proof -
  have c: "clock sample_env = 1000" by (simp add: sample_env_def)
  show ?thesis
    using logoutAll_revokes [of sample_env "sample_env\<lparr>clock := 9000\<rparr>" _ "''m1''" sample_accounts sample_auth
        "Some ''t''" None "\<lparr>tp_merchantId = ''m1'', tp_email = ''a'', tp_jti = ''t'', tp_iat = 1\<rparr>"]
    by (auto simp: c WEEK_SECONDS_def) code_simp
qed

section \<open>Codes\<close>

lemma merchants_issue: "merchants (snd (issue_tokens A E m email w)) = merchants w"
  by (simp add: issue_tokens_def generateToken_def storeRefreshToken_def draw_def Let_def)

lemma verifyEmail_ok:
  assumes "given (redis_get E (''otp:'' @ email) w) = Some h" "bcrypt_compare A code h"
    "merchant_by_email email w = Some m" "\<not> merchant_isVerified m"
  shows "\<exists>res w'. verifyEmail A E email code w = (Inr (res, merchant_view_of (m\<lparr>merchant_isVerified := True\<rparr>)), w') \<and>
    merchants w' = update_where (\<lambda>m. merchant_email m = email) (\<lambda>m. m\<lparr>merchant_isVerified := True\<rparr>) (merchants w)"
proof -
  obtain res w' where i: "issue_tokens A E (merchant_id m) (Some (merchant_email m))
      (redis_del (''otp:'' @ email) (put_merchants (update_where (\<lambda>m. merchant_email m = email)
        (\<lambda>m. m\<lparr>merchant_isVerified := True\<rparr>) (merchants w)) (clearOTPAttempts email w))) = (res, w')"
    by (meson surj_pair)
  then show ?thesis
    using assms merchants_issue [of A E "merchant_id m" "Some (merchant_email m)"]
    unfolding verifyEmail_def check_code_def assms(1)
    by (auto simp: merchant_by_email_def clearOTPAttempts_def update_in_def put_merchants_def
        dest: arg_cong [of _ _ "\<lambda>x. merchants (snd x)"])
qed

text \<open>The limit on attempts holds back wrong codes only.  When five attempts are counted a wrong code is
  answered 429 and counts no further, and the right code is accepted all the same: the limit is looked at after
  the comparison, so it does not stop the guessing of a code.\<close>

theorem otp_lockout:
  assumes "redis_get E (''otp:'' @ email) w = Some h" "h \<noteq> []" "checkOTPAttempts E email w \<noteq> None"
    and "merchant_by_email email w = Some m" "\<not> merchant_isVerified m"
  shows "(\<not> bcrypt_compare A code h \<longrightarrow> verifyEmailHandler A E email code w = (Inr (plain (Refuse 429 too_many_attempts)), w)) \<and>
    (bcrypt_compare A code h \<longrightarrow>
       (\<exists>res v w'. verifyEmail A E email code w = (Inr (res, v), w') \<and> mv_id v = merchant_id m \<and> mv_isVerified v))"
proof (intro conjI impI)
  have g: "given (redis_get E (''otp:'' @ email) w) = Some h" using assms(1,2) by (simp add: given_def)
  have locked: "checkOTPAttempts E email w = Some (Error too_many_attempts)"
    using assms(3) by (auto simp: checkOTPAttempts_def split: option.splits if_splits)
  show "verifyEmailHandler A E email code w = (Inr (plain (Refuse 429 too_many_attempts)), w)"
    if "\<not> bcrypt_compare A code h"
    using that unfolding verifyEmailHandler_def verifyEmail_def check_code_def g
    by (simp add: locked refuse_with_def verify_errors_def) (simp add: too_many_attempts_def)
  show "\<exists>res v w'. verifyEmail A E email code w = (Inr (res, v), w') \<and> mv_id v = merchant_id m \<and> mv_isVerified v"
    if "bcrypt_compare A code h"
    using verifyEmail_ok [OF g that assms(4,5)] by (auto simp: merchant_view_of_def)
qed

definition sample_pending :: world where
  "sample_pending = sample_world\<lparr>merchants := [sample_account\<lparr>merchant_isVerified := False\<rparr>],
     redis := [\<lparr>redis_key = ''otp:a'', redis_value = ''h100000'', redis_expiresAt = None\<rparr>,
               \<lparr>redis_key = ''otp-attempts:a'', redis_value = ''5'', redis_expiresAt = None\<rparr>]\<rparr>"

theorem otp_lockout_witness:
  "verifyEmailHandler sample_auth sample_env ''a'' ''123456'' sample_pending =
     (Inr (plain (Refuse 429 too_many_attempts)), sample_pending) \<and>
   (\<exists>res v w'. verifyEmail sample_auth sample_env ''a'' ''100000'' sample_pending = (Inr (res, v), w') \<and> mv_isVerified v)"
proof -
  have *: "redis_get sample_env (''otp:'' @ ''a'') sample_pending = Some ''h100000''"
    "checkOTPAttempts sample_env ''a'' sample_pending \<noteq> None"
    "merchant_by_email ''a'' sample_pending = Some (sample_account\<lparr>merchant_isVerified := False\<rparr>)"
    "\<not> bcrypt_compare sample_auth ''123456'' ''h100000''" "bcrypt_compare sample_auth ''100000'' ''h100000''"
    by code_simp+
  show ?thesis
    using otp_lockout [OF *(1) _ *(2,3), of sample_auth "''123456''"] otp_lockout [OF *(1) _ *(2,3), of sample_auth "''100000''"] *(4,5)
    by auto
qed

text \<open>C23. A new account can sign in: the address and password of a registration, with the code that was mailed and
  given back within ten minutes, open the account; before that the sign-in is refused.\<close>

theorem signup_then_login:
  assumes hash: "\<And>n p. bcrypt_compare A p (bcrypt_hash A n p)" "\<And>n p. bcrypt_hash A n p \<noteq> []"
    and new: "merchant_by_email email w = None"
    and reg: "registerMerchant A E email pw shopName w = (r, w1)"
  shows "\<exists>m code. r = Inr m \<and>
    last (emailJobs w1) =
      (''send-verification'', JObj [(''to'', JStr email), (''shopName'', JStr shopName), (''code'', JStr code)]) \<and>
    loginMerchant A E email pw w1 = (Inl (Error ''Email address not yet registered''), w1) \<and>
    (\<forall>t < clock E + 600000. \<exists>res v w2. verifyEmail A (E\<lparr>clock := t\<rparr>) email code w1 = (Inr (res, v), w2) \<and>
       (\<forall>t'. \<exists>res' b w3. loginMerchant A (E\<lparr>clock := t'\<rparr>) email pw w2 = (Inr (res', b), w3) \<and> mb_id b = merchant_id m))"
proof -
  let ?n = "nextId w"
  let ?m = "\<lparr>merchant_id = cuid E (Suc ?n), merchant_email = email, merchant_passwordHash = bcrypt_hash A ?n pw,
      merchant_name = shopName, merchant_shopName = shopName, merchant_googleId = None, merchant_isVerified = False\<rparr>"
  let ?code = "generateOTP A (Suc (Suc ?n))" and ?h = "bcrypt_hash A (Suc (Suc (Suc ?n))) (generateOTP A (Suc (Suc ?n)))"
  have none: "\<forall>x \<in> set (merchants w). merchant_email x \<noteq> email" using new by (simp add: merchant_by_email_def find_first_None)
  then have r: "r = Inr ?m" and w1: "w1 = put_code A E ''otp:'' ''send-verification'' email shopName
      (w\<lparr>merchants := merchants w @ [?m], nextId := Suc (Suc ?n)\<rparr>)"
    using reg by (auto simp: registerMerchant_def new draw_def create_merchant_def list_ex_iff Let_def)
  have ms: "merchants w1 = merchants w @ [?m]" and job: "last (emailJobs w1) =
      (''send-verification'', JObj [(''to'', JStr email), (''shopName'', JStr shopName), (''code'', JStr ?code)])"
    by (simp_all add: w1 put_code_def draw_def Let_def)
  have by_email: "merchant_by_email email w1 = Some ?m"
    using new by (simp add: merchant_by_email_def ms find_first_append find_first_Cons)
  have code: "given (redis_get (E\<lparr>clock := t\<rparr>) (''otp:'' @ email) w1) = Some ?h" if "t < clock E + 600000" for t
    using that hash(2) by (simp add: w1 put_code_def draw_def Let_def redis_get_set_later given_def)
  have verify: "\<exists>res v w2. verifyEmail A (E\<lparr>clock := t\<rparr>) email ?code w1 = (Inr (res, v), w2) \<and>
      merchant_by_email email w2 = Some (?m\<lparr>merchant_isVerified := True\<rparr>)" if "t < clock E + 600000" for t
    using verifyEmail_ok [OF code [OF that] hash(1) by_email] by_email
    by (auto simp: merchant_by_email_def find_first_update_same)
  have refused: "loginMerchant A E email pw w1 = (Inl (Error ''Email address not yet registered''), w1)"
    by (simp add: loginMerchant_def by_email)
  have login: "\<exists>res' b w3. loginMerchant A E' email pw w2 = (Inr (res', b), w3) \<and> mb_id b = merchant_id ?m"
    if "merchant_by_email email w2 = Some (?m\<lparr>merchant_isVerified := True\<rparr>)" for w2 E'
    using that hash(1) by (simp add: loginMerchant_def merchant_brief_of_def split: prod.splits)
  show ?thesis
  proof (rule exI [of _ ?m], rule exI [of _ ?code], intro conjI allI impI)
    fix t assume "t < clock E + 600000"
    then show "\<exists>res v w2. verifyEmail A (E\<lparr>clock := t\<rparr>) email ?code w1 = (Inr (res, v), w2) \<and>
       (\<forall>t'. \<exists>res' b w3. loginMerchant A (E\<lparr>clock := t'\<rparr>) email pw w2 = (Inr (res', b), w3) \<and> mb_id b = merchant_id ?m)"
      using verify login by meson
  qed (rule r job refused)+
qed

lemma sample_otp: "generateOTP sample_auth n = ''100000''"
proof -
  have "int_text 100000 = ''100000''" by (simp add: int_text_def nat_text.simps char_of_def bit_0)
  then show ?thesis by (simp add: generateOTP_def sample_auth_def)
qed

theorem signup_then_login_witness:
  "\<exists>m w1. registerMerchant sample_auth sample_env ''b'' ''secret99'' ''Shop'' sample_accounts = (Inr m, w1) \<and>
     (\<exists>res v w2. verifyEmail sample_auth (sample_env\<lparr>clock := 5000\<rparr>) ''b'' ''100000'' w1 = (Inr (res, v), w2))"
proof -
  obtain r w1 where reg: "registerMerchant sample_auth sample_env ''b'' ''secret99'' ''Shop'' sample_accounts = (r, w1)"
    by fastforce
  have job: "last (emailJobs (snd (registerMerchant sample_auth sample_env ''b'' ''secret99'' ''Shop'' sample_accounts))) =
      (''send-verification'', JObj [(''to'', JStr ''b''), (''shopName'', JStr ''Shop''), (''code'', JStr ''100000'')])"
    by (simp add: registerMerchant_def merchant_by_email_def sample_accounts_def sample_account_def find_first_def
        draw_def create_merchant_def put_code_def sample_otp Let_def)
  have new: "merchant_by_email ''b'' sample_accounts = None" by code_simp
  have hash: "bcrypt_compare sample_auth p (bcrypt_hash sample_auth n p)" "bcrypt_hash sample_auth n p \<noteq> []" for n p
    by (simp_all add: sample_auth_def)
  obtain m code where *: "r = Inr m"
    "last (emailJobs w1) = (''send-verification'', JObj [(''to'', JStr ''b''), (''shopName'', JStr ''Shop''), (''code'', JStr code)])"
    "\<forall>t < clock sample_env + 600000. \<exists>res v w2. verifyEmail sample_auth (sample_env\<lparr>clock := t\<rparr>) ''b'' code w1 = (Inr (res, v), w2)"
    using signup_then_login [OF hash new reg] by blast
  moreover have "5000 < clock sample_env + 600000" by (simp add: sample_env_def)
  ultimately show ?thesis using job reg by auto
qed

end
