(* ===== verification/Auth_Reach.thy ===== *)
theory Auth_Reach
  imports Auth_Sessions
begin

text \<open>
  The accounts component as a transition system: one step is one request, at any time and with any input.
  The invariant of its reachable states is that a stored session has an owner.
\<close>

section \<open>Steps\<close>

inductive auth_step :: "auth_env \<Rightarrow> env \<Rightarrow> world \<Rightarrow> world \<Rightarrow> bool" for A E where
  step_signup: "auth_step A E w (snd (signup A (E\<lparr>clock := t\<rparr>) email password shopName w))"
| step_verify: "auth_step A E w (snd (verifyEmailHandler A (E\<lparr>clock := t\<rparr>) email code w))"
| step_login: "auth_step A E w (snd (login A (E\<lparr>clock := t\<rparr>) email password w))"
| step_refresh: "auth_step A E w (snd (refresh A (E\<lparr>clock := t\<rparr>) merchantId cookieToken w))"
| step_logout: "auth_step A E w (snd (logout A (E\<lparr>clock := t\<rparr>) p cookieToken w))"
| step_logoutAll: "auth_step A E w (snd (logoutAll A (E\<lparr>clock := t\<rparr>) p w))"
| step_forget: "auth_step A E w (snd (forgetPasswordHandler A (E\<lparr>clock := t\<rparr>) email w))"
| step_reset: "auth_step A E w (snd (resetPasswordHandler A (E\<lparr>clock := t\<rparr>) email code newPassword w))"
| step_google: "auth_step A E w (snd (googleCallback A (E\<lparr>clock := t\<rparr>) profile w))"

inductive auth_reachable :: "auth_env \<Rightarrow> env \<Rightarrow> world \<Rightarrow> world \<Rightarrow> bool" for A E w0 where
  reach_init: "auth_reachable A E w0 w0"
| reach_step: "auth_reachable A E w0 w \<Longrightarrow> auth_step A E w w' \<Longrightarrow> auth_reachable A E w0 w'"

section \<open>Owners of sessions\<close>

definition may_own :: "merchant_row \<Rightarrow> bool" where
  "may_own r \<longleftrightarrow> merchant_isVerified r \<or> merchant_googleId r \<noteq> None"

definition owned :: "world \<Rightarrow> string \<Rightarrow> bool" where
  "owned w k \<longleftrightarrow> (\<exists>r \<in> set (merchants w). may_own r \<and> (\<exists>t. k = refresh_key (merchant_id r) t))"

definition session_keys :: "world \<Rightarrow> string set" where
  "session_keys w = {k \<in> redis_key ` set (redis w). starts_with ''refresh:'' k}"

definition sessions_owned :: "world \<Rightarrow> bool" where
  "sessions_owned w \<longleftrightarrow> session_keys w \<subseteq> {k. owned w k}"

text \<open>What a step does: it takes no owner away, and a new session has one.\<close>

definition keeps_owners :: "world \<Rightarrow> world \<Rightarrow> bool" where
  "keeps_owners w w' \<longleftrightarrow> {k. owned w k} \<subseteq> {k. owned w' k} \<and> session_keys w' \<subseteq> session_keys w \<union> {k. owned w' k}"

named_theorems keep_rules

lemma keeps_refl [keep_rules]: "keeps_owners w w"
  by (simp add: keeps_owners_def)

lemma keeps_trans: "keeps_owners w w1 \<Longrightarrow> keeps_owners w1 w2 \<Longrightarrow> keeps_owners w w2"
  unfolding keeps_owners_def by blast

lemma keeps_owned: "keeps_owners w w' \<Longrightarrow> sessions_owned w \<Longrightarrow> sessions_owned w'"
  unfolding keeps_owners_def sessions_owned_def by blast

lemma owned_key: "r \<in> set (merchants w) \<Longrightarrow> may_own r \<Longrightarrow> owned w (refresh_key (merchant_id r) t)"
  unfolding owned_def by blast

lemma owned_cong: "merchants w' = merchants w \<Longrightarrow> owned w' k = owned w k"
  by (simp add: owned_def)

lemma keeps_redis:
  assumes "merchants w' = merchants w"
    "\<And>e. e \<in> set (redis w') \<Longrightarrow> starts_with ''refresh:'' (redis_key e) \<Longrightarrow> redis_key e \<in> redis_key ` set (redis w) \<or> owned w (redis_key e)"
  shows "keeps_owners w w'"
proof -
  have "session_keys w' \<subseteq> session_keys w \<union> {k. owned w k}"
    unfolding session_keys_def using assms(2) by blast
  then show ?thesis unfolding keeps_owners_def using owned_cong [OF assms(1)] by blast
qed

lemma keeps_del [keep_rules]: "keeps_owners w (redis_del k w)" "keeps_owners w (redis_del_all ks w)"
  by (rule keeps_redis; auto simp: redis_del_def redis_del_all_def)+

lemma keeps_put: "\<not> starts_with ''refresh:'' (redis_key e) \<or> owned w (redis_key e) \<Longrightarrow> keeps_owners w (redis_put e w)"
  by (rule keeps_redis) (auto simp: redis_put_def)

lemma keeps_frame [keep_rules]: "keeps_owners w (w\<lparr>nextId := n\<rparr>)" "keeps_owners w (w\<lparr>emailJobs := js\<rparr>)"
  by (rule keeps_redis; simp)+

lemma keeps_accounts:
  assumes "\<And>r. merchant_id (f r) = merchant_id r" "\<And>r. may_own r \<Longrightarrow> may_own (f r)"
  shows "keeps_owners w (w\<lparr>merchants := update_where P f (merchants w)\<rparr>)"
proof -
  let ?w = "w\<lparr>merchants := update_where P f (merchants w)\<rparr>"
  have "owned ?w (refresh_key (merchant_id r) t)" if "r \<in> set (merchants w)" "may_own r" for r t
  proof -
    let ?r = "if P r then f r else r"
    have "?r \<in> set (merchants ?w)" using that(1) by (simp add: update_where_def)
    moreover have "may_own ?r" "merchant_id ?r = merchant_id r" using assms that(2) by simp_all
    ultimately show ?thesis by (metis owned_key)
  qed
  then have "{k. owned w k} \<subseteq> {k. owned ?w k}" unfolding owned_def by blast
  then show ?thesis by (simp add: keeps_owners_def session_keys_def)
qed

lemma keeps_update:
  assumes "update_merchant P f w = Inr (r, w')"
    "\<And>r. merchant_id (f r) = merchant_id r" "\<And>r. may_own r \<Longrightarrow> may_own (f r)"
  shows "keeps_owners w w'"
  using update_merchant_Inr [OF assms(1)] keeps_accounts [of f, OF assms(2,3)] by auto

lemma keeps_create: "create_merchant E email h nm g v w = Inr (r, w') \<Longrightarrow> keeps_owners w w' \<and> r \<in> set (merchants w')"
  by (auto simp: create_merchant_def keeps_owners_def session_keys_def owned_def Let_def split: if_splits)

lemma keeps_issue:
  assumes "issue_tokens A E m email w = (res, w')" "r \<in> set (merchants w)" "may_own r" "merchant_id r = m"
  shows "keeps_owners w w'"
proof -
  have "keeps_owners (w\<lparr>nextId := n\<rparr>) (redis_set E (refresh_key m t) v ttl (w\<lparr>nextId := n\<rparr>))" for n t v ttl
    using owned_key [of r "w\<lparr>nextId := n\<rparr>" t] assms(2-4) by (simp add: redis_set_def keeps_put)
  then have "keeps_owners w (redis_set E (refresh_key m t) v ttl (w\<lparr>nextId := n\<rparr>))" for n t v ttl
    by (rule keeps_trans [OF keeps_frame(1)])
  then show ?thesis
    using assms(1) by (auto simp: issue_tokens_def generateToken_def storeRefreshToken_def draw_def Let_def)
qed

lemma keeps_code [keep_rules]: "keeps_owners w (put_code A E ''otp:'' job email shop w)"
  "keeps_owners w (put_code A E ''reset-otp:'' job email shop w)"
  by (rule keeps_redis;
      auto simp: put_code_def draw_def redis_set_def redis_put_def starts_with_def Let_def)+

lemma attempts_no_session [simp]: "\<not> starts_with ''refresh:'' (attempts_key email)"
  by (simp add: starts_with_def attempts_key_def)

lemma keeps_incr: "redis_incr E (attempts_key email) w = Inr w' \<Longrightarrow> keeps_owners w w'"
  by (auto simp: redis_incr_def dest: redis_entry_of_SomeD intro!: keeps_put split: option.splits if_splits)

lemma keeps_expire: "keeps_owners w (redis_expire E (attempts_key email) n w)"
  by (auto simp: redis_expire_def keep_rules dest: redis_entry_of_SomeD intro!: keeps_put split: option.splits)

lemma keeps_count: "keeps_owners w (snd (count_attempt E email msg w))"
  by (auto simp: count_attempt_def incrementOTPAttempts_def keep_rules split: sum.splits
      intro: keeps_trans [OF keeps_incr keeps_expire])

lemma keeps_check: "check_code A E pre m1 m2 email code w = (r, w') \<Longrightarrow> keeps_owners w w'"
  using keeps_count [of w E email m1] keeps_count [of w E email m2]
  by (auto simp: check_code_def clearOTPAttempts_def map_prod_def keep_rules split: option.splits if_splits prod.splits)

lemma keeps_cookies: "keeps_owners w (snd (with_cookies A body (res, w)))"
  by (simp add: with_cookies_def setAuthCookies_def draw_def keep_rules)

section \<open>Every request keeps owners\<close>

lemma by_email_SomeD: "merchant_by_email email w = Some m \<Longrightarrow> m \<in> set (merchants w) \<and> merchant_email m = email"
  by (auto simp: merchant_by_email_def dest: find_first_SomeD)

lemma by_id_SomeD: "merchant_by_id i w = Some m \<Longrightarrow> m \<in> set (merchants w) \<and> merchant_id m = i"
  by (auto simp: merchant_by_id_def dest: find_first_SomeD)

lemma updated_in: "update_merchant P f w = Inr (r, w') \<Longrightarrow> r \<in> set (merchants w')"
  using update_merchant_Inr [of P f w r w'] by (auto simp: update_where_def dest!: find_first_SomeD)

lemma keeps_register: "keeps_owners w (snd (registerMerchant A E email pw shop w))"
proof -
  let ?f = "\<lambda>h m. m\<lparr>merchant_passwordHash := h, merchant_name := shop, merchant_shopName := shop\<rparr>"
  have upd: "keeps_owners w1 w2" if "update_merchant P (?f h) w1 = Inr (r, w2)" for P h w1 w2 r
    using that by (rule keeps_update) (simp_all add: may_own_def)
  have "keeps_owners w (put_code A E ''otp:'' ''send-verification'' email shop w2)"
    if "keeps_owners (w\<lparr>nextId := Suc (nextId w)\<rparr>) w2" for w2
    using that keeps_trans keep_rules by meson
  then show ?thesis
    using upd keeps_create
    by (fastforce simp: registerMerchant_def draw_def keep_rules Let_def split: option.splits sum.splits)
qed

lemma keeps_verify: "keeps_owners w (snd (verifyEmail A E email code w))"
proof -
  let ?chk = "check_code A E ''otp:'' ''Verification code expired or invalid'' ''Invalid verification code'' email code w"
  obtain c w1 where chk: "?chk = (c, w1)" by (meson surj_pair)
  have k1: "keeps_owners w w1" using keeps_check chk .
  have "keeps_owners w1 w3"
    if u: "update_merchant (\<lambda>m. merchant_email m = email) (\<lambda>m. m\<lparr>merchant_isVerified := True\<rparr>) w1 = Inr (r, w2)"
      and i: "issue_tokens A E (merchant_id r) (Some (merchant_email r)) (redis_del (''otp:'' @ email) w2) = (res, w3)" for r w2 res w3
  proof -
    have "keeps_owners w1 w2" using u by (rule keeps_update) (simp_all add: may_own_def)
    moreover have "r \<in> set (merchants (redis_del (''otp:'' @ email) w2))" "may_own r"
      using updated_in [OF u] update_merchant_Inr [OF u] by (auto simp: may_own_def)
    then have "keeps_owners (redis_del (''otp:'' @ email) w2) w3" using keeps_issue [OF i] by blast
    ultimately show ?thesis using keeps_trans keeps_del(1) by meson
  qed
  with k1 keeps_trans [OF k1] show ?thesis
    unfolding verifyEmail_def chk by (auto split: option.splits sum.splits prod.splits)
qed

lemma keeps_login: "keeps_owners w (snd (loginMerchant A E email pw w))"
  by (auto simp: loginMerchant_def keep_rules may_own_def dest!: by_email_SomeD intro: keeps_issue
      split: option.splits prod.splits)

lemma keeps_refresh: "keeps_owners w (snd (refreshToken A E m t w))"
proof -
  have "keeps_owners w w'"
    if "issue_tokens A E m email (redis_del k w) = (res, w')" "merchant_by_id m w = Some r" "merchant_isVerified r" for email k res w' r
  proof -
    have "r \<in> set (merchants (redis_del k w))" "merchant_id r = m" "may_own r"
      using by_id_SomeD [OF that(2)] that(3) by (simp_all add: may_own_def)
    then show ?thesis using keeps_trans [OF keeps_del(1) keeps_issue [OF that(1)]] by blast
  qed
  then show ?thesis
    by (auto simp: refreshToken_def keep_rules Let_def split: option.splits prod.splits)
qed

lemma keeps_reset: "keeps_owners w (snd (resetPassword A E email code np w))"
proof -
  let ?chk = "check_code A E ''reset-otp:'' ''Reset code expired or invalid'' ''Invalid reset code'' email code w"
  obtain c w1 where chk: "?chk = (c, w1)" by (meson surj_pair)
  have k1: "keeps_owners w w1" using keeps_check chk .
  have upd: "keeps_owners w1 w3"
    if "update_merchant P (\<lambda>m. m\<lparr>merchant_passwordHash := h\<rparr>) (w1\<lparr>nextId := n\<rparr>) = Inr (r, w3)" for P h n r w3
  proof -
    have "keeps_owners (w1\<lparr>nextId := n\<rparr>) w3" using that by (rule keeps_update) (simp_all add: may_own_def)
    then show ?thesis by (rule keeps_trans [OF keeps_frame(1)])
  qed
  have "keeps_owners w3 (delete_sessions E i (redis_del k w3))" for w3 i k
    unfolding delete_sessions_def by (rule keeps_trans [OF keeps_del(1) keeps_del(2)])
  then have "keeps_owners w1 (delete_sessions E i (redis_del k w3))" "keeps_owners w1 (redis_del k w3)"
    if "keeps_owners w1 w3" for w3 i k
    using that keeps_trans keeps_del(1) by meson+
  with upd k1 keeps_trans [OF k1] show ?thesis
    unfolding resetPassword_def chk
    by (auto simp: draw_def keep_rules Let_def split: option.splits sum.splits)
qed

lemma keeps_link:
  assumes "link_google p m w = Inr (r, w')" "m \<in> set (merchants w)"
  shows "keeps_owners w w' \<and> r \<in> set (merchants w') \<and> may_own r"
proof (cases "given (merchant_googleId m)")
  case None
  then have u: "update_merchant (\<lambda>r. merchant_id r = merchant_id m) (\<lambda>r. r\<lparr>merchant_googleId := Some (gp_id p)\<rparr>) w = Inr (r, w')"
    using assms(1) by (simp add: link_google_def)
  have "keeps_owners w w'" using u by (rule keeps_update) (simp_all add: may_own_def)
  moreover have "may_own r" using update_merchant_Inr [OF u] by (auto simp: may_own_def)
  ultimately show ?thesis using updated_in [OF u] by blast
next
  case (Some g)
  then have "may_own m" by (auto simp: may_own_def given_def split: option.splits)
  with Some assms show ?thesis by (simp add: link_google_def keep_rules)
qed

lemma keeps_google:
  assumes "googleStrategy E p w = Inr ((m, b), w')"
  shows "keeps_owners w w' \<and> m \<in> set (merchants w') \<and> may_own m"
proof -
  obtain email where e: "given (gp_email p) = Some email"
    using assms by (auto simp: googleStrategy_def split: option.splits)
  show ?thesis
  proof (cases "find_first (\<lambda>m. merchant_googleId m = Some (gp_id p) \<or> merchant_email m = email) (merchants w)")
    case None
    then obtain nm where c: "create_merchant E email [] nm (Some (gp_id p)) True w = Inr (m, w')"
      using assms by (auto simp: googleStrategy_def e map_sum_def Let_def split: sum.splits)
    then have "may_own m" by (auto simp: create_merchant_def may_own_def Let_def split: if_splits)
    with keeps_create [OF c] show ?thesis by blast
  next
    case (Some q)
    then have "link_google p q w = Inr (m, w')"
      using assms by (auto simp: googleStrategy_def e map_sum_def Let_def split: sum.splits)
    then show ?thesis using keeps_link find_first_SomeD [OF Some] by blast
  qed
qed

lemma keeps_google_callback: "keeps_owners w (snd (googleCallback A E p w))"
proof (cases "googleStrategy E p w")
  case (Inr x)
  then obtain m b w1 where g: "googleStrategy E p w = Inr ((m, b), w1)" by (metis surj_pair)
  obtain res w2 where i: "issue_tokens A E (merchant_id m) (Some (merchant_email m)) w1 = (res, w2)" by fastforce
  have "keeps_owners w w2" using keeps_google [OF g] keeps_issue [OF i] keeps_trans by blast
  then have "keeps_owners w (w2\<lparr>nextId := n\<rparr>)" for n using keeps_trans keeps_frame(1) by blast
  then show ?thesis by (simp add: googleCallback_def g googleAuth_def i setAuthCookies_def draw_def)
qed (simp add: googleCallback_def keep_rules)

lemma keeps_logout: "keeps_owners w (logoutMerchant E m t j w)"
  unfolding logoutMerchant_def redis_set_def
  by (rule keeps_trans [OF keeps_del(1) keeps_put]) (simp add: starts_with_def)

lemma keeps_logoutAll: "keeps_owners w (logoutAllDevices E m w)"
  unfolding logoutAllDevices_def delete_sessions_def redis_set_def
  by (rule keeps_trans [OF keeps_del(2) keeps_put]) (simp add: starts_with_def)

lemma step_keeps_owners: "auth_step A E w w' \<Longrightarrow> keeps_owners w w'"
proof (induction rule: auth_step.induct)
  case (step_signup w t email password shopName)
  then show ?case using keeps_register [of w A "E\<lparr>clock := t\<rparr>" email password shopName]
    by (auto simp: signup_def split: prod.splits sum.splits)
next
  case (step_verify w t email code)
  then show ?case using keeps_verify [of w A "E\<lparr>clock := t\<rparr>" email code]
    by (auto simp: verifyEmailHandler_def split: prod.splits sum.splits intro: keeps_trans keeps_cookies)
next
  case (step_login w t email password)
  then show ?case using keeps_login [of w A "E\<lparr>clock := t\<rparr>" email password]
    by (auto simp: login_def split: prod.splits sum.splits intro: keeps_trans keeps_cookies)
next
  case (step_refresh w t merchantId cookieToken)
  then show ?case using keeps_refresh [of w A "E\<lparr>clock := t\<rparr>" merchantId "the (given cookieToken)"]
    by (auto simp: refresh_def keep_rules split: option.splits prod.splits sum.splits intro: keeps_trans keeps_cookies)
next
  case (step_logout w t p cookieToken)
  then show ?case by (auto simp: logout_def keep_rules keeps_logout split: option.splits)
next
  case (step_logoutAll w t p)
  then show ?case by (simp add: logoutAll_def keeps_logoutAll)
next
  case (step_forget w t email)
  then show ?case
    by (auto simp: forgetPasswordHandler_def forgetPassword_def keep_rules split: option.splits prod.splits sum.splits if_splits)
next
  case (step_reset w t email code newPassword)
  then show ?case using keeps_reset [of w A "E\<lparr>clock := t\<rparr>" email code newPassword]
    by (auto simp: resetPasswordHandler_def split: prod.splits sum.splits)
next
  case (step_google w t profile)
  then show ?case by (rule keeps_google_callback)
qed

text \<open>C21. Whatever requests arrive, in whatever order and at whatever times, a refresh token in the store belongs to
  an account in the database whose address was verified or which is linked to a Google account.\<close>

theorem sessions_have_owner:
  assumes "auth_reachable A E w0 w" "redis w0 = []" "e \<in> set (redis w)" "starts_with ''refresh:'' (redis_key e)"
  shows "\<exists>r \<in> set (merchants w). (merchant_isVerified r \<or> merchant_googleId r \<noteq> None) \<and>
    (\<exists>t. redis_key e = refresh_key (merchant_id r) t)"
proof -
  have "sessions_owned w"
    using assms(1)
  proof (induction rule: auth_reachable.induct)
    case reach_init
    then show ?case by (simp add: sessions_owned_def session_keys_def assms(2))
  next
    case (reach_step w w')
    then show ?case using keeps_owned step_keeps_owners by blast
  qed
  then show ?thesis using assms(3,4) by (auto simp: sessions_owned_def session_keys_def owned_def may_own_def)
qed

theorem sessions_have_owner_witness:
  "\<exists>w e. auth_reachable sample_auth sample_env sample_accounts w \<and> e \<in> set (redis w) \<and>
     starts_with ''refresh:'' (redis_key e) \<and> (\<exists>r \<in> set (merchants w). merchant_isVerified r \<or> merchant_googleId r \<noteq> None)"
proof -
  let ?w = "snd (login sample_auth (sample_env\<lparr>clock := 1000\<rparr>) ''a'' ''pw'' sample_accounts)"
  have reach: "auth_reachable sample_auth sample_env sample_accounts ?w"
    by (intro reach_step [OF reach_init] step_login)
  have "map redis_key (redis ?w) = [''refresh:m1:u0'']" by code_simp
  then obtain e where e: "e \<in> set (redis ?w)" "redis_key e = ''refresh:m1:u0''" by (cases "redis ?w") auto
  then have "starts_with ''refresh:'' (redis_key e)" by (simp add: starts_with_def)
  moreover have "redis sample_accounts = []" by (simp add: sample_accounts_def)
  ultimately show ?thesis using sessions_have_owner [OF reach _ e(1)] reach e(1) by blast
qed

end
