(* ===== verification/Shopify_Connection.thy ===== *)
theory Shopify_Connection
  imports Order_Notify Delivery_Providers Auth
begin

text \<open>
  \<open>back/src/lib/crypto.ts\<close>, \<open>back/src/connections/ShopifyConnection.ts\<close> and
  \<open>back/src/connections/StoreConnectionFactory.ts\<close>: the encrypted tokens of a store, the requests to its
  Shopify administration interface, and the rows its products and orders become.  The state is that of the
  database with the log of the requests.
\<close>

section \<open>Parameters\<close>

text \<open>
  What Shopify answers to the \<open>n\<close>-th request, with the \<open>link\<close> header; the \<open>n\<close>-th sixteen random bytes; the
  cipher AES-256-CBC with the key that \<open>scrypt\<close> derives from a passphrase; and the base64 digest.
\<close>

record shop_response = http_response +
  rs_link :: "string option"

record shop_env =
  shop_http :: "nat \<Rightarrow> http_request \<Rightarrow> http_error + shop_response"
  random_bytes :: "nat \<Rightarrow> string"
  aes_encrypt :: "string \<Rightarrow> string \<Rightarrow> string \<Rightarrow> string"
  aes_decrypt :: "string \<Rightarrow> string \<Rightarrow> string \<Rightarrow> string option"
  hmac_base64 :: "string \<Rightarrow> string \<Rightarrow> string"
  cfg_shopifyKey :: string
  cfg_shopifySecret :: string
  cfg_shopifyScopes :: string
  cfg_appUrl :: string

type_synonym shop_state = "world \<times> http_log"

definition TypeError :: exn where "TypeError = Error ''TypeError''"

definition shop_send :: "shop_env \<Rightarrow> http_request \<Rightarrow> shop_state \<Rightarrow> (exn + shop_response) \<times> shop_state" where
  "shop_send S rq s =
     ((case shop_http S (length (snd s)) rq of Inl e \<Rightarrow> Inl (Error (he_message e)) | Inr r \<Rightarrow> Inr r), (fst s, snd s @ [rq]))"

section \<open>Encrypted tokens\<close>

text \<open>\<open>toString('hex')\<close>, and \<open>Buffer.from(s, 'hex')\<close>, which stops at the first pair that is not hexadecimal.\<close>

definition hex_text :: "string \<Rightarrow> string" where
  "hex_text bytes = concat (map (\<lambda>c. [hex_char ((of_char c :: nat) div 16), hex_char ((of_char c :: nat) mod 16)]) bytes)"

fun unhex :: "string \<Rightarrow> string" where
  "unhex (a # b # s) =
     (case (hex_val a, hex_val b) of (Some x, Some y) \<Rightarrow> char_of (16 * x + y) # unhex s | _ \<Rightarrow> [])"
| "unhex _ = []"

definition ENCRYPTION_KEY :: string where "ENCRYPTION_KEY = ''temp_test_key_123''"

definition encryptToken :: "shop_env \<Rightarrow> string \<Rightarrow> world \<Rightarrow> string \<times> world" where
  "encryptToken S token w =
     (let (n, w1) = draw w; iv = random_bytes S n
      in (hex_text iv @ '':'' @ hex_text (aes_encrypt S ENCRYPTION_KEY iv token), w1))"

definition decryptToken :: "shop_env \<Rightarrow> string \<Rightarrow> exn + string" where
  "decryptToken S encryptedToken =
     (case split_on (CHR '':'') encryptedToken of
        ivHex # encryptedHex # _ \<Rightarrow>
          (let iv = unhex ivHex in
           if length iv \<noteq> 16 then Inl (Error ''Invalid initialization vector'')
           else (case aes_decrypt S ENCRYPTION_KEY iv (unhex encryptedHex) of
                   None \<Rightarrow> Inl (Error ''bad decrypt'')
                 | Some t \<Rightarrow> Inr t))
      | _ \<Rightarrow> Inl TypeError)"

text \<open>Only a text can be encrypted; anything else throws.\<close>

definition encrypt_value :: "shop_env \<Rightarrow> jval option \<Rightarrow> world \<Rightarrow> exn + string \<times> world" where
  "encrypt_value S v w = (case v of Some (JStr t) \<Rightarrow> Inr (encryptToken S t w) | _ \<Rightarrow> Inl TypeError)"

definition encrypt_if :: "shop_env \<Rightarrow> jval option \<Rightarrow> world \<Rightarrow> exn + string option \<times> world" where
  "encrypt_if S v w =
     (if opt_truthy v then map_sum id (map_prod Some id) (encrypt_value S v w) else Inr (None, w))"

section \<open>The connection\<close>

text \<open>The object: the merchant, the row of the connection, and the domain of the shop.\<close>

record shopify_store =
  ss_merchantId :: string
  ss_storeConnectionId :: string
  ss_shopDomain :: string

definition NONCE_TTL :: int where "NONCE_TTL = 600"

definition API_VERSION :: string where "API_VERSION = ''2025-07''"

definition nonce_key :: "string \<Rightarrow> string" where "nonce_key nonce = ''shopify-nonce:'' @ nonce"

definition put_nonce :: "shop_env \<Rightarrow> env \<Rightarrow> string \<Rightarrow> string \<Rightarrow> world \<Rightarrow> string \<times> world" where
  "put_nonce S E merchantId shop w =
     (let (n, w1) = draw w; nonce = hex_text (random_bytes S n)
      in (nonce, redis_set E (nonce_key nonce)
                   (stringify_fields [(''merchantId'', merchantId), (''shop'', shop)]) NONCE_TTL w1))"

definition shopify_connect :: "shop_env \<Rightarrow> env \<Rightarrow> shopify_store \<Rightarrow> string \<Rightarrow> world \<Rightarrow> string \<times> world" where
  "shopify_connect S E o' shop w =
     (case put_nonce S E (ss_merchantId o') shop w of
        (nonce, w1) \<Rightarrow>
          (''https://'' @ shop @ ''/admin/oauth/authorize'' @ ''?client_id='' @ cfg_shopifyKey S @
           ''&scope='' @ cfg_shopifyScopes S @ ''&redirect_uri='' @ cfg_appUrl S @ ''/store-connection/shopify/callback'' @
           ''&state='' @ nonce, w1))"

definition shopify_row :: "string \<Rightarrow> world \<Rightarrow> shopify_connection_row option" where
  "shopify_row i w = find_first (\<lambda>x. shopify_storeConnectionId x = i) (shopifyConnections w)"

text \<open>\<open>storeConnection.delete\<close> with the cascade to the Shopify row, and the update of that row.\<close>

definition delete_store :: "string \<Rightarrow> world \<Rightarrow> exn + world" where
  "delete_store i w =
     (if list_ex (\<lambda>x. store_id x = i) (storeConnections w)
      then Inr (w\<lparr>storeConnections := filter (\<lambda>x. store_id x \<noteq> i) (storeConnections w),
                  shopifyConnections := filter (\<lambda>x. shopify_storeConnectionId x \<noteq> i) (shopifyConnections w)\<rparr>)
      else Inl P2025)"

definition update_shopify ::
  "string \<Rightarrow> (shopify_connection_row \<Rightarrow> shopify_connection_row) \<Rightarrow> world \<Rightarrow> exn + world" where
  "update_shopify i f w =
     (if shopify_row i w = None then Inl P2025
      else Inr (w\<lparr>shopifyConnections := update_where (\<lambda>x. shopify_storeConnectionId x = i) f (shopifyConnections w)\<rparr>))"

definition shopify_disconnect :: "shopify_store \<Rightarrow> world \<Rightarrow> exn + world" where
  "shopify_disconnect o' w =
     (case shopify_row (ss_storeConnectionId o') w of
        None \<Rightarrow> Inl (Error ''Shopify connection not found'')
      | Some _ \<Rightarrow> delete_store (ss_storeConnectionId o') w)"

text \<open>\<open>new Date(ms)\<close>: milliseconds are truncated, and a time out of range is an invalid date.\<close>

definition date_of_ms :: "rat \<Rightarrow> int option" where
  "date_of_ms x =
     (if \<bar>x\<bar> \<le> 8640000000000000 then Some (if x < 0 then \<lceil>x\<rceil> else \<lfloor>x\<rfloor>) else None)"

definition seconds_later :: "env \<Rightarrow> jval option \<Rightarrow> int option" where
  "seconds_later E v =
     (case Number_of v of None \<Rightarrow> None | Some x \<Rightarrow> date_of_ms (of_int (clock E) + x * 1000))"

definition refresh_request :: "shop_env \<Rightarrow> shopify_store \<Rightarrow> string \<Rightarrow> http_request" where
  "refresh_request S o' token =
     post_request (''https://'' @ ss_shopDomain o' @ ''/admin/oauth/access_token'') [] []
       (Some (JObj [(''client_id'', JStr (cfg_shopifyKey S)), (''client_secret'', JStr (cfg_shopifySecret S)),
                    (''grant_type'', JStr ''refresh_token''), (''refresh_token'', JStr token)]))"

text \<open>
  The tokens of the answer are stored encrypted; an invalid date is refused by Prisma.  The returned value is
  the new access token.
\<close>

definition store_tokens :: "shop_env \<Rightarrow> env \<Rightarrow> shopify_store \<Rightarrow> jval \<Rightarrow> world \<Rightarrow> exn + string \<times> world" where
  "store_tokens S E o' data w =
     (let access = json_field ''access_token'' data; refresh = json_field ''refresh_token'' data in
      if data = JNull then Inl TypeError
      else
        (case encrypt_value S access w of
           Inl e \<Rightarrow> Inl e
         | Inr (token, w1) \<Rightarrow>
             (case encrypt_if S refresh w1 of
                Inl e \<Rightarrow> Inl e
              | Inr (again, w2) \<Rightarrow>
                  (case seconds_later E (json_field ''expires_in'' data) of
                     None \<Rightarrow> Inl validation_error
                   | Some t \<Rightarrow>
                       map_sum id (Pair (coalesce (json_str ''access_token'' data) []))
                         (update_shopify (ss_storeConnectionId o')
                            (\<lambda>x. x\<lparr>shopify_accessToken := token, shopify_tokenExpiresAt := Some t,
                                   shopify_refreshToken := (case again of None \<Rightarrow> shopify_refreshToken x | Some r \<Rightarrow> Some r)\<rparr>) w2)))))"

definition refreshAccessToken :: "shop_env \<Rightarrow> env \<Rightarrow> shopify_store \<Rightarrow> shop_state \<Rightarrow> (exn + string) \<times> shop_state" where
  "refreshAccessToken S E o' s =
     (case given (case shopify_row (ss_storeConnectionId o') (fst s) of None \<Rightarrow> None | Some x \<Rightarrow> shopify_refreshToken x) of
        None \<Rightarrow> (Inl (Error ''No refresh token available''), s)
      | Some stored \<Rightarrow>
          (case decryptToken S stored of
             Inl e \<Rightarrow> (Inl e, s)
           | Inr token \<Rightarrow>
               (case shop_send S (refresh_request S o' token) s of
                  (Inl e, s1) \<Rightarrow> (Inl e, s1)
                | (Inr r, s1) \<Rightarrow>
                    (case store_tokens S E o' (rs_data r) (fst s1) of
                       Inl e \<Rightarrow> (Inl e, s1)
                     | Inr (access, w2) \<Rightarrow> (Inr access, (w2, snd s1))))))"

definition getValidAccessToken :: "shop_env \<Rightarrow> env \<Rightarrow> shopify_store \<Rightarrow> shop_state \<Rightarrow> (exn + string) \<times> shop_state" where
  "getValidAccessToken S E o' s =
     (case shopify_row (ss_storeConnectionId o') (fst s) of
        None \<Rightarrow> (Inl (Error ''Shopify connection not found''), s)
      | Some x \<Rightarrow>
          (case shopify_tokenExpiresAt x of
             Some t \<Rightarrow> (if t \<le> clock E then refreshAccessToken S E o' s else (decryptToken S (shopify_accessToken x), s))
           | None \<Rightarrow> (decryptToken S (shopify_accessToken x), s)))"

text \<open>A request with a valid token.\<close>

definition admin_url :: "shopify_store \<Rightarrow> string \<Rightarrow> string" where
  "admin_url o' path = ''https://'' @ ss_shopDomain o' @ ''/admin/api/'' @ API_VERSION @ path"

definition token_header :: "string \<Rightarrow> (string \<times> string) list" where
  "token_header token = [(''X-Shopify-Access-Token'', token)]"

definition admin_get :: "shop_env \<Rightarrow> env \<Rightarrow> shopify_store \<Rightarrow> string \<Rightarrow> shop_state \<Rightarrow> (exn + jval) \<times> shop_state" where
  "admin_get S E o' path s =
     (case getValidAccessToken S E o' s of
        (Inl e, s1) \<Rightarrow> (Inl e, s1)
      | (Inr token, s1) \<Rightarrow>
          map_prod (map_sum id rs_data) id (shop_send S (get_request (admin_url o' path) (token_header token) [] []) s1))"

section \<open>Products and orders of a shop\<close>

text \<open>\<open>upsertProducts\<close>: unlike \<open>upsertSingleProduct\<close> it needs the images to be there.\<close>

fun upsertProducts :: "env \<Rightarrow> string \<Rightarrow> jval list \<Rightarrow> world \<Rightarrow> (exn + unit) \<times> world" where
  "upsertProducts E m [] w = (Inr (), w)"
| "upsertProducts E m (p # ps) w =
     (if \<not> (case json_field ''images'' p of None \<Rightarrow> False | Some v \<Rightarrow> images_ok v) then (Inl TypeError, w)
      else (case product_upsert E m p w of
              Inl e \<Rightarrow> (Inl e, w)
            | Inr w1 \<Rightarrow> upsertProducts E m ps w1))"

definition mapFinancialStatus :: "jval option \<Rightarrow> OrderStatus" where
  "mapFinancialStatus status =
     (case status of
        Some (JStr t) \<Rightarrow>
          coalesce (map_of [(''pending'', PENDING), (''authorized'', PENDING), (''paid'', CONFIRMED),
                            (''partially_paid'', PENDING), (''refunded'', CANCELLED), (''voided'', CANCELLED)] t) PENDING
      | _ \<Rightarrow> PENDING)"

text \<open>
  The product of an order: by the product id of the first item, else by its title.  A missing title is no
  condition at all, one of the wrong type is refused.
\<close>

definition product_by_platform_id :: "string \<Rightarrow> string \<Rightarrow> world \<Rightarrow> product_row option" where
  "product_by_platform_id m i w = find_first (same_product m i) (products w)"

definition ordered_product :: "env \<Rightarrow> string \<Rightarrow> jval \<Rightarrow> world \<Rightarrow> exn + product_row option" where
  "ordered_product E m item w =
     (let pid = json_field ''product_id'' item in
      (case (if opt_truthy pid then product_by_platform_id m (id_text E pid) w else None) of
         Some p \<Rightarrow> Inr (Some p)
       | None \<Rightarrow>
           (case json_field ''title'' item of
              None \<Rightarrow> Inr (find_first (\<lambda>p. product_merchantId p = m) (products w))
            | Some (JStr t) \<Rightarrow> Inr (find_first (\<lambda>p. product_merchantId p = m \<and> product_name p = t) (products w))
            | Some _ \<Rightarrow> Inl validation_error)))"

text \<open>The customer of an order: a phone gives or names the customer of that phone, none a new one without phone.\<close>

definition customer_field :: "string \<Rightarrow> jval \<Rightarrow> jval option" where
  "customer_field k ord = nullish_value (field_of k (json_field ''customer'' ord))"

definition shopify_customer_name :: "env \<Rightarrow> jval \<Rightarrow> string" where
  "shopify_customer_name E ord =
     (case json_field ''customer'' ord of
        Some c \<Rightarrow>
          (if truthy c
           then js_trim (id_text E (json_field ''first_name'' c) @ '' '' @ id_text E (json_field ''last_name'' c))
           else ''Unknown'')
      | None \<Rightarrow> ''Unknown'')"

definition shopify_customer :: "env \<Rightarrow> string \<Rightarrow> jval \<Rightarrow> world \<Rightarrow> exn + customer_row \<times> world" where
  "shopify_customer E m ord w =
     (let name = shopify_customer_name E ord; phone = customer_field ''phone'' ord in
      if \<not> opt_truthy phone then create_customer E m [] (Some name) None w
      else (case phone of
              Some (JStr t) \<Rightarrow> upsert_customer E m t (\<lambda>c. c\<lparr>customer_name := Some name\<rparr>) (Some name) None w
            | _ \<Rightarrow> Inl validation_error))"

text \<open>
  The row of an order.  \<open>None\<close>: Prisma refuses the values, among them the commune of an order without a city.
\<close>

definition address_field :: "string \<Rightarrow> jval \<Rightarrow> jval option" where
  "address_field k ord = nullish_value (field_of k (json_field ''shipping_address'' ord))"

definition item_quantity :: "jval \<Rightarrow> int option" where
  "item_quantity item =
     (case json_field ''quantity'' item of
        None \<Rightarrow> Some 1
      | Some (JNum x) \<Rightarrow> (if x = of_int \<lfloor>x\<rfloor> then Some \<lfloor>x\<rfloor> else None)
      | Some _ \<Rightarrow> None)"

definition float_of :: "jval option \<Rightarrow> rat option" where
  "float_of v = (case v of Some (JNum x) \<Rightarrow> Some x | Some (JStr t) \<Rightarrow> parseFloat t | _ \<Rightarrow> None)"

definition shopify_order_input :: "env \<Rightarrow> string \<Rightarrow> jval \<Rightarrow> jval \<Rightarrow> string \<Rightarrow> string \<Rightarrow> order_input option" where
  "shopify_order_input E m ord item customerId productId =
     (case (nullish_text (address_field ''province'' ord), address_field ''city'' ord, nullish_text (address_field ''address1'' ord),
            json_str ''title'' item, item_quantity item, float_of (json_field ''total_price'' ord)) of
        (Some wilaya, Some (JStr commune), Some address, Some title, Some quantity, Some amount) \<Rightarrow>
          Some \<lparr>oi_merchantId = m, oi_customerId = customerId, oi_platformOrderId = id_text E (json_field ''id'' ord),
                oi_wilaya = wilaya, oi_commune = commune, oi_address = Some address, oi_productId = productId,
                oi_productName = title, oi_quantity = quantity, oi_totalAmount = amount, oi_deliveryCost = 0\<rparr>
      | _ \<Rightarrow> None)"

definition create_shopify_order :: "env \<Rightarrow> order_input \<Rightarrow> OrderStatus \<Rightarrow> world \<Rightarrow> exn + order_row \<times> world" where
  "create_shopify_order E d st w =
     (case create_order E d w of
        Inl e \<Rightarrow> Inl e
      | Inr (r, w1) \<Rightarrow> Inr (r\<lparr>order_status := st\<rparr>, w1\<lparr>orders := orders w @ [r\<lparr>order_status := st\<rparr>]\<rparr>))"

definition saved_notice :: "env \<Rightarrow> jval \<Rightarrow> customer_row \<Rightarrow> order_row \<Rightarrow> order_notice" where
  "saved_notice E ord c r =
     \<lparr>no_id = order_id r, no_merchantId = order_merchantId r, no_customerId = customer_id c,
      no_customerName = shopify_customer_name E ord,
      no_customerPhone = (case customer_field ''phone'' ord of Some (JStr t) \<Rightarrow> t | _ \<Rightarrow> []),
      no_productName = order_productName r, no_platformOrderId = order_platformOrderId r,
      no_totalAmount = order_totalAmount r, no_wilaya = order_wilaya r\<rparr>"

text \<open>
  One order.  One that is known gets its status from the payment; a new one needs an item and a product of the
  catalogue, else it is skipped; so is one that a parallel call stored first.
\<close>

definition order_of_platform :: "string \<Rightarrow> string \<Rightarrow> order_row \<Rightarrow> bool" where
  "order_of_platform m i r \<longleftrightarrow> order_merchantId r = m \<and> order_platformOrderId r = i"

definition new_shopify_order :: "env \<Rightarrow> string \<Rightarrow> jval \<Rightarrow> jval \<Rightarrow> product_row \<Rightarrow> world \<Rightarrow> (exn + order_notice option) \<times> world" where
  "new_shopify_order E m ord item p w =
     (case shopify_customer E m ord w of
        Inl e \<Rightarrow> (Inl e, w)
      | Inr (c, w1) \<Rightarrow>
          (case shopify_order_input E m ord item (customer_id c) (product_id p) of
             None \<Rightarrow> (Inl validation_error, w1)
           | Some d \<Rightarrow>
               (case create_shopify_order E d (mapFinancialStatus (json_field ''financial_status'' ord)) w1 of
                  Inl e \<Rightarrow> (if e = P2002 then Inr None else Inl e, w1)
                | Inr (r, w2) \<Rightarrow> (Inr (Some (saved_notice E ord c r)), w2))))"

definition first_item :: "jval option \<Rightarrow> exn + jval option" where
  "first_item items =
     (case items of
        None \<Rightarrow> Inl TypeError
      | Some JNull \<Rightarrow> Inl TypeError
      | Some (JArr (v # _)) \<Rightarrow> Inr (Some v)
      | Some (JStr (c # _)) \<Rightarrow> Inr (Some (JStr [c]))
      | Some _ \<Rightarrow> Inr None)"

definition upsertOrder :: "env \<Rightarrow> string \<Rightarrow> jval \<Rightarrow> world \<Rightarrow> (exn + order_notice option) \<times> world" where
  "upsertOrder E m ord w =
     (let i = id_text E (json_field ''id'' ord) in
      if ord = JNull then (Inl TypeError, w)
      else
        (case find_first (order_of_platform m i) (orders w) of
           Some existing \<Rightarrow>
             (Inr None, w\<lparr>orders := update_where (\<lambda>r. order_id r = order_id existing)
                (\<lambda>r. r\<lparr>order_status := mapFinancialStatus (json_field ''financial_status'' ord)\<rparr>) (orders w)\<rparr>)
         | None \<Rightarrow>
             (case first_item (json_field ''line_items'' ord) of
                Inl e \<Rightarrow> (Inl e, w)
              | Inr item \<Rightarrow>
                  (if \<not> opt_truthy item then (Inr None, w)
                   else
                     (case ordered_product E m (the item) w of
                        Inl e \<Rightarrow> (Inl e, w)
                      | Inr None \<Rightarrow> (Inr None, w)
                      | Inr (Some p) \<Rightarrow> new_shopify_order E m ord (the item) p w)))))"

fun upsertOrders :: "env \<Rightarrow> string \<Rightarrow> jval list \<Rightarrow> world \<Rightarrow> (exn + order_notice list) \<times> world" where
  "upsertOrders E m [] w = (Inr [], w)"
| "upsertOrders E m (ord # ords) w =
     (case upsertOrder E m ord w of
        (Inl e, w1) \<Rightarrow> (Inl e, w1)
      | (Inr saved, w1) \<Rightarrow> map_prod (map_sum id ((@) (case saved of None \<Rightarrow> [] | Some n \<Rightarrow> [n]))) id (upsertOrders E m ords w1))"

section \<open>Paging\<close>

text \<open>The first \<open><url>; rel="next"\<close> of the \<open>link\<close> header.\<close>

fun next_link :: "string \<Rightarrow> string option" where
  "next_link [] = None"
| "next_link (c # s) =
     (let url = takeWhile (\<lambda>d. d \<noteq> CHR ''>'') s; r = drop (length url) s in
      if c = CHR ''<'' \<and> url \<noteq> [] \<and> starts_with ''>;'' r \<and>
         starts_with (''rel='' @ [CHR 0x22] @ ''next'' @ [CHR 0x22]) (js_trim_start (drop 2 r))
      then Some url else next_link s)"

definition extractNextPageUrl :: "string option \<Rightarrow> string option" where
  "extractNextPageUrl linkHeader = (case linkHeader of None \<Rightarrow> None | Some t \<Rightarrow> next_link t)"

text \<open>
  The loops over the pages of a listing.  A shop that always names a next page keeps them going, so not
  returning is \<open>None\<close>.  A page without a list of products is no page; one without orders is empty.
\<close>

definition product_page :: "env \<Rightarrow> string \<Rightarrow> jval \<Rightarrow> world \<Rightarrow> (exn + unit) \<times> world" where
  "product_page E m data w =
     (case json_field ''products'' data of Some (JArr ps) \<Rightarrow> upsertProducts E m ps w | _ \<Rightarrow> (Inl TypeError, w))"

definition order_page :: "env \<Rightarrow> string \<Rightarrow> jval \<Rightarrow> world \<Rightarrow> (exn + unit) \<times> world" where
  "order_page E m data w =
     (if data = JNull then (Inl TypeError, w)
      else (case js_or (json_field ''orders'' data) (Some (JArr [])) of
              Some (JArr os) \<Rightarrow> map_prod (map_sum id (\<lambda>_. ())) id (upsertOrders E m os w)
            | _ \<Rightarrow> (Inl TypeError, w)))"

partial_function (option) sync_pages ::
  "shop_env \<Rightarrow> (jval \<Rightarrow> world \<Rightarrow> (exn + unit) \<times> world) \<Rightarrow> string \<Rightarrow> string \<Rightarrow> shop_state \<Rightarrow> ((exn + unit) \<times> shop_state) option" where
  "sync_pages S page token url s =
     (case shop_send S (get_request url (token_header token) [] []) s of
        (Inl e, s1) \<Rightarrow> Some (Inl e, s1)
      | (Inr r, s1) \<Rightarrow>
          (case page (rs_data r) (fst s1) of
             (Inl e, w2) \<Rightarrow> Some (Inl e, (w2, snd s1))
           | (Inr _, w2) \<Rightarrow>
               (case extractNextPageUrl (rs_link r) of
                  None \<Rightarrow> Some (Inr (), (w2, snd s1))
                | Some url' \<Rightarrow> sync_pages S page token url' (w2, snd s1))))"

definition sync_listing ::
  "shop_env \<Rightarrow> env \<Rightarrow> shopify_store \<Rightarrow> (jval \<Rightarrow> world \<Rightarrow> (exn + unit) \<times> world) \<Rightarrow> string \<Rightarrow> shop_state \<Rightarrow>
   ((exn + unit) \<times> shop_state) option" where
  "sync_listing S E o' page path s =
     (case getValidAccessToken S E o' s of
        (Inl e, s1) \<Rightarrow> Some (Inl e, s1)
      | (Inr token, s1) \<Rightarrow> sync_pages S page token (admin_url o' path) s1)"

definition syncProducts :: "shop_env \<Rightarrow> env \<Rightarrow> shopify_store \<Rightarrow> shop_state \<Rightarrow> ((exn + unit) \<times> shop_state) option" where
  "syncProducts S E o' s = sync_listing S E o' (product_page E (ss_merchantId o')) ''/products.json?limit=250'' s"

definition syncOrders :: "shop_env \<Rightarrow> env \<Rightarrow> shopify_store \<Rightarrow> shop_state \<Rightarrow> ((exn + unit) \<times> shop_state) option" where
  "syncOrders S E o' s = sync_listing S E o' (order_page E (ss_merchantId o')) ''/orders.json?limit=250&status=any'' s"

section \<open>Webhooks\<close>

definition webhook_topics :: "shop_env \<Rightarrow> (string \<times> string) list" where
  "webhook_topics S =
     [(''orders/create'', cfg_appUrl S @ ''/store-connection/shopify/webhooks/orders''),
      (''products/create'', cfg_appUrl S @ ''/store-connection/shopify/webhooks/products''),
      (''products/update'', cfg_appUrl S @ ''/store-connection/shopify/webhooks/products''),
      (''products/delete'', cfg_appUrl S @ ''/store-connection/shopify/webhooks/products'')]"

text \<open>\<open>registered.some\<close> stops at the first match; it throws at a value that has no fields.\<close>

fun is_registered :: "string \<times> string \<Rightarrow> jval list \<Rightarrow> exn + bool" where
  "is_registered t [] = Inr False"
| "is_registered t (v # vs) =
     (if v = JNull then Inl TypeError
      else if json_str ''topic'' v = Some (fst t) \<and> json_str ''address'' v = Some (snd t) then Inr True
      else is_registered t vs)"

definition webhook_request :: "shopify_store \<Rightarrow> string \<Rightarrow> string \<times> string \<Rightarrow> http_request" where
  "webhook_request o' token t =
     post_request (admin_url o' ''/webhooks.json'') (token_header token) []
       (Some (JObj [(''webhook'', JObj [(''topic'', JStr (fst t)), (''address'', JStr (snd t)), (''format'', JStr ''json'')])]))"

fun register_topics ::
  "shop_env \<Rightarrow> shopify_store \<Rightarrow> string \<Rightarrow> jval list \<Rightarrow> (string \<times> string) list \<Rightarrow> shop_state \<Rightarrow> (exn + unit) \<times> shop_state" where
  "register_topics S o' token registered [] s = (Inr (), s)"
| "register_topics S o' token registered (t # ts) s =
     (case is_registered t registered of
        Inl e \<Rightarrow> (Inl e, s)
      | Inr True \<Rightarrow> register_topics S o' token registered ts s
      | Inr False \<Rightarrow>
          (case shop_send S (webhook_request o' token t) s of
             (Inl e, s1) \<Rightarrow> (Inl e, s1)
           | (Inr _, s1) \<Rightarrow> register_topics S o' token registered ts s1))"

definition registered_list :: "jval \<Rightarrow> exn + jval list" where
  "registered_list data =
     (if data = JNull then Inl TypeError
      else (case nullish_value (json_field ''webhooks'' data) of
              None \<Rightarrow> Inr []
            | Some (JArr vs) \<Rightarrow> Inr vs
            | Some _ \<Rightarrow> Inl TypeError))"

definition registerWebhooks :: "shop_env \<Rightarrow> env \<Rightarrow> shopify_store \<Rightarrow> shop_state \<Rightarrow> (exn + unit) \<times> shop_state" where
  "registerWebhooks S E o' s =
     (case getValidAccessToken S E o' s of
        (Inl e, s1) \<Rightarrow> (Inl e, s1)
      | (Inr token, s1) \<Rightarrow>
          (case shop_send S (get_request (admin_url o' ''/webhooks.json'') (token_header token) [] []) s1 of
             (Inl e, s2) \<Rightarrow> (Inl e, s2)
           | (Inr r, s2) \<Rightarrow>
               (case registered_list (rs_data r) of
                  Inl e \<Rightarrow> (Inl e, s2)
                | Inr registered \<Rightarrow> register_topics S o' token registered (webhook_topics S) s2)))"

text \<open>Texts of different length, and a missing signature, are not equal: the exception is caught.\<close>

definition shopify_verify :: "shop_env \<Rightarrow> string \<Rightarrow> string option \<Rightarrow> bool" where
  "shopify_verify S payload signature = (signature = Some (hmac_base64 S (cfg_shopifySecret S) payload))"

section \<open>Single orders, shop and settings\<close>

record OrderDetails =
  od_platformOrderId :: string
  od_customerName :: string
  od_customerPhone :: jval
  od_address :: jval
  od_wilaya :: jval
  od_commune :: "jval option"
  od_totalAmount :: "rat option"
  od_lineItems :: "(jval option \<times> jval option \<times> jval option) list"

definition order_details :: "env \<Rightarrow> jval \<Rightarrow> exn + OrderDetails" where
  "order_details E ord =
     (case json_field ''line_items'' ord of
        Some (JArr items) \<Rightarrow>
          (if JNull \<in> set items then Inl TypeError
           else Inr \<lparr>od_platformOrderId = id_text E (json_field ''id'' ord), od_customerName = shopify_customer_name E ord,
             od_customerPhone = coalesce (customer_field ''phone'' ord) (JStr []),
             od_address = coalesce (address_field ''address1'' ord) (JStr []),
             od_wilaya = coalesce (address_field ''province'' ord) (JStr []),
             od_commune = address_field ''city'' ord, od_totalAmount = float_of (json_field ''total_price'' ord),
             od_lineItems = map (\<lambda>v. (json_field ''title'' v, json_field ''quantity'' v, json_field ''price'' v)) items\<rparr>)
      | _ \<Rightarrow> Inl TypeError)"

definition shopify_getOrder ::
  "shop_env \<Rightarrow> env \<Rightarrow> shopify_store \<Rightarrow> string \<Rightarrow> shop_state \<Rightarrow> (exn + OrderDetails) \<times> shop_state" where
  "shopify_getOrder S E o' platformOrderId s =
     (case admin_get S E o' (''/orders/'' @ platformOrderId @ ''.json'') s of
        (Inl e, s1) \<Rightarrow> (Inl e, s1)
      | (Inr data, s1) \<Rightarrow>
          (case json_field ''order'' data of None \<Rightarrow> Inl TypeError | Some ord \<Rightarrow> order_details E ord, s1))"

definition updateOrderStatus ::
  "shop_env \<Rightarrow> env \<Rightarrow> shopify_store \<Rightarrow> string \<Rightarrow> string \<Rightarrow> shop_state \<Rightarrow> (exn + unit) \<times> shop_state" where
  "updateOrderStatus S E o' platformOrderId status s =
     (case getValidAccessToken S E o' s of
        (Inl e, s1) \<Rightarrow> (Inl e, s1)
      | (Inr token, s1) \<Rightarrow>
          map_prod (map_sum id (\<lambda>_. ())) id
            (shop_send S (post_request (admin_url o' (''/orders/'' @ platformOrderId @ ''/fulfillments.json''))
               (token_header token) [] (Some (JObj [(''fulfillment'', JObj [(''status'', JStr status)])]))) s1))"

definition shopify_getShopInfo :: "shop_env \<Rightarrow> env \<Rightarrow> shopify_store \<Rightarrow> shop_state \<Rightarrow> (exn + jval option) \<times> shop_state" where
  "shopify_getShopInfo S E o' s =
     (case admin_get S E o' ''/shop.json'' s of
        (Inl e, s1) \<Rightarrow> (Inl e, s1)
      | (Inr data, s1) \<Rightarrow> (if data = JNull then Inl TypeError else Inr (json_field ''shop'' data), s1))"

definition shopify_listWebhooks :: "shop_env \<Rightarrow> env \<Rightarrow> shopify_store \<Rightarrow> shop_state \<Rightarrow> (exn + jval) \<times> shop_state" where
  "shopify_listWebhooks S E o' s =
     (case admin_get S E o' ''/webhooks.json'' s of
        (Inl e, s1) \<Rightarrow> (Inl e, s1)
      | (Inr data, s1) \<Rightarrow>
          (if data = JNull then Inl TypeError else Inr (coalesce (nullish_value (json_field ''webhooks'' data)) (JArr [])), s1))"

text \<open>A setting that is there must be a text; nothing is written when neither is.\<close>

definition updateSettings :: "shopify_store \<Rightarrow> jval option \<Rightarrow> jval option \<Rightarrow> world \<Rightarrow> exn + world" where
  "updateSettings o' currency defaultOrderStatus w =
     (let text_or = (\<lambda>v x. case v of None \<Rightarrow> Some x | Some (JStr t) \<Rightarrow> Some t | Some _ \<Rightarrow> None) in
      if currency = None \<and> defaultOrderStatus = None then Inr w
      else if text_or currency [] = None \<or> text_or defaultOrderStatus [] = None then Inl validation_error
      else update_shopify (ss_storeConnectionId o')
             (\<lambda>x. x\<lparr>shopify_currency := the (text_or currency (shopify_currency x)),
                    shopify_defaultOrderStatus := the (text_or defaultOrderStatus (shopify_defaultOrderStatus x))\<rparr>) w)"

section \<open>The factory\<close>

definition factory_create :: "string \<Rightarrow> world \<Rightarrow> exn + shopify_store" where
  "factory_create i w =
     (case find_first (\<lambda>x. store_id x = i) (storeConnections w) of
        None \<Rightarrow> Inl (Error (''StoreConnection not found: '' @ i))
      | Some st \<Rightarrow>
          (if store_source st = ''SHOPIFY''
           then (case shopify_row i w of
                   None \<Rightarrow> Inl (Error ''ShopifyConnection record missing for this StoreConnection'')
                 | Some x \<Rightarrow> Inr \<lparr>ss_merchantId = store_merchantId st, ss_storeConnectionId = store_id st,
                                  ss_shopDomain = shopify_shopDomain x\<rparr>)
           else Inl (Error (''Unsupported store source: '' @ store_source st))))"

definition createForMerchant :: "string \<Rightarrow> string option \<Rightarrow> world \<Rightarrow> exn + shopify_store" where
  "createForMerchant merchantId source w =
     (case find_first (\<lambda>x. store_merchantId x = merchantId \<and> store_isActive x \<and>
                            (source = None \<or> source = Some (store_source x))) (storeConnections w) of
        None \<Rightarrow> Inl (Error (''No active store connection found for merchant: '' @ merchantId))
      | Some st \<Rightarrow> factory_create (store_id st) w)"

section \<open>Facts\<close>

lemma hex_char_no_colon: "n < 16 \<Longrightarrow> hex_char n \<noteq> CHR '':''"
  using hex_val_hex_char [of n] by (auto simp: hex_val_def Let_def)

lemma hex_text_no_colon: "CHR '':'' \<notin> set (hex_text b)"
  using hex_char_no_colon by (auto simp: hex_text_def less_mult_imp_div_less dest: sym)

lemma unhex_hex_text: "unhex (hex_text b) = b"
proof (induction b)
  case (Cons c b)
  have "hex_val (hex_char ((of_char c :: nat) div 16)) = Some ((of_char c :: nat) div 16)"
    "hex_val (hex_char ((of_char c :: nat) mod 16)) = Some ((of_char c :: nat) mod 16)"
    by (simp_all add: hex_val_hex_char less_mult_imp_div_less)
  then show ?case using Cons by (simp add: hex_text_def)
qed (simp add: hex_text_def)

text \<open>What the cipher promises: a text is decrypted with the key and the vector it was encrypted with.\<close>

definition cipher_ok :: "shop_env \<Rightarrow> bool" where
  "cipher_ok S \<longleftrightarrow> (\<forall>n. length (random_bytes S n) = 16) \<and>
     (\<forall>k iv t. length iv = 16 \<longrightarrow> aes_decrypt S k iv (aes_encrypt S k iv t) = Some t)"

lemma decrypt_encrypt: "cipher_ok S \<Longrightarrow> decryptToken S (fst (encryptToken S t w)) = Inr t"
  by (simp add: cipher_ok_def encryptToken_def decryptToken_def draw_def split_on_once split_on_none hex_text_no_colon
      unhex_hex_text Let_def)

subsection \<open>The synchronisation ends when the pages do\<close>

lemma sync_pages_ends:
  assumes "\<And>n rq r. N \<le> n \<Longrightarrow> shop_http S n rq = Inr r \<Longrightarrow> extractNextPageUrl (rs_link r) = None"
  shows "\<exists>res s'. sync_pages S page token url s = Some (res, s') \<and> length (snd s') \<le> max (Suc (length (snd s))) (Suc N)"
proof (induction "N - length (snd s)" arbitrary: s url rule: less_induct)
  case less
  obtain res s1 where s1: "shop_send S (get_request url (token_header token) [] []) s = (res, s1)" by (meson surj_pair)
  then have len: "length (snd s1) = Suc (length (snd s))" by (auto simp: shop_send_def)
  show ?case
  proof (cases res)
    case (Inl e)
    then show ?thesis using s1 len by (subst sync_pages.simps) auto
  next
    case (Inr r)
    obtain pres w2 where p: "page (rs_data r) (fst s1) = (pres, w2)" by fastforce
    have http: "shop_http S (length (snd s)) (get_request url (token_header token) [] []) = Inr r"
      using s1 Inr by (auto simp: shop_send_def split: sum.splits)
    show ?thesis
    proof (cases "extractNextPageUrl (rs_link r)")
      case None
      then show ?thesis using s1 Inr len p by (subst sync_pages.simps) (auto split: sum.splits)
    next
      case (Some url')
      then have "length (snd s) < N" using assms [OF _ http] by (cases "N \<le> length (snd s)") auto
      then have "N - length (snd (w2, snd s1)) < N - length (snd s)" using len by simp
      from less [OF this, of url'] obtain res' s' where
        "sync_pages S page token url' (w2, snd s1) = Some (res', s')" "length (snd s') \<le> max (Suc (length (snd s1))) (Suc N)"
        by auto
      then show ?thesis using s1 Inr len p Some \<open>length (snd s) < N\<close>
        by (cases s') (subst sync_pages.simps, auto split: sum.splits)
    qed
  qed
qed

lemma access_token_log: "getValidAccessToken S E o' s = (res, s') \<Longrightarrow> length (snd s') \<le> Suc (length (snd s))"
  by (auto simp: getValidAccessToken_def refreshAccessToken_def shop_send_def split: option.splits if_splits sum.splits prod.splits)

lemma sync_listing_ends:
  assumes "\<And>n rq r. N \<le> n \<Longrightarrow> shop_http S n rq = Inr r \<Longrightarrow> extractNextPageUrl (rs_link r) = None"
  shows "\<exists>res s'. sync_listing S E o' page path s = Some (res, s') \<and> length (snd s') \<le> max (length (snd s) + 2) (Suc N)"
proof -
  obtain res s1 where t: "getValidAccessToken S E o' s = (res, s1)" by (meson surj_pair)
  then have len: "length (snd s1) \<le> Suc (length (snd s))" by (rule access_token_log)
  show ?thesis
  proof (cases res)
    case (Inl e)
    then show ?thesis using t len by (auto simp: sync_listing_def)
  next
    case (Inr token)
    then show ?thesis
      using t len sync_pages_ends [where S = S and N = N and page = page and token = token and url = "admin_url o' path" and s = s1]
        assms by (fastforce simp: sync_listing_def)
  qed
qed

end
