(* ===== verification/Shopify.thy ===== *)
theory Shopify
  imports Shopify_Connection
begin

text \<open>
  \<open>back/src/modules/storeConnections/shopify\<close> and \<open>storeConnections/index.ts\<close>: connecting a store over OAuth,
  the webhooks of a store, and the handlers that use a connection.
\<close>

section \<open>The service\<close>

text \<open>The domain pattern of \<open>shopifyAuthSchema\<close> and \<open>generateNonce\<close>.\<close>

definition is_alnum :: "char \<Rightarrow> bool" where
  "is_alnum c \<longleftrightarrow> is_digit c \<or> 65 \<le> (of_char c :: nat) \<and> (of_char c :: nat) \<le> 90 \<or>
     97 \<le> (of_char c :: nat) \<and> (of_char c :: nat) \<le> 122"

definition MYSHOPIFY :: string where "MYSHOPIFY = ''.myshopify.com''"

definition valid_shop :: "string \<Rightarrow> bool" where
  "valid_shop shop \<longleftrightarrow>
     (let n = length shop - length MYSHOPIFY; name = take n shop in
      ends_with MYSHOPIFY shop \<and> name \<noteq> [] \<and> is_alnum (hd name) \<and> list_all (\<lambda>c. is_alnum c \<or> c = CHR ''-'') name)"

definition generateNonce :: "shop_env \<Rightarrow> env \<Rightarrow> string \<Rightarrow> string \<Rightarrow> world \<Rightarrow> exn + string \<times> world" where
  "generateNonce S E shop merchantId w =
     (if \<not> valid_shop shop then Inl (Error ''Invalid shop domain'')
      else if \<not> list_ex (\<lambda>m. merchant_id m = merchantId) (merchants w) then Inl (Error ''Merchant not found'')
      else Inr (put_nonce S E merchantId shop w))"

text \<open>A nonce is used up by the shop it was made for; the payload is that merchant.\<close>

definition consumeNonce :: "env \<Rightarrow> string \<Rightarrow> string option \<Rightarrow> world \<Rightarrow> exn + string option \<times> world" where
  "consumeNonce E nonce shop w =
     (case given (redis_get E (nonce_key nonce) w) of
        None \<Rightarrow> Inl (Error ''State token expired or invalid'')
      | Some raw \<Rightarrow>
          (case json_parse raw of
             None \<Rightarrow> Inl (Error ''SyntaxError'')
           | Some payload \<Rightarrow>
               (if payload = JNull then Inl TypeError
                else if json_field ''shop'' payload \<noteq> map_option JStr shop then Inl (Error ''State token shop mismatch'')
                else Inr (json_str ''merchantId'' payload, redis_del (nonce_key nonce) w))))"

text \<open>
  The signature of the query: every other parameter, sorted by name.  A parameter given several times is a
  list, which as text has commas.
\<close>

definition query_text :: "env \<Rightarrow> jval \<Rightarrow> string" where
  "query_text E v = (case v of JArr vs \<Rightarrow> join '','' (map (join_text E) vs) | _ \<Rightarrow> id_text E (Some v))"

definition signed_message :: "env \<Rightarrow> entities \<Rightarrow> string" where
  "signed_message E query =
     join ''&'' (map (\<lambda>(k, v). k @ ''='' @ query_text E v)
       (sort_key (\<lambda>p. map (of_char :: char \<Rightarrow> nat) (fst p)) (filter (\<lambda>(k, v). k \<noteq> ''hmac'' \<and> v \<noteq> JNull) query)))"

definition shopify_verifyHmac :: "shop_env \<Rightarrow> env \<Rightarrow> entities \<Rightarrow> bool" where
  "shopify_verifyHmac S E query =
     (case map_of query ''hmac'' of
        Some (JStr h) \<Rightarrow> h \<noteq> [] \<and> h = hmac E (cfg_shopifySecret S) (signed_message E query)
      | _ \<Rightarrow> False)"

text \<open>\<open>URLSearchParams.toString\<close>.\<close>

definition form_char :: "char \<Rightarrow> string" where
  "form_char c =
     (if is_alnum c \<or> c \<in> set ''*-._'' then [c]
      else if c = CHR '' '' then ''+''
      else CHR ''%'' # map (\<lambda>d. if is_digit d then d else char_of ((of_char d :: nat) - 32))
             [hex_char ((of_char c :: nat) div 16), hex_char ((of_char c :: nat) mod 16)])"

definition form_encode :: "(string \<times> string) list \<Rightarrow> string" where
  "form_encode ps = join ''&'' (map (\<lambda>(k, v). concat (map form_char k) @ ''='' @ concat (map form_char v)) ps)"

definition exchangeCodeForToken :: "shop_env \<Rightarrow> string \<Rightarrow> string \<Rightarrow> shop_state \<Rightarrow> (exn + jval) \<times> shop_state" where
  "exchangeCodeForToken S shop code s =
     map_prod (map_sum id rs_data) id
       (shop_send S (post_request (''https://'' @ shop @ ''/admin/oauth/access_token'')
          [(''Content-Type'', ''application/x-www-form-urlencoded'')] []
          (Some (JStr (form_encode [(''client_id'', cfg_shopifyKey S), (''client_secret'', cfg_shopifySecret S),
                                    (''code'', code), (''expiring'', ''1'')])))) s)"

text \<open>
  The columns of the answer: the encrypted tokens, the times they expire at, and the scopes.  A scope that is
  null clears the column, a missing one leaves it.
\<close>

record granted =
  gr_access :: string
  gr_refresh :: "string option"
  gr_expiresAt :: "int option"
  gr_refreshExpiresAt :: "int option"
  gr_scopes :: "string option option"

definition expiry :: "env \<Rightarrow> jval option \<Rightarrow> exn + int option" where
  "expiry E v =
     (if \<not> opt_truthy v then Inr None
      else (case seconds_later E v of None \<Rightarrow> Inl validation_error | Some t \<Rightarrow> Inr (Some t)))"

definition scope_value :: "jval option \<Rightarrow> exn + string option option" where
  "scope_value v =
     (case v of None \<Rightarrow> Inr None | Some JNull \<Rightarrow> Inr (Some None) | Some (JStr t) \<Rightarrow> Inr (Some (Some t)) | Some _ \<Rightarrow> Inl validation_error)"

definition granted_tokens :: "shop_env \<Rightarrow> env \<Rightarrow> jval \<Rightarrow> world \<Rightarrow> exn + granted \<times> world" where
  "granted_tokens S E data w =
     (case encrypt_value S (json_field ''access_token'' data) w of
        Inl e \<Rightarrow> Inl e
      | Inr (access, w1) \<Rightarrow>
          (case encrypt_if S (json_field ''refresh_token'' data) w1 of
             Inl e \<Rightarrow> Inl e
           | Inr (again, w2) \<Rightarrow>
               (case (expiry E (json_field ''expires_in'' data), expiry E (json_field ''refresh_token_expires_in'' data),
                      scope_value (json_field ''scope'' data)) of
                  (Inr t, Inr u, Inr sc) \<Rightarrow>
                    Inr (\<lparr>gr_access = access, gr_refresh = again, gr_expiresAt = t, gr_refreshExpiresAt = u, gr_scopes = sc\<rparr>, w2)
                | _ \<Rightarrow> Inl validation_error)))"

definition grant :: "granted \<Rightarrow> shopify_connection_row \<Rightarrow> shopify_connection_row" where
  "grant g x =
     x\<lparr>shopify_accessToken := gr_access g, shopify_scopes := coalesce (gr_scopes g) (shopify_scopes x),
       shopify_refreshToken := (case gr_refresh g of None \<Rightarrow> shopify_refreshToken x | r \<Rightarrow> r),
       shopify_tokenExpiresAt := (case gr_expiresAt g of None \<Rightarrow> shopify_tokenExpiresAt x | t \<Rightarrow> t),
       shopify_refreshTokenExpiresAt := (case gr_refreshExpiresAt g of None \<Rightarrow> shopify_refreshTokenExpiresAt x | t \<Rightarrow> t)\<rparr>"

definition store_row :: "string \<Rightarrow> string \<Rightarrow> string \<Rightarrow> store_connection_row" where
  "store_row i merchantId shop =
     \<lparr>store_id = i, store_merchantId = merchantId, store_source = ''SHOPIFY'', store_name = shop,
      store_url = ''https://'' @ shop, store_isActive = True\<rparr>"

definition empty_shopify_row :: "string \<Rightarrow> string \<Rightarrow> string \<Rightarrow> shopify_connection_row" where
  "empty_shopify_row k i shop =
     \<lparr>shopify_id = k, shopify_storeConnectionId = i, shopify_shopDomain = shop, shopify_accessToken = [],
      shopify_refreshToken = None, shopify_tokenExpiresAt = None, shopify_refreshTokenExpiresAt = None,
      shopify_scopes = None, shopify_currency = ''DZD'', shopify_defaultOrderStatus = ''PENDING''\<rparr>"

definition new_store :: "env \<Rightarrow> string \<Rightarrow> string \<Rightarrow> granted \<Rightarrow> world \<Rightarrow> exn + string \<times> world" where
  "new_store E merchantId shop g w =
     (if \<not> list_ex (\<lambda>m. merchant_id m = merchantId) (merchants w) then Inl P2003
      else
        (let i = cuid E (nextId w); x = empty_shopify_row (cuid E (Suc (nextId w))) i shop
         in Inr (i, w\<lparr>storeConnections := storeConnections w @ [store_row i merchantId shop],
                      shopifyConnections := shopifyConnections w @ [grant g x], nextId := nextId w + 2\<rparr>)))"

text \<open>
  An existing connection of the merchant is refreshed whatever shop it is for; else both rows are made.  A
  merchant that is not known to the nonce is no condition on the rows and cannot be stored.
\<close>

definition set_active :: "string \<Rightarrow> world \<Rightarrow> world" where
  "set_active i w =
     w\<lparr>storeConnections := update_where (\<lambda>x. store_id x = i) (\<lambda>x. x\<lparr>store_isActive := True\<rparr>) (storeConnections w)\<rparr>"

definition saveStoreConnection ::
  "shop_env \<Rightarrow> env \<Rightarrow> string option \<Rightarrow> string \<Rightarrow> jval \<Rightarrow> world \<Rightarrow> exn + string \<times> world" where
  "saveStoreConnection S E merchantId shop data w =
     (case granted_tokens S E data w of
        Inl e \<Rightarrow> Inl e
      | Inr (g, w1) \<Rightarrow>
          (case find_first (\<lambda>x. merchantId = None \<or> merchantId = Some (store_merchantId x)) (storeConnections w1) of
             Some st \<Rightarrow> map_sum id (\<lambda>w2. (store_id st, set_active (store_id st) w2)) (update_shopify (store_id st) (grant g) w1)
           | None \<Rightarrow> (case merchantId of None \<Rightarrow> Inl validation_error | Some m \<Rightarrow> new_store E m shop g w1)))"

definition getStoreConnectionByShop :: "string option \<Rightarrow> world \<Rightarrow> exn + store_connection_row" where
  "getStoreConnectionByShop shop w =
     (case find_first (\<lambda>x. store_source x = ''SHOPIFY'' \<and>
               (case shopify_row (store_id x) w of None \<Rightarrow> False | Some y \<Rightarrow> shop = None \<or> shop = Some (shopify_shopDomain y)))
             (storeConnections w) of
        None \<Rightarrow> Inl (Error (''No store connection found for domain: '' @ coalesce shop ''undefined''))
      | Some st \<Rightarrow> Inr st)"

definition disconnectStore :: "string \<Rightarrow> world \<Rightarrow> exn + world" where
  "disconnectStore merchantId w =
     (case find_first (\<lambda>x. store_merchantId x = merchantId) (storeConnections w) of
        None \<Rightarrow> Inl (Error ''No store connection found'')
      | Some st \<Rightarrow> delete_store (store_id st) w)"

text \<open>
  \<open>syncShopifyOrders\<close>: the connections are synchronised at the same time, here one after the other; the first
  failure is the answer, and the others go on.  Then the first page of the orders is read.
\<close>

fun sync_stores :: "shop_env \<Rightarrow> env \<Rightarrow> string list \<Rightarrow> shop_state \<Rightarrow> ((exn + unit) \<times> shop_state) option" where
  "sync_stores S E [] s = Some (Inr (), s)"
| "sync_stores S E (i # ids) s =
     (case (case factory_create i (fst s) of Inl e \<Rightarrow> Some (Inl e, s) | Inr o' \<Rightarrow> syncOrders S E o' s) of
        None \<Rightarrow> None
      | Some (res, s1) \<Rightarrow>
          map_option (map_prod (\<lambda>rest. case res of Inl e \<Rightarrow> Inl e | Inr _ \<Rightarrow> rest) id) (sync_stores S E ids s1))"

definition first_page :: "string \<Rightarrow> GetOrdersParams" where
  "first_page m = \<lparr>gop_merchantId = m, gop_cursor = None, gop_limit = Some 20, gop_status = None, gop_search = None,
     gop_dateRange = None\<rparr>"

definition syncShopifyOrders ::
  "shop_env \<Rightarrow> env \<Rightarrow> string \<Rightarrow> shop_state \<Rightarrow> ((exn + order_view page) \<times> shop_state) option" where
  "syncShopifyOrders S E m s =
     (let stores = filter (\<lambda>x. store_merchantId x = m \<and> store_source x = ''SHOPIFY'' \<and> store_isActive x) (storeConnections (fst s)) in
      if stores = [] then Some (Inl (Error ''No active Shopify store connections found''), s)
      else map_option (\<lambda>(res, s1). (case res of Inl e \<Rightarrow> Inl e | Inr _ \<Rightarrow> getOrders E (first_page m) (fst s1), s1))
             (sync_stores S E (map store_id stores) s))"

section \<open>The handlers\<close>

definition authenticateShopify :: "shop_env \<Rightarrow> env \<Rightarrow> string \<Rightarrow> string \<Rightarrow> world \<Rightarrow> string reply \<times> world" where
  "authenticateShopify S E merchantId shop w =
     (if \<not> valid_shop shop then (Refuse 400 ''Validation failed'', w)
      else
        map_prod (Reply 302) id
          (shopify_connect S E \<lparr>ss_merchantId = merchantId, ss_storeConnectionId = [], ss_shopDomain = shop\<rparr> shop w))"

text \<open>What both webhooks begin with: the raw body, the connection of the shop, and its signature.\<close>

definition open_webhook ::
  "shop_env \<Rightarrow> string option \<Rightarrow> string option \<Rightarrow> string option \<Rightarrow> world \<Rightarrow> string reply + store_connection_row \<times> shopify_store \<times> jval" where
  "open_webhook S rawBody signature shop w =
     (case rawBody of
        None \<Rightarrow> Inl (Refuse 400 ''Missing raw body'')
      | Some body \<Rightarrow>
          (case getStoreConnectionByShop shop w of
             Inl e \<Rightarrow> Inl (Refuse 500 ''Error'')
           | Inr st \<Rightarrow>
               (case factory_create (store_id st) w of
                  Inl e \<Rightarrow> Inl (Refuse 500 ''Error'')
                | Inr o' \<Rightarrow>
                    (if \<not> shopify_verify S body signature then Inl (Refuse 401 ''Unauthorized'')
                     else (case json_parse body of
                             None \<Rightarrow> Inl (Refuse 500 ''Error'')
                           | Some v \<Rightarrow> Inr (st, o', v))))))"

fun notify_saved :: "env \<Rightarrow> order_notice list \<Rightarrow> world \<Rightarrow> world" where
  "notify_saved E [] w = w"
| "notify_saved E (n # ns) w = notify_saved E ns (snd (sendOrderNotification E n w))"

definition handleOrderWebhook ::
  "shop_env \<Rightarrow> env \<Rightarrow> string option \<Rightarrow> string option \<Rightarrow> string option \<Rightarrow> world \<Rightarrow> string reply \<times> world" where
  "handleOrderWebhook S E rawBody signature shop w =
     (case open_webhook S rawBody signature shop w of
        Inl r \<Rightarrow> (r, w)
      | Inr (st, o', ord) \<Rightarrow>
          (case upsertOrders E (ss_merchantId o') [ord] w of
             (Inl e, w1) \<Rightarrow> (Refuse 500 ''Error'', w1)
           | (Inr saved, w1) \<Rightarrow> (Reply 200 ''OK'', notify_saved E saved w1)))"

definition handleProductWebhook ::
  "shop_env \<Rightarrow> env \<Rightarrow> string option \<Rightarrow> string option \<Rightarrow> string option \<Rightarrow> world \<Rightarrow> string reply \<times> world" where
  "handleProductWebhook S E rawBody signature shop w =
     (case open_webhook S rawBody signature shop w of
        Inl r \<Rightarrow> (r, w)
      | Inr (st, o', p) \<Rightarrow>
          (case upsertSingleProduct E (store_merchantId st) p w of
             Inl e \<Rightarrow> (Refuse 500 ''Error'', w)
           | Inr w1 \<Rightarrow> (Reply 200 ''OK'', w1)))"

text \<open>The handlers that pass a call to the merchant's connection; every failure is answered 500.\<close>

definition or_failed :: "string \<Rightarrow> exn + 'a \<Rightarrow> 'a reply" where
  "or_failed msg res = (case res of Inl e \<Rightarrow> Refuse 500 msg | Inr x \<Rightarrow> Reply 200 x)"

definition with_connection ::
  "string \<Rightarrow> (shopify_store \<Rightarrow> shop_state \<Rightarrow> (exn + 'a) \<times> shop_state) \<Rightarrow> string \<Rightarrow> shop_state \<Rightarrow> 'a reply \<times> shop_state" where
  "with_connection msg f m s =
     (case createForMerchant m None (fst s) of
        Inl e \<Rightarrow> (Refuse 500 msg, s)
      | Inr o' \<Rightarrow> map_prod (or_failed msg) id (f o' s))"

definition getShopInfo :: "shop_env \<Rightarrow> env \<Rightarrow> string \<Rightarrow> shop_state \<Rightarrow> jval option reply \<times> shop_state" where
  "getShopInfo S E = with_connection ''Failed to fetch shop info'' (shopify_getShopInfo S E)"

definition listWebhooks_handler :: "shop_env \<Rightarrow> env \<Rightarrow> string \<Rightarrow> shop_state \<Rightarrow> jval reply \<times> shop_state" where
  "listWebhooks_handler S E = with_connection ''Failed to list webhooks'' (shopify_listWebhooks S E)"

definition reRegisterWebhooks :: "shop_env \<Rightarrow> env \<Rightarrow> string \<Rightarrow> shop_state \<Rightarrow> unit reply \<times> shop_state" where
  "reRegisterWebhooks S E = with_connection ''Failed to re-register webhooks'' (registerWebhooks S E)"

definition shopify_store_of :: "string \<Rightarrow> world \<Rightarrow> store_connection_row option" where
  "shopify_store_of m w = find_first (\<lambda>x. store_merchantId x = m \<and> store_source x = ''SHOPIFY'') (storeConnections w)"

definition getStoreSettings :: "string \<Rightarrow> world \<Rightarrow> (string \<times> string) reply" where
  "getStoreSettings m w =
     (case (case shopify_store_of m w of None \<Rightarrow> None | Some st \<Rightarrow> shopify_row (store_id st) w) of
        None \<Rightarrow> Refuse 404 ''No Shopify connection''
      | Some x \<Rightarrow> Reply 200 (shopify_currency x, shopify_defaultOrderStatus x))"

definition updateStoreSettings :: "string \<Rightarrow> jval option \<Rightarrow> jval option \<Rightarrow> world \<Rightarrow> unit reply \<times> world" where
  "updateStoreSettings m currency defaultOrderStatus w =
     (case shopify_store_of m w of
        None \<Rightarrow> (Refuse 404 ''No Shopify connection'', w)
      | Some st \<Rightarrow>
          (case factory_create (store_id st) w of
             Inl e \<Rightarrow> (Refuse 500 ''Failed to update store settings'', w)
           | Inr o' \<Rightarrow>
               (case updateSettings o' currency defaultOrderStatus w of
                  Inl e \<Rightarrow> (Refuse 500 ''Failed to update store settings'', w)
                | Inr w1 \<Rightarrow> (Reply 200 (), w1))))"

definition disconnect_handler :: "string \<Rightarrow> world \<Rightarrow> unit reply \<times> world" where
  "disconnect_handler m w =
     (case disconnectStore m w of
        Inl e \<Rightarrow> (Refuse 500 ''Failed to disconnect store.'', w)
      | Inr w1 \<Rightarrow> (Reply 200 (), w1))"

text \<open>
  The OAuth callback.  The answer does not wait for the synchronisations, which follow as \<open>callBack_sync\<close>.
\<close>

definition query_str :: "string \<Rightarrow> entities \<Rightarrow> string option" where
  "query_str k query = (case map_of query k of Some (JStr t) \<Rightarrow> Some t | _ \<Rightarrow> None)"

definition connect_shop ::
  "shop_env \<Rightarrow> env \<Rightarrow> string \<Rightarrow> string \<Rightarrow> string option \<Rightarrow> shop_state \<Rightarrow> (exn + string) \<times> shop_state" where
  "connect_shop S E code nonce shop s =
     (case consumeNonce E nonce shop (fst s) of
        Inl e \<Rightarrow> (Inl e, s)
      | Inr (merchantId, w1) \<Rightarrow>
          (case exchangeCodeForToken S (coalesce shop ''undefined'') code (w1, snd s) of
             (Inl e, s2) \<Rightarrow> (Inl e, s2)
           | (Inr data, s2) \<Rightarrow>
               (case saveStoreConnection S E merchantId (coalesce shop ''undefined'') data (fst s2) of
                  Inl e \<Rightarrow> (Inl e, s2)
                | Inr (i, w3) \<Rightarrow>
                    (case factory_create i w3 of
                       Inl e \<Rightarrow> (Inl e, (w3, snd s2))
                     | Inr o' \<Rightarrow> (Inr i, snd (registerWebhooks S E o' (w3, snd s2)))))))"

definition callBack :: "shop_env \<Rightarrow> env \<Rightarrow> entities \<Rightarrow> shop_state \<Rightarrow> string reply \<times> shop_state" where
  "callBack S E query s =
     (let param = (\<lambda>k. case map_of query k of None \<Rightarrow> ''undefined'' | Some v \<Rightarrow> query_text E v) in
      if \<not> shopify_verifyHmac S E query then (Refuse 403 ''HMAC validation failed.'', s)
      else
        (case connect_shop S E (param ''code'') (param ''state'') (query_str ''shop'' query) s of
           (Inl e, s1) \<Rightarrow> (Refuse 500 ''Failed to connect Shopify store.'', s1)
         | (Inr i, s1) \<Rightarrow> (Reply 200 i, s1)))"

definition both_syncs ::
  "shop_env \<Rightarrow> env \<Rightarrow> shopify_store \<Rightarrow> shop_state \<Rightarrow> ((exn + unit) \<times> (exn + unit) \<times> shop_state) option" where
  "both_syncs S E o' s =
     (case syncProducts S E o' s of
        None \<Rightarrow> None
      | Some (p, s1) \<Rightarrow> map_option (\<lambda>(q, s2). (p, q, s2)) (syncOrders S E o' s1))"

definition callBack_sync :: "shop_env \<Rightarrow> env \<Rightarrow> string \<Rightarrow> shop_state \<Rightarrow> shop_state option" where
  "callBack_sync S E i s =
     (case factory_create i (fst s) of
        Inl e \<Rightarrow> Some s
      | Inr o' \<Rightarrow> map_option (snd \<circ> snd) (both_syncs S E o' s))"

definition syncStore ::
  "shop_env \<Rightarrow> env \<Rightarrow> string \<Rightarrow> shop_state \<Rightarrow> (((exn + unit) \<times> (exn + unit)) reply \<times> shop_state) option" where
  "syncStore S E m s =
     (case createForMerchant m None (fst s) of
        Inl e \<Rightarrow> Some (Refuse 500 ''Failed to sync store.'', s)
      | Inr o' \<Rightarrow>
          map_option (\<lambda>(p, q, s1). (Reply (if isl p \<and> isl q then 500 else 200) (p, q), s1)) (both_syncs S E o' s))"

definition syncOrders_handler :: "shop_env \<Rightarrow> env \<Rightarrow> string \<Rightarrow> shop_state \<Rightarrow> (order_view page reply \<times> shop_state) option" where
  "syncOrders_handler S E m s =
     map_option (map_prod (\<lambda>res. case res of Inl e \<Rightarrow> Refuse 500 (err_message e) | Inr p \<Rightarrow> Reply 200 p) id) (syncShopifyOrders S E m s)"

text \<open>\<open>GET /store-connection/status\<close>.\<close>

definition store_status :: "string \<Rightarrow> world \<Rightarrow> (string \<times> string \<times> string) option reply" where
  "store_status m w =
     Reply 200 (map_option (\<lambda>x. (store_source x, store_name x, store_url x))
       (find_first (\<lambda>x. store_merchantId x = m \<and> store_isActive x) (storeConnections w)))"

end
