(* ===== verification/Shopify_Orders.thy ===== *)
theory Shopify_Orders
  imports Shopify
begin

text \<open>
  What becomes of the orders of a shop: storing one again changes nothing, so a redelivered webhook does not either.
\<close>

section \<open>Orders\<close>

text \<open>The tables a notification does not touch.\<close>

definition shop_tables :: "world \<Rightarrow> order_row list \<times> product_row list \<times> store_connection_row list \<times> shopify_connection_row list" where
  "shop_tables w = (orders w, products w, storeConnections w, shopifyConnections w)"

lemma shop_tables_eq:
  "shop_tables w' = shop_tables w \<longleftrightarrow> orders w' = orders w \<and> products w' = products w \<and>
     storeConnections w' = storeConnections w \<and> shopifyConnections w' = shopifyConnections w"
  by (auto simp: shop_tables_def)

lemma createFromOrder_tables: "createFromOrder E m ord cid phone w = Inr (c, w1) \<Longrightarrow> shop_tables w1 = shop_tables w"
  by (auto simp: shop_tables_def createFromOrder_def set_current_order_def update_in_def put_conversations_def
      create_conversation_def Let_def split: option.splits sum.splits if_splits)

lemma send_and_store_tables: "shop_tables (send_and_store E s p v t w) = shop_tables w"
proof -
  obtain r w1 where r: "sendText E s p t w = (r, w1)" by fastforce
  have "quiet w1 = quiet w" using quiet_sendText [of E s p t w] r by simp
  then obtain L where L: "w1 = w\<lparr>owLog := L\<rparr>" using quiet_eq by blast
  then show ?thesis
    using r by (auto simp: send_and_store_def addMessage_def create_message_def touch_conversation_def put_conversations_def
        shop_tables_def Let_def split: sum.splits)
qed

lemma sendOrderNotification_tables: "shop_tables (snd (sendOrderNotification E n w)) = shop_tables w"
  using createFromOrder_tables [of E "no_merchantId n" "no_id n" "no_customerId n" "no_customerPhone n" w]
  by (auto simp: sendOrderNotification_def notify_customer_def send_and_store_tables split: option.splits sum.splits)

lemma notify_saved_tables: "shop_tables (notify_saved E ns w) = shop_tables w"
  by (induction ns arbitrary: w) (simp_all add: sendOrderNotification_tables)

text \<open>A customer's order changes the customers only.\<close>

lemma shopify_customer_frame:
  "shopify_customer E m ord w = Inr (c, w1) \<Longrightarrow>
     w1 = w\<lparr>customers := customers w1, nextId := nextId w1\<rparr> \<and> nextId w \<le> nextId w1"
  by (auto simp: shopify_customer_def upsert_customer_def update_in_Inr put_customers_def create_customer_def Let_def
      split: if_splits option.splits jval.splits)

lemma find_order_platform:
  "find_first (order_of_platform m i) rows = None \<longleftrightarrow>
     (\<forall>q \<in> set rows. \<not> (order_merchantId q = m \<and> order_platformOrderId q = i))"
  by (auto simp: find_first_None order_of_platform_def)

text \<open>What storing an order does: one that is known gets the status of its payment, a new one may be added.\<close>

lemma new_shopify_order_effect:
  assumes "new_shopify_order E m ord item p w = (Inr saved, w1)" "fresh_ids E w"
    and "find_first (order_of_platform m (id_text E (json_field ''id'' ord))) (orders w) = None"
  shows "\<exists>r C n. w1 = w\<lparr>orders := orders w @ [r], customers := C, nextId := n\<rparr> \<and>
      order_id r \<notin> order_id ` set (orders w) \<and> order_of_platform m (id_text E (json_field ''id'' ord)) r \<and>
      order_status r = mapFinancialStatus (json_field ''financial_status'' ord)"
proof -
  obtain c w2 where c: "shopify_customer E m ord w = Inr (c, w2)"
    using assms(1) by (auto simp: new_shopify_order_def split: sum.splits)
  then obtain C n where w2: "w2 = w\<lparr>customers := C, nextId := n\<rparr>" "nextId w \<le> n" using shopify_customer_frame by blast
  obtain d where d: "shopify_order_input E m ord item (customer_id c) (product_id p) = Some d"
    using assms(1) c by (auto simp: new_shopify_order_def split: option.splits)
  then have d_eq: "oi_merchantId d = m" "oi_platformOrderId d = id_text E (json_field ''id'' ord)"
    by (auto simp: shopify_order_input_def split: option.splits jval.splits)
  have no: "create_order E d w2 \<noteq> Inl P2002"
    using assms(3) d_eq by (auto simp: create_order_def find_order_platform w2 Let_def)
  then obtain r w3 where r: "create_order E d w2 = Inr (r, w3)"
    using assms(1) c d by (auto simp: new_shopify_order_def create_shopify_order_def split: sum.splits if_splits)
  let ?r = "r\<lparr>order_status := mapFinancialStatus (json_field ''financial_status'' ord)\<rparr>"
  have id: "order_id ?r \<notin> order_id ` set (orders w)"
    using r assms(2) w2 by (simp add: create_order_Inr order_of_input_simps fresh_ids_def)
  have "w1 = w3\<lparr>orders := orders w2 @ [?r]\<rparr>"
    using assms(1) c d r by (simp add: new_shopify_order_def create_shopify_order_def)
  then have "w1 = w\<lparr>orders := orders w @ [?r], customers := C, nextId := Suc n\<rparr>"
    using r w2(1) by (simp add: create_order_Inr)
  moreover note id
  moreover have "order_of_platform m (id_text E (json_field ''id'' ord)) ?r"
    using r d_eq by (simp add: create_order_Inr order_of_input_simps order_of_platform_def)
  ultimately show ?thesis by (intro exI [of _ ?r]) auto
qed

lemma id_text_clock: "id_text (E\<lparr>clock := t\<rparr>) = id_text E"
  by (auto simp: id_text_def fun_eq_iff split: option.split jval.split)

lemma ordered_product_clock: "ordered_product (E\<lparr>clock := t\<rparr>) = ordered_product E"
  by (intro ext) (simp add: ordered_product_def id_text_clock Let_def)

lemma upsertOrder_effect:
  assumes "upsertOrder E m ord w = (Inr saved, w1)" "fresh_ids E w"
  shows "w1 = w \<and> saved = None \<and> (\<forall>t. upsertOrder (E\<lparr>clock := t\<rparr>) m ord w = (Inr None, w)) \<or>
    (\<exists>r. find_first (order_of_platform m (id_text E (json_field ''id'' ord))) (orders w) = Some r \<and> saved = None \<and>
      w1 = w\<lparr>orders := update_where (\<lambda>q. order_id q = order_id r)
                (\<lambda>q. q\<lparr>order_status := mapFinancialStatus (json_field ''financial_status'' ord)\<rparr>) (orders w)\<rparr>) \<or>
    (\<exists>r C n. w1 = w\<lparr>orders := orders w @ [r], customers := C, nextId := n\<rparr> \<and>
      find_first (order_of_platform m (id_text E (json_field ''id'' ord))) (orders w) = None \<and>
      order_id r \<notin> order_id ` set (orders w) \<and> order_of_platform m (id_text E (json_field ''id'' ord)) r \<and>
      order_status r = mapFinancialStatus (json_field ''financial_status'' ord))"
proof (cases "find_first (order_of_platform m (id_text E (json_field ''id'' ord))) (orders w)")
  case (Some r)
  then show ?thesis using assms(1) by (auto simp: upsertOrder_def Let_def split: if_splits)
next
  case None
  then have "w1 = w \<and> saved = None \<and> (\<forall>t. upsertOrder (E\<lparr>clock := t\<rparr>) m ord w = (Inr None, w)) \<or>
      (\<exists>item p. new_shopify_order E m ord item p w = (Inr saved, w1))"
    using assms(1)
    by (auto simp: upsertOrder_def id_text_clock ordered_product_clock Let_def split: if_splits sum.splits option.splits)
  then show ?thesis using new_shopify_order_effect [OF _ assms(2) None] None by blast
qed

text \<open>Storing the same order again finds it and sets the status it has.\<close>

lemma set_status_again:
  assumes "find_first P rows = Some r" "\<And>q x. P (q\<lparr>order_status := x\<rparr>) = P q"
  shows "find_first P (update_where (\<lambda>q. order_id q = order_id r) (\<lambda>q. q\<lparr>order_status := st\<rparr>) rows) = Some (r\<lparr>order_status := st\<rparr>)"
  using assms by (induction rows) (auto simp: find_first_def update_where_def split: if_splits)

lemma update_where_again:
  assumes "\<And>q. P (f q) = P q" "\<And>q. f (f q) = f q"
  shows "update_where P f (update_where P f rows) = update_where P f rows"
  using assms by (simp add: update_where_def)

lemma upsertOrder_again:
  assumes "upsertOrder E m ord w = (Inr saved, w1)" "fresh_ids E w" "shop_tables w' = shop_tables w1"
    and "w1 = w \<longrightarrow> w' = w"
  shows "upsertOrder (E\<lparr>clock := t\<rparr>) m ord w' = (Inr None, w')"
proof -
  let ?P = "order_of_platform m (id_text E (json_field ''id'' ord))" and ?st = "mapFinancialStatus (json_field ''financial_status'' ord)"
  have ord: "ord \<noteq> JNull" using assms(1) by (auto simp: upsertOrder_def)
  have status: "?P (q\<lparr>order_status := x\<rparr>) = ?P q" for q x by (simp add: order_of_platform_def)
  have known: "upsertOrder (E\<lparr>clock := t\<rparr>) m ord w' = (Inr None, w')"
    if "find_first ?P (orders w') = Some r" "order_status r = ?st"
      "update_where (\<lambda>q. order_id q = order_id r) (\<lambda>q. q\<lparr>order_status := ?st\<rparr>) (orders w') = orders w'" for r
    using that ord by (simp add: upsertOrder_def id_text_clock)
  have orders: "orders w' = orders w1" using assms(3) by (simp add: shop_tables_eq)
  from upsertOrder_effect [OF assms(1,2)] show ?thesis
  proof (elim disjE exE conjE)
    fix r assume r: "find_first ?P (orders w) = Some r"
      and w1: "w1 = w\<lparr>orders := update_where (\<lambda>q. order_id q = order_id r) (\<lambda>q. q\<lparr>order_status := ?st\<rparr>) (orders w)\<rparr>"
    show ?thesis
      using set_status_again [OF r status] orders w1
      by (intro known [of "r\<lparr>order_status := ?st\<rparr>"]) (simp_all add: update_where_again)
  next
    fix r C n assume w1: "w1 = w\<lparr>orders := orders w @ [r], customers := C, nextId := n\<rparr>"
      and none: "find_first ?P (orders w) = None" "order_id r \<notin> order_id ` set (orders w)" "?P r" "order_status r = ?st"
    have "update_where (\<lambda>q. order_id q = order_id r) (\<lambda>q. q\<lparr>order_status := ?st\<rparr>) (orders w @ [r]) = orders w @ [r]"
      using none(2,4) by (simp add: update_where_def image_iff) (rule map_idI, auto)
    then show ?thesis
      using none orders w1 by (intro known [of r]) (simp_all add: find_first_append find_first_Cons)
  qed (use assms(4) in simp)
qed

lemma store_tables:
  assumes "storeConnections w' = storeConnections w" "shopifyConnections w' = shopifyConnections w"
  shows "getStoreConnectionByShop shop w' = getStoreConnectionByShop shop w" "factory_create i w' = factory_create i w"
  unfolding getStoreConnectionByShop_def factory_create_def shopify_row_def assms by (rule refl)+

lemma open_webhook_tables:
  assumes "storeConnections w' = storeConnections w" "shopifyConnections w' = shopifyConnections w"
  shows "open_webhook S rawBody signature shop w' = open_webhook S rawBody signature shop w"
  unfolding open_webhook_def store_tables [OF assms] by (rule refl)

text \<open>
  Two things a shop's orders run into.  A known order gets the status of its payment whatever it was, so a paid-later
  order that is on its way, or delivered, becomes pending again.  And the second order without a phone number fails:
  the customer without a phone exists already.
\<close>

lemma sync_overwrites_status:
  assumes "find_first (order_of_platform m (id_text E (json_field ''id'' ord))) (orders w) = Some r" "ord \<noteq> JNull"
    and "json_field ''financial_status'' ord = Some (JStr ''pending'')"
  shows "\<exists>w1. upsertOrder E m ord w = (Inr None, w1) \<and>
    find_first (order_of_platform m (id_text E (json_field ''id'' ord))) (orders w1) = Some (r\<lparr>order_status := PENDING\<rparr>)"
  using assms set_status_again [OF assms(1), of PENDING]
  by (simp add: upsertOrder_def Let_def mapFinancialStatus_def coalesce_def order_of_platform_def)

lemma order_without_phone_fails:
  assumes "find_first (order_of_platform m (id_text E (json_field ''id'' ord))) (orders w) = None" "ord \<noteq> JNull"
    and "first_item (json_field ''line_items'' ord) = Inr (Some item)" "truthy item" "ordered_product E m item w = Inr (Some p)"
    and "customer_field ''phone'' ord = None" "c \<in> set (customers w)" "customer_merchantId c = m" "customer_phone c = []"
  shows "upsertOrder E m ord w = (Inl P2002, w)"
  using assms
  by (auto simp: upsertOrder_def new_shopify_order_def shopify_customer_def create_customer_def opt_truthy_def Let_def)

section \<open>Properties\<close>

lemma known_order_redelivered:
  assumes "open_webhook S rawBody signature shop w = Inr (st, o', ord)" "ord \<noteq> JNull"
    and "\<exists>q \<in> set (orders w). order_merchantId q = ss_merchantId o' \<and> order_platformOrderId q = id_text E (json_field ''id'' ord)"
  shows "\<exists>r \<in> set (orders w). order_merchantId r = ss_merchantId o' \<and> order_platformOrderId r = id_text E (json_field ''id'' ord) \<and>
    handleOrderWebhook S (E\<lparr>clock := t\<rparr>) rawBody signature shop w =
      (Reply 200 ''OK'', w\<lparr>orders := update_where (\<lambda>q. order_id q = order_id r)
         (\<lambda>q. q\<lparr>order_status := mapFinancialStatus (json_field ''financial_status'' ord)\<rparr>) (orders w)\<rparr>)"
proof -
  obtain r where r: "find_first (order_of_platform (ss_merchantId o') (id_text E (json_field ''id'' ord))) (orders w) = Some r"
    using assms(3) find_order_platform [of "ss_merchantId o'" "id_text E (json_field ''id'' ord)" "orders w"]
    by (cases "find_first (order_of_platform (ss_merchantId o') (id_text E (json_field ''id'' ord))) (orders w)") auto
  moreover have "handleOrderWebhook S (E\<lparr>clock := t\<rparr>) rawBody signature shop w =
      (Reply 200 ''OK'', w\<lparr>orders := update_where (\<lambda>q. order_id q = order_id r)
         (\<lambda>q. q\<lparr>order_status := mapFinancialStatus (json_field ''financial_status'' ord)\<rparr>) (orders w)\<rparr>)"
    using r assms(1,2) by (simp add: handleOrderWebhook_def upsertOrder_def id_text_clock Let_def)
  ultimately show ?thesis using find_first_SomeD [OF r] by (auto simp: order_of_platform_def)
qed

text \<open>C26. An order webhook of Shopify that was accepted was signed with the application's secret, and it added at
  most one order.  A redelivery of it, however late, that finds the database as the first one left it is accepted and
  changes nothing.  A redelivery that finds any later state, with the shop still connected and the merchant's order with
  this Shopify number still stored, is accepted too and adds no second order, no customer and no message: all it does is
  to set the status of that one order to the one the webhook's payment status stands for.\<close>

theorem order_webhook_once:
  assumes "world_ok E w" and "handleOrderWebhook S E rawBody signature shop w = (Reply 200 ''OK'', w')"
  shows "signature = Some (hmac_base64 S (cfg_shopifySecret S) (the rawBody)) \<and>
    length (orders w') \<le> Suc (length (orders w)) \<and>
    handleOrderWebhook S (E\<lparr>clock := t\<rparr>) rawBody signature shop w' = (Reply 200 ''OK'', w') \<and>
    (\<exists>st o' ord. open_webhook S rawBody signature shop w = Inr (st, o', ord) \<and>
      (\<forall>w2. storeConnections w2 = storeConnections w \<and> shopifyConnections w2 = shopifyConnections w \<and>
          (\<exists>q \<in> set (orders w2). order_merchantId q = ss_merchantId o' \<and>
             order_platformOrderId q = id_text E (json_field ''id'' ord)) \<longrightarrow>
        (\<exists>r \<in> set (orders w2). order_merchantId r = ss_merchantId o' \<and>
           order_platformOrderId r = id_text E (json_field ''id'' ord) \<and>
           handleOrderWebhook S (E\<lparr>clock := t\<rparr>) rawBody signature shop w2 =
             (Reply 200 ''OK'', w2\<lparr>orders := update_where (\<lambda>q. order_id q = order_id r)
                (\<lambda>q. q\<lparr>order_status := mapFinancialStatus (json_field ''financial_status'' ord)\<rparr>) (orders w2)\<rparr>))))"
proof -
  obtain st o' ord where opened: "open_webhook S rawBody signature shop w = Inr (st, o', ord)"
    using assms(2) by (auto simp: handleOrderWebhook_def open_webhook_def split: option.splits sum.splits if_splits)
  obtain saved w1 where run: "upsertOrder E (ss_merchantId o') ord w = (Inr saved, w1)"
    and w': "w' = notify_saved E (case saved of None \<Rightarrow> [] | Some n \<Rightarrow> [n]) w1"
    using assms(2) opened by (auto simp: handleOrderWebhook_def map_prod_def split: prod.splits sum.splits)
  have fresh: "fresh_ids E w" using assms(1) by (simp add: world_ok_def)
  have ord: "ord \<noteq> JNull" using run by (auto simp: upsertOrder_def)
  have tables: "shop_tables w' = shop_tables w1" using notify_saved_tables w' by simp
  have same: "w1 = w \<longrightarrow> w' = w" 
    using upsertOrder_effect [OF run fresh] w' by (auto dest: arg_cong [of _ _ orders])
  have "upsertOrder (E\<lparr>clock := t\<rparr>) (ss_merchantId o') ord w' = (Inr None, w')"
    using upsertOrder_again [OF run fresh tables same] .
  moreover have "open_webhook S rawBody signature shop w' = Inr (st, o', ord)"
    using upsertOrder_effect [OF run fresh] opened tables open_webhook_tables [of w' w] by (auto simp: shop_tables_eq)
  ultimately have "handleOrderWebhook S (E\<lparr>clock := t\<rparr>) rawBody signature shop w' = (Reply 200 ''OK'', w')"
    by (simp add: handleOrderWebhook_def)
  moreover have "length (orders w') \<le> Suc (length (orders w))"
    using upsertOrder_effect [OF run fresh] tables by (auto simp: shop_tables_eq)
  moreover have "signature = Some (hmac_base64 S (cfg_shopifySecret S) (the rawBody))"
    using opened by (auto simp: open_webhook_def shopify_verify_def split: option.splits sum.splits if_splits)
  ultimately show ?thesis
    using opened known_order_redelivered [OF open_webhook_tables [THEN trans, OF _ _ opened] ord]
    by (intro conjI exI [of _ st] exI [of _ o'] exI [of _ ord] allI impI; (elim conjE)?) assumption+
qed

definition sample_store :: world where
  "sample_store = sample_world\<lparr>
     storeConnections := [\<lparr>store_id = ''s1'', store_merchantId = ''m1'', store_source = ''SHOPIFY'', store_name = ''x'',
       store_url = ''x'', store_isActive = True\<rparr>],
     shopifyConnections := [\<lparr>shopify_id = ''sh1'', shopify_storeConnectionId = ''s1'', shopify_shopDomain = ''a.myshopify.com'',
       shopify_accessToken = [], shopify_refreshToken = None, shopify_tokenExpiresAt = None,
       shopify_refreshTokenExpiresAt = None, shopify_scopes = None, shopify_currency = ''DZD'',
       shopify_defaultOrderStatus = ''PENDING''\<rparr>]\<rparr>"

text \<open>A shop with three pages, and a cipher that only frames the text.\<close>

definition sample_shopify :: shop_env where
  "sample_shopify = \<lparr>shop_http = (\<lambda>n rq. Inr \<lparr>rs_status = 200, rs_data = JObj [],
       rs_link = (if n < 2 then Some (''<u>; rel='' @ [CHR 0x22] @ ''next'' @ [CHR 0x22]) else None)\<rparr>),
     random_bytes = (\<lambda>n. replicate 16 (CHR ''r'')), aes_encrypt = (\<lambda>k iv t. t @ k), aes_decrypt = (\<lambda>k iv t. Some (take (length t - length k) t)),
     hmac_base64 = (\<lambda>k t. ''sig''), cfg_shopifyKey = ''key'', cfg_shopifySecret = ''sec'', cfg_shopifyScopes = ''read'',
     cfg_appUrl = ''https://app''\<rparr>"

definition sample_order_body :: string where
  "sample_order_body = json_stringify sample_env (JObj [(''id'', JStr ''9''),
     (''line_items'', JArr [JObj [(''title'', JStr ''bag'')]]),
     (''customer'', JObj [(''first_name'', JStr ''A''), (''last_name'', JStr ''B''), (''phone'', JStr ''213'')]),
     (''shipping_address'', JObj [(''province'', JStr ''Oran''), (''city'', JStr ''Oran'')]),
     (''total_price'', JStr ''5'')])"

lemma sample_store_ok: "world_ok sample_env sample_store"
  using sample_ok by (simp add: sample_store_def world_ok_def schema_ok_def fresh_ids_def)

theorem order_webhook_once_witness:
  "\<exists>w'. handleOrderWebhook sample_shopify sample_env (Some sample_order_body) (Some ''sig'') (Some ''a.myshopify.com'') sample_store = (Reply 200 ''OK'', w') \<and>
     length (orders w') = 3 \<and> length (messages w') = 1 \<and>
     handleOrderWebhook sample_shopify (sample_env\<lparr>clock := 99\<rparr>) (Some sample_order_body) (Some ''sig'') (Some ''a.myshopify.com'') w' = (Reply 200 ''OK'', w')"
proof -
  let ?r = "handleOrderWebhook sample_shopify sample_env (Some sample_order_body) (Some ''sig'') (Some ''a.myshopify.com'') sample_store"
  have "(case ?r of (a, w') \<Rightarrow> a = Reply 200 ''OK'' \<and> length (orders w') = 3 \<and> length (messages w') = 1)"
    by code_simp
  moreover obtain a w' where "?r = (a, w')" by (meson surj_pair)
  ultimately show ?thesis using order_webhook_once [OF sample_store_ok, of sample_shopify _ _ _ w' 99] by auto
qed

end
