(* ===== verification/Shopify_Stores.thy ===== *)
theory Shopify_Stores
  imports Shopify_Orders
begin

text \<open>
  The connection of a store: the state token of an installation, the rows it may change, the token that is
  granted and used, and the end of a synchronisation.
\<close>

section \<open>Connecting a store\<close>

lemma nonce_payload:
  "json_parse (stringify_fields [(''merchantId'', m), (''shop'', sh)]) = Some (JObj [(''merchantId'', JStr m), (''shop'', JStr sh)])"
  by (simp add: json_parse_fields obj_set_def)

lemma stringify_nonempty: "stringify_fields e \<noteq> []"
  by (simp add: stringify_fields_def)

lemma consumeNonce_stored:
  assumes "redis_get E (nonce_key nonce) w = Some (stringify_fields [(''merchantId'', m), (''shop'', sh)])"
  shows "consumeNonce E nonce shop w =
    (if shop = Some sh then Inr (Some m, redis_del (nonce_key nonce) w) else Inl (Error ''State token shop mismatch''))"
  using assms
  by (cases shop) (auto simp: consumeNonce_def given_def stringify_nonempty nonce_payload json_field_def json_str_def)

lemma consumeNonce_missing:
  "redis_get E (nonce_key nonce) w = None \<Longrightarrow> consumeNonce E nonce shop w = Inl (Error ''State token expired or invalid'')"
  by (simp add: consumeNonce_def given_def)

text \<open>C29. The state token of an installation link is good for ten minutes, for one use and for the shop the merchant
  named: then it gives that merchant, and it is refused for another shop, after its time, and a second time.\<close>

theorem nonce_roundtrip:
  assumes "shopify_connect S E o' shop w = (url, w1)"
  shows "\<exists>nonce. suffix (''&state='' @ nonce) url \<and>
    (clock E' < clock E + 600000 \<longrightarrow>
       consumeNonce E' nonce (Some shop) w1 = Inr (Some (ss_merchantId o'), redis_del (nonce_key nonce) w1)) \<and>
    (clock E + 600000 \<le> clock E' \<longrightarrow> isl (consumeNonce E' nonce (Some shop) w1)) \<and>
    (\<forall>other. other \<noteq> Some shop \<longrightarrow> isl (consumeNonce E' nonce other w1)) \<and>
    (\<forall>any. isl (consumeNonce E' nonce any (redis_del (nonce_key nonce) w1)))"
proof -
  define nonce where "nonce = hex_text (random_bytes S (nextId w))"
  define p where "p = put_nonce S E (ss_merchantId o') shop w"
  have p: "p = (nonce, redis_set E (nonce_key nonce)
      (stringify_fields [(''merchantId'', ss_merchantId o'), (''shop'', shop)]) 600 (snd (draw w)))"
    by (simp add: p_def put_nonce_def draw_def nonce_def NONCE_TTL_def Let_def)
  have eq: "(url, w1) = ((''https://'' @ shop @ ''/admin/oauth/authorize'' @ ''?client_id='' @ cfg_shopifyKey S @
      ''&scope='' @ cfg_shopifyScopes S @ ''&redirect_uri='' @ cfg_appUrl S @ ''/store-connection/shopify/callback'') @
      (''&state='' @ nonce), snd p)"
    using assms unfolding shopify_connect_def p_def [symmetric] p append_assoc by simp
  then have w1: "w1 = snd p" and url: "suffix (''&state='' @ nonce) url" by (simp, unfold prod.inject) (blast intro: suffixI)
  have get: "redis_get E' (nonce_key nonce) w1 =
      (if clock E' < clock E + 600000 then Some (stringify_fields [(''merchantId'', ss_merchantId o'), (''shop'', shop)]) else None)"
    by (simp add: w1 p redis_set_def redis_get_put live_def)
  show ?thesis
    using url consumeNonce_stored [of E' nonce w1 "ss_merchantId o'" shop] consumeNonce_missing [of E' nonce w1]
      consumeNonce_missing [of E' nonce "redis_del (nonce_key nonce) w1"] get
    by (intro exI [of _ nonce]) (cases "clock E' < clock E + 600000"; simp add: redis_get_del)
qed

theorem nonce_roundtrip_witness:
  "\<exists>nonce url w1. shopify_connect sample_shopify sample_env \<lparr>ss_merchantId = ''m1'', ss_storeConnectionId = [], ss_shopDomain = ''a''\<rparr>
      ''a'' sample_world = (url, w1) \<and> suffix (''&state='' @ nonce) url \<and>
     consumeNonce sample_env nonce (Some ''a'') w1 = Inr (Some ''m1'', redis_del (nonce_key nonce) w1) \<and>
     isl (consumeNonce sample_env nonce (Some ''b'') w1)"
proof -
  let ?o = "\<lparr>ss_merchantId = ''m1'', ss_storeConnectionId = [], ss_shopDomain = ''a''\<rparr>"
  obtain url w1 where run: "shopify_connect sample_shopify sample_env ?o ''a'' sample_world = (url, w1)"
    by (meson surj_pair)
  from nonce_roundtrip [OF this, of sample_env] obtain nonce where n: "suffix (''&state='' @ nonce) url"
    "consumeNonce sample_env nonce (Some ''a'') w1 = Inr (Some ''m1'', redis_del (nonce_key nonce) w1)"
    "\<forall>other. other \<noteq> Some ''a'' \<longrightarrow> isl (consumeNonce sample_env nonce other w1)" by auto
  then have "isl (consumeNonce sample_env nonce (Some ''b'') w1)" by simp
  then show ?thesis using run n(1,2) by (intro exI conjI)
qed

text \<open>C40. A synchronisation of products or orders ends if the shop stops naming next pages: from its \<open>N\<close>-th answer on
  at the latest.  Until then it makes one request per page, and one more when the access token has expired.\<close>

theorem sync_terminates:
  assumes "\<forall>n rq r. N \<le> n \<longrightarrow> shop_http S n rq = Inr r \<longrightarrow> extractNextPageUrl (rs_link r) = None"
  shows "(\<exists>res s'. syncProducts S E o' s = Some (res, s') \<and> length (snd s') \<le> max (length (snd s) + 2) (Suc N)) \<and>
    (\<exists>res s'. syncOrders S E o' s = Some (res, s') \<and> length (snd s') \<le> max (length (snd s) + 2) (Suc N))"
  unfolding syncProducts_def syncOrders_def
  by (intro conjI; rule sync_listing_ends) (use assms in blast)+

theorem sync_terminates_witness:
  "\<exists>res s'. syncOrders sample_shopify sample_env \<lparr>ss_merchantId = ''m1'', ss_storeConnectionId = ''s1'', ss_shopDomain = ''a''\<rparr>
      (sample_store, []) = Some (res, s') \<and> length (snd s') \<le> 3"
proof -
  have "\<forall>n rq r. 2 \<le> n \<longrightarrow> shop_http sample_shopify n rq = Inr r \<longrightarrow> extractNextPageUrl (rs_link r) = None"
    by (auto simp: sample_shopify_def extractNextPageUrl_def)
  from sync_terminates [OF this, of sample_env _ "(sample_store, [])"] show ?thesis
    by (simp only: list.size snd_conv numeral_3_eq_3) (metis max_0L add_0 max.idem numeral_2_eq_2 max_Suc_Suc)
qed

section \<open>The rows of a connection\<close>

text \<open>The keys of the two tables: every Shopify row belongs to a store, one at most, and new ids are new.\<close>

definition stores_ok :: "env \<Rightarrow> world \<Rightarrow> bool" where
  "stores_ok E w \<longleftrightarrow> unique_by store_id (storeConnections w) \<and> unique_by shopify_storeConnectionId (shopifyConnections w) \<and>
     shopify_storeConnectionId ` set (shopifyConnections w) \<subseteq> store_id ` set (storeConnections w) \<and>
     (\<forall>n \<ge> nextId w. cuid E n \<notin> store_id ` set (storeConnections w)) \<and> inj (cuid E)"

text \<open>Random bytes are drawn, nothing else changes.\<close>

definition advanced :: "world \<Rightarrow> world \<Rightarrow> bool" where
  "advanced w w' \<longleftrightarrow> (\<exists>n. w' = w\<lparr>nextId := n\<rparr> \<and> nextId w \<le> n)"

lemma advanced_refl [simp]: "advanced w w"
  unfolding advanced_def by (rule exI [of _ "nextId w"]) simp

lemma advanced_trans: "advanced w w1 \<Longrightarrow> advanced w1 w2 \<Longrightarrow> advanced w w2"
  by (auto simp: advanced_def)

lemma advanced_encryptToken: "advanced w (snd (encryptToken S t w))"
  unfolding advanced_def by (rule exI [of _ "Suc (nextId w)"]) (simp add: encryptToken_def draw_def Let_def)

lemma encrypt_value_facts:
  "encrypt_value S v w = Inr (u, w') \<Longrightarrow> \<exists>t. v = Some (JStr t) \<and> (u, w') = encryptToken S t w"
  by (auto simp: encrypt_value_def split: option.splits jval.splits)

lemma encrypt_value_advanced: "encrypt_value S v w = Inr (u, w') \<Longrightarrow> advanced w w'"
  using encrypt_value_facts advanced_encryptToken by (metis snd_conv)

lemma encrypt_if_advanced: "encrypt_if S v w = Inr (u, w') \<Longrightarrow> advanced w w'"
  using encrypt_value_advanced [of S v w] by (auto simp: encrypt_if_def map_sum_def split: if_splits sum.splits)

lemma granted_tokens_facts:
  assumes "granted_tokens S E data w = Inr (g, w')"
  shows "advanced w w' \<and> (\<exists>t. json_field ''access_token'' data = Some (JStr t) \<and> gr_access g = fst (encryptToken S t w)) \<and>
    expiry E (json_field ''expires_in'' data) = Inr (gr_expiresAt g)"
proof -
  obtain u w1 r where 1: "encrypt_value S (json_field ''access_token'' data) w = Inr (u, w1)"
    "encrypt_if S (json_field ''refresh_token'' data) w1 = Inr (r, w')" "gr_access g = u"
    "expiry E (json_field ''expires_in'' data) = Inr (gr_expiresAt g)"
    using assms by (auto simp: granted_tokens_def split: sum.splits)
  then show ?thesis
    using encrypt_value_facts [OF 1(1)] encrypt_value_advanced [OF 1(1)] encrypt_if_advanced [OF 1(2)] advanced_trans
    by (metis fst_conv)
qed

lemma update_shopify_Inr:
  "update_shopify i f w = Inr w' \<longleftrightarrow> shopify_row i w \<noteq> None \<and>
     w' = w\<lparr>shopifyConnections := update_where (\<lambda>x. shopify_storeConnectionId x = i) f (shopifyConnections w)\<rparr>"
  by (auto simp: update_shopify_def)

lemma filter_update_where_in:
  "(\<And>r. Q (f r) = Q r) \<Longrightarrow> (\<And>r. r \<in> set rows \<Longrightarrow> P r \<Longrightarrow> \<not> Q r) \<Longrightarrow> filter Q (update_where P f rows) = filter Q rows"
  unfolding update_where_def by (induction rows) auto

text \<open>What saving a connection leaves: the row of the connection it answers, of the merchant, with the granted tokens.\<close>

definition saved_for :: "env \<Rightarrow> string \<Rightarrow> granted \<Rightarrow> string \<Rightarrow> world \<Rightarrow> world \<Rightarrow> bool" where
  "saved_for E m g i w w' \<longleftrightarrow> stores_ok E w' \<and> (\<exists>x. shopify_row i w' = Some (grant g x)) \<and>
     (\<forall>st \<in> set (storeConnections w'). store_id st = i \<longrightarrow> store_merchantId st = m) \<and>
     filter (\<lambda>s. store_merchantId s \<noteq> m) (storeConnections w') = filter (\<lambda>s. store_merchantId s \<noteq> m) (storeConnections w) \<and>
     filter (\<lambda>y. shopify_storeConnectionId y \<noteq> i) (shopifyConnections w') =
       filter (\<lambda>y. shopify_storeConnectionId y \<noteq> i) (shopifyConnections w) \<and>
     w' = w\<lparr>storeConnections := storeConnections w', shopifyConnections := shopifyConnections w', nextId := nextId w'\<rparr> \<and>
     nextId w \<le> nextId w'"

lemma saved_for_keys:
  assumes "saved_for E m g i w w'"
  shows "stores_ok E w'" "\<exists>x. shopify_row i w' = Some (grant g x)"
    "\<forall>st \<in> set (storeConnections w'). store_id st = i \<longrightarrow> store_merchantId st = m"
  using assms unfolding saved_for_def by - ((elim conjE, assumption)+)

lemma saved_for_frame:
  assumes "saved_for E m g i w w'"
  shows "filter (\<lambda>s. store_merchantId s \<noteq> m) (storeConnections w') = filter (\<lambda>s. store_merchantId s \<noteq> m) (storeConnections w)"
    "filter (\<lambda>y. shopify_storeConnectionId y \<noteq> i) (shopifyConnections w') =
       filter (\<lambda>y. shopify_storeConnectionId y \<noteq> i) (shopifyConnections w)"
    "w' = w\<lparr>storeConnections := storeConnections w', shopifyConnections := shopifyConnections w', nextId := nextId w'\<rparr>"
    "nextId w \<le> nextId w'"
  using assms unfolding saved_for_def by - ((elim conjE, assumption)+)

text \<open>The store of the row is there and is the merchant's.\<close>

lemma saved_for_store:
  assumes "saved_for E m g i w w'"
  obtains st where "st \<in> set (storeConnections w')" "store_id st = i" "store_merchantId st = m"
proof -
  obtain x where "find_first (\<lambda>x. shopify_storeConnectionId x = i) (shopifyConnections w') = Some x"
    using saved_for_keys(2) [OF assms] unfolding shopify_row_def by blast
  then have "x \<in> set (shopifyConnections w')" "shopify_storeConnectionId x = i" by (auto dest: find_first_SomeD)
  then have "i \<in> shopify_storeConnectionId ` set (shopifyConnections w')" by blast
  then have "i \<in> store_id ` set (storeConnections w')"
    using saved_for_keys(1) [OF assms] unfolding stores_ok_def by blast
  then show ?thesis using saved_for_keys(3) [OF assms] that by blast
qed

lemma grant_key [simp]: "shopify_storeConnectionId (grant g x) = shopify_storeConnectionId x"
  by (simp add: grant_def)

lemma stores_ok_advanced: "stores_ok E w \<Longrightarrow> advanced w w1 \<Longrightarrow> stores_ok E w1"
  unfolding stores_ok_def advanced_def by (elim exE conjE) simp

lemma saved_existing:
  assumes ok: "stores_ok E w1" and st: "st \<in> set (storeConnections w1)" "store_merchantId st = m"
    and up: "update_shopify (store_id st) (grant g) w1 = Inr w2"
  shows "saved_for E m g (store_id st) w1 (set_active (store_id st) w2)"
proof -
  let ?i = "store_id st" and ?w' = "set_active (store_id st) w2"
  have w2: "w2 = w1\<lparr>shopifyConnections := update_where (\<lambda>x. shopify_storeConnectionId x = ?i) (grant g) (shopifyConnections w1)\<rparr>"
    and row: "shopify_row ?i w1 \<noteq> None"
    using up by (simp_all add: update_shopify_Inr)
  have uniq: "distinct (map store_id (storeConnections w1))" "distinct (map shopify_storeConnectionId (shopifyConnections w1))"
    using ok by (simp_all add: stores_ok_def unique_by_def)
  have owner: "store_merchantId s = m" if "s \<in> set (storeConnections w1)" "store_id s = ?i" for s
    using distinct_map_eq [OF uniq(1) that(1) st(1)] that st by simp
  obtain x where x: "x \<in> set (shopifyConnections w1)" "shopify_storeConnectionId x = ?i"
    using row by (auto simp: shopify_row_def dest: find_first_SomeD)
  have "shopify_row ?i ?w' = Some (grant g x)"
    using find_first_updated [where f = "grant g" and k = shopify_storeConnectionId and q = x, OF uniq(2) grant_key x(1)] x(2)
    by (simp add: shopify_row_def set_active_def w2)
  moreover have "stores_ok E ?w'"
    using ok by (simp add: stores_ok_def set_active_def w2 unique_by_def map_update_where image_update_where)
  moreover have "\<forall>s \<in> set (storeConnections ?w'). store_id s = ?i \<longrightarrow> store_merchantId s = m"
    using owner by (auto simp: set_active_def w2 update_where_def)
  moreover have "filter (\<lambda>s. store_merchantId s \<noteq> m) (storeConnections ?w') = filter (\<lambda>s. store_merchantId s \<noteq> m) (storeConnections w1)"
    using owner by (simp add: set_active_def w2 filter_update_where_in)
  moreover have "filter (\<lambda>y. shopify_storeConnectionId y \<noteq> ?i) (shopifyConnections ?w') =
       filter (\<lambda>y. shopify_storeConnectionId y \<noteq> ?i) (shopifyConnections w1)"
    by (simp add: set_active_def w2 filter_update_where)
  moreover have "?w' = w1\<lparr>storeConnections := storeConnections ?w', shopifyConnections := shopifyConnections ?w', nextId := nextId ?w'\<rparr>"
    "nextId w1 \<le> nextId ?w'"
    by (simp_all add: set_active_def w2)
  ultimately show ?thesis by (auto simp: saved_for_def)
qed

lemma saved_new:
  assumes ok: "stores_ok E w1" and new: "new_store E m shop g w1 = Inr (i, w')"
  shows "saved_for E m g i w1 w'"
proof -
  let ?x = "empty_shopify_row (cuid E (Suc (nextId w1))) i shop"
  have w': "w' = w1\<lparr>storeConnections := storeConnections w1 @ [store_row i m shop],
      shopifyConnections := shopifyConnections w1 @ [grant g ?x], nextId := nextId w1 + 2\<rparr>" and i: "i = cuid E (nextId w1)"
    using new by (auto simp: new_store_def Let_def split: if_splits)
  have row: "store_id (store_row i m shop) = i" "store_merchantId (store_row i m shop) = m" "shopify_storeConnectionId ?x = i"
    by (simp_all add: store_row_def empty_shopify_row_def)
  have fresh: "i \<notin> store_id ` set (storeConnections w1)" using ok i by (simp add: stores_ok_def)
  then have none: "i \<notin> shopify_storeConnectionId ` set (shopifyConnections w1)" using ok by (auto simp: stores_ok_def)
  then have "find_first (\<lambda>y. shopify_storeConnectionId y = i) (shopifyConnections w1) = None" by (auto simp: find_first_None)
  then have "shopify_row i w' = Some (grant g ?x)"
    using row by (simp add: shopify_row_def w' find_first_append find_first_Cons)
  moreover have later: "cuid E n \<noteq> i" if "Suc (nextId w1) \<le> n" for n
    using ok that i unfolding stores_ok_def by (metis Suc_n_not_le_n injD)
  then have "stores_ok E w'"
    using ok fresh none row unfolding stores_ok_def w' unique_by_def by (simp add: image_iff) blast
  moreover have "filter (\<lambda>y. shopify_storeConnectionId y \<noteq> i) (shopifyConnections w') =
      filter (\<lambda>y. shopify_storeConnectionId y \<noteq> i) (shopifyConnections w1)"
    using row by (simp add: w')
  ultimately show ?thesis using fresh row by (auto simp: saved_for_def w')
qed

lemma saveStoreConnection_facts:
  assumes "stores_ok E w" "saveStoreConnection S E (Some m) shop data w = Inr (i, w')"
  shows "\<exists>g w1. granted_tokens S E data w = Inr (g, w1) \<and> saved_for E m g i w1 w'"
proof -
  obtain g w1 where g: "granted_tokens S E data w = Inr (g, w1)"
    using assms(2) by (auto simp: saveStoreConnection_def split: sum.splits)
  have ok: "stores_ok E w1" using granted_tokens_facts [OF g] assms(1) stores_ok_advanced by blast
  show ?thesis
  proof (cases "find_first (\<lambda>x. Some m = Some (store_merchantId x)) (storeConnections w1)")
    case None
    then have "new_store E m shop g w1 = Inr (i, w')" using assms(2) g by (simp add: saveStoreConnection_def)
    then show ?thesis using saved_new [OF ok] g by blast
  next
    case (Some st)
    then have st: "st \<in> set (storeConnections w1)" "store_merchantId st = m" by (auto dest: find_first_SomeD)
    obtain w2 where "update_shopify (store_id st) (grant g) w1 = Inr w2" "i = store_id st" "w' = set_active (store_id st) w2"
      using assms(2) g Some by (auto simp: saveStoreConnection_def map_sum_def split: sum.splits)
    then show ?thesis using saved_existing [OF ok st] g by blast
  qed
qed

lemma expiry_seconds:
  assumes "0 < secs" "\<bar>clock E + secs * 1000\<bar> \<le> 8640000000000000"
  shows "expiry E (Some (JNum (of_int secs))) = Inr (Some (clock E + secs * 1000))"
proof -
  have eq: "of_int (clock E) + of_int secs * 1000 = (of_int (clock E + secs * 1000) :: rat)" by simp
  have "\<bar>of_int (clock E + secs * 1000) :: rat\<bar> \<le> of_int 8640000000000000"
    using assms(2) by (simp only: of_int_abs [symmetric] of_int_le_iff)
  then have "date_of_ms (of_int (clock E + secs * 1000)) = Some (clock E + secs * 1000)"
    by (simp only: date_of_ms_def of_int_numeral if_True ceiling_of_int floor_of_int if_cancel)
  then show ?thesis
    using assms(1) by (simp only: expiry_def opt_truthy_def seconds_later_def Number_of_def js_number.simps option.case truthy.simps
        eq of_int_eq_0_iff not_not if_False sum.case) simp
qed

text \<open>C28. The access token that Shopify granted when the store was connected is stored in the row of the connection as
  the initialisation vector and the token's ciphertext under the application's key, both in hexadecimal, and it is the
  one later requests use, without another request, until it expires.\<close>

theorem granted_token_used:
  assumes "cipher_ok S" "stores_ok E w" "saveStoreConnection S E (Some m) shop data w = Inr (i, w')"
    and "json_field ''access_token'' data = Some (JStr t)" "json_field ''expires_in'' data = Some (JNum (of_int secs))"
    and "0 < secs" "\<bar>clock E + secs * 1000\<bar> \<le> 8640000000000000" "clock E' < clock E + secs * 1000"
    and "ss_storeConnectionId o' = i"
  shows "(\<exists>x iv. shopify_row i w' = Some x \<and> length iv = 16 \<and>
      shopify_accessToken x = hex_text iv @ '':'' @ hex_text (aes_encrypt S ENCRYPTION_KEY iv t) \<and>
      shopify_tokenExpiresAt x = Some (clock E + secs * 1000)) \<and>
    getValidAccessToken S E' o' (w', L) = (Inr t, (w', L))"
proof -
  obtain g w1 where g: "granted_tokens S E data w = Inr (g, w1)" and s: "saved_for E m g i w1 w'"
    using saveStoreConnection_facts [OF assms(2,3)] by blast
  have access: "gr_access g = fst (encryptToken S t w)" and exp: "gr_expiresAt g = Some (clock E + secs * 1000)"
    using granted_tokens_facts [OF g] assms(4,5) expiry_seconds [OF assms(6,7)] by auto
  obtain x where x: "shopify_row i w' = Some (grant g x)" using s by (auto simp: saved_for_def)
  let ?iv = "random_bytes S (fst (draw w))"
  have "length ?iv = 16" "shopify_accessToken (grant g x) = hex_text ?iv @ '':'' @ hex_text (aes_encrypt S ENCRYPTION_KEY ?iv t)"
    "shopify_tokenExpiresAt (grant g x) = Some (clock E + secs * 1000)"
    using assms(1) access exp by (simp_all add: cipher_ok_def grant_def encryptToken_def Let_def split: prod.splits)
  moreover have "getValidAccessToken S E' o' (w', L) = (Inr t, (w', L))"
    using x assms(8,9) access exp decrypt_encrypt [OF assms(1), of t w]
    by (simp add: getValidAccessToken_def grant_def)
  ultimately show ?thesis using x by blast
qed

definition sample_grant :: jval where
  "sample_grant = JObj [(''access_token'', JStr ''tok''), (''expires_in'', JNum (of_int 3600))]"

definition sample_merchant :: world where
  "sample_merchant = sample_world\<lparr>merchants := [\<lparr>merchant_id = ''m1'', merchant_email = ''e'', merchant_passwordHash = [],
     merchant_name = ''n'', merchant_shopName = ''n'', merchant_googleId = None, merchant_isVerified = True\<rparr>]\<rparr>"

theorem granted_token_used_witness:
  "\<exists>i w'. saveStoreConnection sample_shopify sample_env (Some ''m1'') ''a'' sample_grant sample_merchant = Inr (i, w') \<and>
     getValidAccessToken sample_shopify sample_env \<lparr>ss_merchantId = ''m1'', ss_storeConnectionId = i, ss_shopDomain = ''a''\<rparr> (w', []) =
       (Inr ''tok'', (w', []))"
proof -
  have "stores_ok sample_env sample_merchant" "cipher_ok sample_shopify"
    using inj_sample_cuid by (auto simp: stores_ok_def unique_by_def sample_merchant_def sample_defs cipher_ok_def sample_shopify_def)
  moreover obtain i w' where run: "saveStoreConnection sample_shopify sample_env (Some ''m1'') ''a'' sample_grant sample_merchant = Inr (i, w')"
  proof -
    have "\<not> isl (saveStoreConnection sample_shopify sample_env (Some ''m1'') ''a'' sample_grant sample_merchant)" by code_simp
    then show ?thesis using that by (metis isl_def sum.exhaust surj_pair)
  qed
  moreover have "json_field ''access_token'' sample_grant = Some (JStr ''tok'')" "json_field ''expires_in'' sample_grant = Some (JNum (of_int 3600))"
    by (simp_all add: sample_grant_def json_field_def)
  ultimately have "getValidAccessToken sample_shopify sample_env \<lparr>ss_merchantId = ''m1'', ss_storeConnectionId = i, ss_shopDomain = ''a''\<rparr> (w', []) =
       (Inr ''tok'', (w', []))"
    by (intro granted_token_used [of _ sample_env sample_merchant "''m1''" "''a''" sample_grant _ _ _ 3600, THEN conjunct2])
      (simp_all add: sample_env_def)
  then show ?thesis using run by blast
qed

section \<open>The callback\<close>

text \<open>Registering the webhooks changes at most the tokens of the connection.\<close>

definition tokens_only :: "string \<Rightarrow> world \<Rightarrow> world \<Rightarrow> bool" where
  "tokens_only i w w' \<longleftrightarrow>
     filter (\<lambda>y. shopify_storeConnectionId y \<noteq> i) (shopifyConnections w') =
       filter (\<lambda>y. shopify_storeConnectionId y \<noteq> i) (shopifyConnections w) \<and>
     w' = w\<lparr>shopifyConnections := shopifyConnections w', nextId := nextId w'\<rparr> \<and> nextId w \<le> nextId w'"

lemma tokens_only_refl [simp]: "tokens_only i w w"
  by (simp add: tokens_only_def)

lemma store_tokens_only:
  assumes "store_tokens S E o' data w = Inr (t, w')"
  shows "tokens_only (ss_storeConnectionId o') w w'"
proof -
  obtain u w1 r w2 v where 1: "encrypt_value S (json_field ''access_token'' data) w = Inr (u, w1)"
    "encrypt_if S (json_field ''refresh_token'' data) w1 = Inr (r, w2)"
    "update_shopify (ss_storeConnectionId o') (\<lambda>x. x\<lparr>shopify_accessToken := u, shopify_tokenExpiresAt := Some v,
       shopify_refreshToken := (case r of None \<Rightarrow> shopify_refreshToken x | Some r \<Rightarrow> Some r)\<rparr>) w2 = Inr w'"
    using assms by (auto simp: store_tokens_def Let_def map_sum_def split: if_splits sum.splits option.splits prod.splits)
  have "advanced w w2" using encrypt_value_advanced [OF 1(1)] encrypt_if_advanced [OF 1(2)] advanced_trans by blast
  then show ?thesis using 1(3) by (auto simp: advanced_def update_shopify_Inr tokens_only_def filter_update_where)
qed

lemma access_token_only:
  "getValidAccessToken S E o' s = (res, s') \<Longrightarrow> tokens_only (ss_storeConnectionId o') (fst s) (fst s')"
  by (auto simp: getValidAccessToken_def refreshAccessToken_def shop_send_def dest: store_tokens_only
      split: option.splits if_splits sum.splits prod.splits)

lemma register_topics_world: "register_topics S o' token registered ts s = (res, s') \<Longrightarrow> fst s' = fst s"
  by (induction ts arbitrary: s) (auto simp: shop_send_def split: sum.splits bool.splits prod.splits if_splits)

lemma registerWebhooks_only:
  assumes "registerWebhooks S E o' s = (res, s')"
  shows "tokens_only (ss_storeConnectionId o') (fst s) (fst s')"
proof -
  obtain tok s1 where t: "getValidAccessToken S E o' s = (tok, s1)" by (meson surj_pair)
  have "fst s' = fst s1"
    using assms t by (auto simp: registerWebhooks_def shop_send_def split: sum.splits dest!: register_topics_world)
  then show ?thesis using access_token_only [OF t] by simp
qed

subsection \<open>What a synchronisation may change\<close>

text \<open>
  A synchronisation keeps to the rows of its merchant and to the tokens of its connection.  An order is updated by its
  identifier, so the identifiers have to be unique, and to stay so.
\<close>

definition order_ids_ok :: "env \<Rightarrow> world \<Rightarrow> bool" where
  "order_ids_ok E w \<longleftrightarrow> unique_by order_id (orders w) \<and> (\<forall>n \<ge> nextId w. cuid E n \<notin> order_id ` set (orders w)) \<and> inj (cuid E)"

definition synced_for :: "string \<Rightarrow> string \<Rightarrow> world \<Rightarrow> world \<Rightarrow> bool" where
  "synced_for m i w w' \<longleftrightarrow>
     filter (\<lambda>r. order_merchantId r \<noteq> m) (orders w') = filter (\<lambda>r. order_merchantId r \<noteq> m) (orders w) \<and>
     filter (\<lambda>p. product_merchantId p \<noteq> m) (products w') = filter (\<lambda>p. product_merchantId p \<noteq> m) (products w) \<and>
     filter (\<lambda>c. customer_merchantId c \<noteq> m) (customers w') = filter (\<lambda>c. customer_merchantId c \<noteq> m) (customers w) \<and>
     filter (\<lambda>y. shopify_storeConnectionId y \<noteq> i) (shopifyConnections w') =
       filter (\<lambda>y. shopify_storeConnectionId y \<noteq> i) (shopifyConnections w) \<and>
     w' = w\<lparr>orders := orders w', products := products w', customers := customers w',
            shopifyConnections := shopifyConnections w', nextId := nextId w'\<rparr>"

definition sync_step :: "env \<Rightarrow> string \<Rightarrow> string \<Rightarrow> world \<Rightarrow> world \<Rightarrow> bool" where
  "sync_step E m i w w' \<longleftrightarrow> (order_ids_ok E w \<longrightarrow> order_ids_ok E w' \<and> synced_for m i w w')"

lemma sync_step_refl [simp]: "sync_step E m i w w"
  by (simp add: sync_step_def synced_for_def)

lemma synced_for_trans: "synced_for m i w w1 \<Longrightarrow> synced_for m i w1 w2 \<Longrightarrow> synced_for m i w w2"
proof -
  assume 1: "synced_for m i w w1" and 2: "synced_for m i w1 w2"
  have w1: "w1 = w\<lparr>orders := orders w1, products := products w1, customers := customers w1,
      shopifyConnections := shopifyConnections w1, nextId := nextId w1\<rparr>"
    using 1 by (simp add: synced_for_def)
  have w2: "w2 = w1\<lparr>orders := orders w2, products := products w2, customers := customers w2,
      shopifyConnections := shopifyConnections w2, nextId := nextId w2\<rparr>"
    using 2 by (simp add: synced_for_def)
  have "w2 = w\<lparr>orders := orders w2, products := products w2, customers := customers w2,
      shopifyConnections := shopifyConnections w2, nextId := nextId w2\<rparr>"
    by (subst w2, subst w1) simp
  then show ?thesis using 1 2 by (simp add: synced_for_def)
qed

lemma sync_step_trans: "sync_step E m i w w1 \<Longrightarrow> sync_step E m i w1 w2 \<Longrightarrow> sync_step E m i w w2"
  using synced_for_trans by (auto simp: sync_step_def)

lemma order_ids_ok_frame:
  "order_ids_ok E w \<Longrightarrow> orders w' = orders w \<Longrightarrow> nextId w \<le> nextId w' \<Longrightarrow> order_ids_ok E w'"
  by (simp add: order_ids_ok_def)

lemma product_upsert_step: "product_upsert E m p w = Inr w' \<Longrightarrow> sync_step E m i w w'"
  by (auto simp: product_upsert_def sync_step_def synced_for_def same_product_def update_product_fields_def new_product_def
      Let_def intro: order_ids_ok_frame intro!: filter_update_where_in split: option.splits if_splits)

lemma upsertProducts_step: "upsertProducts E m ps w = (r, w') \<Longrightarrow> sync_step E m i w w'"
proof (induction ps arbitrary: w)
  case (Cons p ps)
  then show ?case
    using product_upsert_step sync_step_trans by (auto split: if_splits sum.splits) metis+
qed simp

lemma shopify_customer_step: "shopify_customer E m ord w = Inr (c, w1) \<Longrightarrow> sync_step E m i w w1"
  by (auto simp: shopify_customer_def upsert_customer_def update_in_Inr put_customers_def create_customer_def Let_def
      sync_step_def synced_for_def intro: order_ids_ok_frame filter_update_where_in split: if_splits option.splits jval.splits)

lemma create_shopify_order_step:
  assumes "create_shopify_order E d st w = Inr (r, w1)" "oi_merchantId d = m"
  shows "sync_step E m i w w1"
proof -
  obtain q w2 where q: "create_order E d w = Inr (q, w2)" "w1 = w2\<lparr>orders := orders w @ [q\<lparr>order_status := st\<rparr>]\<rparr>"
    using assms(1) by (auto simp: create_shopify_order_def split: sum.splits)
  then have row: "order_id q = cuid E (nextId w)" "order_merchantId q = m" "w2 = w\<lparr>orders := orders w @ [q], nextId := Suc (nextId w)\<rparr>"
    using assms(2) by (auto simp: create_order_Inr order_of_input_simps)
  have "order_ids_ok E w1" if "order_ids_ok E w"
    using that row(1) unfolding order_ids_ok_def q(2) row(3) unique_by_def
    by (auto simp: image_iff dest: injD)
  then show ?thesis using row by (simp add: sync_step_def synced_for_def q(2))
qed

lemma new_shopify_order_step:
  assumes "new_shopify_order E m ord item p w = (r, w1)"
  shows "sync_step E m i w w1"
proof (cases "shopify_customer E m ord w")
  case (Inr cw)
  obtain c w2 where c: "cw = (c, w2)" by (meson surj_pair)
  note step = shopify_customer_step [OF Inr [unfolded c], of i]
  show ?thesis
  proof (cases "shopify_order_input E m ord item (customer_id c) (product_id p)")
    case (Some d)
    then have d: "oi_merchantId d = m" by (auto simp: shopify_order_input_def split: option.splits jval.splits)
    show ?thesis
      using assms Inr c Some step sync_step_trans [OF step create_shopify_order_step [OF _ d]]
      by (auto simp: new_shopify_order_def split: sum.splits)
  qed (use assms Inr c step in \<open>simp add: new_shopify_order_def\<close>)
qed (use assms in \<open>simp add: new_shopify_order_def\<close>)

lemma known_order_step:
  assumes "find_first (order_of_platform m k) (orders w) = Some q"
  shows "sync_step E m i w (w\<lparr>orders := update_where (\<lambda>r. order_id r = order_id q) (\<lambda>r. r\<lparr>order_status := st\<rparr>) (orders w)\<rparr>)"
proof -
  have q: "q \<in> set (orders w)" "order_merchantId q = m"
    using find_first_SomeD [OF assms] by (auto simp: order_of_platform_def)
  have "order_merchantId r = m" if "unique_by order_id (orders w)" "r \<in> set (orders w)" "order_id r = order_id q" for r
    using distinct_map_eq [OF _ that(2) q(1), of order_id] that q(2) by (simp add: unique_by_def)
  then show ?thesis
    by (auto simp: sync_step_def synced_for_def order_ids_ok_def unique_by_def map_update_where image_update_where
        intro!: filter_update_where_in)
qed

lemma upsertOrder_step:
  assumes "upsertOrder E m ord w = (r, w1)"
  shows "sync_step E m i w w1"
  using assms known_order_step [of m _ w] new_shopify_order_step
  by (fastforce simp: upsertOrder_def Let_def split: if_splits option.splits sum.splits)

lemma upsertOrders_step: "upsertOrders E m os w = (r, w') \<Longrightarrow> sync_step E m i w w'"
proof (induction os arbitrary: w r w')
  case (Cons ord os)
  obtain r1 w1 where 1: "upsertOrder E m ord w = (r1, w1)" by (meson surj_pair)
  note step = upsertOrder_step [OF 1, of i]
  show ?case
  proof (cases r1)
    case (Inr saved)
    obtain r2 w2 where 2: "upsertOrders E m os w1 = (r2, w2)" by (meson surj_pair)
    then show ?thesis using Cons.prems 1 Inr sync_step_trans [OF step Cons.IH [OF 2]] by simp
  qed (use Cons.prems 1 step in simp)
qed simp

lemma product_page_step: "product_page E m d w = (r, w') \<Longrightarrow> sync_step E m i w w'"
  by (auto simp: product_page_def intro: upsertProducts_step split: option.splits jval.splits)

lemma order_page_step:
  assumes "order_page E m d w = (r, w')"
  shows "sync_step E m i w w'"
proof (cases "\<exists>os. d \<noteq> JNull \<and> js_or (json_field ''orders'' d) (Some (JArr [])) = Some (JArr os)")
  case True
  then obtain os where os: "d \<noteq> JNull" "js_or (json_field ''orders'' d) (Some (JArr [])) = Some (JArr os)" by blast
  obtain r1 w1 where 1: "upsertOrders E m os w = (r1, w1)" by (meson surj_pair)
  then show ?thesis using assms os upsertOrders_step [OF 1] by (simp add: order_page_def)
next
  case False
  then have "w' = w" using assms by (auto simp: order_page_def split: if_splits option.splits jval.splits)
  then show ?thesis by simp
qed

text \<open>Whatever every page keeps to, the loop over the pages keeps to.\<close>

lemma sync_pages_step:
  assumes "sync_pages S page token url s = Some (r, s')"
    and "\<And>d w r w'. page d w = (r, w') \<Longrightarrow> sync_step E m i w w'"
  shows "sync_step E m i (fst s) (fst s')"
proof -
  have "(\<forall>d w r w'. page d w = (r, w') \<longrightarrow> sync_step E m i w w') \<longrightarrow> sync_step E m i (fst s) (fst (snd (r, s')))"
    using assms(1)
  proof (rule sync_pages.raw_induct [rotated])
    fix f S page token url s and y :: "(exn + unit) \<times> shop_state"
    assume IH: "\<And>S page token url s y. f S page token url s = Some y \<Longrightarrow>
        (\<forall>d w r w'. page d w = (r, w') \<longrightarrow> sync_step E m i w w') \<longrightarrow> sync_step E m i (fst s) (fst (snd y))"
      and body: "(case shop_send S (get_request url (token_header token) [] []) s of
          (Inl e, s1) \<Rightarrow> Some (Inl e, s1)
        | (Inr r, s1) \<Rightarrow>
            (case page (rs_data r) (fst s1) of
               (Inl e, w2) \<Rightarrow> Some (Inl e, (w2, snd s1))
             | (Inr _, w2) \<Rightarrow>
                 (case extractNextPageUrl (rs_link r) of
                    None \<Rightarrow> Some (Inr (), (w2, snd s1))
                  | Some url' \<Rightarrow> f S page token url' (w2, snd s1)))) = Some y"
    obtain q s1 where s1: "shop_send S (get_request url (token_header token) [] []) s = (q, s1)" by (meson surj_pair)
    then have same: "fst s1 = fst s" by (auto simp: shop_send_def)
    show "(\<forall>d w r w'. page d w = (r, w') \<longrightarrow> sync_step E m i w w') \<longrightarrow> sync_step E m i (fst s) (fst (snd y))"
    proof
      assume page: "\<forall>d w r w'. page d w = (r, w') \<longrightarrow> sync_step E m i w w'"
      show "sync_step E m i (fst s) (fst (snd y))"
      proof (cases q)
        case (Inr r)
        obtain res w2 where p: "page (rs_data r) (fst s1) = (res, w2)" by (meson surj_pair)
        then have step: "sync_step E m i (fst s) w2" using page same by metis
        show ?thesis
          using body s1 Inr p step IH [of S page token _ "(w2, snd s1)" y] page sync_step_trans [OF step]
          by (auto split: sum.splits option.splits)
      qed (use body s1 same in auto)
    qed
  qed
  then show ?thesis using assms(2) by simp
qed

lemma tokens_only_step:
  assumes "tokens_only i w w'"
  shows "sync_step E m i w w'"
proof -
  have w': "w' = w\<lparr>shopifyConnections := shopifyConnections w', nextId := nextId w'\<rparr>"
    using assms(1) by (simp add: tokens_only_def)
  have same: "orders w' = orders w" "products w' = products w" "customers w' = customers w" by (subst w', simp)+
  have "w' = w\<lparr>orders := orders w', products := products w', customers := customers w',
      shopifyConnections := shopifyConnections w', nextId := nextId w'\<rparr>"
    by (subst same, subst same(2), subst same(3), subst (1) w') simp
  then show ?thesis
    using assms same order_ids_ok_frame [of E w w'] by (simp add: sync_step_def synced_for_def tokens_only_def)
qed

lemma sync_listing_step:
  assumes "sync_listing S E o' page path s = Some (r, s')" "ss_storeConnectionId o' = i"
    and "\<And>d w r w'. page d w = (r, w') \<Longrightarrow> sync_step E m i w w'"
  shows "sync_step E m i (fst s) (fst s')"
proof -
  obtain t s1 where t: "getValidAccessToken S E o' s = (t, s1)" by (meson surj_pair)
  have step: "sync_step E m i (fst s) (fst s1)"
    using tokens_only_step access_token_only [OF t] assms(2) by simp
  show ?thesis
    using assms(1) t step sync_pages_step [OF _ assms(3), where s = s1 and s' = s' and r = r] sync_step_trans [OF step]
    by (auto simp: sync_listing_def split: sum.splits)
qed

lemma both_syncs_step:
  assumes "both_syncs S E o' s = Some (p, q, s')" "ss_merchantId o' = m" "ss_storeConnectionId o' = i"
  shows "sync_step E m i (fst s) (fst s')"
proof -
  obtain s1 where 1: "syncProducts S E o' s = Some (p, s1)" "syncOrders S E o' s1 = Some (q, s')"
    using assms(1) by (auto simp: both_syncs_def split: option.splits)
  have "sync_step E m i (fst s) (fst s1)"
    using sync_listing_step [OF 1(1) [unfolded syncProducts_def assms(2)] assms(3)] product_page_step by blast
  moreover have "sync_step E m i (fst s1) (fst s')"
    using sync_listing_step [OF 1(2) [unfolded syncOrders_def assms(2)] assms(3)] order_page_step by blast
  ultimately show ?thesis by (rule sync_step_trans)
qed

text \<open>Every state token that is stored was made by \<open>put_nonce\<close>.\<close>

definition nonce_for :: "env \<Rightarrow> string \<Rightarrow> string \<Rightarrow> string \<Rightarrow> world \<Rightarrow> bool" where
  "nonce_for E nonce m sh w \<longleftrightarrow>
     redis_get E (nonce_key nonce) w = Some (stringify_fields [(''merchantId'', m), (''shop'', sh)])"

definition nonces_ok :: "env \<Rightarrow> world \<Rightarrow> bool" where
  "nonces_ok E w \<longleftrightarrow> (\<forall>nonce. redis_get E (nonce_key nonce) w \<noteq> None \<longrightarrow> (\<exists>m sh. nonce_for E nonce m sh w))"

lemma consumeNonce_Inr:
  assumes "consumeNonce E nonce shop w = Inr (m', w1)" "nonces_ok E w"
  shows "\<exists>m sh. nonce_for E nonce m sh w \<and> shop = Some sh \<and> m' = Some m \<and> w1 = redis_del (nonce_key nonce) w"
proof -
  have "redis_get E (nonce_key nonce) w \<noteq> None" using assms(1) consumeNonce_missing by fastforce
  then obtain m sh where n: "nonce_for E nonce m sh w" using assms(2) by (auto simp: nonces_ok_def)
  then show ?thesis
    using assms(1) consumeNonce_stored [of E nonce w m sh shop] by (auto simp: nonce_for_def split: if_splits)
qed

text \<open>What the callback may do to the state: use up one nonce, and connect the merchant it was made for.\<close>

definition of_others :: "string \<Rightarrow> world \<Rightarrow> shopify_connection_row \<Rightarrow> bool" where
  "of_others m w y \<longleftrightarrow> \<not> (\<exists>st \<in> set (storeConnections w). store_id st = shopify_storeConnectionId y \<and> store_merchantId st = m)"

definition connected_by :: "string \<Rightarrow> string \<Rightarrow> world \<Rightarrow> world \<Rightarrow> bool" where
  "connected_by nonce m w w' \<longleftrightarrow>
     filter (\<lambda>s. store_merchantId s \<noteq> m) (storeConnections w') = filter (\<lambda>s. store_merchantId s \<noteq> m) (storeConnections w) \<and>
     filter (of_others m w') (shopifyConnections w') = filter (of_others m w') (shopifyConnections w) \<and>
     w' = w\<lparr>redis := redis (redis_del (nonce_key nonce) w), storeConnections := storeConnections w',
            shopifyConnections := shopifyConnections w', nextId := nextId w'\<rparr> \<and> nextId w \<le> nextId w'"

text \<open>The same with the synchronisations: they add to and update the merchant's products, customers and orders.\<close>

definition synced_after :: "string \<Rightarrow> string \<Rightarrow> world \<Rightarrow> world \<Rightarrow> bool" where
  "synced_after nonce m w w' \<longleftrightarrow>
     filter (\<lambda>s. store_merchantId s \<noteq> m) (storeConnections w') = filter (\<lambda>s. store_merchantId s \<noteq> m) (storeConnections w) \<and>
     filter (of_others m w') (shopifyConnections w') = filter (of_others m w') (shopifyConnections w) \<and>
     filter (\<lambda>r. order_merchantId r \<noteq> m) (orders w') = filter (\<lambda>r. order_merchantId r \<noteq> m) (orders w) \<and>
     filter (\<lambda>p. product_merchantId p \<noteq> m) (products w') = filter (\<lambda>p. product_merchantId p \<noteq> m) (products w) \<and>
     filter (\<lambda>c. customer_merchantId c \<noteq> m) (customers w') = filter (\<lambda>c. customer_merchantId c \<noteq> m) (customers w) \<and>
     w' = w\<lparr>redis := redis (redis_del (nonce_key nonce) w), storeConnections := storeConnections w',
            shopifyConnections := shopifyConnections w', orders := orders w', products := products w',
            customers := customers w', nextId := nextId w'\<rparr>"

lemma filter_weaker: "filter P xs = filter P ys \<Longrightarrow> (\<And>x. Q x \<Longrightarrow> P x) \<Longrightarrow> filter Q xs = filter Q ys"
proof -
  assume eq: "filter P xs = filter P ys" and imp: "\<And>x. Q x \<Longrightarrow> P x"
  have "filter Q zs = filter Q (filter P zs)" for zs using imp by (induction zs) auto
  then show ?thesis using eq by metis
qed

lemma connected_saved:
  assumes s: "saved_for E m g i w1 w2" and w1: "advanced (redis_del (nonce_key nonce) w) w1" and t: "tokens_only i w2 w'"
  shows "connected_by nonce m w w' \<and> (\<forall>st \<in> set (storeConnections w'). store_id st = i \<longrightarrow> store_merchantId st = m)"
proof -
  obtain n where n: "w1 = w\<lparr>redis := redis (redis_del (nonce_key nonce) w), nextId := n\<rparr>" "nextId w \<le> n"
    using w1 by (auto simp: advanced_def redis_del_def)
  note w2 = saved_for_frame(3) [OF s] and filters = saved_for_frame(1,2) [OF s]
  have w': "w' = w2\<lparr>shopifyConnections := shopifyConnections w', nextId := nextId w'\<rparr>" "nextId w2 \<le> nextId w'"
    and same: "filter (\<lambda>y. shopify_storeConnectionId y \<noteq> i) (shopifyConnections w') =
      filter (\<lambda>y. shopify_storeConnectionId y \<noteq> i) (shopifyConnections w2)"
    using t by (auto simp: tokens_only_def)
  obtain st where st: "st \<in> set (storeConnections w2)" "store_id st = i" "store_merchantId st = m"
    using saved_for_store [OF s] .
  have stores: "storeConnections w' = storeConnections w2" by (subst w'(1)) simp
  have "shopify_storeConnectionId y \<noteq> i" if "of_others m w' y" for y
    using that st stores by (auto simp: of_others_def)
  then have "filter (of_others m w') (shopifyConnections w') = filter (of_others m w') (shopifyConnections w1)"
    using same filters(2) filter_weaker [of "\<lambda>y. shopify_storeConnectionId y \<noteq> i" _ _ "of_others m w'"] by metis
  moreover have "w' = w\<lparr>redis := redis (redis_del (nonce_key nonce) w), storeConnections := storeConnections w2,
      shopifyConnections := shopifyConnections w', nextId := nextId w'\<rparr>"
    by (subst w'(1), subst w2) (simp add: n)
  moreover have "nextId w \<le> nextId w'" using n saved_for_frame(4) [OF s] w'(2) by simp
  ultimately show ?thesis using filters(1) stores saved_for_keys(3) [OF s] by (simp add: connected_by_def n)
qed

lemma connected_redis:
  assumes "connected_by nonce m w w'"
  shows "redis w' = redis (redis_del (nonce_key nonce) w)" "orders w' = orders w"
proof -
  have eq: "w' = w\<lparr>redis := redis (redis_del (nonce_key nonce) w), storeConnections := storeConnections w',
      shopifyConnections := shopifyConnections w', nextId := nextId w'\<rparr>"
    using assms by (simp add: connected_by_def)
  show "redis w' = redis (redis_del (nonce_key nonce) w)" "orders w' = orders w" by (subst eq, simp)+
qed

lemma used_nonce: "connected_by nonce m w (redis_del (nonce_key nonce) w)"
  by (simp add: connected_by_def redis_del_def)

lemma connect_shop_effect:
  assumes run: "connect_shop S E code nonce shop (w, L) = (res, (w', L'))" and ok: "stores_ok E w" "nonces_ok E w"
  shows "w' = w \<and> isl res \<or> (\<exists>m sh. nonce_for E nonce m sh w \<and> shop = Some sh \<and> connected_by nonce m w w' \<and>
    (\<forall>i. res = Inr i \<longrightarrow> (\<forall>st \<in> set (storeConnections w'). store_id st = i \<longrightarrow> store_merchantId st = m)))"
proof (cases "consumeNonce E nonce shop w")
  case (Inl e)
  then show ?thesis using run by (auto simp: connect_shop_def)
next
  case (Inr p)
  then obtain m sh where n: "nonce_for E nonce m sh w" "shop = Some sh" "p = (Some m, redis_del (nonce_key nonce) w)"
    using consumeNonce_Inr [of E nonce shop w "fst p" "snd p"] ok(2) by (auto simp: prod_eq_iff)
  let ?w1 = "redis_del (nonce_key nonce) w"
  have ok1: "stores_ok E ?w1" using ok(1) by (simp add: stores_ok_def redis_del_def)
  obtain ex L1 where ex: "exchangeCodeForToken S sh code (?w1, L) = (ex, (?w1, L1))"
    by (simp add: exchangeCodeForToken_def shop_send_def)
  show ?thesis
  proof (cases "\<exists>data i w3. ex = Inr data \<and> saveStoreConnection S E (Some m) sh data ?w1 = Inr (i, w3)")
    case False
    then have "w' = ?w1 \<and> isl res" using run Inr n ex by (auto simp: connect_shop_def split: sum.splits)
    then show ?thesis using used_nonce n by auto
  next
    case True
    then obtain data i w3 where save: "ex = Inr data" "saveStoreConnection S E (Some m) sh data ?w1 = Inr (i, w3)" by blast
    obtain g w2 where g: "granted_tokens S E data ?w1 = Inr (g, w2)" "saved_for E m g i w2 w3"
      using saveStoreConnection_facts [OF ok1 save(2)] by blast
    have "tokens_only i w3 w' \<and> (\<forall>j. res = Inr j \<longrightarrow> j = i)"
    proof (cases "factory_create i w3")
      case (Inl e)
      then show ?thesis using run Inr n ex save by (auto simp: connect_shop_def)
    next
      case (Inr o')
      obtain r s' where reg: "registerWebhooks S E o' (w3, L1) = (r, s')" by (meson surj_pair)
      have "ss_storeConnectionId o' = i"
        using Inr by (auto simp: factory_create_def dest: find_first_SomeD split: option.splits if_splits)
      then show ?thesis
        using registerWebhooks_only [OF reg] run \<open>consumeNonce E nonce shop w = Inr p\<close> n ex save Inr reg by (auto simp: connect_shop_def)
    qed
    then show ?thesis using connected_saved [OF g(2)] granted_tokens_facts [OF g(1)] n by blast
  qed
qed

lemma callBack_sync_effect:
  assumes "callBack_sync S E i (w', L') = Some (w2, L2)" "connected_by nonce m w w'" "order_ids_ok E w"
    and own: "\<forall>st \<in> set (storeConnections w'). store_id st = i \<longrightarrow> store_merchantId st = m"
  shows "synced_after nonce m w w2"
proof -
  note c = assms(2) [unfolded connected_by_def]
  then have w': "w' = w\<lparr>redis := redis (redis_del (nonce_key nonce) w), storeConnections := storeConnections w',
      shopifyConnections := shopifyConnections w', nextId := nextId w'\<rparr>" by blast
  have same: "orders w' = orders w" "products w' = products w" "customers w' = customers w" by (subst w', simp)+
  have ids: "order_ids_ok E w'" using order_ids_ok_frame [OF assms(3) same(1)] c by blast
  show ?thesis
  proof (cases "factory_create i w'")
    case (Inl e)
    then have "w2 = w'" using assms(1) by (simp add: callBack_sync_def)
    moreover have "w' = w\<lparr>redis := redis (redis_del (nonce_key nonce) w), storeConnections := storeConnections w',
        shopifyConnections := shopifyConnections w', orders := orders w', products := products w', customers := customers w',
        nextId := nextId w'\<rparr>"
      using same by (subst (1) w') simp
    ultimately show ?thesis using c same by (simp add: synced_after_def)
  next
    case (Inr o')
    then obtain st where st: "st \<in> set (storeConnections w')" "store_id st = i" "ss_merchantId o' = store_merchantId st"
      "ss_storeConnectionId o' = i"
      by (auto simp: factory_create_def dest: find_first_SomeD split: option.splits if_splits)
    with own have m: "ss_merchantId o' = m" "store_merchantId st = m" by auto
    have "\<exists>p q. both_syncs S E o' (w', L') = Some (p, q, (w2, L2))"
      using assms(1) Inr by (auto simp: callBack_sync_def)
    then have y: "synced_for m i w' w2"
      using both_syncs_step [OF _ m(1) st(4), of S E "(w', L')"] ids by (auto simp: sync_step_def)
    have w2: "w2 = w'\<lparr>orders := orders w2, products := products w2, customers := customers w2,
        shopifyConnections := shopifyConnections w2, nextId := nextId w2\<rparr>"
      using y by (simp add: synced_for_def)
    have stores: "storeConnections w2 = storeConnections w'" by (subst w2) simp
    then have others: "of_others m w2 = of_others m w'" by (simp add: of_others_def fun_eq_iff)
    have "shopify_storeConnectionId x \<noteq> i" if "of_others m w' x" for x
      using that st(1,2) m(2) by (auto simp: of_others_def)
    then have "filter (of_others m w') (shopifyConnections w2) = filter (of_others m w') (shopifyConnections w')"
      using y filter_weaker [of "\<lambda>x. shopify_storeConnectionId x \<noteq> i" _ _ "of_others m w'"] by (metis synced_for_def)
    moreover have "w2 = w\<lparr>redis := redis (redis_del (nonce_key nonce) w), storeConnections := storeConnections w',
        shopifyConnections := shopifyConnections w2, orders := orders w2, products := products w2,
        customers := customers w2, nextId := nextId w2\<rparr>"
      by (subst w2, subst w') simp
    ultimately show ?thesis using c y same by (simp add: synced_after_def synced_for_def stores others)
  qed
qed

text \<open>C27. The OAuth callback changes nothing, and connects nothing, unless the query is signed with the application's
  secret and its \<open>state\<close> is a token that was given to a merchant for the very shop of the query.  Then the token is used
  up, and up to the answer only that merchant's connection is made or renewed.  The synchronisations that a connection
  starts, run one after the other, add to and update that merchant's products, customers and orders: the connections,
  products, customers and orders of every other merchant, and all other tables, stay as they were.\<close>

theorem callBack_only_own_store:
  assumes "callBack S E query (w, L) = (rep, (w', L'))" "stores_ok E w" "nonces_ok E w" "order_ids_ok E w"
    and "nonce = (case map_of query ''state'' of None \<Rightarrow> ''undefined'' | Some v \<Rightarrow> query_text E v)"
  shows "w' = w \<and> (\<forall>i. rep \<noteq> Reply 200 i) \<or> shopify_verifyHmac S E query \<and>
    (\<exists>m sh. query_str ''shop'' query = Some sh \<and> nonce_for E nonce m sh w \<and> redis_get E (nonce_key nonce) w' = None \<and>
       connected_by nonce m w w' \<and>
       (\<forall>i w2 L2. rep = Reply 200 i \<longrightarrow> callBack_sync S E i (w', L') = Some (w2, L2) \<longrightarrow> synced_after nonce m w w2))"
proof (cases "shopify_verifyHmac S E query")
  case False
  then show ?thesis using assms(1) by (auto simp: callBack_def)
next
  case True
  obtain code res where run: "connect_shop S E code nonce (query_str ''shop'' query) (w, L) = (res, (w', L'))"
    and rep: "rep = (case res of Inl e \<Rightarrow> Refuse 500 ''Failed to connect Shopify store.'' | Inr i \<Rightarrow> Reply 200 i)"
    using assms(1,5) True by (auto simp: callBack_def Let_def split: sum.splits prod.splits)
  show ?thesis
  proof (cases "w' = w \<and> isl res")
    case False
    then obtain m sh where m: "nonce_for E nonce m sh w" "query_str ''shop'' query = Some sh" "connected_by nonce m w w'"
      "\<And>i. res = Inr i \<Longrightarrow> \<forall>st \<in> set (storeConnections w'). store_id st = i \<longrightarrow> store_merchantId st = m"
      using connect_shop_effect [OF run assms(2,3)] by blast
    have "redis w' = redis (redis_del (nonce_key nonce) w)" using connected_redis(1) [OF m(3)] .
    then have "redis_get E (nonce_key nonce) w' = None"
      using redis_get_del [of E "nonce_key nonce" "nonce_key nonce" w] by (simp add: redis_get_def redis_entry_of_def)
    moreover have "synced_after nonce m w w2" if "rep = Reply 200 i" "callBack_sync S E i (w', L') = Some (w2, L2)" for i w2 L2
      using callBack_sync_effect [OF that(2) m(3) assms(4) m(4)] that(1) rep by (auto split: sum.splits)
    ultimately show ?thesis using True m(1-3) by blast
  qed (use rep in \<open>auto simp: isl_def\<close>)
qed

definition sample_oauth :: shop_env where
  "sample_oauth = sample_shopify\<lparr>shop_http := (\<lambda>n rq. Inr \<lparr>rs_status = 200, rs_data = sample_grant, rs_link = None\<rparr>)\<rparr>"

definition sample_installing :: world where
  "sample_installing = sample_merchant\<lparr>redis := [\<lparr>redis_key = nonce_key ''n'',
     redis_value = stringify_fields [(''merchantId'', ''m1''), (''shop'', ''a'')], redis_expiresAt = None\<rparr>]\<rparr>"

definition sample_query :: entities where
  "sample_query = [(''code'', JStr ''c''), (''hmac'', JStr ''seccode=c&shop=a&state=n''), (''shop'', JStr ''a''), (''state'', JStr ''n'')]"

theorem callBack_only_own_store_witness:
  "\<exists>i s'. callBack sample_oauth sample_env sample_query (sample_installing, []) = (Reply 200 i, s') \<and>
     map store_merchantId (storeConnections (fst s')) = [''m1''] \<and> orders (fst s') = orders sample_installing \<and>
     redis_get sample_env (nonce_key ''n'') sample_installing \<noteq> None \<and> redis_get sample_env (nonce_key ''n'') (fst s') = None"
proof -
  let ?r = "callBack sample_oauth sample_env sample_query (sample_installing, [])"
  have "(case ?r of (Reply k i, s') \<Rightarrow> k = 200 \<and> map store_merchantId (storeConnections (fst s')) = [''m1''] | _ \<Rightarrow> False)"
    by code_simp
  then obtain i w' L' where run: "?r = (Reply 200 i, (w', L'))" and stores: "map store_merchantId (storeConnections w') = [''m1'']"
    by (auto split: prod.splits reply.splits)
  have "stores_ok sample_env sample_installing"
    using inj_sample_cuid by (simp add: stores_ok_def unique_by_def sample_installing_def sample_merchant_def sample_defs)
  moreover have "nonces_ok sample_env sample_installing"
    by (auto simp: nonces_ok_def nonce_for_def sample_installing_def redis_get_def redis_entry_of_def live_def nonce_key_def find_first_def
        split: if_splits)
  moreover have "order_ids_ok sample_env sample_installing"
    using sample_ok inj_sample_cuid
    by (simp add: order_ids_ok_def sample_installing_def sample_merchant_def world_ok_def schema_ok_def fresh_ids_def)
  moreover have "''n'' = (case map_of sample_query ''state'' of None \<Rightarrow> ''undefined'' | Some v \<Rightarrow> query_text sample_env v)"
    by (simp add: sample_query_def query_text_def id_text_def)
  ultimately have "w' = sample_installing \<and> (\<forall>i. Reply 200 i \<noteq> Reply 200 i) \<or> (\<exists>m sh. nonce_for sample_env ''n'' m sh sample_installing \<and>
       redis_get sample_env (nonce_key ''n'') w' = None \<and> connected_by ''n'' m sample_installing w')"
    using callBack_only_own_store [OF run, of "''n''"] by blast
  then show ?thesis using run stores connected_redis(2) by (auto simp: nonce_for_def)
qed

end
