(* ===== verification/Hook_Manager.thy ===== *)
theory Hook_Manager
  imports Decimal
begin

text \<open>
  The hooks of plugins, \<open>OpenWA/src/core/hooks/hook-manager.service.ts\<close>: their registry and the chain of handlers an
  event runs through.  A handler is a function of its context; it throws, or answers whether to go on, new data and
  whether it reports an error.  A map is the list of its entries in insertion order.
\<close>

section \<open>State\<close>

record hook_context =
  hc_event :: string
  hc_data :: jval
  hc_sessionId :: "string option"
  hc_timestamp :: nat
  hc_source :: string

datatype hook_outcome = Hook_Throws | Hook_Answers bool "jval option" bool

record hook_registration =
  hr_id :: string
  hr_pluginId :: string
  hr_event :: string
  hr_handler :: "hook_context \<Rightarrow> hook_outcome"
  hr_priority :: int

record hook_manager =
  hm_hooks :: "(string \<times> hook_registration list) list"
  hm_pluginHooks :: "(string \<times> string list) list"

definition no_hooks :: hook_manager where
  "no_hooks = \<lparr>hm_hooks = [], hm_pluginHooks = []\<rparr>"

definition registrations :: "hook_manager \<Rightarrow> string \<Rightarrow> hook_registration list" where
  "registrations m event = coalesce (map_of (hm_hooks m) event) []"

section \<open>Registry\<close>

definition hook_register ::
  "string \<Rightarrow> string \<Rightarrow> (hook_context \<Rightarrow> hook_outcome) \<Rightarrow> int \<Rightarrow> nat \<Rightarrow> hook_manager \<Rightarrow> string \<times> hook_manager" where
  "hook_register pluginId event handler priority now m =
     (let i = pluginId @ '':'' @ event @ '':'' @ nat_text now;
          r = \<lparr>hr_id = i, hr_pluginId = pluginId, hr_event = event, hr_handler = handler, hr_priority = priority\<rparr>
      in (i, m\<lparr>hm_hooks := AList.update event (sort_key hr_priority (registrations m event @ [r])) (hm_hooks m),
               hm_pluginHooks := AList.update pluginId (List.insert i (coalesce (map_of (hm_pluginHooks m) pluginId) []))
                                   (hm_pluginHooks m)\<rparr>))"

fun remove_first :: "string \<Rightarrow> hook_registration list \<Rightarrow> hook_registration list" where
  "remove_first i [] = []"
| "remove_first i (r # rs) = (if hr_id r = i then rs else r # remove_first i rs)"

definition hook_unregister :: "string \<Rightarrow> hook_manager \<Rightarrow> hook_manager" where
  "hook_unregister i m =
     (case List.find (\<lambda>(_, rs). list_ex (\<lambda>r. hr_id r = i) rs) (hm_hooks m) of
        None \<Rightarrow> m
      | Some (event, rs) \<Rightarrow>
          (let r = hd (dropWhile (\<lambda>r. hr_id r \<noteq> i) rs)
           in m\<lparr>hm_hooks := AList.update event (remove_first i rs) (hm_hooks m),
                hm_pluginHooks :=
                  (case map_of (hm_pluginHooks m) (hr_pluginId r) of
                     None \<Rightarrow> hm_pluginHooks m
                   | Some ids \<Rightarrow> AList.update (hr_pluginId r) (removeAll i ids) (hm_pluginHooks m))\<rparr>))"

definition unregisterPlugin :: "string \<Rightarrow> hook_manager \<Rightarrow> hook_manager" where
  "unregisterPlugin pluginId m =
     (if map_of (hm_pluginHooks m) pluginId = None then m
      else m\<lparr>hm_hooks := map (\<lambda>(e, rs). (e, filter (\<lambda>r. hr_pluginId r \<noteq> pluginId) rs)) (hm_hooks m),
             hm_pluginHooks := AList.delete pluginId (hm_pluginHooks m)\<rparr>)"

definition hasHooks :: "hook_manager \<Rightarrow> string \<Rightarrow> bool" where
  "hasHooks m event = (registrations m event \<noteq> [])"

definition getHookCount :: "hook_manager \<Rightarrow> string \<Rightarrow> nat" where
  "getHookCount m event = length (registrations m event)"

definition getRegisteredHooks :: "hook_manager \<Rightarrow> (string \<times> (string \<times> int) list) list" where
  "getRegisteredHooks m = map (\<lambda>(e, rs). (e, map (\<lambda>r. (hr_pluginId r, hr_priority r)) rs)) (hm_hooks m)"

definition getPluginEvents :: "hook_manager \<Rightarrow> string \<Rightarrow> string list" where
  "getPluginEvents m pluginId = map fst (filter (\<lambda>(_, rs). list_ex (\<lambda>r. hr_pluginId r = pluginId) rs) (hm_hooks m))"

section \<open>Execution\<close>

fun run_chain :: "hook_context \<Rightarrow> hook_registration list \<Rightarrow> jval \<Rightarrow> bool \<times> jval" where
  "run_chain ctx [] currentData = (True, currentData)"
| "run_chain ctx (r # rs) currentData =
     (case hr_handler r (ctx\<lparr>hc_data := currentData\<rparr>) of
        Hook_Throws \<Rightarrow> run_chain ctx rs currentData
      | Hook_Answers go data err \<Rightarrow>
          (let d = (if \<not> err then coalesce data currentData else currentData)
           in if \<not> go then (False, d) else run_chain ctx rs d))"

definition runHandlers :: "hook_manager \<Rightarrow> string \<Rightarrow> jval \<Rightarrow> string option \<Rightarrow> string \<Rightarrow> nat \<Rightarrow> bool \<times> jval" where
  "runHandlers m event data sessionId source now =
     run_chain \<lparr>hc_event = event, hc_data = data, hc_sessionId = sessionId, hc_timestamp = now, hc_source = source\<rparr>
       (registrations m event) data"

text \<open>\<open>execute\<close> with the events already running on this path.\<close>

definition hook_execute ::
  "hook_manager \<Rightarrow> string set \<Rightarrow> string \<Rightarrow> jval \<Rightarrow> string option \<Rightarrow> string \<Rightarrow> nat \<Rightarrow> bool \<times> jval" where
  "hook_execute m inFlight event data sessionId source now =
     (if event \<in> inFlight then (True, data) else runHandlers m event data sessionId source now)"

section \<open>Facts\<close>

inductive hooks_reachable :: "hook_manager \<Rightarrow> bool" where
  none: "hooks_reachable no_hooks"
| register: "hooks_reachable m \<Longrightarrow> hooks_reachable (snd (hook_register p e h k now m))"
| unregister: "hooks_reachable m \<Longrightarrow> hooks_reachable (hook_unregister i m)"
| unregister_plugin: "hooks_reachable m \<Longrightarrow> hooks_reachable (unregisterPlugin p m)"

text \<open>Each event has one list, in the order of the priorities, and the plugin of every handler is tracked.\<close>

definition hooks_ok :: "hook_manager \<Rightarrow> bool" where
  "hooks_ok m \<longleftrightarrow>
     distinct (map fst (hm_hooks m)) \<and>
     (\<forall>e. sorted (map hr_priority (registrations m e)) \<and>
       (\<forall>r \<in> set (registrations m e). map_of (hm_pluginHooks m) (hr_pluginId r) \<noteq> None))"

lemma map_of_map_snd: "map_of (map (\<lambda>(e, rs). (e, f rs)) xs) k = map_option f (map_of xs k)"
  by (induction xs) auto

lemma registrations_update:
  "registrations (m\<lparr>hm_hooks := AList.update e rs (hm_hooks m), hm_pluginHooks := t\<rparr>) e' =
     (if e' = e then rs else registrations m e')"
  by (simp add: registrations_def update_conv' coalesce_def)

lemma registrations_unregisterPlugin:
  "map_of (hm_pluginHooks m) p \<noteq> None \<Longrightarrow>
    registrations (unregisterPlugin p m) e = filter (\<lambda>r. hr_pluginId r \<noteq> p) (registrations m e)"
  by (auto simp: registrations_def unregisterPlugin_def map_of_map_snd coalesce_def split: option.splits)

lemma remove_first_subset: "set (remove_first i rs) \<subseteq> set rs"
  by (induction rs) auto

lemma remove_first_sorted: "sorted (map hr_priority rs) \<Longrightarrow> sorted (map hr_priority (remove_first i rs))"
  using remove_first_subset by (induction rs) auto

lemma hooks_ok_register: "hooks_ok m \<Longrightarrow> hooks_ok (snd (hook_register p e h k now m))"
  by (auto simp: hooks_ok_def hook_register_def Let_def registrations_update distinct_update update_conv' split: if_splits)

lemma find_hook_entry:
  assumes "hooks_ok m" "List.find (\<lambda>(_, rs). list_ex (\<lambda>r. hr_id r = i) rs) (hm_hooks m) = Some (e, rs)"
  shows "registrations m e = rs" "list_ex (\<lambda>r. hr_id r = i) rs"
proof -
  from assms(2) have "(e, rs) \<in> set (hm_hooks m)" "list_ex (\<lambda>r. hr_id r = i) rs"
    by (auto simp: find_Some_iff in_set_conv_nth)
  with assms(1) show "registrations m e = rs" "list_ex (\<lambda>r. hr_id r = i) rs"
    by (auto simp: hooks_ok_def registrations_def coalesce_def split: option.splits)
qed

lemma hooks_ok_unregister: "hooks_ok m \<Longrightarrow> hooks_ok (hook_unregister i m)"
proof (cases "List.find (\<lambda>(_, rs). list_ex (\<lambda>r. hr_id r = i) rs) (hm_hooks m)")
  case (Some x)
  assume ok: "hooks_ok m"
  obtain e rs where x: "x = (e, rs)" by fastforce
  have rs: "registrations m e = rs" using find_hook_entry [OF ok] Some x by auto
  define t where "t = hm_pluginHooks (hook_unregister i m)"
  have t: "map_of t p = None \<longleftrightarrow> map_of (hm_pluginHooks m) p = None" for p
    by (auto simp: t_def hook_unregister_def Some x Let_def update_conv' split: option.splits)
  have "hook_unregister i m = m\<lparr>hm_hooks := AList.update e (remove_first i rs) (hm_hooks m), hm_pluginHooks := t\<rparr>"
    by (simp add: t_def hook_unregister_def Some x Let_def)
  then have reg: "registrations (hook_unregister i m) e' = (if e' = e then remove_first i rs else registrations m e')" for e'
    by (simp only: registrations_update)
  have d: "distinct (map fst (hm_hooks (hook_unregister i m)))"
    using ok by (simp add: hooks_ok_def hook_unregister_def Some x Let_def distinct_update)
  have "sorted (map hr_priority (remove_first i rs))"
    using remove_first_sorted ok rs unfolding hooks_ok_def by blast
  then show ?thesis
    using ok rs d remove_first_subset [of i rs] t unfolding hooks_ok_def reg t_def [symmetric] by (auto split: if_splits)
qed (simp add: hook_unregister_def)

lemma hooks_ok_unregister_plugin: "hooks_ok m \<Longrightarrow> hooks_ok (unregisterPlugin p m)"
proof (cases "map_of (hm_pluginHooks m) p = None")
  case False
  assume ok: "hooks_ok m"
  have "map fst (hm_hooks (unregisterPlugin p m)) = map fst (hm_hooks m)"
    by (simp add: unregisterPlugin_def comp_def split_def)
  moreover have "map_of (hm_pluginHooks (unregisterPlugin p m)) q = (if q = p then None else map_of (hm_pluginHooks m) q)" for q
    using False by (simp add: unregisterPlugin_def delete_conv')
  ultimately show ?thesis
    using ok registrations_unregisterPlugin [OF False] by (auto simp: hooks_ok_def sorted_filter)
qed (simp add: unregisterPlugin_def)

lemma reachable_hooks_ok: "hooks_reachable m \<Longrightarrow> hooks_ok m"
proof (induction rule: hooks_reachable.induct)
  case none
  then show ?case by (simp add: hooks_ok_def no_hooks_def registrations_def)
qed (simp_all add: hooks_ok_register hooks_ok_unregister hooks_ok_unregister_plugin)

text \<open>A handler that only fails is as if it were not there.\<close>

lemma failing_handler_skipped:
  assumes "\<And>ctx. hr_handler r ctx = Hook_Throws \<or> (\<exists>d. hr_handler r ctx = Hook_Answers True d True)"
  shows "run_chain ctx (rs @ r # ss) d = run_chain ctx (rs @ ss) d"
proof (induction rs arbitrary: d)
  case Nil
  show ?case using assms [of "ctx\<lparr>hc_data := d\<rparr>"] by auto
qed (auto split: hook_outcome.splits simp: Let_def)

text \<open>Two handlers of one plugin and event registered in the same millisecond share their id.\<close>

lemma same_instant_same_id:
  "fst (hook_register p e h k now m) = fst (hook_register p e h' k' now m')"
  by (simp add: hook_register_def Let_def)

text \<open>
  The registry of hooks, after any registrations and removals: the handlers of an event run in the order of their
  priorities, a removed plugin has no handler left for any event while the others keep theirs in order, and a handler
  that only fails changes nothing for the rest of the chain.
\<close>

theorem hooks_in_order:
  assumes "hooks_reachable m"
  shows "sorted (map hr_priority (registrations m e)) \<and>
    registrations (unregisterPlugin p m) e = filter (\<lambda>r. hr_pluginId r \<noteq> p) (registrations m e) \<and>
    (\<forall>rs r ss. registrations m e = rs @ r # ss \<and>
       (\<forall>ctx. hr_handler r ctx = Hook_Throws \<or> (\<exists>d. hr_handler r ctx = Hook_Answers True d True)) \<longrightarrow>
       (\<forall>ctx d. run_chain ctx (registrations m e) d = run_chain ctx (rs @ ss) d))"
proof (intro conjI)
  have ok: "hooks_ok m" by (rule reachable_hooks_ok [OF assms])
  then show "sorted (map hr_priority (registrations m e))" by (simp add: hooks_ok_def)
  show "registrations (unregisterPlugin p m) e = filter (\<lambda>r. hr_pluginId r \<noteq> p) (registrations m e)"
  proof (cases "map_of (hm_pluginHooks m) p = None")
    case True
    with ok have "\<forall>r \<in> set (registrations m e). hr_pluginId r \<noteq> p" unfolding hooks_ok_def by metis
    then show ?thesis using True by (simp add: unregisterPlugin_def filter_id_conv)
  qed (rule registrations_unregisterPlugin)
qed (auto simp: failing_handler_skipped)

text \<open>Two plugins, the later one with the smaller priority.\<close>

theorem hooks_in_order_witness:
  "map hr_pluginId (registrations
     (snd (hook_register ''b'' ''webhook:before'' (\<lambda>_. Hook_Throws) 10 8
       (snd (hook_register ''a'' ''webhook:before'' (\<lambda>_. Hook_Throws) 100 7 no_hooks)))) ''webhook:before'') = [''b'', ''a''] \<and>
   sorted (map hr_priority (registrations
     (snd (hook_register ''b'' ''webhook:before'' (\<lambda>_. Hook_Throws) 10 8
       (snd (hook_register ''a'' ''webhook:before'' (\<lambda>_. Hook_Throws) 100 7 no_hooks)))) ''webhook:before''))"
  using hooks_in_order [OF hooks_reachable.register [OF hooks_reachable.register [OF hooks_reachable.none]]]
  by (auto simp: hook_register_def Let_def registrations_def no_hooks_def update_conv')

end
