(* ===== verification/Wa_Id.thy ===== *)
theory Wa_Id
  imports Decimal
begin

text \<open>
  Identities of WhatsApp, \<open>OpenWA/src/engine/identity/wa-id.ts\<close> and \<open>wa-id.value.ts\<close>, and the table that maps
  privacy ids to phones, \<open>lid-mapping-store.service.ts\<close>.  Identities are ASCII.  A resolver that is absent maps every
  id to \<open>None\<close>, which is \<open>null\<close>.
\<close>

section \<open>Identities\<close>

datatype WaIdKind = Wa_User | Wa_Group | Wa_Lid | Wa_Status | Wa_Newsletter | Wa_Broadcast | Wa_Unknown

definition USER_DOMAINS :: "string list" where
  "USER_DOMAINS = [''c.us'', ''s.whatsapp.net'']"

record ParsedWaId =
  pw_kind :: WaIdKind
  pw_userPart :: string
  pw_device :: "string option"
  pw_raw :: string

definition userPart :: "string \<Rightarrow> string" where
  "userPart jid = hd (split_on (CHR '':'') (hd (split_on (CHR ''@'') jid)))"

text \<open>The text behind the last \<open>@\<close>.\<close>

definition after_at :: "string \<Rightarrow> string" where
  "after_at s = rev (takeWhile (\<lambda>c. c \<noteq> CHR ''@'') (rev s))"

definition domain_kind :: "string \<Rightarrow> WaIdKind" where
  "domain_kind domain =
     (if domain \<in> set USER_DOMAINS then Wa_User else if domain = ''g.us'' then Wa_Group
      else if domain = ''lid'' then Wa_Lid else if domain = ''newsletter'' then Wa_Newsletter
      else if domain = ''broadcast'' then Wa_Broadcast else Wa_Unknown)"

definition parseWaId :: "string \<Rightarrow> ParsedWaId" where
  "parseWaId jid =
     (let lower = ascii_lower (js_trim jid) in
      if lower = ''status@broadcast'' then \<lparr>pw_kind = Wa_Status, pw_userPart = ''status'', pw_device = None, pw_raw = jid\<rparr>
      else if CHR ''@'' \<notin> set lower then \<lparr>pw_kind = Wa_Unknown, pw_userPart = lower, pw_device = None, pw_raw = jid\<rparr>
      else
        (let domain = after_at lower;
             parts = split_on (CHR '':'') (take (length lower - length domain - 1) lower)
         in \<lparr>pw_kind = domain_kind domain, pw_userPart = hd parts,
              pw_device = (case tl parts of [] \<Rightarrow> None | d # _ \<Rightarrow> Some d), pw_raw = jid\<rparr>))"

definition toNeutralJid :: "string \<Rightarrow> (string \<Rightarrow> string option) \<Rightarrow> string" where
  "toNeutralJid jid resolvePhone =
     (if jid = [] then jid
      else
        (let parsed = parseWaId jid in
         case pw_kind parsed of
           Wa_User \<Rightarrow> pw_userPart parsed @ ''@c.us''
         | Wa_Group \<Rightarrow> pw_userPart parsed @ ''@g.us''
         | Wa_Lid \<Rightarrow>
             (case resolvePhone jid of
                Some phone \<Rightarrow> (if phone \<noteq> [] then phone @ ''@c.us'' else pw_userPart parsed @ ''@lid'')
              | None \<Rightarrow> pw_userPart parsed @ ''@lid'')
         | Wa_Status \<Rightarrow> ''status@broadcast''
         | Wa_Newsletter \<Rightarrow> pw_userPart parsed @ ''@newsletter''
         | Wa_Broadcast \<Rightarrow> pw_userPart parsed @ ''@broadcast''
         | Wa_Unknown \<Rightarrow> jid))"

section \<open>The value object\<close>

record WaId =
  wi_kind :: WaIdKind
  wi_raw :: string
  wi_phone :: "string option"
  wi_lid :: "string option"
  wi_groupId :: "string option"

definition fromEngineJid :: "string \<Rightarrow> (string \<Rightarrow> string option) \<Rightarrow> WaId" where
  "fromEngineJid jid resolvePhone =
     (let parsed = parseWaId jid; bare = \<lparr>wi_kind = pw_kind parsed, wi_raw = jid, wi_phone = None, wi_lid = None, wi_groupId = None\<rparr> in
      case pw_kind parsed of
        Wa_User \<Rightarrow> bare\<lparr>wi_phone := Some (pw_userPart parsed)\<rparr>
      | Wa_Group \<Rightarrow> bare\<lparr>wi_groupId := Some (pw_userPart parsed)\<rparr>
      | Wa_Lid \<Rightarrow> bare\<lparr>wi_phone := resolvePhone jid, wi_lid := Some (pw_userPart parsed)\<rparr>
      | _ \<Rightarrow> bare)"

definition fromUserInput :: "string \<Rightarrow> WaId" where
  "fromUserInput value =
     (let trimmed = js_trim value in
      if trimmed \<noteq> [] \<and> CHR ''@'' \<notin> set trimmed then
        (let digits = filter is_digit trimmed in
         \<lparr>wi_kind = Wa_User, wi_raw = trimmed, wi_phone = Some (if digits \<noteq> [] then digits else trimmed),
          wi_lid = None, wi_groupId = None\<rparr>)
      else fromEngineJid trimmed (\<lambda>_. None))"

definition neutral_user :: "string option \<Rightarrow> string" where
  "neutral_user p = (case p of Some s \<Rightarrow> s | None \<Rightarrow> ''undefined'')"

definition toNeutral :: "WaId \<Rightarrow> string" where
  "toNeutral i =
     (case wi_kind i of
        Wa_User \<Rightarrow> neutral_user (wi_phone i) @ ''@c.us''
      | Wa_Group \<Rightarrow> neutral_user (wi_groupId i) @ ''@g.us''
      | Wa_Lid \<Rightarrow>
          (case wi_phone i of
             Some phone \<Rightarrow> (if phone \<noteq> [] then phone @ ''@c.us'' else neutral_user (wi_lid i) @ ''@lid'')
           | None \<Rightarrow> neutral_user (wi_lid i) @ ''@lid'')
      | Wa_Status \<Rightarrow> ''status@broadcast''
      | Wa_Newsletter \<Rightarrow> userPart (wi_raw i) @ ''@newsletter''
      | Wa_Broadcast \<Rightarrow> userPart (wi_raw i) @ ''@broadcast''
      | Wa_Unknown \<Rightarrow> wi_raw i)"

definition present :: "string option \<Rightarrow> bool" where
  "present s \<longleftrightarrow> s \<noteq> None \<and> s \<noteq> Some []"

definition refersToSamePerson :: "WaId \<Rightarrow> WaId \<Rightarrow> bool option" where
  "refersToSamePerson i j =
     (if present (wi_lid i) \<and> present (wi_lid j) then Some (wi_lid i = wi_lid j)
      else if present (wi_phone i) \<and> present (wi_phone j) then Some (wi_phone i = wi_phone j)
      else None)"

section \<open>Phones of privacy ids\<close>

text \<open>
  The two indexes of \<open>LidMappingStoreService\<close>: \<open>None\<close> inside the first is the negative result \<open>null\<close>.  A set of ids
  is the list of its elements in insertion order.  \<open>ls_rows\<close> is the persisted table.
\<close>

record lid_store =
  lidToPhone :: "string \<Rightarrow> string option option"
  phoneToLids :: "string \<Rightarrow> string list option"
  ls_rows :: "(string \<times> string option) list"

definition lid_init :: "(string \<times> string option) list \<Rightarrow> lid_store" where
  "lid_init rows = \<lparr>lidToPhone = (\<lambda>_. None), phoneToLids = (\<lambda>_. None), ls_rows = rows\<rparr>"

definition getCached :: "lid_store \<Rightarrow> string \<Rightarrow> string option option" where
  "getCached s lid = lidToPhone s lid"

definition lidsForPhone :: "lid_store \<Rightarrow> string \<Rightarrow> string list" where
  "lidsForPhone s phone = (case phoneToLids s phone of Some lids \<Rightarrow> lids | None \<Rightarrow> [])"

definition drop_reverse :: "string \<Rightarrow> string option \<Rightarrow> lid_store \<Rightarrow> lid_store" where
  "drop_reverse lid phone s =
     (case lidToPhone s lid of
        Some (Some prev) \<Rightarrow>
          (if prev \<noteq> [] \<and> Some prev \<noteq> phone
           then s\<lparr>phoneToLids := (phoneToLids s)(prev := map_option (removeAll lid) (phoneToLids s prev))\<rparr> else s)
      | _ \<Rightarrow> s)"

definition index_lid :: "string \<Rightarrow> string option \<Rightarrow> lid_store \<Rightarrow> lid_store" where
  "index_lid lid phone s =
     (let s1 = drop_reverse lid phone s; s2 = s1\<lparr>lidToPhone := (lidToPhone s1)(lid \<mapsto> phone)\<rparr> in
      case phone of
        Some p \<Rightarrow>
          (if p = [] then s2
           else s2\<lparr>phoneToLids := (phoneToLids s2)(p \<mapsto> List.insert lid (lidsForPhone s2 p))\<rparr>)
      | None \<Rightarrow> s2)"

text \<open>\<open>remember\<close>: the flag says whether the upsert succeeds, a failure is logged only.\<close>

definition remember :: "bool \<Rightarrow> string \<Rightarrow> string option \<Rightarrow> lid_store \<Rightarrow> lid_store" where
  "remember persists lid phone s =
     (if lid = [] \<or> lidToPhone s lid = Some phone then s
      else
        (let s1 = index_lid lid phone s in
         if persists then s1\<lparr>ls_rows := AList.update lid phone (ls_rows s1)\<rparr> else s1))"

text \<open>Loading the table at start; a failing query leaves the indexes empty.\<close>

definition onModuleInit :: "bool \<Rightarrow> lid_store \<Rightarrow> lid_store" where
  "onModuleInit reads s = (if reads then foldl (\<lambda>s r. index_lid (fst r) (snd r) s) s (ls_rows s) else s)"

section \<open>Facts on identities\<close>

lemma split_on_hd_last: "hd (split_on c (s @ c # t)) = hd (split_on c s)" for s :: string
proof (induction s)
  case (Cons x s)
  have "split_on c s \<noteq> []" "split_on c (s @ c # t) \<noteq> []"
    by (induction s) (auto split: list.splits)
  with Cons show ?case by (auto split: list.splits)
qed simp

text \<open>The neutral text of the value object is the one the adapters emit, except for channels, whose local part it takes
  from the text as given.\<close>

lemma toNeutral_agrees:
  assumes "pw_kind (parseWaId jid) \<in> {Wa_Newsletter, Wa_Broadcast} \<Longrightarrow> userPart jid = pw_userPart (parseWaId jid)"
  shows "toNeutral (fromEngineJid jid r) = toNeutralJid jid r"
proof (cases "jid = []")
  case True
  then show ?thesis
    by (simp add: toNeutral_def fromEngineJid_def toNeutralJid_def parseWaId_def ascii_lower_def)
next
  case False
  then show ?thesis
    using assms
    by (cases "pw_kind (parseWaId jid)")
      (auto simp: toNeutral_def fromEngineJid_def toNeutralJid_def neutral_user_def Let_def split: option.splits)
qed

lemma channel_case_differs:
  "toNeutral (fromEngineJid ''AbC@newsletter'' (\<lambda>_. None)) = ''AbC@newsletter'' \<and>
   toNeutralJid ''AbC@newsletter'' (\<lambda>_. None) = ''abc@newsletter''"
  by code_simp

text \<open>Printable ASCII is not white space.\<close>

definition printable :: "char \<Rightarrow> bool" where
  "printable c \<longleftrightarrow> 33 \<le> (of_char c :: nat) \<and> (of_char c :: nat) \<le> 126"

lemma strip_any_None: "(\<And>p. p \<in> set ps \<Longrightarrow> p \<noteq> [] \<and> hd p \<noteq> c) \<Longrightarrow> strip_any ps (c # s) = None"
proof (induction ps)
  case (Cons p ps)
  then have "strip_any ps (c # s) = None" "p \<noteq> []" "hd p \<noteq> c" by simp_all
  then show ?case by (cases p) auto
qed simp

lemma js_trim_printable:
  assumes "s \<noteq> []" "printable (hd s)" "printable (last s)"
  shows "js_trim s = s"
proof -
  obtain c t where s: "s = c # t" using assms(1) by (cases s) auto
  obtain d u where r: "rev s = d # u" using assms(1) by (cases "rev s") auto
  have d: "printable d" using assms(3) r by (metis assms(1) hd_rev list.sel(1))
  have "strip_any js_whitespace (c # t) = None"
    using assms(2) by (intro strip_any_None) (auto simp: js_whitespace_def s printable_def)
  moreover have "strip_any (map rev js_whitespace) (d # u) = None"
    using d by (intro strip_any_None) (auto simp: js_whitespace_def printable_def)
  ultimately have f: "trim_fuel n js_whitespace (c # t) = c # t" "trim_fuel n (map rev js_whitespace) (d # u) = d # u" for n
    by (cases n; simp)+
  have "js_trim_start s = s" unfolding js_trim_start_def s by (rule f(1))
  moreover have "js_trim_end s = rev (rev s)" unfolding js_trim_end_def r by (simp only: f(2))
  ultimately show ?thesis by (simp add: js_trim_def)
qed

lemma printable_digit: "is_digit c \<Longrightarrow> printable c"
  by (auto simp: is_digit_def printable_def)

text \<open>A phone in any of its spellings: with a device or not, in either of the two domains.\<close>

definition dialect :: "string \<Rightarrow> string option \<Rightarrow> string \<Rightarrow> string" where
  "dialect phone device domain = phone @ (case device of None \<Rightarrow> [] | Some n \<Rightarrow> '':'' @ n) @ ''@'' @ domain"

lemma ascii_lower_digits: "list_all is_digit s \<Longrightarrow> ascii_lower s = s"
  by (induction s) (auto simp: ascii_lower_def ascii_lower_char_def is_digit_def)

lemma digits_plain: "list_all is_digit s \<Longrightarrow> CHR ''@'' \<notin> set s \<and> CHR '':'' \<notin> set s"
  by (auto simp: list_all_iff is_digit_def)

lemma takeWhile_tail: "c \<notin> set s \<Longrightarrow> takeWhile (\<lambda>x. x \<noteq> c) (rev s @ c # t) = rev s"
  by (subst takeWhile_append2) auto

lemma parse_dialect:
  assumes "list_all is_digit phone" "phone \<noteq> []" "domain \<in> {''c.us'', ''s.whatsapp.net'', ''lid''}"
    and "\<And>n. device = Some n \<Longrightarrow> list_all is_digit n"
  shows "pw_userPart (parseWaId (dialect phone device domain)) = phone \<and>
    pw_kind (parseWaId (dialect phone device domain)) = domain_kind domain"
proof -
  define loc where "loc = phone @ (case device of None \<Rightarrow> [] | Some n \<Rightarrow> '':'' @ n)"
  define j where "j = loc @ CHR ''@'' # domain"
  have d: "dialect phone device domain = j" by (simp add: dialect_def j_def loc_def)
  have loc: "ascii_lower loc = loc" "CHR ''@'' \<notin> set loc" "hd (split_on (CHR '':'') loc) = phone"
    using assms(1) digits_plain [OF assms(1)] ascii_lower_digits [OF assms(1)]
      assms(4) digits_plain [OF assms(4)] ascii_lower_digits [OF assms(4)]
    by (cases device; simp add: loc_def ascii_lower_def ascii_lower_char_def split_on_once split_on_none)+
  have low: "ascii_lower domain = domain" "CHR ''@'' \<notin> set domain" "domain \<noteq> []" "printable (last domain)"
    using assms(3) by (auto simp: ascii_lower_def ascii_lower_char_def printable_def)
  have "hd j = hd phone" "last j = last domain"
    using assms(2) low by (simp_all add: j_def loc_def)
  then have t: "js_trim j = j"
    using assms(1,2) low by (intro js_trim_printable) (auto simp: j_def list_all_iff intro!: printable_digit)
  have l: "ascii_lower j = j" using loc low by (simp add: j_def ascii_lower_def ascii_lower_char_def)
  have a: "after_at j = domain"
    using low(2) by (simp add: after_at_def j_def takeWhile_tail)
  have ne: "j \<noteq> ''status@broadcast''"
  proof
    assume "j = ''status@broadcast''"
    then have "after_at j = ''broadcast''" by (simp only:) code_simp
    then show False using a assms(3) by auto
  qed
  have "CHR ''@'' \<in> set j" by (simp add: j_def)
  then show ?thesis
    unfolding d using ne a loc by (simp add: parseWaId_def Let_def t l) (simp add: j_def)
qed

section \<open>Facts on the indexes\<close>

text \<open>The reverse index is the inverse of the forward one.\<close>

definition lid_inv :: "lid_store \<Rightarrow> bool" where
  "lid_inv s \<longleftrightarrow>
     (\<forall>p. distinct (lidsForPhone s p) \<and>
       (\<forall>lid. lid \<in> set (lidsForPhone s p) \<longleftrightarrow> p \<noteq> [] \<and> lidToPhone s lid = Some (Some p)))"

lemma lid_init_inv: "lid_inv (lid_init rows)"
  by (simp add: lid_inv_def lid_init_def lidsForPhone_def)

lemma drop_reverse_lids:
  "lidsForPhone (drop_reverse lid phone s) p =
     (if (case lidToPhone s lid of Some (Some prev) \<Rightarrow> prev \<noteq> [] \<and> Some prev \<noteq> phone \<and> p = prev | _ \<Rightarrow> False)
      then removeAll lid (lidsForPhone s p) else lidsForPhone s p)"
  by (auto simp: drop_reverse_def lidsForPhone_def split: option.splits)

lemma drop_reverse_forward [simp]: "lidToPhone (drop_reverse lid phone s) = lidToPhone s"
  by (auto simp: drop_reverse_def split: option.splits)

lemma index_lid_forward: "lidToPhone (index_lid lid phone s) = (lidToPhone s)(lid \<mapsto> phone)"
  by (auto simp: index_lid_def Let_def split: option.splits)

lemma index_lid_lids:
  "lidsForPhone (index_lid lid phone s) p =
     (if phone = Some p \<and> p \<noteq> [] then List.insert lid (lidsForPhone (drop_reverse lid phone s) p)
      else lidsForPhone (drop_reverse lid phone s) p)"
  by (auto simp: index_lid_def Let_def lidsForPhone_def split: option.splits)

lemma index_lid_inv:
  assumes "lid_inv s"
  shows "lid_inv (index_lid lid phone s)"
  unfolding lid_inv_def
proof (intro allI conjI)
  fix p lid'
  have s: "distinct (lidsForPhone s p)" "x \<in> set (lidsForPhone s p) \<longleftrightarrow> p \<noteq> [] \<and> lidToPhone s x = Some (Some p)" for x
    using assms by (auto simp: lid_inv_def)
  then show "distinct (lidsForPhone (index_lid lid phone s) p)"
    by (auto simp: index_lid_lids drop_reverse_lids distinct_removeAll)
  show "lid' \<in> set (lidsForPhone (index_lid lid phone s) p) \<longleftrightarrow>
      p \<noteq> [] \<and> lidToPhone (index_lid lid phone s) lid' = Some (Some p)"
    using s(2) by (auto simp: index_lid_lids drop_reverse_lids index_lid_forward split: option.splits)
qed

lemma remember_inv: "lid_inv s \<Longrightarrow> lid_inv (remember persists lid phone s)"
  using index_lid_inv [of s lid phone] by (auto simp: remember_def Let_def lid_inv_def lidsForPhone_def)

lemma load_inv: "lid_inv s \<Longrightarrow> lid_inv (foldl (\<lambda>s r. index_lid (fst r) (snd r) s) s rows)"
  by (induction rows arbitrary: s) (simp_all add: index_lid_inv)

lemma load_forward:
  "lidToPhone (foldl (\<lambda>s r. index_lid (fst r) (snd r) s) s rows) = lidToPhone s ++ map_of (rev rows)"
  by (induction rows arbitrary: s) (auto simp: index_lid_forward map_add_def fun_eq_iff split: option.splits)

lemma map_of_rev_unique: "distinct (map fst rows) \<Longrightarrow> map_of (rev rows) = map_of rows"
  by (rule map_of_eqI) (auto simp: rev_map [symmetric] intro!: map_of_is_SomeI)

text \<open>A run: loading the table, and then any sequence of calls of \<open>remember\<close>.\<close>

definition lid_run :: "bool \<Rightarrow> (string \<times> string option) list \<Rightarrow> (bool \<times> string \<times> string option) list \<Rightarrow> lid_store" where
  "lid_run reads rows calls =
     foldl (\<lambda>s (ok, lid, phone). remember ok lid phone s) (onModuleInit reads (lid_init rows)) calls"

lemma lid_run_inv: "lid_inv (lid_run reads rows calls)"
proof -
  have "lid_inv (onModuleInit reads (lid_init rows))"
    by (simp add: onModuleInit_def lid_init_inv load_inv)
  then show ?thesis
    unfolding lid_run_def by (induction calls rule: rev_induct) (auto simp: remember_inv split: prod.splits)
qed

lemma remember_all_persisted:
  assumes "\<forall>lid. lidToPhone s lid = map_of (ls_rows s) lid" "distinct (map fst (ls_rows s))"
  shows "(\<forall>l. lidToPhone (remember True lid phone s) l = map_of (ls_rows (remember True lid phone s)) l) \<and>
    distinct (map fst (ls_rows (remember True lid phone s)))"
proof -
  have rows: "ls_rows (index_lid lid phone s) = ls_rows s"
    by (auto simp: index_lid_def Let_def drop_reverse_def split: option.splits)
  then show ?thesis
    using assms
    by (auto simp: remember_def Let_def index_lid_forward update_conv' distinct_update)
qed

lemma lid_run_persisted:
  assumes "distinct (map fst rows)" "\<forall>c \<in> set calls. fst c"
  shows "(\<forall>l. lidToPhone (lid_run True rows calls) l = map_of (ls_rows (lid_run True rows calls)) l) \<and>
    distinct (map fst (ls_rows (lid_run True rows calls)))"
  using assms(2)
proof (induction calls rule: rev_induct)
  case Nil
  have "ls_rows (foldl (\<lambda>s r. index_lid (fst r) (snd r) s) s rs) = ls_rows s" for s and rs :: "(string \<times> string option) list"
    by (induction rs arbitrary: s) (auto simp: index_lid_def Let_def drop_reverse_def split: option.splits)
  then show ?case
    using assms(1) map_of_rev_unique [OF assms(1)]
    by (simp add: lid_run_def onModuleInit_def load_forward) (simp add: lid_init_def)
next
  case (snoc c calls)
  then show ?case
    using remember_all_persisted [of "lid_run True rows calls" "fst (snd c)" "snd (snd c)"]
    by (auto simp: lid_run_def split: prod.splits)
qed

text \<open>C39.
  The phones of privacy ids: after loading the table and any calls of \<open>remember\<close>, in whatever order and whether the
  database accepts the writes or not, the ids listed for a phone are exactly those that resolve to it, each once.  When
  the table could be read and every write was accepted, a restart resolves every id as before.
\<close>

theorem lid_indexes_agree:
  "(\<forall>p. distinct (lidsForPhone (lid_run reads rows calls) p) \<and>
     (\<forall>lid. lid \<in> set (lidsForPhone (lid_run reads rows calls) p) \<longleftrightarrow>
       p \<noteq> [] \<and> getCached (lid_run reads rows calls) lid = Some (Some p))) \<and>
   (reads \<and> distinct (map fst rows) \<and> (\<forall>c \<in> set calls. fst c) \<longrightarrow>
     getCached (onModuleInit True (lid_init (ls_rows (lid_run reads rows calls)))) = getCached (lid_run reads rows calls))"
proof (intro conjI impI)
  show "\<forall>p. distinct (lidsForPhone (lid_run reads rows calls) p) \<and>
     (\<forall>lid. lid \<in> set (lidsForPhone (lid_run reads rows calls) p) \<longleftrightarrow>
       p \<noteq> [] \<and> getCached (lid_run reads rows calls) lid = Some (Some p))"
    using lid_run_inv [of reads rows calls] unfolding lid_inv_def getCached_def .
  assume h: "reads \<and> distinct (map fst rows) \<and> (\<forall>c \<in> set calls. fst c)"
  then have p: "lidToPhone (lid_run reads rows calls) = map_of (ls_rows (lid_run reads rows calls))"
    "distinct (map fst (ls_rows (lid_run reads rows calls)))"
    using lid_run_persisted [of rows calls] by auto
  show "getCached (onModuleInit True (lid_init (ls_rows (lid_run reads rows calls)))) = getCached (lid_run reads rows calls)"
    unfolding getCached_def p(1) fun_eq_iff
    by (simp add: onModuleInit_def load_forward) (simp add: lid_init_def map_of_rev_unique p(2))
qed

text \<open>An id that moves from one phone to another, and the table read again.\<close>

theorem lid_indexes_agree_witness:
  "lidsForPhone (lid_run True [] [(True, ''77'', Some ''1''), (True, ''77'', Some ''2'')]) ''1'' = [] \<and>
   getCached (onModuleInit True (lid_init (ls_rows (lid_run True [] [(True, ''77'', Some ''1''), (True, ''77'', Some ''2'')])))) ''77'' =
     Some (Some ''2'')"
proof -
  let ?s = "lid_run True [] [(True, ''77'', Some ''1''), (True, ''77'', Some ''2'')]"
  have "getCached ?s ''77'' = Some (Some ''2'')" "lidsForPhone ?s ''1'' = []" by code_simp+
  then show ?thesis
    using lid_indexes_agree [of True "[]" "[(True, ''77'', Some ''1''), (True, ''77'', Some ''2'')]"] by simp
qed

end
