(* ===== verification/Webhook_Filters.thy ===== *)
theory Webhook_Filters
  imports Wa_Id
begin

text \<open>
  The filters of a webhook, \<open>OpenWA/src/modules/webhook/filters\<close>: the registry of fields, the validation of a
  stored filter and its evaluation on an event.  Payloads and filters are JSON values; \<open>lower\<close> is \<open>toLowerCase\<close> of
  arbitrary text and \<open>resolve\<close> maps a privacy id to a phone.
\<close>

section \<open>Fields\<close>

datatype FieldKind = Fk_id | Fk_idArray | Fk_text | Fk_enum | Fk_boolean

record FieldDefinition =
  fd_field :: string
  fd_kind :: FieldKind
  fd_operators :: "string list"
  fd_enumValues :: "string list option"
  fd_resolve :: "entities \<Rightarrow> jval option"

definition MESSAGE_TYPES :: "string list" where
  "MESSAGE_TYPES =
     [''text'', ''image'', ''video'', ''audio'', ''voice'', ''document'', ''sticker'', ''location'', ''contact'', ''revoked'', ''unknown'']"

definition MAX_CONDITIONS :: nat where "MAX_CONDITIONS = 20"
definition MAX_VALUES_PER_CONDITION :: nat where "MAX_VALUES_PER_CONDITION = 100"
definition MAX_TEXT_VALUE_LENGTH :: nat where "MAX_TEXT_VALUE_LENGTH = 1000"

definition str_field :: "string \<Rightarrow> entities \<Rightarrow> jval option" where
  "str_field k data = (case map_of data k of Some (JStr s) \<Rightarrow> Some (JStr s) | _ \<Rightarrow> None)"

definition message_fields :: "FieldDefinition list" where
  "message_fields =
     [\<lparr>fd_field = ''sender'', fd_kind = Fk_id, fd_operators = [''is'', ''isNot''], fd_enumValues = None,
        fd_resolve = (\<lambda>data. case str_field ''author'' data of Some v \<Rightarrow> Some v | None \<Rightarrow> str_field ''from'' data)\<rparr>,
      \<lparr>fd_field = ''recipient'', fd_kind = Fk_id, fd_operators = [''is'', ''isNot''], fd_enumValues = None,
        fd_resolve = str_field ''to''\<rparr>,
      \<lparr>fd_field = ''body'', fd_kind = Fk_text, fd_operators = [''contains'', ''equals''], fd_enumValues = None,
        fd_resolve = (\<lambda>data. Some (coalesce (str_field ''body'' data) (JStr [])))\<rparr>,
      \<lparr>fd_field = ''type'', fd_kind = Fk_enum, fd_operators = [''is'', ''isNot''], fd_enumValues = Some MESSAGE_TYPES,
        fd_resolve = str_field ''type''\<rparr>,
      \<lparr>fd_field = ''isGroup'', fd_kind = Fk_boolean, fd_operators = [''is''], fd_enumValues = None,
        fd_resolve = (\<lambda>data. Some (JBool (map_of data ''isGroup'' = Some (JBool True))))\<rparr>,
      \<lparr>fd_field = ''fromMe'', fd_kind = Fk_boolean, fd_operators = [''is''], fd_enumValues = None,
        fd_resolve = (\<lambda>data. Some (JBool (map_of data ''fromMe'' = Some (JBool True))))\<rparr>,
      \<lparr>fd_field = ''hasMedia'', fd_kind = Fk_boolean, fd_operators = [''is''], fd_enumValues = None,
        fd_resolve = (\<lambda>data. Some (JBool (map_of data ''media'' \<noteq> None \<and> map_of data ''media'' \<noteq> Some JNull)))\<rparr>,
      \<lparr>fd_field = ''mentions'', fd_kind = Fk_idArray, fd_operators = [''is'', ''isNot''], fd_enumValues = None,
        fd_resolve = (\<lambda>data. Some (case map_of data ''mentionedIds'' of Some (JArr vs) \<Rightarrow> JArr vs | _ \<Rightarrow> JArr []))\<rparr>]"

definition FILTER_FIELDS :: "(string \<times> FieldDefinition list) list" where
  "FILTER_FIELDS = [(''message'', message_fields)]"

definition eventFamily :: "string \<Rightarrow> string" where
  "eventFamily event = takeWhile (\<lambda>c. c \<noteq> CHR ''.'') event"

definition getFieldDefinition :: "string \<Rightarrow> string \<Rightarrow> FieldDefinition option" where
  "getFieldDefinition family field =
     (case map_of FILTER_FIELDS family of None \<Rightarrow> None | Some defs \<Rightarrow> List.find (\<lambda>f. fd_field f = field) defs)"

definition findFieldDefinition :: "string \<Rightarrow> FieldDefinition option" where
  "findFieldDefinition field = List.find (\<lambda>f. fd_field f = field) (concat (map snd FILTER_FIELDS))"

section \<open>Evaluation\<close>

definition canonicalActor :: "string \<Rightarrow> (string \<Rightarrow> string option) \<Rightarrow> string" where
  "canonicalActor jid resolve = ascii_lower (toNeutral (fromEngineJid jid resolve))"

definition canonicalInput :: "string \<Rightarrow> string" where
  "canonicalInput value = ascii_lower (toNeutral (fromUserInput value))"

fun strings_of :: "jval list \<Rightarrow> string list" where
  "strings_of [] = []"
| "strings_of (JStr s # vs) = s # strings_of vs"
| "strings_of (_ # vs) = strings_of vs"

definition toStringArray :: "jval option \<Rightarrow> string list" where
  "toStringArray v = (case v of Some (JArr vs) \<Rightarrow> strings_of vs | _ \<Rightarrow> [])"

definition as_string :: "jval option \<Rightarrow> string option" where
  "as_string v = (case v of Some (JStr s) \<Rightarrow> Some s | _ \<Rightarrow> None)"

definition evaluateCondition ::
  "(string \<Rightarrow> string) \<Rightarrow> FieldDefinition \<Rightarrow> entities \<Rightarrow> entities \<Rightarrow> (string \<Rightarrow> string option) \<Rightarrow> bool" where
  "evaluateCondition lower def condition data resolve =
     (let value = map_of condition ''value''; resolved = fd_resolve def data;
          negated = (map_of condition ''operator'' = Some (JStr ''isNot''));
          caseSensitive = has_truthy ''caseSensitive'' condition in
      case fd_kind def of
        Fk_id \<Rightarrow>
          (let isMatch = (case as_string resolved of None \<Rightarrow> False
                          | Some actual \<Rightarrow> canonicalActor actual resolve \<in> set (map canonicalInput (toStringArray value)))
           in if negated then \<not> isMatch else isMatch)
      | Fk_enum \<Rightarrow>
          (let isMatch = (case as_string resolved of None \<Rightarrow> False | Some actual \<Rightarrow> actual \<in> set (toStringArray value))
           in if negated then \<not> isMatch else isMatch)
      | Fk_idArray \<Rightarrow>
          (let intersects = list_ex (\<lambda>jid. canonicalActor jid resolve \<in> set (map canonicalInput (toStringArray value)))
                              (toStringArray resolved)
           in if negated then \<not> intersects else intersects)
      | Fk_boolean \<Rightarrow> resolved = Some (JBool (value = Some (JBool True)))
      | Fk_text \<Rightarrow>
          (case value of
             Some (JStr v) \<Rightarrow>
               (let haystackRaw = coalesce (as_string resolved) [];
                    haystack = (if caseSensitive then haystackRaw else lower haystackRaw);
                    needle = (if caseSensitive then v else lower v)
                in if map_of condition ''operator'' = Some (JStr ''equals'') then haystack = needle
                   else str_includes needle haystack)
           | _ \<Rightarrow> True))"

text \<open>The filters of a webhook are \<open>null\<close> or a list of conditions; a condition is an object.\<close>

definition evaluateFilters ::
  "(string \<Rightarrow> string) \<Rightarrow> entities list option \<Rightarrow> string \<Rightarrow> entities \<Rightarrow> (string \<Rightarrow> string option) \<Rightarrow> bool" where
  "evaluateFilters lower filters event data resolve =
     (case filters of
        None \<Rightarrow> True
      | Some conditions \<Rightarrow>
          list_all
            (\<lambda>condition.
               (case map_of condition ''field'' of
                  Some (JStr field) \<Rightarrow>
                    (case getFieldDefinition (eventFamily event) field of
                       None \<Rightarrow> True
                     | Some def \<Rightarrow> evaluateCondition lower def condition data resolve)
                | _ \<Rightarrow> True))
            conditions)"

section \<open>Validation\<close>

definition OPERATORS :: "string list" where
  "OPERATORS = [''is'', ''isNot'', ''contains'', ''equals'']"

text \<open>\<open>None\<close> is no problem; the texts are the code's up to the index and the names in them.\<close>

datatype filter_problem =
    Not_An_Object | Field_Not_String | Unknown_Field | Operator_Invalid | Operator_Not_Allowed | Case_Not_Boolean
  | Value_Not_Boolean | Value_Not_String | Value_Too_Long | Value_Not_Array | Too_Many_Values | Entry_Not_String | Entry_Not_Allowed
  | Filters_Not_Object | Conditions_Not_Array | Too_Many_Conditions

fun entry_problem :: "FieldDefinition \<Rightarrow> jval list \<Rightarrow> filter_problem option" where
  "entry_problem def [] = None"
| "entry_problem def (v # vs) =
     (case v of
        JStr s \<Rightarrow>
          (if s = [] then Some Entry_Not_String
           else if fd_kind def = Fk_enum \<and> (case fd_enumValues def of Some es \<Rightarrow> s \<notin> set es | None \<Rightarrow> False)
           then Some Entry_Not_Allowed
           else entry_problem def vs)
      | _ \<Rightarrow> Some Entry_Not_String)"

definition value_problem :: "FieldDefinition \<Rightarrow> jval option \<Rightarrow> filter_problem option" where
  "value_problem def value =
     (case fd_kind def of
        Fk_boolean \<Rightarrow> (case value of Some (JBool _) \<Rightarrow> None | _ \<Rightarrow> Some Value_Not_Boolean)
      | Fk_text \<Rightarrow>
          (case value of
             Some (JStr s) \<Rightarrow> (if length s > MAX_TEXT_VALUE_LENGTH then Some Value_Too_Long else None)
           | _ \<Rightarrow> Some Value_Not_String)
      | _ \<Rightarrow>
          (case value of
             Some (JArr vs) \<Rightarrow>
               (if vs = [] then Some Value_Not_Array
                else if length vs > MAX_VALUES_PER_CONDITION then Some Too_Many_Values
                else entry_problem def vs)
           | _ \<Rightarrow> Some Value_Not_Array))"

definition validateCondition :: "jval \<Rightarrow> filter_problem option" where
  "validateCondition condition =
     (case condition of
        JObj c \<Rightarrow>
          (case map_of c ''field'' of
             Some (JStr field) \<Rightarrow>
               (case findFieldDefinition field of
                  None \<Rightarrow> Some Unknown_Field
                | Some def \<Rightarrow>
                    (case map_of c ''operator'' of
                       Some (JStr operator) \<Rightarrow>
                         (if operator \<notin> set OPERATORS then Some Operator_Invalid
                          else if operator \<notin> set (fd_operators def) then Some Operator_Not_Allowed
                          else (case map_of c ''caseSensitive'' of
                                  None \<Rightarrow> value_problem def (map_of c ''value'')
                                | Some (JBool _) \<Rightarrow> value_problem def (map_of c ''value'')
                                | _ \<Rightarrow> Some Case_Not_Boolean))
                     | _ \<Rightarrow> Some Operator_Invalid))
           | _ \<Rightarrow> Some Field_Not_String)
      | JArr _ \<Rightarrow> Some Field_Not_String
      | _ \<Rightarrow> Some Not_An_Object)"

definition collectFilterErrors :: "jval \<Rightarrow> filter_problem list" where
  "collectFilterErrors v =
     (case v of
        JNull \<Rightarrow> []
      | JObj e \<Rightarrow>
          (case map_of e ''conditions'' of
             Some (JArr cs) \<Rightarrow>
               (if length cs > MAX_CONDITIONS then [Too_Many_Conditions] else List.map_filter validateCondition cs)
           | _ \<Rightarrow> [Conditions_Not_Array])
      | JArr _ \<Rightarrow> [Conditions_Not_Array]
      | _ \<Rightarrow> [Filters_Not_Object])"

text \<open>The conditions of a filter that passed the validation.\<close>

definition conditions_of :: "jval \<Rightarrow> entities list option" where
  "conditions_of v =
     (case v of
        JObj e \<Rightarrow> (case map_of e ''conditions'' of
                    Some (JArr cs) \<Rightarrow> Some (List.map_filter (\<lambda>c. case c of JObj o' \<Rightarrow> Some o' | _ \<Rightarrow> None) cs)
                  | _ \<Rightarrow> None)
      | _ \<Rightarrow> None)"

section \<open>Facts\<close>

lemma find_sender: "getFieldDefinition ''message'' ''sender'' = Some (hd message_fields)"
  by (simp add: getFieldDefinition_def FILTER_FIELDS_def message_fields_def)

lemma eventFamily_message: "eventFamily (''message.'' @ s) = ''message''"
  by (simp add: eventFamily_def)

lemma canonicalInput_phone:
  assumes "list_all is_digit p" "p \<noteq> []"
  shows "canonicalInput p = p @ ''@c.us''"
proof -
  have "js_trim p = p"
    using assms by (intro js_trim_printable) (auto simp: list_all_iff intro!: printable_digit)
  moreover have "CHR ''@'' \<notin> set p" "filter is_digit p = p"
    using digits_plain [OF assms(1)] assms(1) by (auto simp: list_all_iff)
  ultimately show ?thesis
    using assms ascii_lower_digits [OF assms(1)]
    by (simp add: canonicalInput_def fromUserInput_def toNeutral_def neutral_user_def)
      (simp add: ascii_lower_def ascii_lower_char_def)
qed

lemma canonicalActor_phone:
  assumes "list_all is_digit p" "p \<noteq> []" "domain \<in> {''c.us'', ''s.whatsapp.net''}"
    and "\<And>n. device = Some n \<Longrightarrow> list_all is_digit n"
  shows "canonicalActor (dialect p device domain) resolve = p @ ''@c.us''"
proof -
  have "pw_userPart (parseWaId (dialect p device domain)) = p \<and> pw_kind (parseWaId (dialect p device domain)) = Wa_User"
    using parse_dialect [OF assms(1,2) _ assms(4)] assms(3) by (auto simp: domain_kind_def USER_DOMAINS_def)
  then show ?thesis
    using ascii_lower_digits [OF assms(1)]
    by (simp add: canonicalActor_def fromEngineJid_def toNeutral_def neutral_user_def)
      (simp add: ascii_lower_def ascii_lower_char_def)
qed

lemma canonicalActor_lid:
  assumes "list_all is_digit l" "l \<noteq> []" "\<And>n. device = Some n \<Longrightarrow> list_all is_digit n"
    and "resolve (dialect l device ''lid'') = Some p" "list_all is_digit p" "p \<noteq> []"
  shows "canonicalActor (dialect l device ''lid'') resolve = p @ ''@c.us''"
proof -
  have "pw_userPart (parseWaId (dialect l device ''lid'')) = l \<and> pw_kind (parseWaId (dialect l device ''lid'')) = Wa_Lid"
    using parse_dialect [OF assms(1,2) _ assms(3)] by (auto simp: domain_kind_def USER_DOMAINS_def)
  then show ?thesis
    using assms(4,6) ascii_lower_digits [OF assms(5)]
    by (simp add: canonicalActor_def fromEngineJid_def toNeutral_def neutral_user_def)
      (simp add: ascii_lower_def ascii_lower_char_def)
qed

text \<open>The sender of a message: a phone in one of its spellings, or a privacy id that resolves to the phone.\<close>

definition sent_by :: "(string \<Rightarrow> string option) \<Rightarrow> string \<Rightarrow> string \<Rightarrow> bool" where
  "sent_by resolve p jid \<longleftrightarrow>
     (\<exists>device. (\<forall>n. device = Some n \<longrightarrow> list_all is_digit n) \<and>
       ((\<exists>domain \<in> {''c.us'', ''s.whatsapp.net''}. jid = dialect p device domain) \<or>
        (\<exists>l. list_all is_digit l \<and> l \<noteq> [] \<and> jid = dialect l device ''lid'' \<and> resolve jid = Some p)))"

text \<open>C38.
  A filter on the sender by phone matches the person: for a message whose sender is written as that phone in any of
  its spellings, or as a privacy id known to be the phone, the condition \<open>is\<close> holds exactly when the phone is in the
  list of the filter and \<open>isNot\<close> exactly when it is not; other events pass.
\<close>

theorem sender_filter_by_phone:
  assumes "list_all (\<lambda>q. list_all is_digit q \<and> q \<noteq> []) phones" "list_all is_digit p" "p \<noteq> []"
    and "fd_resolve (hd message_fields) data = Some (JStr jid)" "sent_by resolve p jid"
  shows "evaluateFilters lower
      (Some [[(''field'', JStr ''sender''), (''operator'', JStr op), (''value'', JArr (map JStr phones))]])
      (''message.'' @ kind) data resolve = (if op = ''isNot'' then p \<notin> set phones else p \<in> set phones) \<and>
    evaluateFilters lower
      (Some [[(''field'', JStr ''sender''), (''operator'', JStr op), (''value'', JArr (map JStr phones))]])
      (''session.'' @ kind) data resolve"
proof -
  have a: "canonicalActor jid resolve = p @ ''@c.us''"
    using assms(2,3,5) canonicalActor_phone canonicalActor_lid unfolding sent_by_def by metis
  have strs: "strings_of (map JStr qs) = qs" for qs by (induction qs) auto
  have "set (map canonicalInput phones) = (\<lambda>q. q @ ''@c.us'') ` set phones"
    using assms(1) canonicalInput_phone by (auto simp: list_all_iff image_iff)
  then have m: "p @ ''@c.us'' \<in> set (map canonicalInput phones) \<longleftrightarrow> p \<in> set phones" by auto
  have k: "fd_kind (hd message_fields) = Fk_id" by (simp add: message_fields_def)
  have "getFieldDefinition (eventFamily (''session.'' @ kind)) ''sender'' = None"
    by (simp add: getFieldDefinition_def FILTER_FIELDS_def eventFamily_def)
  then show ?thesis
    using a m by (simp add: evaluateFilters_def eventFamily_message find_sender evaluateCondition_def k assms(4)
        as_string_def toStringArray_def strs del: append_Cons)
qed

text \<open>A message in a group from a second device, in the protocol's dialect.\<close>

theorem sender_filter_by_phone_witness:
  "evaluateFilters id
     (Some [[(''field'', JStr ''sender''), (''operator'', JStr ''is''), (''value'', JArr (map JStr [''213555'', ''213666'']))]])
     ''message.received''
     [(''from'', JStr ''12-34@g.us''), (''author'', JStr ''213555:7@s.whatsapp.net'')] (\<lambda>_. None)"
proof -
  have "sent_by (\<lambda>_. None) ''213555'' ''213555:7@s.whatsapp.net''"
    unfolding sent_by_def dialect_def
    by (rule exI [of _ "Some ''7''"]) (auto simp: is_digit_def)
  then show ?thesis
    using sender_filter_by_phone [of "[''213555'', ''213666'']" "''213555''"
        "[(''from'', JStr ''12-34@g.us''), (''author'', JStr ''213555:7@s.whatsapp.net'')]" "''213555:7@s.whatsapp.net''"
        "\<lambda>_. None" id "''is''" "''received''"]
    by (simp add: is_digit_def message_fields_def str_field_def)
qed

end
