(* ===== verification/Ssrf.thy ===== *)
theory Ssrf
  imports Decimal "HOL-Library.Word"
begin

text \<open>
  \<open>OpenWA/src/common/security/ssrf-guard.ts\<close>: which addresses an outgoing request of the gateway may reach, and
  the fetch that holds to it.  Addresses are texts as in the code; \<open>isIPv4\<close> and \<open>isIPv6\<close> are those of Node.
  Parsing a URL, resolving a name and the answers of servers are parameters.
\<close>

unbundle bit_operations_syntax

section \<open>Literals\<close>

text \<open>An octet is a decimal text below 256 without leading zeros.\<close>

definition octet :: "string \<Rightarrow> bool" where
  "octet s \<longleftrightarrow> list_all is_digit s \<and> length s \<le> 3 \<and> nat_text (nat_of_digits s) = s \<and> nat_of_digits s < 256"

definition isIPv4 :: "string \<Rightarrow> bool" where
  "isIPv4 s = (let os = split_on (CHR ''.'') s in length os = 4 \<and> list_all octet os)"

definition is_hex :: "char \<Rightarrow> bool" where
  "is_hex c = (hex_val c \<noteq> None)"

definition v6_segment :: "string \<Rightarrow> bool" where
  "v6_segment s \<longleftrightarrow> s \<noteq> [] \<and> length s \<le> 4 \<and> list_all is_hex s"

text \<open>The number of 16-bit groups a list of segments stands for; the last may be an IPv4 address, which is two.\<close>

fun segment_count :: "bool \<Rightarrow> string list \<Rightarrow> nat option" where
  "segment_count v4 [] = Some 0"
| "segment_count v4 [s] = (if v6_segment s then Some 1 else if v4 \<and> isIPv4 s then Some 2 else None)"
| "segment_count v4 (s # t # ss) = (if v6_segment s then map_option Suc (segment_count v4 (t # ss)) else None)"

text \<open>\<open>s.split('::')\<close>, and \<open>s ? s.split(':') : []\<close>.\<close>

fun split_double :: "string \<Rightarrow> string list" where
  "split_double (c # d # s) =
     (if c = CHR '':'' \<and> d = CHR '':'' then [] # split_double s
      else (case split_double (d # s) of [] \<Rightarrow> [[c]] | y # ys \<Rightarrow> (c # y) # ys))"
| "split_double s = [s]"

definition segments :: "string \<Rightarrow> string list" where
  "segments s = (if s = [] then [] else split_on (CHR '':'') s)"

definition zone_char :: "char \<Rightarrow> bool" where
  "zone_char c \<longleftrightarrow> is_digit c \<or> 65 \<le> (of_char c :: nat) \<and> (of_char c :: nat) \<le> 90 \<or>
     97 \<le> (of_char c :: nat) \<and> (of_char c :: nat) \<le> 122 \<or> c \<in> set ''-.:''"

definition isIPv6 :: "string \<Rightarrow> bool" where
  "isIPv6 s =
     (let addr = takeWhile (\<lambda>c. c \<noteq> CHR ''%'') s; zone = drop (length addr) s in
      (zone = [] \<or> (tl zone \<noteq> [] \<and> list_all zone_char (tl zone))) \<and>
      (case split_double addr of
         [h] \<Rightarrow> segment_count True (segments h) = Some 8
       | [h, t] \<Rightarrow> (case (segment_count False (segments h), segment_count True (segments t)) of
                    (Some m, Some n) \<Rightarrow> m + n \<le> 7
                  | _ \<Rightarrow> False)
       | _ \<Rightarrow> False))"

section \<open>Blocked addresses\<close>

definition ipv4ToInt :: "string \<Rightarrow> 32 word" where
  "ipv4ToInt ip = foldl (\<lambda>acc o'. acc * 256 + of_nat (nat_of_digits o')) 0 (split_on (CHR ''.'') ip)"

definition inCidr4 :: "32 word \<Rightarrow> string \<Rightarrow> nat \<Rightarrow> bool" where
  "inCidr4 ipInt base bits =
     (let m = (if bits = 0 then 0 else push_bit (32 - bits) (- 1)) in ipInt AND m = ipv4ToInt base AND m)"

definition BLOCKED_V4 :: "(string \<times> nat) list" where
  "BLOCKED_V4 =
     [(''0.0.0.0'', 8), (''10.0.0.0'', 8), (''100.64.0.0'', 10), (''127.0.0.0'', 8), (''169.254.0.0'', 16),
      (''172.16.0.0'', 12), (''192.0.0.0'', 24), (''192.168.0.0'', 16), (''198.18.0.0'', 15), (''224.0.0.0'', 4),
      (''240.0.0.0'', 4)]"

definition dotted :: "nat \<Rightarrow> nat \<Rightarrow> nat \<Rightarrow> nat \<Rightarrow> string" where
  "dotted a b c d = nat_text a @ ''.'' @ nat_text b @ ''.'' @ nat_text c @ ''.'' @ nat_text d"

definition hextetsToV4 :: "int \<Rightarrow> int \<Rightarrow> string" where
  "hextetsToV4 hi lo =
     dotted (nat ((hi div 256) mod 256)) (nat (hi mod 256)) (nat ((lo div 256) mod 256)) (nat (lo mod 256))"

text \<open>\<open>/^\d{1,3}(\.\d{1,3}){3}$/\<close>, and the leftmost such end of a text with its octets.\<close>

definition dotted_quad :: "string \<Rightarrow> bool" where
  "dotted_quad s =
     (let os = split_on (CHR ''.'') s in length os = 4 \<and> list_all (\<lambda>o'. o' \<noteq> [] \<and> length o' \<le> 3 \<and> list_all is_digit o') os)"

fun dotted_end :: "string \<Rightarrow> (string \<times> nat list) option" where
  "dotted_end s =
     (if dotted_quad s then Some ([], map nat_of_digits (split_on (CHR ''.'') s))
      else (case s of [] \<Rightarrow> None | c # r \<Rightarrow> map_option (\<lambda>(p, os). (c # p, os)) (dotted_end r)))"

fun hex_of :: "int \<Rightarrow> string" where
  "hex_of n = (if n < 16 then [hex_char (nat n)] else hex_of (n div 16) @ [hex_char (nat (n mod 16))])"

declare dotted_end.simps [simp del] hex_of.simps [simp del]

definition lower_hextet :: "string \<Rightarrow> int option" where
  "lower_hextet s =
     (if v6_segment s \<and> ascii_lower s = s then Some (foldl (\<lambda>n c. 16 * n + int (the (hex_val c))) 0 s) else None)"

fun all_hextets :: "string list \<Rightarrow> int list option" where
  "all_hextets [] = Some []"
| "all_hextets (s # ss) =
     (case (lower_hextet s, all_hextets ss) of (Some n, Some ns) \<Rightarrow> Some (n # ns) | _ \<Rightarrow> None)"

text \<open>A trailing dotted address is folded into two groups first; \<open>None\<close> is \<open>null\<close>.\<close>

definition fold_dotted :: "string \<Rightarrow> string option" where
  "fold_dotted s =
     (case dotted_end s of
        Some (p, [a, b, c, d]) \<Rightarrow>
          (if a > 255 \<or> b > 255 \<or> c > 255 \<or> d > 255 then None
           else Some (p @ hex_of (256 * int a + int b) @ '':'' @ hex_of (256 * int c + int d)))
      | _ \<Rightarrow> Some s)"

definition expandIPv6 :: "string \<Rightarrow> int list option" where
  "expandIPv6 s0 =
     (case fold_dotted s0 of
        None \<Rightarrow> None
      | Some s \<Rightarrow>
          (case split_double s of
             [h] \<Rightarrow> (if length (segments h) \<noteq> 8 then None else all_hextets (segments h))
           | [h, t] \<Rightarrow>
               (if 8 \<le> length (segments h) + length (segments t) then None
                else all_hextets (segments h @ replicate (8 - length (segments h) - length (segments t)) ''0'' @ segments t))
           | _ \<Rightarrow> None))"

text \<open>
  The recursive calls are on texts without a colon, so never on an IPv6 literal: they are \<open>blocked_v4\<close>.
\<close>

definition blocked_v4 :: "string \<Rightarrow> bool" where
  "blocked_v4 ip = (if isIPv4 ip then list_ex (\<lambda>(base, bits). inCidr4 (ipv4ToInt ip) base bits) BLOCKED_V4 else True)"

definition embedded_v4 :: "string \<Rightarrow> string option" where
  "embedded_v4 lower =
     (case strip_prefix ''::ffff:'' lower of
        None \<Rightarrow> None
      | Some rest \<Rightarrow>
          (if dotted_quad rest then Some rest
           else (case map lower_hextet (split_on (CHR '':'') rest) of
                   [Some hi, Some lo] \<Rightarrow> Some (hextetsToV4 hi lo)
                 | _ \<Rightarrow> None)))"

definition blocked_group :: "string \<Rightarrow> bool" where
  "blocked_group g \<longleftrightarrow> starts_with ''fc'' g \<or> starts_with ''fd'' g \<or> (starts_with ''fe'' g \<and> length g > 2 \<and> g ! 2 \<in> set ''89ab'')"

definition blocked_hextets :: "int list \<Rightarrow> bool" where
  "blocked_hextets hs =
     (if hs ! 0 = 0x2002 then blocked_v4 (hextetsToV4 (hs ! 1) (hs ! 2))
      else if hs ! 0 = 0x64 \<and> hs ! 1 = 0xff9b then blocked_v4 (hextetsToV4 (hs ! 6) (hs ! 7))
      else if list_all (\<lambda>h. h = 0) (take 6 hs) \<and> (hs ! 6 \<noteq> 0 \<or> hs ! 7 \<noteq> 0) then blocked_v4 (hextetsToV4 (hs ! 6) (hs ! 7))
      else False)"

definition isBlockedAddress :: "string \<Rightarrow> bool" where
  "isBlockedAddress ip =
     (if isIPv4 ip then blocked_v4 ip
      else if isIPv6 ip then
        (let lower = ascii_lower ip in
         if lower = ''::1'' \<or> lower = ''::'' then True
         else (case embedded_v4 lower of
                 Some v4 \<Rightarrow> blocked_v4 v4
               | None \<Rightarrow>
                   (if blocked_group (hd (split_on (CHR '':'') lower)) then True
                    else (case expandIPv6 lower of None \<Rightarrow> False | Some hs \<Rightarrow> blocked_hextets hs))))
      else True)"

section \<open>Outgoing requests\<close>

text \<open>
  The outside: protocol and host name of a URL (\<open>None\<close> is no URL), what resolving a name gives at the \<open>n\<close>-th
  network event (the deadline, a failure with its code, or addresses), the hosts a fetch that follows redirects connects
  to, and the answer of a fetch.  The log has a lookup, and a connection of a host with the addresses it may use.
\<close>

record fetch_response =
  fr_status :: nat
  fr_statusText :: string
  fr_opaqueredirect :: bool

datatype lookup_outcome = Timed_Out | Not_Resolved "string option" | Resolved "string list"

datatype net_event = Lookup string | Connect string "string list"

type_synonym net_log = "net_event list"

record ssrf_env =
  parse_url :: "string \<Rightarrow> (string \<times> string) option"
  dns :: "nat \<Rightarrow> string \<Rightarrow> lookup_outcome"
  redirect_hosts :: "nat \<Rightarrow> string \<Rightarrow> string list"
  fetched :: "nat \<Rightarrow> string \<Rightarrow> string + fetch_response"
  cfg_allowedHosts :: string
  cfg_ssrfProtect :: "string option"

definition isSsrfProtectionEnabled :: "ssrf_env \<Rightarrow> bool" where
  "isSsrfProtectionEnabled A = (cfg_ssrfProtect A \<noteq> Some ''false'')"

definition strip_brackets :: "string \<Rightarrow> string" where
  "strip_brackets h =
     (let t = (if h \<noteq> [] \<and> hd h = CHR ''['' then tl h else h) in if t \<noteq> [] \<and> last t = CHR '']'' then butlast t else t)"

definition getAllowedHosts :: "ssrf_env \<Rightarrow> string set" where
  "getAllowedHosts A =
     set (filter (\<lambda>h. h \<noteq> []) (map (\<lambda>h. ascii_lower (strip_brackets (js_trim h))) (split_on (CHR '','') (cfg_allowedHosts A))))"

definition allowlisted :: "ssrf_env \<Rightarrow> string \<Rightarrow> bool" where
  "allowlisted A host \<longleftrightarrow> ascii_lower host \<in> getAllowedHosts A"

definition lookupWithDeadline :: "ssrf_env \<Rightarrow> string \<Rightarrow> net_log \<Rightarrow> (string + string list) \<times> net_log" where
  "lookupWithDeadline A host L =
     (case dns A (length L) host of
        Timed_Out \<Rightarrow> Inl (''Timed out resolving host: '' @ host)
      | Not_Resolved code \<Rightarrow>
          Inl (''Could not resolve host: '' @ host @ (case code of None \<Rightarrow> [] | Some c \<Rightarrow> '' ('' @ c @ '')''))
      | Resolved addrs \<Rightarrow> Inr addrs, L @ [Lookup host])"

definition is_literal :: "string \<Rightarrow> bool" where
  "is_literal host \<longleftrightarrow> isIPv4 host \<or> isIPv6 host"

text \<open>
  \<open>resolveSafeFetchTarget\<close>: \<open>None\<close> pins nothing, \<open>Some\<close> are the vetted addresses.
\<close>

definition vet :: "string \<Rightarrow> string list \<Rightarrow> string + string list" where
  "vet host addrs =
     (if addrs = [] then Inl (''Could not resolve host: '' @ host)
      else (case List.find isBlockedAddress addrs of
              Some a \<Rightarrow> Inl (''Host '' @ host @ '' resolves to a blocked internal address: '' @ a)
            | None \<Rightarrow> Inr addrs))"

definition resolveSafeFetchTarget :: "ssrf_env \<Rightarrow> string \<Rightarrow> net_log \<Rightarrow> (string + string list option) \<times> net_log" where
  "resolveSafeFetchTarget A rawUrl L =
     (case parse_url A rawUrl of
        None \<Rightarrow> (Inl (''Invalid URL: '' @ rawUrl), L)
      | Some (protocol, hostname) \<Rightarrow>
          (let host = strip_brackets hostname in
           if protocol \<noteq> ''http:'' \<and> protocol \<noteq> ''https:'' then (Inl (''Blocked URL scheme: '' @ protocol), L)
           else if allowlisted A host then (Inr None, L)
           else if is_literal host then
             (if isBlockedAddress host then (Inl (''Blocked internal address: '' @ host), L) else (Inr None, L))
           else
             (case lookupWithDeadline A host L of
                (Inl e, L1) \<Rightarrow> (Inl e, L1)
              | (Inr addrs, L1) \<Rightarrow> (map_sum id Some (vet host addrs), L1))))"

definition assertSafeFetchUrl :: "ssrf_env \<Rightarrow> string \<Rightarrow> net_log \<Rightarrow> (string + unit) \<times> net_log" where
  "assertSafeFetchUrl A rawUrl L = map_prod (map_sum id (\<lambda>_. ())) id (resolveSafeFetchTarget A rawUrl L)"

definition assertNoRedirect :: "fetch_response \<Rightarrow> string \<Rightarrow> string + unit" where
  "assertNoRedirect r url =
     (if fr_opaqueredirect r \<or> (300 \<le> fr_status r \<and> fr_status r < 400)
      then Inl (''Refusing to follow redirect from '' @ url) else Inr ())"

text \<open>The lookup of a connection that validates every host it is asked for.\<close>

definition validatingLookup :: "ssrf_env \<Rightarrow> string \<Rightarrow> net_log \<Rightarrow> (string + string list) \<times> net_log" where
  "validatingLookup A hostname L =
     (let host = strip_brackets hostname in
      if is_literal host then
        (if \<not> allowlisted A host \<and> isBlockedAddress host then (Inl (''Blocked internal address: '' @ host), L)
         else (Inr [host], L))
      else
        (case lookupWithDeadline A host L of
           (Inl e, L1) \<Rightarrow> (Inl e, L1)
         | (Inr addrs, L1) \<Rightarrow>
             (if addrs = [] then Inl (''Could not resolve host: '' @ host)
              else if allowlisted A host then Inr addrs else vet host addrs, L1)))"

text \<open>
  What the connection of a fetch uses: the pinned addresses, a literal itself, or whatever the name resolves to then.
\<close>

definition connect_to :: "ssrf_env \<Rightarrow> string list option \<Rightarrow> string \<Rightarrow> net_log \<Rightarrow> net_log" where
  "connect_to A pinned hostname L =
     (let host = strip_brackets hostname in
      L @ [Connect host
             (case pinned of
                Some addrs \<Rightarrow> addrs
              | None \<Rightarrow> (if is_literal host then [host] else case dns A (length L) host of Resolved addrs \<Rightarrow> addrs | _ \<Rightarrow> []))])"

text \<open>
  The hosts of a fetch that follows redirects, the URL's own and those the redirects name.  A connection asks its
  \<open>lookup\<close> for a name only: Node connects to a host that is an address already without a lookup.
\<close>

fun visit_hosts :: "ssrf_env \<Rightarrow> string list \<Rightarrow> net_log \<Rightarrow> (string + unit) \<times> net_log" where
  "visit_hosts A [] L = (Inr (), L)"
| "visit_hosts A (h # hs) L =
     (let host = strip_brackets h in
      if is_literal host then visit_hosts A hs (L @ [Connect host [host]])
      else
        (case validatingLookup A h L of
           (Inl e, L1) \<Rightarrow> (Inl e, L1)
         | (Inr addrs, L1) \<Rightarrow> visit_hosts A hs (L1 @ [Connect host addrs])))"

definition url_host :: "ssrf_env \<Rightarrow> string \<Rightarrow> string" where
  "url_host A url = (case parse_url A url of None \<Rightarrow> [] | Some (_, h) \<Rightarrow> h)"

definition withSafeFetch ::
  "ssrf_env \<Rightarrow> bool \<Rightarrow> bool \<Rightarrow> string \<Rightarrow> (fetch_response \<Rightarrow> 'a) \<Rightarrow> net_log \<Rightarrow> (string + 'a) \<times> net_log" where
  "withSafeFetch A guard followRedirects rawUrl use L =
     (if \<not> guard then
        (let L1 = foldl (\<lambda>M h. connect_to A None h M) L (redirect_hosts A (length L) rawUrl)
         in (map_sum id use (fetched A (length L1) rawUrl), L1))
      else
        (case resolveSafeFetchTarget A rawUrl L of
           (Inl e, L1) \<Rightarrow> (Inl e, L1)
         | (Inr target, L1) \<Rightarrow>
             (if followRedirects then
                (case visit_hosts A (redirect_hosts A (length L1) rawUrl) L1 of
                   (Inl e, L2) \<Rightarrow> (Inl e, L2)
                 | (Inr _, L2) \<Rightarrow> (map_sum id use (fetched A (length L2) rawUrl), L2))
              else
                (let L2 = connect_to A target (url_host A rawUrl) L1 in
                 (case fetched A (length L2) rawUrl of
                    Inl e \<Rightarrow> Inl e
                  | Inr r \<Rightarrow> map_sum id (\<lambda>_. use r) (assertNoRedirect r rawUrl), L2)))))"

section \<open>Blocks of addresses\<close>

text \<open>The ranges in octets, the reference for the list of blocks.\<close>

definition reserved_v4 :: "nat \<Rightarrow> nat \<Rightarrow> nat \<Rightarrow> nat \<Rightarrow> bool" where
  "reserved_v4 a b c d \<longleftrightarrow>
     a = 0 \<or> a = 10 \<or> (a = 100 \<and> 64 \<le> b \<and> b < 128) \<or> a = 127 \<or> (a = 169 \<and> b = 254) \<or>
     (a = 172 \<and> 16 \<le> b \<and> b < 32) \<or> (a = 192 \<and> b = 0 \<and> c = 0) \<or> (a = 192 \<and> b = 168) \<or>
     (a = 198 \<and> (b = 18 \<or> b = 19)) \<or> 224 \<le> a"

lemma and_high_bits: "(x AND push_bit k (- 1)) = (y AND push_bit k (- 1)) \<longleftrightarrow> unat x div 2 ^ k = unat y div 2 ^ k"
  for x y :: "32 word"
proof -
  have b: "bit (z AND push_bit k (- 1)) n \<longleftrightarrow> k \<le> n \<and> bit z n" for z :: "32 word" and n
    using bit_imp_possible_bit [of z n] by (auto simp: bit_and_iff bit_not_iff bit_mask_iff)
  have "(x AND push_bit k (- 1)) = (y AND push_bit k (- 1)) \<longleftrightarrow> (\<forall>n. k \<le> n \<longrightarrow> bit x n = bit y n)"
    unfolding bit_eq_iff b by (metis bit_imp_possible_bit)
  moreover have "drop_bit k x = drop_bit k y \<longleftrightarrow> (\<forall>n. k \<le> n \<longrightarrow> bit x n = bit y n)"
  proof (rule iffI, intro allI impI)
    fix n assume "drop_bit k x = drop_bit k y" "k \<le> n"
    then have "bit (drop_bit k x) (n - k) = bit (drop_bit k y) (n - k)" by simp
    with \<open>k \<le> n\<close> show "bit x n = bit y n" by (simp add: bit_drop_bit_eq)
  next
    assume "\<forall>n. k \<le> n \<longrightarrow> bit x n = bit y n"
    then have "bit (drop_bit k x) n = bit (drop_bit k y) n" for n by (simp add: bit_drop_bit_eq)
    then show "drop_bit k x = drop_bit k y" by (rule bit_eqI)
  qed
  moreover have "drop_bit k x = drop_bit k y \<longleftrightarrow> unat x div 2 ^ k = unat y div 2 ^ k"
    unfolding word_unat_eq_iff unat_drop_bit_eq by (simp only: drop_bit_eq_div)
  ultimately show ?thesis by simp
qed
lemma dot_nat_text: "CHR ''.'' \<notin> set (nat_text n)"
  using nat_text_digits [of n] by (auto simp: list_all_iff is_digit_def)

lemma split_dotted: "split_on (CHR ''.'') (dotted a b c d) = [nat_text a, nat_text b, nat_text c, nat_text d]"
  by (simp add: dotted_def dot_nat_text split_on_once split_on_none)

lemma length_nat_text: "n < 1000 \<Longrightarrow> length (nat_text n) \<le> 3"
  using nat_text.simps [of n] nat_text.simps [of "n div 10"] nat_text.simps [of "n div 10 div 10"]
  by (cases "n < 10"; cases "n < 100") auto

lemma octet_text: "n < 256 \<Longrightarrow> octet (nat_text n)"
  by (simp add: octet_def nat_of_digits_text nat_text_digits length_nat_text)

lemma isIPv4_dotted: "\<lbrakk>a < 256; b < 256; c < 256; d < 256\<rbrakk> \<Longrightarrow> isIPv4 (dotted a b c d)"
  by (simp add: isIPv4_def split_dotted octet_text)

lemma unat_ipv4:
  assumes "a < 256" "b < 256" "c < 256" "d < 256"
  shows "unat (ipv4ToInt (dotted a b c d)) = ((a * 256 + b) * 256 + c) * 256 + d"
proof -
  have "ipv4ToInt (dotted a b c d) = of_nat (((a * 256 + b) * 256 + c) * 256 + d)"
    by (simp add: ipv4ToInt_def split_dotted nat_of_digits_text)
  moreover have "((a * 256 + b) * 256 + c) * 256 + d < 2 ^ 32"
    using assms by simp
  ultimately show ?thesis
    by (simp only: unat_of_nat) simp
qed

lemma inCidr4_dotted:
  assumes "a < 256" "b < 256" "c < 256" "d < 256" "e < 256" "f < 256" "g < 256" "h < 256" "0 < bits"
  shows "inCidr4 (ipv4ToInt (dotted a b c d)) (dotted e f g h) bits \<longleftrightarrow>
    (((a * 256 + b) * 256 + c) * 256 + d) div 2 ^ (32 - bits) = (((e * 256 + f) * 256 + g) * 256 + h) div 2 ^ (32 - bits)"
  using assms by (simp only: inCidr4_def Let_def and_high_bits unat_ipv4 if_not_P)

text \<open>The halves an address falls into under the lengths of prefixes in use.\<close>

lemma address_div:
  fixes a b c d :: nat
  assumes "b < 256" "c < 256" "d < 256"
  shows "(((a * 256 + b) * 256 + c) * 256 + d) div 2 ^ 8 = (a * 256 + b) * 256 + c"
    and "(((a * 256 + b) * 256 + c) * 256 + d) div 2 ^ 16 = a * 256 + b"
    and "(((a * 256 + b) * 256 + c) * 256 + d) div 2 ^ 24 = a"
proof -
  show 8: "(((a * 256 + b) * 256 + c) * 256 + d) div 2 ^ 8 = (a * 256 + b) * 256 + c"
    using assms by simp
  show 16: "(((a * 256 + b) * 256 + c) * 256 + d) div 2 ^ 16 = a * 256 + b"
    using 8 assms div_mult2_eq [of "((a * 256 + b) * 256 + c) * 256 + d" "2 ^ 8" "2 ^ 8"] by simp
  show "(((a * 256 + b) * 256 + c) * 256 + d) div 2 ^ 24 = a"
    using 16 assms div_mult2_eq [of "((a * 256 + b) * 256 + c) * 256 + d" "2 ^ 16" "2 ^ 8"] by simp
qed

lemma address_div_part:
  fixes a b c d :: nat
  assumes "b < 256" "c < 256" "d < 256"
  shows "(((a * 256 + b) * 256 + c) * 256 + d) div 2 ^ 17 = a * 128 + b div 2"
    and "(((a * 256 + b) * 256 + c) * 256 + d) div 2 ^ 20 = a * 16 + b div 16"
    and "(((a * 256 + b) * 256 + c) * 256 + d) div 2 ^ 22 = a * 4 + b div 64"
    and "(((a * 256 + b) * 256 + c) * 256 + d) div 2 ^ 28 = a div 16"
proof -
  have s: "n div 2 ^ (16 + k) = n div 2 ^ 16 div 2 ^ k" "n div 2 ^ (24 + k) = n div 2 ^ 24 div 2 ^ k" for n k :: nat
    by (simp_all only: power_add div_mult2_eq)
  show "(((a * 256 + b) * 256 + c) * 256 + d) div 2 ^ 17 = a * 128 + b div 2"
    using s(1) [of "((a * 256 + b) * 256 + c) * 256 + d" 1] address_div(2) [OF assms, of a] by (simp; presburger)
  show "(((a * 256 + b) * 256 + c) * 256 + d) div 2 ^ 20 = a * 16 + b div 16"
    using s(1) [of "((a * 256 + b) * 256 + c) * 256 + d" 4] address_div(2) [OF assms, of a] by (simp; presburger)
  show "(((a * 256 + b) * 256 + c) * 256 + d) div 2 ^ 22 = a * 4 + b div 64"
    using s(1) [of "((a * 256 + b) * 256 + c) * 256 + d" 6] address_div(2) [OF assms, of a] by (simp; presburger)
  show "(((a * 256 + b) * 256 + c) * 256 + d) div 2 ^ 28 = a div 16"
    using s(2) [of "((a * 256 + b) * 256 + c) * 256 + d" 4] address_div(3) [OF assms, of a] by simp
qed

lemma BLOCKED_V4_dotted: "BLOCKED_V4 =
    [(dotted 0 0 0 0, 8), (dotted 10 0 0 0, 8), (dotted 100 64 0 0, 10), (dotted 127 0 0 0, 8), (dotted 169 254 0 0, 16),
     (dotted 172 16 0 0, 12), (dotted 192 0 0 0, 24), (dotted 192 168 0 0, 16), (dotted 198 18 0 0, 15),
     (dotted 224 0 0 0, 4), (dotted 240 0 0 0, 4)]"
  by (simp add: BLOCKED_V4_def dotted_def nat_text.simps char_of_def bit_Suc_0_iff)

lemma cidr_dotted:
  assumes "a < 256" "b < 256" "c < 256" "d < 256" "e < 256" "f < 256" "g < 256" "h < 256"
  shows "inCidr4 (ipv4ToInt (dotted a b c d)) (dotted e f g h) 8 \<longleftrightarrow> a = e"
    and "inCidr4 (ipv4ToInt (dotted a b c d)) (dotted e f g h) 16 \<longleftrightarrow> a * 256 + b = e * 256 + f"
    and "inCidr4 (ipv4ToInt (dotted a b c d)) (dotted e f g h) 24 \<longleftrightarrow> (a * 256 + b) * 256 + c = (e * 256 + f) * 256 + g"
    and "inCidr4 (ipv4ToInt (dotted a b c d)) (dotted e f g h) 4 \<longleftrightarrow> a div 16 = e div 16"
    and "inCidr4 (ipv4ToInt (dotted a b c d)) (dotted e f g h) 10 \<longleftrightarrow> a * 4 + b div 64 = e * 4 + f div 64"
    and "inCidr4 (ipv4ToInt (dotted a b c d)) (dotted e f g h) 12 \<longleftrightarrow> a * 16 + b div 16 = e * 16 + f div 16"
    and "inCidr4 (ipv4ToInt (dotted a b c d)) (dotted e f g h) 15 \<longleftrightarrow> a * 128 + b div 2 = e * 128 + f div 2"
proof -
  have c: "inCidr4 (ipv4ToInt (dotted a b c d)) (dotted e f g h) (32 - k) \<longleftrightarrow>
      (((a * 256 + b) * 256 + c) * 256 + d) div 2 ^ k = (((e * 256 + f) * 256 + g) * 256 + h) div 2 ^ k" if "k < 32" for k
    using inCidr4_dotted [OF assms, of "32 - k"] that by (simp only: diff_diff_cancel less_imp_le zero_less_diff)
  note divs = address_div [OF assms(2-4)] address_div [OF assms(6-8)] address_div_part [OF assms(2-4)] address_div_part [OF assms(6-8)]
  show "inCidr4 (ipv4ToInt (dotted a b c d)) (dotted e f g h) 8 \<longleftrightarrow> a = e"
    using c [of 24] unfolding divs by simp
  show "inCidr4 (ipv4ToInt (dotted a b c d)) (dotted e f g h) 16 \<longleftrightarrow> a * 256 + b = e * 256 + f"
    using c [of 16] unfolding divs by simp
  show "inCidr4 (ipv4ToInt (dotted a b c d)) (dotted e f g h) 24 \<longleftrightarrow> (a * 256 + b) * 256 + c = (e * 256 + f) * 256 + g"
    using c [of 8] unfolding divs by simp
  show "inCidr4 (ipv4ToInt (dotted a b c d)) (dotted e f g h) 4 \<longleftrightarrow> a div 16 = e div 16"
    using c [of 28] unfolding divs by simp
  show "inCidr4 (ipv4ToInt (dotted a b c d)) (dotted e f g h) 10 \<longleftrightarrow> a * 4 + b div 64 = e * 4 + f div 64"
    using c [of 22] unfolding divs by simp
  show "inCidr4 (ipv4ToInt (dotted a b c d)) (dotted e f g h) 12 \<longleftrightarrow> a * 16 + b div 16 = e * 16 + f div 16"
    using c [of 20] unfolding divs by simp
  show "inCidr4 (ipv4ToInt (dotted a b c d)) (dotted e f g h) 15 \<longleftrightarrow> a * 128 + b div 2 = e * 128 + f div 2"
    using c [of 17] unfolding divs by simp
qed

lemma digit_pair: "r < q \<Longrightarrow> p * q + r = n \<longleftrightarrow> p = n div q \<and> r = n mod q" for p q r n :: nat
  by (metis div_mult_mod_eq div_mult_self3 div_less add.right_neutral less_nat_zero_code mod_less mod_mult_self3)

lemma blocked_v4_dotted:
  assumes "a < 256" "b < 256" "c < 256" "d < 256"
  shows "blocked_v4 (dotted a b c d) = reserved_v4 a b c d"
proof -
  have two: "a * 256 + b = 43518 \<longleftrightarrow> a = 169 \<and> b = 254" "a * 256 + b = 49320 \<longleftrightarrow> a = 192 \<and> b = 168"
    "a * 256 + b = 49152 \<longleftrightarrow> a = 192 \<and> b = 0"
    using assms(2) by (simp_all add: digit_pair)
  have three: "(a * 256 + b) * 256 + c = 12582912 \<longleftrightarrow> a = 192 \<and> b = 0 \<and> c = 0"
    using digit_pair [OF assms(3), of "a * 256 + b" 12582912] two(3) by simp
  have "b div 64 < 4" "b div 16 < 16" "b div 2 < 128"
    using assms(2) by (simp_all add: div_less_iff_less_mult)
  then have "a * 4 + b div 64 = 401 \<longleftrightarrow> a = 100 \<and> b div 64 = 1"
    "a * 16 + b div 16 = 2753 \<longleftrightarrow> a = 172 \<and> b div 16 = 1"
    "a * 128 + b div 2 = 25353 \<longleftrightarrow> a = 198 \<and> b div 2 = 9"
    by (simp_all add: digit_pair)
  moreover have "b div 64 = 1 \<longleftrightarrow> 64 \<le> b \<and> b < 128" "b div 16 = 1 \<longleftrightarrow> 16 \<le> b \<and> b < 32"
    "b div 2 = 9 \<longleftrightarrow> b = 18 \<or> b = 19"
    by (rule iffI; linarith)+
  ultimately have parts: "a * 4 + b div 64 = 401 \<longleftrightarrow> a = 100 \<and> 64 \<le> b \<and> b < 128"
    "a * 16 + b div 16 = 2753 \<longleftrightarrow> a = 172 \<and> 16 \<le> b \<and> b < 32"
    "a * 128 + b div 2 = 25353 \<longleftrightarrow> a = 198 \<and> (b = 18 \<or> b = 19)"
    by simp_all
  have "14 \<le> a div 16 \<longleftrightarrow> 224 \<le> a" "a div 16 < 16"
    using assms(1) by (simp_all add: less_eq_div_iff_mult_less_eq div_less_iff_less_mult)
  then have high: "a div 16 = 14 \<or> a div 16 = 15 \<longleftrightarrow> 224 \<le> a"
    by arith
  have "blocked_v4 (dotted a b c d) \<longleftrightarrow>
      a = 0 \<or> a = 10 \<or> a * 4 + b div 64 = 401 \<or> a = 127 \<or> a * 256 + b = 43518 \<or> a * 16 + b div 16 = 2753 \<or>
      (a * 256 + b) * 256 + c = 12582912 \<or> a * 256 + b = 49320 \<or> a * 128 + b div 2 = 25353 \<or>
      a div 16 = 14 \<or> a div 16 = 15"
    by (simp add: blocked_v4_def isIPv4_dotted assms BLOCKED_V4_dotted cidr_dotted)
  then show ?thesis
    unfolding parts three two high reserved_v4_def by simp
qed

text \<open>Every IPv4 literal is a dotted address.\<close>

lemma join_Cons: "join sep ((x # p) # ps) = x # join sep (p # ps)"
  by (cases ps) auto

lemma split_on_Nil: "split_on c s \<noteq> []"
  by (cases s) (auto split: list.splits)

lemma join_split_on: "join [c] (split_on c s) = s"
proof (induction s)
  case (Cons x s)
  then show ?case by (cases "split_on c s") (auto simp: join_Cons split_on_Nil)
qed simp

lemma isIPv4_iff: "isIPv4 s \<longleftrightarrow> (\<exists>a < 256. \<exists>b < 256. \<exists>c < 256. \<exists>d < 256. s = dotted a b c d)"
proof
  assume v: "isIPv4 s"
  then obtain p q r t where os: "split_on (CHR ''.'') s = [p, q, r, t]"
    by (auto simp: isIPv4_def Let_def length_Suc_conv numeral_eq_Suc)
  with v have "octet p" "octet q" "octet r" "octet t" by (simp_all add: isIPv4_def)
  moreover from this have "s = dotted (nat_of_digits p) (nat_of_digits q) (nat_of_digits r) (nat_of_digits t)"
    using join_split_on [of "CHR ''.''" s] os by (simp add: dotted_def octet_def)
  ultimately show "\<exists>a < 256. \<exists>b < 256. \<exists>c < 256. \<exists>d < 256. s = dotted a b c d"
    unfolding octet_def by blast
qed (auto simp: isIPv4_dotted)

section \<open>IPv6 forms of an address\<close>

lemma split_double_colon:
  "\<lbrakk>CHR '':'' \<notin> set p; t \<noteq> []; hd t \<noteq> CHR '':''; split_double t = [t]\<rbrakk> \<Longrightarrow>
    split_double (p @ CHR '':'' # t) = [p @ CHR '':'' # t]"
proof (induction p)
  case Nil
  then show ?case by (cases t) auto
next
  case (Cons c p)
  then show ?case by (cases p) auto
qed

lemma split_double_none: "CHR '':'' \<notin> set s \<Longrightarrow> split_double s = [s]"
  by (induction s rule: split_double.induct) auto

lemma hex_char_facts:
  assumes "k < 16"
  shows "hex_val (hex_char k) = Some k" "ascii_lower_char (hex_char k) = hex_char k"
    "hex_char k \<notin> {CHR '':'', CHR ''.'', CHR ''%''}"
proof -
  have c: "(of_char (hex_char k) :: nat) = (if k < 10 then 48 + k else 87 + k)"
    using assms by (simp add: hex_char_def of_char_of)
  show "hex_val (hex_char k) = Some k"
    unfolding hex_val_def c Let_def using assms by auto
  show "ascii_lower_char (hex_char k) = hex_char k"
    unfolding ascii_lower_char_def c Let_def using assms by auto
  have "(of_char (hex_char k) :: nat) \<notin> {58, 46, 37}"
    unfolding c using assms by auto
  then show "hex_char k \<notin> {CHR '':'', CHR ''.'', CHR ''%''}"
    by (auto simp: of_char_def)
qed

lemma hex_of_chars: "0 \<le> n \<Longrightarrow> \<exists>ks. hex_of n = map hex_char ks \<and> ks \<noteq> [] \<and> (\<forall>k \<in> set ks. k < 16)"
proof (induction n rule: hex_of.induct)
  case (1 n)
  show ?case
  proof (cases "n < 16")
    case True
    then show ?thesis using 1 by (intro exI [of _ "[nat n]"]) (auto simp: hex_of.simps [of n])
  next
    case False
    then have "0 \<le> n div 16" by simp
    then obtain ks where "hex_of (n div 16) = map hex_char ks" "\<forall>k \<in> set ks. k < 16" using 1 False by blast
    with False show ?thesis
      by (intro exI [of _ "ks @ [nat (n mod 16)]"]) (auto simp: hex_of.simps [of n] nat_less_iff)
  qed
qed

lemma hex_of_value: "0 \<le> n \<Longrightarrow> foldl (\<lambda>m c. 16 * m + int (the (hex_val c))) 0 (hex_of n) = n"
proof (induction n rule: hex_of.induct)
  case (1 n)
  then show ?case
    by (cases "n < 16") (simp_all add: hex_of.simps [of n] hex_char_facts nat_less_iff)
qed

lemma length_hex_of: "\<lbrakk>0 \<le> n; n < 65536\<rbrakk> \<Longrightarrow> length (hex_of n) \<le> 4"
  using hex_of.simps [of n] hex_of.simps [of "n div 16"] hex_of.simps [of "n div 16 div 16"]
    hex_of.simps [of "n div 16 div 16 div 16"]
  by (cases "n < 16"; cases "n < 256"; cases "n < 4096") auto

lemma hex_of_segment:
  assumes "0 \<le> n" "n < 65536"
  shows "v6_segment (hex_of n)" "ascii_lower (hex_of n) = hex_of n" "lower_hextet (hex_of n) = Some n"
    "CHR '':'' \<notin> set (hex_of n)" "CHR ''.'' \<notin> set (hex_of n)" "CHR ''%'' \<notin> set (hex_of n)"
proof -
  obtain ks where ks: "hex_of n = map hex_char ks" "ks \<noteq> []" "\<forall>k \<in> set ks. k < 16"
    using hex_of_chars [OF assms(1)] by auto
  show v: "v6_segment (hex_of n)"
    using ks length_hex_of [OF assms] by (auto simp: v6_segment_def is_hex_def list_all_iff hex_char_facts)
  show l: "ascii_lower (hex_of n) = hex_of n"
    using ks by (simp add: ascii_lower_def hex_char_facts)
  show "lower_hextet (hex_of n) = Some n"
    by (simp add: lower_hextet_def v l hex_of_value assms)
  show "CHR '':'' \<notin> set (hex_of n)" "CHR ''.'' \<notin> set (hex_of n)" "CHR ''%'' \<notin> set (hex_of n)"
    using ks hex_char_facts(3) by fastforce+
qed

lemma dotted_chars: "c \<in> set (dotted w x y z) \<Longrightarrow> is_digit c \<or> c = CHR ''.''"
  using nat_text_digits by (auto simp: dotted_def list_all_iff)

lemma lower_digit: "is_digit c \<or> c = CHR ''.'' \<Longrightarrow> ascii_lower_char c = c \<and> c \<noteq> CHR '':'' \<and> c \<noteq> CHR ''%''"
  by (auto simp: is_digit_def ascii_lower_char_def)

lemma dotted_plain:
  "ascii_lower (dotted w x y z) = dotted w x y z" "CHR '':'' \<notin> set (dotted w x y z)" "CHR ''%'' \<notin> set (dotted w x y z)"
proof -
  have "map ascii_lower_char (dotted w x y z) = map id (dotted w x y z)"
    by (rule map_cong [OF refl]) (use dotted_chars lower_digit in auto)
  then show "ascii_lower (dotted w x y z) = dotted w x y z" by (simp add: ascii_lower_def)
  show "CHR '':'' \<notin> set (dotted w x y z)" "CHR ''%'' \<notin> set (dotted w x y z)"
    using dotted_chars lower_digit by fastforce+
qed

text \<open>A literal \<open>::ffff:\<close> with segments behind it.\<close>

lemma not_v4_mapped: "\<not> isIPv4 (''::ffff:'' @ s)"
proof
  assume "isIPv4 (''::ffff:'' @ s)"
  then obtain a b c d where "''::ffff:'' @ s = dotted a b c d" by (auto simp: isIPv4_iff)
  then have "CHR '':'' \<in> set (dotted a b c d)" by (metis append_Cons list.set_intros(1))
  then show False by (simp add: dotted_plain)
qed

lemma isIPv6_mapped:
  assumes "CHR ''%'' \<notin> set s" "s \<noteq> []" "hd s \<noteq> CHR '':''" "split_double s = [s]"
    and "segment_count True (split_on (CHR '':'') s) = Some 2"
  shows "isIPv6 (''::ffff:'' @ s)"
proof -
  define x y where "x = ''::ffff:'' @ s" and "y = ''ffff:'' @ s"
  have t: "takeWhile (\<lambda>c. c \<noteq> CHR ''%'') x = x"
    using assms(1) unfolding x_def by (subst takeWhile_eq_all_conv) auto
  have "split_double (''ffff'' @ CHR '':'' # s) = [''ffff'' @ CHR '':'' # s]"
    using assms by (intro split_double_colon) auto
  then have d: "split_double x = [[], y]" by (simp add: x_def y_def)
  have f: "segments y = ''ffff'' # split_on (CHR '':'') s"
    by (simp add: segments_def y_def)
  have "v6_segment ''ffff''" by code_simp
  then have n: "segment_count True (''ffff'' # split_on (CHR '':'') s) = Some 3"
    using assms(5) by (cases "split_on (CHR '':'') s") (simp_all add: split_on_Nil)
  have "isIPv6 x" by (simp add: isIPv6_def Let_def t d f n segments_def [of "[]"])
  then show ?thesis by (simp only: x_def)
qed

lemma isBlockedAddress_mapped:
  assumes "isIPv6 (''::ffff:'' @ s)" "ascii_lower s = s" "embedded_v4 (''::ffff:'' @ s) = Some v"
  shows "isBlockedAddress (''::ffff:'' @ s) = blocked_v4 v"
proof -
  have l: "ascii_lower (''::ffff:'' @ s) = ''::ffff:'' @ s"
    using assms(2) by (simp add: ascii_lower_def ascii_lower_char_def)
  show ?thesis
    unfolding isBlockedAddress_def Let_def l using assms not_v4_mapped [of s] by simp
qed

lemma dotted_quad_dotted:
  assumes "a < 256" "b < 256" "c < 256" "d < 256"
  shows "dotted_quad (dotted a b c d)"
  using assms by (simp add: dotted_quad_def split_dotted nat_text_digits length_nat_text)

lemma mapped_dotted:
  assumes "a < 256" "b < 256" "c < 256" "d < 256"
  shows "isBlockedAddress (''::ffff:'' @ dotted a b c d) = reserved_v4 a b c d"
proof -
  obtain x s where x: "dotted a b c d = x # s" by (cases "dotted a b c d") (auto simp: dotted_def)
  have "\<not> v6_segment (dotted a b c d)"
    by (simp add: v6_segment_def dotted_def is_hex_def hex_val_def)
  then have "segment_count True (split_on (CHR '':'') (dotted a b c d)) = Some 2"
    by (simp add: split_on_none dotted_plain isIPv4_dotted assms)
  moreover have "hd (dotted a b c d) \<noteq> CHR '':''" "dotted a b c d \<noteq> []"
    using dotted_plain(2) [of a b c d] x by auto
  ultimately have "isIPv6 (''::ffff:'' @ dotted a b c d)"
    by (intro isIPv6_mapped dotted_plain split_double_none)
  moreover have "embedded_v4 (''::ffff:'' @ dotted a b c d) = Some (dotted a b c d)"
    by (simp add: embedded_v4_def dotted_quad_dotted assms)
  ultimately show ?thesis
    by (simp add: isBlockedAddress_mapped dotted_plain blocked_v4_dotted assms del: append_Cons)
qed

lemma mapped_hextets:
  assumes "a < 256" "b < 256" "c < 256" "d < 256"
  defines "s \<equiv> hex_of (256 * int a + int b) @ '':'' @ hex_of (256 * int c + int d)"
  shows "isBlockedAddress (''::ffff:'' @ s) = reserved_v4 a b c d"
proof -
  let ?hi = "256 * int a + int b" and ?lo = "256 * int c + int d"
  have hi: "0 \<le> ?hi" "?hi < 65536" and lo: "0 \<le> ?lo" "?lo < 65536" using assms by auto
  note seg = hex_of_segment [OF hi] hex_of_segment [OF lo]
  obtain x p where x: "hex_of ?hi = x # p" using seg(1) by (cases "hex_of ?hi") (auto simp: v6_segment_def)
  obtain y q where y: "hex_of ?lo = y # q" using seg(7) by (cases "hex_of ?lo") (auto simp: v6_segment_def)
  have o': "split_on (CHR '':'') s = [hex_of ?hi, hex_of ?lo]"
    by (simp add: s_def split_on_once split_on_none seg)
  have "split_double s = [s]"
    using split_double_colon [of "hex_of ?hi" "hex_of ?lo"] seg y by (auto simp: s_def split_double_none)
  then have "isIPv6 (''::ffff:'' @ s)"
    using seg x by (intro isIPv6_mapped) (auto simp: o', auto simp: s_def)
  moreover have v: "hextetsToV4 ?hi ?lo = dotted a b c d"
    using assms by (simp add: hextetsToV4_def)
  moreover have "\<not> dotted_quad s"
    using seg by (simp add: dotted_quad_def split_on_none s_def)
  then have "embedded_v4 (''::ffff:'' @ s) = Some (dotted a b c d)"
    using o' v by (simp add: embedded_v4_def seg)
  ultimately show ?thesis
    using seg by (simp add: isBlockedAddress_mapped blocked_v4_dotted assms(1-4) s_def ascii_lower_def ascii_lower_char_def del: append_Cons)
qed

section \<open>Guarded requests\<close>

definition safe_connection :: "ssrf_env \<Rightarrow> net_event \<Rightarrow> bool" where
  "safe_connection A e =
     (case e of
        Lookup _ \<Rightarrow> True
      | Connect host addrs \<Rightarrow> allowlisted A host \<or> list_all (\<lambda>a. \<not> isBlockedAddress a) addrs)"

definition lookups :: "net_log \<Rightarrow> string list" where
  "lookups L = concat (map (\<lambda>e. case e of Lookup h \<Rightarrow> [h] | _ \<Rightarrow> []) L)"

lemma find_None_all: "List.find P xs = None \<longleftrightarrow> list_all (\<lambda>x. \<not> P x) xs"
  by (auto simp: find_None_iff list_all_iff)

lemma vet_safe: "vet h addrs = Inr as \<Longrightarrow> as = addrs \<and> list_all (\<lambda>a. \<not> isBlockedAddress a) addrs"
  by (auto simp: vet_def find_None_all split: if_splits option.splits)

lemma map_sum_Some: "map_sum id Some v = Inr t \<longleftrightarrow> (\<exists>x. v = Inr x \<and> t = Some x)"
  by (cases v) auto

lemma lookupWithDeadline_log: "snd (lookupWithDeadline A h L) = L @ [Lookup h]"
  by (simp add: lookupWithDeadline_def)

lemma validatingLookup_safe:
  assumes "validatingLookup A h L = (r, L1)"
  shows "(L1 = L \<or> L1 = L @ [Lookup (strip_brackets h)]) \<and>
    (\<forall>addrs. r = Inr addrs \<longrightarrow> allowlisted A (strip_brackets h) \<or> list_all (\<lambda>a. \<not> isBlockedAddress a) addrs)"
  using assms lookupWithDeadline_log [of A "strip_brackets h" L]
  by (auto simp: validatingLookup_def Let_def split: if_splits prod.splits sum.splits dest: vet_safe)

lemma visit_hosts_safe:
  "visit_hosts A hs L = (r, L1) \<Longrightarrow>
     \<exists>M. L1 = L @ M \<and> list_all (\<lambda>e. safe_connection A e \<or> (\<exists>h. e = Connect h [h] \<and> is_literal h)) M"
proof (induction hs arbitrary: L)
  case Nil
  then show ?case by simp
next
  case (Cons h hs)
  let ?h = "strip_brackets h"
  show ?case
  proof (cases "is_literal ?h")
    case True
    then have "visit_hosts A hs (L @ [Connect ?h [?h]]) = (r, L1)" using Cons.prems by (simp add: Let_def)
    from Cons.IH [OF this] True show ?thesis by (auto simp: append_assoc)
  next
    case False
    obtain v L2 where v: "validatingLookup A h L = (v, L2)" by (meson surj_pair)
    obtain M1 where M1: "L2 = L @ M1" "list_all (safe_connection A) M1"
      using validatingLookup_safe [OF v] by (auto simp: safe_connection_def)
    then have M1': "list_all (\<lambda>e. safe_connection A e \<or> (\<exists>h. e = Connect h [h] \<and> is_literal h)) M1"
      by (simp add: list_all_iff)
    show ?thesis
    proof (cases v)
      case (Inl e)
      then show ?thesis using Cons.prems M1 M1' v False by auto
    next
      case (Inr addrs)
      then have "visit_hosts A hs (L2 @ [Connect ?h addrs]) = (r, L1)"
        using Cons.prems v False by (simp add: Let_def)
      from Cons.IH [OF this] M1 M1' validatingLookup_safe [OF v] Inr show ?thesis
        by (auto simp: safe_connection_def)
    qed
  qed
qed

text \<open>What the check of the first URL leaves: the host is allowlisted, or a public literal, or its addresses are vetted.\<close>

lemma resolveSafeFetchTarget_ok:
  assumes "resolveSafeFetchTarget A url L = (Inr target, L1)"
  shows "\<exists>M. L1 = L @ M \<and> lookups M = (if target = None then [] else [strip_brackets (url_host A url)]) \<and>
    list_all (safe_connection A) M \<and>
    (case target of
       Some addrs \<Rightarrow> list_all (\<lambda>a. \<not> isBlockedAddress a) addrs
     | None \<Rightarrow> allowlisted A (strip_brackets (url_host A url)) \<or>
         (is_literal (strip_brackets (url_host A url)) \<and> \<not> isBlockedAddress (strip_brackets (url_host A url))))"
proof -
  obtain protocol h where u: "parse_url A url = Some (protocol, h)"
    using assms by (auto simp: resolveSafeFetchTarget_def split: option.splits)
  then have h: "url_host A url = h" by (simp add: url_host_def)
  show ?thesis
  proof (cases "allowlisted A (strip_brackets h) \<or> is_literal (strip_brackets h)")
    case True
    then show ?thesis
      using assms u by (auto simp: resolveSafeFetchTarget_def h Let_def lookups_def split: if_splits)
  next
    case False
    obtain v L2 where v: "lookupWithDeadline A (strip_brackets h) L = (v, L2)" by (meson surj_pair)
    have L2: "L2 = L @ [Lookup (strip_brackets h)]" using lookupWithDeadline_log [of A "strip_brackets h" L] v by simp
    obtain addrs where a: "v = Inr addrs" "map_sum id Some (vet (strip_brackets h) addrs) = Inr target" "L1 = L2"
      using assms u v False by (auto simp: resolveSafeFetchTarget_def Let_def split: if_splits sum.splits)
    then show ?thesis
      using L2 by (auto simp: map_sum_Some h lookups_def safe_connection_def dest: vet_safe)
  qed
qed

text \<open>C30.
  Which IPv4 addresses are refused: a literal is refused exactly when its octets lie in a reserved range, and so are its
  IPv4-mapped IPv6 forms, with the address written in decimal or as two hexadecimal groups.
\<close>

theorem isBlockedAddress_reserved:
  assumes "a < 256" "b < 256" "c < 256" "d < 256"
  shows "isIPv4 (dotted a b c d) \<and> isBlockedAddress (dotted a b c d) = reserved_v4 a b c d \<and>
     isBlockedAddress (''::ffff:'' @ dotted a b c d) = reserved_v4 a b c d \<and>
     isBlockedAddress (''::ffff:'' @ hex_of (256 * int a + int b) @ '':'' @ hex_of (256 * int c + int d)) = reserved_v4 a b c d"
  using assms mapped_dotted mapped_hextets by (simp_all add: isBlockedAddress_def isIPv4_dotted blocked_v4_dotted)

lemma reserved_witness_values: "dotted 169 254 169 254 = ''169.254.169.254''"
  by (simp add: dotted_def nat_text.simps char_of_def bit_Suc_0_iff)

theorem isBlockedAddress_reserved_witness:
  "isBlockedAddress ''169.254.169.254'' \<and> \<not> isBlockedAddress (dotted 8 8 8 8)"
  using isBlockedAddress_reserved [of 169 254 169 254] isBlockedAddress_reserved [of 8 8 8 8]
  by (simp add: reserved_v4_def reserved_witness_values)

text \<open>What the check overlooks: forms of the loopback address that Node reads as IPv6 literals and the guard lets through.\<close>

lemma loopback_let_through:
  "list_all (\<lambda>ip. isIPv6 ip \<and> \<not> isBlockedAddress ip) [''::1%lo'', ''0:0:0:0:0:ffff:7f00:1'']"
  by code_simp

lemma guarded_fetch_effect:
  assumes "withSafeFetch A True follow url use L = (r, L')"
  shows "\<exists>M. L' = L @ M \<and>
    (\<forall>e \<in> set M. safe_connection A e \<or>
       follow \<and> (\<exists>h. e = Connect h [h] \<and> is_literal h \<and> h \<noteq> strip_brackets (url_host A url))) \<and>
    (\<not> follow \<longrightarrow> length (lookups M) \<le> 1 \<and>
       (\<forall>v. r = Inr v \<longrightarrow> (\<exists>resp. v = use resp \<and> \<not> (300 \<le> fr_status resp \<and> fr_status resp < 400))))"
proof -
  obtain v L1 where v: "resolveSafeFetchTarget A url L = (v, L1)" by (meson surj_pair)
  show ?thesis
  proof (cases v)
    case (Inl e)
    then have "L1 = L \<or> L1 = L @ [Lookup (strip_brackets (url_host A url))]"
      using v lookupWithDeadline_log [of A "strip_brackets (url_host A url)" L]
      by (auto simp: resolveSafeFetchTarget_def url_host_def Let_def split: option.splits if_splits prod.splits sum.splits)
    then show ?thesis
      using assms v Inl by (auto simp: withSafeFetch_def safe_connection_def lookups_def)
  next
    case (Inr target)
    with v obtain M1 where M1: "L1 = L @ M1" "lookups M1 = (if target = None then [] else [strip_brackets (url_host A url)])"
      "list_all (safe_connection A) M1"
      and t: "case target of
         Some addrs \<Rightarrow> list_all (\<lambda>a. \<not> isBlockedAddress a) addrs
       | None \<Rightarrow> allowlisted A (strip_brackets (url_host A url)) \<or>
           (is_literal (strip_brackets (url_host A url)) \<and> \<not> isBlockedAddress (strip_brackets (url_host A url)))"
      using resolveSafeFetchTarget_ok by blast
    show ?thesis
    proof (cases follow)
      case True
      obtain w L2 where w: "visit_hosts A (redirect_hosts A (length L1) url) L1 = (w, L2)" by (meson surj_pair)
      then obtain M2 where M2: "L2 = L1 @ M2"
        "list_all (\<lambda>e. safe_connection A e \<or> (\<exists>h. e = Connect h [h] \<and> is_literal h)) M2"
        using visit_hosts_safe by blast
      have own: "safe_connection A (Connect h [h])" if "is_literal h" "h = strip_brackets (url_host A url)" for h
        using t M1 that v Inr by (auto simp: safe_connection_def resolveSafeFetchTarget_def url_host_def Let_def
            split: option.splits if_splits prod.splits sum.splits)
      have "L' = L2" using assms v Inr True w by (auto simp: withSafeFetch_def split: sum.splits)
      then show ?thesis using M1 M2 True own by (intro exI [of _ "M1 @ M2"]) (auto simp: list_all_iff)
    next
      case False
      obtain c where c: "connect_to A target (url_host A url) L1 = L1 @ [c]" "safe_connection A c" "lookups [c] = []"
        using t by (cases target) (auto simp: connect_to_def Let_def safe_connection_def lookups_def)
      have "L' = L1 @ [c]"
        using assms v Inr False c(1) by (auto simp: withSafeFetch_def Let_def split: sum.splits)
      moreover have "\<exists>resp. v = use resp \<and> \<not> (300 \<le> fr_status resp \<and> fr_status resp < 400)" if "r = Inr v" for v
        using that assms v Inr False c(1)
        by (auto simp: withSafeFetch_def Let_def assertNoRedirect_def split: sum.splits if_splits)
      moreover have "lookups (M1 @ [c]) = lookups M1"
        using c(3) by (simp add: lookups_def)
      ultimately show ?thesis
        using M1 c(2) False by (intro exI [of _ "M1 @ [c]"]) (auto simp: list_all_iff)
    qed
  qed
qed

text \<open>C31.
  A fetch with the guard on, whatever the resolver and the servers answer and also when each resolution gives something
  else, opens connections only to hosts of the allow list or to addresses that are not blocked.  Without redirects there is
  no exception, the name of the URL is resolved at most once, and a redirect is never handed on as a response.  With
  redirects there is one: a host that is a literal address and not the URL's own, which only a redirect can name, is
  connected to unchecked.
\<close>

theorem guarded_fetch_safe:
  assumes "withSafeFetch A True follow url use L = (r, L')"
  shows "\<exists>M. L' = L @ M \<and>
    (\<forall>e \<in> set M. safe_connection A e \<or>
       follow \<and> (\<exists>h. e = Connect h [h] \<and> is_literal h \<and> h \<noteq> strip_brackets (url_host A url))) \<and>
    (\<not> follow \<longrightarrow> length (lookups M) \<le> 1 \<and>
       (\<forall>v. r = Inr v \<longrightarrow> (\<exists>resp. v = use resp \<and> \<not> (300 \<le> fr_status resp \<and> fr_status resp < 400))))"
  using assms by (rule guarded_fetch_effect)

text \<open>A resolver that answers a public address first and the loopback address from then on, and a fetch through it.\<close>

definition rebinding_env :: ssrf_env where
  "rebinding_env = \<lparr>parse_url = (\<lambda>_. Some (''http:'', ''example.org'')),
     dns = (\<lambda>n _. Resolved [if n = 0 then ''8.8.8.8'' else ''127.0.0.1'']),
     redirect_hosts = (\<lambda>_ _. [''example.org'', ''127.0.0.1'']),
     fetched = (\<lambda>_ _. Inr \<lparr>fr_status = 200, fr_statusText = ''OK'', fr_opaqueredirect = False\<rparr>),
     cfg_allowedHosts = [], cfg_ssrfProtect = None\<rparr>"

lemma rebinding_fetch:
  "withSafeFetch rebinding_env True False ''http://example.org/hook'' fr_status [] =
     (Inr 200, [Lookup ''example.org'', Connect ''example.org'' [''8.8.8.8'']])"
  by code_simp

lemma literal_redirect_followed:
  "withSafeFetch (rebinding_env\<lparr>dns := \<lambda>_ _. Resolved [''8.8.8.8'']\<rparr>) True True ''http://example.org/p.zip'' fr_status [] =
     (Inr 200, [Lookup ''example.org'', Lookup ''example.org'', Connect ''example.org'' [''8.8.8.8''],
        Connect ''127.0.0.1'' [''127.0.0.1'']])"
  by code_simp

theorem guarded_fetch_safe_witness:
  "list_all (safe_connection rebinding_env) [Lookup ''example.org'', Connect ''example.org'' [''8.8.8.8'']] \<and>
   safe_connection (rebinding_env\<lparr>dns := \<lambda>_ _. Resolved [''8.8.8.8'']\<rparr>) (Connect ''example.org'' [''8.8.8.8''])"
  using guarded_fetch_safe [OF rebinding_fetch] guarded_fetch_safe [OF literal_redirect_followed] by (simp add: list_all_iff)

end
