(* ===== verification/Openwa_Webhooks.thy ===== *)
theory Openwa_Webhooks
  imports Hook_Manager Webhook_Filters Ssrf "HOL-Library.List_Lexorder"
begin

text \<open>
  The webhooks of the OpenWA gateway: \<open>modules/webhook/webhook.service.ts\<close>, \<open>utils/idempotency.util.ts\<close> and the
  queue's worker \<open>modules/queue/processors/webhook.processor.ts\<close> under \<open>OpenWA/src\<close>.  The state keeps the table of
  webhooks, the network events of the address guard, the requests sent, the jobs queued and the hook events fired.
\<close>

section \<open>State\<close>

record gw_webhook =
  gh_id :: string
  gh_sessionId :: string
  gh_url :: string
  gh_events :: "string list"
  gh_secret :: "string option"
  gh_headers :: "(string \<times> string) list"
  gh_filters :: "entities list option"
  gh_active :: bool
  gh_retryCount :: nat
  gh_lastTriggeredAt :: "nat option"
  gh_createdAt :: nat

record gw_post =
  gp_url :: string
  gp_headers :: "(string \<times> string) list"
  gp_body :: string

record WebhookJobData =
  wj_webhookId :: string
  wj_url :: string
  wj_event :: string
  wj_payload :: jval
  wj_signature :: string
  wj_headers :: "(string \<times> string) list"
  wj_maxRetries :: nat
  wj_attempts :: nat

record gw_state =
  gws_webhooks :: "gw_webhook list"
  gws_net :: net_log
  gws_posts :: "gw_post list"
  gws_queue :: "WebhookJobData list"
  gws_hooked :: "(string \<times> jval) list"
  gws_seq :: nat
  gws_now :: nat

text \<open>
  The environment: the address guard's, the plugins, the known privacy ids, \<open>toLowerCase\<close>, the hexadecimal SHA-256 HMAC
  and digest, \<open>JSON.stringify\<close> and the error it throws on a value it cannot write (a hook may answer one),
  \<open>String(n)\<close>, ISO dates, random UUIDs, and the configuration and outcomes of the queue (\<open>ge_queueError\<close> is what adding a
  job throws) and the database.  Errors are their messages.
\<close>

record gw_env =
  ge_ssrf :: ssrf_env
  ge_hooks :: hook_manager
  ge_lids :: lid_store
  ge_lower :: "string \<Rightarrow> string"
  ge_hmac :: "string \<Rightarrow> string \<Rightarrow> string"
  ge_sha256 :: "string \<Rightarrow> string"
  ge_stringify :: "jval \<Rightarrow> string"
  ge_jsonError :: "jval \<Rightarrow> string option"
  ge_num :: "rat \<Rightarrow> string"
  ge_iso :: "nat \<Rightarrow> string"
  ge_uuid :: "nat \<Rightarrow> string"
  ge_queueEnabled :: bool
  ge_queueError :: "string option"
  ge_lookupFails :: bool

datatype gw_error = Bad_Request string | Not_Found string

section \<open>Idempotency keys\<close>

definition toStr :: "gw_env \<Rightarrow> jval option \<Rightarrow> string \<Rightarrow> string" where
  "toStr E v fallback =
     (case v of
        Some (JStr s) \<Rightarrow> s
      | Some (JNum n) \<Rightarrow> ge_num E n
      | Some (JBool b) \<Rightarrow> (if b then ''true'' else ''false'')
      | _ \<Rightarrow> fallback)"

definition js_nullish :: "jval option \<Rightarrow> jval option \<Rightarrow> jval option" where
  "js_nullish a b = (if a = None \<or> a = Some JNull then b else a)"

text \<open>\<open>JSON.stringify(v, keys)\<close> writes of every object, also a nested one, the properties in \<open>keys\<close>, in their order.\<close>

fun pick_keys :: "string list \<Rightarrow> jval \<Rightarrow> jval" where
  "pick_keys ks (JObj e) =
     JObj (concat (map (\<lambda>k. case map_of (map (\<lambda>p. (fst p, pick_keys ks (snd p))) e) k of None \<Rightarrow> [] | Some v \<Rightarrow> [(k, v)]) ks))"
| "pick_keys ks (JArr vs) = JArr (map (pick_keys ks) vs)"
| "pick_keys ks v = v"

definition sorted_names :: "entities \<Rightarrow> string list" where
  "sorted_names data = sort_key (\<lambda>k. map of_char k :: nat list) (map fst data)"

definition hashData :: "gw_env \<Rightarrow> entities \<Rightarrow> string" where
  "hashData E data = take 12 (ge_sha256 E (ge_stringify E (pick_keys (sorted_names data) (JObj data))))"

definition one_field :: "string \<Rightarrow> entities \<Rightarrow> entities" where
  "one_field k data = (case map_of data k of None \<Rightarrow> [] | Some v \<Rightarrow> [(k, v)])"

definition generateIdempotencyKey :: "gw_env \<Rightarrow> string \<Rightarrow> entities \<Rightarrow> string option \<Rightarrow> string" where
  "generateIdempotencyKey E event data occurredAt =
     (let occurrence = (case occurredAt of Some t \<Rightarrow> (if t = [] then [] else ''_'' @ t) | None \<Rightarrow> []);
          f = (\<lambda>k. toStr E (map_of data k) ''unknown'');
          mid = toStr E (js_nullish (map_of data ''id'') (map_of data ''messageId'')) ''unknown'';
          st = toStr E (js_nullish (map_of data ''status'') (map_of data ''ack'')) ''0''
      in if event \<in> {''message.received'', ''message.sent''} then ''msg_'' @ f ''sessionId'' @ ''_'' @ mid
         else if event = ''message.ack'' then ''ack_'' @ f ''sessionId'' @ ''_'' @ mid @ ''_'' @ st
         else if event = ''message.failed'' then ''failed_'' @ f ''sessionId'' @ ''_'' @ mid @ ''_'' @ st
         else if event = ''message.revoked'' then ''rev_'' @ f ''sessionId'' @ ''_'' @ mid
         else if event = ''message.reaction'' then
           ''react_'' @ f ''sessionId'' @ ''_'' @ f ''messageId'' @ ''_'' @ f ''senderId'' @ occurrence
         else if event = ''session.status'' then ''sess_'' @ f ''sessionId'' @ ''_'' @ f ''status'' @ occurrence
         else if event = ''session.qr'' then ''qr_'' @ f ''sessionId'' @ ''_'' @ hashData E (one_field ''qr'' data)
         else if event = ''session.authenticated'' then ''auth_'' @ f ''sessionId'' @ ''_'' @ hashData E data @ occurrence
         else if event = ''session.disconnected'' then
           ''disc_'' @ f ''sessionId'' @ ''_'' @ hashData E (one_field ''reason'' data) @ occurrence
         else if event = ''group.join'' then ''grp_'' @ f ''groupId'' @ ''_'' @ f ''participantId'' @ ''_join''
         else if event = ''group.leave'' then ''grp_'' @ f ''groupId'' @ ''_'' @ f ''participantId'' @ ''_leave''
         else if event = ''group.update'' then ''grp_'' @ f ''groupId'' @ ''_update_'' @ hashData E data
         else ''evt_'' @ map (\<lambda>c. if c = CHR ''.'' then CHR ''_'' else c) event @ ''_'' @ hashData E data)"

definition generateDeliveryId :: "gw_env \<Rightarrow> gw_state \<Rightarrow> string \<times> gw_state" where
  "generateDeliveryId E s = (''dlv_'' @ ge_uuid E (gws_seq s), s\<lparr>gws_seq := Suc (gws_seq s)\<rparr>)"

section \<open>Headers and signatures\<close>

text \<open>\<open>/^(content-type|x-openwa-)/i\<close>.\<close>

definition reserved_header :: "string \<Rightarrow> bool" where
  "reserved_header k \<longleftrightarrow> starts_with ''content-type'' (ascii_lower k) \<or> starts_with ''x-openwa-'' (ascii_lower k)"

definition sanitizeCustomHeaders :: "(string \<times> string) list \<Rightarrow> (string \<times> string) list" where
  "sanitizeCustomHeaders custom = filter (\<lambda>(k, _). \<not> reserved_header k) custom"

definition generateSignature :: "gw_env \<Rightarrow> string \<Rightarrow> string \<Rightarrow> string" where
  "generateSignature E payload secret = ''sha256='' @ ge_hmac E secret payload"

text \<open>Assignment to properties of an object, in order.\<close>

definition set_all :: "(string \<times> string) list \<Rightarrow> (string \<times> string) list \<Rightarrow> (string \<times> string) list" where
  "set_all kvs hs = foldl (\<lambda>h (k, v). AList.update k v h) hs kvs"

definition system_headers :: "gw_webhook \<Rightarrow> string \<Rightarrow> string \<Rightarrow> string \<Rightarrow> (string \<times> string) list" where
  "system_headers w event idempotencyKey deliveryId =
     set_all
       [(''Content-Type'', ''application/json''), (''User-Agent'', ''OpenWA-Webhook/1.0.0''), (''X-OpenWA-Event'', event),
        (''X-OpenWA-Idempotency-Key'', idempotencyKey), (''X-OpenWA-Delivery-Id'', deliveryId), (''X-OpenWA-Retry-Count'', ''0'')]
       (sanitizeCustomHeaders (gh_headers w))"

section \<open>Requests\<close>

definition resp_ok :: "fetch_response \<Rightarrow> bool" where
  "resp_ok r \<longleftrightarrow> 200 \<le> fr_status r \<and> fr_status r < 300"

definition is_connect :: "net_event \<Rightarrow> bool" where
  "is_connect e = (case e of Connect _ _ \<Rightarrow> True | _ \<Rightarrow> False)"

text \<open>A guarded POST; the request leaves when the guard lets a connection be opened.\<close>

definition safe_post ::
  "gw_env \<Rightarrow> string \<Rightarrow> (string \<times> string) list \<Rightarrow> string \<Rightarrow> gw_state \<Rightarrow> (string + fetch_response) \<times> gw_state" where
  "safe_post E url hs body s =
     (let (r, L) = withSafeFetch (ge_ssrf E) (isSsrfProtectionEnabled (ge_ssrf E)) False url id (gws_net s);
          sent = (if list_ex is_connect (drop (length (gws_net s)) L)
                  then [\<lparr>gp_url = url, gp_headers = hs, gp_body = body\<rparr>] else [])
      in (r, s\<lparr>gws_net := L, gws_posts := gws_posts s @ sent\<rparr>))"

definition gw_http_error :: "fetch_response \<Rightarrow> string" where
  "gw_http_error r = ''HTTP '' @ nat_text (fr_status r) @ '': '' @ fr_statusText r"

definition touch_webhook :: "string \<Rightarrow> gw_state \<Rightarrow> gw_state" where
  "touch_webhook i s =
     s\<lparr>gws_webhooks := map (\<lambda>w. if gh_id w = i then w\<lparr>gh_lastTriggeredAt := Some (gws_now s)\<rparr> else w) (gws_webhooks s)\<rparr>"

text \<open>Firing a hook event whose answer is not used.\<close>

definition fire :: "string \<Rightarrow> entities \<Rightarrow> gw_state \<Rightarrow> gw_state" where
  "fire event data s = s\<lparr>gws_hooked := gws_hooked s @ [(event, JObj data)]\<rparr>"

section \<open>The table of webhooks\<close>

record create_dto =
  cd_url :: string
  cd_events :: "string list option"
  cd_secret :: "string option"
  cd_headers :: "(string \<times> string) list option"
  cd_filters :: "entities list option"
  cd_retryCount :: "nat option"

record update_dto =
  ud_url :: "string option"
  ud_events :: "string list option"
  ud_secret :: "string option"
  ud_headers :: "(string \<times> string) list option"
  ud_filters :: "entities list option option"
  ud_active :: "bool option"
  ud_retryCount :: "nat option"

definition blank_to_null :: "string option \<Rightarrow> string option" where
  "blank_to_null x = (if x = Some [] then None else x)"

definition validateWebhookUrl :: "gw_env \<Rightarrow> string \<Rightarrow> gw_state \<Rightarrow> (gw_error + unit) \<times> gw_state" where
  "validateWebhookUrl E url s =
     (if \<not> isSsrfProtectionEnabled (ge_ssrf E) then (Inr (), s)
      else (let (r, L) = assertSafeFetchUrl (ge_ssrf E) url (gws_net s) in (map_sum Bad_Request id r, s\<lparr>gws_net := L\<rparr>)))"

definition webhook_create :: "gw_env \<Rightarrow> string \<Rightarrow> create_dto \<Rightarrow> gw_state \<Rightarrow> (gw_error + gw_webhook) \<times> gw_state" where
  "webhook_create E sessionId dto s =
     (case validateWebhookUrl E (cd_url dto) s of
        (Inl e, s1) \<Rightarrow> (Inl e, s1)
      | (Inr _, s1) \<Rightarrow>
          (let w = \<lparr>gh_id = ge_uuid E (gws_seq s1), gh_sessionId = sessionId, gh_url = cd_url dto,
                    gh_events = coalesce (cd_events dto) [''message.received''], gh_secret = blank_to_null (cd_secret dto),
                    gh_headers = coalesce (cd_headers dto) [], gh_filters = cd_filters dto, gh_active = True,
                    gh_retryCount = coalesce (cd_retryCount dto) 3, gh_lastTriggeredAt = None, gh_createdAt = gws_now s1\<rparr>
           in (Inr w, s1\<lparr>gws_webhooks := gws_webhooks s1 @ [w], gws_seq := Suc (gws_seq s1)\<rparr>)))"

definition newest_webhooks :: "(gw_webhook \<Rightarrow> bool) \<Rightarrow> gw_state \<Rightarrow> gw_webhook list" where
  "newest_webhooks P s = rev (sort_key gh_createdAt (filter P (gws_webhooks s)))"

definition findBySession :: "string \<Rightarrow> gw_state \<Rightarrow> gw_webhook list" where
  "findBySession sessionId s = newest_webhooks (\<lambda>w. gh_sessionId w = sessionId) s"

definition webhook_findAll :: "string list option \<Rightarrow> gw_state \<Rightarrow> gw_webhook list" where
  "webhook_findAll allowedSessions s =
     (case allowedSessions of
        Some a \<Rightarrow> (if a \<noteq> [] then newest_webhooks (\<lambda>w. gh_sessionId w \<in> set a) s else newest_webhooks (\<lambda>_. True) s)
      | None \<Rightarrow> newest_webhooks (\<lambda>_. True) s)"

definition webhook_findOne :: "string \<Rightarrow> string \<Rightarrow> gw_state \<Rightarrow> gw_error + gw_webhook" where
  "webhook_findOne sessionId i s =
     (case List.find (\<lambda>w. gh_id w = i \<and> gh_sessionId w = sessionId) (gws_webhooks s) of
        None \<Rightarrow> Inl (Not_Found (''Webhook with id '' @ [CHR 0x27] @ i @ [CHR 0x27] @ '' not found''))
      | Some w \<Rightarrow> Inr w)"

definition merge_dto :: "update_dto \<Rightarrow> gw_webhook \<Rightarrow> gw_webhook" where
  "merge_dto dto w =
     w\<lparr>gh_url := coalesce (ud_url dto) (gh_url w), gh_events := coalesce (ud_events dto) (gh_events w),
       gh_secret := (if ud_secret dto \<noteq> None then blank_to_null (ud_secret dto) else gh_secret w),
       gh_headers := coalesce (ud_headers dto) (gh_headers w), gh_filters := coalesce (ud_filters dto) (gh_filters w),
       gh_active := coalesce (ud_active dto) (gh_active w), gh_retryCount := coalesce (ud_retryCount dto) (gh_retryCount w)\<rparr>"

definition webhook_update ::
  "gw_env \<Rightarrow> string \<Rightarrow> string \<Rightarrow> update_dto \<Rightarrow> gw_state \<Rightarrow> (gw_error + gw_webhook) \<times> gw_state" where
  "webhook_update E sessionId i dto s =
     (case webhook_findOne sessionId i s of
        Inl e \<Rightarrow> (Inl e, s)
      | Inr w \<Rightarrow>
          (case (case ud_url dto of None \<Rightarrow> (Inr (), s) | Some url \<Rightarrow> validateWebhookUrl E url s) of
             (Inl e, s1) \<Rightarrow> (Inl e, s1)
           | (Inr _, s1) \<Rightarrow>
               (Inr (merge_dto dto w),
                s1\<lparr>gws_webhooks := map (\<lambda>x. if gh_id x = i then merge_dto dto w else x) (gws_webhooks s1)\<rparr>)))"

definition webhook_delete :: "string \<Rightarrow> string \<Rightarrow> gw_state \<Rightarrow> (gw_error + unit) \<times> gw_state" where
  "webhook_delete sessionId i s =
     (case webhook_findOne sessionId i s of
        Inl e \<Rightarrow> (Inl e, s)
      | Inr w \<Rightarrow> (Inr (), s\<lparr>gws_webhooks := filter (\<lambda>x. gh_id x \<noteq> i) (gws_webhooks s)\<rparr>))"

section \<open>Delivery\<close>

definition payload_of :: "string \<Rightarrow> string \<Rightarrow> string \<Rightarrow> string \<Rightarrow> string \<Rightarrow> entities \<Rightarrow> jval" where
  "payload_of event timestamp sessionId idempotencyKey deliveryId data =
     JObj [(''event'', JStr event), (''timestamp'', JStr timestamp), (''sessionId'', JStr sessionId),
           (''idempotencyKey'', JStr idempotencyKey), (''deliveryId'', JStr deliveryId), (''data'', JObj data)]"

text \<open>A failed attempt is repeated while attempts are left; the headers keep what earlier attempts set.\<close>

function deliverWebhook ::
  "gw_env \<Rightarrow> gw_webhook \<Rightarrow> jval \<Rightarrow> (string \<times> string) list \<Rightarrow> nat \<Rightarrow> gw_state \<Rightarrow> (string + unit) \<times> gw_state" where
  "deliverWebhook E w payload hs attempt s =
     (case ge_jsonError E payload of
        Some e \<Rightarrow> (Inl e, s)
      | None \<Rightarrow>
        (let body = ge_stringify E payload;
             hs1 = AList.update ''X-OpenWA-Retry-Count'' (nat_text (attempt - 1)) hs;
             hs2 = (if present (gh_secret w) \<and> \<not> present (map_of hs1 ''X-OpenWA-Signature'')
                    then AList.update ''X-OpenWA-Signature'' (generateSignature E body (the (gh_secret w))) hs1 else hs1);
             (r, s1) = safe_post E (gh_url w) hs2 body s
         in if \<not> isl r \<and> resp_ok (projr r) then (Inr (), touch_webhook (gh_id w) s1)
            else if attempt < gh_retryCount w then deliverWebhook E w payload hs2 (attempt + 1) s1
            else (Inl (case r of Inl e \<Rightarrow> e | Inr resp \<Rightarrow> gw_http_error resp), s1)))"
  by pat_completeness auto
termination by (relation "measure (\<lambda>(E, w, payload, hs, attempt, s). gh_retryCount w - attempt)") auto

declare deliverWebhook.simps [simp del]

definition matching_webhooks :: "gw_env \<Rightarrow> string \<Rightarrow> string \<Rightarrow> entities \<Rightarrow> gw_state \<Rightarrow> gw_webhook list" where
  "matching_webhooks E sessionId event data s =
     filter (\<lambda>w. (event \<in> set (gh_events w) \<or> ''*'' \<in> set (gh_events w)) \<and>
               evaluateFilters (ge_lower E) (gh_filters w) event data
                 (\<lambda>jid. coalesce (getCached (ge_lids E) (userPart jid)) None))
       (filter (\<lambda>w. gh_sessionId w = sessionId \<and> gh_active w) (gws_webhooks s))"

text \<open>\<open>(hookResult as {payload?}).payload ?? payload\<close>; reading a property of \<open>null\<close> throws.\<close>

definition hooked_payload :: "jval \<Rightarrow> jval \<Rightarrow> string + jval" where
  "hooked_payload result payload =
     (case result of
        JNull \<Rightarrow> Inl ''TypeError''
      | JObj e \<Rightarrow> Inr (coalesce (js_nullish (map_of e ''payload'') (Some payload)) payload)
      | _ \<Rightarrow> Inr payload)"

definition queue_webhook ::
  "gw_env \<Rightarrow> gw_webhook \<Rightarrow> string \<Rightarrow> string \<Rightarrow> string \<Rightarrow> jval \<Rightarrow> (string \<times> string) list \<Rightarrow> gw_state \<Rightarrow> gw_state" where
  "queue_webhook E w sessionId event deliveryId payload hs s =
     (let signature = (if present (gh_secret w) then generateSignature E (ge_stringify E payload) (the (gh_secret w)) else []);
          hs1 = (if present (gh_secret w) then AList.update ''X-OpenWA-Signature'' signature hs else hs)
      in case (case ge_jsonError E payload of None \<Rightarrow> ge_queueError E | Some e \<Rightarrow> Some e) of
           None \<Rightarrow>
             fire ''webhook:queued''
               [(''sessionId'', JStr sessionId), (''event'', JStr event), (''webhookId'', JStr (gh_id w)), (''deliveryId'', JStr deliveryId)]
               (s\<lparr>gws_queue := gws_queue s @
                   [\<lparr>wj_webhookId = gh_id w, wj_url = gh_url w, wj_event = event, wj_payload = payload, wj_signature = signature,
                     wj_headers = hs1, wj_maxRetries = gh_retryCount w, wj_attempts = gh_retryCount w\<rparr>]\<rparr>)
         | Some e \<Rightarrow>
             fire ''webhook:error''
               [(''sessionId'', JStr sessionId), (''event'', JStr event), (''webhookId'', JStr (gh_id w)),
                (''error'', JStr (''Queue failed: '' @ e))] s)"

definition direct_webhook ::
  "gw_env \<Rightarrow> gw_webhook \<Rightarrow> string \<Rightarrow> string \<Rightarrow> string \<Rightarrow> jval \<Rightarrow> (string \<times> string) list \<Rightarrow> gw_state \<Rightarrow> gw_state" where
  "direct_webhook E w sessionId event deliveryId payload hs s =
     (case deliverWebhook E w payload hs 1 s of
        (Inr _, s1) \<Rightarrow>
          fire ''webhook:after''
            [(''sessionId'', JStr sessionId), (''event'', JStr event), (''webhookId'', JStr (gh_id w)), (''success'', JBool True)]
            (fire ''webhook:delivered''
              [(''sessionId'', JStr sessionId), (''event'', JStr event), (''webhookId'', JStr (gh_id w)),
               (''deliveryId'', JStr deliveryId)] s1)
      | (Inl e, s1) \<Rightarrow>
          fire ''webhook:error''
            [(''sessionId'', JStr sessionId), (''event'', JStr event), (''webhookId'', JStr (gh_id w)), (''error'', JStr e)] s1)"

definition dispatch_one ::
  "gw_env \<Rightarrow> string \<Rightarrow> string \<Rightarrow> entities \<Rightarrow> string \<Rightarrow> gw_webhook \<Rightarrow> gw_state \<Rightarrow> (string + unit) \<times> gw_state" where
  "dispatch_one E sessionId event data idempotencyKey w s =
     (let (deliveryId, s1) = generateDeliveryId E s;
          payload = payload_of event (ge_iso E (gws_now s)) sessionId idempotencyKey deliveryId data;
          given = JObj [(''sessionId'', JStr sessionId), (''event'', JStr event), (''payload'', payload)];
          (go, result) = hook_execute (ge_hooks E) {} ''webhook:before'' given (Some sessionId) ''WebhookService'' (gws_now s);
          s2 = s1\<lparr>gws_hooked := gws_hooked s1 @ [(''webhook:before'', given)]\<rparr>
      in if \<not> go then (Inr (), s2)
         else
           (case hooked_payload result payload of
              Inl e \<Rightarrow> (Inl e, s2)
            | Inr finalPayload \<Rightarrow>
                (let hs = system_headers w event idempotencyKey deliveryId
                 in (Inr (), if ge_queueEnabled E then queue_webhook E w sessionId event deliveryId finalPayload hs s2
                             else direct_webhook E w sessionId event deliveryId finalPayload hs s2))))"

fun dispatch_loop ::
  "gw_env \<Rightarrow> string \<Rightarrow> string \<Rightarrow> entities \<Rightarrow> string \<Rightarrow> gw_webhook list \<Rightarrow> gw_state \<Rightarrow> (string + unit) \<times> gw_state" where
  "dispatch_loop E sessionId event data idempotencyKey [] s = (Inr (), s)"
| "dispatch_loop E sessionId event data idempotencyKey (w # ws) s =
     (case dispatch_one E sessionId event data idempotencyKey w s of
        (Inl e, s1) \<Rightarrow> (Inl e, s1)
      | (Inr _, s1) \<Rightarrow> dispatch_loop E sessionId event data idempotencyKey ws s1)"

text \<open>\<open>{ ...data, sessionId }\<close> is what the key is made of.\<close>

definition dispatch_key :: "gw_env \<Rightarrow> string \<Rightarrow> string \<Rightarrow> entities \<Rightarrow> gw_state \<Rightarrow> string" where
  "dispatch_key E sessionId event data s =
     generateIdempotencyKey E event (obj_set ''sessionId'' (JStr sessionId) data) (Some (ge_iso E (gws_now s)))"

definition webhook_dispatch ::
  "gw_env \<Rightarrow> string \<Rightarrow> string \<Rightarrow> entities \<Rightarrow> gw_state \<Rightarrow> (string + unit) \<times> gw_state" where
  "webhook_dispatch E sessionId event data s =
     (if ge_lookupFails E then (Inr (), s)
      else dispatch_loop E sessionId event data (dispatch_key E sessionId event data s)
             (matching_webhooks E sessionId event data s) s)"

section \<open>The queue's worker\<close>

definition payload_field :: "string \<Rightarrow> jval \<Rightarrow> entities" where
  "payload_field k payload = (case payload of JObj e \<Rightarrow> one_field k e | _ \<Rightarrow> [])"

definition process_job :: "gw_env \<Rightarrow> WebhookJobData \<Rightarrow> nat \<Rightarrow> gw_state \<Rightarrow> (string + fetch_response) \<times> gw_state" where
  "process_job E job attemptsMade s =
     (let hs = AList.update ''X-OpenWA-Retry-Count'' (nat_text attemptsMade) (wj_headers job);
          about = payload_field ''sessionId'' (wj_payload job) @
                  [(''event'', JStr (wj_event job)), (''webhookId'', JStr (wj_webhookId job))] @
                  payload_field ''deliveryId'' (wj_payload job);
          attempt = (''attempt'', JNum (of_nat (attemptsMade + 1)));
          (r, s1) = safe_post E (wj_url job) hs (ge_stringify E (wj_payload job)) s
      in if \<not> isl r \<and> resp_ok (projr r) then
           (r, fire ''webhook:delivered''
                 (about @ [(''statusCode'', JNum (of_nat (fr_status (projr r)))), (''responseTime'', JNum 0), attempt])
                 (touch_webhook (wj_webhookId job) s1))
         else
           (let e = (case r of Inl e \<Rightarrow> e | Inr resp \<Rightarrow> gw_http_error resp)
            in (Inl e, if attemptsMade + 1 \<ge> wj_maxRetries job
                       then fire ''webhook:error'' (about @ [(''error'', JStr e), attempt]) s1 else s1)))"

text \<open>The queue runs a job until it succeeds or its attempts are used up; there is at least one.\<close>

function run_job :: "gw_env \<Rightarrow> WebhookJobData \<Rightarrow> nat \<Rightarrow> gw_state \<Rightarrow> gw_state" where
  "run_job E job attemptsMade s =
     (case process_job E job attemptsMade s of
        (Inr _, s1) \<Rightarrow> s1
      | (Inl _, s1) \<Rightarrow> (if attemptsMade + 1 < wj_attempts job then run_job E job (attemptsMade + 1) s1 else s1))"
  by pat_completeness auto
termination by (relation "measure (\<lambda>(E, job, n, s). wj_attempts job - n)") auto

declare run_job.simps [simp del]

section \<open>The test of a webhook\<close>

record test_result =
  tr_success :: bool
  tr_statusCode :: "nat option"
  tr_error :: "string option"

definition webhook_test ::
  "gw_env \<Rightarrow> string \<Rightarrow> string \<Rightarrow> gw_state \<Rightarrow> (gw_error + test_result) \<times> gw_state" where
  "webhook_test E sessionId webhookId s =
     (case webhook_findOne sessionId webhookId s of
        Inl e \<Rightarrow> (Inl e, s)
      | Inr w \<Rightarrow>
          (let (deliveryId, s1) = generateDeliveryId E s;
               idempotencyKey = generateIdempotencyKey E ''test'' [(''webhookId'', JStr (gh_id w))] None;
               body = ge_stringify E
                 (payload_of ''test'' (ge_iso E (gws_now s)) sessionId idempotencyKey deliveryId
                   [(''message'', JStr ''This is a test webhook from OpenWA''), (''webhookId'', JStr (gh_id w)), (''url'', JStr (gh_url w))]);
               hs = system_headers w ''test'' idempotencyKey deliveryId;
               hs1 = (if present (gh_secret w) then AList.update ''X-OpenWA-Signature'' (generateSignature E body (the (gh_secret w))) hs
                      else hs);
               (r, s2) = safe_post E (gh_url w) hs1 body s1
           in (Inr (case r of
                      Inl e \<Rightarrow> \<lparr>tr_success = False, tr_statusCode = None, tr_error = Some e\<rparr>
                    | Inr resp \<Rightarrow> \<lparr>tr_success = resp_ok resp, tr_statusCode = Some (fr_status resp), tr_error = None\<rparr>), s2)))"

end
