(* ===== verification/Webhook_Delivery.thy ===== *)
theory Webhook_Delivery
  imports Openwa_Webhooks Webhook Sample
begin

text \<open>
  What the deliveries of the gateway's webhooks guarantee: who receives an event, how often, that the reserved headers
  are the gateway's own and the signature that of the body, and what the back end answers to such a request.
\<close>

section \<open>Headers of a request\<close>

text \<open>The headers a request of webhook \<open>w\<close> may carry: reserved names only with the gateway's values, those of the
  delivery \<open>did\<close> of an event with key \<open>key\<close>.\<close>

definition own_header :: "gw_env \<Rightarrow> gw_webhook \<Rightarrow> string \<Rightarrow> string \<Rightarrow> string \<Rightarrow> string \<Rightarrow> string \<times> string \<Rightarrow> bool" where
  "own_header E w event key did body kv \<longleftrightarrow>
     (let (k, v) = kv in
      k = ''Content-Type'' \<and> v = ''application/json'' \<or> k = ''X-OpenWA-Event'' \<and> v = event \<or>
      k = ''X-OpenWA-Idempotency-Key'' \<and> v = key \<or> k = ''X-OpenWA-Delivery-Id'' \<and> v = did \<or>
      k = ''X-OpenWA-Retry-Count'' \<and> (\<exists>n < max 1 (gh_retryCount w). v = nat_text n) \<or>
      k = ''X-OpenWA-Signature'' \<and> present (gh_secret w) \<and> v = generateSignature E body (the (gh_secret w)) \<or>
      \<not> reserved_header k \<and> (k = ''User-Agent'' \<or> kv \<in> set (gh_headers w)))"

definition headers_ok :: "gw_env \<Rightarrow> gw_webhook \<Rightarrow> string \<Rightarrow> string \<Rightarrow> string \<Rightarrow> string \<Rightarrow> (string \<times> string) list \<Rightarrow> bool" where
  "headers_ok E w event key did body hs \<longleftrightarrow>
     list_all (own_header E w event key did body) hs \<and> map_of hs ''X-OpenWA-Idempotency-Key'' = Some key \<and>
     map_of hs ''X-OpenWA-Event'' = Some event \<and> map_of hs ''X-OpenWA-Delivery-Id'' = Some did"

text \<open>A request as the gateway means it; with a secret it is signed.\<close>

definition authentic :: "gw_env \<Rightarrow> gw_webhook \<Rightarrow> string \<Rightarrow> string \<Rightarrow> string \<Rightarrow> gw_post \<Rightarrow> bool" where
  "authentic E w event key did p \<longleftrightarrow>
     gp_url p = gh_url w \<and> headers_ok E w event key did (gp_body p) (gp_headers p) \<and>
     (present (gh_secret w) \<longrightarrow>
       map_of (gp_headers p) ''X-OpenWA-Signature'' = Some (generateSignature E (gp_body p) (the (gh_secret w))))"

lemma set_AList_update: "set (AList.update k v xs) \<subseteq> insert (k, v) (set xs)"
  by (induction xs) auto

lemma list_all_update: "\<lbrakk>P (k, v); list_all P xs\<rbrakk> \<Longrightarrow> list_all P (AList.update k v xs)"
  using set_AList_update [of k v xs] by (auto simp: list_all_iff)

lemma headers_ok_update:
  "\<lbrakk>own_header E w event key did body (k, v); headers_ok E w event key did body hs;
    k \<notin> {''X-OpenWA-Idempotency-Key'', ''X-OpenWA-Event'', ''X-OpenWA-Delivery-Id''}\<rbrakk> \<Longrightarrow>
    headers_ok E w event key did body (AList.update k v hs)"
  by (auto simp: headers_ok_def list_all_update update_conv')

lemma own_signature:
  "present (gh_secret w) \<Longrightarrow>
    own_header E w event key did body (''X-OpenWA-Signature'', generateSignature E body (the (gh_secret w)))"
  by (simp add: own_header_def)

lemma own_retry:
  "n < max 1 (gh_retryCount w) \<Longrightarrow> own_header E w event key did body (''X-OpenWA-Retry-Count'', nat_text n)"
  by (auto simp: own_header_def)

lemma nat_text_0: "nat_text 0 = ''0''"
  by code_simp

lemma custom_headers_own: "list_all (own_header E w event key did body) (sanitizeCustomHeaders (gh_headers w))"
  by (auto simp: list_all_iff sanitizeCustomHeaders_def own_header_def)

lemma system_headers_ok: "headers_ok E w event key did body (system_headers w event key did)"
proof -
  have "\<not> reserved_header ''User-Agent''" by code_simp
  moreover have "own_header E w event key did body (''X-OpenWA-Retry-Count'', ''0'')"
    using own_retry [of 0 w] nat_text_0 by simp
  ultimately show ?thesis
    unfolding headers_ok_def system_headers_def set_all_def
    by (simp add: list_all_update custom_headers_own update_conv') (simp add: list_all_update custom_headers_own own_header_def)
qed

lemma system_headers_unsigned: "map_of (system_headers w event key did) ''X-OpenWA-Signature'' = None"
proof -
  have "reserved_header ''X-OpenWA-Signature''" by code_simp
  then have "map_of (sanitizeCustomHeaders (gh_headers w)) ''X-OpenWA-Signature'' = None"
    by (auto simp: map_of_eq_None_iff sanitizeCustomHeaders_def)
  then show ?thesis by (simp add: system_headers_def set_all_def update_conv')
qed

section \<open>Sending\<close>

text \<open>The network events since \<open>s\<close> hold to the address guard.\<close>

definition guarded_since :: "gw_env \<Rightarrow> gw_state \<Rightarrow> gw_state \<Rightarrow> bool" where
  "guarded_since E s s' \<longleftrightarrow>
     (isSsrfProtectionEnabled (ge_ssrf E) \<longrightarrow>
       (\<exists>M. gws_net s' = gws_net s @ M \<and> list_all (safe_connection (ge_ssrf E)) M))"

lemma guarded_refl: "gws_net s' = gws_net s \<Longrightarrow> guarded_since E s s'"
  by (simp add: guarded_since_def)

lemma guarded_trans: "\<lbrakk>guarded_since E s s1; guarded_since E s1 s2\<rbrakk> \<Longrightarrow> guarded_since E s s2"
  by (auto simp: guarded_since_def)

lemma safe_post_effect:
  assumes "safe_post E url hs body s = (r, s1)"
  shows "(gws_posts s1 = gws_posts s \<or> gws_posts s1 = gws_posts s @ [\<lparr>gp_url = url, gp_headers = hs, gp_body = body\<rparr>]) \<and>
    gws_queue s1 = gws_queue s \<and> gws_webhooks s1 = gws_webhooks s \<and> guarded_since E s s1"
proof -
  obtain x L where f: "withSafeFetch (ge_ssrf E) (isSsrfProtectionEnabled (ge_ssrf E)) False url id (gws_net s) = (x, L)"
    by (meson surj_pair)
  have "\<exists>M. L = gws_net s @ M \<and> list_all (safe_connection (ge_ssrf E)) M" if "isSsrfProtectionEnabled (ge_ssrf E)"
    using guarded_fetch_effect [of "ge_ssrf E" False url id "gws_net s" x L] f that by (auto simp: list_all_iff)
  then show ?thesis
    using assms f by (auto simp: safe_post_def guarded_since_def)
qed

text \<open>The address of the webhook passes the guard whenever it is checked, so a request to it leaves.\<close>

definition posts_first :: "gw_env \<Rightarrow> gw_webhook \<Rightarrow> bool" where
  "posts_first E w \<longleftrightarrow> isSsrfProtectionEnabled (ge_ssrf E) \<and>
     (\<forall>L. \<not> isl (fst (resolveSafeFetchTarget (ge_ssrf E) (gh_url w) L)))"

lemma safe_post_sends:
  assumes "posts_first E w" "safe_post E (gh_url w) hs body s = (r, s1)"
  shows "gws_posts s1 \<noteq> gws_posts s"
proof -
  obtain v L1 where v: "resolveSafeFetchTarget (ge_ssrf E) (gh_url w) (gws_net s) = (v, L1)" by (meson surj_pair)
  then obtain t where t: "v = Inr t" using assms(1) unfolding posts_first_def by (metis fst_conv isl_def sum.exhaust)
  obtain M where M: "L1 = gws_net s @ M" using resolveSafeFetchTarget_ok v t by blast
  obtain x L where f: "withSafeFetch (ge_ssrf E) True False (gh_url w) id (gws_net s) = (x, L)" by (meson surj_pair)
  then have "L = connect_to (ge_ssrf E) t (url_host (ge_ssrf E) (gh_url w)) L1"
    using v t by (auto simp: withSafeFetch_def Let_def split: sum.splits)
  then have "list_ex is_connect (drop (length (gws_net s)) L)"
    by (simp add: M connect_to_def is_connect_def Let_def)
  then show ?thesis using assms f by (auto simp: safe_post_def posts_first_def)
qed

lemma deliverWebhook_effect:
  "\<lbrakk>deliverWebhook E w payload hs attempt s = (r, s'); 1 \<le> attempt; attempt \<le> max 1 (gh_retryCount w);
    headers_ok E w event key did (ge_stringify E payload) hs;
    map_of hs ''X-OpenWA-Signature'' \<in> {None, Some (generateSignature E (ge_stringify E payload) (the (gh_secret w)))}\<rbrakk> \<Longrightarrow>
    (\<exists>ps. gws_posts s' = gws_posts s @ ps \<and> length ps \<le> max 1 (gh_retryCount w + 1 - attempt) \<and>
      (\<forall>p \<in> set ps. authentic E w event key did p \<and> gp_body p = ge_stringify E payload) \<and>
      (ge_jsonError E payload = None \<and> posts_first E w \<longrightarrow> ps \<noteq> [])) \<and>
    gws_queue s' = gws_queue s \<and> guarded_since E s s'"
proof (induction E w payload hs attempt s arbitrary: r s' rule: deliverWebhook.induct)
  case (1 E w payload hs attempt s)
  show ?case
  proof (cases "ge_jsonError E payload = None")
    case False
    then obtain er where "ge_jsonError E payload = Some er" by auto
    then show ?thesis using "1.prems"(1) by (simp add: deliverWebhook.simps [of E w] guarded_refl)
  next
    case True
    define body where "body = ge_stringify E payload"
    define hs1 where "hs1 = AList.update ''X-OpenWA-Retry-Count'' (nat_text (attempt - 1)) hs"
    define hs2 where "hs2 = (if present (gh_secret w) \<and> \<not> present (map_of hs1 ''X-OpenWA-Signature'')
      then AList.update ''X-OpenWA-Signature'' (generateSignature E body (the (gh_secret w))) hs1 else hs1)"
    obtain x s1 where p: "safe_post E (gh_url w) hs2 body s = (x, s1)" by (meson surj_pair)
    note e = safe_post_effect [OF p]
    have h1: "headers_ok E w event key did body hs1"
      using "1.prems"(2-4) by (simp add: hs1_def body_def headers_ok_update own_retry)
    then have h2: "headers_ok E w event key did body hs2"
      by (simp add: hs2_def headers_ok_update own_signature)
    have m: "map_of hs2 ''X-OpenWA-Signature'' \<in> {None, Some (generateSignature E body (the (gh_secret w)))}"
      "present (gh_secret w) \<Longrightarrow> map_of hs2 ''X-OpenWA-Signature'' = Some (generateSignature E body (the (gh_secret w)))"
      using "1.prems"(5) by (auto simp: hs2_def hs1_def body_def update_conv' present_def generateSignature_def)
    have a: "authentic E w event key did \<lparr>gp_url = gh_url w, gp_headers = hs2, gp_body = body\<rparr>"
      using h2 m(2) by (simp add: authentic_def)
    then obtain ps1 where ps1: "gws_posts s1 = gws_posts s @ ps1" "length ps1 \<le> 1"
      "\<forall>p \<in> set ps1. authentic E w event key did p \<and> gp_body p = body"
      using e by auto
    have first: "posts_first E w \<Longrightarrow> ps1 \<noteq> []" using safe_post_sends [OF _ p] ps1(1) by auto
    show ?thesis
    proof (cases "(isl x \<or> \<not> resp_ok (projr x)) \<and> attempt < gh_retryCount w")
      case again: True
      have "deliverWebhook E w payload hs2 (attempt + 1) s1 = (r, s')"
        using "1.prems"(1) again True p
        by (auto simp: deliverWebhook.simps [of E w payload hs] Let_def body_def hs1_def hs2_def split: if_splits)
      from "1.IH" [OF _ body_def hs1_def hs2_def p [symmetric] refl _ _ this] again True h2 m(1)
      obtain ps2 where ps2: "gws_posts s' = gws_posts s1 @ ps2" "length ps2 \<le> max 1 (gh_retryCount w + 1 - (attempt + 1))"
        "\<forall>p \<in> set ps2. authentic E w event key did p \<and> gp_body p = body" "gws_queue s' = gws_queue s1" "guarded_since E s1 s'"
        by (auto simp: body_def)
      have "length (ps1 @ ps2) \<le> max 1 (gh_retryCount w + 1 - attempt)"
        using ps1(2) ps2(2) again by (auto simp: max_def split: if_splits)
      then show ?thesis
        using ps1 first ps2 e guarded_trans [of E s s1 s'] by (intro conjI exI [of _ "ps1 @ ps2"]) (auto simp: body_def)
    next
      case False
      then have "s' = s1 \<or> s' = touch_webhook (gh_id w) s1"
        using "1.prems"(1) True p
        by (auto simp: deliverWebhook.simps [of E w payload hs] Let_def body_def hs1_def hs2_def split: if_splits)
      then have "gws_posts s' = gws_posts s1" "gws_queue s' = gws_queue s1" "gws_net s' = gws_net s1"
        by (auto simp: touch_webhook_def)
      then show ?thesis
        using ps1 first e by (intro conjI exI [of _ ps1]) (auto simp: body_def guarded_since_def)
    qed
  qed
qed

text \<open>A queued job stands for one delivery: its requests, in whatever attempt, are those of the webhook.\<close>

definition job_for :: "gw_env \<Rightarrow> gw_webhook \<Rightarrow> string \<Rightarrow> string \<Rightarrow> string \<Rightarrow> WebhookJobData \<Rightarrow> bool" where
  "job_for E w event key did j \<longleftrightarrow>
     wj_url j = gh_url w \<and> wj_webhookId j = gh_id w \<and> wj_attempts j = gh_retryCount w \<and> wj_maxRetries j = gh_retryCount w \<and>
     (\<forall>n < max 1 (gh_retryCount w). authentic E w event key did
        \<lparr>gp_url = wj_url j, gp_headers = AList.update ''X-OpenWA-Retry-Count'' (nat_text n) (wj_headers j),
         gp_body = ge_stringify E (wj_payload j)\<rparr>)"

lemma queue_webhook_effect:
  fixes E w sid event did payload hs s
  defines "s' \<equiv> queue_webhook E w sid event did payload hs s"
  assumes "headers_ok E w event key did (ge_stringify E payload) hs" "map_of hs ''X-OpenWA-Signature'' = None"
  shows "gws_posts s' = gws_posts s \<and> gws_net s' = gws_net s \<and>
    (\<exists>js. gws_queue s' = gws_queue s @ js \<and> length js \<le> 1 \<and> (\<forall>j \<in> set js. job_for E w event key did j) \<and>
      (ge_jsonError E payload = None \<and> ge_queueError E = None \<longrightarrow> js \<noteq> []))"
proof (cases "ge_jsonError E payload = None \<and> ge_queueError E = None")
  case True
  define body where "body = ge_stringify E payload"
  define hs1 where "hs1 = (if present (gh_secret w)
    then AList.update ''X-OpenWA-Signature'' (generateSignature E body (the (gh_secret w))) hs else hs)"
  have "headers_ok E w event key did body hs1"
    using assms(2) by (simp add: hs1_def body_def headers_ok_update own_signature)
  then have "headers_ok E w event key did body (AList.update ''X-OpenWA-Retry-Count'' (nat_text n) hs1)"
    if "n < max 1 (gh_retryCount w)" for n
    using that by (simp add: headers_ok_update own_retry)
  moreover have "present (gh_secret w) \<Longrightarrow> map_of (AList.update ''X-OpenWA-Retry-Count'' (nat_text n) hs1) ''X-OpenWA-Signature'' =
      Some (generateSignature E body (the (gh_secret w)))" for n
    by (simp add: hs1_def update_conv')
  ultimately have "job_for E w event key did
      \<lparr>wj_webhookId = gh_id w, wj_url = gh_url w, wj_event = event, wj_payload = payload,
       wj_signature = (if present (gh_secret w) then generateSignature E body (the (gh_secret w)) else []),
       wj_headers = hs1, wj_maxRetries = gh_retryCount w, wj_attempts = gh_retryCount w\<rparr>"
    by (simp add: job_for_def authentic_def body_def [symmetric])
  then show ?thesis
    using True by (cases "present (gh_secret w)") (simp_all add: s'_def queue_webhook_def Let_def fire_def body_def hs1_def)
next
  case False
  then show ?thesis by (auto simp: s'_def queue_webhook_def Let_def fire_def split: option.splits)
qed

text \<open>What one subscriber gets of one event: its requests, or its job, all with one delivery id.\<close>

definition group_ok :: "gw_env \<Rightarrow> string \<Rightarrow> string \<Rightarrow> gw_webhook \<Rightarrow> gw_post list \<times> WebhookJobData list \<Rightarrow> bool" where
  "group_ok E event key w g \<longleftrightarrow>
     (\<exists>n body. (\<forall>p \<in> set (fst g). gp_body p = body \<and> authentic E w event key (''dlv_'' @ ge_uuid E n) p) \<and>
       (\<forall>j \<in> set (snd g). job_for E w event key (''dlv_'' @ ge_uuid E n) j)) \<and>
     length (fst g) \<le> max 1 (gh_retryCount w) \<and> length (snd g) \<le> 1 \<and>
     (if ge_queueEnabled E then fst g = [] else snd g = [])"

text \<open>
  When nothing keeps the gateway from sending: the webhooks could be read, no plugin takes part, every payload can be
  written as text, and the queue takes the job, or the guard lets the address pass.
\<close>

definition nothing_in_the_way :: "gw_env \<Rightarrow> gw_webhook \<Rightarrow> bool" where
  "nothing_in_the_way E w \<longleftrightarrow>
     \<not> ge_lookupFails E \<and> registrations (ge_hooks E) ''webhook:before'' = [] \<and> (\<forall>p. ge_jsonError E p = None) \<and>
     (if ge_queueEnabled E then ge_queueError E = None else posts_first E w)"

definition group_sent :: "gw_env \<Rightarrow> gw_webhook \<Rightarrow> gw_post list \<times> WebhookJobData list \<Rightarrow> bool" where
  "group_sent E w g \<longleftrightarrow> (nothing_in_the_way E w \<longrightarrow> (if ge_queueEnabled E then snd g \<noteq> [] else fst g \<noteq> []))"

definition delivers :: "gw_env \<Rightarrow> string \<Rightarrow> string \<Rightarrow> gw_webhook list \<Rightarrow> gw_state \<Rightarrow> gw_state \<Rightarrow> bool" where
  "delivers E event key ws s s' \<longleftrightarrow>
     (\<exists>gs. list_all2 (\<lambda>w g. group_ok E event key w g \<and> group_sent E w g) ws gs \<and>
       gws_posts s' = gws_posts s @ concat (map fst gs) \<and> gws_queue s' = gws_queue s @ concat (map snd gs)) \<and>
     guarded_since E s s'"

lemma delivers_nothing:
  assumes "gws_posts s' = gws_posts s" "gws_queue s' = gws_queue s" "gws_net s' = gws_net s"
    and "\<And>w. w \<in> set ws \<Longrightarrow> \<not> nothing_in_the_way E w"
  shows "delivers E event key ws s s'"
proof -
  have "list_all2 (\<lambda>w g. group_ok E event key w g \<and> group_sent E w g) ws (replicate (length ws) ([], []))"
    using assms(4) by (auto simp: list_all2_conv_all_nth group_ok_def group_sent_def)
  moreover have "concat (map fst (replicate n ([], []))) = []" "concat (map snd (replicate n ([], []))) = []" for n
    by (simp_all add: map_replicate)
  ultimately show ?thesis
    using assms(1-3) guarded_refl unfolding delivers_def by (intro conjI exI) auto
qed

lemma delivers_single:
  assumes "gws_posts s' = gws_posts s @ ps" "gws_queue s' = gws_queue s @ js" "guarded_since E s s'"
    and "group_ok E event key w (ps, js)" "group_sent E w (ps, js)"
  shows "delivers E event key [w] s s'"
  using assms unfolding delivers_def by (intro conjI exI [of _ "[(ps, js)]"]) simp_all

text \<open>Without a plugin the hook answers what it was given.\<close>

lemma no_plugin_answer:
  assumes "registrations m ''webhook:before'' = []"
  shows "hook_execute m {} ''webhook:before'' d sid src now = (True, d)"
  using assms by (simp add: hook_execute_def runHandlers_def)

lemma given_payload:
  "hooked_payload (JObj [(''sessionId'', a), (''event'', b), (''payload'', payload_of ev t sid key did data)]) x =
     Inr (payload_of ev t sid key did data)"
  by (simp add: hooked_payload_def payload_of_def js_nullish_def coalesce_def)

lemma delivers_one:
  assumes "dispatch_one E sid event data key w s = (r, s')"
  shows "delivers E event key [w] s s' \<and> (isl r \<longrightarrow> registrations (ge_hooks E) ''webhook:before'' \<noteq> [])"
proof -
  define did where "did = ''dlv_'' @ ge_uuid E (gws_seq s)"
  obtain s1 where d: "generateDeliveryId E s = (did, s1)" by (simp add: generateDeliveryId_def did_def)
  define payload where "payload = payload_of event (ge_iso E (gws_now s)) sid key did data"
  define given where "given = JObj [(''sessionId'', JStr sid), (''event'', JStr event), (''payload'', payload)]"
  define s2 where "s2 = s1\<lparr>gws_hooked := gws_hooked s1 @ [(''webhook:before'', given)]\<rparr>"
  have s2: "gws_posts s2 = gws_posts s" "gws_queue s2 = gws_queue s" "gws_net s2 = gws_net s"
    using d by (auto simp: s2_def generateDeliveryId_def)
  obtain go result where h:
    "hook_execute (ge_hooks E) {} ''webhook:before'' given (Some sid) ''WebhookService'' (gws_now s) = (go, result)"
    by (meson surj_pair)
  note run = assms [unfolded dispatch_one_def Let_def d prod.case, folded payload_def, folded given_def, folded s2_def,
      unfolded h prod.case]
  have plain: "go \<and> hooked_payload result payload = Inr payload" if "registrations (ge_hooks E) ''webhook:before'' = []"
    using no_plugin_answer [OF that, of given "Some sid" "''WebhookService''" "gws_now s"] h
    by (auto simp: given_def payload_def given_payload)
  show ?thesis
  proof (cases "go \<and> (\<exists>p. hooked_payload result payload = Inr p)")
    case False
    then have "s' = s2" using run by (auto split: if_splits sum.splits)
    moreover have "registrations (ge_hooks E) ''webhook:before'' \<noteq> []" using False plain by blast
    ultimately show ?thesis using s2 by (auto simp: nothing_in_the_way_def intro!: delivers_nothing)
  next
    case True
    then obtain p where p: "hooked_payload result payload = Inr p" by blast
    let ?hs = "system_headers w event key did"
    have hs: "headers_ok E w event key did (ge_stringify E p) ?hs" "map_of ?hs ''X-OpenWA-Signature'' = None"
      by (rule system_headers_ok, rule system_headers_unsigned)
    have r: "\<not> isl r" using run True p by auto
    show ?thesis
    proof (cases "ge_queueEnabled E")
      case queue: True
      then have s': "s' = queue_webhook E w sid event did p ?hs s2" using run True p by simp
      obtain js where js: "gws_posts s' = gws_posts s2" "gws_net s' = gws_net s2" "gws_queue s' = gws_queue s2 @ js" "length js \<le> 1"
        "\<forall>j \<in> set js. job_for E w event key did j" "ge_jsonError E p = None \<and> ge_queueError E = None \<longrightarrow> js \<noteq> []"
        using queue_webhook_effect [OF hs, of sid s2] unfolding s' by blast
      have "delivers E event key [w] s s'"
        using js s2 queue
        by (intro delivers_single [of _ _ "[]" js])
          (auto simp: guarded_since_def group_ok_def group_sent_def nothing_in_the_way_def did_def)
      then show ?thesis using r by simp
    next
      case direct: False
      then have s': "s' = direct_webhook E w sid event did p ?hs s2" using run True p by simp
      obtain x s3 where x: "deliverWebhook E w p ?hs 1 s2 = (x, s3)" by (meson surj_pair)
      have same: "gws_posts s' = gws_posts s3" "gws_queue s' = gws_queue s3" "gws_net s' = gws_net s3"
        using x by (auto simp: s' direct_webhook_def fire_def split: sum.splits)
      obtain ps where ps: "gws_posts s3 = gws_posts s2 @ ps" "length ps \<le> max 1 (gh_retryCount w)"
        "\<forall>q \<in> set ps. authentic E w event key did q \<and> gp_body q = ge_stringify E p"
        "ge_jsonError E p = None \<and> posts_first E w \<longrightarrow> ps \<noteq> []" "gws_queue s3 = gws_queue s2" "guarded_since E s2 s3"
        using deliverWebhook_effect [OF x _ _ hs(1)] hs(2) by auto
      have "delivers E event key [w] s s'"
        using ps s2 same direct
        by (intro delivers_single [of _ _ ps "[]"])
          (auto simp: guarded_since_def group_ok_def group_sent_def nothing_in_the_way_def did_def)
      then show ?thesis using r by simp
    qed
  qed
qed

lemma delivers_append:
  assumes "delivers E event key ws s s1" "delivers E event key vs s1 s2"
  shows "delivers E event key (ws @ vs) s s2"
proof -
  obtain gs where 1: "list_all2 (\<lambda>w g. group_ok E event key w g \<and> group_sent E w g) ws gs"
    "gws_posts s1 = gws_posts s @ concat (map fst gs)" "gws_queue s1 = gws_queue s @ concat (map snd gs)" "guarded_since E s s1"
    using assms(1) unfolding delivers_def by blast
  obtain ks where 2: "list_all2 (\<lambda>w g. group_ok E event key w g \<and> group_sent E w g) vs ks"
    "gws_posts s2 = gws_posts s1 @ concat (map fst ks)" "gws_queue s2 = gws_queue s1 @ concat (map snd ks)" "guarded_since E s1 s2"
    using assms(2) unfolding delivers_def by blast
  show ?thesis
    unfolding delivers_def
    using 1 2 guarded_trans [OF 1(4) 2(4)] by (intro conjI exI [of _ "gs @ ks"]) (simp_all add: list_all2_appendI)
qed

lemma delivers_loop: "dispatch_loop E sid event data key ws s = (r, s') \<Longrightarrow> delivers E event key ws s s'"
proof (induction ws arbitrary: s)
  case Nil
  then show ?case by (auto intro: delivers_nothing)
next
  case (Cons w ws)
  obtain x s1 where x: "dispatch_one E sid event data key w s = (x, s1)" by (meson surj_pair)
  note one = delivers_one [OF x]
  have "delivers E event key ws s1 s'"
  proof (cases x)
    case (Inl e)
    then show ?thesis using Cons.prems x one by (auto simp: nothing_in_the_way_def intro!: delivers_nothing)
  next
    case (Inr u)
    then show ?thesis using Cons.prems x Cons.IH [of s1] by simp
  qed
  then show ?case using delivers_append [of E event key "[w]" s s1 ws s'] one by simp
qed

lemma dispatch_delivers:
  assumes "webhook_dispatch E sid event data s = (r, s')"
  shows "delivers E event (dispatch_key E sid event data s) (matching_webhooks E sid event data s) s s'"
  using assms delivers_loop
  by (auto simp: webhook_dispatch_def nothing_in_the_way_def intro!: delivers_nothing split: if_splits)

lemma matching_filter:
  "matching_webhooks E sid event data s =
     filter (\<lambda>w. gh_sessionId w = sid \<and> gh_active w \<and> (event \<in> set (gh_events w) \<or> ''*'' \<in> set (gh_events w)) \<and>
         evaluateFilters (ge_lower E) (gh_filters w) event data (\<lambda>jid. coalesce (getCached (ge_lids E) (userPart jid)) None))
       (gws_webhooks s)"
  by (auto simp: matching_webhooks_def intro!: filter_cong)

lemma run_job_effect:
  "job_for E w event key did j \<Longrightarrow> n < max 1 (wj_attempts j) \<Longrightarrow>
    (\<exists>ps. gws_posts (run_job E j n s) = gws_posts s @ ps \<and> length ps \<le> max 1 (wj_attempts j) - n \<and>
      (\<forall>p \<in> set ps. authentic E w event key did p \<and> gp_body p = ge_stringify E (wj_payload j))) \<and>
    gws_queue (run_job E j n s) = gws_queue s \<and> guarded_since E s (run_job E j n s)"
proof (induction E j n s rule: run_job.induct)
  case (1 E j n s)
  obtain x s1 where x: "process_job E j n s = (x, s1)" by (meson surj_pair)
  obtain y s0 where y: "safe_post E (wj_url j) (AList.update ''X-OpenWA-Retry-Count'' (nat_text n) (wj_headers j))
      (ge_stringify E (wj_payload j)) s = (y, s0)" by (meson surj_pair)
  have same: "gws_posts s1 = gws_posts s0" "gws_queue s1 = gws_queue s0" "gws_net s1 = gws_net s0"
    using x y by (auto simp: process_job_def Let_def fire_def touch_webhook_def split: if_splits)
  have a: "authentic E w event key did
      \<lparr>gp_url = wj_url j, gp_headers = AList.update ''X-OpenWA-Retry-Count'' (nat_text n) (wj_headers j),
       gp_body = ge_stringify E (wj_payload j)\<rparr>"
  proof -
    have "n < max 1 (gh_retryCount w)" using "1.prems" by (simp add: job_for_def)
    then show ?thesis using "1.prems"(1) unfolding job_for_def by blast
  qed
  have g: "guarded_since E s s1" "gws_queue s1 = gws_queue s"
    using safe_post_effect [OF y] same by (auto simp: guarded_since_def)
  obtain ps1 where ps1: "gws_posts s1 = gws_posts s @ ps1" "length ps1 \<le> 1"
    "\<forall>p \<in> set ps1. authentic E w event key did p \<and> gp_body p = ge_stringify E (wj_payload j)"
    using safe_post_effect [OF y] same a by auto
  show ?case
  proof (cases "isl x \<and> n + 1 < wj_attempts j")
    case True
    then obtain e where e: "x = Inl e" by (cases x) auto
    have r: "run_job E j n s = run_job E j (n + 1) s1" using x e True by (simp add: run_job.simps [of E j n])
    from "1.IH" [OF x [symmetric] e] True "1.prems"(1)
    obtain ps2 where ps2: "gws_posts (run_job E j (n + 1) s1) = gws_posts s1 @ ps2" "length ps2 \<le> max 1 (wj_attempts j) - (n + 1)"
      "\<forall>p \<in> set ps2. authentic E w event key did p \<and> gp_body p = ge_stringify E (wj_payload j)"
      "gws_queue (run_job E j (n + 1) s1) = gws_queue s1" "guarded_since E s1 (run_job E j (n + 1) s1)"
      by auto
    have "length (ps1 @ ps2) \<le> max 1 (wj_attempts j) - n"
      using ps1(2) ps2(2) "1.prems"(2) by simp
    then show ?thesis
      using ps1 ps2 g guarded_trans [OF g(1) ps2(5)] unfolding r by (intro conjI exI [of _ "ps1 @ ps2"]) auto
  next
    case False
    then have "run_job E j n s = s1"
      using x by (cases x) (auto simp: run_job.simps [of E j n])
    then show ?thesis
      using ps1 g "1.prems"(2) by (intro conjI exI [of _ ps1]) auto
  qed
qed

section \<open>The table\<close>

text \<open>With unique ids, changing or deleting a webhook of one session leaves those of the others as they are.\<close>

lemma other_sessions_untouched:
  assumes "distinct (map gh_id (gws_webhooks s))"
  shows "filter (\<lambda>w. gh_sessionId w \<noteq> sid) (gws_webhooks (snd (webhook_update E sid i dto s))) =
      filter (\<lambda>w. gh_sessionId w \<noteq> sid) (gws_webhooks s)"
    and "filter (\<lambda>w. gh_sessionId w \<noteq> sid) (gws_webhooks (snd (webhook_delete sid i s))) =
      filter (\<lambda>w. gh_sessionId w \<noteq> sid) (gws_webhooks s)"
proof -
  have v: "gws_webhooks (snd (validateWebhookUrl E url s)) = gws_webhooks s" for url
    by (auto simp: validateWebhookUrl_def split: prod.splits)
  have own: "gh_sessionId x = sid" if "webhook_findOne sid i s = Inr w" "x \<in> set (gws_webhooks s)" "gh_id x = i" for w x
  proof -
    from that(1) have "w \<in> set (gws_webhooks s)" "gh_id w = i" "gh_sessionId w = sid"
      by (auto simp: webhook_findOne_def find_Some_iff in_set_conv_nth split: option.splits)
    then show ?thesis using that(2,3) distinct_map_eq [OF assms, of x w] by simp
  qed
  have keep: "filter P (map (\<lambda>x. if gh_id x = i then y else x) xs) = filter P xs"
    if "\<And>x. \<lbrakk>x \<in> set xs; gh_id x = i\<rbrakk> \<Longrightarrow> \<not> P x" "\<not> P y" for P y and xs :: "gw_webhook list"
    using that by (induction xs) auto
  show "filter (\<lambda>w. gh_sessionId w \<noteq> sid) (gws_webhooks (snd (webhook_update E sid i dto s))) =
      filter (\<lambda>w. gh_sessionId w \<noteq> sid) (gws_webhooks s)"
  proof (cases "webhook_findOne sid i s")
    case (Inr w)
    then have "gh_sessionId (merge_dto dto w) = sid"
      by (auto simp: merge_dto_def webhook_findOne_def find_Some_iff split: option.splits)
    moreover obtain x s1 where x: "(case ud_url dto of None \<Rightarrow> (Inr (), s) | Some url \<Rightarrow> validateWebhookUrl E url s) = (x, s1)"
      by (meson surj_pair)
    moreover have "gws_webhooks s1 = gws_webhooks s" using x v by (cases "ud_url dto") (simp_all, metis snd_conv)
    moreover have "\<And>y. \<lbrakk>y \<in> set (gws_webhooks s); gh_id y = i\<rbrakk> \<Longrightarrow> \<not> gh_sessionId y \<noteq> sid" using own [OF Inr] by simp
    ultimately show ?thesis
      using Inr keep [of "gws_webhooks s" "\<lambda>w. gh_sessionId w \<noteq> sid" "merge_dto dto w"]
      by (cases x) (simp_all add: webhook_update_def)
  qed (simp add: webhook_update_def)
  show "filter (\<lambda>w. gh_sessionId w \<noteq> sid) (gws_webhooks (snd (webhook_delete sid i s))) =
      filter (\<lambda>w. gh_sessionId w \<noteq> sid) (gws_webhooks s)"
  proof (cases "webhook_findOne sid i s")
    case (Inr w)
    then show ?thesis
      using own [OF Inr] by (simp add: webhook_delete_def conj_commute cong: filter_cong) (rule filter_cong, auto)
  qed (simp add: webhook_delete_def)
qed

text \<open>A webhook that could be registered has an address that passed the guard.\<close>

lemma created_url_vetted:
  assumes "webhook_create E sid dto s = (Inr w, s')" "isSsrfProtectionEnabled (ge_ssrf E)"
  shows "\<exists>target. fst (resolveSafeFetchTarget (ge_ssrf E) (gh_url w) (gws_net s)) = Inr target"
proof -
  obtain v L where v: "resolveSafeFetchTarget (ge_ssrf E) (cd_url dto) (gws_net s) = (v, L)" by (meson surj_pair)
  show ?thesis
    using assms v by (cases v) (auto simp: webhook_create_def validateWebhookUrl_def assertSafeFetchUrl_def Let_def)
qed

section \<open>Properties\<close>

text \<open>C35.
  An event of a session that is delivered directly, without the queue, goes to its subscribers and nobody else: the
  active webhooks of that session that subscribe to the event and whose filters let it pass, one group of requests after
  the other.  Each subscriber gets at most \<open>max 1 retryCount\<close> requests in total, the first one included, and at least one
  when nothing is in the way.  All requests of the event share one idempotency key and those of a subscriber one body and
  one delivery id; the reserved headers hold the gateway's values only, the signature is that of the body sent, and while
  the address protection is on, connections go to public or allowlisted hosts.
\<close>

theorem dispatch_reaches_subscribers:
  assumes "webhook_dispatch E sid event data s = (r, s')" "\<not> ge_queueEnabled E"
    and "subs = filter (\<lambda>w. gh_sessionId w = sid \<and> gh_active w \<and> (event \<in> set (gh_events w) \<or> ''*'' \<in> set (gh_events w)) \<and>
         evaluateFilters (ge_lower E) (gh_filters w) event data (\<lambda>jid. coalesce (getCached (ge_lids E) (userPart jid)) None))
       (gws_webhooks s)"
  shows "\<exists>groups. list_all2 (\<lambda>w ps. length ps \<le> max 1 (gh_retryCount w) \<and> (nothing_in_the_way E w \<longrightarrow> ps \<noteq> []) \<and>
      (\<exists>n body. \<forall>p \<in> set ps. gp_body p = body \<and>
         authentic E w event (dispatch_key E sid event data s) (''dlv_'' @ ge_uuid E n) p)) subs groups \<and>
    gws_posts s' = gws_posts s @ concat groups \<and> gws_queue s' = gws_queue s \<and> guarded_since E s s'"
proof -
  obtain gs where gs: "list_all2 (\<lambda>w g. group_ok E event (dispatch_key E sid event data s) w g \<and> group_sent E w g) subs gs"
    "gws_posts s' = gws_posts s @ concat (map fst gs)" "gws_queue s' = gws_queue s @ concat (map snd gs)" "guarded_since E s s'"
    using dispatch_delivers [OF assms(1)] unfolding delivers_def matching_filter assms(3) by blast
  have "snd g = []" if "g \<in> set gs" for g
    using gs(1) that assms(2) by (auto simp: list_all2_conv_all_nth in_set_conv_nth group_ok_def)
  then have "concat (map snd gs) = []" by simp
  moreover have "list_all2 (\<lambda>w ps. length ps \<le> max 1 (gh_retryCount w) \<and> (nothing_in_the_way E w \<longrightarrow> ps \<noteq> []) \<and>
      (\<exists>n body. \<forall>p \<in> set ps. gp_body p = body \<and>
         authentic E w event (dispatch_key E sid event data s) (''dlv_'' @ ge_uuid E n) p)) subs (map fst gs)"
    unfolding list_all2_map2
    by (rule list_all2_mono [OF gs(1)]) (use assms(2) in \<open>auto simp: group_ok_def group_sent_def\<close>)
  ultimately show ?thesis using gs(2-4) by (intro exI [of _ "map fst gs"]) simp
qed

text \<open>C36.
  Deliveries through the queue: a dispatch sends nothing itself but queues, for each subscriber of the event in turn, at most
  one job, and exactly one when nothing is in the way.  Running a subscriber's job sends it at most \<open>max 1 retryCount\<close>
  requests in total, all with the same body, the key of the event, one delivery id and the signature of the body.
\<close>

theorem queued_delivery:
  assumes "webhook_dispatch E sid event data s = (r, s')" "ge_queueEnabled E"
    and "subs = filter (\<lambda>w. gh_sessionId w = sid \<and> gh_active w \<and> (event \<in> set (gh_events w) \<or> ''*'' \<in> set (gh_events w)) \<and>
         evaluateFilters (ge_lower E) (gh_filters w) event data (\<lambda>jid. coalesce (getCached (ge_lids E) (userPart jid)) None))
       (gws_webhooks s)"
  shows "\<exists>groups. list_all2 (\<lambda>w js. length js \<le> 1 \<and> (nothing_in_the_way E w \<longrightarrow> js \<noteq> []) \<and>
      (\<forall>j \<in> set js. \<exists>n. \<forall>t. \<exists>ps. gws_posts (run_job E j 0 t) = gws_posts t @ ps \<and> length ps \<le> max 1 (gh_retryCount w) \<and>
         guarded_since E t (run_job E j 0 t) \<and>
         (\<forall>p \<in> set ps. authentic E w event (dispatch_key E sid event data s) (''dlv_'' @ ge_uuid E n) p \<and>
            gp_body p = ge_stringify E (wj_payload j)))) subs groups \<and>
    gws_queue s' = gws_queue s @ concat groups \<and> gws_posts s' = gws_posts s"
proof -
  let ?key = "dispatch_key E sid event data s"
  obtain gs where gs: "list_all2 (\<lambda>w g. group_ok E event ?key w g \<and> group_sent E w g) subs gs"
    "gws_posts s' = gws_posts s @ concat (map fst gs)" "gws_queue s' = gws_queue s @ concat (map snd gs)"
    using dispatch_delivers [OF assms(1)] unfolding delivers_def matching_filter assms(3) by blast
  have "fst g = []" if "g \<in> set gs" for g
    using gs(1) that assms(2) by (auto simp: list_all2_conv_all_nth in_set_conv_nth group_ok_def)
  then have none: "concat (map fst gs) = []" by simp
  have sends: "\<exists>ps. gws_posts (run_job E j 0 t) = gws_posts t @ ps \<and> length ps \<le> max 1 (gh_retryCount w) \<and>
      guarded_since E t (run_job E j 0 t) \<and>
      (\<forall>p \<in> set ps. authentic E w event ?key did p \<and> gp_body p = ge_stringify E (wj_payload j))"
    if "job_for E w event ?key did j" for w did j t
  proof -
    have "wj_attempts j = gh_retryCount w" using that by (simp add: job_for_def)
    then show ?thesis using run_job_effect [OF that, of 0 t] by auto
  qed
  have "list_all2 (\<lambda>w js. length js \<le> 1 \<and> (nothing_in_the_way E w \<longrightarrow> js \<noteq> []) \<and>
      (\<forall>j \<in> set js. \<exists>n. \<forall>t. \<exists>ps. gws_posts (run_job E j 0 t) = gws_posts t @ ps \<and> length ps \<le> max 1 (gh_retryCount w) \<and>
         guarded_since E t (run_job E j 0 t) \<and>
         (\<forall>p \<in> set ps. authentic E w event ?key (''dlv_'' @ ge_uuid E n) p \<and>
            gp_body p = ge_stringify E (wj_payload j)))) subs (map snd gs)"
    unfolding list_all2_map2
  proof (rule list_all2_mono [OF gs(1)], elim conjE)
    fix w g assume g: "group_ok E event ?key w g" "group_sent E w g"
    obtain n where n: "\<forall>j \<in> set (snd g). job_for E w event ?key (''dlv_'' @ ge_uuid E n) j"
      using g(1) unfolding group_ok_def by blast
    show "length (snd g) \<le> 1 \<and> (nothing_in_the_way E w \<longrightarrow> snd g \<noteq> []) \<and>
      (\<forall>j \<in> set (snd g). \<exists>n. \<forall>t. \<exists>ps. gws_posts (run_job E j 0 t) = gws_posts t @ ps \<and> length ps \<le> max 1 (gh_retryCount w) \<and>
         guarded_since E t (run_job E j 0 t) \<and>
         (\<forall>p \<in> set ps. authentic E w event ?key (''dlv_'' @ ge_uuid E n) p \<and> gp_body p = ge_stringify E (wj_payload j)))"
      using g assms(2) n sends unfolding group_ok_def group_sent_def by simp blast
  qed
  then show ?thesis using gs(2,3) none by (intro exI [of _ "map snd gs"]) simp
qed

text \<open>A gateway with two subscriptions, of which one is for another event.\<close>

definition sample_hook :: gw_webhook where
  "sample_hook = \<lparr>gh_id = ''wh-1'', gh_sessionId = ''s-1'', gh_url = ''http://example.org/hook'', gh_events = [''message.received''],
     gh_secret = Some ''k'', gh_headers = [(''X-Openwa-Signature'', ''forged''), (''Authorization'', ''t'')], gh_filters = None,
     gh_active = True, gh_retryCount = 3, gh_lastTriggeredAt = None, gh_createdAt = 0\<rparr>"

definition sample_gateway :: gw_state where
  "sample_gateway = \<lparr>gws_webhooks = [sample_hook, sample_hook\<lparr>gh_id := ''wh-2'', gh_events := [''session.status'']\<rparr>], gws_net = [],
     gws_posts = [], gws_queue = [], gws_hooked = [], gws_seq = 0, gws_now = 5\<rparr>"

definition sample_gw_env :: gw_env where
  "sample_gw_env = \<lparr>ge_ssrf = rebinding_env, ge_hooks = no_hooks, ge_lids = lid_init [], ge_lower = ascii_lower,
     ge_hmac = (\<lambda>key t. key @ t), ge_sha256 = id, ge_stringify = (\<lambda>_. ''{}''), ge_jsonError = (\<lambda>_. None), ge_num = (\<lambda>_. ''0''),
     ge_iso = (\<lambda>_. ''t''), ge_uuid = (\<lambda>_. ''u''), ge_queueEnabled = False, ge_queueError = None, ge_lookupFails = False\<rparr>"

definition sample_data :: entities where
  "sample_data = [(''id'', JStr ''m1''), (''from'', JStr ''213@c.us'')]"

lemma sample_dispatch:
  "gws_posts (snd (webhook_dispatch sample_gw_env ''s-1'' ''message.received'' sample_data sample_gateway)) =
    [\<lparr>gp_url = ''http://example.org/hook'',
      gp_headers = [(''Authorization'', ''t''), (''Content-Type'', ''application/json''), (''User-Agent'', ''OpenWA-Webhook/1.0.0''),
        (''X-OpenWA-Event'', ''message.received''), (''X-OpenWA-Idempotency-Key'', ''msg_s-1_m1''), (''X-OpenWA-Delivery-Id'', ''dlv_u''),
        (''X-OpenWA-Retry-Count'', ''0''), (''X-OpenWA-Signature'', ''sha256=k{}'')],
      gp_body = ''{}''\<rparr>]"
  by code_simp

lemma sample_subscribers:
  "filter (\<lambda>w. gh_sessionId w = ''s-1'' \<and> gh_active w \<and> (''message.received'' \<in> set (gh_events w) \<or> ''*'' \<in> set (gh_events w)) \<and>
      evaluateFilters (ge_lower E) (gh_filters w) ''message.received'' sample_data
        (\<lambda>jid. coalesce (getCached (ge_lids E) (userPart jid)) None)) (gws_webhooks sample_gateway) = [sample_hook]"
  by (simp add: sample_gateway_def sample_hook_def evaluateFilters_def)

theorem dispatch_reaches_subscribers_witness:
  "\<exists>p n. gws_posts (snd (webhook_dispatch sample_gw_env ''s-1'' ''message.received'' sample_data sample_gateway)) = [p] \<and>
     authentic sample_gw_env sample_hook ''message.received''
       (dispatch_key sample_gw_env ''s-1'' ''message.received'' sample_data sample_gateway) (''dlv_'' @ ge_uuid sample_gw_env n) p"
proof -
  obtain r s' where d: "webhook_dispatch sample_gw_env ''s-1'' ''message.received'' sample_data sample_gateway = (r, s')"
    by (meson surj_pair)
  have "\<not> ge_queueEnabled sample_gw_env" by (simp add: sample_gw_env_def)
  from dispatch_reaches_subscribers [OF d this sample_subscribers [symmetric]]
  obtain ps n where ps: "gws_posts s' = ps" "\<forall>p \<in> set ps. authentic sample_gw_env sample_hook ''message.received''
      (dispatch_key sample_gw_env ''s-1'' ''message.received'' sample_data sample_gateway) (''dlv_'' @ ge_uuid sample_gw_env n) p"
    by (fastforce simp: list_all2_Cons1 sample_gateway_def)
  obtain p where "gws_posts s' = [p]" using sample_dispatch unfolding d by simp
  then show ?thesis using ps unfolding d by auto
qed

theorem queued_delivery_witness:
  "\<exists>j. gws_queue (snd (webhook_dispatch (sample_gw_env\<lparr>ge_queueEnabled := True\<rparr>) ''s-1'' ''message.received'' sample_data sample_gateway)) = [j] \<and>
     gws_posts (snd (webhook_dispatch (sample_gw_env\<lparr>ge_queueEnabled := True\<rparr>) ''s-1'' ''message.received'' sample_data sample_gateway)) = []"
proof -
  let ?E = "sample_gw_env\<lparr>ge_queueEnabled := True\<rparr>"
  obtain r s' where d: "webhook_dispatch ?E ''s-1'' ''message.received'' sample_data sample_gateway = (r, s')"
    by (meson surj_pair)
  have "nothing_in_the_way ?E sample_hook"
    by (simp add: nothing_in_the_way_def sample_gw_env_def registrations_def no_hooks_def)
  moreover have "gws_posts sample_gateway = []" "gws_queue sample_gateway = []" "ge_queueEnabled ?E"
    by (simp_all add: sample_gateway_def)
  moreover have "\<exists>j. js = [j]" if "length js \<le> 1" "js \<noteq> []" for js :: "WebhookJobData list"
    using that by (cases js) auto
  ultimately show ?thesis
    using queued_delivery [OF d _ sample_subscribers [symmetric]] unfolding d by (fastforce simp: list_all2_Cons1)
qed

section \<open>The two ends together\<close>

lemma own_header_name:
  assumes "own_header E w event key did body (k, v)" "ascii_lower k = ''x-hub-signature-256''"
  shows "(k, v) \<in> set (gh_headers w)"
proof -
  have "k \<notin> {''Content-Type'', ''X-OpenWA-Event'', ''X-OpenWA-Idempotency-Key'', ''X-OpenWA-Delivery-Id'', ''X-OpenWA-Retry-Count'',
      ''X-OpenWA-Signature'', ''User-Agent''}"
    using assms(2) by (auto simp: ascii_lower_def ascii_lower_char_def)
  then show ?thesis using assms(1) by (auto simp: own_header_def)
qed

lemma sent_without_hub_signature:
  assumes "authentic E w event key did p" "\<forall>kv \<in> set (gh_headers w). ascii_lower (fst kv) \<noteq> ''x-hub-signature-256''"
  shows "header ''x-hub-signature-256'' (gp_headers p) = None"
proof -
  have "\<forall>kv \<in> set (gp_headers p). own_header E w event key did (gp_body p) kv"
    using assms(1) by (simp add: authentic_def headers_ok_def list_all_iff)
  then have "\<forall>kv \<in> set (gp_headers p). ascii_lower (fst kv) \<noteq> ''x-hub-signature-256''"
    using assms(2) own_header_name by (metis prod.collapse)
  then show ?thesis by (auto simp: header_def map_of_eq_None_iff)
qed

text \<open>Every request of a dispatch, sent directly or by a job it queued, is one the gateway means for one of the webhooks.\<close>

lemma dispatch_requests:
  assumes "webhook_dispatch E sid event data s = (r, s')"
    and "(\<exists>ps. gws_posts s' = gws_posts s @ ps \<and> p \<in> set ps) \<or>
      (\<exists>js j t ps. gws_queue s' = gws_queue s @ js \<and> j \<in> set js \<and> gws_posts (run_job E j 0 t) = gws_posts t @ ps \<and> p \<in> set ps)"
  shows "\<exists>w \<in> set (gws_webhooks s). \<exists>key did. authentic E w event key did p"
proof -
  let ?key = "dispatch_key E sid event data s"
  obtain gs where gs: "list_all2 (\<lambda>w g. group_ok E event ?key w g \<and> group_sent E w g) (matching_webhooks E sid event data s) gs"
    "gws_posts s' = gws_posts s @ concat (map fst gs)" "gws_queue s' = gws_queue s @ concat (map snd gs)"
    using dispatch_delivers [OF assms(1)] unfolding delivers_def by blast
  have sub: "\<exists>w \<in> set (gws_webhooks s). group_ok E event ?key w g" if mem: "g \<in> set gs" for g
  proof -
    obtain i where i: "i < length gs" "g = gs ! i" using mem by (auto simp: in_set_conv_nth)
    let ?w = "matching_webhooks E sid event data s ! i"
    have "?w \<in> set (matching_webhooks E sid event data s)" "group_ok E event ?key ?w g"
      using gs(1) i by (simp_all add: list_all2_conv_all_nth)
    then show ?thesis unfolding matching_filter by auto
  qed
  from assms(2) show ?thesis
  proof (elim disjE exE conjE)
    fix ps assume "gws_posts s' = gws_posts s @ ps" "p \<in> set ps"
    then obtain g where g: "g \<in> set gs" "p \<in> set (fst g)" using gs(2) by auto
    from sub [OF g(1)] show ?thesis using g(2) unfolding group_ok_def by blast
  next
    fix js j t ps
    assume q: "gws_queue s' = gws_queue s @ js" "j \<in> set js" "gws_posts (run_job E j 0 t) = gws_posts t @ ps" "p \<in> set ps"
    then obtain g where g: "g \<in> set gs" "j \<in> set (snd g)" using gs(3) by auto
    from sub [OF g(1)] obtain w did where w: "w \<in> set (gws_webhooks s)" "job_for E w event ?key did j"
      using g(2) unfolding group_ok_def by blast
    have "0 < max 1 (wj_attempts j)" by simp
    from run_job_effect [OF w(2) this, of t] have "authentic E w event ?key did p" using q(3,4) by auto
    then show ?thesis using w(1) by blast
  qed
qed

text \<open>C37.
  The gateway's webhooks and the back end do not fit together: outside development mode the back end answers 401 to every
  request that a dispatch sends, directly or through a job it queued, whatever the secrets are, because it reads another
  header; the only exception are webhooks that were registered with a custom header of that name.  With the header
  renamed it would fail all the same: the text behind \<open>sha256=\<close> makes the comparison throw.
\<close>

theorem back_end_refuses_gateway:
  assumes "webhook_dispatch E sid event data s = (r, s')" "\<not> cfg_isDev B"
    and "(\<exists>ps. gws_posts s' = gws_posts s @ ps \<and> p \<in> set ps) \<or>
      (\<exists>js j t ps. gws_queue s' = gws_queue s @ js \<and> j \<in> set js \<and> gws_posts (run_job E j 0 t) = gws_posts t @ ps \<and> p \<in> set ps)"
    and "\<forall>w \<in> set (gws_webhooks s). \<forall>kv \<in> set (gh_headers w). ascii_lower (fst kv) \<noteq> ''x-hub-signature-256''"
  shows "handleWebhook B (gp_headers p) body W = (Inr (Refuse 401 ''Invalid webhook signature''), W) \<and>
    (ge_hmac E = hmac B \<and> cfg_webhookSecret B \<noteq> [] \<longrightarrow>
      verifyHmac B t (generateSignature E t (cfg_webhookSecret B)) = Inl (Error ''Input buffers must have the same byte length''))"
proof (intro conjI impI)
  obtain w key did where "w \<in> set (gws_webhooks s)" "authentic E w event key did p"
    using dispatch_requests [OF assms(1,3)] by blast
  then have "header ''x-hub-signature-256'' (gp_headers p) = None"
    using sent_without_hub_signature assms(4) by blast
  then show "handleWebhook B (gp_headers p) body W = (Inr (Refuse 401 ''Invalid webhook signature''), W)"
    using assms(2) by (simp add: handleWebhook_def given_def)
  assume "ge_hmac E = hmac B \<and> cfg_webhookSecret B \<noteq> []"
  then show "verifyHmac B t (generateSignature E t (cfg_webhookSecret B)) = Inl (Error ''Input buffers must have the same byte length'')"
    by (simp add: verifyHmac_def generateSignature_def Let_def)
qed

theorem back_end_refuses_gateway_witness:
  "handleWebhook (sample_env\<lparr>cfg_isDev := False, cfg_webhookSecret := ''k''\<rparr>)
     (gp_headers (hd (gws_posts (snd (webhook_dispatch sample_gw_env ''s-1'' ''message.received'' sample_data sample_gateway)))))
     JNull sample_world = (Inr (Refuse 401 ''Invalid webhook signature''), sample_world)"
proof -
  let ?d = "webhook_dispatch sample_gw_env ''s-1'' ''message.received'' sample_data sample_gateway"
  let ?p = "hd (gws_posts (snd ?d))"
  have d: "?d = (fst ?d, snd ?d)" by simp
  have "gws_posts (snd ?d) = gws_posts sample_gateway @ [?p]"
    using sample_dispatch by (simp add: sample_gateway_def)
  then have p: "\<exists>ps. gws_posts (snd ?d) = gws_posts sample_gateway @ ps \<and> ?p \<in> set ps" by (metis list.set_intros(1))
  have h: "\<forall>w \<in> set (gws_webhooks sample_gateway). \<forall>kv \<in> set (gh_headers w). ascii_lower (fst kv) \<noteq> ''x-hub-signature-256''"
    by (simp add: sample_gateway_def sample_hook_def ascii_lower_def ascii_lower_char_def)
  show ?thesis
    using back_end_refuses_gateway [OF d, of "sample_env\<lparr>cfg_isDev := False, cfg_webhookSecret := ''k''\<rparr>" ?p] p h
    by simp
qed

section \<open>What the deliveries do not do\<close>

text \<open>A plugin that answers \<open>null\<close> as data ends the dispatch: the subscribers behind it get nothing.\<close>

definition null_hook :: hook_manager where
  "null_hook = snd (hook_register ''p'' ''webhook:before'' (\<lambda>_. Hook_Answers True (Some JNull) False) 100 7 no_hooks)"

lemma null_data_aborts_dispatch:
  "fst (webhook_dispatch (sample_gw_env\<lparr>ge_hooks := null_hook\<rparr>) ''s-1'' ''message.received'' sample_data
      (sample_gateway\<lparr>gws_webhooks := [sample_hook, sample_hook\<lparr>gh_id := ''wh-3''\<rparr>]\<rparr>)) = Inl ''TypeError''"
  "gws_posts (snd (webhook_dispatch (sample_gw_env\<lparr>ge_hooks := null_hook\<rparr>) ''s-1'' ''message.received'' sample_data
      (sample_gateway\<lparr>gws_webhooks := [sample_hook, sample_hook\<lparr>gh_id := ''wh-3''\<rparr>]\<rparr>))) = []"
  by code_simp+

text \<open>A custom header named \<open>user-agent\<close> is sent beside the gateway's own.\<close>

lemma custom_user_agent_kept:
  "{(''user-agent'', ''mine''), (''User-Agent'', ''OpenWA-Webhook/1.0.0'')} \<subseteq>
     set (system_headers (sample_hook\<lparr>gh_headers := [(''user-agent'', ''mine'')]\<rparr>) event key did)"
  by (simp add: system_headers_def set_all_def sanitizeCustomHeaders_def reserved_header_def starts_with_def ascii_lower_def
      ascii_lower_char_def)

text \<open>The digest of a payload leaves out what is nested under names that do not occur at the top.\<close>

lemma digest_ignores_nested:
  "hashData E [(''groupId'', JStr g), (''changes'', JObj [(''subject'', JStr a)])] =
   hashData E [(''groupId'', JStr g), (''changes'', JObj [(''subject'', JStr b)])]"
  by (simp add: hashData_def sorted_names_def)

end
