(* ===== verification/Back_Office.thy ===== *)
theory Back_Office
  imports Orders
begin

text \<open>
  The small modules of the back end: the agent's configuration (\<open>modules/agent-config\<close>), checkouts of the billing
  provider (\<open>modules/billing\<close>) and the injected test messages (\<open>modules/fakeMessages\<close>).  The answer of the provider is
  a parameter; the configuration has the types its input type declares.
\<close>

section \<open>The agent's configuration\<close>

record config_input =
  ci_defaultLanguage :: "string option"
  ci_tone :: "string option"
  ci_followUpDelays :: "int list option"
  ci_maxFollowUps :: "int option"
  ci_deliveryProvider :: "string option"
  ci_templates :: "jval option"
  ci_escalationThreshold :: "int option"
  ci_isActive :: "bool option"

definition no_config :: config_input where
  "no_config = \<lparr>ci_defaultLanguage = None, ci_tone = None, ci_followUpDelays = None, ci_maxFollowUps = None,
     ci_deliveryProvider = None, ci_templates = None, ci_escalationThreshold = None, ci_isActive = None\<rparr>"

definition delays :: "int list \<Rightarrow> jval" where
  "delays ds = JArr (map (\<lambda>d. JNum (of_int d)) ds)"

definition agentConfig_get :: "string \<Rightarrow> world \<Rightarrow> agent_config_row option" where
  "agentConfig_get merchantId w = find_first (\<lambda>a. agent_merchantId a = merchantId) (agentConfigs w)"

text \<open>A new row has the defaults of the schema where the input leaves a property out; an update changes the given ones.\<close>

definition new_config :: "string \<Rightarrow> config_input \<Rightarrow> agent_config_row" where
  "new_config merchantId d =
     \<lparr>agent_merchantId = merchantId, agent_defaultLanguage = coalesce (ci_defaultLanguage d) ''auto'',
      agent_tone = coalesce (ci_tone d) ''friendly'', agent_followUpDelays = delays (coalesce (ci_followUpDelays d) [2, 24, 48]),
      agent_maxFollowUps = coalesce (ci_maxFollowUps d) 3, agent_deliveryProvider = ci_deliveryProvider d,
      agent_isActive = coalesce (ci_isActive d) False, agent_templates = ci_templates d,
      agent_escalationThreshold = coalesce (ci_escalationThreshold d) 3\<rparr>"

definition merge_config :: "config_input \<Rightarrow> agent_config_row \<Rightarrow> agent_config_row" where
  "merge_config d a =
     a\<lparr>agent_defaultLanguage := coalesce (ci_defaultLanguage d) (agent_defaultLanguage a),
       agent_tone := coalesce (ci_tone d) (agent_tone a),
       agent_followUpDelays := (case ci_followUpDelays d of None \<Rightarrow> agent_followUpDelays a | Some ds \<Rightarrow> delays ds),
       agent_maxFollowUps := coalesce (ci_maxFollowUps d) (agent_maxFollowUps a),
       agent_deliveryProvider := (if ci_deliveryProvider d = None then agent_deliveryProvider a else ci_deliveryProvider d),
       agent_isActive := coalesce (ci_isActive d) (agent_isActive a),
       agent_templates := (if ci_templates d = None then agent_templates a else ci_templates d),
       agent_escalationThreshold := coalesce (ci_escalationThreshold d) (agent_escalationThreshold a)\<rparr>"

definition agentConfig_upsert :: "string \<Rightarrow> config_input \<Rightarrow> world \<Rightarrow> agent_config_row \<times> world" where
  "agentConfig_upsert merchantId d w =
     (case agentConfig_get merchantId w of
        None \<Rightarrow> (new_config merchantId d, w\<lparr>agentConfigs := agentConfigs w @ [new_config merchantId d]\<rparr>)
      | Some a \<Rightarrow>
          (merge_config d a,
           w\<lparr>agentConfigs := update_where (\<lambda>a. agent_merchantId a = merchantId) (merge_config d) (agentConfigs w)\<rparr>))"

definition agentConfig_activate :: "string \<Rightarrow> world \<Rightarrow> agent_config_row \<times> world" where
  "agentConfig_activate merchantId w = agentConfig_upsert merchantId (no_config\<lparr>ci_isActive := Some True\<rparr>) w"

text \<open>The handlers; \<open>None\<close> of \<open>getConfig\<close> is the empty object.\<close>

definition getConfig :: "string \<Rightarrow> world \<Rightarrow> agent_config_row option reply" where
  "getConfig merchantId w = Reply 200 (agentConfig_get merchantId w)"

definition saveConfig :: "string \<Rightarrow> config_input \<Rightarrow> world \<Rightarrow> agent_config_row reply \<times> world" where
  "saveConfig merchantId d w = (let (a, w1) = agentConfig_upsert merchantId d w in (Reply 200 a, w1))"

definition activate_handler :: "string \<Rightarrow> world \<Rightarrow> string reply \<times> world" where
  "activate_handler merchantId w = (Reply 200 ''Agent activated'', snd (agentConfig_activate merchantId w))"

lemma config_after_upsert:
  "agentConfig_get m (snd (agentConfig_upsert m d w)) = Some (fst (agentConfig_upsert m d w))"
proof -
  have u: "find_first (\<lambda>a. agent_merchantId a = m) (update_where (\<lambda>a. agent_merchantId a = m) (merge_config d) rs) =
      map_option (merge_config d) (find_first (\<lambda>a. agent_merchantId a = m) rs)" for rs
    by (induction rs) (auto simp: find_first_def update_where_def merge_config_def)
  have n: "agent_merchantId (new_config m d) = m" by (simp add: new_config_def)
  show ?thesis
    using u [of "agentConfigs w"] n
    by (auto simp: agentConfig_upsert_def agentConfig_get_def find_first_append find_first_Cons split: option.splits)
qed

lemma config_other_merchants:
  "m' \<noteq> m \<Longrightarrow> agentConfig_get m' (snd (agentConfig_upsert m d w)) = agentConfig_get m' w"
proof -
  assume "m' \<noteq> m"
  moreover have "find_first (\<lambda>a. agent_merchantId a = m') (update_where (\<lambda>a. agent_merchantId a = m) (merge_config d) rs) =
      find_first (\<lambda>a. agent_merchantId a = m') rs" if "m' \<noteq> m" for rs
    using that by (induction rs) (auto simp: find_first_def update_where_def merge_config_def)
  ultimately show ?thesis
    by (auto simp: agentConfig_upsert_def agentConfig_get_def find_first_append find_first_Cons new_config_def
        find_first_def [of _ "[]"] split: option.splits)
qed

lemma activated: "map_option agent_isActive (agentConfig_get m (snd (agentConfig_activate m w))) = Some True"
  unfolding agentConfig_activate_def config_after_upsert
  by (auto simp: agentConfig_upsert_def new_config_def merge_config_def no_config_def split: option.splits)

section \<open>Billing\<close>

datatype PlanKey = Plan_base | Plan_max | Plan_entreprise

record plan =
  plan_name :: string
  plan_amount :: int
  plan_currency :: string

fun PLANS :: "PlanKey \<Rightarrow> plan" where
  "PLANS Plan_base = \<lparr>plan_name = ''Base'', plan_amount = 10000, plan_currency = ''dzd''\<rparr>"
| "PLANS Plan_max = \<lparr>plan_name = ''Max'', plan_amount = 30000, plan_currency = ''dzd''\<rparr>"
| "PLANS Plan_entreprise = \<lparr>plan_name = ''Entreprise'', plan_amount = 100000, plan_currency = ''dzd''\<rparr>"

fun plan_key :: "PlanKey \<Rightarrow> string" where
  "plan_key Plan_base = ''base''"
| "plan_key Plan_max = ''max''"
| "plan_key Plan_entreprise = ''entreprise''"

definition PLAN_KEYS :: "string list" where
  "PLAN_KEYS = map plan_key [Plan_base, Plan_max, Plan_entreprise]"

record checkout_request =
  cq_amount :: int
  cq_currency :: string
  cq_success_url :: string
  cq_failure_url :: string
  cq_webhook_endpoint :: string
  cq_locale :: string
  cq_description :: string
  cq_metadata :: "string \<times> string"

record checkout =
  co_id :: string
  co_url :: string
  co_amount :: int
  co_currency :: string

text \<open>An exchange with the provider: an answer, an HTTP error with the message of its body, or no answer at all.\<close>

datatype provider_answer = Provider_Created checkout | Provider_Status nat "jval option" | Provider_Unreachable

definition checkout_for :: "string \<Rightarrow> string \<Rightarrow> PlanKey \<Rightarrow> checkout_request" where
  "checkout_for appUrl merchantId plan =
     \<lparr>cq_amount = plan_amount (PLANS plan), cq_currency = plan_currency (PLANS plan),
      cq_success_url = appUrl @ ''/billing/payment/success'', cq_failure_url = appUrl @ ''/billing/payment/failure'',
      cq_webhook_endpoint = appUrl @ ''/billing/webhook'', cq_locale = ''ar'',
      cq_description = ''EcomAssistant '' @ plan_name (PLANS plan) @ '' plan'', cq_metadata = (merchantId, plan_key plan)\<rparr>"

definition rejection :: "jval option \<Rightarrow> string" where
  "rejection message =
     (case message of
        Some (JStr s) \<Rightarrow> (if s = [] then ''Chargily rejected the checkout request'' else s)
      | _ \<Rightarrow> ''Chargily rejected the checkout request'')"

definition billing_createCheckout ::
  "(checkout_request \<Rightarrow> provider_answer) \<Rightarrow> string \<Rightarrow> string \<Rightarrow> PlanKey \<Rightarrow> exn + checkout" where
  "billing_createCheckout provider appUrl merchantId plan =
     (case provider (checkout_for appUrl merchantId plan) of
        Provider_Created c \<Rightarrow> Inr c
      | Provider_Status status message \<Rightarrow>
          (if 400 \<le> status \<and> status < 500 then Inl (ErrorStatus (rejection message) status)
           else Inl (ErrorStatus ''Payment provider unavailable'' 502))
      | Provider_Unreachable \<Rightarrow> Inl (ErrorStatus ''Payment provider unavailable'' 502))"

text \<open>The comparison throws on texts of different length, which is caught.\<close>

definition chargily_verify :: "(string \<Rightarrow> string \<Rightarrow> string) \<Rightarrow> string \<Rightarrow> string \<Rightarrow> string \<Rightarrow> bool" where
  "chargily_verify hmac256 privateKey signature rawBody =
     (let computed = hmac256 privateKey rawBody in
      if length computed \<noteq> length signature then False else computed = signature)"

lemma chargily_verify_iff: "chargily_verify h k s b \<longleftrightarrow> s = h k b"
  by (auto simp: chargily_verify_def Let_def)

lemma PLAN_KEYS_distinct: "distinct PLAN_KEYS \<and> set PLAN_KEYS = range plan_key"
proof -
  have u: "(UNIV :: PlanKey set) = {Plan_base, Plan_max, Plan_entreprise}"
    using PlanKey.exhaust by auto
  show ?thesis unfolding u by (simp add: PLAN_KEYS_def)
qed

section \<open>Test messages\<close>

record fake_message =
  fm_merchantId :: string
  fm_customerPhone :: string
  fm_text :: string

definition fake_input :: "env \<Rightarrow> string \<Rightarrow> string \<Rightarrow> message_input" where
  "fake_input E conversationId text =
     \<lparr>mi_conversationId = conversationId, mi_content = text, mi_contentType = ''text'', mi_mediaUrl = None, mi_mimeType = None,
      mi_whatsappMessageId = None, mi_direction = IN, mi_sender = CUSTOMER, mi_role = ''user'', mi_messageType = ''text'',
      mi_filePath = None, mi_createdAt = clock E\<rparr>"

definition fake_conversation :: "env \<Rightarrow> string \<Rightarrow> string \<Rightarrow> world \<Rightarrow> exn + (conversation_row \<times> world)" where
  "fake_conversation E merchantId customerId w =
     (case find_first (\<lambda>c. conv_merchantId c = merchantId \<and> conv_customerId c = customerId \<and> conv_state c \<noteq> ST_FINISHED) (conversations w) of
        Some c \<Rightarrow> Inr (c, w)
      | None \<Rightarrow> create_conversation E merchantId customerId [] None w)"

definition ingestFakeMessage :: "env \<Rightarrow> fake_message \<Rightarrow> world \<Rightarrow> (exn + string \<times> string) \<times> world" where
  "ingestFakeMessage E d w =
     (case upsert_customer E (fm_merchantId d) (fm_customerPhone d) id None None w of
        Inl e \<Rightarrow> (Inl e, w)
      | Inr (customer, w1) \<Rightarrow>
          (case fake_conversation E (fm_merchantId d) (customer_id customer) w1 of
             Inl e \<Rightarrow> (Inl e, w1)
           | Inr (conversation, w2) \<Rightarrow>
               (case create_message E (fake_input E (conv_id conversation) (fm_text d)) w2 of
                  Inl e \<Rightarrow> (Inl e, w2)
                | Inr (message, w3) \<Rightarrow> (Inr (msg_id message, conv_id conversation), enqueueMessageJob (msg_id message) w3))))"

definition postFakeMessage :: "env \<Rightarrow> fake_message \<Rightarrow> world \<Rightarrow> (string \<times> string) reply \<times> world" where
  "postFakeMessage E d w =
     (case ingestFakeMessage E d w of
        (Inl _, w1) \<Rightarrow> (Refuse 500 ''Internal server error'', w1)
      | (Inr r, w1) \<Rightarrow> (Reply 202 r, w1))"

lemma fake_message_stored:
  assumes "ingestFakeMessage E d w = (Inr (mid, cid), w')"
  shows "\<exists>r. messages w' = messages w @ [r] \<and> msg_id r = mid \<and> msg_conversationId r = cid \<and> msg_content r = fm_text d \<and>
    messageJobs w' = messageJobs w @ [mid] \<and> orders w' = orders w"
proof -
  obtain c w1 where 1: "upsert_customer E (fm_merchantId d) (fm_customerPhone d) id None None w = Inr (c, w1)"
    using assms by (auto simp: ingestFakeMessage_def split: sum.splits prod.splits)
  obtain v w2 where 2: "fake_conversation E (fm_merchantId d) (customer_id c) w1 = Inr (v, w2)"
    using assms 1 by (auto simp: ingestFakeMessage_def split: sum.splits prod.splits)
  obtain r w3 where 3: "create_message E (fake_input E (conv_id v) (fm_text d)) w2 = Inr (r, w3)"
    using assms 1 2 by (auto simp: ingestFakeMessage_def split: sum.splits prod.splits)
  have "messages w1 = messages w" "messageJobs w1 = messageJobs w" "orders w1 = orders w"
    using 1 by (auto simp: upsert_customer_def create_customer_def update_in_def put_customers_def Let_def split: option.splits if_splits)
  moreover have "messages w2 = messages w1" "messageJobs w2 = messageJobs w1" "orders w2 = orders w1"
    using 2 by (auto simp: fake_conversation_def create_conversation_def Let_def split: option.splits if_splits)
  ultimately show ?thesis
    using assms 1 2 3
    by (auto simp: ingestFakeMessage_def create_message_def fake_input_def message_of_input_def enqueueMessageJob_def Let_def
        split: if_splits)
qed

text \<open>After the customer's conversation is finished no test message gets through: a second one cannot be created.\<close>

lemma fake_message_after_finish:
  assumes "find_first (\<lambda>c. customer_merchantId c = m \<and> customer_phone c = p) (customers w) = Some c"
    and "\<forall>v \<in> set (conversations w). conv_merchantId v = m \<and> conv_customerId v = customer_id c \<longrightarrow> conv_state v = ST_FINISHED"
    and "\<exists>v \<in> set (conversations w). conv_merchantId v = m \<and> conv_customerId v = customer_id c"
  shows "fst (ingestFakeMessage E \<lparr>fm_merchantId = m, fm_customerPhone = p, fm_text = t\<rparr> w) = Inl P2002"
proof -
  let ?P = "\<lambda>c. customer_merchantId c = m \<and> customer_phone c = p"
  obtain w1 where 1: "upsert_customer E m p id None None w = Inr (c, w1)" "conversations w1 = conversations w"
    using assms(1) by (simp add: upsert_customer_def update_in_def put_customers_def)
  have "find_first (\<lambda>v. conv_merchantId v = m \<and> conv_customerId v = customer_id c \<and> conv_state v \<noteq> ST_FINISHED) (conversations w1) = None"
    using assms(2) 1(2) by (auto simp: find_first_None)
  then show ?thesis
    using 1 assms(3) by (simp add: ingestFakeMessage_def fake_conversation_def create_conversation_def)
qed

end
