(* ===== verification/Api_Keys.thy ===== *)
theory Api_Keys
  imports Ssrf
begin

text \<open>
  API keys of the gateway: \<open>modules/auth/auth.service.ts\<close>, \<open>guards/api-key.guard.ts\<close>, \<open>api-key-hash.ts\<close> and the
  resolution of the client's address in \<open>common/utils/ip.ts\<close>, under \<open>OpenWA/src\<close>.
\<close>

section \<open>The client's address\<close>

text \<open>\<open>/^::ffff:(\d{1,3}(?:\.\d{1,3}){3})$/i\<close>.\<close>

definition normalizeIp :: "string \<Rightarrow> string" where
  "normalizeIp ip = (if ascii_lower (take 7 ip) = ''::ffff:'' \<and> dotted_quad (drop 7 ip) then drop 7 ip else ip)"

text \<open>An address as a 32-bit number, \<open>null\<close> for anything else.\<close>

fun quad_value :: "string list \<Rightarrow> 32 word \<Rightarrow> 32 word option" where
  "quad_value [] acc = Some acc"
| "quad_value (p # ps) acc =
     (if p = [] \<or> length p > 3 \<or> \<not> list_all is_digit p \<or> nat_of_digits p > 255 then None
      else quad_value ps (acc * 256 + of_nat (nat_of_digits p)))"

definition ip_toInt :: "string \<Rightarrow> 32 word option" where
  "ip_toInt ip = (let parts = split_on (CHR ''.'') ip in if length parts \<noteq> 4 then None else quad_value parts 0)"

definition ipMatches :: "string \<Rightarrow> string \<Rightarrow> bool" where
  "ipMatches ip target =
     (let candidate = normalizeIp (js_trim ip); ref = js_trim target in
      if CHR ''/'' \<notin> set ref then normalizeIp ref = candidate
      else
        (let parts = split_on (CHR ''/'') ref in
         case number_of_text (parts ! 1) of
           None \<Rightarrow> False
         | Some bits \<Rightarrow>
             (if of_int \<lfloor>bits\<rfloor> \<noteq> bits \<or> bits < 0 \<or> 32 < bits then False
              else
                (case (ip_toInt candidate, ip_toInt (normalizeIp (parts ! 0))) of
                   (Some i, Some r) \<Rightarrow>
                     (if bits = 0 then True
                      else (let m = push_bit (32 - nat \<lfloor>bits\<rfloor>) (- 1) in i AND m = r AND m))
                 | _ \<Rightarrow> False))))"

record gw_request =
  cr_remoteAddress :: "string option"
  cr_ip :: "string option"
  cr_xff :: "string list option"
  cr_apiKeyHeader :: "string option"
  cr_authorization :: "string option"
  cr_sessionId :: "string option"
  cr_id :: "string option"

text \<open>The hops of the header, and the first from the right that is not a trusted proxy.\<close>

definition forwarded_hops :: "string \<Rightarrow> string list" where
  "forwarded_hops forwarded = filter (\<lambda>h. h \<noteq> []) (map (\<lambda>h. normalizeIp (js_trim h)) (split_on (CHR '','') forwarded))"

definition socket_address :: "gw_request \<Rightarrow> string" where
  "socket_address req = normalizeIp (coalesce (or_str (cr_remoteAddress req) (cr_ip req)) [])"

definition resolveClientIp :: "gw_request \<Rightarrow> string list \<Rightarrow> string" where
  "resolveClientIp req trustedProxies =
     (let socketIp = socket_address req; isTrusted = (\<lambda>ip. list_ex (ipMatches ip) trustedProxies)
      in if trustedProxies = [] then socketIp
         else if \<not> isTrusted socketIp then socketIp
         else (case cr_xff req of
                 None \<Rightarrow> socketIp
               | Some forwarded \<Rightarrow>
                   (if forwarded = [[]] then socketIp
                    else (case List.find (\<lambda>h. \<not> isTrusted h) (rev (forwarded_hops (join '','' forwarded))) of
                            Some h \<Rightarrow> h
                          | None \<Rightarrow> socketIp))))"

text \<open>The variable \<open>TRUSTED_PROXIES\<close>.\<close>

definition trustedProxies_of :: "string option \<Rightarrow> string list" where
  "trustedProxies_of v = filter (\<lambda>p. p \<noteq> []) (map js_trim (split_on (CHR '','') (coalesce v [])))"

section \<open>Keys\<close>

datatype ApiKeyRole = Role_admin | Role_operator | Role_viewer

fun role_text :: "ApiKeyRole \<Rightarrow> string" where
  "role_text Role_admin = ''admin''"
| "role_text Role_operator = ''operator''"
| "role_text Role_viewer = ''viewer''"

record api_key =
  ak_id :: string
  ak_name :: string
  ak_keyHash :: string
  ak_keyPrefix :: string
  ak_role :: ApiKeyRole
  ak_allowedIps :: "string list option"
  ak_allowedSessions :: "string list option"
  ak_isActive :: bool
  ak_expiresAt :: "int option"
  ak_lastUsedAt :: "int option"
  ak_usageCount :: nat
  ak_createdAt :: int

text \<open>The table, the usage not yet written, the numbers drawn so far, and what the startup file holds.\<close>

record key_state =
  ks_keys :: "api_key list"
  ks_pending :: "string \<Rightarrow> nat option"
  ks_seq :: nat
  ks_file :: "string option"

text \<open>
  The digest, the HMAC and the pepper, random bytes in hexadecimal, ids, the variables of the seed key, and whether the
  startup file can be written and read.
\<close>

record key_env =
  ke_sha256 :: "string \<Rightarrow> string"
  ke_hmac :: "string \<Rightarrow> string \<Rightarrow> string"
  ke_pepper :: "string option"
  ke_random :: "nat \<Rightarrow> string"
  ke_uuid :: "nat \<Rightarrow> string"
  ke_masterKey :: "string option"
  ke_allowDevKey :: "string option"
  ke_fileOk :: bool

datatype key_error = Unauthorized string | Forbidden string | No_Such_Key string | Duplicate_Row

definition hashApiKey :: "key_env \<Rightarrow> string \<Rightarrow> string" where
  "hashApiKey E rawKey =
     (case or_str (ke_pepper E) None of Some pepper \<Rightarrow> ke_hmac E pepper rawKey | None \<Rightarrow> ke_sha256 E rawKey)"

definition generated_key :: "key_env \<Rightarrow> nat \<Rightarrow> string" where
  "generated_key E n = ''owa_k1_'' @ ke_random E n"

definition resolveSeedApiKey :: "key_env \<Rightarrow> nat \<Rightarrow> string" where
  "resolveSeedApiKey E n =
     (case or_str (ke_masterKey E) None of
        Some k \<Rightarrow> k
      | None \<Rightarrow> (if ke_allowDevKey E = Some ''true'' then ''dev-admin-key'' else generated_key E n))"

definition bannerKeyLine :: "string \<Rightarrow> bool \<Rightarrow> string" where
  "bannerKeyLine displayKey isNewKey =
     (if isNewKey then displayKey
      else if starts_with ''('' displayKey then displayKey
      else take 8 displayKey @ [CHR 0xE2, CHR 0x80, CHR 0xA6] @ '' (full key in data/.api-key or the dashboard)'')"

text \<open>
  A list column is stored as one text with commas; saving an entity whose id is not in the table inserts it.
\<close>

definition simple_array :: "string list option \<Rightarrow> string list option" where
  "simple_array a = map_option (\<lambda>xs. if join '','' xs = [] then [] else split_on (CHR '','') (join '','' xs)) a"

definition as_stored :: "api_key \<Rightarrow> api_key" where
  "as_stored k = k\<lparr>ak_allowedIps := simple_array (ak_allowedIps k), ak_allowedSessions := simple_array (ak_allowedSessions k)\<rparr>"

definition save_key :: "api_key \<Rightarrow> key_state \<Rightarrow> key_state" where
  "save_key k s =
     s\<lparr>ks_keys := (if \<exists>x \<in> set (ks_keys s). ak_id x = ak_id k
                    then map (\<lambda>x. if ak_id x = ak_id k then as_stored k else x) (ks_keys s) else ks_keys s @ [as_stored k])\<rparr>"

definition new_key ::
  "key_env \<Rightarrow> int \<Rightarrow> nat \<Rightarrow> string \<Rightarrow> string \<Rightarrow> ApiKeyRole \<Rightarrow> string list option \<Rightarrow> string list option \<Rightarrow> int option \<Rightarrow> api_key" where
  "new_key E now n rawKey name role ips sessions expiresAt =
     \<lparr>ak_id = ke_uuid E n, ak_name = name, ak_keyHash = hashApiKey E rawKey, ak_keyPrefix = take 12 rawKey, ak_role = role,
      ak_allowedIps = ips, ak_allowedSessions = sessions, ak_isActive = True, ak_expiresAt = expiresAt, ak_lastUsedAt = None,
      ak_usageCount = 0, ak_createdAt = now\<rparr>"

text \<open>At start: a key is seeded when there is none.  The line of the banner is the answer.\<close>

definition key_onModuleInit :: "key_env \<Rightarrow> int \<Rightarrow> key_state \<Rightarrow> string \<times> key_state" where
  "key_onModuleInit E now s =
     (if ks_keys s = [] then
        (let displayKey = resolveSeedApiKey E (ks_seq s);
             s1 = save_key (new_key E now (ks_seq s) displayKey ''Default Admin Key'' Role_admin None None None) s
         in (bannerKeyLine displayKey True,
             s1\<lparr>ks_file := (if ke_fileOk E then Some displayKey else ks_file s), ks_seq := Suc (ks_seq s)\<rparr>))
      else
        (bannerKeyLine (case ks_file s of
                          Some f \<Rightarrow> (if ke_fileOk E then js_trim f else ''(check dashboard for keys)'')
                        | None \<Rightarrow> ''(check dashboard for keys)'') False, s))"

text \<open>A property of an update that is absent, \<open>null\<close> or given; dates are parsed.\<close>

record key_dto =
  kd_name :: "string option"
  kd_role :: "ApiKeyRole option"
  kd_allowedIps :: "string list option option"
  kd_allowedSessions :: "string list option option"
  kd_expiresAt :: "int option option"

text \<open>A new row is inserted; the id and the digest of a key are unique in the table.\<close>

definition createApiKey :: "key_env \<Rightarrow> int \<Rightarrow> key_dto \<Rightarrow> key_state \<Rightarrow> (key_error + api_key \<times> string) \<times> key_state" where
  "createApiKey E now d s =
     (let rawKey = generated_key E (ks_seq s);
          k = new_key E now (ks_seq s) rawKey (coalesce (kd_name d) []) (coalesce (kd_role d) Role_operator)
                (coalesce (kd_allowedIps d) None) (coalesce (kd_allowedSessions d) None) (coalesce (kd_expiresAt d) None);
          s1 = s\<lparr>ks_seq := Suc (ks_seq s)\<rparr>
      in if ak_id k \<in> ak_id ` set (ks_keys s) \<or> ak_keyHash k \<in> ak_keyHash ` set (ks_keys s) then (Inl Duplicate_Row, s1)
         else (Inr (k, rawKey), s1\<lparr>ks_keys := ks_keys s @ [as_stored k]\<rparr>))"

definition key_findAll :: "key_state \<Rightarrow> api_key list" where
  "key_findAll s = sort_key (\<lambda>k. - ak_createdAt k) (ks_keys s)"

definition key_findOne :: "string \<Rightarrow> key_state \<Rightarrow> key_error + api_key" where
  "key_findOne i s =
     (case List.find (\<lambda>k. ak_id k = i) (ks_keys s) of
        None \<Rightarrow> Inl (No_Such_Key i)
      | Some k \<Rightarrow> Inr k)"

definition merge_key :: "key_dto \<Rightarrow> api_key \<Rightarrow> api_key" where
  "merge_key d k =
     k\<lparr>ak_name := coalesce (or_str (kd_name d) None) (ak_name k), ak_role := coalesce (kd_role d) (ak_role k),
       ak_allowedIps := coalesce (kd_allowedIps d) (ak_allowedIps k),
       ak_allowedSessions := coalesce (kd_allowedSessions d) (ak_allowedSessions k),
       ak_expiresAt := coalesce (kd_expiresAt d) (ak_expiresAt k)\<rparr>"

definition key_update :: "string \<Rightarrow> key_dto \<Rightarrow> key_state \<Rightarrow> (key_error + api_key) \<times> key_state" where
  "key_update i d s =
     (case key_findOne i s of Inl e \<Rightarrow> (Inl e, s) | Inr k \<Rightarrow> (Inr (merge_key d k), save_key (merge_key d k) s))"

definition drop_pending :: "string \<Rightarrow> key_state \<Rightarrow> key_state" where
  "drop_pending i s = s\<lparr>ks_pending := (ks_pending s)(i := None)\<rparr>"

definition key_delete :: "string \<Rightarrow> key_state \<Rightarrow> (key_error + unit) \<times> key_state" where
  "key_delete i s =
     (case key_findOne i s of
        Inl e \<Rightarrow> (Inl e, s)
      | Inr k \<Rightarrow> (Inr (), drop_pending i (s\<lparr>ks_keys := filter (\<lambda>x. ak_id x \<noteq> i) (ks_keys s)\<rparr>)))"

definition key_revoke :: "string \<Rightarrow> key_state \<Rightarrow> (key_error + api_key) \<times> key_state" where
  "key_revoke i s =
     (case key_findOne i s of
        Inl e \<Rightarrow> (Inl e, s)
      | Inr k \<Rightarrow> (let k' = k\<lparr>ak_isActive := False\<rparr> in (Inr k', save_key k' (drop_pending i s))))"

section \<open>Validation\<close>

text \<open>
  \<open>ipToNumber\<close> in 32-bit arithmetic: an octet that is no number makes the sum \<open>NaN\<close>, which the next shift reads as \<open>0\<close>.
\<close>

fun octets_value :: "string list \<Rightarrow> 32 word option \<Rightarrow> 32 word" where
  "octets_value [] acc = coalesce acc 0"
| "octets_value (p # ps) acc =
     octets_value ps (case parseInt p of None \<Rightarrow> None | Some n \<Rightarrow> Some (push_bit 8 (coalesce acc 0) + of_int n))"

definition ipToNumber :: "string \<Rightarrow> 32 word" where
  "ipToNumber ip = (let parts = split_on (CHR ''.'') ip in if length parts \<noteq> 4 then 0 else octets_value parts (Some 0))"

definition ipInCidr :: "string \<Rightarrow> string \<Rightarrow> bool" where
  "ipInCidr ip cidr =
     (let parts = split_on (CHR ''/'') cidr in
      case parseInt (parts ! 1) of
        None \<Rightarrow> False
      | Some bits \<Rightarrow>
          (if bits < 0 \<or> 32 < bits then False
           else (let m = NOT (2 ^ nat (32 - bits) - 1) in ipToNumber ip AND m = ipToNumber (parts ! 0) AND m)))"

definition isIpAllowed :: "string \<Rightarrow> string list \<Rightarrow> bool" where
  "isIpAllowed clientIp allowedIps =
     list_ex (\<lambda>entry. if CHR ''/'' \<in> set entry then ipInCidr clientIp entry else clientIp = entry) allowedIps"

definition STAT_FLUSH_INTERVAL_MS :: int where "STAT_FLUSH_INTERVAL_MS = 60000"

definition check_key :: "int \<Rightarrow> string option \<Rightarrow> string option \<Rightarrow> api_key option \<Rightarrow> key_error + api_key" where
  "check_key now clientIp sessionId found =
     (case found of
        None \<Rightarrow> Inl (Unauthorized ''Invalid API key'')
      | Some k \<Rightarrow>
          (if \<not> ak_isActive k then Inl (Unauthorized ''API key is revoked'')
           else if (case ak_expiresAt k of Some t \<Rightarrow> t < now | None \<Rightarrow> False) then Inl (Unauthorized ''API key has expired'')
           else
             (let ips = coalesce (ak_allowedIps k) []; sessions = coalesce (ak_allowedSessions k) [] in
              if ips \<noteq> [] \<and> or_str clientIp None = None then Inl (Unauthorized ''Client IP could not be determined'')
              else if ips \<noteq> [] \<and> \<not> isIpAllowed (the clientIp) ips then Inl (Unauthorized ''IP address not allowed'')
              else if sessions \<noteq> [] \<and> or_str sessionId None \<noteq> None \<and> the sessionId \<notin> set sessions
              then Inl (Unauthorized ''API key not authorized for this session'')
              else Inr k)))"

text \<open>
  The count of a key is written at most once a minute; in between it is kept in memory.  The row is written as it was
  read, with the new count.
\<close>

definition count_use :: "int \<Rightarrow> api_key \<Rightarrow> key_state \<Rightarrow> api_key \<times> key_state" where
  "count_use now k s =
     (let pending = coalesce (ks_pending s (ak_id k)) 0 + 1;
          k' = k\<lparr>ak_lastUsedAt := Some now, ak_usageCount := ak_usageCount k + pending\<rparr>;
          due = (case ak_lastUsedAt k of None \<Rightarrow> True | Some t \<Rightarrow> now - t \<ge> STAT_FLUSH_INTERVAL_MS)
      in (k', if due then save_key k' (drop_pending (ak_id k) s)
              else s\<lparr>ks_pending := (ks_pending s)(ak_id k \<mapsto> pending)\<rparr>))"

text \<open>\<open>between\<close> is what other requests do after the row has been read and before it is written.\<close>

definition validateApiKey ::
  "key_env \<Rightarrow> (key_state \<Rightarrow> key_state) \<Rightarrow> int \<Rightarrow> string \<Rightarrow> string option \<Rightarrow> string option \<Rightarrow> key_state \<Rightarrow>
   (key_error + api_key) \<times> key_state" where
  "validateApiKey E between now rawKey clientIp sessionId s =
     (case check_key now clientIp sessionId (List.find (\<lambda>k. ak_keyHash k = hashApiKey E rawKey) (ks_keys s)) of
        Inl e \<Rightarrow> (Inl e, between s)
      | Inr k \<Rightarrow> (let (k', s') = count_use now k (between s) in (Inr k', s')))"

fun role_level :: "ApiKeyRole \<Rightarrow> nat" where
  "role_level Role_viewer = 1"
| "role_level Role_operator = 2"
| "role_level Role_admin = 3"

definition hasPermission :: "api_key \<Rightarrow> ApiKeyRole \<Rightarrow> bool" where
  "hasPermission k required \<longleftrightarrow> role_level required \<le> role_level (ak_role k)"

section \<open>The guard\<close>

record route =
  rt_public :: bool
  rt_role :: "ApiKeyRole option"
  rt_sessionScoped :: bool

definition extractApiKey :: "gw_request \<Rightarrow> string option" where
  "extractApiKey req =
     (case or_str (cr_apiKeyHeader req) None of
        Some k \<Rightarrow> Some k
      | None \<Rightarrow> (case cr_authorization req of Some a \<Rightarrow> strip_prefix ''Bearer '' a | None \<Rightarrow> None))"

definition guarded_session :: "route \<Rightarrow> gw_request \<Rightarrow> string option" where
  "guarded_session rt req = or_str (cr_sessionId req) (if rt_sessionScoped rt then cr_id req else None)"

definition required_role :: "ApiKeyRole option \<Rightarrow> api_key \<Rightarrow> key_error + api_key" where
  "required_role r k =
     (case r of
        Some q \<Rightarrow> (if hasPermission k q then Inr k else Inl (Forbidden (''Insufficient permissions. Required: '' @ role_text q)))
      | None \<Rightarrow> Inr k)"

text \<open>The answer is the key attached to the request, none on a public route.\<close>

definition canActivate ::
  "key_env \<Rightarrow> (key_state \<Rightarrow> key_state) \<Rightarrow> string list \<Rightarrow> int \<Rightarrow> route \<Rightarrow> gw_request \<Rightarrow> key_state \<Rightarrow>
   (key_error + api_key option) \<times> key_state" where
  "canActivate E between trustedProxies now rt req s =
     (if rt_public rt then (Inr None, s)
      else
        (case or_str (extractApiKey req) None of
           None \<Rightarrow> (Inl (Unauthorized ''API key is required''), s)
         | Some key \<Rightarrow>
             (case validateApiKey E between now key (Some (resolveClientIp req trustedProxies)) (guarded_session rt req) s of
                (Inl e, s1) \<Rightarrow> (Inl e, s1)
              | (Inr k, s1) \<Rightarrow> (map_sum id Some (required_role (rt_role rt) k), s1))))"

text \<open>The pages of the queue, which the guard does not cover.\<close>

definition bull_board_use ::
  "key_env \<Rightarrow> (key_state \<Rightarrow> key_state) \<Rightarrow> string list \<Rightarrow> int \<Rightarrow> gw_request \<Rightarrow> key_state \<Rightarrow> (key_error + unit) \<times> key_state" where
  "bull_board_use E between trustedProxies now req s =
     (case or_str (extractApiKey req) None of
        None \<Rightarrow> (Inl (Unauthorized ''API key is required to access the queue dashboard''), s)
      | Some key \<Rightarrow>
          (case validateApiKey E between now key (Some (resolveClientIp req trustedProxies)) None s of
             (Inl e, s1) \<Rightarrow> (Inl e, s1)
           | (Inr k, s1) \<Rightarrow>
               (if hasPermission k Role_admin then (Inr (), s1)
                else (Inl (Forbidden ''Admin role required to access the queue dashboard''), s1))))"

text \<open>The answer \<open>valid\<close> with the role, or \<open>valid: false\<close>.\<close>

definition validate_handler ::
  "key_env \<Rightarrow> (key_state \<Rightarrow> key_state) \<Rightarrow> int \<Rightarrow> string option \<Rightarrow> key_state \<Rightarrow> ApiKeyRole option \<times> key_state" where
  "validate_handler E between now apiKey s =
     (case or_str apiKey None of
        None \<Rightarrow> (None, s)
      | Some k \<Rightarrow>
          (case validateApiKey E between now k None None s of
             (Inl _, s1) \<Rightarrow> (None, s1)
           | (Inr r, s1) \<Rightarrow> (if ak_isActive r then Some (ak_role r) else None, s1)))"

text \<open>Whether an entry of the allow list is accepted when a key is created.\<close>

definition isIpOrCidr :: "string \<Rightarrow> bool" where
  "isIpOrCidr v =
     (let (range, rest) = (takeWhile (\<lambda>c. c \<noteq> CHR ''/'') v, dropWhile (\<lambda>c. c \<noteq> CHR ''/'') v) in
      isIPv4 range \<and>
      (rest = [] \<or> (let bits = tl rest in bits \<noteq> [] \<and> length bits \<le> 2 \<and> list_all is_digit bits \<and> nat_of_digits bits \<le> 32)))"

end
