(* ===== verification/Api_Access.thy ===== *)
theory Api_Access
  imports Api_Keys
begin

text \<open>
  What the gateway's keys guarantee: the address a request is judged by, what an admitted request has shown, the allow
  list as arithmetic on addresses, the count of uses, and that a revoked key stays out.
\<close>

section \<open>The client's address\<close>

lemma split_on_append: "split_on c (p @ c # q) = split_on c p @ split_on c q"
proof (induction p)
  case (Cons x p)
  have "split_on c p \<noteq> []" by (cases p) (auto split: list.splits)
  then show ?case using Cons by (auto simp: append_eq_Cons_conv split: list.splits)
qed simp

lemma find_append_case:
  "List.find P (xs @ ys) = (case List.find P xs of Some x \<Rightarrow> Some x | None \<Rightarrow> List.find P ys)"
  by (induction xs) auto

lemma forwarded_hops_append: "forwarded_hops (p @ '','' @ q) = forwarded_hops p @ forwarded_hops q"
  by (simp add: forwarded_hops_def split_on_append)

lemma resolve_direct:
  "trustedProxies = [] \<or> \<not> list_ex (ipMatches (socket_address req)) trustedProxies \<Longrightarrow>
   resolveClientIp req trustedProxies = socket_address req"
  by (auto simp: resolveClientIp_def Let_def)

lemma resolve_last_untrusted:
  assumes "\<exists>h \<in> set (forwarded_hops q). \<not> list_ex (ipMatches h) tp"
  shows "resolveClientIp (req\<lparr>cr_xff := Some [p @ '','' @ q]\<rparr>) tp = resolveClientIp (req\<lparr>cr_xff := Some [q]\<rparr>) tp"
proof -
  obtain h where h: "List.find (\<lambda>h. \<not> list_ex (ipMatches h) tp) (rev (forwarded_hops q)) = Some h"
    using assms by (cases "List.find (\<lambda>h. \<not> list_ex (ipMatches h) tp) (rev (forwarded_hops q))") (auto simp: find_None_iff)
  have "q \<noteq> []" using assms by (auto simp: forwarded_hops_def js_trim_def js_trim_start_def js_trim_end_def normalizeIp_def)
  moreover have "socket_address (req\<lparr>cr_xff := x\<rparr>) = socket_address req" for x
    by (simp add: socket_address_def)
  ultimately show ?thesis
    using h forwarded_hops_append [of p q] by (simp add: resolveClientIp_def Let_def find_append_case)
qed

lemma resolve_answer:
  "resolveClientIp req tp = socket_address req \<or>
   (list_ex (ipMatches (socket_address req)) tp \<and> \<not> list_ex (ipMatches (resolveClientIp req tp)) tp \<and>
    (\<exists>forwarded. cr_xff req = Some forwarded \<and> resolveClientIp req tp \<in> set (forwarded_hops (join '','' forwarded))))"
  by (auto simp: resolveClientIp_def Let_def dest!: find_SomeD split: option.splits)

text \<open>C33. The address a key is checked against cannot be chosen by the client: whatever a client puts in front of the
  forwarded chain is ignored as soon as the rest names a hop that is no trusted proxy; without a trusted proxy at the
  other end of the connection the address is that of the connection; and in any case it is that one or the address of a
  hop that is no trusted proxy.\<close>

theorem client_address_unspoofable:
  assumes "\<exists>h \<in> set (forwarded_hops q). \<not> list_ex (ipMatches h) tp"
  shows "resolveClientIp (req\<lparr>cr_xff := Some [p @ '','' @ q]\<rparr>) tp = resolveClientIp (req\<lparr>cr_xff := Some [q]\<rparr>) tp \<and>
    (tp = [] \<or> \<not> list_ex (ipMatches (socket_address req)) tp \<longrightarrow> resolveClientIp req tp = socket_address req) \<and>
    (resolveClientIp req tp = socket_address req \<or>
     (list_ex (ipMatches (socket_address req)) tp \<and> \<not> list_ex (ipMatches (resolveClientIp req tp)) tp \<and>
      (\<exists>forwarded. cr_xff req = Some forwarded \<and> resolveClientIp req tp \<in> set (forwarded_hops (join '','' forwarded)))))"
  using resolve_last_untrusted [OF assms] resolve_direct resolve_answer by auto

definition proxied_request :: gw_request where
  "proxied_request = \<lparr>cr_remoteAddress = Some ''::ffff:10.0.0.1'', cr_ip = None, cr_xff = None,
     cr_apiKeyHeader = Some ''k'', cr_authorization = None, cr_sessionId = Some ''s1'', cr_id = None\<rparr>"

lemma proxied_hops: "forwarded_hops ''203.0.113.7, 10.0.0.9'' = [''203.0.113.7'', ''10.0.0.9'']"
  by code_simp

lemma proxied_untrusted: "\<not> ipMatches ''203.0.113.7'' ''10.0.0.0/8'' \<and> ipMatches ''10.0.0.9'' ''10.0.0.0/8''"
  by code_simp

lemma proxied_address:
  "resolveClientIp (proxied_request\<lparr>cr_xff := Some [''203.0.113.7, 10.0.0.9'']\<rparr>) [''10.0.0.0/8''] = ''203.0.113.7''"
  by code_simp

theorem client_address_unspoofable_witness:
  "resolveClientIp (proxied_request\<lparr>cr_xff := Some [''1.2.3.4'' @ '','' @ ''203.0.113.7, 10.0.0.9'']\<rparr>) [''10.0.0.0/8''] =
     ''203.0.113.7''"
  using client_address_unspoofable 
      [where q = "''203.0.113.7, 10.0.0.9''" and tp = "[''10.0.0.0/8'']" and req = proxied_request and p = "''1.2.3.4''"]
    proxied_untrusted proxied_address
  by (simp add: proxied_hops)

section \<open>The guard\<close>

lemma check_key_Inr:
  "check_key now ip sess found = Inr k \<Longrightarrow>
   found = Some k \<and> ak_isActive k \<and> (\<forall>t. ak_expiresAt k = Some t \<longrightarrow> now \<le> t) \<and>
   (\<forall>ips. ak_allowedIps k = Some ips \<and> ips \<noteq> [] \<longrightarrow> (\<exists>a. ip = Some a \<and> isIpAllowed a ips)) \<and>
   (\<forall>ss. ak_allowedSessions k = Some ss \<and> ss \<noteq> [] \<longrightarrow> (\<forall>i. sess = Some i \<and> i \<noteq> [] \<longrightarrow> i \<in> set ss))"
  by (auto simp: check_key_def Let_def or_str_def coalesce_def split: option.splits if_splits)

lemma check_key_Inl: "check_key now ip sess found = Inl e \<Longrightarrow> \<exists>m. e = Unauthorized m"
  by (auto simp: check_key_def Let_def split: option.splits if_splits)

text \<open>A use is kept in memory, or written to the row with what was in memory.\<close>

lemma count_use_state:
  assumes "count_use now k s = (k', s')"
  shows "\<exists>n. s' = s\<lparr>ks_pending := (ks_pending s)(ak_id k \<mapsto> n)\<rparr> \<or>
    s' = save_key (k\<lparr>ak_lastUsedAt := Some now, ak_usageCount := n\<rparr>) (drop_pending (ak_id k) s)"
  using assms by (auto simp: count_use_def Let_def split: option.splits if_splits)

lemma count_use_key:
  "count_use now k s = (k', s') \<Longrightarrow> k' = k\<lparr>ak_lastUsedAt := Some now, ak_usageCount := ak_usageCount k'\<rparr> \<and>
   ks_seq s' = ks_seq s \<and> ks_file s' = ks_file s"
  by (auto simp: count_use_def Let_def save_key_def drop_pending_def split: option.splits if_splits)

lemma validateApiKey_Inr:
  assumes "validateApiKey E between now raw ip sess s = (Inr k, s')"
  shows "\<exists>row \<in> set (ks_keys s). ak_keyHash row = hashApiKey E raw \<and>
    check_key now ip sess (Some row) = Inr row \<and> count_use now row (between s) = (k, s')"
proof (cases "check_key now ip sess (List.find (\<lambda>k. ak_keyHash k = hashApiKey E raw) (ks_keys s))")
  case (Inr row)
  then have "List.find (\<lambda>k. ak_keyHash k = hashApiKey E raw) (ks_keys s) = Some row" by (simp add: check_key_Inr)
  then show ?thesis
    using assms Inr by (auto simp: validateApiKey_def dest!: find_SomeD split: prod.splits)
qed (use assms in \<open>simp add: validateApiKey_def\<close>)

lemma validateApiKey_Inl:
  "validateApiKey E between now raw ip sess s = (Inl e, s') \<Longrightarrow> s' = between s \<and> (\<exists>m. e = Unauthorized m)"
  by (auto simp: validateApiKey_def split: sum.splits prod.splits dest: check_key_Inl)

lemma canActivate_cases:
  assumes "canActivate E between tp now rt req s = (res, s')" and "\<not> rt_public rt"
  obtains (no_key) m where "s' = s" "res = Inl (Unauthorized m)" | (refused) m where "s' = between s" "res = Inl (Unauthorized m)"
  | (known) raw row n where "extractApiKey req = Some raw" "raw \<noteq> []" "row \<in> set (ks_keys s)" "ak_keyHash row = hashApiKey E raw"
      "check_key now (Some (resolveClientIp req tp)) (guarded_session rt req) (Some row) = Inr row"
      "res = map_sum id Some (required_role (rt_role rt) (row\<lparr>ak_lastUsedAt := Some now, ak_usageCount := n\<rparr>))"
      "s' = snd (count_use now row (between s))"
proof (cases "or_str (extractApiKey req) None")
  case None
  then show ?thesis using assms no_key by (auto simp: canActivate_def)
next
  case (Some raw)
  then have raw: "extractApiKey req = Some raw" "raw \<noteq> []" by (auto simp: or_str_def split: option.splits if_splits)
  obtain v s1 where v: "validateApiKey E between now raw (Some (resolveClientIp req tp)) (guarded_session rt req) s = (v, s1)"
    by (meson surj_pair)
  show ?thesis
  proof (cases v)
    case (Inl e)
    then obtain m where "s1 = between s" "e = Unauthorized m" using v validateApiKey_Inl by blast
    then show ?thesis using assms Some v Inl refused by (auto simp: canActivate_def)
  next
    case (Inr k)
    with v obtain row where row: "row \<in> set (ks_keys s)" "ak_keyHash row = hashApiKey E raw"
      "check_key now (Some (resolveClientIp req tp)) (guarded_session rt req) (Some row) = Inr row"
      "count_use now row (between s) = (k, s1)"
      using validateApiKey_Inr by blast
    moreover obtain n where "k = row\<lparr>ak_lastUsedAt := Some now, ak_usageCount := n\<rparr>"
      using count_use_key [OF row(4)] by metis
    moreover have "res = map_sum id Some (required_role (rt_role rt) k)" "s' = snd (count_use now row (between s))"
      using assms Some v Inr row(4) by (auto simp: canActivate_def)
    ultimately show ?thesis using known raw by blast
  qed
qed

text \<open>C32. On a route that is not public, a request is let through only with a key whose digest is in the table when it
  is looked up, and that is active, not expired, allowed from the request's address and for its session, and of a
  sufficient role; the attached key is that row with its use counted.  A refusal with 401 changes nothing itself.  The
  only other refusal is 403, for a valid key whose role is not sufficient: that changes nothing but the use count of the
  key, in memory or in its row.\<close>

theorem guard_admits:
  assumes "canActivate E between tp now rt req s = (res, s')" and "\<not> rt_public rt"
  shows "(\<exists>m. res = Inl (Unauthorized m)) \<and> (s' = s \<or> s' = between s) \<or>
    (\<exists>raw. \<exists>row \<in> set (ks_keys s). \<exists>n c. extractApiKey req = Some raw \<and> raw \<noteq> [] \<and> ak_keyHash row = hashApiKey E raw \<and>
       ak_isActive row \<and> (\<forall>t. ak_expiresAt row = Some t \<longrightarrow> now \<le> t) \<and>
       (\<forall>ips. ak_allowedIps row = Some ips \<and> ips \<noteq> [] \<longrightarrow> isIpAllowed (resolveClientIp req tp) ips) \<and>
       (\<forall>ss i. ak_allowedSessions row = Some ss \<and> ss \<noteq> [] \<and> guarded_session rt req = Some i \<and> i \<noteq> [] \<longrightarrow> i \<in> set ss) \<and>
       (if \<forall>r. rt_role rt = Some r \<longrightarrow> role_level r \<le> role_level (ak_role row)
        then res = Inr (Some (row\<lparr>ak_lastUsedAt := Some now, ak_usageCount := n\<rparr>))
        else \<exists>r. rt_role rt = Some r \<and> res = Inl (Forbidden (''Insufficient permissions. Required: '' @ role_text r))) \<and>
       (s' = (between s)\<lparr>ks_pending := (ks_pending (between s))(ak_id row \<mapsto> c)\<rparr> \<or>
        s' = save_key (row\<lparr>ak_lastUsedAt := Some now, ak_usageCount := c\<rparr>) (drop_pending (ak_id row) (between s))))"
  using assms
proof (cases rule: canActivate_cases)
  case (known raw row n)
  note c = check_key_Inr [OF known(5)]
  have ips: "\<forall>ips. ak_allowedIps row = Some ips \<and> ips \<noteq> [] \<longrightarrow> isIpAllowed (resolveClientIp req tp) ips" using c by blast
  have answer: "if \<forall>r. rt_role rt = Some r \<longrightarrow> role_level r \<le> role_level (ak_role row)
        then res = Inr (Some (row\<lparr>ak_lastUsedAt := Some now, ak_usageCount := n\<rparr>))
        else \<exists>r. rt_role rt = Some r \<and> res = Inl (Forbidden (''Insufficient permissions. Required: '' @ role_text r))"
    using known(6) by (simp add: required_role_def hasPermission_def split: option.splits)
  obtain c' where "s' = (between s)\<lparr>ks_pending := (ks_pending (between s))(ak_id row \<mapsto> c')\<rparr> \<or>
      s' = save_key (row\<lparr>ak_lastUsedAt := Some now, ak_usageCount := c'\<rparr>) (drop_pending (ak_id row) (between s))"
    using count_use_state [OF surjective_pairing, of now row "between s"] known(7) by blast
  then show ?thesis
    using c ips answer known(1-4)
    by (intro disjI2 exI [of _ raw] bexI [of _ row] exI [of _ n] exI [of _ c']) blast+
qed auto

definition sample_keys :: key_env where
  "sample_keys = \<lparr>ke_sha256 = (\<lambda>s. ''h'' @ s), ke_hmac = (\<lambda>p s. p @ s), ke_pepper = None, ke_random = nat_text, ke_uuid = nat_text,
     ke_masterKey = None, ke_allowDevKey = None, ke_fileOk = True\<rparr>"

definition sample_key :: api_key where
  "sample_key = \<lparr>ak_id = ''u'', ak_name = ''bot'', ak_keyHash = ''hk'', ak_keyPrefix = ''k'', ak_role = Role_operator,
     ak_allowedIps = Some [''192.168.0.1'', ''10.0.0.0/8''], ak_allowedSessions = Some [''s1''], ak_isActive = True, ak_expiresAt = Some 9,
     ak_lastUsedAt = None, ak_usageCount = 4, ak_createdAt = 0\<rparr>"

definition sample_key_state :: key_state where
  "sample_key_state = \<lparr>ks_keys = [sample_key], ks_pending = (\<lambda>_. None), ks_seq = 1, ks_file = None\<rparr>"

definition session_route :: route where
  "session_route = \<lparr>rt_public = False, rt_role = Some Role_operator, rt_sessionScoped = True\<rparr>"

lemma sample_admitted:
  "fst (canActivate sample_keys id [] 5 session_route proxied_request sample_key_state) =
     Inr (Some (sample_key\<lparr>ak_lastUsedAt := Some 5, ak_usageCount := 5\<rparr>))"
  by code_simp

theorem guard_admits_witness:
  "\<exists>row \<in> set (ks_keys sample_key_state). ak_isActive row \<and> role_level Role_operator \<le> role_level (ak_role row) \<and>
     (\<forall>ips. ak_allowedIps row = Some ips \<and> ips \<noteq> [] \<longrightarrow> isIpAllowed (resolveClientIp proxied_request []) ips)"
proof -
  obtain s' where "canActivate sample_keys id [] 5 session_route proxied_request sample_key_state =
      (Inr (Some (sample_key\<lparr>ak_lastUsedAt := Some 5, ak_usageCount := 5\<rparr>)), s')"
    using sample_admitted by (metis prod.collapse)
  from guard_admits [OF this] show ?thesis by (auto simp: session_route_def split: if_splits)
qed

section \<open>The allow list\<close>

lemma no_white_space:
  assumes "is_digit c"
  shows "strip_any js_whitespace (c # r) = None" and "strip_any (map rev js_whitespace) (c # r) = None"
proof -
  have "c \<notin> {CHR 0x09, CHR 0x0A, CHR 0x0B, CHR 0x0C, CHR 0x0D, CHR 0x20, CHR 0xC2, CHR 0xE1, CHR 0xE2, CHR 0xE3, CHR 0xEF,
      CHR 0xA0, CHR 0x80, CHR 0x81, CHR 0x82, CHR 0x83, CHR 0x84, CHR 0x85, CHR 0x86, CHR 0x87, CHR 0x88, CHR 0x89, CHR 0x8A,
      CHR 0xA8, CHR 0xA9, CHR 0xAF, CHR 0x9F, CHR 0xBF}"
    using assms by (auto simp: is_digit_def)
  then show "strip_any js_whitespace (c # r) = None" "strip_any (map rev js_whitespace) (c # r) = None"
    by (simp_all add: js_whitespace_def eq_commute [of _ c])
qed

lemma trim_plain:
  assumes "s \<noteq> []" "is_digit (hd s)" "is_digit (last s)"
  shows "js_trim s = s"
proof -
  obtain c r where c: "s = c # r" using assms(1) by (cases s) auto
  obtain d u where u: "rev s = d # u" using assms(1) by (cases "rev s") auto
  then have l: "last s = d" by (metis hd_rev list.sel(1) rev_rev_ident last_rev)
  have "trim_fuel n js_whitespace (c # r) = c # r" for n
    using no_white_space(1) [of c r] assms(2) c by (cases n) auto
  then have 1: "js_trim_start s = s" by (simp add: js_trim_start_def c)
  have "trim_fuel n (map rev js_whitespace) (d # u) = d # u" for n
    using no_white_space(2) [of d u] assms(3) l by (cases n) auto
  then have "js_trim_end s = s" unfolding js_trim_end_def u by (simp flip: u)
  with 1 show ?thesis by (simp add: js_trim_def)
qed

lemma nat_text_ends: "is_digit (hd (nat_text n))" "is_digit (last (nat_text n))"
  using nat_text_digits [of n] by (auto simp: list_all_iff)

lemma nat_text_leading: "0 < n \<Longrightarrow> hd (nat_text n) \<noteq> CHR ''0''"
proof (induction n rule: nat_text.induct)
  case (1 n)
  have "char_of (48 + n) \<noteq> CHR ''0''" if "n < 10"
  proof
    assume "char_of (48 + n) = CHR ''0''"
    then have "of_char (char_of (48 + n) :: char) = (of_char (CHR ''0'') :: nat)" by (rule arg_cong)
    then show False using of_char_digit [OF that] 1(2) by simp
  qed
  then show ?case
    using 1 nat_text_digits [of "n div 10"] by (simp add: nat_text.simps [of n] hd_append)
qed

lemma number_of_nat_text: "number_of_text (nat_text n) = Some (of_nat n)"
proof -
  obtain c r where s: "nat_text n = c # r" using nat_text_digits by (metis neq_Nil_conv)
  have d: "list_all is_digit (c # r)" "digits (c # r) = (c # r, [])"
    using nat_text_digits [of n] digits_all s by metis+
  then have "c \<noteq> CHR ''-'' \<and> c \<noteq> CHR ''+''" by (auto simp: is_digit_def)
  moreover have "js_trim (c # r) = c # r" using trim_plain [of "nat_text n"] nat_text_ends [of n] s by auto
  moreover have "decimal_number (c # r) = Some (of_nat n)"
    using d(2) nat_of_digits_text [of n] s by (simp add: decimal_number_def nat_of_digits_def)
  moreover have "n = 0" if "c = CHR ''0''" using nat_text_leading [of n] s that by auto
  moreover have "n = 0 \<Longrightarrow> r = []" using s by (simp add: nat_text.simps [of 0])
  ultimately show ?thesis unfolding s by (cases "c = CHR ''0''") (auto simp: number_of_text_def)
qed

text \<open>An address in dotted form, and the number it stands for.\<close>

abbreviation v4_number :: "nat \<Rightarrow> nat \<Rightarrow> nat \<Rightarrow> nat \<Rightarrow> nat" where
  "v4_number a b c d \<equiv> ((a * 256 + b) * 256 + c) * 256 + d"

lemma parseInt_nat_text: "parseInt (nat_text n) = Some (int n)"
  using parseInt_int_text [of "int n"] by (simp add: int_text_def)

lemma ipToNumber_dotted: "ipToNumber (dotted a b c d) = of_nat (v4_number a b c d)"
proof -
  have "push_bit 8 w = w * 256" for w :: "32 word" by (simp add: push_bit_eq_mult)
  then show ?thesis by (simp add: ipToNumber_def split_dotted parseInt_nat_text)
qed

lemma ip_toInt_dotted:
  assumes "a < 256" "b < 256" "c < 256" "d < 256"
  shows "ip_toInt (dotted a b c d) = Some (of_nat (v4_number a b c d))"
  using assms
  by (simp add: ip_toInt_def split_dotted nat_of_digits_text nat_text_digits length_nat_text not_less)

lemma dotted_alphabet: "set (dotted a b c d) \<subseteq> insert (CHR ''.'') (Collect is_digit)"
  using nat_text_digits [of a] nat_text_digits [of b] nat_text_digits [of c] nat_text_digits [of d]
  by (auto simp: dotted_def list_all_iff)

lemma slash_dotted: "CHR ''/'' \<notin> set (dotted a b c d)" "CHR ''/'' \<notin> set (nat_text n)"
  using dotted_alphabet [of a b c d] nat_text_digits [of n] by (auto simp: is_digit_def list_all_iff)

lemma trim_dotted: "js_trim (dotted a b c d) = dotted a b c d" "js_trim (dotted a b c d @ ''/'' @ nat_text k) = dotted a b c d @ ''/'' @ nat_text k"
  using nat_text_digits [of a] nat_text_digits [of d] nat_text_digits [of k] nat_text_ends
  by (auto intro!: trim_plain simp: dotted_def hd_append last_append)

lemma normalize_dotted: "normalizeIp (dotted a b c d) = dotted a b c d"
proof -
  obtain x r where s: "dotted a b c d = x # r" "is_digit x"
    using nat_text_digits [of a] by (cases "nat_text a") (auto simp: dotted_def)
  then have "ascii_lower_char x \<noteq> CHR '':''" by (auto simp: is_digit_def ascii_lower_char_def)
  then show ?thesis by (simp add: normalizeIp_def s(1) ascii_lower_def)
qed

lemma low_mask: "(NOT (2 ^ n - 1) :: 32 word) = push_bit n (- 1)"
  by (simp only: push_bit_minus_one_eq_not_mask mask_eq_exp_minus_1)

lemma unat_v4_number:
  assumes "a < 256" "b < 256" "c < 256" "d < 256"
  shows "unat (of_nat (v4_number a b c d) :: 32 word) = v4_number a b c d"
proof -
  have "v4_number a b c d < 2 ^ 32" using assms by simp
  then show ?thesis by (simp only: unat_of_nat) simp
qed

lemma split_range: "split_on (CHR ''/'') (dotted e f g h @ ''/'' @ nat_text k) = [dotted e f g h, nat_text k]"
  using slash_dotted by (simp add: split_on_once split_on_none)

lemma ipMatches_dotted:
  assumes "ip_toInt (dotted a b c d) = Some x" "ip_toInt (dotted e f g h) = Some y" "k \<le> 32"
  shows "ipMatches (dotted a b c d) (dotted e f g h @ ''/'' @ nat_text k) \<longleftrightarrow>
    k = 0 \<or> (x AND push_bit (32 - k) (- 1)) = (y AND push_bit (32 - k) (- 1))"
proof -
  have "CHR ''/'' \<in> set (dotted e f g h @ ''/'' @ nat_text k)" by simp
  then have "ipMatches (dotted a b c d) (dotted e f g h @ ''/'' @ nat_text k) \<longleftrightarrow>
    (let bits = (of_nat k :: rat) in
     \<not> (of_int \<lfloor>bits\<rfloor> \<noteq> bits \<or> bits < 0 \<or> 32 < bits) \<and>
     (bits = 0 \<or> (x AND push_bit (32 - nat \<lfloor>bits\<rfloor>) (- 1)) = (y AND push_bit (32 - nat \<lfloor>bits\<rfloor>) (- 1))))"
    unfolding ipMatches_def Let_def trim_dotted split_range normalize_dotted nth_Cons_0 nth_Cons_Suc One_nat_def
      number_of_nat_text option.case assms(1,2) prod.case by auto
  moreover have "\<exists>n. rat_of_nat k = rat_of_int n" by (metis of_int_of_nat_eq)
  ultimately show ?thesis using assms(3) by (simp add: Let_def)
qed

text \<open>An entry with a prefix is accepted when a key is made, and it matches, for keys and for proxies alike, exactly the
  addresses that agree with it on the leading bits.\<close>

lemma allow_list_prefix:
  assumes "a < 256" "b < 256" "c < 256" "d < 256" "e < 256" "f < 256" "g < 256" "h < 256" "k \<le> 32"
  shows "isIpOrCidr (dotted e f g h @ ''/'' @ nat_text k)"
    and "ipInCidr (dotted a b c d) (dotted e f g h @ ''/'' @ nat_text k) \<longleftrightarrow>
      v4_number a b c d div 2 ^ (32 - k) = v4_number e f g h div 2 ^ (32 - k)"
    and "ipMatches (dotted a b c d) (dotted e f g h @ ''/'' @ nat_text k) \<longleftrightarrow>
      v4_number a b c d div 2 ^ (32 - k) = v4_number e f g h div 2 ^ (32 - k)"
proof -
  let ?r = "dotted e f g h @ ''/'' @ nat_text k"
  have "CHR ''/'' \<notin> set (dotted e f g h)" by (rule slash_dotted)
  then have "takeWhile (\<lambda>c. c \<noteq> CHR ''/'') ?r = dotted e f g h" "dropWhile (\<lambda>c. c \<noteq> CHR ''/'') ?r = CHR ''/'' # nat_text k"
    by (auto simp: takeWhile_append dropWhile_append)
  moreover have "length (nat_text k) \<le> 2"
    using assms(9) nat_text.simps [of k] nat_text.simps [of "k div 10"] by (cases "k < 10") auto
  ultimately show "isIpOrCidr ?r"
    using assms isIPv4_dotted nat_text_digits [of k] by (simp add: isIpOrCidr_def Let_def nat_of_digits_text)
  have n: "nat (32 - int k) = 32 - k" using assms(9) by linarith
  show "ipInCidr (dotted a b c d) ?r \<longleftrightarrow> v4_number a b c d div 2 ^ (32 - k) = v4_number e f g h div 2 ^ (32 - k)"
    using assms
    by (simp only: ipInCidr_def Let_def split_range parseInt_nat_text ipToNumber_dotted low_mask n and_high_bits unat_v4_number nth_Cons_0
        nth_Cons_Suc One_nat_def option.case) simp
  have "v4_number a b c d < 2 ^ 32" "v4_number e f g h < 2 ^ 32" using assms by simp_all
  then have z: "v4_number a b c d div 2 ^ 32 = v4_number e f g h div 2 ^ 32" by (simp only: div_less)
  have m: "(of_nat (v4_number a b c d) AND push_bit (32 - k) (- 1 :: 32 word)) = (of_nat (v4_number e f g h) AND push_bit (32 - k) (- 1)) \<longleftrightarrow>
      v4_number a b c d div 2 ^ (32 - k) = v4_number e f g h div 2 ^ (32 - k)"
    using assms by (simp only: and_high_bits unat_v4_number)
  have "ip_toInt (dotted a b c d) = Some (of_nat (v4_number a b c d))" "ip_toInt (dotted e f g h) = Some (of_nat (v4_number e f g h))"
    using assms ip_toInt_dotted by auto
  then have "ipMatches (dotted a b c d) ?r \<longleftrightarrow> k = 0 \<or>
      (of_nat (v4_number a b c d) AND push_bit (32 - k) (- 1 :: 32 word)) = (of_nat (v4_number e f g h) AND push_bit (32 - k) (- 1))"
    using assms(9) by (rule ipMatches_dotted)
  then show "ipMatches (dotted a b c d) ?r \<longleftrightarrow> v4_number a b c d div 2 ^ (32 - k) = v4_number e f g h div 2 ^ (32 - k)"
    using z m by (cases "k = 0") (simp_all only: simp_thms diff_zero)
qed

section \<open>Revocation\<close>

text \<open>One request to the keys other than the deletion of key \<open>i\<close>, or a restart, which forgets what is in memory only.\<close>

inductive key_step :: "key_env \<Rightarrow> string \<Rightarrow> key_state \<Rightarrow> key_state \<Rightarrow> bool" for E i where
  step_create: "key_step E i s (snd (createApiKey E now d s))"
| step_update: "key_step E i s (snd (key_update j d s))"
| step_delete: "j \<noteq> i \<Longrightarrow> key_step E i s (snd (key_delete j s))"
| step_revoke: "key_step E i s (snd (key_revoke j s))"
| step_guard: "key_step E i s (snd (canActivate E id tp now rt req s))"
| step_board: "key_step E i s (snd (bull_board_use E id tp now req s))"
| step_validate: "key_step E i s (snd (validate_handler E id now key s))"
| step_restart: "key_step E i s (snd (key_onModuleInit E now (s\<lparr>ks_pending := \<lambda>_. None\<rparr>)))"

text \<open>The row \<open>i\<close> is there, and it and every row with the digest \<open>h\<close> has that digest and is not active.\<close>

definition kept_revoked :: "string \<Rightarrow> string \<Rightarrow> key_state \<Rightarrow> bool" where
  "kept_revoked i h s \<longleftrightarrow> i \<in> ak_id ` set (ks_keys s) \<and>
     (\<forall>k \<in> set (ks_keys s). ak_id k = i \<or> ak_keyHash k = h \<longrightarrow> ak_keyHash k = h \<and> \<not> ak_isActive k)"

lemma as_stored_simps [simp]:
  "ak_keyHash (as_stored k) = ak_keyHash k" "ak_isActive (as_stored k) = ak_isActive k" "ak_id (as_stored k) = ak_id k"
  "ak_usageCount (as_stored k) = ak_usageCount k"
  by (simp_all add: as_stored_def)

lemma save_key_simps [simp]: "ks_seq (save_key k s) = ks_seq s" "ks_pending (save_key k s) = ks_pending s"
  by (simp_all add: save_key_def)

lemma saved_ids: "ak_id k \<in> ak_id ` set (ks_keys s) \<Longrightarrow> ak_id ` set (ks_keys (save_key k s)) = ak_id ` set (ks_keys s)"
proof -
  assume k: "ak_id k \<in> ak_id ` set (ks_keys s)"
  have "ak_id (if ak_id x = ak_id k then as_stored k else x) = ak_id x" for x by simp
  then have "ak_id ` set (map (\<lambda>x. if ak_id x = ak_id k then as_stored k else x) (ks_keys s)) = ak_id ` set (ks_keys s)"
    by (simp only: set_map image_image)
  moreover have "\<exists>x \<in> set (ks_keys s). ak_id x = ak_id k" using k by fastforce
  ultimately show ?thesis by (simp add: save_key_def)
qed

lemma saved_rows: "y \<in> set (ks_keys (save_key k s)) \<Longrightarrow> y = as_stored k \<or> y \<in> set (ks_keys s) \<and> ak_id y \<noteq> ak_id k"
  by (auto simp: save_key_def split: if_splits)

text \<open>A row that is saved was read from the table, and saving it does not make it active.\<close>

lemma kept_revoked_save:
  assumes "kept_revoked i h s" "x \<in> set (ks_keys s)" "ak_id k = ak_id x" "ak_keyHash k = ak_keyHash x"
    and "ak_isActive k \<longrightarrow> ak_isActive x"
  shows "kept_revoked i h (save_key k s)"
proof -
  have "ak_id k \<in> ak_id ` set (ks_keys s)" using assms(2,3) by simp
  from saved_ids [OF this] show ?thesis using assms by (auto simp: kept_revoked_def dest!: saved_rows)
qed

lemma kept_revoked_pending [simp]:
  "kept_revoked i h (s\<lparr>ks_pending := p\<rparr>) = kept_revoked i h s" "kept_revoked i h (s\<lparr>ks_seq := n\<rparr>) = kept_revoked i h s"
  "kept_revoked i h (drop_pending j s) = kept_revoked i h s"
  by (simp_all add: kept_revoked_def drop_pending_def)

lemma drop_pending_keys [simp]: "ks_keys (drop_pending j s) = ks_keys s"
  by (simp add: drop_pending_def)

lemma key_findOne_Inr: "key_findOne i s = Inr k \<Longrightarrow> k \<in> set (ks_keys s) \<and> ak_id k = i"
  by (auto simp: key_findOne_def dest!: find_SomeD split: option.splits)

lemma kept_revoked_validate:
  assumes "kept_revoked i h s" "validateApiKey E id now raw ip sess s = (r, s')"
  shows "kept_revoked i h s'"
proof (cases r)
  case (Inl e)
  then show ?thesis using assms validateApiKey_Inl [of E id now raw ip sess s e s'] by simp
next
  case (Inr k)
  with assms(2) obtain row where row: "row \<in> set (ks_keys s)" "count_use now row s = (k, s')"
    using validateApiKey_Inr [of E id] by fastforce
  then show ?thesis
    using count_use_state [OF row(2)] assms(1) by (auto intro!: kept_revoked_save [where x = row])
qed

lemma kept_revoked_guard:
  assumes "kept_revoked i h s"
  shows "kept_revoked i h (snd (canActivate E id tp now rt req s))"
    and "kept_revoked i h (snd (bull_board_use E id tp now req s))"
    and "kept_revoked i h (snd (validate_handler E id now key s))"
  using assms kept_revoked_validate [OF assms]
  by (auto simp: canActivate_def bull_board_use_def validate_handler_def split: option.splits prod.splits sum.splits)

lemma kept_revoked_step:
  assumes "key_step E i s s'" "kept_revoked i h s"
  shows "kept_revoked i h s'"
  using assms
proof cases
  case (step_create now d)
  then show ?thesis using assms(2) by (auto simp: createApiKey_def kept_revoked_def Let_def image_iff)
next
  case (step_update j d)
  have "ak_keyHash (merge_key d k) = ak_keyHash k \<and> ak_isActive (merge_key d k) = ak_isActive k \<and> ak_id (merge_key d k) = ak_id k" for k
    by (simp add: merge_key_def)
  then show ?thesis
    using step_update assms(2)
    by (auto simp: key_update_def intro: kept_revoked_save split: sum.splits dest!: key_findOne_Inr)
next
  case (step_delete j)
  then show ?thesis
    using assms(2) by (auto simp: key_delete_def kept_revoked_def split: sum.splits)
next
  case (step_revoke j)
  then show ?thesis
    using assms(2) by (auto simp: key_revoke_def Let_def intro!: kept_revoked_save split: sum.splits dest!: key_findOne_Inr)
next
  case (step_restart now)
  then show ?thesis using assms(2) by (auto simp: key_onModuleInit_def kept_revoked_def)
qed (use kept_revoked_guard [OF assms(2)] in auto)

lemma kept_revoked_run:
  assumes "(key_step E i)\<^sup>*\<^sup>* s s'" "kept_revoked i h s"
  shows "kept_revoked i h s'"
  using assms by (induction rule: rtranclp_induct) (auto intro: kept_revoked_step)

lemma kept_revoked_refused:
  assumes "kept_revoked i (hashApiKey E raw) s"
  shows "\<exists>m. validateApiKey E between now raw ip sess s = (Inl (Unauthorized m), between s)"
proof (cases "List.find (\<lambda>k. ak_keyHash k = hashApiKey E raw) (ks_keys s)")
  case (Some k)
  then have "\<not> ak_isActive k" using assms by (auto simp: kept_revoked_def dest!: find_SomeD)
  then show ?thesis using Some by (simp add: validateApiKey_def check_key_def)
qed (simp add: validateApiKey_def check_key_def)

lemma revoked_kept:
  assumes "key_revoke i s = (Inr k, s1)" "distinct (map ak_id (ks_keys s))" "distinct (map ak_keyHash (ks_keys s))"
  shows "kept_revoked i (ak_keyHash k) s1"
proof -
  obtain r where r: "key_findOne i s = Inr r" "k = r\<lparr>ak_isActive := False\<rparr>" "s1 = save_key k (drop_pending i s)"
    using assms(1) by (auto simp: key_revoke_def Let_def split: sum.splits)
  then have m: "r \<in> set (ks_keys s)" "ak_id r = i" using key_findOne_Inr by auto
  have one: "x = r" if "x \<in> set (ks_keys s)" "ak_keyHash x = ak_keyHash r \<or> ak_id x = i" for x
    using assms(2,3) that m by (auto simp: distinct_map inj_on_def)
  have "i \<in> ak_id ` set (ks_keys s)" using m by blast
  then have "i \<in> ak_id ` set (ks_keys s1)" using saved_ids [of k "drop_pending i s"] r m by simp
  moreover have "ak_keyHash x = ak_keyHash k \<and> \<not> ak_isActive x"
    if "x \<in> set (ks_keys s1)" "ak_id x = i \<or> ak_keyHash x = ak_keyHash k" for x
  proof -
    have "x = as_stored k \<or> x \<in> set (ks_keys s) \<and> ak_id x \<noteq> i" using saved_rows that(1) r m by fastforce
    then show ?thesis using one [of x] that(2) r(2) m(2) by auto
  qed
  ultimately show ?thesis unfolding kept_revoked_def by blast
qed

text \<open>C34. A revoked key stays out as long as its row is not deleted: whatever requests follow, handled one after the other
  (keys created, updated, revoked again and deleted, requests checked), and whatever restarts, every request that presents
  the key is answered 401 and counts nothing.\<close>

theorem revoked_stays_out:
  assumes "key_revoke i s = (Inr k, s1)" and "distinct (map ak_id (ks_keys s))" and "distinct (map ak_keyHash (ks_keys s))"
    and "(key_step E i)\<^sup>*\<^sup>* s1 s2" and "hashApiKey E raw = ak_keyHash k"
  shows "\<exists>m. validateApiKey E between now raw ip sess s2 = (Inl (Unauthorized m), between s2)"
  using kept_revoked_refused [of i E raw s2 between now ip sess] kept_revoked_run [OF assms(4) revoked_kept [OF assms(1-3)]] assms(5)
  by simp

lemma sample_revoke:
  "\<exists>s1. key_revoke ''u'' sample_key_state = (Inr (sample_key\<lparr>ak_isActive := False\<rparr>), s1)"
  by (simp add: key_revoke_def key_findOne_def sample_key_state_def sample_key_def Let_def)

theorem revoked_stays_out_witness:
  "\<exists>s1 m. key_revoke ''u'' sample_key_state = (Inr (sample_key\<lparr>ak_isActive := False\<rparr>), s1) \<and>
     fst (validateApiKey sample_keys id 6 ''k'' (Some ''10.0.0.1'') None
       (snd (key_update ''u'' \<lparr>kd_name = None, kd_role = Some Role_admin, kd_allowedIps = None, kd_allowedSessions = None,
          kd_expiresAt = Some None\<rparr> s1))) = Inl (Unauthorized m)"
proof -
  let ?d = "\<lparr>kd_name = None, kd_role = Some Role_admin, kd_allowedIps = None, kd_allowedSessions = None, kd_expiresAt = Some None\<rparr>"
  obtain s1 where r: "key_revoke ''u'' sample_key_state = (Inr (sample_key\<lparr>ak_isActive := False\<rparr>), s1)"
    using sample_revoke by blast
  have d: "distinct (map ak_id (ks_keys sample_key_state))" "distinct (map ak_keyHash (ks_keys sample_key_state))"
    by (simp_all add: sample_key_state_def)
  have s: "(key_step sample_keys ''u'')\<^sup>*\<^sup>* s1 (snd (key_update ''u'' ?d s1))"
    using step_update by (rule r_into_rtranclp)
  have h: "hashApiKey sample_keys ''k'' = ak_keyHash (sample_key\<lparr>ak_isActive := False\<rparr>)"
    by (simp add: sample_key_def hashApiKey_def or_str_def sample_keys_def)
  obtain m where "validateApiKey sample_keys id 6 ''k'' (Some ''10.0.0.1'') None (snd (key_update ''u'' ?d s1)) =
      (Inl (Unauthorized m), id (snd (key_update ''u'' ?d s1)))"
    using revoked_stays_out [OF r d s h] by blast
  then have "fst (validateApiKey sample_keys id 6 ''k'' (Some ''10.0.0.1'') None (snd (key_update ''u'' ?d s1))) = Inl (Unauthorized m)"
    by (simp only: fst_conv)
  with r show ?thesis by blast
qed

text \<open>
  That the requests do not overlap is needed: a request that has read the row before it is revoked and writes its count after
  that makes the key active again, and one that overlaps with a deletion inserts the key again.
\<close>

lemma revocation_undone:
  "map ak_isActive (ks_keys (snd (key_revoke ''u'' sample_key_state))) = [False] \<and>
   map ak_isActive (ks_keys (snd (validateApiKey sample_keys (\<lambda>s. snd (key_revoke ''u'' s)) 5 ''k'' (Some ''10.0.0.1'') None
     sample_key_state))) = [True]"
  by code_simp

lemma deletion_undone:
  "ks_keys (snd (key_delete ''u'' sample_key_state)) = [] \<and>
   map ak_keyHash (ks_keys (snd (validateApiKey sample_keys (\<lambda>s. snd (key_delete ''u'' s)) 5 ''k'' (Some ''10.0.0.1'') None
     sample_key_state))) = [''hk'']"
  by code_simp

section \<open>Uses\<close>

definition total_uses :: "string \<Rightarrow> key_state \<Rightarrow> nat" where
  "total_uses i s =
     (case List.find (\<lambda>k. ak_id k = i) (ks_keys s) of
        Some k \<Rightarrow> ak_usageCount k + coalesce (ks_pending s i) 0
      | None \<Rightarrow> 0)"

lemma find_saved:
  assumes "ak_id k \<in> ak_id ` set ks"
  shows "List.find (\<lambda>x. ak_id x = i) (map (\<lambda>x. if ak_id x = ak_id k then as_stored k else x) ks) =
     (if i = ak_id k then Some (as_stored k) else List.find (\<lambda>x. ak_id x = i) ks)"
proof (cases "i = ak_id k")
  case True
  with assms show ?thesis by (induction ks) auto
next
  case False
  then have "List.find (\<lambda>x. ak_id x = i) (map (\<lambda>x. if ak_id x = ak_id k then as_stored k else x) ks) = List.find (\<lambda>x. ak_id x = i) ks"
    by (induction ks) auto
  with False show ?thesis by simp
qed

lemma find_own_id: "distinct (map ak_id ks) \<Longrightarrow> k \<in> set ks \<Longrightarrow> List.find (\<lambda>x. ak_id x = ak_id k) ks = Some k"
  by (induction ks) auto

text \<open>An admitted request is counted once, for its key only, and the answer has the exact number, although the row is
  written at most once a minute.\<close>

lemma uses_counted:
  assumes "validateApiKey E id now raw ip sess s = (Inr k, s')" and "distinct (map ak_id (ks_keys s))"
  shows "total_uses i s' = total_uses i s + (if i = ak_id k then 1 else 0)" and "ak_usageCount k = total_uses (ak_id k) s'"
proof -
  obtain row where row: "row \<in> set (ks_keys s)" "count_use now row s = (k, s')"
    using validateApiKey_Inr [OF assms(1)] by auto
  have f: "List.find (\<lambda>x. ak_id x = ak_id row) (ks_keys s) = Some row" using find_own_id [OF assms(2) row(1)] .
  have k: "ak_id k = ak_id row" "ak_usageCount k = ak_usageCount row + (coalesce (ks_pending s (ak_id row)) 0 + 1)"
    using row(2) by (auto simp: count_use_def Let_def)
  have *: "total_uses i s' = (if i = ak_id row then ak_usageCount k else total_uses i s)" for i
  proof (cases "s' = save_key k (drop_pending (ak_id row) s)")
    case True
    moreover have "\<exists>x \<in> set (ks_keys s). ak_id x = ak_id row" "ak_id k \<in> ak_id ` set (ks_keys s)" using row(1) k(1) by auto
    ultimately show ?thesis
      using find_saved [of k "ks_keys s" i] k(1)
      by (simp add: total_uses_def save_key_def drop_pending_def split: option.splits)
  next
    case False
    then have "s' = s\<lparr>ks_pending := (ks_pending s)(ak_id row \<mapsto> coalesce (ks_pending s (ak_id row)) 0 + 1)\<rparr>"
      using row(2) by (auto simp: count_use_def Let_def split: if_splits)
    then show ?thesis using f k by (auto simp: total_uses_def split: option.splits)
  qed
  show "total_uses i s' = total_uses i s + (if i = ak_id k then 1 else 0)"
    using * [of i] f k by (auto simp: total_uses_def)
  show "ak_usageCount k = total_uses (ak_id k) s'" using * [of "ak_id k"] k(1) by simp
qed

section \<open>What the checks leave open\<close>

text \<open>The handler that validates a key passes no address: a key with an allow list is never valid for it, although the
  guard has admitted the request.\<close>

lemma restricted_key_invalid:
  assumes "List.find (\<lambda>k. ak_keyHash k = hashApiKey E raw) (ks_keys s) = Some k"
    and "ak_allowedIps k = Some ips" "ips \<noteq> []"
  shows "fst (validate_handler E id now (Some raw) s) = None"
  using assms by (auto simp: validate_handler_def validateApiKey_def check_key_def Let_def or_str_def split: option.splits sum.splits)

text \<open>The list columns are texts with commas: a scope of one empty name is stored as no scope.\<close>

lemma empty_scope_is_unrestricted: "ak_allowedSessions (as_stored (k\<lparr>ak_allowedSessions := Some [[]]\<rparr>)) = Some []"
  by (simp add: as_stored_def simple_array_def)

text \<open>An address that is no IPv4 address counts as \<open>0.0.0.0\<close> for a prefix.\<close>

lemma ipv6_matches_zero: "isIpOrCidr ''0.0.0.0/8'' \<and> isIpAllowed ''2001:db8::1'' [''0.0.0.0/8'']"
  by code_simp

end
