(* ===== verification/Spec2Isabelle.thy ===== *)
theory Spec2Isabelle
  imports Agent_Bridge Catalog_Tools Order_Intake Products Webhook_Effects Delivery Auth_Reach Shopify_Stores Webhook_Delivery Back_Office Api_Access
begin

text \<open>
  Verification of ecomAssistant, an assistant that takes orders over WhatsApp for merchants.

  THE PROGRAM.  Four parts run beside each other.  The back end (\<open>back/src\<close>, Express with Prisma, Redis and BullMQ) holds
  the merchants' data and serves the dashboard (\<open>front\<close>).  The WhatsApp gateway (\<open>OpenWA/src\<close>, NestJS) keeps the linked
  phones and reports every message to the back end by a webhook.  The agent (\<open>ecom_agent\<close>, Python) writes the answers and
  calls the back end's tools over gRPC.  \<open>shared\<close> and \<open>contracts\<close> hold what several parts use.  A message takes this way: the
  gateway posts it (\<open>webhook.service.ts\<close>), the back end stores it once and queues a job (\<open>whatsapp.controller.ts\<close>), the job
  asks the agent (\<open>agentBridgeCore.ts\<close>), the agent calls tools (\<open>tool.server.ts\<close>, \<open>registry.ts\<close>), of which \<open>createOrder\<close>
  must not be executed twice (\<open>createOrderOnce.ts\<close>), and the answer is stored and then sent (\<open>reply.service.ts\<close>) unless a
  human has taken the conversation over.  Around it stand the accounts of the merchants, the listings of the dashboard,
  the carriers and the Shopify stores.

  STATE.  The back end's state is the record \<open>world\<close> of \<open>Store\<close>: one field per table of \<open>back/prisma/schema.prisma\<close>, a list
  of rows in order of insertion; the Redis entries with the time they expire; the queues as lists of jobs; the files on
  disk; the log of requests made to the gateway; and how many identifiers have been drawn.  Operations are functions on
  \<open>world\<close> that return \<open>exn + 'a\<close>, the left side being what the code throws (the Prisma codes \<open>P2002\<close>, \<open>P2003\<close>, \<open>P2025\<close>, an
  error, an error with a status), or a \<open>reply\<close> with its HTTP status.  A failing operation keeps the writes made before
  it failed, except within a transaction.  \<open>schema_ok\<close> and \<open>world_ok\<close> are the constraints of the schema (unique
  columns, foreign keys).  What the code calls but the repository does not hold is an argument, in the records \<open>env\<close>
  (database collation and text search, clock, identifiers, gateway, language models, HMAC, dates), \<open>auth_env\<close> (bcrypt,
  jsonwebtoken, random bytes), \<open>ssrf_env\<close> (resolver, URL parser, fetch) and \<open>gw_env\<close> (hash, HMAC, JSON writer).  The gateway
  has the states \<open>gw_state\<close> (webhooks, queue, requests sent), \<open>key_state\<close>, \<open>hook_manager\<close> and \<open>lid_store\<close>.

  THEORIES, and the files they model.  Of \<open>back/src\<close>:
  \<^item> \<open>Prelude\<close>, \<open>Json\<close>, \<open>Decimal\<close>: strings as UTF-8 bytes, \<open>trim\<close>, \<open>??\<close>, \<open>JSON.parse\<close> and \<open>JSON.stringify\<close>, numerals.
  \<^item> \<open>Store\<close>: tables, queries, rows that are created.  \<open>Redis\<close>: the commands used.  \<open>Sample\<close>: a concrete state for witnesses.
  \<^item> \<open>Tool_Schemas\<close> (\<open>intents.schemas.ts\<close>, \<open>contracts/src/tools.ts\<close>, \<open>conversationState.ts\<close>), \<open>Search_Helpers\<close>
    (\<open>searchHelpers.ts\<close>, \<open>suggestionHelpers.ts\<close>), \<open>Create_Once\<close> (\<open>createOrderOnce.ts\<close>), \<open>Tools\<close> (\<open>registry.ts\<close>, with
    \<open>executeTool\<close>), \<open>Tool_Context\<close> (\<open>toolContext.ts\<close>), \<open>Tool_Server\<close> (\<open>grpc/tool.server.ts\<close>); their effects are in
    \<open>Order_Tools\<close>, \<open>Tool_Scope\<close> and \<open>Catalog_Tools\<close>.
  \<^item> \<open>Openwa\<close> (\<open>whatsapp.service.ts\<close>), \<open>Reply\<close> (\<open>reply.service.ts\<close>), \<open>Agent_Bridge\<close> (\<open>agentBridgeCore.ts\<close>,
    \<open>agent.bridge.ts\<close>), \<open>Media\<close>, \<open>Merchant_Message\<close>, \<open>Conversations\<close>, and \<open>whatsapp.controller.ts\<close> in \<open>Webhook\<close>,
    \<open>Sessions\<close> and \<open>Order_Notify\<close>, with \<open>Webhook_Effects\<close>.
  \<^item> \<open>Pagination\<close>, \<open>Orders\<close>, \<open>Order_Intake\<close>, \<open>Products\<close>, \<open>Customers\<close> (with the escalations), \<open>Back_Office\<close> (agent
    configuration, billing, test messages): the modules of the same names.
  \<^item> \<open>Auth\<close> (\<open>modules/auth\<close>, \<open>lib/jwt.ts\<close>, \<open>lib/otp.ts\<close>, \<open>passport.ts\<close>, the middlewares), \<open>Auth_Sessions\<close>, \<open>Auth_Reach\<close>.
  \<^item> \<open>Wilayas\<close> (\<open>shared/src/utils\<close>), \<open>Delivery_Providers\<close>, \<open>Delivery\<close> (\<open>modules/delivery\<close>).
  \<^item> \<open>Shopify_Connection\<close> (\<open>lib/crypto.ts\<close>, \<open>connections/\<close>), \<open>Shopify\<close> (\<open>modules/storeConnections\<close>), with \<open>Shopify_Orders\<close>
    and \<open>Shopify_Stores\<close>.

  Of \<open>OpenWA/src\<close>: \<open>Ssrf\<close> (\<open>common/security/ssrf-guard.ts\<close>), \<open>Wa_Id\<close> (\<open>engine/identity\<close>), \<open>Hook_Manager\<close> (\<open>core/hooks\<close>),
  \<open>Webhook_Filters\<close> (\<open>modules/webhook/filters\<close>), \<open>Api_Keys\<close> and \<open>Api_Access\<close> (\<open>modules/auth\<close>,
  \<open>common/utils/ip.ts\<close>), \<open>Openwa_Webhooks\<close> (\<open>modules/webhook\<close>, the worker of \<open>modules/queue\<close>) and
  \<open>Webhook_Delivery\<close>, where the gateway's requests meet the back end's handler.

  WHAT THE LEMMAS SHOW.
  \<^item> Orders by conversation: one order per idempotency key, also for two calls at once, whose interleaving is that the
    second finds the first's row only when it inserts; what each order tool changes; that a tool call stays within the
    caller's merchant, customer and conversation; that an unauthenticated or mismatched call changes nothing.
  \<^item> Messages: a redelivered webhook changes nothing; a job ends with one reply or with a human, and its attempts together
    give at most one reply; what is stored is complete whatever the gateway does; a filter by sender matches every
    spelling; a dispatch reaches its subscribers only, one group of requests, or one job, for each.
  \<^item> Listings: following the cursors page by page gives the listing.
  \<^item> Accounts: the stored refresh tokens refine a set of open sessions (the abstraction \<open>sessions\<close> of \<open>Auth_Sessions\<close>); every
    reachable state of the transition system \<open>auth_step\<close> keeps their owners; signing out everywhere closes all of them.
  \<^item> Deliveries and stores: what a parcel states, whom a carrier's webhook can touch, the state token and the access token
    of a shop, that storing an order again adds nothing, that the callback and the synchronisations it starts keep to the
    rows of the merchant of the state token (\<open>connected_by\<close>, \<open>synced_after\<close>), and that a synchronisation ends.
  \<^item> The gateway's requests: which addresses are refused, as an equivalence with the reserved ranges, and that a guarded
    fetch connects to no refused address, but for a literal address that a redirect names.
  \<^item> The gateway's keys: what a request must show to be let through, that its address cannot be chosen by the client, and
    that a revoked key whose row is kept stays out of every sequence of requests; \<open>revocation_undone\<close> shows that an overlap
    can undo it.

  INTERFACES.  \<open>table\<close> (Store) is what the components use of a table and is interpreted for five of them; \<open>kv_store\<close> (Redis)
  the store of expiring entries; \<open>keyset\<close> (Pagination) pages by a descending key, interpreted for orders, products,
  customers and escalations; \<open>create_once\<close> the idempotency protocol, interpreted on the tool's transaction in
  \<open>Order_Tools\<close>; \<open>merchant_message\<close> and \<open>agent_bridge\<close> the two services that take their dependencies as arguments,
  interpreted on the dependencies the code passes; \<open>carrier\<close> a driver that makes one request per parcel, interpreted for
  the four carriers.

  LOOPS.  The JSON parser takes fuel twice the length of the text; \<open>json_fuel_enough\<close> shows that more gives the same
  result.  \<open>trim\<close> takes the length as fuel and \<open>trim_fuel_done\<close> shows that nothing is left to strip.  The synchronisation
  of a shop follows links the shop sends, so \<open>sync_pages\<close> is a \<open>partial_function (option)\<close> and \<open>sync_terminates\<close>
  says when it returns.  The retries of a webhook (\<open>deliverWebhook\<close>, \<open>run_job\<close>), \<open>replace_from\<close> and \<open>collapse_ws\<close> are
  functions with a measure.  IPv4 addresses are 32-bit words; integer columns are checked to fit 32 bits
  (\<open>int4_ok\<close>); amounts are rationals.

  SIMPLIFICATIONS.  A handler reads the clock once.  The database and Redis do not fail on their own: the errors modelled
  are constraint violations and missing rows.  Requests run one after the other but for \<open>createOrder_race\<close>, the human
  who takes over during the agent's run, and what happens during the validation of an API key; the two synchronisations
  that one call starts run one after the other.  A row has the columns that modelled code reads.  Events of the process,
  timers, delays, log lines and the retention of the queues are left out, and so are the attempts of jobs other than those
  of the message queue (\<open>attempts\<close> in \<open>Agent_Bridge\<close>) and of the gateway's webhooks (\<open>run_job\<close>), and the messages of zod,
  which is a parameter that says whether a value is refused.

  NOT MODELLED.  The dashboard and the landing page (views); the agent in Python, which is an arbitrary function here; the
  engines, sessions, plugins, storage, administration and other modules of the gateway, which drive third-party
  libraries, containers and files; its generated clients; the e-mail worker (HTML); routes, configuration and rate
  limits; seeds and scripts.  PROJECT.json lists them with their paths.
\<close>

end
